(* ===== verification/Prelude.thy ===== *)
theory Prelude
  imports Main "HOL-Library.Char_ord" "HOL-Library.List_Lexorder"
begin

text \<open>
  The shared layer of the development: results of fallible code (\<open>'e + 'a\<close> with \<open>Inl\<close> for the
  raised error), the Python string operations the components use, untyped documents as the YAML
  and JSON parsers return them, and the depth-first search that the flow loader, the flow
  validator and the loop control all run over a flow graph.  A Python string is a list of
  characters; a character stands for a code point below 256.
\<close>

named_theorems res_iff "characterisations of successful results"

section \<open>Fallible code\<close>

text \<open>A Python function that raises returns \<open>Inl\<close> of the exception.\<close>

definition bind_res :: "'e + 'a \<Rightarrow> ('a \<Rightarrow> 'e + 'b) \<Rightarrow> 'e + 'b" where
  "bind_res r f = (case r of Inl e \<Rightarrow> Inl e | Inr x \<Rightarrow> f x)"

definition require :: "bool \<Rightarrow> 'e \<Rightarrow> 'e + unit" where
  "require b e = (if b then Inr () else Inl e)"

fun map_res :: "('a \<Rightarrow> 'e + 'b) \<Rightarrow> 'a list \<Rightarrow> 'e + 'b list" where
  "map_res f [] = Inr []"
| "map_res f (x # xs) = bind_res (f x) (\<lambda>y. bind_res (map_res f xs) (\<lambda>ys. Inr (y # ys)))"

lemma bind_res_simps [simp]:
  "bind_res (Inl e) f = Inl e"
  "bind_res (Inr x) f = f x"
  by (simp_all add: bind_res_def)

lemma bind_res_Inr [res_iff]: "bind_res r f = Inr y \<longleftrightarrow> (\<exists>x. r = Inr x \<and> f x = Inr y)"
  by (cases r) simp_all

lemma bind_res_Inl: "bind_res r f = Inl e \<longleftrightarrow> r = Inl e \<or> (\<exists>x. r = Inr x \<and> f x = Inl e)"
  by (cases r) simp_all

lemma require_Inr [res_iff]: "require b e = Inr u \<longleftrightarrow> b"
  by (simp add: require_def)

lemma require_Inl: "require b e = Inl e' \<longleftrightarrow> \<not> b \<and> e' = e"
  by (auto simp: require_def)

lemma require_simps [simp]: "require True e = Inr ()" "require False e = Inl e"
  by (simp_all add: require_def)

lemma map_res_Inr: "map_res f xs = Inr ys \<longleftrightarrow> list_all2 (\<lambda>x y. f x = Inr y) xs ys"
  by (induction xs arbitrary: ys) (auto simp: bind_res_Inr list_all2_Cons1)

lemma map_res_Inr_set:
  assumes "map_res f xs = Inr ys" and "y \<in> set ys"
  shows "\<exists>x\<in>set xs. f x = Inr y"
proof -
  from assms(1) have "list_all2 (\<lambda>x y. f x = Inr y) xs ys" by (simp add: map_res_Inr)
  from this assms(2) show ?thesis by (induction rule: list_all2_induct) auto
qed

lemma map_res_Inr_length: "map_res f xs = Inr ys \<Longrightarrow> length ys = length xs"
  by (auto simp: map_res_Inr dest: list_all2_lengthD)

section \<open>Python strings\<close>

text \<open>\<open>str.split(sep)\<close> with a one-character separator: it never returns the empty list.\<close>

fun split_on :: "char \<Rightarrow> string \<Rightarrow> string list" where
  "split_on c [] = [[]]"
| "split_on c (x # xs) =
     (if x = c then [] # split_on c xs
      else (case split_on c xs of [] \<Rightarrow> [[x]] | y # ys \<Rightarrow> (x # y) # ys))"

lemma split_on_not_Nil [simp]: "split_on c xs \<noteq> []"
  by (induction xs) (auto split: list.splits)

lemma split_on_no_sep: "s \<in> set (split_on c xs) \<Longrightarrow> c \<notin> set s"
proof (induction xs arbitrary: s)
  case Nil
  then show ?case by simp
next
  case (Cons x xs)
  obtain y ys where y: "split_on c xs = y # ys" by (cases "split_on c xs") auto
  with Cons show ?case by (auto split: if_splits)
qed

lemma split_on_single: "c \<notin> set xs \<Longrightarrow> split_on c xs = [xs]"
  by (induction xs) auto

text \<open>\<open>sep.join(parts)\<close> with a one-character separator.\<close>

fun join_with :: "char \<Rightarrow> string list \<Rightarrow> string" where
  "join_with c [] = []"
| "join_with c [x] = x"
| "join_with c (x # y # ys) = x @ c # join_with c (y # ys)"

lemma join_with_Cons: "ys \<noteq> [] \<Longrightarrow> join_with c (x # ys) = x @ c # join_with c ys"
  by (cases ys) simp_all

lemma split_on_append:
  "c \<notin> set u \<Longrightarrow> split_on c (u @ c # v) = u # split_on c v"
  by (induction u) auto

lemma split_join_with:
  assumes "segs \<noteq> []" and "\<forall>s\<in>set segs. c \<notin> set s"
  shows "split_on c (join_with c segs) = segs"
  using assms
  by (induction c segs rule: join_with.induct) (auto simp: split_on_single split_on_append)

lemma join_split_on: "join_with c (split_on c xs) = xs"
proof (induction xs)
  case Nil
  then show ?case by simp
next
  case (Cons x xs)
  obtain y ys where y: "split_on c xs = y # ys" by (cases "split_on c xs") auto
  with Cons show ?case by (cases ys) (auto simp: join_with_Cons)
qed

text \<open>\<open>str.isspace\<close> on code points below 256, and \<open>str.strip()\<close>.\<close>

definition py_space :: "char \<Rightarrow> bool" where
  "py_space c = (let n = (of_char c :: nat) in
     (9 \<le> n \<and> n \<le> 13) \<or> (28 \<le> n \<and> n \<le> 32) \<or> n = 133 \<or> n = 160)"

definition lstrip_on :: "(char \<Rightarrow> bool) \<Rightarrow> string \<Rightarrow> string" where
  "lstrip_on p s = dropWhile p s"

definition strip_on :: "(char \<Rightarrow> bool) \<Rightarrow> string \<Rightarrow> string" where
  "strip_on p s = rev (dropWhile p (rev (dropWhile p s)))"

definition py_strip :: "string \<Rightarrow> string" where
  "py_strip s = strip_on py_space s"

definition starts_with :: "string \<Rightarrow> string \<Rightarrow> bool" where
  "starts_with s p = (take (length p) s = p)"

definition ends_with :: "string \<Rightarrow> string \<Rightarrow> bool" where
  "ends_with s p = (drop (length s - length p) s = p)"

definition replace_char :: "char \<Rightarrow> char \<Rightarrow> string \<Rightarrow> string" where
  "replace_char a b s = map (\<lambda>c. if c = a then b else c) s"

text \<open>\<open>token in text\<close> on strings.\<close>

fun contains_sub :: "string \<Rightarrow> string \<Rightarrow> bool" where
  "contains_sub [] t = (t = [])"
| "contains_sub (c # cs) t = (starts_with (c # cs) t \<or> contains_sub cs t)"

lemma contains_sub_iff: "contains_sub s t \<longleftrightarrow> (\<exists>u v. s = u @ t @ v)"
proof (induction s)
  case Nil
  then show ?case by simp
next
  case (Cons c cs)
  have "starts_with (c # cs) t \<longleftrightarrow> (\<exists>v. c # cs = t @ v)"
    unfolding starts_with_def by (metis append_eq_conv_conj append_take_drop_id)
  with Cons show ?case
    by (auto simp: Cons_eq_append_conv)
qed

lemma starts_with_iff: "starts_with s p \<longleftrightarrow> (\<exists>r. s = p @ r)"
  unfolding starts_with_def by (metis append_eq_conv_conj append_take_drop_id)

lemma starts_with_append [simp]: "starts_with (p @ r) p"
  by (simp add: starts_with_def)

lemma starts_with_simps [simp]:
  "starts_with s []"
  "starts_with [] (c # p) = False"
  "starts_with (d # s) (c # p) = (d = c \<and> starts_with s p)"
  by (simp_all add: starts_with_def)

text \<open>Decimal notation of a number, as \<open>str(n)\<close> and f-strings write it.\<close>

fun show_nat :: "nat \<Rightarrow> string" where
  "show_nat n = (if n < 10 then [char_of (48 + n)] else show_nat (n div 10) @ [char_of (48 + n mod 10)])"

declare show_nat.simps [simp del]

definition show_int :: "int \<Rightarrow> string" where
  "show_int i = (if i < 0 then CHR ''-'' # show_nat (nat (- i)) else show_nat (nat i))"

text \<open>ASCII case mapping; every comparison the code makes after it is against an ASCII word.\<close>

definition char_upper :: "char \<Rightarrow> char" where
  "char_upper c = (let n = (of_char c :: nat) in if 97 \<le> n \<and> n \<le> 122 then char_of (n - 32) else c)"

definition char_lower :: "char \<Rightarrow> char" where
  "char_lower c = (let n = (of_char c :: nat) in if 65 \<le> n \<and> n \<le> 90 then char_of (n + 32) else c)"

definition py_upper :: "string \<Rightarrow> string" where
  "py_upper s = map char_upper s"

definition py_lower :: "string \<Rightarrow> string" where
  "py_lower s = map char_lower s"

section \<open>Documents\<close>

text \<open>
  A value as \<open>yaml.safe_load\<close> or \<open>json.loads\<close> returns it.  Mappings are association lists in
  insertion order with string keys; a float carries its \<open>repr\<close>, its integer part (none for an
  infinity or a NaN) and whether it is integral, which is all the code depends on.
\<close>

datatype yval =
    YNone
  | YBool bool
  | YInt int
  | YFloat string "int option" bool
  | YStr string
  | YList "yval list"
  | YMap "(string \<times> yval) list"

type_synonym ydict = "(string \<times> yval) list"

text \<open>\<open>bool(value)\<close> and \<open>d.get(key)\<close>.\<close>

fun truthy :: "yval \<Rightarrow> bool" where
  "truthy YNone = False"
| "truthy (YBool b) = b"
| "truthy (YInt n) = (n \<noteq> 0)"
| "truthy (YFloat repr n whole) = (n \<noteq> Some 0 \<or> \<not> whole)"
| "truthy (YStr s) = (s \<noteq> [])"
| "truthy (YList xs) = (xs \<noteq> [])"
| "truthy (YMap kvs) = (kvs \<noteq> [])"

definition get_or_none :: "ydict \<Rightarrow> string \<Rightarrow> yval" where
  "get_or_none d k = (case map_of d k of None \<Rightarrow> YNone | Some v \<Rightarrow> v)"

definition get_or :: "ydict \<Rightarrow> string \<Rightarrow> yval \<Rightarrow> yval" where
  "get_or d k v = (case map_of d k of None \<Rightarrow> v | Some w \<Rightarrow> w)"

section \<open>Machines\<close>

text \<open>
  A loop whose iterations consume one input each (what the environment answers during that
  iteration): \<open>None\<close> asks for another iteration, \<open>Some r\<close> ends the loop with \<open>r\<close>.
\<close>

fun run_machine :: "('i \<Rightarrow> 's \<Rightarrow> 's \<times> 'r option) \<Rightarrow> 'i list \<Rightarrow> 's \<Rightarrow> 's \<times> 'r option" where
  "run_machine step [] s = (s, None)"
| "run_machine step (i # is) s =
     (case step i s of
        (s', None) \<Rightarrow> run_machine step is s'
      | (s', Some r) \<Rightarrow> (s', Some r))"

text \<open>What holds of a loop whose body keeps an invariant and, while it continues, shrinks a measure.\<close>

locale bounded_machine =
  fixes step :: "'i \<Rightarrow> 's \<Rightarrow> 's \<times> 'r option"
    and inv :: "'s \<Rightarrow> bool"
    and meas :: "'s \<Rightarrow> nat"
  assumes step_inv: "inv s \<Longrightarrow> step i s = (s', None) \<Longrightarrow> inv s'"
    and step_meas: "inv s \<Longrightarrow> step i s = (s', None) \<Longrightarrow> meas s' < meas s"
begin

lemma halts:
  "inv s \<Longrightarrow> meas s < length is \<Longrightarrow> \<exists>s' r. run_machine step is s = (s', Some r)"
proof (induction "is" arbitrary: s)
  case Nil
  then show ?case by simp
next
  case (Cons i "is")
  obtain s' r where st: "step i s = (s', r)" by (cases "step i s")
  show ?case
  proof (cases r)
    case None
    with Cons.prems st have "inv s'" "meas s' < length is"
      using step_inv step_meas by fastforce+
    with Cons.IH st None show ?thesis by simp
  next
    case (Some x)
    with st show ?thesis by simp
  qed
qed

end

text \<open>A relation that every iteration keeps, the last one included, holds between start and end.\<close>

lemma run_machine_rel:
  assumes refl: "\<And>s. R s s"
    and step: "\<And>i s s' r t. R t s \<Longrightarrow> step i s = (s', r) \<Longrightarrow> R t s'"
    and run: "run_machine step is s = (s', r)"
  shows "R s s'"
proof -
  have "R t s \<Longrightarrow> run_machine step is s = (s', r) \<Longrightarrow> R t s'" for t
  proof (induction "is" arbitrary: s)
    case Nil
    then show ?case by simp
  next
    case (Cons i "is")
    obtain u x where u: "step i s = (u, x)" by (cases "step i s")
    with Cons.prems step have "R t u" by blast
    with Cons u show ?case by (cases x) auto
  qed
  with refl run show ?thesis by blast
qed

lemma run_machine_inv:
  assumes "\<And>i s s' r. P s \<Longrightarrow> step i s = (s', r) \<Longrightarrow> P s'"
    and "P s" and "run_machine step is s = (s', r)"
  shows "P s'"
  using assms(2,3)
proof (induction "is" arbitrary: s)
  case Nil
  then show ?case by simp
next
  case (Cons i "is")
  obtain u x where u: "step i s = (u, x)" by (cases "step i s")
  with Cons.prems assms(1) have "P u" by blast
  with Cons u show ?case by (cases x) auto
qed

section \<open>Comprehensions\<close>

text \<open>\<open>[y for x in xs if ...]\<close> with an optional result per element.\<close>

lemma in_map_filter: "y \<in> set (List.map_filter f xs) \<longleftrightarrow> (\<exists>x\<in>set xs. f x = Some y)"
  by (induction xs) (auto simp: List.map_filter_simps split: option.splits)

section \<open>Depth-first search\<close>

text \<open>
  The search loop \<open>while stack: x = stack.pop(); if x in seen: continue; seen.add(x);
  stack.extend(adj.get(x, []))\<close>.  The adjacency is an association list, the stack a list whose
  head is the top; \<open>extend\<close> pushes in order, so the last successor ends on top.
\<close>

definition succs :: "('k \<times> 'v list) list \<Rightarrow> 'k \<Rightarrow> 'v list" where
  "succs adj x = (case map_of adj x of None \<Rightarrow> [] | Some ys \<Rightarrow> ys)"

definition succ_rel :: "('a \<times> 'a list) list \<Rightarrow> ('a \<times> 'a) set" where
  "succ_rel adj = {(x, y). y \<in> set (succs adj x)}"

lemma succs_no_key: "x \<notin> fst ` set adj \<Longrightarrow> succs adj x = []"
  by (simp add: succs_def map_of_eq_None_iff [THEN iffD2])

lemma dfs_decreases:
  assumes "x \<in> fst ` set adj" and "x \<notin> set seen"
  shows "card (fst ` set adj - set (x # seen)) < card (fst ` set adj - set seen)"
  using assms by (intro psubset_card_mono) auto

lemma dfs_keeps: "x \<notin> fst ` set adj \<Longrightarrow> fst ` set adj - set (x # seen) = fst ` set adj - set seen"
  by auto

function dfs :: "('a \<times> 'a list) list \<Rightarrow> 'a list \<Rightarrow> 'a list \<Rightarrow> 'a list" where
  "dfs adj [] seen = seen"
| "dfs adj (x # stack) seen =
     (if x \<in> set seen then dfs adj stack seen
      else dfs adj (rev (succs adj x) @ stack) (x # seen))"
  by pat_completeness auto
termination
proof (relation "measures [\<lambda>(adj, stack, seen). card (fst ` set adj - set seen),
    \<lambda>(adj, stack, seen). length stack]", goal_cases)
  case 1
  show ?case by simp
next
  case (2 adj x stack seen)
  then show ?case by simp
next
  case (3 adj x stack seen)
  then show ?case
    by (cases "x \<in> fst ` set adj")
      (use dfs_decreases [of x adj seen] in simp,
       use dfs_keeps [of x adj seen] succs_no_key [of x adj] in simp)
qed

text \<open>Everything found was found before or is reachable from the stack.\<close>

lemma dfs_sound:
  "y \<in> set (dfs adj stack seen) \<Longrightarrow> y \<in> set seen \<or> (\<exists>x\<in>set stack. (x, y) \<in> (succ_rel adj)\<^sup>*)"
proof (induction adj stack seen rule: dfs.induct)
  case (1 adj seen)
  then show ?case by simp
next
  case (2 adj x stack seen)
  show ?case
  proof (cases "x \<in> set seen")
    case True
    with 2 show ?thesis by auto
  next
    case False
    with 2 have "y \<in> set (x # seen) \<or>
        (\<exists>z\<in>set (rev (succs adj x) @ stack). (z, y) \<in> (succ_rel adj)\<^sup>*)" by simp
    then show ?thesis
      by (auto simp: succ_rel_def intro: converse_rtrancl_into_rtrancl)
  qed
qed

lemma dfs_mono: "set seen \<union> set stack \<subseteq> set (dfs adj stack seen)"
  by (induction adj stack seen rule: dfs.induct) auto

text \<open>A set of visited nodes whose open successors are all on the stack ends up closed.\<close>

lemma dfs_closed:
  assumes "succ_rel adj `` set seen \<subseteq> set seen \<union> set stack"
  shows "succ_rel adj `` set (dfs adj stack seen) \<subseteq> set (dfs adj stack seen)"
  using assms
proof (induction adj stack seen rule: dfs.induct)
  case (1 adj seen)
  then show ?case by simp
next
  case (2 adj x stack seen)
  show ?case
  proof (cases "x \<in> set seen")
    case True
    with 2 show ?thesis by auto
  next
    case False
    have "succ_rel adj `` set (x # seen) \<subseteq> set (x # seen) \<union> set (rev (succs adj x) @ stack)"
      using "2.prems" by (auto simp: succ_rel_def)
    with 2 False show ?thesis by simp
  qed
qed

lemma closed_rtrancl: "(x, y) \<in> r\<^sup>* \<Longrightarrow> r `` A \<subseteq> A \<Longrightarrow> x \<in> A \<Longrightarrow> y \<in> A"
  by (induction rule: rtrancl_induct) auto

theorem dfs_correct: "set (dfs adj stack []) = (succ_rel adj)\<^sup>* `` set stack"
proof
  show "set (dfs adj stack []) \<subseteq> (succ_rel adj)\<^sup>* `` set stack"
    using dfs_sound [of _ adj stack "[]"] by auto
next
  have "succ_rel adj `` set (dfs adj stack []) \<subseteq> set (dfs adj stack [])"
    by (rule dfs_closed) simp
  moreover have "set stack \<subseteq> set (dfs adj stack [])"
    using dfs_mono [of "[]" stack adj] by simp
  ultimately show "(succ_rel adj)\<^sup>* `` set stack \<subseteq> set (dfs adj stack [])"
    by (auto dest: closed_rtrancl)
qed

declare dfs.simps [simp del]

section \<open>Grouping\<close>

text \<open>\<open>d.setdefault(key, []).append(value)\<close> over a list, on a dictionary in insertion order.\<close>

fun append_at :: "('k \<times> 'v list) list \<Rightarrow> 'k \<Rightarrow> 'v \<Rightarrow> ('k \<times> 'v list) list" where
  "append_at [] k v = [(k, [v])]"
| "append_at ((k', vs) # d) k v =
     (if k' = k then (k', vs @ [v]) # d else (k', vs) # append_at d k v)"

definition group_by :: "('a \<Rightarrow> 'k) \<Rightarrow> ('a \<Rightarrow> 'v) \<Rightarrow> 'a list \<Rightarrow> ('k \<times> 'v list) list" where
  "group_by key val xs = fold (\<lambda>x d. append_at d (key x) (val x)) xs []"

lemma succs_append_at:
  "succs (append_at d k v) k' = (if k' = k then succs d k @ [v] else succs d k')"
  by (induction d k v rule: append_at.induct) (auto simp: succs_def)

lemma fst_append_at: "fst ` set (append_at d k v) = insert k (fst ` set d)"
  by (induction d k v rule: append_at.induct) auto

lemma distinct_append_at: "distinct (map fst d) \<Longrightarrow> distinct (map fst (append_at d k v))"
proof (induction d k v rule: append_at.induct)
  case (1 k v)
  then show ?case by simp
next
  case (2 k' vs d k v)
  then show ?case using fst_append_at [of d k v] by auto
qed

lemma succs_fold_append_at:
  "succs (fold (\<lambda>x d. append_at d (key x) (val x)) xs d) k =
     succs d k @ map val (filter (\<lambda>x. key x = k) xs)"
  by (induction xs arbitrary: d) (auto simp: succs_append_at)

theorem succs_group_by: "succs (group_by key val xs) k = map val (filter (\<lambda>x. key x = k) xs)"
  by (simp add: group_by_def succs_fold_append_at succs_def [of "[]"])

lemma fst_group_by: "fst ` set (group_by key val xs) = key ` set xs"
proof -
  have "fst ` set (fold (\<lambda>x d. append_at d (key x) (val x)) xs d) = fst ` set d \<union> key ` set xs" for d
    by (induction xs arbitrary: d) (auto simp: fst_append_at)
  then show ?thesis by (simp add: group_by_def)
qed

lemma distinct_group_by: "distinct (map fst (group_by key val xs))"
proof -
  have "distinct (map fst d) \<Longrightarrow>
      distinct (map fst (fold (\<lambda>x d. append_at d (key x) (val x)) xs d))" for d
    by (induction xs arbitrary: d) (auto simp: distinct_append_at)
  then show ?thesis by (simp add: group_by_def)
qed

end
