(* ===== verification/FlowSchema.thy ===== *)
theory FlowSchema
  imports Prelude
begin

text \<open>
  The data of a flow: the enumerations of \<open>core/flow/contracts.py\<close>, the node, edge and document
  types of \<open>core/flow/schema.py\<close>, the snapshot of \<open>core/flow/snapshot.py\<close> with its two lookup
  tables, and the per-node capability resolution.  A field that the dataclasses share gets a
  prefix for its class (\<open>a_\<close> agent, \<open>ev_\<close> evaluator, \<open>ch_\<close> checks, \<open>tl_\<close> tool, \<open>h_\<close> hitl,
  \<open>pb_\<close> publish, \<open>e_\<close> edge).
\<close>

section \<open>Enumerations (core/flow/contracts.py, providers/base.py, config/schema.py)\<close>

datatype session_scope = FRESH_DISPOSABLE | EDITING_LINEAGE | RESUME_OWN_LINEAGE

datatype permission_profile = READ_ONLY | WORKSPACE_WRITE

datatype output_policy = CODE_CHANGE | REPOSITORY_DOCUMENT | PRIVATE_REPORT_OUTPUT

datatype publishing_policy =
    PULL_REQUEST
  | DOCUMENTATION_PULL_REQUEST
  | LOCAL_ARTIFACT
  | PRIVATE_REPORT_PUBLISH
  | PUBLISH_NONE

datatype network_policy = ADVISORIES | RESEARCH

datatype observe_mode = OBSERVE_NONE | OBSERVE_EVENTS | OBSERVE_SELECTED | OBSERVE_ALL

datatype provider_id = CODEX | CLAUDE

text \<open>The \<open>.value\<close> of each member.\<close>

fun session_scope_value :: "session_scope \<Rightarrow> string" where
  "session_scope_value FRESH_DISPOSABLE = ''fresh_disposable''"
| "session_scope_value EDITING_LINEAGE = ''editing_lineage''"
| "session_scope_value RESUME_OWN_LINEAGE = ''resume_own_lineage''"

fun profile_value :: "permission_profile \<Rightarrow> string" where
  "profile_value READ_ONLY = ''read-only''"
| "profile_value WORKSPACE_WRITE = ''workspace-write''"

fun output_policy_value :: "output_policy \<Rightarrow> string" where
  "output_policy_value CODE_CHANGE = ''code_change''"
| "output_policy_value REPOSITORY_DOCUMENT = ''repository_document''"
| "output_policy_value PRIVATE_REPORT_OUTPUT = ''private_control_workspace_report''"

fun publishing_value :: "publishing_policy \<Rightarrow> string" where
  "publishing_value PULL_REQUEST = ''pull_request''"
| "publishing_value DOCUMENTATION_PULL_REQUEST = ''documentation_pull_request''"
| "publishing_value LOCAL_ARTIFACT = ''local_artifact''"
| "publishing_value PRIVATE_REPORT_PUBLISH = ''private_control_workspace_report''"
| "publishing_value PUBLISH_NONE = ''none''"

fun network_policy_value :: "network_policy \<Rightarrow> string" where
  "network_policy_value ADVISORIES = ''advisories''"
| "network_policy_value RESEARCH = ''research''"

fun observe_mode_value :: "observe_mode \<Rightarrow> string" where
  "observe_mode_value OBSERVE_NONE = ''none''"
| "observe_mode_value OBSERVE_EVENTS = ''events''"
| "observe_mode_value OBSERVE_SELECTED = ''selected''"
| "observe_mode_value OBSERVE_ALL = ''all''"

fun provider_value :: "provider_id \<Rightarrow> string" where
  "provider_value CODEX = ''codex''"
| "provider_value CLAUDE = ''claude''"

section \<open>Nodes (core/flow/schema.py)\<close>

definition SEVERITY_ORDER :: "string list" where
  "SEVERITY_ORDER = [''blocking'', ''critical'', ''high'', ''medium'', ''low'']"

definition DEFAULT_GATE_SEVERITY :: string where
  "DEFAULT_GATE_SEVERITY = ''high''"

definition DEFAULT_CITATION_MANIFEST :: string where
  "DEFAULT_CITATION_MANIFEST = ''sources.json''"

record when_predicate =
  w_fact :: string
  w_equals :: bool

record hitl_settings =
  allow_question :: bool
  allow_approval :: bool

record agent_node =
  a_id :: string
  a_role_file :: string
  a_resume_role_file :: "string option"
  a_session_scope :: session_scope
  a_lineage_affinity :: "string option"
  a_permission_profile :: "permission_profile option"
  a_network_access :: "bool option"
  a_git_evidence :: "bool option"
  a_skills :: "string list"
  a_allow_skills :: "bool option"
  a_provider :: "provider_id option"
  a_model :: "string option"
  a_reasoning :: "string option"
  a_timeout_seconds :: "int option"
  a_output_schema :: "yval option"
  a_output_artifact :: "string option"
  a_output_file :: "string option"
  a_best_effort :: bool
  a_hitl :: "hitl_settings option"
  a_extra_args :: "string list"
  a_when :: "when_predicate option"

record evaluator_node =
  ev_id :: string
  ev_role :: string
  ev_role_file :: string
  ev_resume_role_file :: "string option"
  ev_session_scope :: session_scope
  ev_permission_profile :: permission_profile
  ev_network_access :: "bool option"
  ev_git_evidence :: "bool option"
  ev_blocking :: bool
  ev_max_rework_per_stage :: int
  ev_gate_severity :: string
  ev_provider :: "provider_id option"
  ev_model :: "string option"
  ev_reasoning :: "string option"
  ev_when :: "when_predicate option"

record checks_node =
  ch_id :: string
  ch_checker :: string
  ch_manifest :: string
  ch_when :: "when_predicate option"

record tool_node =
  tl_id :: string
  tl_tool :: string
  tl_args :: "(string \<times> yval) list"
  tl_timeout_seconds :: "int option"
  tl_when :: "when_predicate option"

record hitl_node =
  h_id :: string
  h_signal :: string
  h_timeout_s :: "int option"
  h_when :: "when_predicate option"

record publish_node =
  pb_id :: string
  pb_policy :: publishing_policy
  pb_when :: "when_predicate option"

datatype flow_node =
    AgentNode agent_node
  | EvaluatorNode evaluator_node
  | ChecksNode checks_node
  | ToolNode tool_node
  | HitlNode hitl_node
  | PublishNode publish_node

text \<open>\<open>node.id\<close>, \<open>node.kind\<close> and \<open>node.when\<close> on the union.\<close>

fun node_id :: "flow_node \<Rightarrow> string" where
  "node_id (AgentNode n) = a_id n"
| "node_id (EvaluatorNode n) = ev_id n"
| "node_id (ChecksNode n) = ch_id n"
| "node_id (ToolNode n) = tl_id n"
| "node_id (HitlNode n) = h_id n"
| "node_id (PublishNode n) = pb_id n"

fun node_kind :: "flow_node \<Rightarrow> string" where
  "node_kind (AgentNode n) = ''agent''"
| "node_kind (EvaluatorNode n) = ''evaluator''"
| "node_kind (ChecksNode n) = ''checks''"
| "node_kind (ToolNode n) = ''tool''"
| "node_kind (HitlNode n) = ''hitl''"
| "node_kind (PublishNode n) = ''publish''"

fun node_when :: "flow_node \<Rightarrow> when_predicate option" where
  "node_when (AgentNode n) = a_when n"
| "node_when (EvaluatorNode n) = ev_when n"
| "node_when (ChecksNode n) = ch_when n"
| "node_when (ToolNode n) = tl_when n"
| "node_when (HitlNode n) = h_when n"
| "node_when (PublishNode n) = pb_when n"

section \<open>Edges, documents and snapshots\<close>

record edge =
  e_from :: string
  e_to :: string
  e_outcome :: "string option"
  e_budget :: "int option"
  e_loop :: "string option"

definition REWORK_OUTCOMES :: "string set" where
  "REWORK_OUTCOMES = {''rework'', ''fail''}"

text \<open>\<open>edge.outcome in REWORK_OUTCOMES\<close>; \<open>None\<close> is in no set of strings.\<close>

definition is_rework :: "edge \<Rightarrow> bool" where
  "is_rework e = (case e_outcome e of None \<Rightarrow> False | Some oc \<Rightarrow> oc \<in> REWORK_OUTCOMES)"

record decomposition_config =
  proposed_by :: string
  sub_flow :: "string list"
  shared_budget :: "string option"

record supervisor_block =
  sb_role_file :: "string option"
  sb_finalize_role_file :: "string option"
  sb_handoff_role_file :: "string option"
  sb_emit_follow_ups :: bool
  sb_observe :: "observe_mode option option"

record evaluator_defaults =
  d_session_scope :: session_scope
  d_permission_profile :: permission_profile
  d_max_rework_per_stage :: int
  d_gate_severity :: string

record flow_doc =
  doc_name :: string
  task_type :: string
  permission_ceiling :: permission_profile
  doc_output_policy :: output_policy
  publishing :: publishing_policy
  nodes :: "flow_node list"
  edges :: "edge list"
  budgets :: "string \<rightharpoonup> int"
  report_dir :: "string option"
  doc_network_policy :: "network_policy option"
  decomposition :: "decomposition_config option"
  supervisor :: "supervisor_block option"

record flow_snapshot =
  doc :: flow_doc
  nodes_by_id :: "(string \<times> flow_node) list"
  adjacency :: "(string \<times> edge list) list"
  snap_fingerprint :: string
  source_path :: "string option"

text \<open>
  The tables \<open>load_flow\<close> derives from a parsed document: nodes by id, and the outgoing edges per
  node id in declaration order.
\<close>

definition snapshot_of :: "flow_doc \<Rightarrow> string \<Rightarrow> string option \<Rightarrow> flow_snapshot" where
  "snapshot_of d fp path = \<lparr>doc = d,
     nodes_by_id = map (\<lambda>n. (node_id n, n)) (nodes d),
     adjacency = group_by e_from (\<lambda>e. e) (edges d),
     snap_fingerprint = fp, source_path = path\<rparr>"

text \<open>\<open>snapshot.adjacency.get(node_id, ())\<close>\<close>

definition out_edges :: "flow_snapshot \<Rightarrow> string \<Rightarrow> edge list" where
  "out_edges snap nid = succs (adjacency snap) nid"

definition node_at :: "flow_snapshot \<Rightarrow> string \<Rightarrow> flow_node option" where
  "node_at snap nid = map_of (nodes_by_id snap) nid"

definition targets_of :: "(string \<times> edge list) list \<Rightarrow> (string \<times> string list) list" where
  "targets_of adj = map (\<lambda>(k, es). (k, map e_to es)) adj"

text \<open>\<open>reachable_nodes\<close>, in the order of the visit.\<close>

definition reachable_nodes :: "flow_snapshot \<Rightarrow> string \<Rightarrow> string list" where
  "reachable_nodes snap start = rev (dfs (targets_of (adjacency snap)) [start] [])"

section \<open>Per-node capability resolution (core/flow/contracts.py)\<close>

definition resolve_network_access :: "bool option \<Rightarrow> network_policy option \<Rightarrow> bool" where
  "resolve_network_access node_value policy =
     (case node_value of Some b \<Rightarrow> b | None \<Rightarrow> policy \<noteq> None)"

definition resolve_git_evidence :: "bool option \<Rightarrow> bool \<Rightarrow> bool" where
  "resolve_git_evidence node_value allowed = (node_value = Some True \<and> allowed)"

definition resolve_allow_skills :: "bool option \<Rightarrow> string list \<Rightarrow> bool" where
  "resolve_allow_skills node_value declared =
     (case node_value of Some b \<Rightarrow> b | None \<Rightarrow> declared \<noteq> [])"

section \<open>Lemmas\<close>

lemma succs_targets_of: "succs (targets_of adj) k = map e_to (succs adj k)"
  unfolding succs_def targets_of_def
  by (induction adj) auto

lemma out_edges_snapshot_of [simp]:
  "out_edges (snapshot_of d fp path) nid = filter (\<lambda>e. e_from e = nid) (edges d)"
  by (simp add: out_edges_def snapshot_of_def succs_group_by)

lemma doc_snapshot_of [simp]: "doc (snapshot_of d fp path) = d"
  by (simp add: snapshot_of_def)

lemma node_at_in: "node_at snap nid = Some n \<Longrightarrow> (nid, n) \<in> set (nodes_by_id snap)"
  by (simp add: node_at_def map_of_SomeD)

lemma node_at_snapshot_of:
  assumes "node_at (snapshot_of d fp path) nid = Some n"
  shows "n \<in> set (nodes d) \<and> node_id n = nid"
  using node_at_in [OF assms] by (auto simp: snapshot_of_def)

lemma node_at_snapshot_of_iff:
  "node_at (snapshot_of d fp path) nid \<noteq> None \<longleftrightarrow> nid \<in> node_id ` set (nodes d)"
  by (force simp: node_at_def snapshot_of_def map_of_eq_None_iff)

lemma node_at_distinct:
  assumes "distinct (map node_id (nodes d))" and "n \<in> set (nodes d)"
  shows "node_at (snapshot_of d fp path) (node_id n) = Some n"
proof -
  have "distinct (map fst (map (\<lambda>n. (node_id n, n)) (nodes d)))"
    using assms(1) by (simp add: o_def)
  then show ?thesis
    using assms(2) by (simp add: node_at_def snapshot_of_def map_of_eq_Some_iff image_iff)
qed

text \<open>The edge relation of a snapshot, and what \<open>reachable_nodes\<close> computes.\<close>

definition edge_rel :: "flow_snapshot \<Rightarrow> (string \<times> string) set" where
  "edge_rel snap = {(x, y). \<exists>e\<in>set (out_edges snap x). e_to e = y}"

lemma succ_rel_targets: "succ_rel (targets_of (adjacency snap)) = edge_rel snap"
  by (auto simp: succ_rel_def edge_rel_def out_edges_def succs_targets_of)

lemma reachable_nodes_correct: "set (reachable_nodes snap start) = (edge_rel snap)\<^sup>* `` {start}"
  by (simp add: reachable_nodes_def dfs_correct succ_rel_targets)

end
