(* ===== verification/LoopControl.thy ===== *)
theory LoopControl
  imports FlowSchema
begin

text \<open>
  The run checkpoint of \<open>core/flow/run_state.py\<close> and the fix-loop budgets of
  \<open>core/loop_control.py\<close>.  The counters of a run are one dictionary under three families of keys
  (loop names, synthetic edge keys, reserved keys); the locale \<open>counter_store\<close> states what its
  clients use of it and \<open>run_counters\<close> interprets it on the checkpoint.
\<close>

section \<open>The counter interface\<close>

locale counter_store =
  fixes get :: "'s \<Rightarrow> string \<Rightarrow> int"
    and bump_key :: "'s \<Rightarrow> string \<Rightarrow> 's"
    and reset_key :: "'s \<Rightarrow> string \<Rightarrow> 's"
  assumes get_bump: "get (bump_key s k) k' = (if k' = k then get s k + 1 else get s k')"
    and get_reset: "get (reset_key s k) k' = (if k' = k then 0 else get s k')"
begin

lemma get_bump_all: "get (fold (\<lambda>k s. bump_key s k) ks s) k = get s k + int (count_list ks k)"
  by (induction ks arbitrary: s) (auto simp: get_bump)

lemma get_reset_all:
  "get (fold (\<lambda>k s. reset_key s k) ks s) k = (if k \<in> set ks then 0 else get s k)"
  by (induction ks arbitrary: s) (auto simp: get_reset)

lemma get_bump_mono: "get s k' \<le> get (bump_key s k) k'"
  by (simp add: get_bump)

lemma bump_within:
  "get s k < cap \<Longrightarrow> get s k' \<le> cap \<Longrightarrow> get (bump_key s k) k' \<le> cap"
  by (simp add: get_bump)

end

section \<open>The run checkpoint (core/flow/run_state.py)\<close>

definition GLOBAL_FIX_KEY :: string where
  "GLOBAL_FIX_KEY = ''global_fix_iterations''"

definition TOTAL_PREFIX :: string where
  "TOTAL_PREFIX = ''total_fix:''"

record flow_run_state =
  flow_fingerprint :: string
  current_node :: "string option"
  completed_nodes :: "string list"
  loop_counters :: "string \<rightharpoonup> int"

definition counter :: "flow_run_state \<Rightarrow> string \<Rightarrow> int" where
  "counter rs key = (case loop_counters rs key of None \<Rightarrow> 0 | Some n \<Rightarrow> n)"

definition fix_iterations :: "flow_run_state \<Rightarrow> int" where
  "fix_iterations rs = (case loop_counters rs GLOBAL_FIX_KEY of None \<Rightarrow> 0 | Some n \<Rightarrow> n)"

definition total_key :: "string \<Rightarrow> string" where
  "total_key loop = TOTAL_PREFIX @ loop"

definition total :: "flow_run_state \<Rightarrow> string \<Rightarrow> int" where
  "total rs loop = (case loop_counters rs (total_key loop) of None \<Rightarrow> 0 | Some n \<Rightarrow> n)"

text \<open>\<open>bump\<close> mutates the checkpoint and returns the new value; here both come back.\<close>

definition bump :: "flow_run_state \<Rightarrow> string \<Rightarrow> flow_run_state \<times> int" where
  "bump rs key =
     (let new = counter rs key + 1
      in (rs\<lparr>loop_counters := (loop_counters rs)(key \<mapsto> new)\<rparr>, new))"

definition reset :: "flow_run_state \<Rightarrow> string \<Rightarrow> flow_run_state" where
  "reset rs key = rs\<lparr>loop_counters := (loop_counters rs)(key := None)\<rparr>"

definition mark_completed :: "flow_run_state \<Rightarrow> string \<Rightarrow> flow_run_state" where
  "mark_completed rs nid = rs\<lparr>completed_nodes := completed_nodes rs @ [nid]\<rparr>"

definition reset_consecutive_fix_budget :: "flow_run_state \<Rightarrow> flow_run_state" where
  "reset_consecutive_fix_budget rs =
     rs\<lparr>loop_counters := (\<lambda>key. if key = GLOBAL_FIX_KEY \<or> starts_with key TOTAL_PREFIX
                               then loop_counters rs key else None)\<rparr>"

interpretation run_counters: counter_store counter "\<lambda>rs k. fst (bump rs k)" reset
  by unfold_locales (auto simp: counter_def bump_def reset_def Let_def)

lemma fix_iterations_counter: "fix_iterations rs = counter rs GLOBAL_FIX_KEY"
  by (simp add: fix_iterations_def counter_def)

lemma total_counter: "total rs loop = counter rs (total_key loop)"
  by (simp add: total_def counter_def)

lemma bump_frame [simp]:
  "current_node (fst (bump rs k)) = current_node rs"
  "completed_nodes (fst (bump rs k)) = completed_nodes rs"
  "flow_fingerprint (fst (bump rs k)) = flow_fingerprint rs"
  by (simp_all add: bump_def Let_def)

lemma reset_frame [simp]:
  "current_node (reset rs k) = current_node rs"
  "completed_nodes (reset rs k) = completed_nodes rs"
  "flow_fingerprint (reset rs k) = flow_fingerprint rs"
  by (simp_all add: reset_def)

lemma counter_frame [simp]:
  "counter (mark_completed rs n) k = counter rs k"
  "counter (rs\<lparr>current_node := c\<rparr>) k = counter rs k"
  by (simp_all add: counter_def mark_completed_def)

text \<open>The three families of keys do not meet where loop names keep clear of the reserved shapes.\<close>

lemma total_key_inject [simp]: "total_key a = total_key b \<longleftrightarrow> a = b"
  by (simp add: total_key_def)

lemma total_key_not_global [simp]: "total_key l \<noteq> GLOBAL_FIX_KEY" "GLOBAL_FIX_KEY \<noteq> total_key l"
  by (simp_all add: total_key_def TOTAL_PREFIX_def GLOBAL_FIX_KEY_def)

lemma starts_with_total_key [simp]: "starts_with (total_key l) TOTAL_PREFIX"
  by (simp add: total_key_def)

section \<open>Loop budgets (core/loop_control.py)\<close>

record loop_counters_row =
  test_fix_cycles :: int
  review_fix_cycles :: int
  test_fix_total :: int
  review_fix_total :: int
  row_fix_iterations :: int

definition from_run_state :: "flow_run_state \<Rightarrow> loop_counters_row" where
  "from_run_state rs =
     \<lparr>test_fix_cycles = counter rs ''test_fix'',
      review_fix_cycles = counter rs ''review_fix'',
      test_fix_total = total rs ''test_fix'',
      review_fix_total = total rs ''review_fix'',
      row_fix_iterations = fix_iterations rs\<rparr>"

definition record_rework :: "flow_run_state \<Rightarrow> flow_run_state \<times> int" where
  "record_rework rs = bump rs GLOBAL_FIX_KEY"

text \<open>\<open>1 << 60\<close>: the flow declares no number, so only the configured cap clamps.\<close>

definition LARGE :: int where
  "LARGE = 2 ^ 60"

definition declared_loop_budget :: "flow_snapshot \<Rightarrow> string \<Rightarrow> int option" where
  "declared_loop_budget snap nid =
     (let declared = List.map_filter (\<lambda>e.
            if \<not> is_rework e then None
            else case e_loop e of Some l \<Rightarrow> budgets (doc snap) l | None \<Rightarrow> e_budget e)
          (out_edges snap nid)
      in if declared = [] then None else Some (Max (set declared)))"

definition loop_cap :: "(string \<rightharpoonup> int) \<Rightarrow> int \<Rightarrow> string \<Rightarrow> int" where
  "loop_cap bs max_fix_cycles loop =
     min (case bs loop of None \<Rightarrow> LARGE | Some n \<Rightarrow> n) max_fix_cycles"

definition global_cap :: "(string \<rightharpoonup> int) \<Rightarrow> int \<Rightarrow> int" where
  "global_cap bs max_total =
     min (case bs GLOBAL_FIX_KEY of None \<Rightarrow> LARGE | Some n \<Rightarrow> n) max_total"

record exhausted_loop =
  ex_loop :: string
  ex_node :: string
  ex_counter :: int
  ex_cap :: int

definition exhausted_at ::
    "flow_snapshot \<Rightarrow> (string \<rightharpoonup> int) \<Rightarrow> int \<Rightarrow> string \<Rightarrow> edge \<Rightarrow> exhausted_loop option" where
  "exhausted_at snap counters max_fix_cycles nid e =
     (case e_loop e of None \<Rightarrow> None
      | Some l \<Rightarrow>
          if \<not> is_rework e then None
          else let cap = loop_cap (budgets (doc snap)) max_fix_cycles l;
                   c = (case counters l of None \<Rightarrow> 0 | Some n \<Rightarrow> n)
               in if cap \<le> c
                  then Some \<lparr>ex_loop = l, ex_node = nid, ex_counter = c, ex_cap = cap\<rparr>
                  else None)"

definition exhausted_fix_loops ::
    "flow_snapshot \<Rightarrow> (string \<rightharpoonup> int) \<Rightarrow> int \<Rightarrow> string \<Rightarrow> exhausted_loop list" where
  "exhausted_fix_loops snap counters max_fix_cycles start =
     concat (map (\<lambda>nid. List.map_filter (exhausted_at snap counters max_fix_cycles nid)
                          (out_edges snap nid))
       (reachable_nodes snap start))"

record rework_refusal_reason =
  rr_loop :: "string option"
  rr_limit_name :: string

definition edge_key :: "edge \<Rightarrow> string" where
  "edge_key e = e_from e @ ''->'' @ e_to e @ '':'' @
     (case e_outcome e of None \<Rightarrow> ''None'' | Some oc \<Rightarrow> oc)"

definition global_refusal ::
    "flow_snapshot \<Rightarrow> flow_run_state \<Rightarrow> edge \<Rightarrow> int \<Rightarrow> rework_refusal_reason option" where
  "global_refusal snap rs e max_total =
     (if global_cap (budgets (doc snap)) max_total \<le> fix_iterations rs
      then Some \<lparr>rr_loop = e_loop e, rr_limit_name = ''max_total_fix_iterations''\<rparr>
      else None)"

definition rework_refusal ::
    "flow_snapshot \<Rightarrow> flow_run_state \<Rightarrow> edge \<Rightarrow> int \<Rightarrow> int \<Rightarrow> rework_refusal_reason option" where
  "rework_refusal snap rs e max_fix_cycles max_total =
     (case e_loop e of
        Some l \<Rightarrow>
          if loop_cap (budgets (doc snap)) max_fix_cycles l \<le> counter rs l
          then Some \<lparr>rr_loop = Some l, rr_limit_name = ''max_fix_cycles''\<rparr>
          else global_refusal snap rs e max_total
      | None \<Rightarrow>
          (case e_budget e of
             Some b \<Rightarrow>
               if b \<le> counter rs (edge_key e)
               then Some \<lparr>rr_loop = None, rr_limit_name = ''budget:'' @ e_from e @ ''->'' @ e_to e\<rparr>
               else global_refusal snap rs e max_total
           | None \<Rightarrow> global_refusal snap rs e max_total))"

definition global_backstop_exhausted :: "(string \<rightharpoonup> int) \<Rightarrow> int \<Rightarrow> (string \<rightharpoonup> int) \<Rightarrow> bool" where
  "global_backstop_exhausted bs max_total counters =
     (global_cap bs max_total \<le> (case counters GLOBAL_FIX_KEY of None \<Rightarrow> 0 | Some n \<Rightarrow> n))"

section \<open>Lemmas\<close>

lemma edge_key_has_arrow: "CHR ''>'' \<in> set (edge_key e)"
  by (simp add: edge_key_def)

lemma edge_key_not_global [simp]: "edge_key e \<noteq> GLOBAL_FIX_KEY" "GLOBAL_FIX_KEY \<noteq> edge_key e"
proof -
  have "CHR ''>'' \<notin> set GLOBAL_FIX_KEY" by (simp add: GLOBAL_FIX_KEY_def)
  then show "edge_key e \<noteq> GLOBAL_FIX_KEY" "GLOBAL_FIX_KEY \<noteq> edge_key e"
    using edge_key_has_arrow by metis+
qed

text \<open>A refusal is exactly a reached limit, and the per-edge limit is named before the global one.\<close>

definition edge_limit_reached :: "flow_snapshot \<Rightarrow> flow_run_state \<Rightarrow> edge \<Rightarrow> int \<Rightarrow> bool" where
  "edge_limit_reached snap rs e max_fix_cycles =
     (case e_loop e of
        Some l \<Rightarrow> loop_cap (budgets (doc snap)) max_fix_cycles l \<le> counter rs l
      | None \<Rightarrow> (case e_budget e of Some b \<Rightarrow> b \<le> counter rs (edge_key e) | None \<Rightarrow> False))"

lemma rework_refusal_None:
  "rework_refusal snap rs e mf mt = None \<longleftrightarrow>
     \<not> edge_limit_reached snap rs e mf \<and> fix_iterations rs < global_cap (budgets (doc snap)) mt"
  by (auto simp: rework_refusal_def edge_limit_reached_def global_refusal_def split: option.splits)

lemma rework_refusal_Some:
  "rework_refusal snap rs e mf mt = Some r \<Longrightarrow>
     (rr_limit_name r = ''max_total_fix_iterations'' \<longrightarrow>
        \<not> edge_limit_reached snap rs e mf \<and>
        global_cap (budgets (doc snap)) mt \<le> fix_iterations rs) \<or>
     edge_limit_reached snap rs e mf"
  by (auto simp: rework_refusal_def edge_limit_reached_def global_refusal_def
      split: option.splits if_splits)

lemma loop_cap_le: "loop_cap bs mf l \<le> mf" and global_cap_le: "global_cap bs mt \<le> mt"
  by (simp_all add: loop_cap_def global_cap_def)

text \<open>
  The pre-resume scan finds exactly the loops a resumed run could be refused on: a rework or
  fail edge with a named loop, on a node reachable forward from the resume point, whose counter
  already stands at or over its cap.
\<close>

theorem exhausted_fix_loops_exact:
  "\<lparr>ex_loop = l, ex_node = nid, ex_counter = counter rs l,
     ex_cap = loop_cap (budgets (doc snap)) mf l\<rparr>
     \<in> set (exhausted_fix_loops snap (loop_counters rs) mf start) \<longleftrightarrow>
   (start, nid) \<in> (edge_rel snap)\<^sup>* \<and>
   (\<exists>e\<in>set (out_edges snap nid). is_rework e \<and> e_loop e = Some l \<and> edge_limit_reached snap rs e mf)"
proof -
  have at: "exhausted_at snap (loop_counters rs) mf n e =
      Some \<lparr>ex_loop = l, ex_node = nid, ex_counter = counter rs l,
        ex_cap = loop_cap (budgets (doc snap)) mf l\<rparr> \<longleftrightarrow>
      n = nid \<and> is_rework e \<and> e_loop e = Some l \<and> edge_limit_reached snap rs e mf" for n e
    by (auto simp: exhausted_at_def edge_limit_reached_def counter_def Let_def
        split: option.splits if_splits)
  show ?thesis
    unfolding exhausted_fix_loops_def
    by (simp add: in_map_filter at reachable_nodes_correct)
qed

end
