(* ===== verification/TaskStates.thy ===== *)
theory TaskStates
  imports Prelude
begin

text \<open>
  The task state machine of \<open>core/state_machine.py\<close>: the statuses, the transition table as
  \<open>_build_transitions\<close> builds it, the assertion the orchestrator makes before it persists a
  status (\<open>_transition\<close> in \<open>core/orchestrator.py\<close>), and the shape of a task's life.
\<close>

section \<open>Statuses and the transition table\<close>

datatype status =
    NEW
  | VALIDATED
  | PREPARING
  | RUNNING
  | DONE
  | FAILED
  | MANUAL_ACTION_REQUIRED
  | PENDING

definition TERMINAL :: "status set" where
  "TERMINAL = {DONE, FAILED, MANUAL_ACTION_REQUIRED}"

definition ACTIVE :: "status set" where
  "ACTIVE = {VALIDATED, PREPARING, RUNNING}"

definition base_transitions :: "(status \<times> status set) list" where
  "base_transitions =
    [(NEW, {VALIDATED}),
     (VALIDATED, {PREPARING}),
     (PREPARING, {RUNNING}),
     (RUNNING, {DONE}),
     (PENDING, {VALIDATED, PREPARING})]"

definition bailouts :: "status set" where
  "bailouts = {FAILED, MANUAL_ACTION_REQUIRED}"

text \<open>The first loop fills the table from the base edges, the second empties the terminals.\<close>

definition build_transitions :: "status \<rightharpoonup> status set" where
  "build_transitions =
     fold (\<lambda>terminal table. table(terminal \<mapsto> {})) [DONE, FAILED, MANUAL_ACTION_REQUIRED]
       (fold (\<lambda>(status, targets) table.
          table(status \<mapsto> (if status \<in> TERMINAL then targets else targets \<union> bailouts)))
        base_transitions Map.empty)"

definition ALLOWED_TRANSITIONS :: "status \<rightharpoonup> status set" where
  "ALLOWED_TRANSITIONS = build_transitions"

datatype invalid_transition = InvalidTransition status status

definition can_transition :: "status \<Rightarrow> status \<Rightarrow> bool" where
  "can_transition src dst =
     (case ALLOWED_TRANSITIONS src of None \<Rightarrow> False | Some targets \<Rightarrow> dst \<in> targets)"

definition assert_transition :: "status \<Rightarrow> status \<Rightarrow> invalid_transition + unit" where
  "assert_transition src dst =
     (if \<not> can_transition src dst then Inl (InvalidTransition src dst) else Inr ())"

definition is_terminal :: "status \<Rightarrow> bool" where
  "is_terminal s = (s \<in> TERMINAL)"

definition is_active :: "status \<Rightarrow> bool" where
  "is_active s = (s \<in> ACTIVE)"

section \<open>Persisting a transition\<close>

text \<open>
  One \<open>_transition_status\<close> transaction on the stored status column: the assertion comes first,
  and a raised \<open>InvalidTransition\<close> leaves the row untouched.
\<close>

definition transition_status ::
    "(string \<rightharpoonup> status) \<Rightarrow> string \<Rightarrow> status \<Rightarrow> status \<Rightarrow> invalid_transition + (string \<rightharpoonup> status)" where
  "transition_status rows task_id src dst =
     bind_res (assert_transition src dst) (\<lambda>_. Inr (rows(task_id \<mapsto> dst)))"

text \<open>The asserted transitions of one task, in order; the first illegal one raises.\<close>

fun run_transitions :: "status \<Rightarrow> status list \<Rightarrow> invalid_transition + status" where
  "run_transitions s [] = Inr s"
| "run_transitions s (d # ds) =
     bind_res (assert_transition s d) (\<lambda>_. run_transitions d ds)"

section \<open>Lemmas\<close>

lemmas table_defs = can_transition_def ALLOWED_TRANSITIONS_def build_transitions_def
  base_transitions_def bailouts_def TERMINAL_def

lemma can_transition_simps [simp]:
  "can_transition NEW d \<longleftrightarrow> d \<in> {VALIDATED, FAILED, MANUAL_ACTION_REQUIRED}"
  "can_transition VALIDATED d \<longleftrightarrow> d \<in> {PREPARING, FAILED, MANUAL_ACTION_REQUIRED}"
  "can_transition PREPARING d \<longleftrightarrow> d \<in> {RUNNING, FAILED, MANUAL_ACTION_REQUIRED}"
  "can_transition RUNNING d \<longleftrightarrow> d \<in> {DONE, FAILED, MANUAL_ACTION_REQUIRED}"
  "can_transition PENDING d \<longleftrightarrow> d \<in> {VALIDATED, PREPARING, FAILED, MANUAL_ACTION_REQUIRED}"
  "can_transition DONE d \<longleftrightarrow> False"
  "can_transition FAILED d \<longleftrightarrow> False"
  "can_transition MANUAL_ACTION_REQUIRED d \<longleftrightarrow> False"
  by (auto simp: table_defs)

lemma assert_transition_Inr [res_iff]: "assert_transition s d = Inr u \<longleftrightarrow> can_transition s d"
  by (simp add: assert_transition_def)

text \<open>How far along its life a task is; every legal transition moves strictly forward.\<close>

fun progress :: "status \<Rightarrow> nat" where
  "progress NEW = 0"
| "progress PENDING = 0"
| "progress VALIDATED = 1"
| "progress PREPARING = 2"
| "progress RUNNING = 3"
| "progress DONE = 4"
| "progress FAILED = 4"
| "progress MANUAL_ACTION_REQUIRED = 4"

lemma transition_progress: "can_transition s d \<Longrightarrow> progress s < progress d"
  by (cases s) auto

lemma progress_le [simp]: "progress s \<le> 4"
  by (cases s) auto

lemma run_transitions_progress:
  "run_transitions s ds = Inr t \<Longrightarrow> progress s + length ds \<le> progress t"
proof (induction ds arbitrary: s)
  case Nil
  then show ?case by simp
next
  case (Cons d ds)
  then have "can_transition s d" and "run_transitions d ds = Inr t"
    by (auto simp: res_iff)
  with Cons.IH [of d] transition_progress [of s d] show ?case by simp
qed

lemma run_transitions_append:
  "run_transitions s (ds @ es) = bind_res (run_transitions s ds) (\<lambda>t. run_transitions t es)"
  by (induction ds arbitrary: s) (auto simp: bind_res_def split: sum.splits)

lemma run_to_DONE_last:
  assumes "run_transitions s ds = Inr DONE" and "ds \<noteq> []"
  shows "\<exists>es. ds = es @ [DONE] \<and> run_transitions s es = Inr RUNNING"
proof -
  obtain es d where ds: "ds = es @ [d]" using assms(2) by (cases ds rule: rev_cases) auto
  with assms(1) obtain t where t: "run_transitions s es = Inr t" and "can_transition t d" "d = DONE"
    by (auto simp: run_transitions_append res_iff)
  then have "t = RUNNING" by (cases t) auto
  with ds t \<open>d = DONE\<close> show ?thesis by simp
qed

lemma run_to_RUNNING_last:
  assumes "run_transitions s ds = Inr RUNNING" and "ds \<noteq> []"
  shows "\<exists>es. ds = es @ [RUNNING] \<and> run_transitions s es = Inr PREPARING"
proof -
  obtain es d where ds: "ds = es @ [d]" using assms(2) by (cases ds rule: rev_cases) auto
  with assms(1) obtain t where t: "run_transitions s es = Inr t" and "can_transition t d" "d = RUNNING"
    by (auto simp: run_transitions_append res_iff)
  then have "t = PREPARING" by (cases t) auto
  with ds t \<open>d = RUNNING\<close> show ?thesis by simp
qed

section \<open>Properties\<close>

text \<open>
  A task's life is short and one-way: whatever sequence of statuses the orchestrator asserts,
  it succeeds only if it has at most four transitions, nothing follows a terminal status, and a
  task that ends \<open>done\<close> was \<open>running\<close> immediately before and \<open>preparing\<close> immediately before that.
\<close>

theorem task_life:
  assumes "run_transitions s ds = Inr t"
  shows "length ds \<le> 4 \<and>
    (is_terminal s \<longrightarrow> ds = []) \<and>
    (t = DONE \<longrightarrow> s \<in> {NEW, PENDING, VALIDATED} \<longrightarrow>
       (\<exists>es. ds = es @ [PREPARING, RUNNING, DONE]))"
proof (intro conjI impI)
  show "length ds \<le> 4"
    using run_transitions_progress [OF assms] progress_le [of t] by linarith
next
  assume "is_terminal s"
  then have "progress s = 4" by (auto simp: is_terminal_def TERMINAL_def)
  then have "length ds = 0"
    using run_transitions_progress [OF assms] progress_le [of t] by linarith
  then show "ds = []" by simp
next
  assume t: "t = DONE" and s: "s \<in> {NEW, PENDING, VALIDATED}"
  have "ds \<noteq> []" using assms t s by auto
  with assms t obtain es where es: "ds = es @ [DONE]" "run_transitions s es = Inr RUNNING"
    using run_to_DONE_last by blast
  have "es \<noteq> []" using es(2) s by auto
  with es(2) obtain fs where fs: "es = fs @ [RUNNING]" "run_transitions s fs = Inr PREPARING"
    using run_to_RUNNING_last by blast
  have "fs \<noteq> []" using fs(2) s by auto
  then obtain gs d where gs: "fs = gs @ [d]" by (cases fs rule: rev_cases) auto
  with fs(2) have "d = PREPARING"
    by (auto simp: run_transitions_append res_iff)
  with es fs gs show "\<exists>es. ds = es @ [PREPARING, RUNNING, DONE]" by simp
qed

theorem task_life_witness:
  "run_transitions NEW [VALIDATED, PREPARING, RUNNING, DONE] = Inr DONE \<and>
   (\<exists>es. [VALIDATED, PREPARING, RUNNING, DONE] = es @ [PREPARING, RUNNING, DONE])"
proof -
  have h: "run_transitions NEW [VALIDATED, PREPARING, RUNNING, DONE] = Inr DONE"
    by (simp add: assert_transition_def)
  show ?thesis using h task_life [OF h] by simp
qed

end
