(* ===== verification/FlowEngine.thy ===== *)
theory FlowEngine
  imports LoopControl TaskStates
begin

text \<open>
  The flow engine of \<open>core/flow/engine.py\<close>: the graph driver that runs nodes, selects declared
  edges, charges fix budgets and owns every transition of one run.  The engine's collaborators
  (node runners, fact resolver, stop signal, tree fingerprint, recorded verdicts, the post-node
  hook) are answers of the environment, one record \<open>tick\<close> per iteration of \<open>run\<close>'s loop; what the
  engine does to its recorder is the trace of \<open>recorder_event\<close>s.
\<close>

section \<open>Outcomes, results and errors\<close>

record finding =
  severity :: string
  fd_reason :: string
  fd_paths :: "string list"
  fd_fix :: "string option"

record node_outcome =
  kind :: string
  findings :: "finding list"
  structured_output :: "yval option"
  final_message :: "string option"
  rework_exhausted :: bool
  rework_limit :: "string option"
  provider_fallback :: "string option"
  unexpected_write :: bool
  git_control_drift :: "string option"
  adopted_commits :: "string list"
  gating_findings_name_no_path :: bool

definition outcome_of :: "string \<Rightarrow> node_outcome" where
  "outcome_of k = \<lparr>kind = k, findings = [], structured_output = None, final_message = None,
     rework_exhausted = False, rework_limit = None, provider_fallback = None,
     unexpected_write = False, git_control_drift = None, adopted_commits = [],
     gating_findings_name_no_path = False\<rparr>"

record node_result =
  nr_node_id :: string
  nr_outcome :: node_outcome
  nr_node_run_id :: int

record node_context =
  ctx_snapshot :: flow_snapshot
  ctx_run_state :: flow_run_state
  ctx_node :: flow_node
  ctx_task_id :: string
  ctx_subtask_order :: "int option"
  ctx_rework_refusal :: "rework_refusal_reason option"

datatype engine_bug =
    EntryCount "string list"
  | NoRunner string
  | NoRouteEdge string string
  | NoOutcomeEdge string string "string option list"
  | NoRegionEntry string
  | NoRegionExit

datatype engine_exn =
    EngineInternalError engine_bug
  | FlowCancelled string
  | MissingNode string
  | NoCurrentNode
  | BadOverlay string
  | RaisedByNode string

record flow_run_result =
  fr_status :: status
  fr_final_node :: string
  fr_stuck_loop :: "string option"
  fr_limit_name :: "string option"
  fr_failure_report_path :: "string option"

record stuck =
  st_loop :: "string option"
  st_limit_name :: string

definition STALL_NO_CHANGE_LIMIT :: nat where
  "STALL_NO_CHANGE_LIMIT = 2"

definition REPEATED_FINDINGS_LIMIT :: int where
  "REPEATED_FINDINGS_LIMIT = 3"

datatype overlay_field = OverlayProvider provider_id | OverlayModel string | OverlayReasoning string

datatype skip_reason = DisabledByTask string | DeterministicSkip string bool

datatype recorder_event =
    RecordSkip string skip_reason "int option"
  | SaveCheckpoint flow_run_state
  | WriteFailureReport string "string option" string flow_run_state "int option"
  | RunNode string node_context
  | PostNode string node_outcome int

section \<open>The engine, its environment and its state\<close>

text \<open>The constructor arguments of \<open>FlowEngine\<close>; \<open>None\<close> callables are the two \<open>bool\<close>s.\<close>

record engine =
  snapshot :: flow_snapshot
  runners :: "string list"
  max_fix_cycles :: int
  max_total_fix_iterations :: int
  task_id :: string
  subtask_order :: "int option"
  has_post_node :: bool
  has_diff_fingerprint :: bool
  has_repeated_findings :: bool
  region :: "string list option"
  disabled_nodes :: "string list"
  node_overrides :: "string \<rightharpoonup> overlay_field list"

text \<open>What the environment answers during one iteration.\<close>

record tick =
  is_cancelled :: bool
  facts :: "string \<Rightarrow> bool"
  run_node :: "flow_node \<Rightarrow> node_context \<Rightarrow> engine_exn + node_result"
  post_node :: "flow_node \<Rightarrow> node_outcome \<Rightarrow> int \<Rightarrow> engine_exn option"
  diff_fingerprint :: string
  repeated_findings :: "string \<Rightarrow> int"
  report_path :: string

record engine_state =
  run_state :: flow_run_state
  stall_fp :: "string \<rightharpoonup> string"
  stall_streak :: "string \<rightharpoonup> nat"
  trace :: "recorder_event list"

definition emit :: "recorder_event \<Rightarrow> engine_state \<Rightarrow> engine_state" where
  "emit ev s = s\<lparr>trace := trace s @ [ev]\<rparr>"

section \<open>Node execution\<close>

definition advisory :: "flow_node \<Rightarrow> bool" where
  "advisory node = (case node of EvaluatorNode n \<Rightarrow> \<not> ev_blocking n | _ \<Rightarrow> False)"

definition skip_outcome :: "flow_node \<Rightarrow> node_outcome" where
  "skip_outcome node = (case node of
       EvaluatorNode _ \<Rightarrow> outcome_of ''accept''
     | ChecksNode _ \<Rightarrow> outcome_of ''pass''
     | ToolNode _ \<Rightarrow> outcome_of ''pass''
     | _ \<Rightarrow> outcome_of ''done'')"

text \<open>\<open>dataclasses.replace(node, **fields)\<close>: a field the class does not have is a \<open>TypeError\<close>.\<close>

fun overlay_agent :: "overlay_field \<Rightarrow> agent_node \<Rightarrow> agent_node" where
  "overlay_agent (OverlayProvider p) n = n\<lparr>a_provider := Some p\<rparr>"
| "overlay_agent (OverlayModel m) n = n\<lparr>a_model := Some m\<rparr>"
| "overlay_agent (OverlayReasoning r) n = n\<lparr>a_reasoning := Some r\<rparr>"

fun overlay_evaluator :: "overlay_field \<Rightarrow> evaluator_node \<Rightarrow> evaluator_node" where
  "overlay_evaluator (OverlayProvider p) n = n\<lparr>ev_provider := Some p\<rparr>"
| "overlay_evaluator (OverlayModel m) n = n\<lparr>ev_model := Some m\<rparr>"
| "overlay_evaluator (OverlayReasoning r) n = n\<lparr>ev_reasoning := Some r\<rparr>"

definition apply_overrides :: "engine \<Rightarrow> flow_node \<Rightarrow> engine_exn + flow_node" where
  "apply_overrides eng node =
     (case node_overrides eng (node_id node) of
        None \<Rightarrow> Inr node
      | Some [] \<Rightarrow> Inr node
      | Some flds \<Rightarrow>
          (case node of
             AgentNode n \<Rightarrow> Inr (AgentNode (fold overlay_agent flds n))
           | EvaluatorNode n \<Rightarrow> Inr (EvaluatorNode (fold overlay_evaluator flds n))
           | _ \<Rightarrow> Inl (BadOverlay (node_id node))))"

definition should_skip :: "engine \<Rightarrow> tick \<Rightarrow> flow_node \<Rightarrow> bool" where
  "should_skip eng t node =
     (if node_id node \<in> set (disabled_nodes eng) then True
      else case node_when node of
             None \<Rightarrow> False
           | Some w \<Rightarrow> facts t (w_fact w) \<noteq> w_equals w)"

definition skip_reason_of :: "engine \<Rightarrow> flow_node \<Rightarrow> skip_reason" where
  "skip_reason_of eng node =
     (if node_id node \<in> set (disabled_nodes eng) then DisabledByTask (node_id node)
      else case node_when node of
             None \<Rightarrow> DeterministicSkip ''?'' True
           | Some w \<Rightarrow> DeterministicSkip (w_fact w) (w_equals w))"

definition engine_refusal :: "engine \<Rightarrow> flow_run_state \<Rightarrow> edge \<Rightarrow> rework_refusal_reason option" where
  "engine_refusal eng rs e =
     rework_refusal (snapshot eng) rs e (max_fix_cycles eng) (max_total_fix_iterations eng)"

text \<open>The first \<open>rework\<close> edge of the node that would be refused now.\<close>

fun first_refusal :: "engine \<Rightarrow> flow_run_state \<Rightarrow> edge list \<Rightarrow> rework_refusal_reason option" where
  "first_refusal eng rs [] = None"
| "first_refusal eng rs (e # es) =
     (if e_outcome e \<noteq> Some ''rework'' then first_refusal eng rs es
      else case engine_refusal eng rs e of
             Some r \<Rightarrow> Some r
           | None \<Rightarrow> first_refusal eng rs es)"

definition node_rework_refusal ::
    "engine \<Rightarrow> flow_run_state \<Rightarrow> flow_node \<Rightarrow> rework_refusal_reason option" where
  "node_rework_refusal eng rs node =
     first_refusal eng rs (out_edges (snapshot eng) (node_id node))"

definition execute_node ::
    "engine \<Rightarrow> tick \<Rightarrow> flow_node \<Rightarrow> engine_state \<Rightarrow> engine_state \<times> (engine_exn + node_outcome)" where
  "execute_node eng t node s =
     (if should_skip eng t node then
        (emit (RecordSkip (node_id node) (skip_reason_of eng node) (subtask_order eng)) s,
         Inr (skip_outcome node))
      else if node_kind node \<notin> set (runners eng) then
        (s, Inl (EngineInternalError (NoRunner (node_kind node))))
      else
        let ctx = \<lparr>ctx_snapshot = snapshot eng, ctx_run_state = run_state s, ctx_node = node,
                   ctx_task_id = task_id eng, ctx_subtask_order = subtask_order eng,
                   ctx_rework_refusal = node_rework_refusal eng (run_state s) node\<rparr>;
            s1 = emit (RunNode (node_id node) ctx) s
        in case run_node t node ctx of
             Inl e \<Rightarrow> (s1, Inl e)
           | Inr result \<Rightarrow>
               if has_post_node eng then
                 let s2 = emit (PostNode (node_id node) (nr_outcome result) (nr_node_run_id result)) s1
                 in (case post_node t node (nr_outcome result) (nr_node_run_id result) of
                       Some e \<Rightarrow> (s2, Inl e)
                     | None \<Rightarrow> (s2, Inr (nr_outcome result)))
               else (s1, Inr (nr_outcome result)))"

section \<open>Edge resolution\<close>

definition select_edge :: "flow_node \<Rightarrow> edge list \<Rightarrow> node_outcome \<Rightarrow> engine_exn + edge" where
  "select_edge node es outcome =
     (let k = kind outcome;
          hit = List.find (\<lambda>e. e_outcome e = Some k) es;
          missing = Inl (EngineInternalError
            (NoOutcomeEdge (node_id node) k (map e_outcome es)))
      in if starts_with k ''route:'' then
           (case hit of
              Some e \<Rightarrow> Inr e
            | None \<Rightarrow> Inl (EngineInternalError (NoRouteEdge (node_id node) k)))
         else
           (case hit of
              Some e \<Rightarrow> Inr e
            | None \<Rightarrow>
                if k = ''done'' then
                  (case filter (\<lambda>e. e_outcome e = None) es of
                     [e] \<Rightarrow> Inr e
                   | _ \<Rightarrow> missing)
                else missing))"

section \<open>Budget bookkeeping\<close>

definition check_repeated_findings :: "engine \<Rightarrow> tick \<Rightarrow> string \<Rightarrow> string \<Rightarrow> stuck option" where
  "check_repeated_findings eng t nid loop =
     (if \<not> has_repeated_findings eng then None
      else if REPEATED_FINDINGS_LIMIT \<le> repeated_findings t nid
        then Some \<lparr>st_loop = Some loop, st_limit_name = ''repeated_findings''\<rparr>
      else None)"

definition check_no_file_change ::
    "engine \<Rightarrow> tick \<Rightarrow> string \<Rightarrow> engine_state \<Rightarrow> engine_state \<times> stuck option" where
  "check_no_file_change eng t loop s =
     (if \<not> has_diff_fingerprint eng then (s, None)
      else
        let fp = diff_fingerprint t;
            streak = (if stall_fp s loop = Some fp
                      then (case stall_streak s loop of None \<Rightarrow> 0 | Some n \<Rightarrow> n) + 1 else 0);
            s' = (if stall_fp s loop = Some fp
                  then s\<lparr>stall_streak := (stall_streak s)(loop \<mapsto> streak)\<rparr>
                  else s\<lparr>stall_streak := (stall_streak s)(loop \<mapsto> 0),
                         stall_fp := (stall_fp s)(loop \<mapsto> fp)\<rparr>)
        in if STALL_NO_CHANGE_LIMIT \<le> streak
           then (s', Some \<lparr>st_loop = Some loop, st_limit_name = ''no_file_change''\<rparr>)
           else (s', None))"

definition check_stall ::
    "engine \<Rightarrow> tick \<Rightarrow> string \<Rightarrow> string \<Rightarrow> engine_state \<Rightarrow> engine_state \<times> stuck option" where
  "check_stall eng t nid loop s =
     (case check_no_file_change eng t loop s of
        (s', Some st) \<Rightarrow> (s', Some st)
      | (s', None) \<Rightarrow> (s', check_repeated_findings eng t nid loop))"

text \<open>The keys one charged edge bumps, in order.\<close>

definition charge_keys :: "edge \<Rightarrow> string list" where
  "charge_keys e =
     GLOBAL_FIX_KEY #
     (case e_loop e of
        Some l \<Rightarrow> [l, total_key l]
      | None \<Rightarrow> (case e_budget e of Some _ \<Rightarrow> [edge_key e] | None \<Rightarrow> []))"

definition charge_rework :: "engine \<Rightarrow> edge \<Rightarrow> flow_run_state \<Rightarrow> flow_run_state \<times> stuck option" where
  "charge_rework eng e rs =
     (case engine_refusal eng rs e of
        Some r \<Rightarrow> (rs, Some \<lparr>st_loop = rr_loop r, st_limit_name = rr_limit_name r\<rparr>)
      | None \<Rightarrow>
          let rs1 = fst (record_rework rs)
          in (case e_loop e of
                Some l \<Rightarrow> (fst (bump (fst (bump rs1 l)) (total_key l)), None)
              | None \<Rightarrow> (case e_budget e of
                            Some _ \<Rightarrow> (fst (bump rs1 (edge_key e)), None)
                          | None \<Rightarrow> (rs1, None))))"

text \<open>One iteration of the loop in \<open>_reset_loops_at\<close>, and the loop.\<close>

definition reset_loop_of :: "edge \<Rightarrow> engine_state \<Rightarrow> engine_state" where
  "reset_loop_of e s =
     (if \<not> is_rework e then s
      else case e_loop e of
             Some l \<Rightarrow> s\<lparr>run_state := reset (run_state s) l,
                           stall_streak := (stall_streak s)(l := None),
                           stall_fp := (stall_fp s)(l := None)\<rparr>
           | None \<Rightarrow>
               (case e_budget e of
                  Some _ \<Rightarrow> s\<lparr>run_state := reset (run_state s) (edge_key e)\<rparr>
                | None \<Rightarrow> s))"

definition reset_loops_at :: "engine \<Rightarrow> string \<Rightarrow> engine_state \<Rightarrow> engine_state" where
  "reset_loops_at eng nid s = fold reset_loop_of (out_edges (snapshot eng) nid) s"

section \<open>The run loop\<close>

datatype run_end = Returned flow_run_result | Raised engine_exn

definition done_result :: "string \<Rightarrow> flow_run_result" where
  "done_result nid = \<lparr>fr_status = DONE, fr_final_node = nid, fr_stuck_loop = None,
     fr_limit_name = None, fr_failure_report_path = None\<rparr>"

text \<open>The edge is taken: the checkpoint moves and is saved, and a run confined to a region may end.\<close>

definition advance :: "engine \<Rightarrow> string \<Rightarrow> edge \<Rightarrow> engine_state \<Rightarrow> engine_state \<times> run_end option" where
  "advance eng nid e s =
     (let s1 = s\<lparr>run_state := (run_state s)\<lparr>current_node := Some (e_to e)\<rparr>\<rparr>;
          s2 = emit (SaveCheckpoint (run_state s1)) s1
      in case region eng of
           Some r \<Rightarrow> if e_to e \<notin> set r then (s2, Some (Returned (done_result nid))) else (s2, None)
         | None \<Rightarrow> (s2, None))"

definition park_stuck ::
    "engine \<Rightarrow> tick \<Rightarrow> string \<Rightarrow> stuck \<Rightarrow> engine_state \<Rightarrow> engine_state \<times> run_end option" where
  "park_stuck eng t nid st s =
     (let s1 = emit (WriteFailureReport nid (st_loop st) (st_limit_name st) (run_state s)
                       (subtask_order eng)) s;
          s2 = emit (SaveCheckpoint (run_state s1)) s1
      in (s2, Some (Returned \<lparr>fr_status = MANUAL_ACTION_REQUIRED, fr_final_node = nid,
            fr_stuck_loop = st_loop st, fr_limit_name = Some (st_limit_name st),
            fr_failure_report_path = Some (report_path t)\<rparr>)))"

definition take_rework ::
    "engine \<Rightarrow> tick \<Rightarrow> flow_node \<Rightarrow> edge \<Rightarrow> engine_state \<Rightarrow> engine_state \<times> run_end option" where
  "take_rework eng t node e s =
     (let (s1, stalled) =
            (case e_loop e of
               Some l \<Rightarrow> if \<not> advisory node then check_stall eng t (node_id node) l s else (s, None)
             | None \<Rightarrow> (s, None));
          (s2, refused) =
            (case stalled of
               Some st \<Rightarrow> (s1, Some st)
             | None \<Rightarrow>
                 (case charge_rework eng e (run_state s1) of
                    (rs, st) \<Rightarrow> (s1\<lparr>run_state := rs\<rparr>, st)))
      in case refused of
           Some st \<Rightarrow> park_stuck eng t (node_id node) st s2
         | None \<Rightarrow> advance eng (node_id node) e s2)"

definition after_node ::
    "engine \<Rightarrow> tick \<Rightarrow> flow_node \<Rightarrow> node_outcome \<Rightarrow> engine_state \<Rightarrow> engine_state \<times> run_end option" where
  "after_node eng t node outcome s =
     (let s1 = s\<lparr>run_state := mark_completed (run_state s) (node_id node)\<rparr>;
          es = out_edges (snapshot eng) (node_id node)
      in if es = [] then
           (emit (SaveCheckpoint (run_state s1)) s1, Some (Returned (done_result (node_id node))))
         else case select_edge node es outcome of
           Inl err \<Rightarrow> (s1, Some (Raised err))
         | Inr e \<Rightarrow>
             if is_rework e then take_rework eng t node e s1
             else advance eng (node_id node) e (reset_loops_at eng (node_id node) s1))"

definition engine_step :: "engine \<Rightarrow> tick \<Rightarrow> engine_state \<Rightarrow> engine_state \<times> run_end option" where
  "engine_step eng t s =
     (case current_node (run_state s) of
        None \<Rightarrow> (s, Some (Raised NoCurrentNode))
      | Some cur \<Rightarrow>
          if is_cancelled t then
            (emit (SaveCheckpoint (run_state s)) s, Some (Raised (FlowCancelled cur)))
          else case node_at (snapshot eng) cur of
            None \<Rightarrow> (s, Some (Raised (MissingNode cur)))
          | Some node0 \<Rightarrow>
              (case apply_overrides eng node0 of
                 Inl err \<Rightarrow> (s, Some (Raised err))
               | Inr node \<Rightarrow>
                   (case execute_node eng t node s of
                      (s1, Inl err) \<Rightarrow> (s1, Some (Raised err))
                    | (s1, Inr outcome) \<Rightarrow> after_node eng t node outcome s1)))"

definition entry_node_id :: "flow_snapshot \<Rightarrow> engine_exn + string" where
  "entry_node_id snap =
     (let targets = concat (map (\<lambda>(k, es). map e_to es) (adjacency snap));
          entries = filter (\<lambda>nid. nid \<notin> set targets) (remdups (map fst (nodes_by_id snap)))
      in case entries of
           [nid] \<Rightarrow> Inr nid
         | _ \<Rightarrow> Inl (EngineInternalError (EntryCount (sort entries))))"

text \<open>
  \<open>FlowEngine.run\<close>: seed the entry of a fresh run, then the loop, one tick per iteration.  No
  result means the ticks ran out before the loop ended.
\<close>

definition engine_run :: "engine \<Rightarrow> tick list \<Rightarrow> engine_state \<Rightarrow> engine_state \<times> run_end option" where
  "engine_run eng ticks s =
     (case current_node (run_state s) of
        Some _ \<Rightarrow> run_machine (engine_step eng) ticks s
      | None \<Rightarrow>
          (case entry_node_id (snapshot eng) of
             Inl err \<Rightarrow> (s, Some (Raised err))
           | Inr entry \<Rightarrow>
               run_machine (engine_step eng) ticks
                 (s\<lparr>run_state := (run_state s)\<lparr>current_node := Some entry\<rparr>\<rparr>)))"

end
