(* ===== verification/Security.thy ===== *)
theory Security
  imports Prelude
begin

text \<open>
  The leaf security checks: the identity validators of \<open>security/identifiers.py\<close>, the two
  fail-closed rank tables (\<open>security/profiles.py\<close> and \<open>core/observe_cadence.py\<close> share the shape,
  stated once as the locale \<open>rank_table\<close>), the forbidden-argument detector of
  \<open>security/forbidden_args.py\<close> and the front-matter scanner of \<open>security/injection.py\<close>.
\<close>

section \<open>Identifiers (security/identifiers.py)\<close>

definition windows_reserved_stems :: "string set" where
  "windows_reserved_stems =
     {''CON'', ''PRN'', ''AUX'', ''NUL''}
     \<union> (\<lambda>d. ''COM'' @ [d]) ` set ''123456789''
     \<union> (\<lambda>d. ''LPT'' @ [d]) ` set ''123456789''"

definition is_lower_alnum :: "char \<Rightarrow> bool" where
  "is_lower_alnum c = (let n = (of_char c :: nat) in (97 \<le> n \<and> n \<le> 122) \<or> (48 \<le> n \<and> n \<le> 57))"

definition is_task_id_char :: "char \<Rightarrow> bool" where
  "is_task_id_char c = (is_lower_alnum c \<or> c = CHR ''.'' \<or> c = CHR ''_'' \<or> c = CHR ''-'')"

definition is_node_id_char :: "char \<Rightarrow> bool" where
  "is_node_id_char c = (is_lower_alnum c \<or> c = CHR ''_'' \<or> c = CHR ''-'')"

text \<open>\<open>TASK_ID_PATTERN.fullmatch\<close> and \<open>NODE_ID_PATTERN.fullmatch\<close>.\<close>

definition task_id_pattern :: "string \<Rightarrow> bool" where
  "task_id_pattern s = (case s of [] \<Rightarrow> False
     | c # cs \<Rightarrow> is_lower_alnum c \<and> length cs \<le> 63 \<and> list_all is_task_id_char cs)"

definition node_id_pattern :: "string \<Rightarrow> bool" where
  "node_id_pattern s = (case s of [] \<Rightarrow> False
     | c # cs \<Rightarrow> is_lower_alnum c \<and> length cs \<le> 63 \<and> list_all is_node_id_char cs)"

definition forbidden_segment_chars :: "char set" where
  "forbidden_segment_chars = {CHR ''/'', CHR 0x5C, CHR '':'', CHR ''<'', CHR ''>'', CHR 0x22,
     CHR ''|'', CHR ''?'', CHR ''*''}"

definition is_windows_reserved_name :: "string \<Rightarrow> bool" where
  "is_windows_reserved_name name =
     (let stem = takeWhile (\<lambda>c. c \<noteq> CHR ''.'') name in py_upper stem \<in> windows_reserved_stems)"

definition is_valid_task_id :: "string \<Rightarrow> bool" where
  "is_valid_task_id task_id =
     (if \<not> task_id_pattern task_id then False
      else if ends_with task_id ''.'' then False
      else \<not> is_windows_reserved_name task_id)"

definition is_valid_node_id :: "string \<Rightarrow> bool" where
  "is_valid_node_id node_id = (node_id_pattern node_id \<and> \<not> is_windows_reserved_name node_id)"

definition is_segment_char :: "char \<Rightarrow> bool" where
  "is_segment_char ch = (\<not> (ch \<in> forbidden_segment_chars \<or> (of_char ch :: nat) < 32
                          \<or> (of_char ch :: nat) = 127))"

definition is_portable_path_segment :: "string \<Rightarrow> bool" where
  "is_portable_path_segment segment =
     (if segment = [] \<or> segment = ''.'' \<or> segment = ''..'' then False
      else if last segment = CHR ''.'' \<or> last segment = CHR '' '' then False
      else if \<not> list_all is_segment_char segment then False
      else \<not> is_windows_reserved_name segment)"

lemma of_char_neq: "(of_char c :: nat) \<noteq> of_char d \<Longrightarrow> c \<noteq> d"
  by auto

lemma task_id_char_ok: "is_task_id_char c \<Longrightarrow> is_segment_char c \<and> c \<noteq> CHR '' ''"
  by (auto simp: is_task_id_char_def is_lower_alnum_def is_segment_char_def
      forbidden_segment_chars_def Let_def)

lemma node_id_char_ok: "is_node_id_char c \<Longrightarrow> is_task_id_char c \<and> c \<noteq> CHR ''.''"
  by (auto simp: is_task_id_char_def is_node_id_char_def is_lower_alnum_def Let_def)

lemma lower_alnum_node_id_char: "is_lower_alnum c \<Longrightarrow> is_node_id_char c"
  by (simp add: is_node_id_char_def)

lemma ends_with_dot: "s \<noteq> [] \<Longrightarrow> ends_with s ''.'' \<longleftrightarrow> last s = CHR ''.''"
  by (cases s rule: rev_cases) (auto simp: ends_with_def)

lemma id_segment_portable:
  assumes "s = c # cs" and "is_lower_alnum c" and cs: "list_all is_task_id_char cs"
    and "last s \<noteq> CHR ''.''" and "\<not> is_windows_reserved_name s"
  shows "is_portable_path_segment s"
proof -
  have c: "is_task_id_char c" "c \<noteq> CHR ''.''"
    using assms(2) lower_alnum_node_id_char node_id_char_ok by blast+
  have all: "list_all is_task_id_char s" using assms(1) c cs by simp
  moreover have "last s \<in> set s" using assms(1) by simp
  ultimately have "last s \<noteq> CHR '' ''" using task_id_char_ok by (auto simp: list_all_iff)
  moreover have "list_all is_segment_char s"
    using all task_id_char_ok by (auto simp: list_all_iff)
  moreover have "s \<noteq> []" "s \<noteq> ''.''" "s \<noteq> ''..''" using assms(1) c(2) by auto
  ultimately show ?thesis
    using assms(4,5) by (simp add: is_portable_path_segment_def)
qed

lemma valid_task_id_portable:
  assumes "is_valid_task_id s"
  shows "is_portable_path_segment s"
proof -
  from assms have v: "task_id_pattern s" "\<not> ends_with s ''.''" "\<not> is_windows_reserved_name s"
    by (auto simp: is_valid_task_id_def split: if_splits)
  from v(1) obtain c cs where s: "s = c # cs" "is_lower_alnum c" "list_all is_task_id_char cs"
    by (auto simp: task_id_pattern_def split: list.splits)
  from v(2) s(1) have "last s \<noteq> CHR ''.''" using ends_with_dot [of s] by simp
  with s v(3) show ?thesis by (intro id_segment_portable)
qed

lemma valid_node_id_portable:
  assumes "is_valid_node_id s"
  shows "is_portable_path_segment s"
proof -
  from assms have v: "node_id_pattern s" "\<not> is_windows_reserved_name s"
    by (auto simp: is_valid_node_id_def)
  from v(1) obtain c cs where s: "s = c # cs" "is_lower_alnum c" "list_all is_node_id_char cs"
    by (auto simp: node_id_pattern_def split: list.splits)
  have all: "list_all is_node_id_char s" using s lower_alnum_node_id_char by simp
  have "last s \<in> set s" using s(1) by simp
  with all have "last s \<noteq> CHR ''.''" using node_id_char_ok by (auto simp: list_all_iff)
  moreover have "list_all is_task_id_char cs"
    using s(3) node_id_char_ok by (auto simp: list_all_iff)
  ultimately show ?thesis using s v(2) by (intro id_segment_portable)
qed

lemma segment_char_no_separator: "is_segment_char c \<Longrightarrow> c \<noteq> CHR ''/'' \<and> c \<noteq> CHR 0x5C"
  by (auto simp: is_segment_char_def forbidden_segment_chars_def)

lemma portable_no_separator:
  assumes "is_portable_path_segment s"
  shows "CHR ''/'' \<notin> set s \<and> CHR 0x5C \<notin> set s \<and> s \<noteq> [] \<and> s \<noteq> ''..''"
proof -
  from assms have "list_all is_segment_char s" "s \<noteq> []" "s \<noteq> ''..''"
    by (auto simp: is_portable_path_segment_def split: if_splits)
  then show ?thesis using segment_char_no_separator by (auto simp: list_all_iff)
qed

text \<open>
  Path identity: task ids and node ids are portable segments, and an artifact path joined from
  portable segments splits back into exactly those segments, none of them a traversal.
\<close>

theorem portable_segments_roundtrip:
  assumes "segs \<noteq> []"
    and "\<forall>s\<in>set segs. is_valid_task_id s \<or> is_valid_node_id s \<or> is_portable_path_segment s"
  shows "split_on (CHR ''/'') (join_with (CHR ''/'') segs) = segs \<and>
    (\<forall>s\<in>set segs. is_portable_path_segment s \<and> s \<noteq> ''..'' \<and> s \<noteq> [])"
proof -
  have p: "\<forall>s\<in>set segs. is_portable_path_segment s"
    using assms(2) valid_task_id_portable valid_node_id_portable by blast
  then have "\<forall>s\<in>set segs. CHR ''/'' \<notin> set s" using portable_no_separator by blast
  with assms(1) p show ?thesis
    using split_join_with portable_no_separator by blast
qed

theorem portable_segments_roundtrip_witness:
  "split_on (CHR ''/'') (join_with (CHR ''/'') [''task-001'', ''review'', ''plan.md'']) =
     [''task-001'', ''review'', ''plan.md'']"
proof -
  have "is_valid_task_id ''task-001''" by code_simp
  moreover have "is_valid_node_id ''review''" by code_simp
  moreover have "is_portable_path_segment ''plan.md''" by code_simp
  ultimately have "\<forall>s\<in>set [''task-001'', ''review'', ''plan.md''].
      is_valid_task_id s \<or> is_valid_node_id s \<or> is_portable_path_segment s"
    by (simp only: list.set ball_simps HOL.simp_thms)
  from portable_segments_roundtrip [OF _ this] show ?thesis by blast
qed

section \<open>Rank tables\<close>

text \<open>
  Both orderings are a table of ranks and a comparison that answers \<open>False\<close> when either side is
  not in the table.  The laws below are all the router and the validator use of them.
\<close>

locale rank_table =
  fixes rank :: "string \<Rightarrow> nat option"
    and le :: "string \<Rightarrow> string \<Rightarrow> bool"
  assumes le_iff: "le a b \<longleftrightarrow> (\<exists>i j. rank a = Some i \<and> rank b = Some j \<and> i \<le> j)"
begin

lemma known: "le a b \<Longrightarrow> rank a \<noteq> None \<and> rank b \<noteq> None"
  by (auto simp: le_iff)

lemma fail_closed: "rank a = None \<or> rank b = None \<Longrightarrow> \<not> le a b"
  by (auto simp: le_iff)

lemma le_refl: "rank a \<noteq> None \<Longrightarrow> le a a"
  by (auto simp: le_iff)

lemma le_trans: "le a b \<Longrightarrow> le b c \<Longrightarrow> le a c"
  by (auto simp: le_iff)

lemma le_total: "rank a \<noteq> None \<Longrightarrow> rank b \<noteq> None \<Longrightarrow> le a b \<or> le b a"
  by (auto simp: le_iff)

end

subsection \<open>Permission profiles (security/profiles.py)\<close>

definition profile_strictness :: "string \<rightharpoonup> nat" where
  "profile_strictness = map_of [(''read-only'', 0), (''workspace-write'', 1)]"

definition is_same_or_stricter :: "string \<Rightarrow> string \<Rightarrow> bool" where
  "is_same_or_stricter candidate reference =
     (case (profile_strictness candidate, profile_strictness reference) of
        (Some c, Some r) \<Rightarrow> c \<le> r
      | _ \<Rightarrow> False)"

interpretation profiles: rank_table profile_strictness is_same_or_stricter
  by unfold_locales (auto simp: is_same_or_stricter_def split: option.splits)

lemma stricter_than_read_only:
  "is_same_or_stricter p ''read-only'' \<Longrightarrow> p = ''read-only''"
  by (auto simp: is_same_or_stricter_def profile_strictness_def split: if_splits option.splits)

section \<open>Forbidden arguments (security/forbidden_args.py)\<close>

definition FORBIDDEN_SANDBOX_VALUE :: string where
  "FORBIDDEN_SANDBOX_VALUE = ''danger-full-access''"

definition FORBIDDEN_FLAGS :: "string set" where
  "FORBIDDEN_FLAGS = {''--yolo'', ''--ignore-rules'', ''--allow-dangerously-skip-permissions''}"

definition SANDBOX_FLAGS :: "string set" where
  "SANDBOX_FLAGS = {''--sandbox'', ''-s''}"

definition PERMISSION_MODE_FLAG :: string where
  "PERMISSION_MODE_FLAG = ''--permission-mode''"

definition BYPASS_PERMISSION_MODE :: string where
  "BYPASS_PERMISSION_MODE = ''bypassPermissions''"

datatype forbidden_reason =
    BypassFlag string
  | FullAccessSandbox
  | SandboxValueMissing string
  | PermissionBypass

text \<open>\<open>token.partition("=")\<close>: the flag, whether the separator is there, and the rest.\<close>

definition partition_eq :: "string \<Rightarrow> string \<times> bool \<times> string" where
  "partition_eq token = (takeWhile (\<lambda>c. c \<noteq> CHR ''='') token, CHR ''='' \<in> set token,
     drop 1 (dropWhile (\<lambda>c. c \<noteq> CHR ''='') token))"

definition peek_arg :: "string list \<Rightarrow> string" where
  "peek_arg rest = (case rest of [] \<Rightarrow> [] | v # _ \<Rightarrow> v)"

definition arg_reason :: "string \<Rightarrow> string list \<Rightarrow> forbidden_reason list" where
  "arg_reason token rest =
     (let (flag, separator, inline) = partition_eq token;
          value = (if separator then inline else peek_arg rest)
      in if starts_with flag ''--dangerously'' \<or> flag \<in> FORBIDDEN_FLAGS then [BypassFlag token]
         else if flag \<in> SANDBOX_FLAGS then
           (if value = FORBIDDEN_SANDBOX_VALUE then [FullAccessSandbox]
            else if value = [] then [SandboxValueMissing flag] else [])
         else if flag = PERMISSION_MODE_FLAG \<and> value = BYPASS_PERMISSION_MODE then [PermissionBypass]
         else [])"

fun find_forbidden_args :: "string list \<Rightarrow> forbidden_reason list" where
  "find_forbidden_args [] = []"
| "find_forbidden_args (token # rest) = arg_reason token rest @ find_forbidden_args rest"

lemmas arg_defs = arg_reason_def partition_eq_def peek_arg_def FORBIDDEN_SANDBOX_VALUE_def
  FORBIDDEN_FLAGS_def SANDBOX_FLAGS_def PERMISSION_MODE_FLAG_def BYPASS_PERMISSION_MODE_def

text \<open>What a CLI that accepts both spellings of a valued flag would be told.\<close>

definition selects :: "string \<Rightarrow> string \<Rightarrow> string list \<Rightarrow> bool" where
  "selects flag v args \<longleftrightarrow>
     (\<exists>pre post. args = pre @ [flag, v] @ post \<or> args = pre @ [flag @ CHR ''='' # v] @ post)"

lemma find_forbidden_args_append_Nil:
  "find_forbidden_args (xs @ ys) = [] \<Longrightarrow> find_forbidden_args ys = []"
  by (induction xs) auto

lemma partition_eq_no_sep: "CHR ''='' \<notin> set flag \<Longrightarrow> partition_eq flag = (flag, False, [])"
proof -
  assume "CHR ''='' \<notin> set flag"
  moreover from this have "takeWhile (\<lambda>c. c \<noteq> CHR ''='') flag = flag"
    "dropWhile (\<lambda>c. c \<noteq> CHR ''='') flag = []"
    by (induction flag) auto
  ultimately show ?thesis by (simp only: partition_eq_def drop_Nil)
qed

lemma partition_eq_sep: "CHR ''='' \<notin> set flag \<Longrightarrow> partition_eq (flag @ CHR ''='' # v) = (flag, True, v)"
proof -
  assume "CHR ''='' \<notin> set flag"
  then have "takeWhile (\<lambda>c. c \<noteq> CHR ''='') (flag @ CHR ''='' # v) = flag"
    "dropWhile (\<lambda>c. c \<noteq> CHR ''='') (flag @ CHR ''='' # v) = CHR ''='' # v"
    by (induction flag) auto
  then show ?thesis unfolding partition_eq_def by (simp only: list.set set_append) simp
qed

lemma arg_reason_sep:
  "CHR ''='' \<notin> set flag \<Longrightarrow> arg_reason flag (v # rest) = [] \<longleftrightarrow> arg_reason (flag @ CHR ''='' # v) rest = []"
  by (simp add: arg_reason_def partition_eq_no_sep partition_eq_sep peek_arg_def)

text \<open>
  C25. An argument list the detector passes never selects full access, in either spelling: no
  \<open>--dangerously*\<close> or listed bypass flag anywhere, no sandbox flag with the full-access value or
  with no value, no permission mode that bypasses the prompts.
\<close>

theorem forbidden_args_complete:
  assumes "find_forbidden_args args = []"
  shows "(\<forall>a\<in>set args. \<not> starts_with a ''--dangerously'' \<and> a \<notin> FORBIDDEN_FLAGS) \<and>
    (\<forall>f\<in>SANDBOX_FLAGS. \<not> selects f FORBIDDEN_SANDBOX_VALUE args \<and> \<not> selects f [] args) \<and>
    \<not> selects PERMISSION_MODE_FLAG BYPASS_PERMISSION_MODE args"
proof -
  have clean: "arg_reason a post = []" if "args = pre @ a # post" for pre a post
    using assms that find_forbidden_args_append_Nil [of pre "a # post"] by simp
  have no_flag: "\<not> starts_with a ''--dangerously'' \<and> a \<notin> FORBIDDEN_FLAGS" if "a \<in> set args" for a
  proof -
    from that obtain pre post where "args = pre @ a # post" using split_list by metis
    then have c: "arg_reason a post = []" by (rule clean)
    have "starts_with (takeWhile (\<lambda>c. c \<noteq> CHR ''='') a) ''--dangerously''" if "starts_with a ''--dangerously''"
    proof -
      from that obtain r where "a = ''--dangerously'' @ r" by (auto simp only: starts_with_iff)
      then show ?thesis by simp
    qed
    moreover have "takeWhile (\<lambda>c. c \<noteq> CHR ''='') a = a" if "a \<in> FORBIDDEN_FLAGS"
      using that by (auto simp: FORBIDDEN_FLAGS_def)
    moreover from c have "\<not> starts_with (takeWhile (\<lambda>c. c \<noteq> CHR ''='') a) ''--dangerously''"
      "takeWhile (\<lambda>c. c \<noteq> CHR ''='') a \<notin> FORBIDDEN_FLAGS"
      by (auto simp only: arg_reason_def partition_eq_def Let_def prod.case list.simps split: if_splits)
    ultimately show ?thesis by metis
  qed
  have no_sel: "\<not> selects f v args"
    if "CHR ''='' \<notin> set f" and bad: "\<And>rest. arg_reason f (v # rest) \<noteq> []" for f v
  proof
    assume "selects f v args"
    then obtain pre post where "args = pre @ f # (v # post) \<or> args = pre @ (f @ CHR ''='' # v) # post"
      by (auto simp: selects_def)
    then show False using clean bad arg_reason_sep [OF that(1)] by blast
  qed
  have "\<not> selects f FORBIDDEN_SANDBOX_VALUE args \<and> \<not> selects f [] args" if "f \<in> SANDBOX_FLAGS" for f
  proof -
    have f: "CHR ''='' \<notin> set f" using that by (auto simp: SANDBOX_FLAGS_def)
    have "arg_reason f (v # rest) \<noteq> []" if "v = FORBIDDEN_SANDBOX_VALUE \<or> v = []" for v rest
      using that \<open>f \<in> SANDBOX_FLAGS\<close>
      by (auto simp: arg_reason_def partition_eq_no_sep [OF f] peek_arg_def split: if_splits)
    then show ?thesis using no_sel [OF f] by blast
  qed
  moreover have "\<not> selects PERMISSION_MODE_FLAG BYPASS_PERMISSION_MODE args"
    by (rule no_sel) (auto simp: arg_defs)
  ultimately show ?thesis using no_flag by blast
qed

theorem forbidden_args_complete_witness:
  "\<not> selects ''--sandbox'' ''danger-full-access'' [''--sandbox'', ''read-only'', ''-c'', ''x=1'']"
proof -
  have h: "find_forbidden_args [''--sandbox'', ''read-only'', ''-c'', ''x=1''] = []" by code_simp
  have "''--sandbox'' \<in> SANDBOX_FLAGS" by (simp add: SANDBOX_FLAGS_def)
  then show ?thesis
    using forbidden_args_complete [OF h] by (simp add: FORBIDDEN_SANDBOX_VALUE_def)
qed

section \<open>Front-matter scan (security/injection.py)\<close>

definition INJECTION_SUBSTRINGS :: "string list" where
  "INJECTION_SUBSTRINGS = ['';'', ''`'', ''|'', ''$('', [CHR 0x0A], [CHR 0x0D]]"

datatype injection_reason = StartsWithDash | ArgvShapedToken | ForbiddenFlagShape

record injection_finding =
  finding_key :: string
  finding_reason :: injection_reason

fun scan_value :: "string \<Rightarrow> yval \<Rightarrow> injection_finding option"
  and scan_items :: "string \<Rightarrow> (string \<times> yval) list \<Rightarrow> injection_finding option"
  and scan_elems :: "string \<Rightarrow> nat \<Rightarrow> yval list \<Rightarrow> injection_finding option" where
  "scan_value key (YStr value) =
     (let stripped = py_strip value in
      if starts_with stripped ''-'' then Some \<lparr>finding_key = key, finding_reason = StartsWithDash\<rparr>
      else if list_ex (contains_sub value) INJECTION_SUBSTRINGS
        then Some \<lparr>finding_key = key, finding_reason = ArgvShapedToken\<rparr>
      else if find_forbidden_args [stripped] \<noteq> []
        then Some \<lparr>finding_key = key, finding_reason = ForbiddenFlagShape\<rparr>
      else None)"
| "scan_value key (YMap kvs) = scan_items key kvs"
| "scan_value key (YList vs) = scan_elems key 0 vs"
| "scan_value key v = None"
| "scan_items key [] = None"
| "scan_items key ((sub_key, sub_value) # rest) =
     (case scan_value (key @ ''.'' @ sub_key) sub_value of
        Some f \<Rightarrow> Some f
      | None \<Rightarrow> scan_items key rest)"
| "scan_elems key i [] = None"
| "scan_elems key i (v # rest) =
     (case scan_value (key @ ''['' @ show_nat i @ '']'') v of
        Some f \<Rightarrow> Some f
      | None \<Rightarrow> scan_elems key (Suc i) rest)"

fun scan_frontmatter :: "ydict \<Rightarrow> injection_finding option" where
  "scan_frontmatter [] = None"
| "scan_frontmatter ((key, value) # rest) =
     (case scan_value key value of Some f \<Rightarrow> Some f | None \<Rightarrow> scan_frontmatter rest)"

text \<open>The text leaves of a document, and what it means for one to be plain.\<close>

fun text_leaves :: "yval \<Rightarrow> string list" where
  "text_leaves (YStr s) = [s]"
| "text_leaves (YMap kvs) = concat (map (\<lambda>kv. text_leaves (snd kv)) kvs)"
| "text_leaves (YList vs) = concat (map text_leaves vs)"
| "text_leaves v = []"

definition plain_text :: "string \<Rightarrow> bool" where
  "plain_text s \<longleftrightarrow> \<not> starts_with (py_strip s) ''-'' \<and>
     (\<forall>t\<in>set INJECTION_SUBSTRINGS. \<not> contains_sub s t) \<and> find_forbidden_args [py_strip s] = []"

lemma scan_value_None:
  "scan_value key v = None \<longleftrightarrow> (\<forall>s\<in>set (text_leaves v). plain_text s)"
  "scan_items key kvs = None \<longleftrightarrow> (\<forall>kv\<in>set kvs. \<forall>s\<in>set (text_leaves (snd kv)). plain_text s)"
  "scan_elems key i vs = None \<longleftrightarrow> (\<forall>v\<in>set vs. \<forall>s\<in>set (text_leaves v). plain_text s)"
  by (induction key v and key kvs and key i vs rule: scan_value_scan_items_scan_elems.induct)
    (auto simp: plain_text_def list_ex_iff Let_def split: option.splits)

text \<open>
  The scan passes a front-matter exactly when every text in it, however deeply nested in
  mappings and lists, is plain: it does not start with a dash, carries no argv-shaped token and no
  forbidden flag.
\<close>

theorem scan_frontmatter_complete:
  "scan_frontmatter fm = None \<longleftrightarrow> list_all (\<lambda>(key, v). list_all plain_text (text_leaves v)) fm"
proof (induction fm rule: scan_frontmatter.induct)
  case 1
  then show ?case by simp
next
  case (2 key v rest)
  then show ?case
    using scan_value_None(1) [of key v] by (cases "scan_value key v") (auto simp: list_all_iff)
qed

end
