(* ===== verification/Cadence.thy ===== *)
theory Cadence
  imports FlowSchema Security
begin

text \<open>
  The two policy tables the flow validator consults: the reasoning levels each provider accepts
  (\<open>providers/capabilities.py\<close>) and the supervisor's observation cadence
  (\<open>core/observe_cadence.py\<close>), whose ranking is the second interpretation of \<open>rank_table\<close>.
\<close>

section \<open>Reasoning levels (providers/capabilities.py)\<close>

definition CODEX_REASONING_ALIASES :: "(string \<times> string) list" where
  "CODEX_REASONING_ALIASES = [(''minimal'', ''minimal''), (''low'', ''low''), (''medium'', ''medium''),
     (''high'', ''high''), (''xhigh'', ''xhigh''), (''max'', ''xhigh'')]"

definition CLAUDE_REASONING_LEVELS :: "string list" where
  "CLAUDE_REASONING_LEVELS = [''low'', ''medium'', ''high'', ''xhigh'', ''max'']"

definition CODEX_REASONING_LEVELS :: "string list" where
  "CODEX_REASONING_LEVELS = map fst CODEX_REASONING_ALIASES"

fun reasoning_levels_for :: "provider_id \<Rightarrow> string list" where
  "reasoning_levels_for CODEX = CODEX_REASONING_LEVELS"
| "reasoning_levels_for CLAUDE = CLAUDE_REASONING_LEVELS"

definition all_reasoning_levels :: "string list" where
  "all_reasoning_levels = concat (map reasoning_levels_for [CODEX, CLAUDE])"

definition is_reasoning_supported :: "provider_id \<Rightarrow> string \<Rightarrow> bool" where
  "is_reasoning_supported provider reasoning = (reasoning \<in> set (reasoning_levels_for provider))"

definition normalize_codex_reasoning :: "string \<Rightarrow> string option" where
  "normalize_codex_reasoning reasoning = map_of CODEX_REASONING_ALIASES reasoning"

definition map_reasoning_for_provider_switch ::
    "provider_id \<Rightarrow> provider_id \<Rightarrow> string option \<Rightarrow> string option" where
  "map_reasoning_for_provider_switch from_provider to_provider reasoning =
     (if from_provider = CODEX \<and> to_provider = CLAUDE \<and> reasoning = Some ''minimal''
      then Some ''low'' else None)"

text \<open>
  Reasoning translation is closed.  The level a provider switch carries over is one the target
  provider accepts, and every level Codex accepts has a configuration value Codex accepts, which
  normalising again does not change.
\<close>

theorem reasoning_translation_closed:
  "(case map_reasoning_for_provider_switch p q r of
      None \<Rightarrow> True | Some r' \<Rightarrow> is_reasoning_supported q r') \<and>
   (is_reasoning_supported CODEX s \<longleftrightarrow> normalize_codex_reasoning s \<noteq> None) \<and>
   (case normalize_codex_reasoning s of
      None \<Rightarrow> True
    | Some c \<Rightarrow> is_reasoning_supported CODEX c \<and> normalize_codex_reasoning c = Some c)"
proof (intro conjI)
  show "case map_reasoning_for_provider_switch p q r of None \<Rightarrow> True | Some r' \<Rightarrow> is_reasoning_supported q r'"
    by (simp add: map_reasoning_for_provider_switch_def is_reasoning_supported_def CLAUDE_REASONING_LEVELS_def)
  show "is_reasoning_supported CODEX s \<longleftrightarrow> normalize_codex_reasoning s \<noteq> None"
    by (auto simp: is_reasoning_supported_def CODEX_REASONING_LEVELS_def normalize_codex_reasoning_def
        map_of_eq_None_iff)
  show "case normalize_codex_reasoning s of None \<Rightarrow> True
      | Some c \<Rightarrow> is_reasoning_supported CODEX c \<and> normalize_codex_reasoning c = Some c"
    by (auto simp: normalize_codex_reasoning_def CODEX_REASONING_ALIASES_def is_reasoning_supported_def
        CODEX_REASONING_LEVELS_def split: if_splits option.splits)
qed

section \<open>Observation cadence (core/observe_cadence.py)\<close>

definition MODE_RANK :: "string \<rightharpoonup> nat" where
  "MODE_RANK = map_of [(observe_mode_value OBSERVE_NONE, 0), (observe_mode_value OBSERVE_EVENTS, 1),
     (observe_mode_value OBSERVE_SELECTED, 2), (observe_mode_value OBSERVE_ALL, 3)]"

definition is_same_or_narrower :: "string \<Rightarrow> string \<Rightarrow> bool" where
  "is_same_or_narrower candidate reference =
     (case (MODE_RANK candidate, MODE_RANK reference) of
        (Some c, Some r) \<Rightarrow> c \<le> r
      | _ \<Rightarrow> False)"

definition resolve_mode :: "observe_mode \<Rightarrow> observe_mode option \<Rightarrow> observe_mode" where
  "resolve_mode global_mode flow_mode = (case flow_mode of Some m \<Rightarrow> m | None \<Rightarrow> global_mode)"

definition triggers_for :: "string \<Rightarrow> bool \<Rightarrow> string option \<Rightarrow> bool \<Rightarrow> string list" where
  "triggers_for outcome_kind exhausted status fell_back =
     (if outcome_kind = ''rework'' \<or> exhausted then [''rework''] else []) @
     (if status = Some ''failed'' then [''failure''] else []) @
     (if fell_back then [''fallback''] else [])"

fun should_observe :: "observe_mode \<Rightarrow> string \<Rightarrow> string list \<Rightarrow> string list \<Rightarrow> string list \<Rightarrow> bool" where
  "should_observe OBSERVE_NONE nid include_nodes enabled triggers = False"
| "should_observe OBSERVE_ALL nid include_nodes enabled triggers = True"
| "should_observe OBSERVE_SELECTED nid include_nodes enabled triggers = (nid \<in> set include_nodes)"
| "should_observe OBSERVE_EVENTS nid include_nodes enabled triggers =
     (\<exists>t\<in>set triggers. t \<in> set enabled)"

interpretation cadence: rank_table MODE_RANK is_same_or_narrower
  by unfold_locales (auto simp: is_same_or_narrower_def split: option.splits)

lemma mode_rank_value [simp]:
  "MODE_RANK (observe_mode_value m) =
     Some (case m of OBSERVE_NONE \<Rightarrow> 0 | OBSERVE_EVENTS \<Rightarrow> 1 | OBSERVE_SELECTED \<Rightarrow> 2 | OBSERVE_ALL \<Rightarrow> 3)"
  by (cases m) (simp_all add: MODE_RANK_def)

lemma narrower_cases:
  "is_same_or_narrower (observe_mode_value m) (observe_mode_value g) \<longleftrightarrow>
     m = g \<or> m = OBSERVE_NONE \<or> g = OBSERVE_ALL \<or> (m = OBSERVE_EVENTS \<and> g = OBSERVE_SELECTED)"
  by (cases m; cases g) (simp_all add: is_same_or_narrower_def MODE_RANK_def)

text \<open>
  What narrowing the cadence guarantees, step by step.  A flow mode ranked no wider than the
  global one never observes a step the global mode would not have observed, with one exception: a
  flow that narrows \<open>selected\<close> to \<open>events\<close> observes a deviating step outside the operator's node
  list.  The documentation of \<open>is_same_or_narrower\<close> claims it for every pair.
\<close>

theorem narrowing_per_step:
  "is_same_or_narrower (observe_mode_value m) (observe_mode_value g) \<Longrightarrow>
     should_observe m nid include_nodes enabled triggers \<Longrightarrow>
     should_observe g nid include_nodes enabled triggers \<or>
     (m = OBSERVE_EVENTS \<and> g = OBSERVE_SELECTED \<and> nid \<notin> set include_nodes)"
  unfolding narrower_cases by (cases g) auto

theorem narrowing_per_step_witness:
  "is_same_or_narrower (observe_mode_value OBSERVE_EVENTS) (observe_mode_value OBSERVE_SELECTED) \<and>
   should_observe OBSERVE_EVENTS ''fixing'' [''review''] [''failure''] (triggers_for ''done'' False (Some ''failed'') False) \<and>
   \<not> should_observe OBSERVE_SELECTED ''fixing'' [''review''] [''failure''] (triggers_for ''done'' False (Some ''failed'') False) \<and>
   ''fixing'' \<notin> set [''review'']"
  using narrowing_per_step [of OBSERVE_EVENTS OBSERVE_SELECTED "''fixing''" "[''review'']" "[''failure'']"
      "triggers_for ''done'' False (Some ''failed'') False"]
    narrower_cases [of OBSERVE_EVENTS OBSERVE_SELECTED]
  by (simp add: triggers_for_def)

end
