(* ===== verification/OutputPolicy.thy ===== *)
theory OutputPolicy
  imports FlowSchema Security
begin

text \<open>
  Where a flow may write: the path predicates and the resolved output policy of
  \<open>core/flow/output_policy.py\<close>, the directory names of \<open>runtime_layout.py\<close>, and the two standard
  library functions the report-directory rules use (\<open>posixpath.normpath\<close>, \<open>str.casefold\<close>).
\<close>

section \<open>Standard library\<close>

text \<open>
  \<open>str.casefold\<close> on code points below 256: the upper-case letters fold to the lower-case ones and the
  sharp s to two letters; the micro sign, whose folding lies outside that range, is kept.
\<close>

definition fold_char :: "char \<Rightarrow> string" where
  "fold_char c = (let n = (of_char c :: nat) in
     if (65 \<le> n \<and> n \<le> 90) \<or> (192 \<le> n \<and> n \<le> 222 \<and> n \<noteq> 215) then [char_of (n + 32)]
     else if n = 223 then ''ss'' else [c])"

definition casefold :: "string \<Rightarrow> string" where
  "casefold s = concat (map fold_char s)"

definition strip_slashes :: "string \<Rightarrow> string" where
  "strip_slashes s = strip_on (\<lambda>c. c = CHR ''/'') s"

text \<open>\<open>posixpath.normpath\<close>: the component stack is kept reversed.\<close>

fun norm_components :: "bool \<Rightarrow> string list \<Rightarrow> string list \<Rightarrow> string list" where
  "norm_components absolute stack [] = rev stack"
| "norm_components absolute stack (seg # segs) =
     (if seg = [] \<or> seg = ''.'' then norm_components absolute stack segs
      else if seg \<noteq> ''..'' \<or> (\<not> absolute \<and> stack = []) \<or> (stack \<noteq> [] \<and> hd stack = ''..'')
        then norm_components absolute (seg # stack) segs
      else norm_components absolute (tl stack) segs)"

definition normpath :: "string \<Rightarrow> string" where
  "normpath path =
     (if path = [] then ''.''
      else
        let slashes = (if starts_with path ''//'' \<and> \<not> starts_with path ''///'' then ''//''
                       else if starts_with path ''/'' then ''/'' else []);
            p = slashes @ join_with (CHR ''/'') (norm_components (slashes \<noteq> []) [] (split_on (CHR ''/'') path))
        in if p = [] then ''.'' else p)"

section \<open>Directory names (runtime_layout.py)\<close>

definition CONTROL_HOME_DIRNAME :: string where "CONTROL_HOME_DIRNAME = ''.worc''"

definition PRIVATE_HOME_DIRNAME :: string where "PRIVATE_HOME_DIRNAME = ''.worc''"

definition EXCHANGE_HOME_DIRNAME :: string where "EXCHANGE_HOME_DIRNAME = ''.worc-io''"

section \<open>Resolved output policy (core/flow/output_policy.py)\<close>

definition RESEARCH_DIR :: string where "RESEARCH_DIR = ''docs/research''"

definition PRIVATE_REPORT_DIR :: string where
  "PRIVATE_REPORT_DIR = PRIVATE_HOME_DIRNAME @ ''/security-reports''"

record resolved_output_policy =
  ro_policy :: output_policy
  report_subdir :: "string option"
  required_files :: "string list"
  private_report :: bool

text \<open>\<open>report_subdir.rsplit("/", 1)[0]\<close>: everything before the last slash, or the whole string.\<close>

definition before_last_slash :: "string \<Rightarrow> string" where
  "before_last_slash s =
     (if CHR ''/'' \<in> set s then rev (tl (dropWhile (\<lambda>c. c \<noteq> CHR ''/'') (rev s))) else s)"

definition report_base :: "resolved_output_policy \<Rightarrow> string option" where
  "report_base r = map_option before_last_slash (report_subdir r)"

text \<open>\<open>report_dir or default\<close>: the empty string counts as absent.\<close>

definition dir_or :: "string option \<Rightarrow> string \<Rightarrow> string" where
  "dir_or d dflt = (case d of Some s \<Rightarrow> if s = [] then dflt else s | None \<Rightarrow> dflt)"

fun resolve_output_policy :: "output_policy \<Rightarrow> string \<Rightarrow> string option \<Rightarrow> resolved_output_policy" where
  "resolve_output_policy REPOSITORY_DOCUMENT tid rdir =
     \<lparr>ro_policy = REPOSITORY_DOCUMENT, report_subdir = Some (dir_or rdir RESEARCH_DIR @ ''/'' @ tid),
      required_files = [''report.md'', ''sources.json''], private_report = False\<rparr>"
| "resolve_output_policy PRIVATE_REPORT_OUTPUT tid rdir =
     \<lparr>ro_policy = PRIVATE_REPORT_OUTPUT,
      report_subdir = Some (dir_or rdir PRIVATE_REPORT_DIR @ ''/'' @ tid),
      required_files = [''report.md''], private_report = True\<rparr>"
| "resolve_output_policy CODE_CHANGE tid rdir =
     \<lparr>ro_policy = CODE_CHANGE, report_subdir = None, required_files = [], private_report = False\<rparr>"

definition within_subdir :: "string \<Rightarrow> string \<Rightarrow> bool" where
  "within_subdir path subdir =
     (let normalized = strip_slashes (replace_char (CHR 0x5C) (CHR ''/'') path);
          base = strip_slashes (replace_char (CHR 0x5C) (CHR ''/'') subdir)
      in normalized = base \<or> starts_with normalized (base @ ''/''))"

section \<open>Lemmas\<close>

text \<open>A tidy path has no backslash and no slash at either end: stripping and replacing keep it.\<close>

definition tidy :: "string \<Rightarrow> bool" where
  "tidy s \<longleftrightarrow> s \<noteq> [] \<and> CHR 0x5C \<notin> set s \<and> hd s \<noteq> CHR ''/'' \<and> last s \<noteq> CHR ''/''"

lemma replace_char_absent: "a \<notin> set s \<Longrightarrow> replace_char a b s = s"
  unfolding replace_char_def by (rule map_idI) auto

lemma strip_on_clean: "s \<noteq> [] \<Longrightarrow> \<not> p (hd s) \<Longrightarrow> \<not> p (last s) \<Longrightarrow> strip_on p s = s"
proof -
  assume s: "s \<noteq> []" "\<not> p (hd s)" "\<not> p (last s)"
  then have "dropWhile p s = s" by (cases s) auto
  moreover have "dropWhile p (rev s) = rev s" using s by (cases s rule: rev_cases) auto
  ultimately show ?thesis by (simp add: strip_on_def)
qed

lemma within_tidy:
  "tidy p \<Longrightarrow> tidy d \<Longrightarrow> within_subdir p d \<longleftrightarrow> p = d \<or> starts_with p (d @ ''/'')"
  by (simp add: within_subdir_def tidy_def replace_char_absent strip_slashes_def strip_on_clean)

text \<open>On tidy paths containment is containment of the component sequences.\<close>

lemma split_on_hd_slash: "split_on c (u @ c # v) = split_on c u @ split_on c v"
  by (induction u) (auto split: list.splits)

lemma within_components:
  assumes "tidy p" and "tidy d"
  shows "within_subdir p d \<longleftrightarrow>
    (\<exists>r. split_on (CHR ''/'') p = split_on (CHR ''/'') d @ r)"
proof
  assume "within_subdir p d"
  then consider "p = d" | v where "p = d @ CHR ''/'' # v"
    using assms by (auto simp: within_tidy starts_with_iff)
  then show "\<exists>r. split_on (CHR ''/'') p = split_on (CHR ''/'') d @ r"
    by cases (auto simp: split_on_hd_slash)
next
  assume "\<exists>r. split_on (CHR ''/'') p = split_on (CHR ''/'') d @ r"
  then obtain r where r: "split_on (CHR ''/'') p = split_on (CHR ''/'') d @ r" by blast
  have p: "p = join_with (CHR ''/'') (split_on (CHR ''/'') d @ r)"
    by (metis join_split_on r)
  have join: "r \<noteq> [] \<Longrightarrow> xs \<noteq> [] \<Longrightarrow> join_with c (xs @ r) = join_with c xs @ c # join_with c r" for c xs
    by (induction xs rule: induct_list012) (auto simp: join_with_Cons)
  show "within_subdir p d"
  proof (cases "r = []")
    case True
    with p show ?thesis using assms by (simp add: within_tidy join_split_on)
  next
    case False
    with p join [OF False, of "split_on (CHR ''/'') d" "CHR ''/''"]
    have "p = d @ CHR ''/'' # join_with (CHR ''/'') r" by (simp add: join_split_on)
    then show ?thesis using assms by (auto simp: within_tidy starts_with_iff)
  qed
qed

end
