(* ===== verification/FlowValidator.thy ===== *)
theory FlowValidator
  imports FlowEngine Cadence OutputPolicy
begin

text \<open>
  The flow validator of \<open>core/flow/validator.py\<close>: the graph, ceiling and report-directory layers of
  \<open>validate_flow\<close>, the config-aware layer, the check of a task's disabled nodes, and the non-fatal
  lints.  A violation is a constructor carrying what its message interpolates; the lists are in the
  order the code appends.
\<close>

section \<open>Violations\<close>

datatype violation_category = GraphViolation | CeilingViolation | ConfigViolation

datatype violation =
    UnknownSource string
  | UnknownTarget string
  | BadOutcome string string "string option"
  | UnboundedEdge string string "string option"
  | UndeclaredLoop string
  | EntryNodes "string list"
  | UnreachableNodes "string list"
  | NoTerminal
  | TrappedNodes "string list"
  | AffinityNotFound string string
  | AffinityNotEditing string string
  | AffinityChained string string
  | AffinityProviders string string
  | ProposerMissing string
  | SubFlowMissing string
  | SharedBudgetMissing string
  | RegionUnentered string
  | RegionWithoutExit
  | DisablesUnknown string
  | DisabledWithoutEdge string string
  | EvaluatorWrites string
  | EvaluatorEditing string
  | EvaluatorResumePrompt string
  | AgentAboveCeiling string
  | ForbiddenExtraArg string forbidden_reason
  | GitEvidenceOnWriter string
  | AgentResumePrompt string
  | PathTraversal string string string
  | ReportDirShape string string
  | ReportDirSegment string string
  | ReportDirReserved violation_category string string
  | ReportDirInert string
  | ReportDirReference string
  | SkillsUnderIsolation string
  | AllowSkillsUnderIsolation string
  | SkillNotFound string string
  | ProviderNotAllowed string provider_id
  | ReasoningUnknown string string
  | ReasoningUnsupported string string provider_id
  | CodexWriteNetwork string
  | CeilingUnreachable string "string list"
  | CadenceWidened string string
  | ToolUnresolved string string

fun category_of :: "violation \<Rightarrow> violation_category" where
  "category_of (EvaluatorWrites _) = CeilingViolation"
| "category_of (EvaluatorEditing _) = CeilingViolation"
| "category_of (EvaluatorResumePrompt _) = CeilingViolation"
| "category_of (AgentAboveCeiling _) = CeilingViolation"
| "category_of (ForbiddenExtraArg _ _) = CeilingViolation"
| "category_of (GitEvidenceOnWriter _) = CeilingViolation"
| "category_of (AgentResumePrompt _) = CeilingViolation"
| "category_of (PathTraversal _ _ _) = CeilingViolation"
| "category_of (ReportDirShape _ _) = CeilingViolation"
| "category_of (ReportDirSegment _ _) = CeilingViolation"
| "category_of (ReportDirReserved c _ _) = c"
| "category_of (ReportDirInert _) = CeilingViolation"
| "category_of (ReportDirReference _) = CeilingViolation"
| "category_of (SkillsUnderIsolation _) = ConfigViolation"
| "category_of (AllowSkillsUnderIsolation _) = ConfigViolation"
| "category_of (SkillNotFound _ _) = ConfigViolation"
| "category_of (ProviderNotAllowed _ _) = ConfigViolation"
| "category_of (ReasoningUnknown _ _) = ConfigViolation"
| "category_of (ReasoningUnsupported _ _ _) = ConfigViolation"
| "category_of (CodexWriteNetwork _) = ConfigViolation"
| "category_of (CeilingUnreachable _ _) = ConfigViolation"
| "category_of (CadenceWidened _ _) = ConfigViolation"
| "category_of (ToolUnresolved _ _) = ConfigViolation"
| "category_of _ = GraphViolation"

section \<open>Graph integrity\<close>

definition EVAL_STAGE_OUTCOMES :: "string option list" where
  "EVAL_STAGE_OUTCOMES = [Some ''accept'', Some ''rework'']"

definition CHECKS_OUTCOMES :: "string option list" where
  "CHECKS_OUTCOMES = [Some ''pass'', Some ''fail'']"

definition TOOL_OUTCOMES :: "string option list" where
  "TOOL_OUTCOMES = [Some ''pass'', Some ''fail'']"

definition UNCONDITIONAL :: "string option list" where
  "UNCONDITIONAL = [None]"

definition known_nodes :: "flow_snapshot \<Rightarrow> string list" where
  "known_nodes snap = map fst (nodes_by_id snap)"

definition edge_refs :: "flow_snapshot \<Rightarrow> violation list" where
  "edge_refs snap = concat (map (\<lambda>e.
     (if e_from e \<notin> set (known_nodes snap) then [UnknownSource (e_from e)] else []) @
     (if e_to e \<notin> set (known_nodes snap) then [UnknownTarget (e_to e)] else [])) (edges (doc snap)))"

fun allowed_outcomes :: "flow_node \<Rightarrow> string option list" where
  "allowed_outcomes (EvaluatorNode _) = EVAL_STAGE_OUTCOMES"
| "allowed_outcomes (ChecksNode _) = CHECKS_OUTCOMES"
| "allowed_outcomes (ToolNode _) = TOOL_OUTCOMES"
| "allowed_outcomes _ = UNCONDITIONAL"

definition is_route :: "string option \<Rightarrow> bool" where
  "is_route oc = (case oc of None \<Rightarrow> False | Some s \<Rightarrow> starts_with s ''route:'')"

definition outcome_subset :: "flow_snapshot \<Rightarrow> violation list" where
  "outcome_subset snap = concat (map (\<lambda>(nid, es).
     case node_at snap nid of
       None \<Rightarrow> []
     | Some node \<Rightarrow> List.map_filter (\<lambda>e.
         if is_route (e_outcome e) then None
         else if e_outcome e \<notin> set (allowed_outcomes node)
           then Some (BadOutcome nid (node_kind node) (e_outcome e))
         else None) es) (adjacency snap))"

definition bounded_loops :: "flow_snapshot \<Rightarrow> violation list" where
  "bounded_loops snap = List.map_filter (\<lambda>e.
     if is_rework e \<and> e_budget e = None \<and> e_loop e = None
     then Some (UnboundedEdge (e_from e) (e_to e) (e_outcome e)) else None) (edges (doc snap))"

definition declared_loops :: "flow_snapshot \<Rightarrow> violation list" where
  "declared_loops snap = List.map_filter (\<lambda>e.
     case e_loop e of None \<Rightarrow> None
     | Some l \<Rightarrow> if budgets (doc snap) l = None then Some (UndeclaredLoop l) else None) (edges (doc snap))"

text \<open>The nodes with no incoming edge, and what is reachable from the only one.\<close>

definition graph_entries :: "flow_snapshot \<Rightarrow> string list" where
  "graph_entries snap = filter (\<lambda>nid. nid \<notin> set (map e_to (edges (doc snap))))
     (remdups (map node_id (nodes (doc snap))))"

definition missing_from :: "flow_snapshot \<Rightarrow> string list \<Rightarrow> string list" where
  "missing_from snap found = sort (remdups (filter (\<lambda>nid. nid \<notin> set found) (known_nodes snap)))"

definition entry_and_reach :: "flow_snapshot \<Rightarrow> violation list" where
  "entry_and_reach snap =
     (case graph_entries snap of
        [entry] \<Rightarrow>
          let seen = dfs (group_by e_from e_to (edges (doc snap))) [entry] [];
              unreached = missing_from snap seen
          in if unreached \<noteq> [] then [UnreachableNodes unreached] else []
      | es \<Rightarrow> [EntryNodes (sort es)])"

definition terminal_nodes :: "flow_snapshot \<Rightarrow> string list" where
  "terminal_nodes snap = filter (\<lambda>nid. nid \<notin> set (map e_from (edges (doc snap)))) (known_nodes snap)"

definition terminal_reach :: "flow_snapshot \<Rightarrow> violation list" where
  "terminal_reach snap =
     (let terminals = terminal_nodes snap
      in if terminals = [] then [NoTerminal]
         else
           let can_reach = dfs (group_by e_to e_from (edges (doc snap))) terminals [];
               trapped = missing_from snap can_reach
           in if trapped \<noteq> [] then [TrappedNodes trapped] else [])"

definition affinity_check :: "flow_snapshot \<Rightarrow> flow_node \<Rightarrow> violation list" where
  "affinity_check snap node =
     (case node of
        AgentNode n \<Rightarrow>
          (case a_lineage_affinity n of
             None \<Rightarrow> []
           | Some aff \<Rightarrow>
               (case node_at snap aff of
                  None \<Rightarrow> [AffinityNotFound (a_id n) aff]
                | Some (AgentNode target) \<Rightarrow>
                    if a_session_scope target \<noteq> EDITING_LINEAGE then [AffinityNotEditing (a_id n) aff]
                    else if a_lineage_affinity target \<noteq> None then [AffinityChained (a_id n) aff]
                    else if a_provider n \<noteq> None \<and> a_provider target \<noteq> None
                            \<and> a_provider n \<noteq> a_provider target then [AffinityProviders (a_id n) aff]
                    else []
                | Some _ \<Rightarrow> [AffinityNotEditing (a_id n) aff]))
      | _ \<Rightarrow> [])"

definition decomposition_check :: "flow_snapshot \<Rightarrow> violation list" where
  "decomposition_check snap =
     (case decomposition (doc snap) of
        None \<Rightarrow> []
      | Some dec \<Rightarrow>
          let proposed_ok = proposed_by dec \<in> set (known_nodes snap);
              missing = filter (\<lambda>nid. nid \<notin> set (known_nodes snap)) (sub_flow dec);
              reg = sub_flow dec
          in (if \<not> proposed_ok then [ProposerMissing (proposed_by dec)] else []) @
             map SubFlowMissing missing @
             (case shared_budget dec of
                None \<Rightarrow> []
              | Some b \<Rightarrow> if budgets (doc snap) b = None then [SharedBudgetMissing b] else []) @
             (if proposed_ok \<and> missing = [] then
                (if \<not> list_ex (\<lambda>e. e_to e \<in> set reg) (out_edges snap (proposed_by dec))
                 then [RegionUnentered (proposed_by dec)] else []) @
                (if \<not> list_ex (\<lambda>nid. list_ex (\<lambda>e. e_to e \<notin> set reg \<and> \<not> is_rework e)
                        (out_edges snap nid)) (remdups reg)
                 then [RegionWithoutExit] else [])
              else []))"

definition check_graph :: "flow_snapshot \<Rightarrow> violation list" where
  "check_graph snap =
     edge_refs snap @ outcome_subset snap @ bounded_loops snap @ declared_loops snap @
     entry_and_reach snap @ terminal_reach snap @
     concat (map (affinity_check snap) (nodes (doc snap))) @ decomposition_check snap"

section \<open>Security ceiling\<close>

definition check_path :: "string \<Rightarrow> string \<Rightarrow> string \<Rightarrow> violation list" where
  "check_path nid path field =
     (let parts = split_on (CHR ''/'') (replace_char (CHR 0x5C) (CHR ''/'') path)
      in if ''..'' \<in> set parts \<or> starts_with path ''/''
         then [PathTraversal nid path field] else [])"

definition opt_path :: "string \<Rightarrow> string option \<Rightarrow> string \<Rightarrow> violation list" where
  "opt_path nid path field = (case path of None \<Rightarrow> [] | Some p \<Rightarrow> check_path nid p field)"

text \<open>\<open>node.permission_profile or ceiling\<close>\<close>

definition effective_profile :: "agent_node \<Rightarrow> flow_doc \<Rightarrow> permission_profile" where
  "effective_profile n d =
     (case a_permission_profile n of Some p \<Rightarrow> p | None \<Rightarrow> permission_ceiling d)"

definition ceiling_node :: "flow_doc \<Rightarrow> flow_node \<Rightarrow> violation list" where
  "ceiling_node d node =
     (case node of
        EvaluatorNode n \<Rightarrow>
          (if ev_permission_profile n \<noteq> READ_ONLY then [EvaluatorWrites (ev_id n)] else []) @
          (if ev_session_scope n = EDITING_LINEAGE then [EvaluatorEditing (ev_id n)] else []) @
          (if ev_resume_role_file n \<noteq> None \<and> ev_session_scope n \<noteq> RESUME_OWN_LINEAGE
           then [EvaluatorResumePrompt (ev_id n)] else []) @
          check_path (ev_id n) (ev_role_file n) ''role_file'' @
          opt_path (ev_id n) (ev_resume_role_file n) ''resume_role_file''
      | AgentNode n \<Rightarrow>
          (case a_permission_profile n of
             None \<Rightarrow> []
           | Some p \<Rightarrow>
               if \<not> is_same_or_stricter (profile_value p) (profile_value (permission_ceiling d))
               then [AgentAboveCeiling (a_id n)] else []) @
          map (ForbiddenExtraArg (a_id n)) (find_forbidden_args (a_extra_args n)) @
          (if a_git_evidence n = Some True \<and> effective_profile n d = WORKSPACE_WRITE
           then [GitEvidenceOnWriter (a_id n)] else []) @
          (if a_resume_role_file n \<noteq> None \<and> a_session_scope n \<noteq> EDITING_LINEAGE
           then [AgentResumePrompt (a_id n)] else []) @
          check_path (a_id n) (a_role_file n) ''role_file'' @
          opt_path (a_id n) (a_resume_role_file n) ''resume_role_file''
      | _ \<Rightarrow> [])"

definition check_ceiling :: "flow_snapshot \<Rightarrow> violation list" where
  "check_ceiling snap =
     concat (map (ceiling_node (doc snap)) (nodes (doc snap))) @
     (case supervisor (doc snap) of
        None \<Rightarrow> []
      | Some sv \<Rightarrow>
          opt_path ''supervisor'' (sb_role_file sv) ''role_file'' @
          opt_path ''supervisor'' (sb_finalize_role_file sv) ''role_file'' @
          opt_path ''supervisor'' (sb_handoff_role_file sv) ''role_file'')"

section \<open>Report directory\<close>

definition RESERVED_REPORT_ROOTS :: "string list" where
  "RESERVED_REPORT_ROOTS = [CONTROL_HOME_DIRNAME, EXCHANGE_HOME_DIRNAME, ''.git'']"

definition is_ascii_letter :: "char \<Rightarrow> bool" where
  "is_ascii_letter c = (let n = (of_char c :: nat) in (65 \<le> n \<and> n \<le> 90) \<or> (97 \<le> n \<and> n \<le> 122))"

definition drive_letter :: "string \<Rightarrow> bool" where
  "drive_letter v = (case v of c # d # _ \<Rightarrow> is_ascii_letter c \<and> d = CHR '':'' | _ \<Rightarrow> False)"

text \<open>The whole-value shape rules, in the order they are tried.\<close>

definition REPORT_DIR_SHAPE_RULES :: "((string \<Rightarrow> bool) \<times> string) list" where
  "REPORT_DIR_SHAPE_RULES =
     [(\<lambda>v. py_strip v = [], ''must be a non-empty repo-relative POSIX directory''),
      (\<lambda>v. v \<noteq> py_strip v, ''must not carry leading or trailing whitespace''),
      (\<lambda>v. CHR 0x5C \<in> set v, ''must use slash separators''),
      (drive_letter, ''must be repo-relative: no drive letter''),
      (\<lambda>v. starts_with v ''/'', ''must be repo-relative: no absolute path''),
      (\<lambda>v. [] \<in> set (split_on (CHR ''/'') v), ''must not contain an empty path segment'')]"

definition report_dir_shape_rule :: "string \<Rightarrow> string option" where
  "report_dir_shape_rule v =
     (case filter (\<lambda>(matches, rule). matches v) REPORT_DIR_SHAPE_RULES of
        [] \<Rightarrow> None | (_, rule) # _ \<Rightarrow> Some rule)"

datatype segment_rule = DotSegment string | ReservedDevice string | NotPortable string

definition report_dir_segment_rule :: "string \<Rightarrow> segment_rule option" where
  "report_dir_segment_rule segment =
     (if segment \<in> {''.'', ''..''} then Some (DotSegment segment)
      else if is_windows_reserved_name segment then Some (ReservedDevice segment)
      else if \<not> is_portable_path_segment segment then Some (NotPortable segment)
      else None)"

definition overlaps_root :: "string \<Rightarrow> string \<Rightarrow> bool" where
  "overlaps_root v root =
     (let lowered = casefold v;
          root_lowered = normpath (casefold (py_strip (replace_char (CHR 0x5C) (CHR ''/'') root)))
      in within_subdir lowered root_lowered \<or> within_subdir root_lowered lowered)"

definition report_dir_root_violations ::
    "string \<Rightarrow> violation_category \<Rightarrow> string list \<Rightarrow> violation list" where
  "report_dir_root_violations v cat roots =
     map (\<lambda>root. ReportDirReserved cat v root) (filter (overlaps_root v) roots)"

text \<open>
  \<open>references id\<close> says whether a role prompt of the node mentions \<open>report_dir\<close> (the files are read
  from the flow directory; an unreadable one counts as not referencing).
\<close>

definition check_report_dir_references :: "(string \<Rightarrow> bool) \<Rightarrow> flow_snapshot \<Rightarrow> violation list" where
  "check_report_dir_references references snap =
     (if source_path snap = None then []
      else List.map_filter (\<lambda>node.
        case node of
          AgentNode n \<Rightarrow> if references (a_id n) then Some (ReportDirReference (a_id n)) else None
        | EvaluatorNode n \<Rightarrow> if references (ev_id n) then Some (ReportDirReference (ev_id n)) else None
        | _ \<Rightarrow> None) (nodes (doc snap)))"

definition report_dir_path_rule :: "string \<Rightarrow> violation list" where
  "report_dir_path_rule v =
     (case report_dir_shape_rule v of
        Some rule \<Rightarrow> [ReportDirShape v rule]
      | None \<Rightarrow>
          map (\<lambda>seg. ReportDirSegment v seg)
            (filter (\<lambda>seg. report_dir_segment_rule seg \<noteq> None) (split_on (CHR ''/'') v)) @
          report_dir_root_violations v CeilingViolation RESERVED_REPORT_ROOTS)"

definition check_report_dir :: "(string \<Rightarrow> bool) \<Rightarrow> flow_snapshot \<Rightarrow> violation list" where
  "check_report_dir references snap =
     (case report_dir (doc snap) of None \<Rightarrow> [] | Some v \<Rightarrow> report_dir_path_rule v) @
     (if doc_output_policy (doc snap) = CODE_CHANGE then
        (case report_dir (doc snap) of None \<Rightarrow> [] | Some v \<Rightarrow> [ReportDirInert v]) @
        check_report_dir_references references snap
      else [])"

definition validate_flow :: "(string \<Rightarrow> bool) \<Rightarrow> flow_snapshot \<Rightarrow> violation list + unit" where
  "validate_flow references snap =
     (let violations = check_graph snap @ check_ceiling snap @ check_report_dir references snap
      in if violations \<noteq> [] then Inl violations else Inr ())"

section \<open>Config consistency\<close>

text \<open>The parts of the operator's configuration this layer reads.\<close>

record provider_settings =
  ps_primary :: bool
  ps_profile :: string

record flow_config =
  allowed_providers :: "provider_id list"
  provider_table :: "(provider_id \<times> provider_settings) list"
  strict_isolation :: bool
  supervisor_enabled :: bool
  observe_global :: observe_mode
  tasks_dir :: string

text \<open>The target tree and the tool registry: does the skill file exist, does the tool resolve.\<close>

record flow_environment =
  skill_file_exists :: "string \<Rightarrow> bool"
  tool_registry :: "(string \<Rightarrow> bool) option"

definition global_primary :: "flow_config \<Rightarrow> provider_id option" where
  "global_primary cfg =
     (case map fst (filter (\<lambda>(p, s). ps_primary s) (provider_table cfg)) of
        [p] \<Rightarrow> Some p | _ \<Rightarrow> None)"

definition check_node_skills :: "flow_environment \<Rightarrow> flow_config \<Rightarrow> flow_doc \<Rightarrow> violation list" where
  "check_node_skills env cfg d = concat (map (\<lambda>node.
     case node of
       AgentNode n \<Rightarrow>
         (if strict_isolation cfg \<and> a_skills n \<noteq> [] then [SkillsUnderIsolation (a_id n)] else []) @
         (if strict_isolation cfg \<and> a_allow_skills n = Some True
          then [AllowSkillsUnderIsolation (a_id n)] else []) @
         map (SkillNotFound (a_id n)) (filter (\<lambda>s. \<not> skill_file_exists env s) (a_skills n))
     | _ \<Rightarrow> []) (nodes d))"

definition provider_violations :: "flow_config \<Rightarrow> string \<Rightarrow> provider_id option \<Rightarrow> violation list" where
  "provider_violations cfg nid provider =
     (case provider of
        None \<Rightarrow> []
      | Some p \<Rightarrow> if p \<notin> set (allowed_providers cfg) then [ProviderNotAllowed nid p] else [])"

text \<open>\<open>node.provider or primary\<close>\<close>

definition resolved_provider :: "flow_config \<Rightarrow> provider_id option \<Rightarrow> provider_id option" where
  "resolved_provider cfg provider = (case provider of Some p \<Rightarrow> Some p | None \<Rightarrow> global_primary cfg)"

definition reasoning_violations ::
    "flow_config \<Rightarrow> string \<Rightarrow> provider_id option \<Rightarrow> string option \<Rightarrow> violation list" where
  "reasoning_violations cfg nid provider reasoning =
     (case reasoning of
        None \<Rightarrow> []
      | Some r \<Rightarrow>
          (case resolved_provider cfg provider of
             None \<Rightarrow> if r \<notin> set all_reasoning_levels then [ReasoningUnknown nid r] else []
           | Some p \<Rightarrow> if \<not> is_reasoning_supported p r then [ReasoningUnsupported nid r p] else []))"

definition node_config_violations :: "flow_config \<Rightarrow> flow_doc \<Rightarrow> flow_node \<Rightarrow> violation list" where
  "node_config_violations cfg d node =
     (case node of
        AgentNode n \<Rightarrow>
          provider_violations cfg (a_id n) (a_provider n) @
          reasoning_violations cfg (a_id n) (a_provider n) (a_reasoning n) @
          (if strict_isolation cfg \<and> resolved_provider cfg (a_provider n) = Some CODEX
              \<and> effective_profile n d = WORKSPACE_WRITE
              \<and> resolve_network_access (a_network_access n) (doc_network_policy d)
           then [CodexWriteNetwork (a_id n)] else [])
      | EvaluatorNode n \<Rightarrow>
          provider_violations cfg (ev_id n) (ev_provider n) @
          reasoning_violations cfg (ev_id n) (ev_provider n) (ev_reasoning n)
      | _ \<Rightarrow> [])"

definition ceiling_capability :: "flow_config \<Rightarrow> flow_doc \<Rightarrow> violation list" where
  "ceiling_capability cfg d =
     (let profiles = sort (remdups (map (\<lambda>(p, s). ps_profile s)
            (filter (\<lambda>(p, s). p \<in> set (allowed_providers cfg)) (provider_table cfg))));
          ceiling = profile_value (permission_ceiling d)
      in if profiles \<noteq> [] \<and> \<not> list_ex (is_same_or_stricter ceiling) profiles
         then [CeilingUnreachable ceiling profiles] else [])"

definition flow_observe_mode :: "flow_doc \<Rightarrow> observe_mode option" where
  "flow_observe_mode d =
     (case supervisor d of None \<Rightarrow> None
      | Some sv \<Rightarrow> (case sb_observe sv of None \<Rightarrow> None | Some mode \<Rightarrow> mode))"

definition cadence_violations :: "flow_config \<Rightarrow> flow_doc \<Rightarrow> violation list" where
  "cadence_violations cfg d =
     (case flow_observe_mode d of
        None \<Rightarrow> []
      | Some m \<Rightarrow>
          if supervisor_enabled cfg \<and>
             \<not> is_same_or_narrower (observe_mode_value m) (observe_mode_value (observe_global cfg))
          then [CadenceWidened (observe_mode_value m) (observe_mode_value (observe_global cfg))]
          else [])"

definition tool_violations :: "flow_environment \<Rightarrow> flow_doc \<Rightarrow> violation list" where
  "tool_violations env d =
     (case tool_registry env of
        None \<Rightarrow> []
      | Some resolves \<Rightarrow> List.map_filter (\<lambda>node.
          case node of
            ToolNode n \<Rightarrow> if \<not> resolves (tl_tool n) then Some (ToolUnresolved (tl_id n) (tl_tool n)) else None
          | _ \<Rightarrow> None) (nodes d))"

definition check_config_consistency ::
    "flow_environment \<Rightarrow> flow_config \<Rightarrow> flow_snapshot \<Rightarrow> violation list" where
  "check_config_consistency env cfg snap =
     (let d = doc snap in
      concat (map (node_config_violations cfg d) (nodes d)) @
      check_node_skills env cfg d @
      ceiling_capability cfg d @
      cadence_violations cfg d @
      (case report_dir d of
         None \<Rightarrow> []
       | Some v \<Rightarrow> report_dir_root_violations v ConfigViolation [tasks_dir cfg]) @
      tool_violations env d)"

definition validate_flow_against_config ::
    "flow_environment \<Rightarrow> flow_config \<Rightarrow> flow_snapshot \<Rightarrow> violation list + unit" where
  "validate_flow_against_config env cfg snap =
     (let violations = check_config_consistency env cfg snap
      in if violations \<noteq> [] then Inl violations else Inr ())"

section \<open>A task's disabled nodes\<close>

definition disabled_violation :: "flow_snapshot \<Rightarrow> string \<Rightarrow> violation list" where
  "disabled_violation snap nid =
     (case node_at snap nid of
        None \<Rightarrow> [DisablesUnknown nid]
      | Some node \<Rightarrow>
          let es = out_edges snap nid;
              k = kind (skip_outcome node);
              matched = list_ex (\<lambda>e. e_outcome e = Some k) es;
              matched' = (if \<not> matched \<and> k = ''done''
                          then length (filter (\<lambda>e. e_outcome e = None) es) = 1 else matched)
          in if es = [] then [] else if \<not> matched' then [DisabledWithoutEdge nid k] else [])"

definition validate_disabled_nodes :: "flow_snapshot \<Rightarrow> string list \<Rightarrow> violation list + unit" where
  "validate_disabled_nodes snap disabled =
     (let violations = concat (map (disabled_violation snap) (sort (remdups disabled)))
      in if violations \<noteq> [] then Inl violations else Inr ())"

section \<open>Non-fatal lints\<close>

record tool_budget_warning =
  tb_node :: string
  tb_budget :: int

definition lint_tool_loop_budgets :: "flow_snapshot \<Rightarrow> tool_budget_warning list" where
  "lint_tool_loop_budgets snap = List.map_filter (\<lambda>node.
     case node of
       ToolNode n \<Rightarrow>
         (case declared_loop_budget snap (tl_id n) of
            None \<Rightarrow> None
          | Some b \<Rightarrow> Some \<lparr>tb_node = tl_id n, tb_budget = b\<rparr>)
     | _ \<Rightarrow> None) (nodes (doc snap))"

record advisory_gate_warning =
  ag_node :: string
  ag_max_rework :: int
  ag_loop :: string
  ag_rounds :: int

definition edge_rounds :: "flow_snapshot \<Rightarrow> int option \<Rightarrow> edge \<Rightarrow> (int \<times> string) option" where
  "edge_rounds snap max_fix e =
     (case e_loop e of
        Some l \<Rightarrow>
          (case budgets (doc snap) l of
             None \<Rightarrow> None
           | Some declared \<Rightarrow>
               Some (case max_fix of Some m \<Rightarrow> min declared m | None \<Rightarrow> declared, l))
      | None \<Rightarrow>
          (case e_budget e of
             Some b \<Rightarrow> Some (b, e_from e @ ''->'' @ e_to e)
           | None \<Rightarrow> None))"

definition lint_advisory_gate_budgets :: "flow_snapshot \<Rightarrow> int option \<Rightarrow> advisory_gate_warning list" where
  "lint_advisory_gate_budgets snap max_fix = concat (map (\<lambda>node.
     case node of
       EvaluatorNode n \<Rightarrow>
         if ev_blocking n then []
         else List.map_filter (\<lambda>e.
           if e_outcome e \<noteq> Some ''rework'' then None
           else case edge_rounds snap max_fix e of
                  None \<Rightarrow> None
                | Some (rounds, label) \<Rightarrow>
                    if rounds < ev_max_rework_per_stage n
                    then Some \<lparr>ag_node = ev_id n, ag_max_rework = ev_max_rework_per_stage n,
                               ag_loop = label, ag_rounds = rounds\<rparr>
                    else None) (out_edges snap (ev_id n))
     | _ \<Rightarrow> []) (nodes (doc snap)))"

end
