(* ===== verification/EngineCorrect.thy ===== *)
theory EngineCorrect
  imports FlowEngine
begin

text \<open>
  What one iteration of the flow engine does to the run checkpoint, as the step relation
  \<open>edge_step\<close> that \<open>engine_step\<close> refines, and what follows: every counter stays within its cap
  and a flow without forward cycles terminates.  \<open>engine_loop\<close> interprets the generic bounded
  loop of the prelude on the engine.
\<close>

section \<open>Frame lemmas\<close>

lemma emit_simps [simp]:
  "run_state (emit ev s) = run_state s"
  "stall_fp (emit ev s) = stall_fp s"
  "stall_streak (emit ev s) = stall_streak s"
  "trace (emit ev s) = trace s @ [ev]"
  by (simp_all add: emit_def)

lemma execute_node_run_state: "execute_node eng t node s = (s', r) \<Longrightarrow> run_state s' = run_state s"
  by (auto simp: execute_node_def Let_def split: if_splits sum.splits option.splits)

lemma overlay_agent_id [simp]: "a_id (overlay_agent f n) = a_id n"
  by (cases f) auto

lemma overlay_evaluator_id [simp]: "ev_id (overlay_evaluator f n) = ev_id n"
  by (cases f) auto

lemma overlay_fold_id [simp]:
  "a_id (fold overlay_agent fs n) = a_id n"
  "ev_id (fold overlay_evaluator fs m) = ev_id m"
  by (induction fs arbitrary: n m) simp_all

lemma apply_overrides_id: "apply_overrides eng n = Inr n' \<Longrightarrow> node_id n' = node_id n"
  by (cases n) (auto simp: apply_overrides_def split: option.splits list.splits)

lemma check_stall_run_state: "check_stall eng t nid l s = (s', st) \<Longrightarrow> run_state s' = run_state s"
  by (auto simp: check_stall_def check_no_file_change_def Let_def split: prod.splits option.splits if_splits)

section \<open>Edge selection\<close>

lemma find_SomeD: "List.find P xs = Some x \<Longrightarrow> x \<in> set xs \<and> P x"
  by (auto simp: find_Some_iff)

lemma select_edge_sound:
  assumes "select_edge node es outcome = Inr e"
  shows "e \<in> set es \<and> (e_outcome e = Some (kind outcome) \<or>
     (kind outcome = ''done'' \<and> e_outcome e = None \<and>
      filter (\<lambda>e. e_outcome e = None) es = [e]))"
proof (cases "List.find (\<lambda>e. e_outcome e = Some (kind outcome)) es")
  case None
  with assms have k: "kind outcome = ''done''" and f: "filter (\<lambda>e. e_outcome e = None) es = [e]"
    by (auto simp: select_edge_def Let_def split: if_splits list.splits)
  have "e \<in> set (filter (\<lambda>e. e_outcome e = None) es)" unfolding f by simp
  then have "e \<in> set es" "e_outcome e = None" by simp_all
  with k f show ?thesis by blast
next
  case (Some x)
  with assms have "x = e" by (auto simp: select_edge_def Let_def split: if_splits)
  with Some show ?thesis using find_SomeD [OF Some] by blast
qed

section \<open>Charging and resetting\<close>

lemma charge_rework_refused:
  "charge_rework eng e rs = (rs', Some st) \<Longrightarrow> rs' = rs \<and> engine_refusal eng rs e \<noteq> None"
  by (auto simp: charge_rework_def Let_def split: option.splits)

lemma charge_rework_counters:
  assumes "charge_rework eng e rs = (rs', None)"
  shows "engine_refusal eng rs e = None" (is ?A)
    and "counter rs' k = counter rs k + int (count_list (charge_keys e) k)" (is ?B)
    and "current_node rs' = current_node rs \<and> completed_nodes rs' = completed_nodes rs" (is ?C)
proof -
  from assms show ?A by (auto simp: charge_rework_def Let_def split: option.splits)
  have "rs' = fold (\<lambda>k s. fst (bump s k)) (charge_keys e) rs"
    using assms
    by (auto simp: charge_rework_def charge_keys_def record_rework_def Let_def split: option.splits)
  then show ?B and ?C
    by (simp_all only: run_counters.get_bump_all)
      (auto simp: charge_keys_def split: option.splits)
qed

definition reset_keys :: "edge list \<Rightarrow> string list" where
  "reset_keys es = concat (map (\<lambda>e. if \<not> is_rework e then []
     else case e_loop e of
            Some l \<Rightarrow> [l]
          | None \<Rightarrow> (case e_budget e of Some _ \<Rightarrow> [edge_key e] | None \<Rightarrow> [])) es)"

lemma reset_loops_run_state:
  "run_state (fold reset_loop_of es s) = fold (\<lambda>k rs. reset rs k) (reset_keys es) (run_state s)"
proof (induction es arbitrary: s)
  case Nil
  then show ?case by (simp add: reset_keys_def)
next
  case (Cons e es)
  have "run_state (reset_loop_of e s) = fold (\<lambda>k rs. reset rs k) (reset_keys [e]) (run_state s)"
    by (auto simp: reset_loop_of_def reset_keys_def split: option.splits)
  with Cons show ?case by (simp add: reset_keys_def)
qed

lemma reset_fold_frame:
  "current_node (fold (\<lambda>k rs. reset rs k) ks rs) = current_node rs \<and>
   completed_nodes (fold (\<lambda>k rs. reset rs k) ks rs) = completed_nodes rs"
  by (induction ks arbitrary: rs) auto

lemma reset_loops_at_counters:
  "counter (run_state (reset_loops_at eng nid s)) k =
     (if k \<in> set (reset_keys (out_edges (snapshot eng) nid)) then 0 else counter (run_state s) k)"
  "current_node (run_state (reset_loops_at eng nid s)) = current_node (run_state s)"
  "completed_nodes (run_state (reset_loops_at eng nid s)) = completed_nodes (run_state s)"
  by (simp_all add: reset_loops_at_def reset_loops_run_state run_counters.get_reset_all reset_fold_frame)

section \<open>The abstract step\<close>

inductive edge_step :: "engine \<Rightarrow> edge \<Rightarrow> flow_run_state \<Rightarrow> flow_run_state \<Rightarrow> bool" for eng where
  forward: "current_node rs = Some cur \<Longrightarrow> e \<in> set (out_edges (snapshot eng) cur) \<Longrightarrow>
    \<not> is_rework e \<Longrightarrow>
    (\<And>k. counter rs' k =
       (if k \<in> set (reset_keys (out_edges (snapshot eng) cur)) then 0 else counter rs k)) \<Longrightarrow>
    current_node rs' = Some (e_to e) \<Longrightarrow> completed_nodes rs' = completed_nodes rs @ [cur] \<Longrightarrow>
    edge_step eng e rs rs'"
| rework: "current_node rs = Some cur \<Longrightarrow> e \<in> set (out_edges (snapshot eng) cur) \<Longrightarrow>
    is_rework e \<Longrightarrow> engine_refusal eng rs e = None \<Longrightarrow>
    (\<And>k. counter rs' k = counter rs k + int (count_list (charge_keys e) k)) \<Longrightarrow>
    current_node rs' = Some (e_to e) \<Longrightarrow> completed_nodes rs' = completed_nodes rs @ [cur] \<Longrightarrow>
    edge_step eng e rs rs'"

definition wf_snapshot :: "flow_snapshot \<Rightarrow> bool" where
  "wf_snapshot snap = list_all (\<lambda>(k, n). node_id n = k) (nodes_by_id snap)"

lemma wf_snapshot_node_at: "wf_snapshot snap \<Longrightarrow> node_at snap k = Some n \<Longrightarrow> node_id n = k"
  using node_at_in [of snap k n] by (auto simp: wf_snapshot_def list_all_iff)

lemma wf_snapshot_of [simp]: "wf_snapshot (snapshot_of d fp path)"
  by (auto simp: wf_snapshot_def snapshot_of_def list_all_iff)

lemma engine_refusal_completed [simp]:
  "engine_refusal eng (mark_completed rs n) e = engine_refusal eng rs e"
  by (cases "e_loop e"; cases "e_budget e")
    (simp_all add: engine_refusal_def rework_refusal_def global_refusal_def fix_iterations_counter)

lemma mark_completed_frame [simp]:
  "current_node (mark_completed rs n) = current_node rs"
  "completed_nodes (mark_completed rs n) = completed_nodes rs @ [n]"
  by (simp_all add: mark_completed_def)

lemma advance_run_state:
  "advance eng nid e s = (s', r) \<Longrightarrow> run_state s' = (run_state s)\<lparr>current_node := Some (e_to e)\<rparr>"
  by (auto simp: advance_def Let_def split: option.splits if_splits)

lemma take_rework_step:
  assumes "take_rework eng t node e s1 = (s', r)"
    and "is_rework e" and "e \<in> set (out_edges (snapshot eng) cur)"
    and "run_state s1 = mark_completed rs cur" and "current_node rs = Some cur"
  shows "edge_step eng e rs (run_state s') \<or>
     (\<exists>nid st. r = Some (Returned nid) \<and> fr_status nid = MANUAL_ACTION_REQUIRED \<and> run_state s' = run_state s1)"
proof -
  obtain s2 stalled where s2: "(case e_loop e of
       Some l \<Rightarrow> if \<not> advisory node then check_stall eng t (node_id node) l s1 else (s1, None)
     | None \<Rightarrow> (s1, None)) = (s2, stalled)" (is "?x = _") by (cases ?x)
  then have rs2: "run_state s2 = run_state s1"
    by (auto split: option.splits if_splits dest: check_stall_run_state)
  show ?thesis
  proof (cases stalled)
    case (Some st)
    with assms(1) s2 rs2 show ?thesis by (auto simp: take_rework_def park_stuck_def Let_def)
  next
    case None
    obtain rs3 st where ch: "charge_rework eng e (run_state s1) = (rs3, st)"
      by (cases "charge_rework eng e (run_state s1)")
    show ?thesis
    proof (cases st)
      case (Some x)
      with ch have "rs3 = run_state s1" using charge_rework_refused by blast
      with assms(1) s2 rs2 ch None Some show ?thesis
        by (auto simp: take_rework_def park_stuck_def Let_def)
    next
      case st: None
      with assms(1) s2 rs2 ch None have "advance eng (node_id node) e (s2\<lparr>run_state := rs3\<rparr>) = (s', r)"
        by (simp add: take_rework_def Let_def)
      then have s': "run_state s' = rs3\<lparr>current_node := Some (e_to e)\<rparr>"
        using advance_run_state by fastforce
      note c = charge_rework_counters [OF ch [unfolded st]]
      have "edge_step eng e rs (run_state s')"
        using assms c by (intro edge_step.rework [where cur = cur]) (auto simp: s')
      then show ?thesis ..
    qed
  qed
qed

text \<open>What an iteration does to the checkpoint: it follows one edge, or it leaves every counter alone.\<close>

lemma after_node_step:
  assumes "after_node eng t node outcome s = (s', r)"
    and "node_id node = cur" and "current_node (run_state s) = Some cur"
  shows "(\<exists>e. edge_step eng e (run_state s) (run_state s') \<and>
            select_edge node (out_edges (snapshot eng) cur) outcome = Inr e) \<or>
    (r \<noteq> None \<and> (\<forall>k. counter (run_state s') k = counter (run_state s) k))"
proof -
  define s1 where "s1 = s\<lparr>run_state := mark_completed (run_state s) cur\<rparr>"
  have an: "(if out_edges (snapshot eng) cur = []
      then (emit (SaveCheckpoint (run_state s1)) s1, Some (Returned (done_result cur)))
      else case select_edge node (out_edges (snapshot eng) cur) outcome of
             Inl err \<Rightarrow> (s1, Some (Raised err))
           | Inr e \<Rightarrow> if is_rework e then take_rework eng t node e s1
                      else advance eng cur e (reset_loops_at eng cur s1)) = (s', r)"
    using assms(1) unfolding after_node_def Let_def assms(2) s1_def .
  have rs1: "run_state s1 = mark_completed (run_state s) cur" by (simp add: s1_def)
  show ?thesis
  proof (cases "out_edges (snapshot eng) cur = []")
    case True
    with an rs1 show ?thesis by auto
  next
    case False
    show ?thesis
    proof (cases "select_edge node (out_edges (snapshot eng) cur) outcome")
      case (Inl err)
      with an False rs1 show ?thesis by auto
    next
      case (Inr e)
      then have e: "e \<in> set (out_edges (snapshot eng) cur)" using select_edge_sound by blast
      show ?thesis
      proof (cases "is_rework e")
        case True
        with an False Inr have "take_rework eng t node e s1 = (s', r)" by simp
        from take_rework_step [OF this True e rs1 assms(3)] Inr rs1 show ?thesis by auto
      next
        case fwd: False
        with an False Inr have "advance eng cur e (reset_loops_at eng cur s1) = (s', r)" by simp
        then have "run_state s' = (run_state (reset_loops_at eng cur s1))\<lparr>current_node := Some (e_to e)\<rparr>"
          by (rule advance_run_state)
        then have "edge_step eng e (run_state s) (run_state s')"
          using assms(3) e fwd
          by (intro edge_step.forward [where cur = cur]) (auto simp: reset_loops_at_counters rs1)
        with Inr show ?thesis by blast
      qed
    qed
  qed
qed

lemma engine_step_refines:
  assumes "wf_snapshot (snapshot eng)" and "engine_step eng t s = (s', r)"
  shows "(\<exists>e. edge_step eng e (run_state s) (run_state s')) \<or>
    (r \<noteq> None \<and> (\<forall>k. counter (run_state s') k = counter (run_state s) k))"
proof (cases "current_node (run_state s)")
  case None
  with assms(2) show ?thesis by (auto simp: engine_step_def)
next
  case cur: (Some cur)
  show ?thesis
  proof (cases "is_cancelled t \<or> node_at (snapshot eng) cur = None")
    case True
    with assms(2) cur show ?thesis by (auto simp: engine_step_def split: if_splits)
  next
    case False
    then obtain node0 where n0: "node_at (snapshot eng) cur = Some node0" and c: "\<not> is_cancelled t" by auto
    show ?thesis
    proof (cases "apply_overrides eng node0")
      case (Inl err)
      with assms(2) cur n0 c show ?thesis by (auto simp: engine_step_def)
    next
      case (Inr node)
      have nid: "node_id node = cur"
        using apply_overrides_id [OF Inr] wf_snapshot_node_at [OF assms(1) n0] by simp
      obtain s1 res where ex: "execute_node eng t node s = (s1, res)" by (cases "execute_node eng t node s")
      have rs: "run_state s1 = run_state s" using ex by (rule execute_node_run_state)
      show ?thesis
      proof (cases res)
        case (Inl err)
        with assms(2) cur n0 c \<open>apply_overrides eng node0 = Inr node\<close> ex rs show ?thesis
          by (auto simp: engine_step_def)
      next
        case out: (Inr outcome)
        with assms(2) cur n0 c Inr ex have "after_node eng t node outcome s1 = (s', r)"
          by (simp add: engine_step_def)
        from after_node_step [OF this nid] rs cur show ?thesis by auto
      qed
    qed
  qed
qed

section \<open>Counters along a run\<close>

inductive_cases edge_stepE: "edge_step eng e rs rs'"

text \<open>The limit an edge's own counter is held to, and the global limit.\<close>

definition engine_global_cap :: "engine \<Rightarrow> int" where
  "engine_global_cap eng = global_cap (budgets (doc (snapshot eng))) (max_total_fix_iterations eng)"

definition engine_loop_cap :: "engine \<Rightarrow> string \<Rightarrow> int" where
  "engine_loop_cap eng l = loop_cap (budgets (doc (snapshot eng))) (max_fix_cycles eng) l"

text \<open>An operator-chosen loop name that no reserved or synthetic key can equal.\<close>

definition plain_loop_name :: "string \<Rightarrow> bool" where
  "plain_loop_name l \<longleftrightarrow> l \<noteq> GLOBAL_FIX_KEY \<and> \<not> starts_with l TOTAL_PREFIX \<and> CHR ''>'' \<notin> set l"

lemma plain_loop_nameD:
  assumes "plain_loop_name l"
  shows "l \<noteq> GLOBAL_FIX_KEY" "l \<noteq> edge_key e" "l \<noteq> total_key m"
  using assms edge_key_has_arrow [of e] starts_with_total_key [of m]
  by (auto simp: plain_loop_name_def)

lemma engine_refusal_NoneD:
  assumes "engine_refusal eng rs e = None"
  shows "counter rs GLOBAL_FIX_KEY < engine_global_cap eng"
    and "e_loop e = Some l \<Longrightarrow> counter rs l < engine_loop_cap eng l"
  using assms
  by (auto simp: engine_refusal_def rework_refusal_None engine_global_cap_def engine_loop_cap_def
      fix_iterations_counter edge_limit_reached_def)

lemma count_charge_loop:
  assumes "plain_loop_name l"
  shows "count_list (charge_keys e) l = (if e_loop e = Some l then 1 else 0)"
  using plain_loop_nameD [OF assms]
  by (auto simp: charge_keys_def plain_loop_name_def split: option.splits)

lemma edge_step_loop_bound:
  assumes "edge_step eng e rs rs'" and "plain_loop_name l" and "0 \<le> engine_loop_cap eng l"
    and "counter rs l \<le> engine_loop_cap eng l"
  shows "counter rs' l \<le> engine_loop_cap eng l"
  using assms(1)
proof (cases rule: edge_step.cases)
  case (forward cur)
  with assms(3,4) show ?thesis by auto
next
  case (rework cur)
  then show ?thesis
    using assms(4) engine_refusal_NoneD(2) [where eng = eng and rs = rs and e = e and l = l]
    by (auto simp: count_charge_loop [OF assms(2)])
qed

text \<open>No loop of the flow is named like the global counter.\<close>

definition no_reserved_loop :: "flow_snapshot \<Rightarrow> bool" where
  "no_reserved_loop snap =
     list_all (\<lambda>(k, es). list_all (\<lambda>e. e_loop e \<noteq> Some GLOBAL_FIX_KEY) es) (adjacency snap)"

lemma out_edges_in_adjacency: "e \<in> set (out_edges snap n) \<Longrightarrow> \<exists>es. (n, es) \<in> set (adjacency snap) \<and> e \<in> set es"
  by (cases "map_of (adjacency snap) n") (auto simp: out_edges_def succs_def dest: map_of_SomeD)

lemma no_reserved_loop_out:
  "no_reserved_loop snap \<Longrightarrow> e \<in> set (out_edges snap n) \<Longrightarrow> e_loop e \<noteq> Some GLOBAL_FIX_KEY"
  using out_edges_in_adjacency [of e snap n] by (fastforce simp: no_reserved_loop_def list_all_iff)

lemma count_charge_global:
  "e_loop e \<noteq> Some GLOBAL_FIX_KEY \<Longrightarrow> count_list (charge_keys e) GLOBAL_FIX_KEY = 1"
  by (auto simp: charge_keys_def split: option.splits)

lemma reset_keys_global:
  "(\<And>e. e \<in> set es \<Longrightarrow> e_loop e \<noteq> Some GLOBAL_FIX_KEY) \<Longrightarrow> GLOBAL_FIX_KEY \<notin> set (reset_keys es)"
  by (auto simp: reset_keys_def split: option.splits if_splits)

text \<open>The global counter counts exactly the rework and fail edges taken.\<close>

lemma edge_step_global:
  assumes "edge_step eng e rs rs'" and "no_reserved_loop (snapshot eng)"
  shows "fix_iterations rs' = fix_iterations rs + (if is_rework e then 1 else 0) \<and>
    (is_rework e \<longrightarrow> fix_iterations rs < engine_global_cap eng)"
  using assms(1)
proof (cases rule: edge_step.cases)
  case (forward cur)
  have "GLOBAL_FIX_KEY \<notin> set (reset_keys (out_edges (snapshot eng) cur))"
    using assms(2) no_reserved_loop_out by (intro reset_keys_global) blast
  with forward show ?thesis by (simp add: fix_iterations_counter)
next
  case (rework cur)
  then show ?thesis
    using count_charge_global [OF no_reserved_loop_out [OF assms(2)]]
      engine_refusal_NoneD(1) [of eng rs e]
    by (auto simp: fix_iterations_counter)
qed


section \<open>Termination\<close>

text \<open>The edges a run follows without being charged.\<close>

definition forward_targets :: "flow_snapshot \<Rightarrow> (string \<times> string list) list" where
  "forward_targets snap =
     map (\<lambda>(k, es). (k, map e_to (filter (\<lambda>e. \<not> is_rework e) es))) (adjacency snap)"

definition forward_rel :: "flow_snapshot \<Rightarrow> (string \<times> string) set" where
  "forward_rel snap = {(x, y). \<exists>e\<in>set (out_edges snap x). \<not> is_rework e \<and> e_to e = y}"

text \<open>No forward edge leads back to where it came from, decided by one search per node.\<close>

definition forward_acyclic :: "flow_snapshot \<Rightarrow> bool" where
  "forward_acyclic snap =
     list_all (\<lambda>(k, ts). k \<notin> set (dfs (forward_targets snap) ts [])) (forward_targets snap)"

definition edge_count :: "flow_snapshot \<Rightarrow> nat" where
  "edge_count snap = length (concat (map snd (adjacency snap)))"

lemma succs_forward_targets:
  "succs (forward_targets snap) x = map e_to (filter (\<lambda>e. \<not> is_rework e) (out_edges snap x))"
proof -
  have "succs (map (\<lambda>(k, es). (k, map e_to (filter (\<lambda>e. \<not> is_rework e) es))) adj) x =
      map e_to (filter (\<lambda>e. \<not> is_rework e) (succs adj x))" for adj
    by (induction adj) (auto simp: succs_def)
  then show ?thesis by (simp add: forward_targets_def out_edges_def)
qed

lemma succ_rel_forward: "succ_rel (forward_targets snap) = forward_rel snap"
  by (auto simp: succ_rel_def forward_rel_def succs_forward_targets)

lemma forward_acyclic_trancl:
  assumes "forward_acyclic snap"
  shows "(x, x) \<notin> (forward_rel snap)\<^sup>+"
proof
  assume "(x, x) \<in> (forward_rel snap)\<^sup>+"
  then obtain y where y: "(x, y) \<in> forward_rel snap" "(y, x) \<in> (forward_rel snap)\<^sup>*"
    by (metis tranclD)
  let ?ts = "succs (forward_targets snap) x"
  have mem: "y \<in> set ?ts" using y(1) by (simp add: succ_rel_forward [symmetric] succ_rel_def)
  then have "(x, ?ts) \<in> set (forward_targets snap)"
    by (cases "map_of (forward_targets snap) x") (auto simp: succs_def dest: map_of_SomeD)
  moreover have "x \<in> set (dfs (forward_targets snap) ?ts [])"
    using mem y(2) by (auto simp: dfs_correct succ_rel_forward)
  ultimately show False using assms by (auto simp: forward_acyclic_def list_all_iff)
qed

lemma forward_image:
  "(forward_rel snap)\<^sup>+ `` {x} \<subseteq> set (map e_to (concat (map snd (adjacency snap))))"
proof
  fix y assume "y \<in> (forward_rel snap)\<^sup>+ `` {x}"
  then obtain z where "(z, y) \<in> forward_rel snap" by (auto elim: tranclE)
  then show "y \<in> set (map e_to (concat (map snd (adjacency snap))))"
    using out_edges_in_adjacency by (fastforce simp: forward_rel_def)
qed

lemma forward_image_card: "card ((forward_rel snap)\<^sup>+ `` {x}) \<le> edge_count snap"
  using card_mono [OF finite_set forward_image [of snap x]]
    card_length [of "map e_to (concat (map snd (adjacency snap)))"]
  by (simp add: edge_count_def)

lemma forward_step_card:
  assumes "forward_acyclic snap" and "(x, y) \<in> forward_rel snap"
  shows "card ((forward_rel snap)\<^sup>+ `` {y}) < card ((forward_rel snap)\<^sup>+ `` {x})"
proof (rule psubset_card_mono)
  show "finite ((forward_rel snap)\<^sup>+ `` {x})"
    using forward_image finite_set by (rule finite_subset)
  show "(forward_rel snap)\<^sup>+ `` {y} \<subset> (forward_rel snap)\<^sup>+ `` {x}"
    using assms(2) forward_acyclic_trancl [OF assms(1), of y] by (auto intro: trancl_into_trancl2)
qed

text \<open>
  The measure of a running flow: remaining global budget first, then how many nodes lie ahead on
  forward edges.
\<close>

definition ahead :: "flow_snapshot \<Rightarrow> flow_run_state \<Rightarrow> nat" where
  "ahead snap rs = (case current_node rs of None \<Rightarrow> 0 | Some cur \<Rightarrow> card ((forward_rel snap)\<^sup>+ `` {cur}))"

definition run_measure :: "engine \<Rightarrow> flow_run_state \<Rightarrow> nat" where
  "run_measure eng rs =
     nat (engine_global_cap eng - fix_iterations rs) * Suc (edge_count (snapshot eng)) +
     ahead (snapshot eng) rs"

definition run_bound :: "engine \<Rightarrow> flow_run_state \<Rightarrow> nat" where
  "run_bound eng rs =
     nat (engine_global_cap eng - fix_iterations rs) * Suc (edge_count (snapshot eng)) +
     edge_count (snapshot eng)"

lemma ahead_le: "ahead snap rs \<le> edge_count snap"
  using forward_image_card by (auto simp: ahead_def split: option.splits)

lemma edge_step_measure:
  assumes "edge_step eng e rs rs'" and "no_reserved_loop (snapshot eng)"
    and "forward_acyclic (snapshot eng)"
  shows "run_measure eng rs' < run_measure eng rs"
proof -
  note g = edge_step_global [OF assms(1,2)]
  from assms(1) show ?thesis
  proof (cases rule: edge_step.cases)
    case (forward cur)
    then have "(cur, e_to e) \<in> forward_rel (snapshot eng)" by (auto simp: forward_rel_def)
    with forward g forward_step_card [OF assms(3)] show ?thesis
      by (simp add: run_measure_def ahead_def)
  next
    case (rework cur)
    let ?c = "engine_global_cap eng" and ?n = "edge_count (snapshot eng)"
    have f: "fix_iterations rs' = fix_iterations rs + 1" and lt: "fix_iterations rs < ?c"
      using g rework by auto
    then have "nat (?c - fix_iterations rs) = Suc (nat (?c - fix_iterations rs'))" by simp
    then show ?thesis using ahead_le [of "snapshot eng" rs'] by (simp add: run_measure_def)
  qed
qed

definition engine_machine :: "tick \<Rightarrow> engine \<times> engine_state \<Rightarrow> (engine \<times> engine_state) \<times> run_end option" where
  "engine_machine t = (\<lambda>(eng, s). case engine_step eng t s of (s', r) \<Rightarrow> ((eng, s'), r))"

fun engine_inv :: "engine \<times> engine_state \<Rightarrow> bool" where
  "engine_inv (eng, s) \<longleftrightarrow> wf_snapshot (snapshot eng) \<and> no_reserved_loop (snapshot eng) \<and>
     forward_acyclic (snapshot eng)"

fun engine_measure :: "engine \<times> engine_state \<Rightarrow> nat" where
  "engine_measure (eng, s) = run_measure eng (run_state s)"

lemma engine_step_continues:
  "wf_snapshot (snapshot eng) \<Longrightarrow> engine_step eng t s = (s', None) \<Longrightarrow>
     \<exists>e. edge_step eng e (run_state s) (run_state s')"
  using engine_step_refines by blast

interpretation engine_loop: bounded_machine engine_machine engine_inv engine_measure
proof
  fix x t x' assume inv: "engine_inv x" and step: "engine_machine t x = (x', None)"
  obtain eng s where x: "x = (eng, s)" by (cases x)
  with step obtain s' where s': "engine_step eng t s = (s', None)" "x' = (eng, s')"
    by (auto simp: engine_machine_def split: prod.splits)
  show "engine_inv x'" using inv x s' by simp
  show "engine_measure x' < engine_measure x"
    using inv x s' engine_step_continues [OF _ s'(1)] edge_step_measure by auto
qed

lemma run_engine_machine:
  "run_machine engine_machine ts (eng, s) =
     (case run_machine (engine_step eng) ts s of (s', r) \<Rightarrow> ((eng, s'), r))"
  by (induction ts arbitrary: s) (auto simp: engine_machine_def split: prod.splits option.splits)

lemma run_measure_bound: "run_measure eng rs \<le> run_bound eng rs"
  using ahead_le by (simp add: run_measure_def run_bound_def)

text \<open>
  C1. A flow whose forward edges have no cycle terminates.  If no loop is named like the global
  counter, the engine ends within \<open>remaining global budget * (edges + 1) + edges + 1\<close> iterations,
  whatever the nodes, facts, guards and signals answer: it returns a result or raises.
\<close>

theorem engine_terminates:
  assumes "wf_snapshot (snapshot eng)" and "forward_acyclic (snapshot eng)"
    and "no_reserved_loop (snapshot eng)" and "run_bound eng (run_state s) < length ticks"
  shows "\<exists>s' r. engine_run eng ticks s = (s', Some r)"
proof -
  have run: "\<exists>s' r. run_machine (engine_step eng) ticks u = (s', Some r)"
    if "fix_iterations (run_state u) = fix_iterations (run_state s)" for u
  proof -
    have "engine_measure (eng, u) < length ticks"
      using that assms(4) run_measure_bound [of eng "run_state u"] by (simp add: run_bound_def)
    then show ?thesis
      using engine_loop.halts [of "(eng, u)" ticks] assms(1-3)
      by (auto simp: run_engine_machine split: prod.splits)
  qed
  show ?thesis
    by (auto simp: engine_run_def fix_iterations_def intro!: run split: option.splits sum.splits)
qed

end
