(* ===== verification/EngineRuns.thy ===== *)
theory EngineRuns
  imports EngineCorrect
begin

text \<open>
  What whole runs of the flow engine do: the path of edges a run follows and what it is charged for,
  the checkpoint it leaves behind, why it returned what it returned, and which nodes it ran.
\<close>

section \<open>Runs as paths\<close>

text \<open>Consecutive edges from a node, and the checkpoints along them.\<close>

fun edge_path :: "flow_snapshot \<Rightarrow> string \<Rightarrow> edge list \<Rightarrow> bool" where
  "edge_path snap cur [] = True"
| "edge_path snap cur (e # es) = (e \<in> set (out_edges snap cur) \<and> edge_path snap (e_to e) es)"

fun edge_steps :: "engine \<Rightarrow> edge list \<Rightarrow> flow_run_state \<Rightarrow> flow_run_state \<Rightarrow> bool" where
  "edge_steps eng [] rs rs' = (\<forall>k. counter rs' k = counter rs k)"
| "edge_steps eng (e # es) rs rs' = (\<exists>rs1. edge_step eng e rs rs1 \<and> edge_steps eng es rs1 rs')"

lemma run_edge_steps:
  assumes "wf_snapshot (snapshot eng)" and "run_machine (engine_step eng) ts s = (s', r)"
  shows "\<exists>es. edge_steps eng es (run_state s) (run_state s')"
  using assms(2)
proof (induction ts arbitrary: s)
  case Nil
  then show ?case by (intro exI [of _ "[]"]) simp
next
  case (Cons t ts)
  obtain s1 q where s1: "engine_step eng t s = (s1, q)" by (cases "engine_step eng t s")
  from engine_step_refines [OF assms(1) s1] show ?case
  proof (elim disjE exE conjE)
    fix e assume e: "edge_step eng e (run_state s) (run_state s1)"
    show ?thesis
    proof (cases q)
      case None
      with Cons s1 obtain es where "edge_steps eng es (run_state s1) (run_state s')" by auto
      with e show ?thesis by (intro exI [of _ "e # es"]) auto
    next
      case (Some x)
      with Cons.prems s1 have "s1 = s'" by simp
      with e show ?thesis by (intro exI [of _ "[e]"]) auto
    qed
  next
    assume "q \<noteq> None" "\<forall>k. counter (run_state s1) k = counter (run_state s) k"
    moreover from this Cons.prems s1 have "s1 = s'" by (cases q) simp_all
    ultimately show ?thesis by (intro exI [of _ "[]"]) simp
  qed
qed

lemma edge_step_node:
  "edge_step eng e rs rs' \<Longrightarrow>
     \<exists>cur. current_node rs = Some cur \<and> e \<in> set (out_edges (snapshot eng) cur) \<and>
       current_node rs' = Some (e_to e)"
  by (erule edge_step.cases) auto

lemma edge_steps_path:
  "edge_steps eng es rs rs' \<Longrightarrow> current_node rs = Some cur \<Longrightarrow> edge_path (snapshot eng) cur es"
  by (induction es arbitrary: rs cur) (auto dest!: edge_step_node)

lemma edge_steps_global:
  assumes "no_reserved_loop (snapshot eng)"
  shows "edge_steps eng es rs rs' \<Longrightarrow>
     fix_iterations rs' = fix_iterations rs + int (length (filter is_rework es)) \<and>
     (filter is_rework es \<noteq> [] \<longrightarrow> fix_iterations rs' \<le> engine_global_cap eng)"
proof (induction es arbitrary: rs)
  case Nil
  then show ?case by (simp add: fix_iterations_counter)
next
  case (Cons e es)
  then obtain rs1 where rs1: "edge_step eng e rs rs1" "edge_steps eng es rs1 rs'" by auto
  from Cons.IH [OF rs1(2)] edge_step_global [OF rs1(1) assms] show ?case by auto
qed

text \<open>Loop names that clash with none of the reserved keys; totals are then exact.\<close>

definition plain_loops :: "flow_snapshot \<Rightarrow> bool" where
  "plain_loops snap = list_all (\<lambda>(k, es). list_all (\<lambda>e. case e_loop e of
       None \<Rightarrow> True | Some l \<Rightarrow> plain_loop_name l) es) (adjacency snap)"

lemma plain_loops_out:
  "plain_loops snap \<Longrightarrow> e \<in> set (out_edges snap n) \<Longrightarrow> e_loop e = Some l \<Longrightarrow> plain_loop_name l"
  using out_edges_in_adjacency [of e snap n] by (fastforce simp: plain_loops_def list_all_iff)

lemma plain_loops_no_reserved: "plain_loops snap \<Longrightarrow> no_reserved_loop snap"
  by (fastforce simp: plain_loops_def no_reserved_loop_def list_all_iff plain_loop_name_def)

definition charged_in :: "string \<Rightarrow> edge \<Rightarrow> bool" where
  "charged_in l e \<longleftrightarrow> is_rework e \<and> e_loop e = Some l"

lemma plain_total_key:
  assumes "plain_loop_name l"
  shows "total_key l \<noteq> edge_key e" and "plain_loop_name m \<Longrightarrow> m \<noteq> total_key l"
proof -
  have "CHR ''>'' \<notin> set (total_key l)"
    using assms by (simp add: total_key_def TOTAL_PREFIX_def plain_loop_name_def)
  then show "total_key l \<noteq> edge_key e" using edge_key_has_arrow by metis
  show "plain_loop_name m \<Longrightarrow> m \<noteq> total_key l" using plain_loop_nameD(3) by blast
qed

lemma count_charge_total:
  assumes "plain_loop_name l" and "\<And>m. e_loop e = Some m \<Longrightarrow> plain_loop_name m"
  shows "count_list (charge_keys e) (total_key l) = (if e_loop e = Some l then 1 else 0)"
proof (cases "e_loop e")
  case None
  then show ?thesis
    using plain_total_key(1) [OF assms(1), of e] by (auto simp: charge_keys_def split: option.splits)
next
  case (Some m)
  then have "m \<noteq> total_key l" using assms plain_total_key(2) by blast
  with Some show ?thesis by (auto simp: charge_keys_def)
qed

lemma reset_keys_total:
  assumes "plain_loop_name l" and "\<And>e m. e \<in> set es \<Longrightarrow> e_loop e = Some m \<Longrightarrow> plain_loop_name m"
  shows "total_key l \<notin> set (reset_keys es)"
  using assms(2) plain_total_key [OF assms(1)]
  by (fastforce simp: reset_keys_def split: option.splits if_splits)

lemma edge_step_total:
  assumes "edge_step eng e rs rs'" and "plain_loops (snapshot eng)" and "plain_loop_name l"
  shows "total rs' l = total rs l + (if charged_in l e then 1 else 0)"
  using assms(1)
proof (cases rule: edge_step.cases)
  case (forward cur)
  have "total_key l \<notin> set (reset_keys (out_edges (snapshot eng) cur))"
    using assms plain_loops_out by (intro reset_keys_total) blast+
  with forward show ?thesis by (simp add: total_counter charged_in_def)
next
  case (rework cur)
  then have "count_list (charge_keys e) (total_key l) = (if e_loop e = Some l then 1 else 0)"
    using assms plain_loops_out by (intro count_charge_total) blast+
  with rework show ?thesis by (simp add: total_counter charged_in_def)
qed

lemma edge_steps_total:
  assumes "plain_loops (snapshot eng)" and "plain_loop_name l"
  shows "edge_steps eng es rs rs' \<Longrightarrow>
     total rs' l = total rs l + int (length (filter (charged_in l) es))"
proof (induction es arbitrary: rs)
  case Nil
  then show ?case by (simp add: total_counter)
next
  case (Cons e es)
  then obtain rs1 where rs1: "edge_step eng e rs rs1" "edge_steps eng es rs1 rs'" by auto
  from Cons.IH [OF rs1(2)] edge_step_total [OF rs1(1) assms] show ?case by auto
qed

lemma edge_steps_loop_bound:
  assumes "plain_loop_name l" and "0 \<le> engine_loop_cap eng l"
  shows "edge_steps eng es rs rs' \<Longrightarrow> counter rs l \<le> engine_loop_cap eng l \<Longrightarrow>
     counter rs' l \<le> engine_loop_cap eng l"
  by (induction es arbitrary: rs) (use edge_step_loop_bound assms in auto)

text \<open>The node a run starts at: the checkpoint's, or the flow's entry.\<close>

definition start_node :: "engine \<Rightarrow> flow_run_state \<Rightarrow> string option" where
  "start_node eng rs =
     (case current_node rs of
        Some cur \<Rightarrow> Some cur
      | None \<Rightarrow> (case entry_node_id (snapshot eng) of Inl _ \<Rightarrow> None | Inr n \<Rightarrow> Some n))"

lemma engine_run_steps:
  assumes "wf_snapshot (snapshot eng)" and "engine_run eng ticks s = (s', r)"
    and "start_node eng (run_state s) = Some cur"
  shows "\<exists>es rs. edge_path (snapshot eng) cur es \<and> edge_steps eng es rs (run_state s') \<and>
    (\<forall>k. counter rs k = counter (run_state s) k)"
proof -
  obtain u where u: "run_machine (engine_step eng) ticks u = (s', r)"
      "current_node (run_state u) = Some cur" "\<forall>k. counter (run_state u) k = counter (run_state s) k"
  proof (cases "current_node (run_state s)")
    case None
    with assms(2,3) obtain e where "entry_node_id (snapshot eng) = Inr e" "e = cur"
      by (auto simp: start_node_def split: sum.splits)
    with None assms(2) show thesis
      by (intro that [of "s\<lparr>run_state := (run_state s)\<lparr>current_node := Some cur\<rparr>\<rparr>"])
        (auto simp: engine_run_def)
  next
    case (Some c)
    with assms(2,3) show thesis by (intro that [of s]) (auto simp: engine_run_def start_node_def)
  qed
  from run_edge_steps [OF assms(1) u(1)] obtain es where es: "edge_steps eng es (run_state u) (run_state s')"
    by blast
  with u edge_steps_path [OF es u(2)] show ?thesis by blast
qed



section \<open>What a run leaves behind\<close>

text \<open>The last checkpoint a trace saved over the one on disk when it began.\<close>

fun saved :: "flow_run_state \<Rightarrow> recorder_event list \<Rightarrow> flow_run_state" where
  "saved rs [] = rs"
| "saved rs (ev # evs) = saved (case ev of SaveCheckpoint rs' \<Rightarrow> rs' | _ \<Rightarrow> rs) evs"

lemma saved_append [simp]: "saved rs (xs @ ys) = saved (saved rs xs) ys"
  by (induction rs xs rule: saved.induct) auto

text \<open>What executing a node can put on the trace.\<close>

definition node_event :: "engine \<Rightarrow> tick \<Rightarrow> flow_node \<Rightarrow> recorder_event \<Rightarrow> bool" where
  "node_event eng t node ev =
     (case ev of
        RunNode n ctx \<Rightarrow> n = node_id node \<and> \<not> should_skip eng t node \<and> ctx_node ctx = node \<and>
          ctx_rework_refusal ctx = node_rework_refusal eng (ctx_run_state ctx) node
      | RecordSkip n why order \<Rightarrow> n = node_id node \<and> should_skip eng t node
      | PostNode n out rid \<Rightarrow> n = node_id node \<and> \<not> should_skip eng t node
      | SaveCheckpoint rs \<Rightarrow> False
      | WriteFailureReport n l lim rs order \<Rightarrow> False)"

lemma execute_node_trace:
  assumes "execute_node eng t node s = (s', r)"
  shows "\<exists>tr. trace s' = trace s @ tr \<and> (\<forall>ev\<in>set tr. node_event eng t node ev)"
  using assms
  by (auto simp: execute_node_def Let_def node_event_def split: if_splits sum.splits option.splits)

lemma saved_node_events: "\<forall>ev\<in>set tr. node_event eng t node ev \<Longrightarrow> saved rs tr = rs"
  by (induction tr) (auto simp: node_event_def split: recorder_event.splits)

lemma check_stall_trace: "check_stall eng t nid l s = (s', st) \<Longrightarrow> trace s' = trace s"
  by (auto simp: check_stall_def check_no_file_change_def Let_def
      split: prod.splits option.splits if_splits)

lemma reset_loops_trace: "trace (reset_loops_at eng nid s) = trace s"
proof -
  have "trace (fold reset_loop_of es s) = trace s" for es
    by (induction es arbitrary: s) (auto simp: reset_loop_of_def split: option.splits)
  then show ?thesis by (simp add: reset_loops_at_def)
qed

lemma advance_trace:
  "advance eng nid e s = (s', r) \<Longrightarrow> trace s' = trace s @ [SaveCheckpoint (run_state s')] \<and>
     (r = None \<or> r = Some (Returned (done_result nid)) \<and> (\<exists>reg. region eng = Some reg \<and> e_to e \<notin> set reg))"
  by (auto simp: advance_def Let_def split: option.splits if_splits)

lemma stall_stuck:
  "check_stall eng t nid l s = (s', Some st) \<Longrightarrow>
     st_loop st = Some l \<and> st_limit_name st \<in> {''no_file_change'', ''repeated_findings''}"
  by (auto simp: check_stall_def check_no_file_change_def check_repeated_findings_def Let_def
      split: prod.splits option.splits if_splits)

lemma refusal_stuck:
  "charge_rework eng e rs = (rs', Some st) \<Longrightarrow>
     rs' = rs \<and> (\<exists>why. engine_refusal eng rs e = Some why \<and> st_loop st = rr_loop why \<and>
       st_limit_name st = rr_limit_name why)"
  by (auto simp: charge_rework_def Let_def split: option.splits)

text \<open>Why a run parks: a stall guard of a blocking node, or a refused edge.\<close>

definition parked_for :: "engine \<Rightarrow> flow_node \<Rightarrow> edge \<Rightarrow> flow_run_state \<Rightarrow> string option \<Rightarrow> string \<Rightarrow> bool" where
  "parked_for eng node e rs loop limit \<longleftrightarrow>
     (\<not> advisory node \<and> loop = e_loop e \<and> loop \<noteq> None \<and>
        limit \<in> {''no_file_change'', ''repeated_findings''}) \<or>
     (\<exists>why. engine_refusal eng rs e = Some why \<and> loop = rr_loop why \<and> limit = rr_limit_name why)"

lemma park_stuck_trace:
  "park_stuck eng t nid st s = (s', r) \<Longrightarrow> run_state s' = run_state s \<and>
     trace s' = trace s @ [WriteFailureReport nid (st_loop st) (st_limit_name st) (run_state s)
        (subtask_order eng), SaveCheckpoint (run_state s)] \<and>
     r = Some (Returned \<lparr>fr_status = MANUAL_ACTION_REQUIRED, fr_final_node = nid,
            fr_stuck_loop = st_loop st, fr_limit_name = Some (st_limit_name st),
            fr_failure_report_path = Some (report_path t)\<rparr>)"
  by (auto simp: park_stuck_def Let_def)

lemma take_rework_trace:
  assumes "take_rework eng t node e s = (s', r)"
  shows "(trace s' = trace s @ [SaveCheckpoint (run_state s')] \<and>
      (r = None \<or> r = Some (Returned (done_result (node_id node))) \<and>
         (\<exists>reg. region eng = Some reg \<and> e_to e \<notin> set reg))) \<or>
    (\<exists>loop limit. parked_for eng node e (run_state s) loop limit \<and> run_state s' = run_state s \<and>
      trace s' = trace s @ [WriteFailureReport (node_id node) loop limit (run_state s)
         (subtask_order eng), SaveCheckpoint (run_state s)] \<and>
      r = Some (Returned \<lparr>fr_status = MANUAL_ACTION_REQUIRED, fr_final_node = node_id node,
            fr_stuck_loop = loop, fr_limit_name = Some limit,
            fr_failure_report_path = Some (report_path t)\<rparr>))"
proof -
  obtain s2 stalled where s2: "(case e_loop e of
       Some l \<Rightarrow> if \<not> advisory node then check_stall eng t (node_id node) l s else (s, None)
     | None \<Rightarrow> (s, None)) = (s2, stalled)" (is "?x = _") by (cases ?x)
  then have f: "run_state s2 = run_state s" "trace s2 = trace s"
    by (auto split: option.splits if_splits dest: check_stall_run_state check_stall_trace)
  show ?thesis
  proof (cases stalled)
    case (Some st)
    with assms s2 have "park_stuck eng t (node_id node) st s2 = (s', r)"
      by (simp add: take_rework_def Let_def)
    moreover from Some s2 have "parked_for eng node e (run_state s) (st_loop st) (st_limit_name st)"
      by (auto simp: parked_for_def split: option.splits if_splits dest: stall_stuck)
    ultimately show ?thesis using f by (auto dest!: park_stuck_trace)
  next
    case None
    obtain rs3 st where ch: "charge_rework eng e (run_state s) = (rs3, st)"
      by (cases "charge_rework eng e (run_state s)")
    show ?thesis
    proof (cases st)
      case (Some x)
      note r = refusal_stuck [OF ch [unfolded Some]]
      with assms s2 f ch None Some have "park_stuck eng t (node_id node) x (s2\<lparr>run_state := rs3\<rparr>) = (s', r)"
        by (simp add: take_rework_def Let_def)
      moreover from r have "parked_for eng node e (run_state s) (st_loop x) (st_limit_name x)"
        by (auto simp: parked_for_def)
      ultimately show ?thesis using f r by (auto dest!: park_stuck_trace)
    next
      case st: None
      with assms s2 f ch None have "advance eng (node_id node) e (s2\<lparr>run_state := rs3\<rparr>) = (s', r)"
        by (simp add: take_rework_def Let_def)
      then show ?thesis using f by (auto dest!: advance_trace)
    qed
  qed
qed


text \<open>One iteration ends at once, or it executes the current node and acts on its outcome.\<close>

lemma engine_step_cases:
  assumes "wf_snapshot (snapshot eng)" and "engine_step eng t s = (s', r)"
  obtains (stop) x where "r = Some (Raised x)" "s' = s" "\<And>n. x \<noteq> FlowCancelled n"
  | (cancel) n where "is_cancelled t" "r = Some (Raised (FlowCancelled n))"
      "s' = emit (SaveCheckpoint (run_state s)) s" "current_node (run_state s) = Some n"
  | (failed) node x tr where "\<not> is_cancelled t" "r = Some (Raised x)" "run_state s' = run_state s"
      "trace s' = trace s @ tr" "\<forall>ev\<in>set tr. node_event eng t node ev"
  | (ran) cur node0 node outcome s1 tr where "\<not> is_cancelled t" "current_node (run_state s) = Some cur"
      "node_at (snapshot eng) cur = Some node0" "apply_overrides eng node0 = Inr node"
      "node_id node = cur" "run_state s1 = run_state s" "trace s1 = trace s @ tr"
      "\<forall>ev\<in>set tr. node_event eng t node ev" "after_node eng t node outcome s1 = (s', r)"
proof (cases "current_node (run_state s)")
  case None
  with assms(2) show thesis by (intro stop [of NoCurrentNode]) (auto simp: engine_step_def)
next
  case cur: (Some cur)
  show thesis
  proof (cases "is_cancelled t")
    case True
    with assms(2) cur show thesis by (intro cancel [of cur]) (auto simp: engine_step_def)
  next
    case go: False
    show thesis
    proof (cases "node_at (snapshot eng) cur")
      case None
      with assms(2) cur go show thesis by (intro stop [of "MissingNode cur"]) (auto simp: engine_step_def)
    next
      case n0: (Some node0)
      show thesis
      proof (cases "apply_overrides eng node0")
        case (Inl err)
        then have "\<And>n. err \<noteq> FlowCancelled n"
          by (auto simp: apply_overrides_def split: option.splits list.splits flow_node.splits)
        with Inl assms(2) cur go n0 show thesis by (intro stop [of err]) (auto simp: engine_step_def)
      next
        case node: (Inr node)
        have nid: "node_id node = cur"
          using apply_overrides_id [OF node] wf_snapshot_node_at [OF assms(1) n0] by simp
        obtain s1 res where ex: "execute_node eng t node s = (s1, res)"
          by (cases "execute_node eng t node s")
        note rs = execute_node_run_state [OF ex]
        obtain tr where tr: "trace s1 = trace s @ tr" "\<forall>ev\<in>set tr. node_event eng t node ev"
          using execute_node_trace [OF ex] by blast
        show thesis
        proof (cases res)
          case (Inl err)
          with assms(2) cur go n0 node ex have "s' = s1" "r = Some (Raised err)"
            by (simp_all add: engine_step_def)
          with go rs tr show thesis by (intro failed [of err tr node]) auto
        next
          case (Inr outcome)
          with assms(2) cur go n0 node ex have "after_node eng t node outcome s1 = (s', r)"
            by (simp add: engine_step_def)
          with go cur n0 node nid rs tr show thesis by (intro ran [of cur node0 node s1 tr outcome]) auto
        qed
      qed
    qed
  qed
qed

text \<open>What acting on an outcome does to the trace.\<close>

lemma after_node_trace:
  assumes "after_node eng t node outcome s = (s', r)" and "node_id node = cur"
  obtains (terminal) "out_edges (snapshot eng) cur = []" "r = Some (Returned (done_result cur))"
      "trace s' = trace s @ [SaveCheckpoint (run_state s')]"
  | (bug) x where "r = Some (Raised x)" "run_state s' = mark_completed (run_state s) cur"
      "trace s' = trace s" "select_edge node (out_edges (snapshot eng) cur) outcome = Inl x"
  | (moved) e where "e \<in> set (out_edges (snapshot eng) cur)"
      "trace s' = trace s @ [SaveCheckpoint (run_state s')]"
      "r = None \<or> r = Some (Returned (done_result cur)) \<and>
        (\<exists>reg. region eng = Some reg \<and> e_to e \<notin> set reg)"
  | (parked) e loop limit where "e \<in> set (out_edges (snapshot eng) cur)" "is_rework e"
      "parked_for eng node e (run_state s') loop limit"
      "run_state s' = mark_completed (run_state s) cur"
      "trace s' = trace s @ [WriteFailureReport cur loop limit (run_state s') (subtask_order eng),
         SaveCheckpoint (run_state s')]"
      "r = Some (Returned \<lparr>fr_status = MANUAL_ACTION_REQUIRED, fr_final_node = cur,
            fr_stuck_loop = loop, fr_limit_name = Some limit,
            fr_failure_report_path = Some (report_path t)\<rparr>)"
proof -
  define s1 where "s1 = s\<lparr>run_state := mark_completed (run_state s) cur\<rparr>"
  have an: "(if out_edges (snapshot eng) cur = []
      then (emit (SaveCheckpoint (run_state s1)) s1, Some (Returned (done_result cur)))
      else case select_edge node (out_edges (snapshot eng) cur) outcome of
             Inl err \<Rightarrow> (s1, Some (Raised err))
           | Inr e \<Rightarrow> if is_rework e then take_rework eng t node e s1
                      else advance eng cur e (reset_loops_at eng cur s1)) = (s', r)"
    using assms(1) unfolding after_node_def Let_def assms(2) s1_def .
  have rs1: "run_state s1 = mark_completed (run_state s) cur" and tr1: "trace s1 = trace s"
    by (simp_all add: s1_def)
  show thesis
  proof (cases "out_edges (snapshot eng) cur = []")
    case True
    with an tr1 show thesis by (intro terminal) auto
  next
    case False
    show thesis
    proof (cases "select_edge node (out_edges (snapshot eng) cur) outcome")
      case (Inl err)
      with an False rs1 tr1 show thesis by (intro bug [of err]) auto
    next
      case (Inr e)
      then have e: "e \<in> set (out_edges (snapshot eng) cur)" using select_edge_sound by blast
      show thesis
      proof (cases "is_rework e")
        case True
        with an False Inr have "take_rework eng t node e s1 = (s', r)" by simp
        from take_rework_trace [OF this, unfolded assms(2) tr1 rs1] show thesis
        proof (elim disjE exE conjE, goal_cases)
          case 1
          with e show thesis by (intro moved [of e]) auto
        next
          case 2
          with e show thesis by (intro moved [of e]) auto
        next
          case (3 loop limit)
          with e True show thesis by (intro parked [of e loop limit]) auto
        qed
      next
        case fwd: False
        with an False Inr have "advance eng cur e (reset_loops_at eng cur s1) = (s', r)" by simp
        from advance_trace [OF this] e tr1 show thesis
          by (intro moved [of e]) (auto simp: reset_loops_trace)
      qed
    qed
  qed
qed


section \<open>Properties of whole runs\<close>

definition resume_same :: "flow_run_state \<Rightarrow> flow_run_state \<Rightarrow> bool" where
  "resume_same a b \<longleftrightarrow> current_node a = current_node b \<and> (\<forall>k. counter a k = counter b k)"

lemma resume_same_refl [simp]: "resume_same a a"
  by (simp add: resume_same_def)

lemma resume_same_completed [simp]:
  "resume_same a (mark_completed b n) = resume_same a b"
  "resume_same (mark_completed a n) b = resume_same a b"
  by (simp_all add: resume_same_def)

text \<open>An end after which the saved checkpoint is the final one, completed nodes included.\<close>

fun settled :: "run_end option \<Rightarrow> bool" where
  "settled None = True"
| "settled (Some (Returned res)) = True"
| "settled (Some (Raised x)) = False"

lemma engine_step_saved:
  assumes "wf_snapshot (snapshot eng)" and "engine_step eng t s = (s', r)"
  shows "\<exists>tr. trace s' = trace s @ tr \<and>
    (\<forall>base. resume_same base (run_state s) \<longrightarrow> resume_same (saved base tr) (run_state s')) \<and>
    (settled r \<longrightarrow> (\<forall>base. saved base tr = run_state s'))"
  using assms
proof (cases rule: engine_step_cases)
  case (stop x)
  then show ?thesis by simp
next
  case (cancel n)
  then show ?thesis by auto
next
  case (failed node x tr)
  with saved_node_events [OF failed(5)] show ?thesis by auto
next
  case (ran cur node0 node outcome s1 tr)
  note sv = saved_node_events [OF ran(8)]
  from ran(9,5) show ?thesis
  proof (cases rule: after_node_trace)
    case terminal
    with ran sv show ?thesis by auto
  next
    case (bug x)
    with ran sv show ?thesis by auto
  next
    case (moved e)
    with ran sv show ?thesis by auto
  next
    case (parked e loop limit)
    with ran sv show ?thesis by auto
  qed
qed


lemma run_saved:
  assumes "wf_snapshot (snapshot eng)" and "run_machine (engine_step eng) ts s = (s', r)"
  shows "\<exists>tr. trace s' = trace s @ tr \<and>
    (\<forall>base. resume_same base (run_state s) \<longrightarrow> resume_same (saved base tr) (run_state s')) \<and>
    (\<forall>res. r = Some (Returned res) \<longrightarrow> (\<forall>base. saved base tr = run_state s'))"
  using assms(2)
proof (induction ts arbitrary: s)
  case Nil
  then show ?case by auto
next
  case (Cons t ts)
  obtain s1 q where s1: "engine_step eng t s = (s1, q)" by (cases "engine_step eng t s")
  from engine_step_saved [OF assms(1) s1] obtain tr1 where tr1: "trace s1 = trace s @ tr1"
      "\<And>base. resume_same base (run_state s) \<Longrightarrow> resume_same (saved base tr1) (run_state s1)"
      "settled q \<Longrightarrow> \<forall>base. saved base tr1 = run_state s1" by blast
  show ?case
  proof (cases q)
    case None
    with Cons.prems s1 have "run_machine (engine_step eng) ts s1 = (s', r)" by simp
    from Cons.IH [OF this] tr1 show ?thesis by auto
  next
    case (Some x)
    with Cons.prems s1 have "s1 = s'" "r = Some x" by simp_all
    with tr1 Some show ?thesis by auto
  qed
qed

text \<open>The seeded checkpoint of a run: \<open>run\<close> fills in the entry node of a fresh one.\<close>

definition seeded :: "engine \<Rightarrow> flow_run_state \<Rightarrow> flow_run_state" where
  "seeded eng rs = (if current_node rs = None then rs\<lparr>current_node := start_node eng rs\<rparr> else rs)"

text \<open>
  C3. Crash safety of the checkpoint.  However a run ends (result, exception, or cut off between
  two iterations), the last checkpoint it saved resumes at the node the run stood at, with exactly
  the same fix counters; a run that returned has saved its final state, completed nodes included.
\<close>

theorem engine_resume_point:
  assumes "wf_snapshot (snapshot eng)" and "engine_run eng ticks s = (s', r)"
    and "start_node eng (run_state s) \<noteq> None"
  shows "\<exists>tr. trace s' = trace s @ tr \<and>
    current_node (saved (seeded eng (run_state s)) tr) = current_node (run_state s') \<and>
    (\<forall>k. counter (saved (seeded eng (run_state s)) tr) k = counter (run_state s') k) \<and>
    (\<forall>res. r = Some (Returned res) \<longrightarrow> saved (seeded eng (run_state s)) tr = run_state s')"
proof -
  let ?u = "s\<lparr>run_state := seeded eng (run_state s)\<rparr>"
  have "run_machine (engine_step eng) ticks ?u = (s', r)"
    using assms(2,3)
    by (auto simp: engine_run_def seeded_def start_node_def split: option.splits sum.splits)
  from run_saved [OF assms(1) this] show ?thesis
    by (auto simp: resume_same_def)
qed

text \<open>What a returned result says about the final state and trace.\<close>

definition result_explained :: "engine \<Rightarrow> engine_state \<Rightarrow> flow_run_result \<Rightarrow> bool" where
  "result_explained eng s res \<longleftrightarrow>
     (fr_status res = DONE \<and> fr_stuck_loop res = None \<and> fr_limit_name res = None \<and>
        (out_edges (snapshot eng) (fr_final_node res) = [] \<or>
         (\<exists>reg. region eng = Some reg \<and>
            (\<exists>e\<in>set (out_edges (snapshot eng) (fr_final_node res)). e_to e \<notin> set reg)))) \<or>
     (fr_status res = MANUAL_ACTION_REQUIRED \<and> current_node (run_state s) = Some (fr_final_node res) \<and>
        (\<exists>node0 node e limit tr.
           node_at (snapshot eng) (fr_final_node res) = Some node0 \<and>
           apply_overrides eng node0 = Inr node \<and>
           e \<in> set (out_edges (snapshot eng) (fr_final_node res)) \<and> is_rework e \<and>
           parked_for eng node e (run_state s) (fr_stuck_loop res) limit \<and>
           fr_limit_name res = Some limit \<and>
           trace s = tr @ [WriteFailureReport (fr_final_node res) (fr_stuck_loop res) limit
              (run_state s) (subtask_order eng), SaveCheckpoint (run_state s)]))"

lemma engine_step_result:
  assumes "wf_snapshot (snapshot eng)" and "engine_step eng t s = (s', Some (Returned res))"
  shows "result_explained eng s' res"
  using assms
proof (cases rule: engine_step_cases)
  case (ran cur node0 node outcome s1 tr)
  from ran(9,5) show ?thesis
  proof (cases rule: after_node_trace)
    case terminal
    then show ?thesis by (auto simp: result_explained_def done_result_def)
  next
    case (moved e)
    then show ?thesis by (auto simp: result_explained_def done_result_def)
  next
    case (parked e loop limit)
    then show ?thesis using ran
      by (auto simp: result_explained_def)
  qed auto
qed auto


text \<open>Everything on the trace of a run, with the iterations it can come from.\<close>

definition run_event :: "engine \<Rightarrow> tick list \<Rightarrow> recorder_event \<Rightarrow> bool" where
  "run_event eng ts ev =
     (case ev of
        SaveCheckpoint rs \<Rightarrow> True
      | WriteFailureReport n l lim rs order \<Rightarrow> True
      | _ \<Rightarrow> \<exists>t\<in>set (takeWhile (\<lambda>t. \<not> is_cancelled t) ts). \<exists>node. node_event eng t node ev)"

lemma node_event_run:
  "\<not> is_cancelled t \<Longrightarrow> node_event eng t node ev \<Longrightarrow> run_event eng (t # ts) ev"
  by (auto simp: run_event_def split: recorder_event.splits)

lemma run_event_later:
  "run_event eng ts ev \<Longrightarrow> \<not> is_cancelled t \<Longrightarrow> run_event eng (t # ts) ev"
  by (auto simp: run_event_def split: recorder_event.splits)

lemma run_event_simps [simp]:
  "run_event eng ts (SaveCheckpoint rs)"
  "run_event eng ts (WriteFailureReport n l lim rs order)"
  by (simp_all add: run_event_def)

lemma engine_step_events:
  assumes "wf_snapshot (snapshot eng)" and "engine_step eng t s = (s', r)"
  shows "(\<exists>tr. trace s' = trace s @ tr \<and> (\<forall>ev\<in>set tr. run_event eng (t # ts) ev)) \<and>
    (is_cancelled t \<longrightarrow> r \<noteq> None)"
  using assms
proof (cases rule: engine_step_cases)
  case (ran cur node0 node outcome s1 tr)
  note ev = node_event_run [OF ran(1)]
  from ran(9,5) show ?thesis
  proof (cases rule: after_node_trace)
    case terminal
    with ran show ?thesis by (auto intro: ev)
  next
    case (bug x)
    with ran show ?thesis by (auto intro: ev)
  next
    case (moved e)
    with ran show ?thesis by (auto intro: ev)
  next
    case (parked e loop limit)
    with ran show ?thesis by (auto intro: ev)
  qed
qed (auto intro: node_event_run)

lemma run_events:
  assumes "wf_snapshot (snapshot eng)"
  shows "run_machine (engine_step eng) ts s = (s', r) \<Longrightarrow>
    \<exists>tr. trace s' = trace s @ tr \<and> (\<forall>ev\<in>set tr. run_event eng ts ev)"
proof (induction ts arbitrary: s)
  case Nil
  then show ?case by auto
next
  case (Cons t ts)
  obtain s1 q where s1: "engine_step eng t s = (s1, q)" by (cases "engine_step eng t s")
  from engine_step_events [OF assms s1, of ts] obtain tr1 where tr1: "trace s1 = trace s @ tr1"
      "\<forall>ev\<in>set tr1. run_event eng (t # ts) ev" "is_cancelled t \<longrightarrow> q \<noteq> None" by blast
  show ?case
  proof (cases q)
    case None
    with Cons s1 obtain tr2 where "trace s' = trace s1 @ tr2" "\<forall>ev\<in>set tr2. run_event eng ts ev"
      by auto
    with tr1 None show ?thesis by (auto intro: run_event_later)
  next
    case (Some x)
    with Cons.prems s1 have "s1 = s'" by simp
    with tr1 show ?thesis by auto
  qed
qed

text \<open>
  C5. Nothing runs that should not.  A node the engine runs was not disabled by the task, its
  \<open>when\<close> guard held in that iteration, no stop signal had been seen, and the refusal it was told
  about is the one its own rework edges would meet.
\<close>

theorem engine_runs_only_enabled:
  assumes "wf_snapshot (snapshot eng)" and "engine_run eng ticks s = (s', r)"
    and "RunNode n ctx \<in> set (trace s')" and "RunNode n ctx \<notin> set (trace s)"
  shows "n \<notin> set (disabled_nodes eng) \<and> n = node_id (ctx_node ctx) \<and>
    ctx_rework_refusal ctx = node_rework_refusal eng (ctx_run_state ctx) (ctx_node ctx) \<and>
    (\<exists>t\<in>set (takeWhile (\<lambda>t. \<not> is_cancelled t) ticks).
       \<forall>w. node_when (ctx_node ctx) = Some w \<longrightarrow> facts t (w_fact w) = w_equals w)"
proof -
  have "\<exists>tr. trace s' = trace s @ tr \<and> (\<forall>ev\<in>set tr. run_event eng ticks ev)"
    using assms(2) run_events [OF assms(1)]
    by (fastforce simp: engine_run_def split: option.splits sum.splits)
  with assms(3,4) have "run_event eng ticks (RunNode n ctx)" by auto
  then obtain t where "t \<in> set (takeWhile (\<lambda>t. \<not> is_cancelled t) ticks)"
      "node_event eng t (ctx_node ctx) (RunNode n ctx)"
    by (auto simp: run_event_def node_event_def)
  then show ?thesis by (auto simp: node_event_def should_skip_def split: if_splits)
qed

end
