(* ===== verification/ValidatorCorrect.thy ===== *)
theory ValidatorCorrect
  imports FlowValidator EngineRuns
begin

text \<open>
  What a flow that passes the validator satisfies: the graph facts the engine relies on, the security
  ceiling, where its report directory can lie, and that a validated set of disabled nodes is skipped
  without an engine error.
\<close>

section \<open>Graph integrity\<close>

definition doc_rel :: "flow_doc \<Rightarrow> (string \<times> string) set" where
  "doc_rel d = {(e_from e, e_to e) | e. e \<in> set (edges d)}"

definition node_ids :: "flow_doc \<Rightarrow> string set" where
  "node_ids d = node_id ` set (nodes d)"

lemma succ_rel_group: "succ_rel (group_by key val xs) = {(key x, val x) | x. x \<in> set xs}"
  by (auto simp: succ_rel_def succs_group_by)

lemma forward_graph: "succ_rel (group_by e_from e_to (edges d)) = doc_rel d"
  by (simp add: succ_rel_group doc_rel_def)

lemma backward_graph: "succ_rel (group_by e_to e_from (edges d)) = (doc_rel d)\<inverse>"
  by (auto simp: succ_rel_group doc_rel_def)

lemma known_nodes_snapshot_of [simp]: "set (known_nodes (snapshot_of d fp path)) = node_ids d"
  by (auto simp: known_nodes_def snapshot_of_def node_ids_def)

lemma map_filter_Nil: "List.map_filter f xs = [] \<longleftrightarrow> (\<forall>x\<in>set xs. f x = None)"
  by (induction xs) (auto simp: List.map_filter_simps split: option.splits)

lemma edge_refs_ok:
  "edge_refs (snapshot_of d fp path) = [] \<longleftrightarrow>
     (\<forall>e\<in>set (edges d). e_from e \<in> node_ids d \<and> e_to e \<in> node_ids d)"
  by (auto simp: edge_refs_def)

lemma bounded_loops_ok:
  "bounded_loops (snapshot_of d fp path) = [] \<longleftrightarrow>
     (\<forall>e\<in>set (edges d). is_rework e \<longrightarrow> e_budget e \<noteq> None \<or> e_loop e \<noteq> None)"
  by (auto simp: bounded_loops_def map_filter_Nil)

lemma declared_loops_ok:
  "declared_loops (snapshot_of d fp path) = [] \<longleftrightarrow>
     (\<forall>e\<in>set (edges d). \<forall>l. e_loop e = Some l \<longrightarrow> budgets d l \<noteq> None)"
  by (auto simp: declared_loops_def map_filter_Nil split: option.splits)

lemma in_group_by:
  "(k, es) \<in> set (group_by key val xs) \<longleftrightarrow> es = map val (filter (\<lambda>x. key x = k) xs) \<and> k \<in> key ` set xs"
proof -
  let ?g = "group_by key val xs"
  have "(k, es) \<in> set ?g \<longleftrightarrow> map_of ?g k = Some es"
    by (simp add: distinct_group_by)
  moreover have "map_of ?g k = None \<longleftrightarrow> k \<notin> key ` set xs"
    by (simp add: map_of_eq_None_iff fst_group_by)
  ultimately show ?thesis
    using succs_group_by [of key val xs k] by (cases "map_of ?g k") (auto simp: succs_def)
qed

lemma ball_group_by:
  "(\<forall>(k, es)\<in>set (group_by key val xs). \<forall>y\<in>set es. P k y) \<longleftrightarrow> (\<forall>x\<in>set xs. P (key x) (val x))"
proof
  assume a: "\<forall>(k, es)\<in>set (group_by key val xs). \<forall>y\<in>set es. P k y"
  show "\<forall>x\<in>set xs. P (key x) (val x)"
  proof
    fix x assume "x \<in> set xs"
    then have "(key x, map val (filter (\<lambda>z. key z = key x) xs)) \<in> set (group_by key val xs)"
      by (simp add: in_group_by)
    from bspec [OF a this] \<open>x \<in> set xs\<close> show "P (key x) (val x)" by auto
  qed
next
  assume "\<forall>x\<in>set xs. P (key x) (val x)"
  then show "\<forall>(k, es)\<in>set (group_by key val xs). \<forall>y\<in>set es. P k y"
    by (fastforce simp: in_group_by)
qed

lemma ball_adjacency:
  "(\<forall>(k, es)\<in>set (adjacency (snapshot_of d fp path)). \<forall>e\<in>set es. P k e) \<longleftrightarrow>
     (\<forall>e\<in>set (edges d). P (e_from e) e)"
  by (simp add: snapshot_of_def ball_group_by)

lemma in_adjacency:
  "(k, es) \<in> set (adjacency (snapshot_of d fp path)) \<longleftrightarrow>
     es = filter (\<lambda>e. e_from e = k) (edges d) \<and> k \<in> e_from ` set (edges d)"
  by (simp add: snapshot_of_def in_group_by)

lemma outcome_subset_ok:
  assumes "distinct (map node_id (nodes d))"
  shows "outcome_subset (snapshot_of d fp path) = [] \<longleftrightarrow>
     (\<forall>e\<in>set (edges d). \<forall>n\<in>set (nodes d). node_id n = e_from e \<longrightarrow>
        is_route (e_outcome e) \<or> e_outcome e \<in> set (allowed_outcomes n))"
    (is "?L \<longleftrightarrow> ?R")
proof -
  let ?snap = "snapshot_of d fp path"
  let ?ok = "\<lambda>n e. is_route (e_outcome e) \<or> e_outcome e \<in> set (allowed_outcomes n)"
  have "?L \<longleftrightarrow> (\<forall>(k, es)\<in>set (adjacency ?snap). \<forall>e\<in>set es.
      case node_at ?snap k of None \<Rightarrow> True | Some n \<Rightarrow> ?ok n e)"
    by (auto simp: outcome_subset_def map_filter_Nil case_prod_beta
        split: option.split_asm if_split_asm option.split)
  also have "\<dots> \<longleftrightarrow> (\<forall>e\<in>set (edges d). case node_at ?snap (e_from e) of None \<Rightarrow> True | Some n \<Rightarrow> ?ok n e)"
    by (rule ball_adjacency)
  also have "\<dots> \<longleftrightarrow> ?R"
  proof (intro iffI ballI impI)
    fix e n
    assume "\<forall>e\<in>set (edges d). case node_at ?snap (e_from e) of None \<Rightarrow> True | Some n \<Rightarrow> ?ok n e"
      and "e \<in> set (edges d)" "n \<in> set (nodes d)" "node_id n = e_from e"
    then show "?ok n e" using node_at_distinct [OF assms, of n fp path] by fastforce
  next
    fix e assume "?R" "e \<in> set (edges d)"
    then show "case node_at ?snap (e_from e) of None \<Rightarrow> True | Some n \<Rightarrow> ?ok n e"
      using node_at_snapshot_of by (auto split: option.splits)
  qed
  finally show ?thesis .
qed

text \<open>The validator's entry node is the one the engine will seed.\<close>

lemma graph_entries_engine:
  assumes "graph_entries (snapshot_of d fp path) = [entry]"
  shows "entry_node_id (snapshot_of d fp path) = Inr entry"
proof -
  have "set (concat (map (\<lambda>(k, es). map e_to es) (adjacency (snapshot_of d fp path)))) =
      e_to ` set (edges d)"
  proof (rule set_eqI)
    fix x
    have "x \<notin> set (concat (map (\<lambda>(k, es). map e_to es) (adjacency (snapshot_of d fp path)))) \<longleftrightarrow>
        (\<forall>(k, es)\<in>set (adjacency (snapshot_of d fp path)). \<forall>e\<in>set es. e_to e \<noteq> x)"
      by (auto simp: case_prod_beta)
    then show "x \<in> set (concat (map (\<lambda>(k, es). map e_to es) (adjacency (snapshot_of d fp path)))) \<longleftrightarrow>
        x \<in> e_to ` set (edges d)"
      unfolding ball_adjacency by auto
  qed
  with assms show ?thesis
    by (simp add: entry_node_id_def graph_entries_def snapshot_of_def o_def)
qed

lemma missing_from_Nil: "missing_from snap found = [] \<longleftrightarrow> set (known_nodes snap) \<subseteq> set found"
proof -
  have "set (missing_from snap found) = set (known_nodes snap) - set found"
    by (auto simp: missing_from_def)
  then show ?thesis by (metis Diff_eq_empty_iff set_empty)
qed

lemma entry_and_reach_ok:
  "entry_and_reach (snapshot_of d fp path) = [] \<longleftrightarrow>
     (\<exists>entry. graph_entries (snapshot_of d fp path) = [entry] \<and>
        node_ids d \<subseteq> (doc_rel d)\<^sup>* `` {entry})"
  by (auto simp: entry_and_reach_def missing_from_Nil dfs_correct forward_graph Let_def
      split: list.splits)

lemma terminal_reach_ok:
  "terminal_reach (snapshot_of d fp path) = [] \<longleftrightarrow>
     (\<exists>t\<in>node_ids d. t \<notin> e_from ` set (edges d)) \<and>
     (\<forall>n\<in>node_ids d. \<exists>t\<in>node_ids d. t \<notin> e_from ` set (edges d) \<and> (n, t) \<in> (doc_rel d)\<^sup>*)"
proof -
  have tm: "set (terminal_nodes (snapshot_of d fp path)) = node_ids d - e_from ` set (edges d)"
    by (auto simp: terminal_nodes_def)
  let ?T = "node_ids d - e_from ` set (edges d)"
  have nil: "terminal_nodes (snapshot_of d fp path) = [] \<longleftrightarrow> ?T = {}"
    by (metis tm set_empty)
  have "terminal_reach (snapshot_of d fp path) = [] \<longleftrightarrow>
      ?T \<noteq> {} \<and> node_ids d \<subseteq> ((doc_rel d)\<inverse>)\<^sup>* `` ?T"
    by (simp add: terminal_reach_def Let_def missing_from_Nil dfs_correct backward_graph tm nil)
  then show ?thesis
    unfolding rtrancl_converse by blast
qed

text \<open>What a flow that passes the graph layer satisfies.\<close>

lemma check_graph_sound:
  assumes "check_graph (snapshot_of d fp path) = []"
  shows "edge_refs (snapshot_of d fp path) = []" "outcome_subset (snapshot_of d fp path) = []"
    "bounded_loops (snapshot_of d fp path) = []" "declared_loops (snapshot_of d fp path) = []"
    "entry_and_reach (snapshot_of d fp path) = []" "terminal_reach (snapshot_of d fp path) = []"
  using assms by (simp_all add: check_graph_def)

lemma validate_flow_Inr:
  "validate_flow references snap = Inr u \<longleftrightarrow>
     check_graph snap = [] \<and> check_ceiling snap = [] \<and> check_report_dir references snap = []"
  by (simp add: validate_flow_def Let_def)

text \<open>
  C16. What the graph layer guarantees.  If a flow with distinct node ids validates, every edge joins
  two of its nodes and carries an outcome its source can produce (or a route), every rework or fail
  edge is bounded by an inline budget or a loop the budgets declare, the node the engine will seed
  is the only one without incoming edges, every node is reachable from it, and from every node some
  terminal node is reachable.
\<close>

theorem validate_flow_graph_sound:
  assumes "distinct (map node_id (nodes d))"
    and "validate_flow references (snapshot_of d fp path) = Inr ()"
  shows "(\<forall>e\<in>set (edges d). e_from e \<in> node_ids d \<and> e_to e \<in> node_ids d) \<and>
    (\<forall>e\<in>set (edges d). \<forall>n\<in>set (nodes d). node_id n = e_from e \<longrightarrow>
       is_route (e_outcome e) \<or> e_outcome e \<in> set (allowed_outcomes n)) \<and>
    (\<forall>e\<in>set (edges d). is_rework e \<longrightarrow>
       (case e_loop e of Some l \<Rightarrow> budgets d l \<noteq> None | None \<Rightarrow> e_budget e \<noteq> None)) \<and>
    (\<exists>entry. entry_node_id (snapshot_of d fp path) = Inr entry \<and> entry \<notin> e_to ` set (edges d) \<and>
       (\<forall>n\<in>node_ids d. (entry, n) \<in> (doc_rel d)\<^sup>* \<and>
          (\<exists>t\<in>node_ids d. t \<notin> e_from ` set (edges d) \<and> (n, t) \<in> (doc_rel d)\<^sup>*)))"
proof -
  note g = check_graph_sound [of d fp path]
  have c: "check_graph (snapshot_of d fp path) = []" using assms(2) by (simp add: validate_flow_Inr)
  obtain entry where entry: "graph_entries (snapshot_of d fp path) = [entry]"
      "node_ids d \<subseteq> (doc_rel d)\<^sup>* `` {entry}"
    using g(5) [OF c] by (auto simp: entry_and_reach_ok)
  have "entry \<in> set (graph_entries (snapshot_of d fp path))" by (simp add: entry)
  then have notin: "entry \<notin> e_to ` set (edges d)" by (simp add: graph_entries_def)
  have loops: "\<forall>e\<in>set (edges d). is_rework e \<longrightarrow>
      (case e_loop e of Some l \<Rightarrow> budgets d l \<noteq> None | None \<Rightarrow> e_budget e \<noteq> None)"
    using g(3,4) [OF c] by (auto simp: bounded_loops_ok declared_loops_ok split: option.splits)
  show ?thesis
    using g(1,2,6) [OF c] assms(1) entry notin loops graph_entries_engine [OF entry(1)]
    by (auto simp: edge_refs_ok outcome_subset_ok terminal_reach_ok)
qed


section \<open>Security ceiling\<close>

text \<open>Where a prompt path leads from the flow directory: never above it.\<close>

definition stays_inside :: "string \<Rightarrow> bool" where
  "stays_inside p \<longleftrightarrow> \<not> starts_with p ''/'' \<and>
     ''..'' \<notin> set (norm_components False []
        (split_on (CHR ''/'') (replace_char (CHR 0x5C) (CHR ''/'') p)))"

lemma norm_components_plain:
  "''..'' \<notin> set segs \<Longrightarrow> norm_components absolute stack segs =
     rev stack @ filter (\<lambda>s. s \<noteq> [] \<and> s \<noteq> ''.'') segs"
  by (induction absolute stack segs rule: norm_components.induct) auto

lemma check_path_inside: "check_path nid p field = [] \<Longrightarrow> stays_inside p"
  by (auto simp: check_path_def stays_inside_def Let_def norm_components_plain split: if_splits)

lemma opt_path_inside: "opt_path nid p field = [] \<Longrightarrow> p = Some q \<Longrightarrow> stays_inside q"
  by (auto simp: opt_path_def check_path_inside)

lemma ceiling_node_ok:
  "validate_flow references (snapshot_of d fp path) = Inr () \<Longrightarrow> n \<in> set (nodes d) \<Longrightarrow> ceiling_node d n = []"
  by (auto simp: validate_flow_Inr check_ceiling_def)

lemma profile_refl [simp]: "is_same_or_stricter (profile_value p) (profile_value p)"
  by (cases p) (simp_all add: is_same_or_stricter_def profile_strictness_def)

text \<open>
  C18. What the ceiling layer guarantees.  In a validated flow every agent runs under a profile no
  wider than the flow's ceiling, its extra arguments contain no bypass the detector knows, and it
  asks for git evidence only when it is read-only; every evaluator is read-only and outside the
  author's editing lineage; and every role file, continuation prompt and supervisor prompt resolves
  inside the flow directory.
\<close>

theorem validate_flow_ceiling_sound:
  assumes "validate_flow references (snapshot_of d fp path) = Inr ()" and "n \<in> set (nodes d)"
  shows "(\<forall>a. n = AgentNode a \<longrightarrow>
      is_same_or_stricter (profile_value (effective_profile a d)) (profile_value (permission_ceiling d)) \<and>
      find_forbidden_args (a_extra_args a) = [] \<and>
      (a_git_evidence a = Some True \<longrightarrow> effective_profile a d = READ_ONLY) \<and>
      (a_resume_role_file a \<noteq> None \<longrightarrow> a_session_scope a = EDITING_LINEAGE) \<and>
      stays_inside (a_role_file a) \<and> (\<forall>p. a_resume_role_file a = Some p \<longrightarrow> stays_inside p)) \<and>
    (\<forall>ev. n = EvaluatorNode ev \<longrightarrow>
      ev_permission_profile ev = READ_ONLY \<and> ev_session_scope ev \<noteq> EDITING_LINEAGE \<and>
      (ev_resume_role_file ev \<noteq> None \<longrightarrow> ev_session_scope ev = RESUME_OWN_LINEAGE) \<and>
      stays_inside (ev_role_file ev) \<and> (\<forall>p. ev_resume_role_file ev = Some p \<longrightarrow> stays_inside p)) \<and>
    (\<forall>sb. supervisor d = Some sb \<longrightarrow>
      (\<forall>p. sb_role_file sb = Some p \<or> sb_finalize_role_file sb = Some p \<or> sb_handoff_role_file sb = Some p
         \<longrightarrow> stays_inside p))"
proof -
  have n: "ceiling_node d n = []" using ceiling_node_ok [OF assms] .
  have agent: "\<exists>p. effective_profile a d = p \<and> (p = READ_ONLY \<or> p = WORKSPACE_WRITE)" for a
    by (cases "effective_profile a d") auto
  have s: "\<forall>sb. supervisor d = Some sb \<longrightarrow>
      (\<forall>p. sb_role_file sb = Some p \<or> sb_finalize_role_file sb = Some p \<or> sb_handoff_role_file sb = Some p
         \<longrightarrow> stays_inside p)"
    using assms(1) by (auto simp: validate_flow_Inr check_ceiling_def dest: opt_path_inside)
  show ?thesis
  proof (cases n)
    case (AgentNode a)
    with n s agent [of a] show ?thesis
      by (auto simp: ceiling_node_def effective_profile_def split: option.splits if_splits
          dest: check_path_inside opt_path_inside)
  next
    case (EvaluatorNode ev)
    with n s show ?thesis
      by (auto simp: ceiling_node_def split: if_splits dest: check_path_inside opt_path_inside)
  qed (use s in auto)
qed

section \<open>Disabled nodes\<close>

lemma skip_outcome_kind: "kind (skip_outcome node) \<in> {''accept'', ''pass'', ''done''}"
  by (cases node) (auto simp: skip_outcome_def outcome_of_def)

lemma find_None: "List.find P xs = None \<longleftrightarrow> \<not> list_ex P xs"
  by (auto simp: find_None_iff list_ex_iff)

lemma not_route_skip: "\<not> starts_with (kind (skip_outcome node)) ''route:''"
  using skip_outcome_kind [of node] by auto

lemma select_edge_skip:
  assumes "list_ex (\<lambda>e. e_outcome e = Some k) es \<or>
      (k = ''done'' \<and> length (filter (\<lambda>e. e_outcome e = None) es) = 1)"
    and "kind outcome = k" and "\<not> starts_with k ''route:''"
  shows "\<exists>e. select_edge node es outcome = Inr e"
proof (cases "List.find (\<lambda>e. e_outcome e = Some k) es")
  case None
  with assms(1) have "k = ''done''" "length (filter (\<lambda>e. e_outcome e = None) es) = 1"
    by (auto simp: find_None)
  moreover from this obtain e where "filter (\<lambda>e. e_outcome e = None) es = [e]"
    by (auto simp: length_Suc_conv)
  ultimately show ?thesis using None assms(2) by (simp add: select_edge_def Let_def)
next
  case (Some e)
  with assms(2,3) show ?thesis by (simp add: select_edge_def Let_def)
qed

text \<open>
  C17. Skipping a disabled node is safe.  If a task's set of disabled nodes validates against the
  flow, each id names a node of it, and unless that node is terminal the engine finds an edge for
  its skip outcome: it does not raise, and the edge it takes is a forward edge that charges no
  budget.
\<close>

theorem disabled_nodes_skip_safely:
  assumes "validate_disabled_nodes snap disabled = Inr ()" and "nid \<in> set disabled"
  shows "\<exists>node. node_at snap nid = Some node \<and>
    (out_edges snap nid = [] \<or>
     (\<exists>e. select_edge node (out_edges snap nid) (skip_outcome node) = Inr e \<and>
        e \<in> set (out_edges snap nid) \<and> \<not> is_rework e))"
proof -
  have v: "disabled_violation snap nid = []"
    using assms by (auto simp: validate_disabled_nodes_def Let_def split: if_splits)
  then obtain node where node: "node_at snap nid = Some node"
    by (auto simp: disabled_violation_def split: option.splits)
  show ?thesis
  proof (cases "out_edges snap nid = []")
    case True
    with node show ?thesis by blast
  next
    case False
    let ?k = "kind (skip_outcome node)"
    from v node False have "list_ex (\<lambda>e. e_outcome e = Some ?k) (out_edges snap nid) \<or>
        (?k = ''done'' \<and> length (filter (\<lambda>e. e_outcome e = None) (out_edges snap nid)) = 1)"
      by (auto simp: disabled_violation_def Let_def split: if_splits)
    from select_edge_skip [OF this refl not_route_skip] obtain e where
      e: "select_edge node (out_edges snap nid) (skip_outcome node) = Inr e" by blast
    note s = select_edge_sound [OF e]
    have "\<not> is_rework e"
      using s skip_outcome_kind [of node] by (auto simp: is_rework_def REWORK_OUTCOMES_def)
    with node e s show ?thesis by blast
  qed
qed


section \<open>Report directory\<close>

lemma shape_rule_None:
  "report_dir_shape_rule v = None \<longleftrightarrow>
     py_strip v \<noteq> [] \<and> v = py_strip v \<and> CHR 0x5C \<notin> set v \<and> \<not> drive_letter v \<and>
     \<not> starts_with v ''/'' \<and> [] \<notin> set (split_on (CHR ''/'') v)"
  by (auto simp: report_dir_shape_rule_def REPORT_DIR_SHAPE_RULES_def)

lemma split_ends:
  "v \<noteq> [] \<Longrightarrow> [] \<notin> set (split_on c v) \<Longrightarrow> hd v \<noteq> c \<and> last v \<noteq> c"
proof -
  assume v: "v \<noteq> []" "[] \<notin> set (split_on c v)"
  have "last v \<noteq> c"
  proof
    assume "last v = c"
    with v(1) have "v = butlast v @ c # []" by (metis append_butlast_last_id)
    then have "split_on c v = split_on c (butlast v) @ split_on c []" using split_on_hd_slash by metis
    with v(2) show False by simp
  qed
  moreover have "hd v \<noteq> c" using v by (cases v) (auto split: if_splits)
  ultimately show ?thesis by simp
qed

lemma shape_tidy: "report_dir_shape_rule v = None \<Longrightarrow> tidy v"
  using split_ends [of v "CHR ''/''"] by (auto simp: shape_rule_None tidy_def)

lemma fold_char_slash: "fold_char (CHR ''/'') = ''/''"
  by (simp add: fold_char_def)

lemma fold_char_other:
  assumes "c \<noteq> CHR ''/''" and "c \<noteq> CHR 0x5C"
  shows "CHR ''/'' \<notin> set (fold_char c) \<and> CHR 0x5C \<notin> set (fold_char c) \<and> fold_char c \<noteq> []"
proof -
  have "char_of (n + 32) \<noteq> CHR ''/'' \<and> char_of (n + 32) \<noteq> CHR 0x5C"
    if "n = of_char c" "(65 \<le> n \<and> n \<le> 90) \<or> (192 \<le> n \<and> n \<le> 222)" for n :: nat
  proof -
    have eq: "of_char (char_of (n + 32) :: char) = n + 32" using that by (auto simp: of_char_of)
    show ?thesis
    proof (intro conjI notI)
      assume "char_of (n + 32) = CHR ''/''"
      with eq have "n + 32 = of_char (CHR ''/'')" by metis
      with that(2) show False by auto
    next
      assume "char_of (n + 32) = CHR 0x5C"
      with eq have "n + 32 = of_char (CHR 0x5C)" by metis
      with that(2) show False by auto
    qed
  qed
  with assms show ?thesis by (auto simp: fold_char_def Let_def)
qed

lemma casefold_simps [simp]: "casefold [] = []" "casefold (c # s) = fold_char c @ casefold s"
  "casefold (s @ t) = casefold s @ casefold t"
  by (simp_all add: casefold_def)

lemma split_on_prefix: "c \<notin> set u \<Longrightarrow> split_on c (u @ v) = (case split_on c v of y # ys \<Rightarrow> (u @ y) # ys | [] \<Rightarrow> [u])"
  by (induction u) (auto split: list.splits)

lemma split_casefold:
  "CHR 0x5C \<notin> set v \<Longrightarrow> split_on (CHR ''/'') (casefold v) = map casefold (split_on (CHR ''/'') v)"
proof (induction v)
  case Nil
  then show ?case by simp
next
  case (Cons c v)
  obtain y ys where y: "split_on (CHR ''/'') v = y # ys" by (cases "split_on (CHR ''/'') v") auto
  show ?case
  proof (cases "c = CHR ''/''")
    case True
    with Cons y show ?thesis by (simp add: fold_char_slash)
  next
    case False
    with Cons.prems have "CHR ''/'' \<notin> set (fold_char c)" using fold_char_other [of c] by auto
    with False Cons y show ?thesis by (simp add: split_on_prefix)
  qed
qed

lemma split_on_subset: "s \<in> set (split_on c v) \<Longrightarrow> set s \<subseteq> set v"
proof (induction v arbitrary: s)
  case Nil
  then show ?case by simp
next
  case (Cons x v)
  obtain y ys where y: "split_on c v = y # ys" by (cases "split_on c v") auto
  have "set y \<subseteq> set v" "\<And>t. t \<in> set ys \<Longrightarrow> set t \<subseteq> set v" using Cons.IH y by auto
  with Cons.prems y show ?case by (auto split: if_splits)
qed

lemma casefold_tidy:
  assumes "tidy v" and "[] \<notin> set (split_on (CHR ''/'') v)"
  shows "tidy (casefold v)"
proof -
  have b: "CHR 0x5C \<notin> set v" "v \<noteq> []" using assms(1) by (auto simp: tidy_def)
  have nonempty: "s \<noteq> [] \<Longrightarrow> CHR 0x5C \<notin> set s \<Longrightarrow> casefold s \<noteq> [] \<and> CHR 0x5C \<notin> set (casefold s)" for s
  proof (induction s)
    case (Cons c s)
    have "fold_char c \<noteq> [] \<and> CHR 0x5C \<notin> set (fold_char c)"
      using Cons.prems fold_char_other [of c] by (cases "c = CHR ''/''") (auto simp: fold_char_slash)
    moreover have "CHR 0x5C \<notin> set (casefold s)" using Cons by (cases s) auto
    ultimately show ?case by auto
  qed simp
  have "[] \<notin> set (split_on (CHR ''/'') (casefold v))"
  proof
    assume "[] \<in> set (split_on (CHR ''/'') (casefold v))"
    then obtain s where s: "s \<in> set (split_on (CHR ''/'') v)" "casefold s = []"
      using split_casefold [OF b(1)] by auto
    have "set s \<subseteq> set v" using split_on_subset [OF s(1)] .
    with s b nonempty [of s] assms(2) show False by auto
  qed
  with nonempty [OF b(2,1)] split_ends [of "casefold v" "CHR ''/''"] show ?thesis
    by (auto simp: tidy_def)
qed

lemma reserved_roots_norm:
  "r \<in> set RESERVED_REPORT_ROOTS \<Longrightarrow>
     normpath (casefold (py_strip (replace_char (CHR 0x5C) (CHR ''/'') r))) = r \<and>
     tidy r \<and> split_on (CHR ''/'') r = [r]"
proof -
  have "list_all (\<lambda>r. normpath (casefold (py_strip (replace_char (CHR 0x5C) (CHR ''/'') r))) = r \<and>
     tidy r \<and> split_on (CHR ''/'') r = [r]) RESERVED_REPORT_ROOTS"
    by code_simp
  then show "r \<in> set RESERVED_REPORT_ROOTS \<Longrightarrow> ?thesis" by (auto simp: list_all_iff)
qed

text \<open>
  C19. A validated report directory stays where it may be.  If a report flow with its own
  \<open>report_dir\<close> validates, then for every valid task id the directory its writing nodes get is that
  base plus the task segment, each of its components is one portable path segment, and even on a
  case-insensitive file system it neither lies in nor contains the control home, the exchange or
  \<open>.git\<close>.
\<close>

theorem report_dir_contained:
  assumes "validate_flow references snap = Inr ()" and "report_dir (doc snap) = Some v"
    and "is_valid_task_id tid" and "root \<in> set RESERVED_REPORT_ROOTS"
  shows "\<exists>sub. report_subdir (resolve_output_policy (doc_output_policy (doc snap)) tid (Some v)) = Some sub \<and>
    sub = v @ ''/'' @ tid \<and> list_all is_portable_path_segment (split_on (CHR ''/'') sub) \<and>
    \<not> within_subdir (casefold sub) root \<and> \<not> within_subdir root (casefold sub)"
proof -
  have ok: "report_dir_path_rule v = []" "doc_output_policy (doc snap) \<noteq> CODE_CHANGE"
    using assms(1,2) by (auto simp: validate_flow_Inr check_report_dir_def split: if_splits)
  then have shape: "report_dir_shape_rule v = None"
      and segs: "\<And>seg. seg \<in> set (split_on (CHR ''/'') v) \<Longrightarrow> report_dir_segment_rule seg = None"
      and roots: "\<And>r. r \<in> set RESERVED_REPORT_ROOTS \<Longrightarrow> \<not> overlaps_root v r"
    by (auto simp: report_dir_path_rule_def report_dir_root_violations_def filter_empty_conv
        split: option.splits)
  have v: "tidy v" "[] \<notin> set (split_on (CHR ''/'') v)" "CHR 0x5C \<notin> set v" "v \<noteq> []"
    using shape shape_tidy [OF shape] by (auto simp: shape_rule_None)
  have tid: "is_portable_path_segment tid" using assms(3) by (rule valid_task_id_portable)
  note tidc = portable_no_separator [OF tid]
  let ?sub = "v @ CHR ''/'' # tid"
  have split_sub: "split_on (CHR ''/'') ?sub = split_on (CHR ''/'') v @ [tid]"
    using tidc by (simp add: split_on_hd_slash split_on_single)
  have "last tid \<in> set tid" using tidc by simp
  then have "last tid \<noteq> CHR ''/''" using tidc by metis
  then have sub: "tidy ?sub" using v tidc by (simp add: tidy_def)
  have sub_segs: "[] \<notin> set (split_on (CHR ''/'') ?sub)" using v(2) tidc split_sub by auto
  note r = reserved_roots_norm [OF assms(4)]
  have outside: "\<not> within_subdir (casefold v) root"
    using roots [OF assms(4)] r by (auto simp: overlaps_root_def Let_def)
  have hd: "hd (map casefold (split_on (CHR ''/'') v)) \<noteq> root"
  proof
    assume h: "hd (map casefold (split_on (CHR ''/'') v)) = root"
    then have "split_on (CHR ''/'') (casefold v) = [root] @ tl (split_on (CHR ''/'') (casefold v))"
      using v(3) by (simp add: split_casefold) (metis list.collapse map_is_Nil_conv split_on_not_Nil)
    then show False
      using outside within_components [OF casefold_tidy [OF v(1,2)], of root] r by auto
  qed
  have comps: "split_on (CHR ''/'') (casefold ?sub) = map casefold (split_on (CHR ''/'') v) @ [casefold tid]"
    using split_casefold [of ?sub] sub split_sub by (simp add: tidy_def)
  have ne: "map casefold (split_on (CHR ''/'') v) \<noteq> []" by simp
  have out1: "\<not> within_subdir (casefold ?sub) root"
    using within_components [OF casefold_tidy [OF sub sub_segs], of root] r comps hd ne
    by (cases "map casefold (split_on (CHR ''/'') v)") auto
  have out2: "\<not> within_subdir root (casefold ?sub)"
    using within_components [OF _ casefold_tidy [OF sub sub_segs], of root] r comps ne
    by (cases "map casefold (split_on (CHR ''/'') v)") auto
  have "report_dir_segment_rule seg = None \<Longrightarrow> is_portable_path_segment seg" for seg
    by (auto simp: report_dir_segment_rule_def split: if_splits)
  with segs tid have port: "list_all is_portable_path_segment (split_on (CHR ''/'') ?sub)"
    by (auto simp: list_all_iff split_sub)
  show ?thesis
    using ok(2) v(4) port out1 out2
    by (cases "doc_output_policy (doc snap)") (simp_all add: dir_or_def)
qed

end
