(* ===== verification/TranslateFlow.thy ===== *)
theory TranslateFlow
  imports EngineRuns
begin

text \<open>
  The packaged flow \<open>packaged/flows/content_translate.yaml\<close> as a document, the engine constructed
  for it with the default limits, and an environment for it: the concrete input on which the
  engine's properties are instantiated.
\<close>

definition plain_agent :: "string \<Rightarrow> string \<Rightarrow> agent_node" where
  "plain_agent nid role = \<lparr>a_id = nid, a_role_file = role, a_resume_role_file = None,
     a_session_scope = EDITING_LINEAGE, a_lineage_affinity = None,
     a_permission_profile = Some WORKSPACE_WRITE, a_network_access = None, a_git_evidence = None,
     a_skills = [], a_allow_skills = None, a_provider = None, a_model = None, a_reasoning = None,
     a_timeout_seconds = None, a_output_schema = None, a_output_artifact = None,
     a_output_file = None, a_best_effort = False, a_hitl = None, a_extra_args = [], a_when = None\<rparr>"

definition adapt_en :: agent_node where
  "adapt_en = plain_agent ''adapt_en'' ''content_translate/adapt_en.md''"

definition fixing :: agent_node where
  "fixing = (plain_agent ''fixing'' ''content_translate/fixing.md'')
     \<lparr>a_resume_role_file := Some ''content_translate/fixing.continue.md'',
      a_lineage_affinity := Some ''adapt_en''\<rparr>"

definition constraints_en :: tool_node where
  "constraints_en = \<lparr>tl_id = ''constraints_en'', tl_tool = ''check_chapter'',
     tl_args = [(''min_chars'', YInt 1000), (''max_chars'', YInt 1400), (''max_paragraphs'', YInt 8)],
     tl_timeout_seconds = None, tl_when = None\<rparr>"

definition en_critic :: evaluator_node where
  "en_critic = \<lparr>ev_id = ''en_critic'', ev_role = ''critic'',
     ev_role_file = ''content_translate/en_critic.md'', ev_resume_role_file = None,
     ev_session_scope = FRESH_DISPOSABLE, ev_permission_profile = READ_ONLY,
     ev_network_access = None, ev_git_evidence = None, ev_blocking = True,
     ev_max_rework_per_stage = 1, ev_gate_severity = ''medium'', ev_provider = None,
     ev_model = None, ev_reasoning = None, ev_when = None\<rparr>"

definition arrow :: "string \<Rightarrow> string \<Rightarrow> string option \<Rightarrow> string option \<Rightarrow> edge" where
  "arrow x y oc l = \<lparr>e_from = x, e_to = y, e_outcome = oc, e_budget = None, e_loop = l\<rparr>"

definition content_translate :: flow_doc where
  "content_translate = \<lparr>doc_name = ''content_translate'', task_type = ''content_translate'',
     permission_ceiling = WORKSPACE_WRITE, doc_output_policy = CODE_CHANGE,
     publishing = PULL_REQUEST,
     nodes = [AgentNode adapt_en, ToolNode constraints_en, EvaluatorNode en_critic,
       AgentNode fixing,
       PublishNode \<lparr>pb_id = ''publish'', pb_policy = PULL_REQUEST, pb_when = None\<rparr>],
     edges = [arrow ''adapt_en'' ''constraints_en'' None None,
       arrow ''constraints_en'' ''en_critic'' (Some ''pass'') None,
       arrow ''constraints_en'' ''fixing'' (Some ''fail'') (Some ''constraint_fix''),
       arrow ''en_critic'' ''publish'' (Some ''accept'') None,
       arrow ''en_critic'' ''fixing'' (Some ''rework'') (Some ''critic_fix''),
       arrow ''fixing'' ''constraints_en'' None None],
     budgets = [''constraint_fix'' \<mapsto> 8, ''critic_fix'' \<mapsto> 3], report_dir = None,
     doc_network_policy = None, decomposition = None,
     supervisor = Some \<lparr>sb_role_file = Some ''content_translate/supervisor.md'',
       sb_finalize_role_file = Some ''content_translate/summary.md'', sb_handoff_role_file = None,
       sb_emit_follow_ups = False, sb_observe = Some (Some OBSERVE_NONE)\<rparr>\<rparr>"

definition translate_snapshot :: flow_snapshot where
  "translate_snapshot = snapshot_of content_translate ''fp'' None"

definition translate_engine :: engine where
  "translate_engine = \<lparr>snapshot = translate_snapshot,
     runners = [''agent'', ''tool'', ''evaluator'', ''publish''], max_fix_cycles = 3,
     max_total_fix_iterations = 8, task_id = ''task-1'', subtask_order = None,
     has_post_node = False, has_diff_fingerprint = False, has_repeated_findings = False,
     region = None, disabled_nodes = [], node_overrides = Map.empty\<rparr>"

text \<open>An environment in which every node succeeds, and one in which the critic always asks for rework.\<close>

definition answer :: "string \<Rightarrow> flow_node \<Rightarrow> node_context \<Rightarrow> engine_exn + node_result" where
  "answer verdict node ctx = Inr \<lparr>nr_node_id = node_id node,
     nr_outcome = (case node of EvaluatorNode _ \<Rightarrow> outcome_of verdict
                   | ToolNode _ \<Rightarrow> outcome_of ''pass'' | _ \<Rightarrow> outcome_of ''done''),
     nr_node_run_id = 1\<rparr>"

definition tick_with :: "string \<Rightarrow> tick" where
  "tick_with verdict = \<lparr>is_cancelled = False, facts = (\<lambda>_. False), run_node = answer verdict,
     post_node = (\<lambda>_ _ _. None), diff_fingerprint = ''tree'', repeated_findings = (\<lambda>_. 0),
     report_path = ''report.json''\<rparr>"

definition fresh_run :: engine_state where
  "fresh_run = \<lparr>run_state = \<lparr>flow_fingerprint = ''fp'', current_node = None, completed_nodes = [],
       loop_counters = Map.empty\<rparr>,
     stall_fp = Map.empty, stall_streak = Map.empty, trace = []\<rparr>"

text \<open>The tables of the flow, so that a run is computed without unfolding the snapshot.\<close>

lemma translate_out_edges:
  "out_edges translate_snapshot ''adapt_en'' = [arrow ''adapt_en'' ''constraints_en'' None None]"
  "out_edges translate_snapshot ''constraints_en'' =
     [arrow ''constraints_en'' ''en_critic'' (Some ''pass'') None,
      arrow ''constraints_en'' ''fixing'' (Some ''fail'') (Some ''constraint_fix'')]"
  "out_edges translate_snapshot ''en_critic'' =
     [arrow ''en_critic'' ''publish'' (Some ''accept'') None,
      arrow ''en_critic'' ''fixing'' (Some ''rework'') (Some ''critic_fix'')]"
  "out_edges translate_snapshot ''fixing'' = [arrow ''fixing'' ''constraints_en'' None None]"
  "out_edges translate_snapshot ''publish'' = []"
  by (simp_all add: translate_snapshot_def content_translate_def arrow_def)

definition publish_change :: publish_node where
  "publish_change = \<lparr>pb_id = ''publish'', pb_policy = PULL_REQUEST, pb_when = None\<rparr>"

lemma translate_nodes:
  "node_at translate_snapshot ''adapt_en'' = Some (AgentNode adapt_en)"
  "node_at translate_snapshot ''constraints_en'' = Some (ToolNode constraints_en)"
  "node_at translate_snapshot ''en_critic'' = Some (EvaluatorNode en_critic)"
  "node_at translate_snapshot ''fixing'' = Some (AgentNode fixing)"
  "node_at translate_snapshot ''publish'' = Some (PublishNode publish_change)"
  by (simp_all add: node_at_def translate_snapshot_def snapshot_of_def content_translate_def adapt_en_def
      plain_agent_def constraints_en_def en_critic_def fixing_def publish_change_def)

lemma translate_fields:
  "a_id adapt_en = ''adapt_en''" "a_when adapt_en = None" "a_id fixing = ''fixing''" "a_when fixing = None"
  "tl_id constraints_en = ''constraints_en''" "tl_when constraints_en = None"
  "ev_id en_critic = ''en_critic''" "ev_when en_critic = None" "ev_blocking en_critic"
  "pb_id publish_change = ''publish''" "pb_when publish_change = None"
  by (simp_all add: adapt_en_def plain_agent_def constraints_en_def en_critic_def fixing_def
      publish_change_def)

lemma translate_engine_fields:
  "snapshot translate_engine = translate_snapshot"
  "runners translate_engine = [''agent'', ''tool'', ''evaluator'', ''publish'']"
  "max_fix_cycles translate_engine = 3" "max_total_fix_iterations translate_engine = 8"
  "subtask_order translate_engine = None" "has_post_node translate_engine = False"
  "has_diff_fingerprint translate_engine = False" "has_repeated_findings translate_engine = False"
  "region translate_engine = None" "disabled_nodes translate_engine = []"
  "node_overrides translate_engine = Map.empty"
  by (simp_all add: translate_engine_def)

lemma translate_budgets:
  "budgets (doc translate_snapshot) = [''constraint_fix'' \<mapsto> 8, ''critic_fix'' \<mapsto> 3]"
  by (simp add: translate_snapshot_def content_translate_def)

lemma translate_entry: "entry_node_id translate_snapshot = Inr ''adapt_en''"
  by code_simp

lemma tick_fields:
  "\<not> is_cancelled (tick_with v)" "run_node (tick_with v) = answer v"
  "report_path (tick_with v) = ''report.json''"
  by (simp_all add: tick_with_def)

lemma arrow_fields:
  "e_from (arrow x y oc l) = x" "e_to (arrow x y oc l) = y" "e_outcome (arrow x y oc l) = oc"
  "e_budget (arrow x y oc l) = None" "e_loop (arrow x y oc l) = l"
  by (simp_all add: arrow_def)

lemmas translate_run = translate_out_edges translate_nodes translate_fields translate_engine_fields
  translate_budgets translate_entry tick_fields arrow_fields answer_def outcome_of_def
  apply_overrides_def execute_node_def should_skip_def after_node_def select_edge_def
  advance_def reset_loops_at_def reset_loop_of_def is_rework_def REWORK_OUTCOMES_def
  mark_completed_def emit_def

lemma translate_accepts:
  "snd (engine_run translate_engine (replicate 5 (tick_with ''accept'')) fresh_run) =
     Some (Returned (done_result ''publish''))"
  by (simp add: engine_run_def fresh_run_def engine_step_def translate_run numeral_eq_Suc Let_def)


text \<open>A resumed run that stands at the critic with its rework budget spent.\<close>

definition spent_run :: engine_state where
  "spent_run = fresh_run\<lparr>run_state := \<lparr>flow_fingerprint = ''fp'',
     current_node = Some ''en_critic'', completed_nodes = [''adapt_en''],
     loop_counters = [''critic_fix'' \<mapsto> 3, ''total_fix:critic_fix'' \<mapsto> 3,
       ''global_fix_iterations'' \<mapsto> 3]\<rparr>\<rparr>"

lemma translate_parks:
  "snd (engine_run translate_engine [tick_with ''rework''] spent_run) =
     Some (Returned \<lparr>fr_status = MANUAL_ACTION_REQUIRED, fr_final_node = ''en_critic'',
       fr_stuck_loop = Some ''critic_fix'', fr_limit_name = Some ''max_fix_cycles'',
       fr_failure_report_path = Some ''report.json''\<rparr>)"
  by (simp add: engine_run_def spent_run_def fresh_run_def engine_step_def translate_run Let_def
      take_rework_def park_stuck_def check_stall_def check_no_file_change_def
      check_repeated_findings_def advisory_def charge_rework_def engine_refusal_def rework_refusal_def
      loop_cap_def counter_def)

lemma translate_flow_ok:
  "forward_acyclic translate_snapshot" "no_reserved_loop translate_snapshot"
  "wf_snapshot translate_snapshot"
proof -
  show "forward_acyclic translate_snapshot" by code_simp
  show "no_reserved_loop translate_snapshot" by code_simp
  show "wf_snapshot translate_snapshot" unfolding translate_snapshot_def by (rule wf_snapshot_of)
qed

lemma translate_plain_loops: "plain_loops translate_snapshot"
  by code_simp

lemma translate_start: "start_node translate_engine (run_state fresh_run) = Some ''adapt_en''"
  by (simp add: start_node_def fresh_run_def translate_engine_fields translate_entry)

lemma translate_bound: "run_bound translate_engine (run_state fresh_run) = 62"
proof -
  have "edge_count translate_snapshot = 6" by code_simp
  then show ?thesis
    by (simp add: run_bound_def engine_global_cap_def global_cap_def GLOBAL_FIX_KEY_def LARGE_def
        translate_engine_fields translate_budgets fix_iterations_def fresh_run_def)
qed

section \<open>The properties of the engine on this flow\<close>

theorem engine_terminates_witness:
  "\<exists>s' r. engine_run translate_engine (replicate 63 (tick_with ''rework'')) fresh_run = (s', Some r)"
  by (rule engine_terminates)
    (simp_all add: translate_engine_fields translate_flow_ok translate_bound)


theorem engine_resume_point_witness:
  "\<exists>s' tr. engine_run translate_engine (replicate 5 (tick_with ''accept'')) fresh_run =
       (s', Some (Returned (done_result ''publish''))) \<and> trace s' = tr \<and>
     saved (seeded translate_engine (run_state fresh_run)) tr = run_state s'"
proof -
  obtain s' where run: "engine_run translate_engine (replicate 5 (tick_with ''accept'')) fresh_run =
      (s', Some (Returned (done_result ''publish'')))"
    using translate_accepts by (metis prod.collapse)
  then show ?thesis
    using engine_resume_point [OF _ run] translate_start
    by (auto simp: translate_engine_fields translate_flow_ok fresh_run_def)
qed


lemma translate_runs_adapt:
  "\<exists>ctx. RunNode ''adapt_en'' ctx \<in>
     set (trace (fst (engine_run translate_engine [tick_with ''accept''] fresh_run)))"
  by (auto simp: engine_run_def fresh_run_def engine_step_def translate_run Let_def)

theorem engine_runs_only_enabled_witness:
  "\<exists>ctx s' r. engine_run translate_engine [tick_with ''accept''] fresh_run = (s', r) \<and>
     RunNode ''adapt_en'' ctx \<in> set (trace s') \<and> node_id (ctx_node ctx) = ''adapt_en''"
proof -
  obtain s' r where run: "engine_run translate_engine [tick_with ''accept''] fresh_run = (s', r)"
    by fastforce
  with translate_runs_adapt obtain ctx where "RunNode ''adapt_en'' ctx \<in> set (trace s')" by auto
  with engine_runs_only_enabled [OF _ run this] run show ?thesis
    by (auto simp: translate_engine_fields translate_flow_ok fresh_run_def)
qed

end
