(* ===== verification/PyValues.thy ===== *)
theory PyValues
  imports Prelude
begin

text \<open>
  The Python built-ins the parsers apply to document values: \<open>str()\<close>, \<open>repr()\<close>, \<open>int()\<close>, and the
  dictionary idioms \<open>d.get(k) or None\<close> and \<open>sorted(set(d) - allowed)\<close>.
\<close>

section \<open>str() and repr()\<close>

definition hex_digit :: "nat \<Rightarrow> char" where
  "hex_digit n = ''0123456789abcdef'' ! (n mod 16)"

definition quote_char :: char where "quote_char = CHR 0x27"

definition printable :: "nat \<Rightarrow> bool" where
  "printable n = ((32 \<le> n \<and> n < 127) \<or> (160 < n \<and> n \<noteq> 173))"

text \<open>\<open>repr\<close> of a string: single quotes unless only those occur in it; the usual escapes.\<close>

definition repr_char :: "char \<Rightarrow> char \<Rightarrow> string" where
  "repr_char q c =
     (let n = (of_char c :: nat) in
      if c = q \<or> c = CHR 0x5C then [CHR 0x5C, c]
      else if n = 10 then [CHR 0x5C, CHR ''n'']
      else if n = 13 then [CHR 0x5C, CHR ''r'']
      else if n = 9 then [CHR 0x5C, CHR ''t'']
      else if printable n then [c]
      else [CHR 0x5C, CHR ''x'', hex_digit (n div 16), hex_digit n])"

definition repr_string :: "string \<Rightarrow> string" where
  "repr_string s =
     (let q = (if CHR 0x27 \<in> set s \<and> CHR 0x22 \<notin> set s then CHR 0x22 else CHR 0x27)
      in q # concat (map (repr_char q) s) @ [q])"

text \<open>\<open>', '.join(parts)\<close>\<close>

fun comma_join :: "string list \<Rightarrow> string" where
  "comma_join [] = []"
| "comma_join [x] = x"
| "comma_join (x # y # ys) = x @ '', '' @ comma_join (y # ys)"

fun py_repr :: "yval \<Rightarrow> string" where
  "py_repr YNone = ''None''"
| "py_repr (YBool b) = (if b then ''True'' else ''False'')"
| "py_repr (YInt n) = show_int n"
| "py_repr (YFloat r n whole) = r"
| "py_repr (YStr s) = repr_string s"
| "py_repr (YList xs) = ''['' @ comma_join (map py_repr xs) @ '']''"
| "py_repr (YMap kvs) =
     ''{'' @ comma_join (map (\<lambda>kv. repr_string (fst kv) @ '': '' @ py_repr (snd kv)) kvs) @ ''}''"

definition py_str :: "yval \<Rightarrow> string" where
  "py_str v = (case v of YStr s \<Rightarrow> s | _ \<Rightarrow> py_repr v)"

section \<open>int()\<close>

definition is_digit :: "char \<Rightarrow> bool" where
  "is_digit c = (let n = (of_char c :: nat) in 48 \<le> n \<and> n \<le> 57)"

definition digit_value :: "char \<Rightarrow> int" where
  "digit_value c = int (of_char c :: nat) - 48"

text \<open>Decimal digits, single underscores allowed between two digits.\<close>

fun digits_from :: "int \<Rightarrow> bool \<Rightarrow> string \<Rightarrow> int option" where
  "digits_from acc after_digit [] = (if after_digit then Some acc else None)"
| "digits_from acc after_digit (c # cs) =
     (if is_digit c then digits_from (10 * acc + digit_value c) True cs
      else if c = CHR ''_'' \<and> after_digit then digits_from acc False cs
      else None)"

definition int_of_string :: "string \<Rightarrow> int option" where
  "int_of_string s =
     (case py_strip s of
        [] \<Rightarrow> None
      | c # cs \<Rightarrow>
          if c = CHR ''-'' then map_option uminus (digits_from 0 False cs)
          else if c = CHR ''+'' then digits_from 0 False cs
          else digits_from 0 False (c # cs))"

text \<open>\<open>int(value)\<close>; \<open>None\<close> stands for the \<open>ValueError\<close>, \<open>TypeError\<close> or \<open>OverflowError\<close> it raises.\<close>

definition py_int :: "yval \<Rightarrow> int option" where
  "py_int v = (case v of
     YInt n \<Rightarrow> Some n
   | YBool b \<Rightarrow> Some (if b then 1 else 0)
   | YFloat r n whole \<Rightarrow> n
   | YStr s \<Rightarrow> int_of_string s
   | _ \<Rightarrow> None)"

section \<open>Dictionaries\<close>

text \<open>\<open>sorted(set(d) - allowed)\<close>\<close>

definition extra_keys :: "ydict \<Rightarrow> string list \<Rightarrow> string list" where
  "extra_keys d allowed = sort (remdups (filter (\<lambda>k. k \<notin> set allowed) (map fst d)))"

lemma extra_keys_Nil: "extra_keys d allowed = [] \<longleftrightarrow> fst ` set d \<subseteq> set allowed"
proof -
  have "set (extra_keys d allowed) = fst ` set d - set allowed"
    by (auto simp: extra_keys_def)
  then show ?thesis by (metis Diff_eq_empty_iff set_empty)
qed

lemma get_or_none_None: "get_or_none d k = YNone \<longleftrightarrow> map_of d k = None \<or> map_of d k = Some YNone"
  by (auto simp: get_or_none_def split: option.splits)

end
