(* ===== verification/FlowLoad.thy ===== *)
theory FlowLoad
  imports FlowSchema PyValues Security
begin

text \<open>
  The flow loader of \<open>core/flow/snapshot.py\<close>: from the value the YAML parser returned to a
  \<open>flow_snapshot\<close>, one parser per section of the document, in the code's order of checks.  The
  exceptions are values: \<open>FlowLoadError\<close> with the reason its message states, \<open>PyError\<close> for the
  \<open>TypeError\<close>, \<open>ValueError\<close> or \<open>AttributeError\<close> that a value of an unexpected shape makes the
  built-ins raise, and \<open>OutsideTypes\<close> where the code keeps a value its own annotations exclude
  (the loaded document is typed here, so the model stops).
\<close>

section \<open>Errors\<close>

datatype load_reason =
    CannotRead
  | YamlError
  | NoFlowKey
  | DuplicateNodeId string
  | UnknownFields "string list" string
  | MissingField string string
  | WhenNotMapping
  | BareFact string
  | BadNodeId string string
  | ReservedNodeId string string
  | BadEnum string string
  | BadOutputSlot string
  | BadGateSeverity string
  | BadChecker string string
  | BadOutputFile string string
  | SlotAndFile string string
  | SkillsNotList string
  | SkillsEmpty string
  | SkillNotString string
  | BadSkillName string string
  | SkillsContradiction string
  | BadManifest string string
  | ArgsNotMapping string
  | ArgNotScalar string string
  | BadSignal string string
  | UnknownNodeKind string
  | DecompositionNotMapping
  | SupervisorNotMapping
  | ObserveNotMapping
  | DefaultsNotMapping
  | EvaluatorDefaultsNotMapping
  | NodesNotList
  | ReportDirNotString

datatype load_error = FlowLoadError load_reason | PyError string | OutsideTypes string

section \<open>Field allowlists\<close>

definition FLOW_FIELDS :: "string list" where
  "FLOW_FIELDS = [''name'', ''task_type'', ''permission_ceiling'', ''output_policy'', ''publishing'',
     ''report_dir'', ''network_policy'', ''defaults'', ''nodes'', ''edges'', ''budgets'',
     ''decomposition'', ''supervisor'']"

definition AGENT_FIELDS :: "string list" where
  "AGENT_FIELDS = [''id'', ''kind'', ''role_file'', ''resume_role_file'', ''session_scope'',
     ''lineage_affinity'', ''permission_profile'', ''network_access'', ''git_evidence'', ''skills'',
     ''allow_skills'', ''provider'', ''model'', ''reasoning'', ''timeout_seconds'',
     ''output_schema'', ''output_artifact'', ''output_file'', ''best_effort'', ''hitl'',
     ''extra_args'', ''when'']"

definition EVALUATOR_FIELDS :: "string list" where
  "EVALUATOR_FIELDS = [''id'', ''kind'', ''role'', ''role_file'', ''resume_role_file'',
     ''session_scope'', ''permission_profile'', ''network_access'', ''git_evidence'', ''blocking'',
     ''max_rework_per_stage'', ''gate_severity'', ''provider'', ''model'', ''reasoning'', ''when'']"

definition CHECKS_FIELDS :: "string list" where
  "CHECKS_FIELDS = [''id'', ''kind'', ''checker'', ''manifest'', ''when'']"

definition TOOL_FIELDS :: "string list" where
  "TOOL_FIELDS = [''id'', ''kind'', ''tool'', ''args'', ''timeout_seconds'', ''when'']"

definition HITL_NODE_FIELDS :: "string list" where
  "HITL_NODE_FIELDS = [''id'', ''kind'', ''signal'', ''timeout_s'', ''when'']"

definition PUBLISH_FIELDS :: "string list" where
  "PUBLISH_FIELDS = [''id'', ''kind'', ''policy'', ''when'']"

definition EDGE_FIELDS :: "string list" where
  "EDGE_FIELDS = [''from'', ''to'', ''outcome'', ''budget'', ''loop'']"

definition WHEN_FIELDS :: "string list" where
  "WHEN_FIELDS = [''fact'', ''equals'']"

definition HITL_SETTINGS_FIELDS :: "string list" where
  "HITL_SETTINGS_FIELDS = [''allow_question'', ''allow_approval'']"

definition DECOMPOSITION_FIELDS :: "string list" where
  "DECOMPOSITION_FIELDS = [''proposed_by'', ''sub_flow'', ''shared_budget'']"

definition SUPERVISOR_FIELDS :: "string list" where
  "SUPERVISOR_FIELDS = [''role_file'', ''finalize_role_file'', ''handoff_role_file'',
     ''emit_follow_ups'', ''observe'']"

definition SUPERVISOR_OBSERVE_FIELDS :: "string list" where
  "SUPERVISOR_OBSERVE_FIELDS = [''mode'']"

definition DEFAULTS_FIELDS :: "string list" where
  "DEFAULTS_FIELDS = [''evaluator'']"

definition EVALUATOR_DEFAULTS_FIELDS :: "string list" where
  "EVALUATOR_DEFAULTS_FIELDS = [''session_scope'', ''permission_profile'',
     ''max_rework_per_stage'', ''gate_severity'']"

definition CHECKER_KINDS :: "string list" where
  "CHECKER_KINDS = [''command_profile'', ''citation'', ''dependency_scan'']"

definition OUTPUT_ARTIFACT_SLOTS :: "string list" where
  "OUTPUT_ARTIFACT_SLOTS = [''enriched_spec'', ''plan'', ''summary'', ''report'']"

definition RESERVED_NODE_ID_NAMES :: "string list" where
  "RESERVED_NODE_ID_NAMES = [''task'', ''plan'', ''diff'', ''change_overview'', ''checks'',
     ''review'', ''repo'', ''memory'', ''stage'', ''conflicts'']"

definition RESERVED_NODE_ID_PREFIX :: string where
  "RESERVED_NODE_ID_PREFIX = ''subtask''"

definition WHEN_FACT_NAMESPACES :: "string list" where
  "WHEN_FACT_NAMESPACES = [''derived.'', ''config.'']"

section \<open>Helpers\<close>

definition enum_members :: "('a \<Rightarrow> string) \<Rightarrow> 'a list \<Rightarrow> (string \<times> 'a) list" where
  "enum_members val xs = map (\<lambda>x. (val x, x)) xs"

definition session_scopes :: "(string \<times> session_scope) list" where
  "session_scopes =
     enum_members session_scope_value [FRESH_DISPOSABLE, EDITING_LINEAGE, RESUME_OWN_LINEAGE]"

definition permission_profiles :: "(string \<times> permission_profile) list" where
  "permission_profiles = enum_members profile_value [READ_ONLY, WORKSPACE_WRITE]"

definition output_policies :: "(string \<times> output_policy) list" where
  "output_policies = enum_members output_policy_value
     [CODE_CHANGE, REPOSITORY_DOCUMENT, PRIVATE_REPORT_OUTPUT]"

definition publishing_policies :: "(string \<times> publishing_policy) list" where
  "publishing_policies = enum_members publishing_value
     [PULL_REQUEST, DOCUMENTATION_PULL_REQUEST, LOCAL_ARTIFACT, PRIVATE_REPORT_PUBLISH, PUBLISH_NONE]"

definition network_policies :: "(string \<times> network_policy) list" where
  "network_policies = enum_members network_policy_value [ADVISORIES, RESEARCH]"

definition observe_modes :: "(string \<times> observe_mode) list" where
  "observe_modes = enum_members observe_mode_value
     [OBSERVE_NONE, OBSERVE_EVENTS, OBSERVE_SELECTED, OBSERVE_ALL]"

definition provider_ids :: "(string \<times> provider_id) list" where
  "provider_ids = enum_members provider_value [CODEX, CLAUDE]"

text \<open>\<open>_enum\<close>: a value that is no member's string is refused, whatever its type.\<close>

definition to_enum :: "(string \<times> 'a) list \<Rightarrow> string \<Rightarrow> yval \<Rightarrow> string \<Rightarrow> load_error + 'a" where
  "to_enum members cls v ctx =
     (case v of
        YStr s \<Rightarrow> (case map_of members s of
                    Some x \<Rightarrow> Inr x
                  | None \<Rightarrow> Inl (FlowLoadError (BadEnum cls ctx)))
      | _ \<Rightarrow> Inl (FlowLoadError (BadEnum cls ctx)))"

text \<open>\<open>_enum(cls, d.get(key, default), ctx)\<close> and \<open>... if raw is not None else None\<close>.\<close>

definition enum_or :: "(string \<times> 'a) list \<Rightarrow> string \<Rightarrow> ydict \<Rightarrow> string \<Rightarrow> 'a \<Rightarrow> string \<Rightarrow> load_error + 'a" where
  "enum_or members cls d key dflt ctx =
     (case map_of d key of
        None \<Rightarrow> Inr dflt
      | Some v \<Rightarrow> to_enum members cls v ctx)"

definition enum_opt :: "(string \<times> 'a) list \<Rightarrow> string \<Rightarrow> ydict \<Rightarrow> string \<Rightarrow> string \<Rightarrow> load_error + 'a option" where
  "enum_opt members cls d key ctx =
     (case get_or_none d key of
        YNone \<Rightarrow> Inr None
      | v \<Rightarrow> bind_res (to_enum members cls v ctx) (\<lambda>x. Inr (Some x)))"

definition reject_unknown :: "ydict \<Rightarrow> string list \<Rightarrow> string \<Rightarrow> load_error + unit" where
  "reject_unknown d allowed ctx =
     (let extra = extra_keys d allowed
      in if extra \<noteq> [] then Inl (FlowLoadError (UnknownFields extra ctx)) else Inr ())"

definition parse_tristate :: "ydict \<Rightarrow> string \<Rightarrow> bool option" where
  "parse_tristate d key = (case get_or_none d key of YNone \<Rightarrow> None | v \<Rightarrow> Some (truthy v))"

definition require_key :: "ydict \<Rightarrow> string \<Rightarrow> string \<Rightarrow> load_error + yval" where
  "require_key d key ctx =
     (case map_of d key of
        None \<Rightarrow> Inl (FlowLoadError (MissingField key ctx))
      | Some v \<Rightarrow> Inr v)"

definition require_str :: "ydict \<Rightarrow> string \<Rightarrow> string \<Rightarrow> load_error + string" where
  "require_str d key ctx = bind_res (require_key d key ctx) (\<lambda>v. Inr (py_str v))"

text \<open>\<open>d.get(key) or None\<close> for a field annotated \<open>str | None\<close>, \<open>d.get(key)\<close> for \<open>int | None\<close>.\<close>

definition opt_str :: "ydict \<Rightarrow> string \<Rightarrow> load_error + string option" where
  "opt_str d key =
     (let v = get_or_none d key
      in if \<not> truthy v then Inr None
         else case v of YStr s \<Rightarrow> Inr (Some s) | _ \<Rightarrow> Inl (OutsideTypes key))"

definition opt_int :: "ydict \<Rightarrow> string \<Rightarrow> load_error + int option" where
  "opt_int d key =
     (case get_or_none d key of
        YNone \<Rightarrow> Inr None
      | YInt n \<Rightarrow> Inr (Some n)
      | _ \<Rightarrow> Inl (OutsideTypes key))"

text \<open>\<open>tuple(str(x) for x in value)\<close>: what iterating a YAML value yields.\<close>

definition iter_strings :: "yval \<Rightarrow> string \<Rightarrow> load_error + string list" where
  "iter_strings v ctx =
     (case v of
        YList xs \<Rightarrow> Inr (map py_str xs)
      | YStr s \<Rightarrow> Inr (map (\<lambda>c. [c]) s)
      | YMap kvs \<Rightarrow> Inr (map fst kvs)
      | _ \<Rightarrow> Inl (PyError ctx))"

definition int_value :: "yval \<Rightarrow> string \<Rightarrow> load_error + int" where
  "int_value v ctx = (case py_int v of None \<Rightarrow> Inl (PyError ctx) | Some n \<Rightarrow> Inr n)"

definition node_ctx :: "string \<Rightarrow> string \<Rightarrow> string" where
  "node_ctx what nid = what @ '' node '' @ quote_char # nid @ [quote_char]"

section \<open>Sections of a node\<close>

definition parse_when :: "yval \<Rightarrow> load_error + when_predicate option" where
  "parse_when v =
     (case v of
        YNone \<Rightarrow> Inr None
      | YMap d \<Rightarrow>
          bind_res (reject_unknown d WHEN_FIELDS ''when predicate'') (\<lambda>_.
          bind_res (require_str d ''fact'' ''when'') (\<lambda>fact.
          if \<not> list_ex (starts_with fact) WHEN_FACT_NAMESPACES
          then Inl (FlowLoadError (BareFact fact))
          else Inr (Some \<lparr>w_fact = fact, w_equals = truthy (get_or d ''equals'' (YBool True))\<rparr>)))
      | _ \<Rightarrow> Inl (FlowLoadError WhenNotMapping))"

definition parse_hitl_settings :: "yval \<Rightarrow> load_error + hitl_settings option" where
  "parse_hitl_settings v =
     (case v of
        YNone \<Rightarrow> Inr None
      | YMap d \<Rightarrow>
          bind_res (reject_unknown d HITL_SETTINGS_FIELDS ''hitl settings'') (\<lambda>_.
          Inr (Some \<lparr>allow_question = truthy (get_or d ''allow_question'' (YBool False)),
                     allow_approval = truthy (get_or d ''allow_approval'' (YBool False))\<rparr>))
      | _ \<Rightarrow> Inl (PyError ''hitl settings''))"

definition validate_node_id :: "string \<Rightarrow> string \<Rightarrow> load_error + unit" where
  "validate_node_id nid what =
     (if \<not> is_valid_node_id nid then Inl (FlowLoadError (BadNodeId nid what)) else Inr ())"

definition check_reserved_node_id :: "string \<Rightarrow> string \<Rightarrow> load_error + unit" where
  "check_reserved_node_id nid what =
     (if nid \<in> set RESERVED_NODE_ID_NAMES \<or> starts_with nid RESERVED_NODE_ID_PREFIX
      then Inl (FlowLoadError (ReservedNodeId nid what)) else Inr ())"

definition parse_gate_severity :: "yval \<Rightarrow> string \<Rightarrow> load_error + string" where
  "parse_gate_severity v ctx =
     (let token = py_lower (py_str v)
      in if token \<notin> set SEVERITY_ORDER then Inl (FlowLoadError (BadGateSeverity ctx)) else Inr token)"

definition parse_output_artifact :: "ydict \<Rightarrow> string \<Rightarrow> load_error + string option" where
  "parse_output_artifact d ctx =
     (let v = get_or_none d ''output_artifact''
      in if \<not> truthy v then Inr None
         else case v of
                YStr s \<Rightarrow> if s \<notin> set OUTPUT_ARTIFACT_SLOTS
                          then Inl (FlowLoadError (BadOutputSlot ctx)) else Inr (Some s)
              | YList _ \<Rightarrow> Inl (PyError ctx)
              | YMap _ \<Rightarrow> Inl (PyError ctx)
              | _ \<Rightarrow> Inl (FlowLoadError (BadOutputSlot ctx)))"

definition parse_output_file :: "yval \<Rightarrow> string \<Rightarrow> string option \<Rightarrow> load_error + string option" where
  "parse_output_file v ctx slot =
     (case v of
        YNone \<Rightarrow> Inr None
      | _ \<Rightarrow>
          let name = py_str v
          in if \<not> is_portable_path_segment name then Inl (FlowLoadError (BadOutputFile name ctx))
             else case slot of
                    Some sl \<Rightarrow> Inl (FlowLoadError (SlotAndFile ctx sl))
                  | None \<Rightarrow> Inr (Some name))"

fun skill_names :: "string \<Rightarrow> yval list \<Rightarrow> load_error + string list" where
  "skill_names ctx [] = Inr []"
| "skill_names ctx (YStr s # items) =
     (if \<not> is_portable_path_segment s then Inl (FlowLoadError (BadSkillName s ctx))
      else bind_res (skill_names ctx items) (\<lambda>names. Inr (s # names)))"
| "skill_names ctx (_ # items) = Inl (FlowLoadError (SkillNotString ctx))"

definition parse_skills :: "ydict \<Rightarrow> string \<Rightarrow> load_error + string list" where
  "parse_skills d ctx =
     (case get_or_none d ''skills'' of
        YNone \<Rightarrow> Inr []
      | YList [] \<Rightarrow> Inl (FlowLoadError (SkillsEmpty ctx))
      | YList items \<Rightarrow>
          bind_res (skill_names ctx items) (\<lambda>names.
          if map_of d ''allow_skills'' = Some (YBool False)
          then Inl (FlowLoadError (SkillsContradiction ctx)) else Inr names)
      | _ \<Rightarrow> Inl (FlowLoadError (SkillsNotList ctx)))"

definition parse_manifest :: "yval \<Rightarrow> string \<Rightarrow> load_error + string" where
  "parse_manifest v ctx =
     (let name = py_str v
      in if \<not> is_portable_path_segment name then Inl (FlowLoadError (BadManifest name ctx))
         else Inr name)"

fun is_scalar :: "yval \<Rightarrow> bool" where
  "is_scalar (YStr s) = True"
| "is_scalar (YInt n) = True"
| "is_scalar (YFloat r n w) = True"
| "is_scalar (YBool b) = True"
| "is_scalar _ = False"

definition parse_tool_args :: "yval \<Rightarrow> string \<Rightarrow> load_error + (string \<times> yval) list" where
  "parse_tool_args v ctx =
     (case v of
        YNone \<Rightarrow> Inr []
      | YMap d \<Rightarrow>
          map_res (\<lambda>(key, x). if \<not> is_scalar x then Inl (FlowLoadError (ArgNotScalar key ctx))
                              else Inr (key, x)) d
      | _ \<Rightarrow> Inl (FlowLoadError (ArgsNotMapping ctx)))"

section \<open>Nodes\<close>

definition parse_agent_node :: "ydict \<Rightarrow> load_error + flow_node" where
  "parse_agent_node d =
     bind_res (require_str d ''id'' ''agent node'') (\<lambda>nid.
     bind_res (validate_node_id nid ''agent'') (\<lambda>_.
     let ctx = node_ctx ''agent'' nid in
     bind_res (reject_unknown d AGENT_FIELDS ctx) (\<lambda>_.
     bind_res (check_reserved_node_id nid ''agent'') (\<lambda>_.
     bind_res (require_str d ''role_file'' ctx) (\<lambda>role_file.
     bind_res (enum_opt permission_profiles ''PermissionProfile'' d ''permission_profile'' ctx) (\<lambda>profile.
     bind_res (enum_opt provider_ids ''ProviderId'' d ''provider'' ctx) (\<lambda>provider.
     bind_res (parse_output_artifact d ctx) (\<lambda>slot.
     bind_res (parse_output_file (get_or_none d ''output_file'') ctx slot) (\<lambda>output_file.
     bind_res (opt_str d ''resume_role_file'') (\<lambda>resume.
     bind_res (enum_or session_scopes ''SessionScope'' d ''session_scope'' FRESH_DISPOSABLE ctx) (\<lambda>scope.
     bind_res (opt_str d ''lineage_affinity'') (\<lambda>affinity.
     bind_res (parse_skills d ctx) (\<lambda>skills.
     bind_res (opt_str d ''model'') (\<lambda>model.
     bind_res (opt_str d ''reasoning'') (\<lambda>reasoning.
     bind_res (opt_int d ''timeout_seconds'') (\<lambda>timeout.
     bind_res (parse_hitl_settings (get_or_none d ''hitl'')) (\<lambda>hitl.
     bind_res (iter_strings (get_or d ''extra_args'' (YList [])) ctx) (\<lambda>extra_args.
     bind_res (parse_when (get_or_none d ''when'')) (\<lambda>guard.
     Inr (AgentNode \<lparr>a_id = nid, a_role_file = role_file, a_resume_role_file = resume,
       a_session_scope = scope, a_lineage_affinity = affinity, a_permission_profile = profile,
       a_network_access = parse_tristate d ''network_access'',
       a_git_evidence = parse_tristate d ''git_evidence'',
       a_skills = skills, a_allow_skills = parse_tristate d ''allow_skills'', a_provider = provider,
       a_model = model, a_reasoning = reasoning, a_timeout_seconds = timeout,
       a_output_schema = (case get_or_none d ''output_schema'' of YNone \<Rightarrow> None | v \<Rightarrow> Some v),
       a_output_artifact = slot, a_output_file = output_file,
       a_best_effort = truthy (get_or d ''best_effort'' (YBool False)),
       a_hitl = hitl, a_extra_args = extra_args, a_when = guard\<rparr>))))))))))))))))))))"

definition parse_evaluator_node :: "ydict \<Rightarrow> evaluator_defaults \<Rightarrow> load_error + flow_node" where
  "parse_evaluator_node d defaults =
     bind_res (require_str d ''id'' ''evaluator node'') (\<lambda>nid.
     bind_res (validate_node_id nid ''evaluator'') (\<lambda>_.
     let ctx = node_ctx ''evaluator'' nid in
     bind_res (reject_unknown d EVALUATOR_FIELDS ctx) (\<lambda>_.
     bind_res (require_str d ''role'' ctx) (\<lambda>role.
     bind_res (require_str d ''role_file'' ctx) (\<lambda>role_file.
     bind_res (enum_opt provider_ids ''ProviderId'' d ''provider'' ctx) (\<lambda>provider.
     bind_res (opt_str d ''resume_role_file'') (\<lambda>resume.
     bind_res (enum_or session_scopes ''SessionScope'' d ''session_scope''
                 (d_session_scope defaults) ctx) (\<lambda>scope.
     bind_res (enum_or permission_profiles ''PermissionProfile'' d ''permission_profile''
                 (d_permission_profile defaults) ctx) (\<lambda>profile.
     bind_res (int_value (get_or d ''max_rework_per_stage'' (YInt (d_max_rework_per_stage defaults))) ctx) (\<lambda>max_rework.
     bind_res (parse_gate_severity (get_or d ''gate_severity'' (YStr (d_gate_severity defaults))) ctx) (\<lambda>severity.
     bind_res (opt_str d ''model'') (\<lambda>model.
     bind_res (opt_str d ''reasoning'') (\<lambda>reasoning.
     bind_res (parse_when (get_or_none d ''when'')) (\<lambda>guard.
     Inr (EvaluatorNode \<lparr>ev_id = nid, ev_role = role, ev_role_file = role_file,
       ev_resume_role_file = resume, ev_session_scope = scope, ev_permission_profile = profile,
       ev_network_access = parse_tristate d ''network_access'',
       ev_git_evidence = parse_tristate d ''git_evidence'',
       ev_blocking = truthy (get_or d ''blocking'' (YBool True)),
       ev_max_rework_per_stage = max_rework, ev_gate_severity = severity, ev_provider = provider,
       ev_model = model, ev_reasoning = reasoning, ev_when = guard\<rparr>)))))))))))))))"

definition parse_checks_node :: "ydict \<Rightarrow> load_error + flow_node" where
  "parse_checks_node d =
     bind_res (require_str d ''id'' ''checks node'') (\<lambda>nid.
     bind_res (validate_node_id nid ''checks'') (\<lambda>_.
     let ctx = node_ctx ''checks'' nid in
     bind_res (reject_unknown d CHECKS_FIELDS ctx) (\<lambda>_.
     bind_res (require_str d ''checker'' ctx) (\<lambda>checker.
     if checker \<notin> set CHECKER_KINDS then Inl (FlowLoadError (BadChecker checker ctx)) else
     bind_res (parse_manifest (get_or d ''manifest'' (YStr DEFAULT_CITATION_MANIFEST)) ctx) (\<lambda>manifest.
     bind_res (parse_when (get_or_none d ''when'')) (\<lambda>guard.
     Inr (ChecksNode \<lparr>ch_id = nid, ch_checker = checker, ch_manifest = manifest, ch_when = guard\<rparr>)))))))"

definition parse_tool_node :: "ydict \<Rightarrow> load_error + flow_node" where
  "parse_tool_node d =
     bind_res (require_str d ''id'' ''tool node'') (\<lambda>nid.
     bind_res (validate_node_id nid ''tool'') (\<lambda>_.
     let ctx = node_ctx ''tool'' nid in
     bind_res (reject_unknown d TOOL_FIELDS ctx) (\<lambda>_.
     bind_res (check_reserved_node_id nid ''tool'') (\<lambda>_.
     bind_res (require_str d ''tool'' ctx) (\<lambda>tool.
     bind_res (parse_tool_args (get_or_none d ''args'') ctx) (\<lambda>args.
     bind_res (opt_int d ''timeout_seconds'') (\<lambda>timeout.
     bind_res (parse_when (get_or_none d ''when'')) (\<lambda>guard.
     Inr (ToolNode \<lparr>tl_id = nid, tl_tool = tool, tl_args = args, tl_timeout_seconds = timeout,
       tl_when = guard\<rparr>)))))))))"

definition parse_hitl_node :: "ydict \<Rightarrow> load_error + flow_node" where
  "parse_hitl_node d =
     bind_res (require_str d ''id'' ''hitl node'') (\<lambda>nid.
     bind_res (validate_node_id nid ''hitl'') (\<lambda>_.
     let ctx = node_ctx ''hitl'' nid in
     bind_res (reject_unknown d HITL_NODE_FIELDS ctx) (\<lambda>_.
     bind_res (require_str d ''signal'' ctx) (\<lambda>signal.
     if signal \<notin> {''question'', ''approval''} then Inl (FlowLoadError (BadSignal signal ctx)) else
     bind_res (opt_int d ''timeout_s'') (\<lambda>timeout.
     bind_res (parse_when (get_or_none d ''when'')) (\<lambda>guard.
     Inr (HitlNode \<lparr>h_id = nid, h_signal = signal, h_timeout_s = timeout, h_when = guard\<rparr>)))))))"

definition parse_publish_node :: "ydict \<Rightarrow> load_error + flow_node" where
  "parse_publish_node d =
     bind_res (require_str d ''id'' ''publish node'') (\<lambda>nid.
     bind_res (validate_node_id nid ''publish'') (\<lambda>_.
     let ctx = node_ctx ''publish'' nid in
     bind_res (reject_unknown d PUBLISH_FIELDS ctx) (\<lambda>_.
     bind_res (require_str d ''policy'' ctx) (\<lambda>policy.
     bind_res (to_enum publishing_policies ''PublishingPolicy'' (YStr policy) ctx) (\<lambda>pol.
     bind_res (parse_when (get_or_none d ''when'')) (\<lambda>guard.
     Inr (PublishNode \<lparr>pb_id = nid, pb_policy = pol, pb_when = guard\<rparr>)))))))"

definition no_evaluator_defaults :: evaluator_defaults where
  "no_evaluator_defaults = \<lparr>d_session_scope = FRESH_DISPOSABLE, d_permission_profile = READ_ONLY,
     d_max_rework_per_stage = 1, d_gate_severity = DEFAULT_GATE_SEVERITY\<rparr>"

definition parse_node :: "evaluator_defaults option \<Rightarrow> yval \<Rightarrow> load_error + flow_node" where
  "parse_node defaults v =
     (case v of
        YMap d \<Rightarrow>
          let kind = get_or_none d ''kind'';
              ev = (case defaults of Some e \<Rightarrow> e | None \<Rightarrow> no_evaluator_defaults)
          in if kind = YStr ''agent'' then parse_agent_node d
             else if kind = YStr ''evaluator'' then parse_evaluator_node d ev
             else if kind = YStr ''checks'' then parse_checks_node d
             else if kind = YStr ''tool'' then parse_tool_node d
             else if kind = YStr ''hitl'' then parse_hitl_node d
             else if kind = YStr ''publish'' then parse_publish_node d
             else Inl (FlowLoadError (UnknownNodeKind (py_repr kind)))
      | _ \<Rightarrow> Inl (PyError ''node''))"

section \<open>Edges and the flow\<close>

text \<open>An edge that is not a mapping always raises; which exception depends on its shape.\<close>

definition parse_edge :: "yval \<Rightarrow> load_error + edge" where
  "parse_edge v =
     (case v of
        YMap d \<Rightarrow>
          bind_res (reject_unknown d EDGE_FIELDS ''edge'') (\<lambda>_.
          bind_res (require_str d ''from'' ''edge'') (\<lambda>from_node.
          bind_res (require_str d ''to'' ''edge'') (\<lambda>to.
          bind_res (opt_str d ''outcome'') (\<lambda>outcome.
          bind_res (opt_int d ''budget'') (\<lambda>budget.
          bind_res (opt_str d ''loop'') (\<lambda>loop.
          Inr \<lparr>e_from = from_node, e_to = to, e_outcome = outcome, e_budget = budget,
               e_loop = loop\<rparr>))))))
      | _ \<Rightarrow> Inl (PyError ''edge''))"

definition parse_decomposition :: "yval \<Rightarrow> load_error + decomposition_config option" where
  "parse_decomposition v =
     (case v of
        YNone \<Rightarrow> Inr None
      | YMap d \<Rightarrow>
          bind_res (reject_unknown d DECOMPOSITION_FIELDS ''decomposition'') (\<lambda>_.
          bind_res (require_str d ''proposed_by'' ''decomposition'') (\<lambda>proposed.
          bind_res (require_key d ''sub_flow'' ''decomposition'') (\<lambda>sub_raw.
          bind_res (iter_strings sub_raw ''decomposition'') (\<lambda>sub.
          bind_res (opt_str d ''shared_budget'') (\<lambda>shared.
          Inr (Some \<lparr>proposed_by = proposed, sub_flow = sub, shared_budget = shared\<rparr>))))))
      | _ \<Rightarrow> Inl (FlowLoadError DecompositionNotMapping))"

definition parse_supervisor_observe :: "yval \<Rightarrow> load_error + observe_mode option option" where
  "parse_supervisor_observe v =
     (case v of
        YNone \<Rightarrow> Inr None
      | YMap d \<Rightarrow>
          bind_res (reject_unknown d SUPERVISOR_OBSERVE_FIELDS ''supervisor.observe'') (\<lambda>_.
          bind_res (enum_opt observe_modes ''ObserveMode'' d ''mode'' ''supervisor.observe'') (\<lambda>mode.
          Inr (Some mode)))
      | _ \<Rightarrow> Inl (FlowLoadError ObserveNotMapping))"

definition parse_supervisor :: "yval \<Rightarrow> load_error + supervisor_block option" where
  "parse_supervisor v =
     (case v of
        YNone \<Rightarrow> Inr None
      | YMap d \<Rightarrow>
          bind_res (reject_unknown d SUPERVISOR_FIELDS ''supervisor'') (\<lambda>_.
          bind_res (opt_str d ''role_file'') (\<lambda>role_file.
          bind_res (opt_str d ''finalize_role_file'') (\<lambda>finalize.
          bind_res (opt_str d ''handoff_role_file'') (\<lambda>handoff.
          bind_res (parse_supervisor_observe (get_or_none d ''observe'')) (\<lambda>observe.
          Inr (Some \<lparr>sb_role_file = role_file, sb_finalize_role_file = finalize,
            sb_handoff_role_file = handoff,
            sb_emit_follow_ups = truthy (get_or d ''emit_follow_ups'' (YBool False)),
            sb_observe = observe\<rparr>))))))
      | _ \<Rightarrow> Inl (FlowLoadError SupervisorNotMapping))"

definition parse_evaluator_defaults :: "ydict \<Rightarrow> load_error + evaluator_defaults" where
  "parse_evaluator_defaults d =
     bind_res (reject_unknown d EVALUATOR_DEFAULTS_FIELDS ''defaults.evaluator'') (\<lambda>_.
     bind_res (enum_or session_scopes ''SessionScope'' d ''session_scope'' FRESH_DISPOSABLE
                 ''defaults.evaluator'') (\<lambda>scope.
     bind_res (enum_or permission_profiles ''PermissionProfile'' d ''permission_profile'' READ_ONLY
                 ''defaults.evaluator'') (\<lambda>profile.
     bind_res (int_value (get_or d ''max_rework_per_stage'' (YInt 1)) ''defaults.evaluator'') (\<lambda>max_rework.
     bind_res (parse_gate_severity (get_or d ''gate_severity'' (YStr DEFAULT_GATE_SEVERITY))
                 ''defaults.evaluator'') (\<lambda>severity.
     Inr \<lparr>d_session_scope = scope, d_permission_profile = profile,
          d_max_rework_per_stage = max_rework, d_gate_severity = severity\<rparr>)))))"

definition parse_defaults :: "yval \<Rightarrow> load_error + evaluator_defaults option" where
  "parse_defaults v =
     (case v of
        YNone \<Rightarrow> Inr None
      | YMap d \<Rightarrow>
          bind_res (reject_unknown d DEFAULTS_FIELDS ''defaults'') (\<lambda>_.
          (case get_or_none d ''evaluator'' of
             YNone \<Rightarrow> Inr None
           | YMap e \<Rightarrow> bind_res (parse_evaluator_defaults e) (\<lambda>ev. Inr (Some ev))
           | _ \<Rightarrow> Inl (FlowLoadError EvaluatorDefaultsNotMapping)))
      | _ \<Rightarrow> Inl (FlowLoadError DefaultsNotMapping))"

definition parse_nodes :: "evaluator_defaults option \<Rightarrow> yval \<Rightarrow> load_error + flow_node list" where
  "parse_nodes defaults v =
     (case v of
        YList [] \<Rightarrow> Inl (FlowLoadError NodesNotList)
      | YList xs \<Rightarrow> map_res (parse_node defaults) xs
      | _ \<Rightarrow> Inl (FlowLoadError NodesNotList))"

definition parse_edges :: "yval \<Rightarrow> load_error + edge list" where
  "parse_edges v =
     (if \<not> truthy v then Inr []
      else case v of YList xs \<Rightarrow> map_res parse_edge xs | _ \<Rightarrow> Inl (PyError ''edges''))"

definition parse_budgets :: "yval \<Rightarrow> load_error + (string \<times> int) list" where
  "parse_budgets v =
     (if \<not> truthy v then Inr []
      else case v of
        YMap d \<Rightarrow> map_res (\<lambda>(k, x). bind_res (int_value x ''budgets'') (\<lambda>n. Inr (k, n))) d
      | _ \<Rightarrow> Inl (PyError ''budgets''))"

definition parse_report_dir :: "yval \<Rightarrow> load_error + string option" where
  "parse_report_dir v =
     (case v of
        YNone \<Rightarrow> Inr None
      | YStr s \<Rightarrow> Inr (Some s)
      | _ \<Rightarrow> Inl (FlowLoadError ReportDirNotString))"

definition parse_flow_doc :: "ydict \<Rightarrow> load_error + flow_doc" where
  "parse_flow_doc d =
     bind_res (reject_unknown d FLOW_FIELDS ''flow'') (\<lambda>_.
     bind_res (require_str d ''name'' ''flow'') (\<lambda>name.
     bind_res (require_str d ''task_type'' ''flow'') (\<lambda>ttype.
     bind_res (require_str d ''permission_ceiling'' ''flow'') (\<lambda>ceiling.
     bind_res (require_str d ''output_policy'' ''flow'') (\<lambda>out_pol.
     bind_res (require_str d ''publishing'' ''flow'') (\<lambda>pub.
     bind_res (parse_defaults (get_or_none d ''defaults'')) (\<lambda>defaults.
     bind_res (require_key d ''nodes'' ''flow'') (\<lambda>nodes_raw.
     bind_res (parse_nodes defaults nodes_raw) (\<lambda>ns.
     bind_res (parse_edges (get_or_none d ''edges'')) (\<lambda>es.
     bind_res (enum_opt network_policies ''NetworkPolicy'' d ''network_policy'' ''flow'') (\<lambda>network.
     bind_res (parse_report_dir (get_or_none d ''report_dir'')) (\<lambda>rdir.
     bind_res (to_enum permission_profiles ''PermissionProfile'' (YStr ceiling) ''flow'') (\<lambda>ceil.
     bind_res (to_enum output_policies ''OutputPolicy'' (YStr out_pol) ''flow'') (\<lambda>pol.
     bind_res (to_enum publishing_policies ''PublishingPolicy'' (YStr pub) ''flow'') (\<lambda>publ.
     bind_res (parse_budgets (get_or_none d ''budgets'')) (\<lambda>bs.
     bind_res (parse_decomposition (get_or_none d ''decomposition'')) (\<lambda>dec.
     bind_res (parse_supervisor (get_or_none d ''supervisor'')) (\<lambda>sup.
     Inr \<lparr>doc_name = name, task_type = ttype, permission_ceiling = ceil,
       doc_output_policy = pol, publishing = publ, nodes = ns, edges = es, budgets = map_of bs,
       report_dir = rdir, doc_network_policy = network, decomposition = dec,
       supervisor = sup\<rparr>))))))))))))))))))"

text \<open>The first node id seen twice.\<close>

fun first_duplicate :: "string list \<Rightarrow> string list \<Rightarrow> string option" where
  "first_duplicate seen [] = None"
| "first_duplicate seen (x # xs) =
     (if x \<in> set seen then Some x else first_duplicate (x # seen) xs)"

text \<open>
  \<open>load_flow\<close>: reading the file and parsing the YAML are the environment's (their failure is
  \<open>Inl\<close>); \<open>sha\<close> is the SHA-256 fingerprint of the flow mapping.
\<close>

definition load_flow ::
    "(yval \<Rightarrow> string) \<Rightarrow> load_reason + yval \<Rightarrow> string \<Rightarrow> load_error + flow_snapshot" where
  "load_flow sha parsed path =
     (case parsed of
        Inl reason \<Rightarrow> Inl (FlowLoadError reason)
      | Inr raw \<Rightarrow>
          (case raw of
             YMap root \<Rightarrow>
               (case map_of root ''flow'' of
                  None \<Rightarrow> Inl (FlowLoadError NoFlowKey)
                | Some (YMap d) \<Rightarrow>
                    bind_res (parse_flow_doc d) (\<lambda>dc.
                    (case first_duplicate [] (map node_id (nodes dc)) of
                       Some nid \<Rightarrow> Inl (FlowLoadError (DuplicateNodeId nid))
                     | None \<Rightarrow> Inr (snapshot_of dc (sha (YMap d)) (Some path))))
                | Some _ \<Rightarrow> Inl (PyError ''flow''))
           | _ \<Rightarrow> Inl (FlowLoadError NoFlowKey)))"

end
