(* ===== verification/FlowLoadCorrect.thy ===== *)
theory FlowLoadCorrect
  imports FlowLoad
begin

text \<open>
  What the flow loader guarantees: every loaded flow is well formed, parsing is fail-closed, and a
  node rendered as YAML parses back to itself.
\<close>

section \<open>What a loaded flow satisfies\<close>

definition good_when :: "when_predicate option \<Rightarrow> bool" where
  "good_when w = (case w of None \<Rightarrow> True | Some p \<Rightarrow> list_ex (starts_with (w_fact p)) WHEN_FACT_NAMESPACES)"

definition unreserved :: "string \<Rightarrow> bool" where
  "unreserved nid \<longleftrightarrow> nid \<notin> set RESERVED_NODE_ID_NAMES \<and> \<not> starts_with nid RESERVED_NODE_ID_PREFIX"

fun good_node :: "flow_node \<Rightarrow> bool" where
  "good_node (AgentNode n) \<longleftrightarrow> is_valid_node_id (a_id n) \<and> unreserved (a_id n) \<and>
     (\<forall>f. a_output_file n = Some f \<longrightarrow> is_portable_path_segment f \<and> a_output_artifact n = None) \<and>
     (\<forall>s. a_output_artifact n = Some s \<longrightarrow> s \<in> set OUTPUT_ARTIFACT_SLOTS) \<and>
     list_all is_portable_path_segment (a_skills n) \<and> good_when (a_when n)"
| "good_node (EvaluatorNode n) \<longleftrightarrow> is_valid_node_id (ev_id n) \<and>
     ev_gate_severity n \<in> set SEVERITY_ORDER \<and> good_when (ev_when n)"
| "good_node (ChecksNode n) \<longleftrightarrow> is_valid_node_id (ch_id n) \<and> ch_checker n \<in> set CHECKER_KINDS \<and>
     is_portable_path_segment (ch_manifest n) \<and> good_when (ch_when n)"
| "good_node (ToolNode n) \<longleftrightarrow> is_valid_node_id (tl_id n) \<and> unreserved (tl_id n) \<and>
     list_all (\<lambda>(k, v). is_scalar v) (tl_args n) \<and> good_when (tl_when n)"
| "good_node (HitlNode n) \<longleftrightarrow> is_valid_node_id (h_id n) \<and> h_signal n \<in> {''question'', ''approval''} \<and>
     good_when (h_when n)"
| "good_node (PublishNode n) \<longleftrightarrow> is_valid_node_id (pb_id n) \<and> good_when (pb_when n)"

lemma validate_node_id_ok [res_iff]: "validate_node_id nid k = Inr u \<longleftrightarrow> is_valid_node_id nid"
  by (simp add: validate_node_id_def)

lemma check_reserved_ok [res_iff]: "check_reserved_node_id nid k = Inr u \<longleftrightarrow> unreserved nid"
  by (auto simp: check_reserved_node_id_def unreserved_def)

lemma reject_unknown_ok [res_iff]: "reject_unknown d allowed ctx = Inr u \<longleftrightarrow> fst ` set d \<subseteq> set allowed"
  by (auto simp: reject_unknown_def Let_def extra_keys_Nil)

lemma parse_when_good: "parse_when v = Inr w \<Longrightarrow> good_when w"
  by (cases v) (auto simp: parse_when_def good_when_def bind_res_Inr split: if_splits)

lemma parse_gate_good: "parse_gate_severity v ctx = Inr s \<Longrightarrow> s \<in> set SEVERITY_ORDER"
  by (auto simp: parse_gate_severity_def Let_def split: if_splits)

lemma parse_output_artifact_good:
  "parse_output_artifact d ctx = Inr (Some s) \<Longrightarrow> s \<in> set OUTPUT_ARTIFACT_SLOTS"
  by (cases "get_or_none d ''output_artifact''")
    (auto simp: parse_output_artifact_def Let_def split: if_splits)

lemma parse_output_file_good:
  "parse_output_file v ctx slot = Inr (Some f) \<Longrightarrow> is_portable_path_segment f \<and> slot = None"
  by (cases v) (auto simp: parse_output_file_def Let_def split: if_splits option.splits)

lemma skill_names_good: "skill_names ctx xs = Inr ns \<Longrightarrow> list_all is_portable_path_segment ns"
  by (induction ctx xs arbitrary: ns rule: skill_names.induct)
    (auto simp: bind_res_Inr split: if_splits)

lemma parse_skills_good:
  "parse_skills d ctx = Inr ns \<Longrightarrow> list_all is_portable_path_segment ns \<and>
     (ns \<noteq> [] \<longrightarrow> map_of d ''allow_skills'' \<noteq> Some (YBool False))"
  by (cases "get_or_none d ''skills''")
    (auto simp: parse_skills_def bind_res_Inr skill_names_good split: if_splits list.splits)

lemma tool_args_good: "parse_tool_args v ctx = Inr args \<Longrightarrow> list_all (\<lambda>(k, v). is_scalar v) args"
  by (cases v) (fastforce simp: parse_tool_args_def list_all_iff split: if_splits
      dest: map_res_Inr_set)+

lemma parse_manifest_good: "parse_manifest v ctx = Inr s \<Longrightarrow> is_portable_path_segment s"
  by (auto simp: parse_manifest_def Let_def split: if_splits)


lemmas section_good = parse_when_good parse_gate_good parse_output_artifact_good parse_output_file_good
  parse_skills_good tool_args_good parse_manifest_good

lemma parse_agent_good: "parse_agent_node d = Inr n \<Longrightarrow> good_node n \<and> fst ` set d \<subseteq> set AGENT_FIELDS"
  by (auto simp: parse_agent_node_def Let_def res_iff dest: section_good)

lemma parse_evaluator_good:
  "parse_evaluator_node d e = Inr n \<Longrightarrow> good_node n \<and> fst ` set d \<subseteq> set EVALUATOR_FIELDS"
  by (auto simp: parse_evaluator_node_def Let_def res_iff dest: section_good)

lemma parse_checks_good: "parse_checks_node d = Inr n \<Longrightarrow> good_node n \<and> fst ` set d \<subseteq> set CHECKS_FIELDS"
  by (auto simp: parse_checks_node_def Let_def res_iff split: if_splits dest: section_good)

lemma parse_tool_good: "parse_tool_node d = Inr n \<Longrightarrow> good_node n \<and> fst ` set d \<subseteq> set TOOL_FIELDS"
  by (auto simp: parse_tool_node_def Let_def res_iff dest: section_good)

lemma parse_hitl_good: "parse_hitl_node d = Inr n \<Longrightarrow> good_node n \<and> fst ` set d \<subseteq> set HITL_NODE_FIELDS"
  by (auto simp: parse_hitl_node_def Let_def res_iff split: if_splits dest: section_good)

lemma parse_publish_good: "parse_publish_node d = Inr n \<Longrightarrow> good_node n \<and> fst ` set d \<subseteq> set PUBLISH_FIELDS"
  by (auto simp: parse_publish_node_def Let_def res_iff dest: section_good)

lemmas node_parsers_good = parse_agent_good parse_evaluator_good parse_checks_good parse_tool_good
  parse_hitl_good parse_publish_good

lemma parse_node_good: "parse_node defaults v = Inr n \<Longrightarrow> good_node n"
  by (cases v) (auto simp: parse_node_def Let_def split: if_splits dest: node_parsers_good)

lemma parse_nodes_good:
  assumes "parse_nodes defaults v = Inr ns"
  shows "ns \<noteq> [] \<and> (\<forall>n\<in>set ns. good_node n)"
proof -
  from assms obtain x xs where v: "map_res (parse_node defaults) (x # xs) = Inr ns"
    by (cases v) (auto simp: parse_nodes_def split: list.splits)
  then have "length ns = Suc (length xs)" using map_res_Inr_length [OF v] by simp
  moreover have "\<forall>n\<in>set ns. good_node n"
    using map_res_Inr_set [OF v] parse_node_good by blast
  ultimately show ?thesis by auto
qed

lemma first_duplicate_None:
  "first_duplicate seen xs = None \<longleftrightarrow> distinct xs \<and> set xs \<inter> set seen = {}"
  by (induction seen xs rule: first_duplicate.induct) auto

text \<open>
  C23. What a loaded flow satisfies.  The loader returns a snapshot only for a mapping whose keys are
  all on the allowlist; the snapshot's tables are those of its document, node ids are distinct and
  portable, an agent or tool id shadows no core variable, every guard names a namespaced fact,
  every slot, checker, signal and severity is one of the fixed vocabulary, and every file or skill
  name is one portable path segment.
\<close>

theorem load_flow_well_formed:
  assumes "load_flow sha parsed path = Inr snap"
  shows "\<exists>root d. parsed = Inr (YMap root) \<and> map_of root ''flow'' = Some (YMap d) \<and>
    fst ` set d \<subseteq> set FLOW_FIELDS \<and>
    snap = snapshot_of (doc snap) (sha (YMap d)) (Some path) \<and>
    nodes (doc snap) \<noteq> [] \<and> distinct (map node_id (nodes (doc snap))) \<and>
    (\<forall>n\<in>set (nodes (doc snap)). good_node n)"
proof -
  from assms obtain root d dc where p: "parsed = Inr (YMap root)" "map_of root ''flow'' = Some (YMap d)"
      and dc: "parse_flow_doc d = Inr dc" "first_duplicate [] (map node_id (nodes dc)) = None"
      and snap: "snap = snapshot_of dc (sha (YMap d)) (Some path)"
    by (auto simp: load_flow_def bind_res_Inr split: sum.splits yval.splits option.splits)
  from dc(1) obtain defaults v where "fst ` set d \<subseteq> set FLOW_FIELDS"
      and "parse_nodes defaults v = Inr (nodes dc)"
    unfolding parse_flow_doc_def by (auto simp: res_iff)
  with p dc(2) snap parse_nodes_good show ?thesis
    by (intro exI [of _ root] exI [of _ d]) (auto simp: first_duplicate_None)
qed


fun node_fields :: "flow_node \<Rightarrow> string list" where
  "node_fields (AgentNode n) = AGENT_FIELDS"
| "node_fields (EvaluatorNode n) = EVALUATOR_FIELDS"
| "node_fields (ChecksNode n) = CHECKS_FIELDS"
| "node_fields (ToolNode n) = TOOL_FIELDS"
| "node_fields (HitlNode n) = HITL_NODE_FIELDS"
| "node_fields (PublishNode n) = PUBLISH_FIELDS"

lemma require_str_ok: "require_str d k ctx = Inr s \<longleftrightarrow> (\<exists>v. map_of d k = Some v \<and> py_str v = s)"
  by (auto simp: require_str_def require_key_def split: option.splits)

lemma parse_node_shape:
  "parse_agent_node d = Inr n \<Longrightarrow> (\<exists>v. map_of d ''id'' = Some v \<and> py_str v = node_id n) \<and> (\<exists>a. n = AgentNode a)"
  "parse_evaluator_node d e = Inr n \<Longrightarrow> (\<exists>v. map_of d ''id'' = Some v \<and> py_str v = node_id n) \<and> (\<exists>a. n = EvaluatorNode a)"
  "parse_checks_node d = Inr n \<Longrightarrow> (\<exists>v. map_of d ''id'' = Some v \<and> py_str v = node_id n) \<and> (\<exists>a. n = ChecksNode a)"
  "parse_tool_node d = Inr n \<Longrightarrow> (\<exists>v. map_of d ''id'' = Some v \<and> py_str v = node_id n) \<and> (\<exists>a. n = ToolNode a)"
  "parse_hitl_node d = Inr n \<Longrightarrow> (\<exists>v. map_of d ''id'' = Some v \<and> py_str v = node_id n) \<and> (\<exists>a. n = HitlNode a)"
  "parse_publish_node d = Inr n \<Longrightarrow> (\<exists>v. map_of d ''id'' = Some v \<and> py_str v = node_id n) \<and> (\<exists>a. n = PublishNode a)"
  by (auto simp: parse_agent_node_def parse_evaluator_node_def parse_checks_node_def
      parse_tool_node_def parse_hitl_node_def parse_publish_node_def Let_def res_iff require_str_ok
      split: if_splits)

lemma parse_node_dispatch:
  "parse_node defaults (YMap d) = Inr n \<Longrightarrow>
     get_or_none d ''kind'' = YStr ''agent'' \<and> parse_agent_node d = Inr n \<or>
     get_or_none d ''kind'' = YStr ''evaluator'' \<and> (\<exists>e. parse_evaluator_node d e = Inr n) \<or>
     get_or_none d ''kind'' = YStr ''checks'' \<and> parse_checks_node d = Inr n \<or>
     get_or_none d ''kind'' = YStr ''tool'' \<and> parse_tool_node d = Inr n \<or>
     get_or_none d ''kind'' = YStr ''hitl'' \<and> parse_hitl_node d = Inr n \<or>
     get_or_none d ''kind'' = YStr ''publish'' \<and> parse_publish_node d = Inr n"
  by (auto simp: parse_node_def Let_def split: if_splits)

text \<open>
  Node parsing is fail-closed.  A raw node becomes a node only if it is a mapping, its \<open>kind\<close>
  is the kind of the result, its id is the string of its \<open>id\<close> field, and it carries no key outside
  the allowlist of that kind.
\<close>

theorem parse_node_closed:
  assumes "parse_node defaults v = Inr n"
  shows "\<exists>d idv. v = YMap d \<and> get_or_none d ''kind'' = YStr (node_kind n) \<and>
    map_of d ''id'' = Some idv \<and> node_id n = py_str idv \<and> fst ` set d \<subseteq> set (node_fields n)"
proof -
  from assms obtain d where v: "v = YMap d" by (cases v) (auto simp: parse_node_def)
  have "get_or_none d ''kind'' = YStr (node_kind n) \<and> (\<exists>idv. map_of d ''id'' = Some idv \<and>
      node_id n = py_str idv) \<and> fst ` set d \<subseteq> set (node_fields n)"
    using parse_node_dispatch [OF assms [unfolded v]]
    by (elim disjE conjE exE)
      (frule parse_node_shape, drule node_parsers_good, fastforce)+
  with v show ?thesis by blast
qed

section \<open>Rendering\<close>

text \<open>A node written back as the YAML mapping an author would write for it.\<close>

definition opt_key :: "string \<Rightarrow> ('a \<Rightarrow> yval) \<Rightarrow> 'a option \<Rightarrow> ydict" where
  "opt_key k f v = (case v of None \<Rightarrow> [] | Some x \<Rightarrow> [(k, f x)])"

definition list_key :: "string \<Rightarrow> string list \<Rightarrow> ydict" where
  "list_key k xs = (if xs = [] then [] else [(k, YList (map YStr xs))])"

definition render_when :: "when_predicate \<Rightarrow> yval" where
  "render_when w = YMap [(''fact'', YStr (w_fact w)), (''equals'', YBool (w_equals w))]"

definition render_hitl :: "hitl_settings \<Rightarrow> yval" where
  "render_hitl h = YMap [(''allow_question'', YBool (allow_question h)),
     (''allow_approval'', YBool (allow_approval h))]"

fun render_node :: "flow_node \<Rightarrow> ydict" where
  "render_node (AgentNode n) =
     [(''id'', YStr (a_id n)), (''kind'', YStr ''agent''), (''role_file'', YStr (a_role_file n)),
      (''session_scope'', YStr (session_scope_value (a_session_scope n))),
      (''best_effort'', YBool (a_best_effort n))] @
     opt_key ''resume_role_file'' YStr (a_resume_role_file n) @
     opt_key ''lineage_affinity'' YStr (a_lineage_affinity n) @
     opt_key ''permission_profile'' (\<lambda>p. YStr (profile_value p)) (a_permission_profile n) @
     opt_key ''network_access'' YBool (a_network_access n) @
     opt_key ''git_evidence'' YBool (a_git_evidence n) @
     list_key ''skills'' (a_skills n) @
     opt_key ''allow_skills'' YBool (a_allow_skills n) @
     opt_key ''provider'' (\<lambda>p. YStr (provider_value p)) (a_provider n) @
     opt_key ''model'' YStr (a_model n) @
     opt_key ''reasoning'' YStr (a_reasoning n) @
     opt_key ''timeout_seconds'' YInt (a_timeout_seconds n) @
     opt_key ''output_schema'' (\<lambda>v. v) (a_output_schema n) @
     opt_key ''output_artifact'' YStr (a_output_artifact n) @
     opt_key ''output_file'' YStr (a_output_file n) @
     opt_key ''hitl'' render_hitl (a_hitl n) @
     list_key ''extra_args'' (a_extra_args n) @
     opt_key ''when'' render_when (a_when n)"
| "render_node (EvaluatorNode n) =
     [(''id'', YStr (ev_id n)), (''kind'', YStr ''evaluator''), (''role'', YStr (ev_role n)),
      (''role_file'', YStr (ev_role_file n)),
      (''session_scope'', YStr (session_scope_value (ev_session_scope n))),
      (''permission_profile'', YStr (profile_value (ev_permission_profile n))),
      (''blocking'', YBool (ev_blocking n)),
      (''max_rework_per_stage'', YInt (ev_max_rework_per_stage n)),
      (''gate_severity'', YStr (ev_gate_severity n))] @
     opt_key ''resume_role_file'' YStr (ev_resume_role_file n) @
     opt_key ''network_access'' YBool (ev_network_access n) @
     opt_key ''git_evidence'' YBool (ev_git_evidence n) @
     opt_key ''provider'' (\<lambda>p. YStr (provider_value p)) (ev_provider n) @
     opt_key ''model'' YStr (ev_model n) @
     opt_key ''reasoning'' YStr (ev_reasoning n) @
     opt_key ''when'' render_when (ev_when n)"
| "render_node (ChecksNode n) =
     [(''id'', YStr (ch_id n)), (''kind'', YStr ''checks''), (''checker'', YStr (ch_checker n)),
      (''manifest'', YStr (ch_manifest n))] @ opt_key ''when'' render_when (ch_when n)"
| "render_node (ToolNode n) =
     [(''id'', YStr (tl_id n)), (''kind'', YStr ''tool''), (''tool'', YStr (tl_tool n)),
      (''args'', YMap (tl_args n))] @
     opt_key ''timeout_seconds'' YInt (tl_timeout_seconds n) @
     opt_key ''when'' render_when (tl_when n)"
| "render_node (HitlNode n) =
     [(''id'', YStr (h_id n)), (''kind'', YStr ''hitl''), (''signal'', YStr (h_signal n))] @
     opt_key ''timeout_s'' YInt (h_timeout_s n) @ opt_key ''when'' render_when (h_when n)"
| "render_node (PublishNode n) =
     [(''id'', YStr (pb_id n)), (''kind'', YStr ''publish''),
      (''policy'', YStr (publishing_value (pb_policy n)))] @ opt_key ''when'' render_when (pb_when n)"

text \<open>Values a YAML document can express: empty strings read as absent, and so on.\<close>

fun expressible :: "flow_node \<Rightarrow> bool" where
  "expressible (AgentNode n) \<longleftrightarrow> a_resume_role_file n \<noteq> Some [] \<and> a_lineage_affinity n \<noteq> Some [] \<and>
     a_model n \<noteq> Some [] \<and> a_reasoning n \<noteq> Some [] \<and> a_output_schema n \<noteq> Some YNone \<and>
     (a_skills n \<noteq> [] \<longrightarrow> a_allow_skills n \<noteq> Some False)"
| "expressible (EvaluatorNode n) \<longleftrightarrow> ev_resume_role_file n \<noteq> Some [] \<and> ev_model n \<noteq> Some [] \<and>
     ev_reasoning n \<noteq> Some []"
| "expressible _ \<longleftrightarrow> True"

text \<open>Looking a key up in a rendered mapping, and reading each kind of field back.\<close>

definition opt_else :: "yval option \<Rightarrow> ('a \<Rightarrow> yval) \<Rightarrow> 'a option \<Rightarrow> yval option" where
  "opt_else r f v = (case v of None \<Rightarrow> r | Some x \<Rightarrow> Some (f x))"

definition list_else :: "yval option \<Rightarrow> string list \<Rightarrow> yval option" where
  "list_else r xs = (if xs = [] then r else Some (YList (map YStr xs)))"

lemma opt_else_simps [simp]: "opt_else r f None = r" "opt_else r f (Some x) = Some (f x)"
  by (simp_all add: opt_else_def)

lemma lookup_opt [simp]:
  "map_of (opt_key k f v @ d) k' = (if k' = k then opt_else (map_of d k) f v else map_of d k')"
  "map_of (opt_key k f v) k' = (if k' = k then opt_else None f v else None)"
  by (auto simp: opt_key_def split: option.splits)

lemma opt_else_bool [simp]: "opt_else None YBool v = Some (YBool b) \<longleftrightarrow> v = Some b"
  by (cases v) auto

lemma lookup_list [simp]:
  "map_of (list_key k xs @ d) k' = (if k' = k then list_else (map_of d k) xs else map_of d k')"
  by (simp add: list_key_def list_else_def)

lemma keys_opt [simp]: "fst ` set (opt_key k f v) \<subseteq> A \<longleftrightarrow> v = None \<or> k \<in> A"
  by (cases v) (simp_all add: opt_key_def)

lemma keys_list [simp]: "fst ` set (list_key k v) \<subseteq> A \<longleftrightarrow> v = [] \<or> k \<in> A"
  by (auto simp: list_key_def)

lemma read_opt_str: "map_of d k = opt_else None YStr v \<Longrightarrow> v \<noteq> Some [] \<Longrightarrow> opt_str d k = Inr v"
  by (cases v) (auto simp: opt_str_def get_or_none_def)

lemma read_opt_int: "map_of d k = opt_else None YInt v \<Longrightarrow> opt_int d k = Inr v"
  by (cases v) (auto simp: opt_int_def get_or_none_def)

lemma read_tristate: "map_of d k = opt_else None YBool v \<Longrightarrow> parse_tristate d k = v"
  by (cases v) (auto simp: parse_tristate_def get_or_none_def)

lemma enum_scope [simp]: "to_enum session_scopes cls (YStr (session_scope_value s)) ctx = Inr s"
  by (cases s) (simp_all add: session_scopes_def enum_members_def to_enum_def)

lemma enum_profile [simp]: "to_enum permission_profiles cls (YStr (profile_value p)) ctx = Inr p"
  by (cases p) (simp_all add: permission_profiles_def enum_members_def to_enum_def)

lemma enum_provider [simp]: "to_enum provider_ids cls (YStr (provider_value i)) ctx = Inr i"
  by (cases i) (simp_all add: provider_ids_def enum_members_def to_enum_def)

lemma enum_publishing [simp]: "to_enum publishing_policies cls (YStr (publishing_value q)) ctx = Inr q"
  by (cases q) (simp_all add: publishing_policies_def enum_members_def to_enum_def)

lemma read_profile:
  "map_of d k = opt_else None (\<lambda>p. YStr (profile_value p)) v \<Longrightarrow>
     enum_opt permission_profiles cls d k ctx = Inr v"
  by (cases v) (auto simp: enum_opt_def get_or_none_def)

lemma read_provider:
  "map_of d k = opt_else None (\<lambda>p. YStr (provider_value p)) v \<Longrightarrow>
     enum_opt provider_ids cls d k ctx = Inr v"
  by (cases v) (auto simp: enum_opt_def get_or_none_def)

lemma read_when:
  "map_of d k = opt_else None render_when w \<Longrightarrow> good_when w \<Longrightarrow> parse_when (get_or_none d k) = Inr w"
  by (cases w) (auto simp: good_when_def render_when_def parse_when_def reject_unknown_def
      extra_keys_def WHEN_FIELDS_def require_str_def require_key_def py_str_def get_or_def
      get_or_none_def)

lemma read_hitl:
  "map_of d k = opt_else None render_hitl h \<Longrightarrow> parse_hitl_settings (get_or_none d k) = Inr h"
  by (cases h) (auto simp: render_hitl_def parse_hitl_settings_def reject_unknown_def extra_keys_def
      HITL_SETTINGS_FIELDS_def get_or_def get_or_none_def)

lemma read_slot:
  "map_of d ''output_artifact'' = opt_else None YStr v \<Longrightarrow>
     (\<And>s. v = Some s \<Longrightarrow> s \<in> set OUTPUT_ARTIFACT_SLOTS) \<Longrightarrow> parse_output_artifact d ctx = Inr v"
  by (cases v) (auto simp: parse_output_artifact_def get_or_none_def OUTPUT_ARTIFACT_SLOTS_def)

lemma read_file:
  "map_of d k = opt_else None YStr v \<Longrightarrow>
     (\<And>f. v = Some f \<Longrightarrow> is_portable_path_segment f \<and> slot = None) \<Longrightarrow>
     parse_output_file (get_or_none d k) ctx slot = Inr v"
  by (cases v) (auto simp: parse_output_file_def get_or_none_def py_str_def)

lemma read_schema:
  "map_of d k = opt_else None (\<lambda>v. v) v \<Longrightarrow> v \<noteq> Some YNone \<Longrightarrow>
     (case get_or_none d k of YNone \<Rightarrow> None | x \<Rightarrow> Some x) = v"
  by (cases v) (auto simp: get_or_none_def split: yval.splits)

lemma skill_names_render: "list_all is_portable_path_segment xs \<Longrightarrow> skill_names ctx (map YStr xs) = Inr xs"
  by (induction xs) auto

lemma read_skills:
  "map_of d ''skills'' = list_else None xs \<Longrightarrow>
     list_all is_portable_path_segment xs \<Longrightarrow>
     (xs \<noteq> [] \<Longrightarrow> map_of d ''allow_skills'' \<noteq> Some (YBool False)) \<Longrightarrow> parse_skills d ctx = Inr xs"
  by (cases xs) (auto simp: list_else_def parse_skills_def get_or_none_def skill_names_render)

lemma read_extra_args:
  "map_of d k = list_else None xs \<Longrightarrow>
     iter_strings (get_or d k (YList [])) ctx = Inr xs"
  by (cases xs) (auto simp: list_else_def get_or_def iter_strings_def py_str_def o_def)

lemma read_bool: "map_of d k = Some (YBool b) \<Longrightarrow> truthy (get_or d k v) = b"
  by (simp add: get_or_def)

lemma read_args:
  "map_of d k = Some (YMap args) \<Longrightarrow> list_all (\<lambda>(k, v). is_scalar v) args \<Longrightarrow>
     parse_tool_args (get_or_none d k) ctx = Inr args"
proof -
  assume "map_of d k = Some (YMap args)" "list_all (\<lambda>(k, v). is_scalar v) args"
  from this(2) have "map_res (\<lambda>(key, x). if \<not> is_scalar x then Inl (FlowLoadError (ArgNotScalar key ctx))
      else Inr (key, x)) args = Inr args"
    by (induction args) auto
  with \<open>map_of d k = Some (YMap args)\<close> show ?thesis
    by (simp add: parse_tool_args_def get_or_none_def)
qed

lemma gate_severity_lower: "s \<in> set SEVERITY_ORDER \<Longrightarrow> py_lower s = s"
  by (auto simp: SEVERITY_ORDER_def py_lower_def char_lower_def)

lemma reserved_ok: "unreserved nid \<Longrightarrow> check_reserved_node_id nid w = Inr ()"
  by (simp add: check_reserved_ok)

lemmas keys_append = image_Un Un_subset_iff set_append

lemma reject_ok: "fst ` set d \<subseteq> set allowed \<Longrightarrow> reject_unknown d allowed ctx = Inr ()"
  by (simp add: reject_unknown_ok)

lemma id_ok: "is_valid_node_id nid \<Longrightarrow> validate_node_id nid w = Inr ()"
  by (simp add: validate_node_id_ok)

lemma read_require: "map_of d k = Some (YStr s) \<Longrightarrow> require_str d k ctx = Inr s"
  by (simp add: require_str_def require_key_def py_str_def)

lemmas read_fields = read_opt_str read_opt_int read_tristate read_profile read_provider read_when
  read_hitl read_slot read_file read_schema read_skills read_extra_args read_bool read_args
  reserved_ok reject_ok id_ok read_require keys_append

lemma render_publish:
  "good_node (PublishNode n) \<Longrightarrow>
     parse_publish_node (render_node (PublishNode n)) = Inr (PublishNode n)"
  by (simp add: parse_publish_node_def Let_def read_fields PUBLISH_FIELDS_def del: map_of_append)

lemma render_hitl_node:
  "good_node (HitlNode n) \<Longrightarrow> parse_hitl_node (render_node (HitlNode n)) = Inr (HitlNode n)"
  by (simp add: parse_hitl_node_def Let_def read_fields HITL_NODE_FIELDS_def del: map_of_append)

lemma render_tool:
  "good_node (ToolNode n) \<Longrightarrow> parse_tool_node (render_node (ToolNode n)) = Inr (ToolNode n)"
  by (simp add: parse_tool_node_def Let_def read_fields TOOL_FIELDS_def del: map_of_append)

lemma render_checks:
  "good_node (ChecksNode n) \<Longrightarrow> parse_checks_node (render_node (ChecksNode n)) = Inr (ChecksNode n)"
  by (simp add: parse_checks_node_def Let_def read_fields CHECKS_FIELDS_def get_or_def
      parse_manifest_def py_str_def del: map_of_append)

lemma render_evaluator:
  "good_node (EvaluatorNode n) \<Longrightarrow> expressible (EvaluatorNode n) \<Longrightarrow>
     parse_evaluator_node (render_node (EvaluatorNode n)) e = Inr (EvaluatorNode n)"
  by (simp add: parse_evaluator_node_def Let_def read_fields EVALUATOR_FIELDS_def get_or_def
      enum_or_def int_value_def py_int_def parse_gate_severity_def py_str_def gate_severity_lower del: map_of_append)

lemma render_agent:
  "good_node (AgentNode n) \<Longrightarrow> expressible (AgentNode n) \<Longrightarrow>
     parse_agent_node (render_node (AgentNode n)) = Inr (AgentNode n)"
  by (simp add: parse_agent_node_def Let_def read_fields AGENT_FIELDS_def enum_or_def del: map_of_append)


text \<open>
  C24. Rendering and parsing a node are inverse.  For every kind of node, the mapping an author
  writes with the node's fields under their documented keys parses back to exactly that node,
  whatever the evaluator defaults: no field is dropped, swapped or read under another name.
\<close>

theorem parse_render_node:
  assumes "good_node n" and "expressible n"
  shows "parse_node defaults (YMap (render_node n)) = Inr n"
proof (cases n)
  case (AgentNode x)
  then show ?thesis using assms render_agent [of x] by (simp add: parse_node_def get_or_none_def)
next
  case (EvaluatorNode x)
  then show ?thesis using assms render_evaluator [of x] by (simp add: parse_node_def get_or_none_def Let_def)
next
  case (ChecksNode x)
  then show ?thesis using assms render_checks [of x] by (simp add: parse_node_def get_or_none_def)
next
  case (ToolNode x)
  then show ?thesis using assms render_tool [of x] by (simp add: parse_node_def get_or_none_def)
next
  case (HitlNode x)
  then show ?thesis using assms render_hitl_node [of x] by (simp add: parse_node_def get_or_none_def)
next
  case (PublishNode x)
  then show ?thesis using assms render_publish [of x] by (simp add: parse_node_def get_or_none_def)
qed

text \<open>
  The skills contradiction has a gap.  The loader refuses \<open>skills\<close> together with
  \<open>allow_skills: false\<close> by testing the raw value with \<open>is False\<close>, but stores \<open>bool(value)\<close>: a node
  that writes the switch as any other false value (\<open>0\<close>, an empty list) loads with skills it must
  invoke and the switch that forbids all of them.
\<close>

theorem skills_contradiction_gap:
  "\<exists>d n. parse_agent_node d = Inr (AgentNode n) \<and> a_skills n \<noteq> [] \<and> a_allow_skills n = Some False"
proof -
  let ?d = "[(''id'', YStr ''draft''), (''role_file'', YStr ''draft.md''),
    (''skills'', YList [YStr ''style'']), (''allow_skills'', YInt 0)]"
  have "case parse_agent_node ?d of Inr (AgentNode n) \<Rightarrow> a_skills n \<noteq> [] \<and> a_allow_skills n = Some False
      | _ \<Rightarrow> False"
    by code_simp
  then show ?thesis by (auto split: sum.splits flow_node.splits)
qed

end
