(* ===== verification/LoadedFlow.thy ===== *)
theory LoadedFlow
  imports TranslateFlow FlowLoadCorrect
begin

text \<open>
  The packaged flow \<open>content_translate.yaml\<close> as the value the YAML parser returns, and the proof that
  the loader turns it into the document of \<open>TranslateFlow\<close>: the concrete input of the loader's
  properties.
\<close>

section \<open>The flow as its YAML file states it\<close>

definition flow_arrow :: "string \<Rightarrow> string \<Rightarrow> ydict \<Rightarrow> yval" where
  "flow_arrow x y extra = YMap ([(''from'', YStr x), (''to'', YStr y)] @ extra)"

definition translate_nodes_yaml :: "yval list" where
  "translate_nodes_yaml =
    [YMap [(''id'', YStr ''adapt_en''), (''kind'', YStr ''agent''),
       (''role_file'', YStr ''content_translate/adapt_en.md''),
       (''session_scope'', YStr ''editing_lineage''),
       (''permission_profile'', YStr ''workspace-write'')],
     YMap [(''id'', YStr ''constraints_en''), (''kind'', YStr ''tool''),
       (''tool'', YStr ''check_chapter''),
       (''args'', YMap [(''min_chars'', YInt 1000), (''max_chars'', YInt 1400),
          (''max_paragraphs'', YInt 8)])],
     YMap [(''id'', YStr ''en_critic''), (''kind'', YStr ''evaluator''), (''role'', YStr ''critic''),
       (''role_file'', YStr ''content_translate/en_critic.md''), (''blocking'', YBool True),
       (''gate_severity'', YStr ''medium'')],
     YMap [(''id'', YStr ''fixing''), (''kind'', YStr ''agent''),
       (''role_file'', YStr ''content_translate/fixing.md''),
       (''resume_role_file'', YStr ''content_translate/fixing.continue.md''),
       (''session_scope'', YStr ''editing_lineage''), (''lineage_affinity'', YStr ''adapt_en''),
       (''permission_profile'', YStr ''workspace-write'')],
     YMap [(''id'', YStr ''publish''), (''kind'', YStr ''publish''), (''policy'', YStr ''pull_request'')]]"

definition translate_edges_yaml :: "yval list" where
  "translate_edges_yaml =
    [flow_arrow ''adapt_en'' ''constraints_en'' [],
     flow_arrow ''constraints_en'' ''en_critic'' [(''outcome'', YStr ''pass'')],
     flow_arrow ''constraints_en'' ''fixing'' [(''outcome'', YStr ''fail''), (''loop'', YStr ''constraint_fix'')],
     flow_arrow ''en_critic'' ''publish'' [(''outcome'', YStr ''accept'')],
     flow_arrow ''en_critic'' ''fixing'' [(''outcome'', YStr ''rework''), (''loop'', YStr ''critic_fix'')],
     flow_arrow ''fixing'' ''constraints_en'' []]"

definition translate_yaml :: ydict where
  "translate_yaml =
    [(''name'', YStr ''content_translate''), (''task_type'', YStr ''content_translate''),
     (''permission_ceiling'', YStr ''workspace-write''), (''output_policy'', YStr ''code_change''),
     (''publishing'', YStr ''pull_request''), (''nodes'', YList translate_nodes_yaml),
     (''edges'', YList translate_edges_yaml),
     (''budgets'', YMap [(''constraint_fix'', YInt 8), (''critic_fix'', YInt 3)]),
     (''supervisor'', YMap [(''role_file'', YStr ''content_translate/supervisor.md''),
        (''finalize_role_file'', YStr ''content_translate/summary.md''),
        (''observe'', YMap [(''mode'', YStr ''none'')])])]"

lemma translate_nodes_parse: "parse_nodes None (YList translate_nodes_yaml) = Inr (nodes content_translate)"
  by code_simp

lemma translate_edges_parse: "parse_edges (YList translate_edges_yaml) = Inr (edges content_translate)"
  by code_simp


lemma translate_fields_present:
  "map_of translate_yaml ''nodes'' = Some (YList translate_nodes_yaml)"
  "map_of translate_yaml ''edges'' = Some (YList translate_edges_yaml)"
  "reject_unknown translate_yaml FLOW_FIELDS ''flow'' = Inr ()"
proof -
  show "map_of translate_yaml ''nodes'' = Some (YList translate_nodes_yaml)"
    "map_of translate_yaml ''edges'' = Some (YList translate_edges_yaml)"
    by (simp_all add: translate_yaml_def)
  show "reject_unknown translate_yaml FLOW_FIELDS ''flow'' = Inr ()"
    by (simp add: reject_unknown_def extra_keys_Nil translate_yaml_def FLOW_FIELDS_def)
qed

lemma translate_doc_parse: "parse_flow_doc translate_yaml = Inr content_translate"
proof -
  have req: "require_str translate_yaml ''name'' ''flow'' = Inr ''content_translate''"
    "require_str translate_yaml ''task_type'' ''flow'' = Inr ''content_translate''"
    "require_str translate_yaml ''permission_ceiling'' ''flow'' = Inr ''workspace-write''"
    "require_str translate_yaml ''output_policy'' ''flow'' = Inr ''code_change''"
    "require_str translate_yaml ''publishing'' ''flow'' = Inr ''pull_request''"
    "require_key translate_yaml ''nodes'' ''flow'' = Inr (YList translate_nodes_yaml)"
    "get_or_none translate_yaml ''edges'' = YList translate_edges_yaml"
    "get_or_none translate_yaml ''defaults'' = YNone"
    "get_or_none translate_yaml ''network_policy'' = YNone"
    "get_or_none translate_yaml ''report_dir'' = YNone"
    "get_or_none translate_yaml ''decomposition'' = YNone"
    by (simp_all add: translate_yaml_def require_str_def require_key_def py_str_def get_or_none_def)
  have vals: "parse_budgets (get_or_none translate_yaml ''budgets'') =
      Inr [(''constraint_fix'', 8), (''critic_fix'', 3)]"
    "parse_supervisor (get_or_none translate_yaml ''supervisor'') = Inr (supervisor content_translate)"
    by code_simp+
  have enums: "to_enum permission_profiles ''PermissionProfile'' (YStr ''workspace-write'') ''flow'' = Inr WORKSPACE_WRITE"
    "to_enum output_policies ''OutputPolicy'' (YStr ''code_change'') ''flow'' = Inr CODE_CHANGE"
    "to_enum publishing_policies ''PublishingPolicy'' (YStr ''pull_request'') ''flow'' = Inr PULL_REQUEST"
    by code_simp+
  show ?thesis
    unfolding parse_flow_doc_def translate_fields_present req vals enums
    by (simp add: parse_defaults_def translate_nodes_parse translate_edges_parse req enums enum_opt_def
        parse_report_dir_def parse_decomposition_def vals)
      (simp add: content_translate_def fun_eq_iff)
qed

lemma translate_loads:
  "load_flow sha (Inr (YMap [(''flow'', YMap translate_yaml)])) path =
     Inr (snapshot_of content_translate (sha (YMap translate_yaml)) (Some path))"
proof -
  have "first_duplicate [] (map node_id (nodes content_translate)) = None" by code_simp
  then show ?thesis by (simp add: load_flow_def translate_doc_parse)
qed

theorem load_flow_well_formed_witness:
  "nodes content_translate \<noteq> [] \<and> distinct (map node_id (nodes content_translate)) \<and>
     list_all good_node (nodes content_translate)"
  using load_flow_well_formed [OF translate_loads [of "\<lambda>_. ''fp''" "''content_translate.yaml''"]]
  by (simp add: list_all_iff)

theorem parse_node_closed_witness:
  "fst ` set [(''id'', YStr ''publish''), (''kind'', YStr ''publish''), (''policy'', YStr ''none'')]
     \<subseteq> set PUBLISH_FIELDS"
proof -
  have "parse_node None (YMap [(''id'', YStr ''publish''), (''kind'', YStr ''publish''),
      (''policy'', YStr ''none'')]) =
      Inr (PublishNode \<lparr>pb_id = ''publish'', pb_policy = PUBLISH_NONE, pb_when = None\<rparr>)"
    by code_simp
  from parse_node_closed [OF this] show ?thesis by simp
qed

theorem parse_render_node_witness:
  "parse_node None (YMap (render_node (EvaluatorNode en_critic))) = Inr (EvaluatorNode en_critic)"
proof (rule parse_render_node)
  have "is_valid_node_id ''en_critic''" by code_simp
  then show "good_node (EvaluatorNode en_critic)"
    by (simp add: en_critic_def good_when_def SEVERITY_ORDER_def)
  show "expressible (EvaluatorNode en_critic)" by (simp add: en_critic_def)
qed

end
