(* ===== verification/ValidatorLimits.thy ===== *)
theory ValidatorLimits
  imports ValidatorCorrect LoadedFlow
begin

text \<open>
  The validator on concrete flows: the packaged flow passes it, which instantiates its guarantees,
  and three small flows pass it although the engine cannot run them to an end, runs into an internal
  error, or exceeds the global hard stop.
\<close>

section \<open>The packaged flow validates\<close>

lemma translate_validates: "validate_flow references translate_snapshot = Inr ()"
proof -
  have "check_graph translate_snapshot = []" by code_simp
  moreover have "check_ceiling translate_snapshot = []" by code_simp
  moreover have "check_report_dir references translate_snapshot = []"
    by (simp add: check_report_dir_def check_report_dir_references_def translate_snapshot_def
        snapshot_of_def content_translate_def)
  ultimately show ?thesis by (simp add: validate_flow_def)
qed


theorem validate_flow_graph_sound_witness:
  "\<exists>entry. entry_node_id translate_snapshot = Inr entry \<and>
     (entry, ''fixing'') \<in> (doc_rel content_translate)\<^sup>*"
proof -
  have member: "''fixing'' \<in> node_ids content_translate"
    by (simp add: node_ids_def content_translate_def translate_fields)
  have "distinct (map node_id (nodes content_translate))" by code_simp
  from validate_flow_graph_sound [OF this translate_validates [unfolded translate_snapshot_def]] member
  show ?thesis unfolding translate_snapshot_def by blast
qed

theorem validate_flow_ceiling_sound_witness:
  "is_same_or_stricter (profile_value (effective_profile fixing content_translate))
     (profile_value (permission_ceiling content_translate)) \<and> stays_inside (a_role_file fixing)"
proof -
  have "AgentNode fixing \<in> set (nodes content_translate)" by (simp add: content_translate_def)
  from validate_flow_ceiling_sound [OF translate_validates [unfolded translate_snapshot_def] this]
  show ?thesis by blast
qed

theorem disabled_nodes_skip_safely_witness:
  "\<exists>e. select_edge (EvaluatorNode en_critic) (out_edges translate_snapshot ''en_critic'')
       (skip_outcome (EvaluatorNode en_critic)) = Inr e \<and> \<not> is_rework e"
proof -
  have "validate_disabled_nodes translate_snapshot [''en_critic''] = Inr ()"
    by (simp add: validate_disabled_nodes_def disabled_violation_def translate_nodes
        translate_out_edges arrow_def skip_outcome_def outcome_of_def)
  from disabled_nodes_skip_safely [OF this, of "''en_critic''"] show ?thesis
    by (auto simp: translate_nodes translate_out_edges)
qed

text \<open>A report flow with a directory of its own.\<close>

definition audit_doc :: flow_doc where
  "audit_doc = content_translate\<lparr>doc_output_policy := REPOSITORY_DOCUMENT, report_dir := Some ''docs/audits''\<rparr>"

lemma audit_validates: "validate_flow references (snapshot_of audit_doc [] None) = Inr ()"
proof -
  have "check_graph (snapshot_of audit_doc [] None) = []" by code_simp
  moreover have "check_ceiling (snapshot_of audit_doc [] None) = []" by code_simp
  moreover have "report_dir_path_rule ''docs/audits'' = []" by code_simp
  then have "check_report_dir references (snapshot_of audit_doc [] None) = []"
    by (simp add: check_report_dir_def audit_doc_def)
  ultimately show ?thesis by (simp add: validate_flow_def)
qed

theorem report_dir_contained_witness:
  "\<not> within_subdir (casefold ''docs/audits/task-7'') ''.git'' \<and>
   report_subdir (resolve_output_policy REPOSITORY_DOCUMENT ''task-7'' (Some ''docs/audits'')) =
     Some ''docs/audits/task-7''"
proof -
  have "report_dir (doc (snapshot_of audit_doc [] None)) = Some ''docs/audits''"
    and "doc_output_policy (doc (snapshot_of audit_doc [] None)) = REPOSITORY_DOCUMENT"
    by (simp_all add: audit_doc_def)
  moreover have "is_valid_task_id ''task-7''" by code_simp
  moreover have "''.git'' \<in> set RESERVED_REPORT_ROOTS" by (simp add: RESERVED_REPORT_ROOTS_def)
  ultimately show ?thesis
    using report_dir_contained [OF audit_validates, of "''docs/audits''" "''task-7''" "''.git''"] by auto
qed

section \<open>Flows the validator accepts and the engine cannot run\<close>

text \<open>An engine for a document, with the environment and checkpoint of \<open>TranslateFlow\<close>.\<close>

definition engine_for :: "flow_doc \<Rightarrow> engine" where
  "engine_for d = translate_engine\<lparr>snapshot := snapshot_of d ''fp'' None\<rparr>"

definition bare_doc :: "flow_node list \<Rightarrow> edge list \<Rightarrow> (string \<rightharpoonup> int) \<Rightarrow> flow_doc" where
  "bare_doc ns es bs = content_translate\<lparr>nodes := ns, edges := es, budgets := bs, supervisor := None\<rparr>"

definition done_node :: flow_node where
  "done_node = PublishNode \<lparr>pb_id = ''publish'', pb_policy = PULL_REQUEST, pb_when = None\<rparr>"

text \<open>The judge's \<open>accept\<close> leads back to the node before it.\<close>

definition endless_doc :: flow_doc where
  "endless_doc = bare_doc
     [AgentNode (plain_agent ''draft'' ''draft.md''), AgentNode (plain_agent ''polish'' ''polish.md''),
      EvaluatorNode (en_critic\<lparr>ev_id := ''judge''\<rparr>), done_node]
     [arrow ''draft'' ''polish'' None None, arrow ''polish'' ''judge'' None None,
      arrow ''judge'' ''polish'' (Some ''accept'') None,
      arrow ''judge'' ''publish'' (Some ''rework'') (Some ''give_up'')] [''give_up'' \<mapsto> 1]"

lemma endless_validates: "validate_flow references (snapshot_of endless_doc ''fp'' None) = Inr ()"
proof -
  have "check_graph (snapshot_of endless_doc ''fp'' None) = []" by code_simp
  moreover have "check_ceiling (snapshot_of endless_doc ''fp'' None) = []" by code_simp
  moreover have "check_report_dir references (snapshot_of endless_doc ''fp'' None) = []"
    by (simp add: check_report_dir_def check_report_dir_references_def snapshot_of_def endless_doc_def
        bare_doc_def content_translate_def)
  ultimately show ?thesis by (simp add: validate_flow_def)
qed


lemmas engine_run_simps = tick_fields arrow_fields answer_def outcome_of_def apply_overrides_def
  execute_node_def should_skip_def after_node_def select_edge_def advance_def reset_loops_at_def
  reset_loop_of_def is_rework_def REWORK_OUTCOMES_def mark_completed_def emit_def engine_for_def
  translate_engine_def

lemma endless_tables:
  "out_edges (snapshot_of endless_doc ''fp'' None) ''draft'' = [arrow ''draft'' ''polish'' None None]"
  "out_edges (snapshot_of endless_doc ''fp'' None) ''polish'' = [arrow ''polish'' ''judge'' None None]"
  "out_edges (snapshot_of endless_doc ''fp'' None) ''judge'' =
     [arrow ''judge'' ''polish'' (Some ''accept'') None,
      arrow ''judge'' ''publish'' (Some ''rework'') (Some ''give_up'')]"
  "node_at (snapshot_of endless_doc ''fp'' None) ''draft'' =
     Some (AgentNode (plain_agent ''draft'' ''draft.md''))"
  "node_at (snapshot_of endless_doc ''fp'' None) ''polish'' =
     Some (AgentNode (plain_agent ''polish'' ''polish.md''))"
  "node_at (snapshot_of endless_doc ''fp'' None) ''judge'' =
     Some (EvaluatorNode (en_critic\<lparr>ev_id := ''judge''\<rparr>))"
  by (simp_all add: node_at_def) (simp_all add: endless_doc_def bare_doc_def arrow_def snapshot_of_def
      plain_agent_def)

lemma endless_entry: "entry_node_id (snapshot_of endless_doc ''fp'' None) = Inr ''draft''"
  by code_simp

lemma endless_step:
  assumes "current_node (run_state s) \<in> {Some ''draft'', Some ''polish'', Some ''judge''}"
  shows "snd (engine_step (engine_for endless_doc) (tick_with ''accept'') s) = None \<and>
    current_node (run_state (fst (engine_step (engine_for endless_doc) (tick_with ''accept'') s)))
      \<in> {Some ''draft'', Some ''polish'', Some ''judge''}"
  using assms
  by (elim insertE emptyE)
    (simp_all add: engine_step_def endless_tables engine_run_simps plain_agent_def en_critic_def Let_def
      del: out_edges_snapshot_of)

text \<open>
  Validation does not imply termination.  A flow whose budgets, outcomes and reachability all
  validate can still have a cycle of forward edges, which nothing bounds: with nodes that simply
  succeed the engine never ends it, however many iterations it is given.
\<close>

theorem validated_flow_never_ends:
  "\<exists>d eng. validate_flow (\<lambda>_. False) (snapshot_of d ''fp'' None) = Inr () \<and>
     snapshot eng = snapshot_of d ''fp'' None \<and>
     (\<forall>n. snd (engine_run eng (replicate n (tick_with ''accept'')) fresh_run) = None)"
proof (intro exI conjI)
  show "validate_flow (\<lambda>_. False) (snapshot_of endless_doc ''fp'' None) = Inr ()"
    by (rule endless_validates)
  show "snapshot (engine_for endless_doc) = snapshot_of endless_doc ''fp'' None"
    by (simp add: engine_for_def)
  have run: "current_node (run_state s) \<in> {Some ''draft'', Some ''polish'', Some ''judge''} \<Longrightarrow>
      snd (run_machine (engine_step (engine_for endless_doc)) (replicate n (tick_with ''accept'')) s) = None"
    for n s
  proof (induction n arbitrary: s)
    case 0
    then show ?case by simp
  next
    case (Suc n)
    from endless_step [OF Suc.prems] Suc.IH show ?case by (auto split: prod.splits)
  qed
  show "\<forall>n. snd (engine_run (engine_for endless_doc) (replicate n (tick_with ''accept'')) fresh_run) = None"
    by (simp add: engine_run_def fresh_run_def engine_for_def [of endless_doc] endless_entry)
      (simp add: run flip: engine_for_def)
qed


text \<open>An agent with two unconditional edges.\<close>

definition forked_doc :: flow_doc where
  "forked_doc = bare_doc
     [AgentNode (plain_agent ''draft'' ''draft.md''), AgentNode (plain_agent ''polish'' ''polish.md''), done_node]
     [arrow ''draft'' ''polish'' None None, arrow ''draft'' ''publish'' None None,
      arrow ''polish'' ''publish'' None None] Map.empty"

lemma forked_validates: "validate_flow references (snapshot_of forked_doc ''fp'' None) = Inr ()"
proof -
  have "check_graph (snapshot_of forked_doc ''fp'' None) = []" by code_simp
  moreover have "check_ceiling (snapshot_of forked_doc ''fp'' None) = []" by code_simp
  moreover have "check_report_dir references (snapshot_of forked_doc ''fp'' None) = []"
    by (simp add: check_report_dir_def check_report_dir_references_def snapshot_of_def forked_doc_def
        bare_doc_def content_translate_def)
  ultimately show ?thesis by (simp add: validate_flow_def)
qed

lemma forked_tables:
  "out_edges (snapshot_of forked_doc ''fp'' None) ''draft'' =
     [arrow ''draft'' ''polish'' None None, arrow ''draft'' ''publish'' None None]"
  "node_at (snapshot_of forked_doc ''fp'' None) ''draft'' =
     Some (AgentNode (plain_agent ''draft'' ''draft.md''))"
  by (simp_all add: node_at_def) (simp_all add: forked_doc_def bare_doc_def arrow_def snapshot_of_def
      plain_agent_def)

lemma forked_entry: "entry_node_id (snapshot_of forked_doc ''fp'' None) = Inr ''draft''"
  by code_simp

text \<open>
  Validation does not rule out the engine's internal errors.  A flow with an agent that has two
  unconditional edges validates, although such a node can never be left: when it succeeds the
  engine finds no edge for its outcome and raises the error it documents as impossible after
  validation.
\<close>

theorem validated_flow_internal_error:
  "\<exists>d eng. validate_flow (\<lambda>_. False) (snapshot_of d ''fp'' None) = Inr () \<and>
     snapshot eng = snapshot_of d ''fp'' None \<and>
     snd (engine_run eng [tick_with ''accept''] fresh_run) =
       Some (Raised (EngineInternalError (NoOutcomeEdge ''draft'' ''done'' [None, None])))"
proof (intro exI conjI)
  show "validate_flow (\<lambda>_. False) (snapshot_of forked_doc ''fp'' None) = Inr ()"
    by (rule forked_validates)
  show "snapshot (engine_for forked_doc) = snapshot_of forked_doc ''fp'' None"
    by (simp add: engine_for_def)
  show "snd (engine_run (engine_for forked_doc) [tick_with ''accept''] fresh_run) =
      Some (Raised (EngineInternalError (NoOutcomeEdge ''draft'' ''done'' [None, None])))"
    by (simp add: engine_run_def fresh_run_def forked_entry engine_step_def forked_tables
        engine_run_simps plain_agent_def Let_def del: out_edges_snapshot_of)
qed

text \<open>A fix loop named like the counter of the global hard stop.\<close>

definition reserved_doc :: flow_doc where
  "reserved_doc = bare_doc
     [AgentNode (plain_agent ''draft'' ''draft.md''), EvaluatorNode (en_critic\<lparr>ev_id := ''style''\<rparr>),
      EvaluatorNode (en_critic\<lparr>ev_id := ''facts''\<rparr>), AgentNode (plain_agent ''fix'' ''fix.md''), done_node]
     [arrow ''draft'' ''style'' None None, arrow ''style'' ''facts'' (Some ''accept'') None,
      arrow ''style'' ''fix'' (Some ''rework'') (Some GLOBAL_FIX_KEY),
      arrow ''facts'' ''publish'' (Some ''accept'') None,
      arrow ''facts'' ''fix'' (Some ''rework'') (Some ''facts_fix''),
      arrow ''fix'' ''style'' None None]
     [GLOBAL_FIX_KEY \<mapsto> 2, ''facts_fix'' \<mapsto> 3]"

lemma reserved_validates: "validate_flow references (snapshot_of reserved_doc ''fp'' None) = Inr ()"
proof -
  have "check_graph (snapshot_of reserved_doc ''fp'' None) = []" by code_simp
  moreover have "check_ceiling (snapshot_of reserved_doc ''fp'' None) = []" by code_simp
  moreover have "check_report_dir references (snapshot_of reserved_doc ''fp'' None) = []"
    by (simp add: check_report_dir_def check_report_dir_references_def snapshot_of_def reserved_doc_def
        bare_doc_def content_translate_def)
  ultimately show ?thesis by (simp add: validate_flow_def)
qed

definition reserved_engine :: engine where
  "reserved_engine = (engine_for reserved_doc)\<lparr>max_total_fix_iterations := 2\<rparr>"

text \<open>The style critic accepts, the fact critic asks for rework.\<close>

definition split_verdict :: tick where
  "split_verdict = (tick_with ''accept'')\<lparr>run_node := (\<lambda>node.
     answer (if node_id node = ''facts'' then ''rework'' else ''accept'') node)\<rparr>"

lemma reserved_tables:
  "out_edges (snapshot_of reserved_doc ''fp'' None) ''style'' =
     [arrow ''style'' ''facts'' (Some ''accept'') None,
      arrow ''style'' ''fix'' (Some ''rework'') (Some GLOBAL_FIX_KEY)]"
  "out_edges (snapshot_of reserved_doc ''fp'' None) ''facts'' =
     [arrow ''facts'' ''publish'' (Some ''accept'') None,
      arrow ''facts'' ''fix'' (Some ''rework'') (Some ''facts_fix'')]"
  "out_edges (snapshot_of reserved_doc ''fp'' None) ''fix'' = [arrow ''fix'' ''style'' None None]"
  "node_at (snapshot_of reserved_doc ''fp'' None) ''style'' =
     Some (EvaluatorNode (en_critic\<lparr>ev_id := ''style''\<rparr>))"
  "node_at (snapshot_of reserved_doc ''fp'' None) ''facts'' =
     Some (EvaluatorNode (en_critic\<lparr>ev_id := ''facts''\<rparr>))"
  "node_at (snapshot_of reserved_doc ''fp'' None) ''fix'' = Some (AgentNode (plain_agent ''fix'' ''fix.md''))"
  "budgets (doc (snapshot_of reserved_doc ''fp'' None)) = [GLOBAL_FIX_KEY \<mapsto> 2, ''facts_fix'' \<mapsto> 3]"
  by (simp_all add: node_at_def) (simp_all add: reserved_doc_def bare_doc_def arrow_def snapshot_of_def
      plain_agent_def)

lemma reserved_fields:
  "snapshot reserved_engine = snapshot_of reserved_doc ''fp'' None"
  "runners reserved_engine = [''agent'', ''tool'', ''evaluator'', ''publish'']"
  "max_fix_cycles reserved_engine = 3" "max_total_fix_iterations reserved_engine = 2"
  "has_post_node reserved_engine = False" "has_diff_fingerprint reserved_engine = False"
  "has_repeated_findings reserved_engine = False" "region reserved_engine = None"
  "disabled_nodes reserved_engine = []" "node_overrides reserved_engine = Map.empty"
  "\<not> is_cancelled split_verdict"
  "run_node split_verdict node = answer (if node_id node = ''facts'' then ''rework'' else ''accept'') node"
  by (simp_all add: reserved_engine_def engine_for_def translate_engine_def split_verdict_def tick_with_def)

lemmas reserved_run = reserved_tables reserved_fields arrow_fields answer_def outcome_of_def
  apply_overrides_def execute_node_def should_skip_def after_node_def select_edge_def advance_def
  reset_loops_at_def reset_loop_of_def is_rework_def REWORK_OUTCOMES_def mark_completed_def emit_def
  take_rework_def check_stall_def check_no_file_change_def check_repeated_findings_def advisory_def
  charge_rework_def engine_refusal_def rework_refusal_def global_refusal_def loop_cap_def global_cap_def
  record_rework_def

lemma reserved_style:
  assumes "current_node (run_state s) = Some ''style''"
  shows "snd (engine_step reserved_engine split_verdict s) = None \<and>
    run_state (fst (engine_step reserved_engine split_verdict s)) =
      (reset (mark_completed (run_state s) ''style'') GLOBAL_FIX_KEY)\<lparr>current_node := Some ''facts''\<rparr>"
  using assms
  by (simp add: engine_step_def reserved_run en_critic_def Let_def del: out_edges_snapshot_of doc_snapshot_of)

lemma reserved_facts:
  assumes "current_node (run_state s) = Some ''facts''" and "counter (run_state s) ''facts_fix'' < 3"
    and "counter (run_state s) GLOBAL_FIX_KEY < 2"
  shows "snd (engine_step reserved_engine split_verdict s) = None \<and>
    run_state (fst (engine_step reserved_engine split_verdict s)) =
      (fst (bump (fst (bump (fst (bump (mark_completed (run_state s) ''facts'') GLOBAL_FIX_KEY)) ''facts_fix''))
        (total_key ''facts_fix'')))\<lparr>current_node := Some ''fix''\<rparr>"
proof -
  have "engine_refusal reserved_engine (run_state (s\<lparr>run_state := mark_completed (run_state s) ''facts''\<rparr>))
      (arrow ''facts'' ''fix'' (Some ''rework'') (Some ''facts_fix'')) = None"
    using assms(2,3)
    by (simp add: engine_refusal_def rework_refusal_None edge_limit_reached_def loop_cap_def global_cap_def
        reserved_tables reserved_fields arrow_fields fix_iterations_counter GLOBAL_FIX_KEY_def
        del: doc_snapshot_of)
  then show ?thesis
    using assms(1)
    by (simp add: engine_step_def reserved_run en_critic_def Let_def
        del: out_edges_snapshot_of doc_snapshot_of)
qed

lemma reserved_fix:
  assumes "current_node (run_state s) = Some ''fix''"
  shows "snd (engine_step reserved_engine split_verdict s) = None \<and>
    run_state (fst (engine_step reserved_engine split_verdict s)) =
      (mark_completed (run_state s) ''fix'')\<lparr>current_node := Some ''style''\<rparr>"
  using assms
  by (simp add: engine_step_def reserved_run plain_agent_def Let_def del: out_edges_snapshot_of doc_snapshot_of)


lemma run_machine_append:
  "run_machine step xs s = (s', None) \<Longrightarrow> run_machine step (xs @ ys) s = run_machine step ys s'"
  by (induction xs arbitrary: s) (auto split: prod.splits option.splits)

lemma run_machine_continue:
  "snd (step i s) = None \<Longrightarrow> run_machine step (i # is) s = run_machine step is (fst (step i s))"
  by (cases "step i s") simp

text \<open>One round: the style critic accepts, which clears the counter, and the fact critic is charged.\<close>

lemma reserved_round:
  assumes "current_node (run_state s) = Some ''style''" and "counter (run_state s) ''facts_fix'' < 3"
  shows "\<exists>s'. run_machine (engine_step reserved_engine) (replicate 3 split_verdict) s = (s', None) \<and>
    current_node (run_state s') = Some ''style'' \<and>
    counter (run_state s') ''facts_fix'' = counter (run_state s) ''facts_fix'' + 1 \<and>
    total (run_state s') ''facts_fix'' = total (run_state s) ''facts_fix'' + 1"
proof -
  let ?step = "engine_step reserved_engine split_verdict"
  let ?s1 = "fst (?step s)" let ?s2 = "fst (?step ?s1)" let ?s3 = "fst (?step ?s2)"
  note keys = GLOBAL_FIX_KEY_def total_key_def TOTAL_PREFIX_def
  note r1 = reserved_style [OF assms(1)]
  have c1: "current_node (run_state ?s1) = Some ''facts''"
      "counter (run_state ?s1) ''facts_fix'' = counter (run_state s) ''facts_fix''"
      "counter (run_state ?s1) GLOBAL_FIX_KEY = 0"
      "total (run_state ?s1) ''facts_fix'' = total (run_state s) ''facts_fix''"
    using r1 by (simp_all add: run_counters.get_reset total_counter keys)
  note r2 = reserved_facts [OF c1(1)]
  have c2: "current_node (run_state ?s2) = Some ''fix''" "snd (?step ?s1) = None"
      "counter (run_state ?s2) ''facts_fix'' = counter (run_state s) ''facts_fix'' + 1"
      "total (run_state ?s2) ''facts_fix'' = total (run_state s) ''facts_fix'' + 1"
    using r2 assms(2) c1 by (simp_all add: run_counters.get_bump total_counter keys)
  note r3 = reserved_fix [OF c2(1)]
  have "run_machine (engine_step reserved_engine) (replicate 3 split_verdict) s = (?s3, None)"
    using r1 c2(2) r3 by (simp add: numeral_3_eq_3 run_machine_continue del: run_machine.simps(2))
  with c2 r3 show ?thesis by (intro exI [of _ ?s3]) (simp add: total_counter)
qed

text \<open>
  The global hard stop can be defeated by a loop's name.  The checkpoint documents that its
  reserved counter keys cannot collide with operator loop names, but a flow whose loop is called
  \<open>global_fix_iterations\<close> validates, and each forward step out of that loop's node clears the global
  counter: with a limit of two rework rounds the engine takes three.
\<close>

theorem reserved_loop_defeats_global_cap:
  "\<exists>d eng ticks s s'. validate_flow (\<lambda>_. False) (snapshot_of d ''fp'' None) = Inr () \<and>
     snapshot eng = snapshot_of d ''fp'' None \<and> loop_counters (run_state s) = Map.empty \<and>
     engine_run eng ticks s = (s', None) \<and> max_total_fix_iterations eng = 2 \<and>
     total (run_state s') ''facts_fix'' = 3"
proof -
  let ?s = "fresh_run\<lparr>run_state := (run_state fresh_run)\<lparr>current_node := Some ''style''\<rparr>\<rparr>"
  let ?run = "run_machine (engine_step reserved_engine)"
  have z: "counter (run_state ?s) ''facts_fix'' = 0" "total (run_state ?s) ''facts_fix'' = 0"
    by (simp_all add: counter_def total_def fresh_run_def)
  obtain s1 where s1: "?run (replicate 3 split_verdict) ?s = (s1, None)"
      "current_node (run_state s1) = Some ''style''" "counter (run_state s1) ''facts_fix'' = 1"
      "total (run_state s1) ''facts_fix'' = 1"
    using reserved_round [of ?s] z by auto
  obtain s2 where s2: "?run (replicate 3 split_verdict) s1 = (s2, None)"
      "current_node (run_state s2) = Some ''style''" "counter (run_state s2) ''facts_fix'' = 2"
      "total (run_state s2) ''facts_fix'' = 2"
    using reserved_round [OF s1(2)] s1 by auto
  obtain s3 where s3: "?run (replicate 3 split_verdict) s2 = (s3, None)"
      "total (run_state s3) ''facts_fix'' = 3"
    using reserved_round [OF s2(2)] s2 by auto
  have "?run (replicate 3 split_verdict @ replicate 3 split_verdict @ replicate 3 split_verdict) ?s = (s3, None)"
    using s1(1) s2(1) s3(1) by (simp add: run_machine_append)
  then have run: "engine_run reserved_engine (replicate 9 split_verdict) ?s = (s3, None)"
    by (simp add: engine_run_def flip: replicate_add)
  show ?thesis
    using run s3(2) reserved_validates [of "\<lambda>_. False"] reserved_fields
    by (intro exI [of _ reserved_doc] exI [of _ reserved_engine] exI [of _ "replicate 9 split_verdict"]
        exI [of _ ?s] exI [of _ s3]) (simp add: fresh_run_def)
qed

end
