(* ===== verification/Providers.thy ===== *)
theory Providers
  imports Complex_Main FlowSchema
begin

text \<open>
  The provider contract of \<open>providers/base.py\<close>: the normalized error classes and the sets that
  decide fallback, retry and parking, the request and result records, and the one seam that
  assembles the effective prompt.  With it the two pure consumers of those sets:
  \<open>ProviderConfig\<close>'s resolution of model and reasoning (\<open>config/schema.py\<close>) and the disposition of
  an exhausted stage (\<open>core/infra_disposition.py\<close>).  Record fields carry a prefix for their class
  (\<open>rq_\<close> request, \<open>rr_\<close> result, \<open>ne_\<close> normalized error, \<open>pe_\<close> provider error, \<open>nu_\<close> usage,
  \<open>pc_\<close> provider configuration).
\<close>

section \<open>Error classes\<close>

datatype run_status = RUN_SUCCEEDED | RUN_FAILED

datatype usage_scope = SESSION_CUMULATIVE | PER_INVOCATION

datatype error_class =
    BINARY_NOT_FOUND
  | UNSUPPORTED_VERSION
  | AUTHENTICATION_FAILED
  | AUTHORIZATION_FAILED
  | RATE_LIMITED
  | NETWORK_UNAVAILABLE
  | PROVIDER_UNAVAILABLE
  | TIMEOUT
  | PROCESS_CRASHED
  | INVALID_OUTPUT
  | PERMISSION_DENIED
  | CONFIGURATION_ERROR
  | INVALID_INVOCATION
  | MODEL_REQUEST_INVALID
  | TASK_FAILURE
  | AGENT_NO_PROGRESS
  | SESSION_UNAVAILABLE
  | AGENT_CANCELLED
  | CONTAINMENT_UNVERIFIED
  | BACKGROUND_WORK_LOST
  | CAPABILITY_UNAVAILABLE

definition FALLBACK_ELIGIBLE :: "error_class set" where
  "FALLBACK_ELIGIBLE = {BINARY_NOT_FOUND, UNSUPPORTED_VERSION, AUTHENTICATION_FAILED, RATE_LIMITED,
     NETWORK_UNAVAILABLE, PROVIDER_UNAVAILABLE, TIMEOUT, PROCESS_CRASHED, INVALID_OUTPUT,
     AGENT_NO_PROGRESS}"

definition TRANSIENT_RETRYABLE :: "error_class set" where
  "TRANSIENT_RETRYABLE = {PROVIDER_UNAVAILABLE, NETWORK_UNAVAILABLE}"

definition PARK_ELIGIBLE :: "error_class set" where
  "PARK_ELIGIBLE = TRANSIENT_RETRYABLE \<union> {RATE_LIMITED}"

section \<open>Requests, results and errors\<close>

record write_guard_policy =
  wg_exchange_root :: "string option"
  wg_git_dir :: string
  wg_git_common_dir :: string
  wg_hooks_dir :: string
  wg_tasks_dir :: string

record agent_request =
  rq_task_id :: string
  rq_node_id :: string
  rq_working_directory :: string
  rq_prompt :: string
  rq_permission_profile :: string
  rq_timeout_seconds :: int
  rq_attempt :: int
  rq_node_run_id :: int
  rq_task_path :: "string option"
  rq_plan_path :: "string option"
  rq_diff_path :: "string option"
  rq_change_overview_path :: "string option"
  rq_diff_base :: "string option"
  rq_check_artifacts_path :: "string option"
  rq_review_artifacts_path :: "string option"
  rq_human_input_path :: "string option"
  rq_conflicts_path :: "string option"
  rq_rework_report_path :: "string option"
  rq_supervisor_packet_path :: "string option"
  rq_output_schema :: "ydict option"
  rq_model :: "string option"
  rq_extra_args :: "string list"
  rq_reasoning :: "string option"
  rq_session_id :: "string option"
  rq_continuation_prompt :: "string option"
  rq_resume_baseline_output_tokens :: "int option"
  rq_network_access :: bool
  rq_git_evidence :: bool
  rq_write_guard :: "write_guard_policy option"
  rq_security_preamble :: "string option"
  rq_change_guidance :: "string option"
  rq_required_skills :: "string list"
  rq_allow_skills :: bool

record normalized_error =
  ne_class :: error_class
  ne_message :: string
  ne_failure_subtype :: "string option"
  ne_resets_at :: "string option"

record normalized_usage =
  nu_scope :: usage_scope
  nu_input_total :: "int option"
  nu_cache_read :: "int option"
  nu_cache_write :: "int option"
  nu_uncached_input :: "int option"
  nu_output_total :: "int option"
  nu_reasoning_output :: "int option"
  nu_cost :: "rat option"

record agent_result =
  rr_status :: run_status
  rr_provider :: string
  rr_node_id :: string
  rr_attempt :: int
  rr_exit_code :: "int option"
  rr_started_at :: string
  rr_finished_at :: string
  rr_final_message :: "string option"
  rr_structured_output :: "ydict option"
  rr_usage :: "ydict option"
  rr_normalized_usage :: "normalized_usage option"
  rr_session_id :: "string option"
  rr_model :: "string option"
  rr_reasoning :: "string option"
  rr_stdout_path :: "string option"
  rr_stderr_path :: "string option"
  rr_event_log_path :: "string option"
  rr_error :: "normalized_error option"

record provider_error =
  pe_class :: error_class
  pe_message :: string
  pe_resets_at :: "string option"
  pe_result :: "agent_result option"

definition is_fallback_eligible :: "provider_error \<Rightarrow> bool" where
  "is_fallback_eligible e = (pe_class e \<in> FALLBACK_ELIGIBLE)"

section \<open>The effective prompt\<close>

text \<open>Lines joined by a newline, and \<open>if value\<close> on an optional string.\<close>

definition newline :: char where
  "newline = char_of (10 :: nat)"

definition lines_of :: "string list \<Rightarrow> string" where
  "lines_of ls = join_with newline ls"

definition paragraphs :: "string \<Rightarrow> string \<Rightarrow> string" where
  "paragraphs a b = a @ newline # newline # b"

definition present_str :: "string option \<Rightarrow> bool" where
  "present_str v = (case v of Some s \<Rightarrow> s \<noteq> [] | None \<Rightarrow> False)"

definition context_paths :: "agent_request \<Rightarrow> (string \<times> string option) list" where
  "context_paths q =
     [(''task'', rq_task_path q), (''plan'', rq_plan_path q),
      (''change overview'', rq_change_overview_path q), (''diff'', rq_diff_path q),
      (''checks'', rq_check_artifacts_path q), (''review'', rq_review_artifacts_path q),
      (''conflicts'', rq_conflicts_path q), (''prior_fix'', rq_rework_report_path q),
      (''human_input'', rq_human_input_path q), (''packet'', rq_supervisor_packet_path q)]"

definition build_context_footer :: "agent_request \<Rightarrow> string" where
  "build_context_footer q =
     (let present = filter (\<lambda>(label, path). present_str path) (context_paths q);
          context_lines = (if present = [] then []
            else ''Context files (read them as needed; do not assume their contents):''
                 # map (\<lambda>(label, path). ''- '' @ label @ '': '' @ the path) present);
          change = (if present_str (rq_diff_base q) then [''Change base: '' @ the (rq_diff_base q)] else []) @
                   (if present_str (rq_change_guidance q) then [the (rq_change_guidance q)] else [])
      in lines_of (if change = [] then context_lines
                   else if context_lines = [] then change else context_lines @ [] # change))"

text \<open>The em dash of the header is outside the range of a character here; its encoding stands for it.\<close>

definition em_dash :: string where
  "em_dash = [char_of (226 :: nat), char_of (128 :: nat), char_of (148 :: nat)]"

definition build_skills_block :: "agent_request \<Rightarrow> string" where
  "build_skills_block q =
     (if rq_required_skills q = [] then []
      else lines_of
        ((''Required skills '' @ em_dash @ '' invoke each of these before you finish; they are this repository'' @
          CHR 0x27 # ''s own conventions, not optional:'')
         # map (\<lambda>name. ''- /'' @ name) (rq_required_skills q) @
         [newline # ''Where a skill conflicts with the instructions above, the instructions above win. '' @
          ''No skill grants any right to commit, push, or open a pull request.'']))"

definition uses_continuation :: "agent_request \<Rightarrow> bool" where
  "uses_continuation q = (rq_session_id q \<noteq> None \<and> rq_continuation_prompt q \<noteq> None)"

definition build_effective_prompt :: "agent_request \<Rightarrow> string option \<Rightarrow> string" where
  "build_effective_prompt q body_override =
     (let body = (case body_override of
            Some b \<Rightarrow> b
          | None \<Rightarrow> (case rq_continuation_prompt q of
                Some c \<Rightarrow> if uses_continuation q then c else rq_prompt q
              | None \<Rightarrow> rq_prompt q));
          body = (if present_str (rq_security_preamble q) \<and> rq_session_id q = None
                  then paragraphs (the (rq_security_preamble q)) body else body);
          skills = build_skills_block q;
          body = (if skills \<noteq> [] then paragraphs body skills else body);
          footer = build_context_footer q
      in if footer = [] then body else paragraphs body footer)"

section \<open>Effective model and reasoning (config/schema.py)\<close>

record provider_config =
  pc_command :: string
  pc_model :: string
  pc_timeout_seconds :: int
  pc_permission_profile :: string
  pc_extra_args :: "string list"
  pc_max_turns :: "int option"
  pc_reasoning :: "string option"
  pc_primary :: bool
  pc_max_turns_gate :: bool
  pc_background_tasks :: bool

text \<open>\<open>a or b or None\<close> on optional strings.\<close>

definition or_else :: "string option \<Rightarrow> string option \<Rightarrow> string option" where
  "or_else a b = (if present_str a then a else if present_str b then b else None)"

definition effective_model :: "provider_config \<Rightarrow> string option \<Rightarrow> string option" where
  "effective_model cfg override = or_else override (Some (pc_model cfg))"

definition effective_reasoning :: "provider_config \<Rightarrow> string option \<Rightarrow> string option" where
  "effective_reasoning cfg override = or_else override (pc_reasoning cfg)"

section \<open>Disposition of an exhausted stage (core/infra_disposition.py)\<close>

definition CONTAINMENT_MANUAL_CLASSES :: "error_class set" where
  "CONTAINMENT_MANUAL_CLASSES = {CONTAINMENT_UNVERIFIED, CAPABILITY_UNAVAILABLE}"

datatype infra_disposition = MANUAL | PARK | TERMINAL_DISPOSITION

definition classify_exhaustion :: "error_class list \<Rightarrow> error_class option \<Rightarrow> infra_disposition" where
  "classify_exhaustion classes representative =
     (if list_ex (\<lambda>c. c \<in> CONTAINMENT_MANUAL_CLASSES) classes then MANUAL
      else if representative = Some AGENT_CANCELLED then PARK
      else if list_ex (\<lambda>c. c \<in> PARK_ELIGIBLE) classes then PARK
      else TERMINAL_DISPOSITION)"

fun disposition_rank :: "infra_disposition \<Rightarrow> nat" where
  "disposition_rank TERMINAL_DISPOSITION = 0"
| "disposition_rank PARK = 1"
| "disposition_rank MANUAL = 2"

text \<open>
  The disposition of an exhausted stage only ever hardens.  Adding the errors of further
  attempts, before or after those already raised, never turns a manual stop into anything else and
  never turns a resumable park into a terminal failure; the order of the errors does not matter; a
  manual stop needs one of the two containment classes among the raised errors, and a stage that
  raised nothing parks only for an operator stop.
\<close>

theorem disposition_monotone:
  "disposition_rank (classify_exhaustion cs rep) \<le> disposition_rank (classify_exhaustion (xs @ cs @ ys) rep) \<and>
   classify_exhaustion (xs @ ys) rep = classify_exhaustion (ys @ xs) rep \<and>
   (classify_exhaustion cs rep = MANUAL \<longleftrightarrow> CONTAINMENT_UNVERIFIED \<in> set cs \<or> CAPABILITY_UNAVAILABLE \<in> set cs) \<and>
   classify_exhaustion [] rep = (if rep = Some AGENT_CANCELLED then PARK else TERMINAL_DISPOSITION)"
proof (intro conjI)
  show "disposition_rank (classify_exhaustion cs rep) \<le> disposition_rank (classify_exhaustion (xs @ cs @ ys) rep)"
    unfolding classify_exhaustion_def by simp
  show "classify_exhaustion (xs @ ys) rep = classify_exhaustion (ys @ xs) rep"
    unfolding classify_exhaustion_def by (simp add: disj_commute)
  show "classify_exhaustion cs rep = MANUAL \<longleftrightarrow> CONTAINMENT_UNVERIFIED \<in> set cs \<or> CAPABILITY_UNAVAILABLE \<in> set cs"
    unfolding classify_exhaustion_def list_ex_iff CONTAINMENT_MANUAL_CLASSES_def by auto
  show "classify_exhaustion [] rep = (if rep = Some AGENT_CANCELLED then PARK else TERMINAL_DISPOSITION)"
    by (simp add: classify_exhaustion_def)
qed

end
