(* ===== verification/Router.thy ===== *)
theory Router
  imports Providers Cadence
begin

text \<open>
  The agent router (\<open>routing/router.py\<close>): resolution of a node's primary and fallback provider, and
  one stage run over them with the infrastructure-only fallback, the fresh retry of a lost session
  and the bounded transient retry.  With it the shell question asked of a whole route
  (\<open>security/shell_reach.py\<close>) and the partial-change contract (\<open>routing/snapshots.py\<close>).

  What the code calls and does not define is an argument: the provider adapters, the stop request,
  the sleep and \<open>datetime.fromisoformat\<close> form a record \<open>stage_env\<close> over a type \<open>'w\<close> for the state
  of the world, which every call may change.  The field \<open>launched\<close> of the running state lists the
  invocations made; the code has no such list and reads it nowhere.  Log lines are left out.
\<close>

section \<open>Configuration\<close>

record retry_config =
  rc_max_attempts :: int
  rc_base_delay_s :: rat
  rc_max_delay_s :: rat
  rc_max_blocked_s :: rat

record agents_config =
  ag_allowed :: "provider_id list"
  ag_max_stage_attempts :: int
  ag_max_fix_cycles :: int
  ag_max_total_fix_iterations :: int
  ag_decomposition_enabled :: bool
  ag_max_subtasks :: int
  ag_providers :: "(provider_id \<times> provider_config) list"
  ag_retry :: retry_config

record shell_query =
  sq_permission_profile :: "string option"
  sq_git_evidence :: bool
  sq_strict_isolation :: bool

record agent_router =
  ar_agents :: agents_config
  ar_strict_isolation :: bool
  ar_instances :: "provider_id list"
  ar_isolation_checks :: "provider_id \<Rightarrow> (provider_config \<Rightarrow> string list) option"
  ar_shell_checks :: "provider_id \<Rightarrow> (provider_config \<Rightarrow> shell_query \<Rightarrow> bool) option"
  ar_global_primary :: provider_id

datatype route_role = ROLE_PRIMARY | ROLE_FALLBACK

datatype route_issue =
    WrongPrimaryCount nat
  | NotAllowed route_role provider_id
  | NotConfigured route_role provider_id
  | NoInstance route_role provider_id

text \<open>What a call of the router raises: its own error, or a failing dictionary lookup or comparison.\<close>

datatype router_error = ConfigError "route_issue list" | MissingProvider provider_id | IncomparableInstants

definition provider_cfg :: "agent_router \<Rightarrow> provider_id \<Rightarrow> provider_config option" where
  "provider_cfg r pid = map_of (ag_providers (ar_agents r)) pid"

definition get_cfg :: "agent_router \<Rightarrow> provider_id \<Rightarrow> router_error + provider_config" where
  "get_cfg r pid = (case provider_cfg r pid of Some cfg \<Rightarrow> Inr cfg | None \<Rightarrow> Inl (MissingProvider pid))"

definition profile_of :: "agent_router \<Rightarrow> provider_id \<Rightarrow> router_error + string" where
  "profile_of r pid = bind_res (get_cfg r pid) (\<lambda>cfg. Inr (pc_permission_profile cfg))"

definition resolve_global_primary :: "agents_config \<Rightarrow> router_error + provider_id" where
  "resolve_global_primary agents =
     (let primaries = map fst (filter (\<lambda>(pid, cfg). pc_primary cfg) (ag_providers agents))
      in if length primaries = 1 then Inr (hd primaries)
         else Inl (ConfigError [WrongPrimaryCount (length primaries)]))"

definition new_router ::
    "agents_config \<Rightarrow> bool \<Rightarrow> provider_id list \<Rightarrow> (provider_id \<Rightarrow> (provider_config \<Rightarrow> string list) option) \<Rightarrow>
     (provider_id \<Rightarrow> (provider_config \<Rightarrow> shell_query \<Rightarrow> bool) option) \<Rightarrow> router_error + agent_router" where
  "new_router agents strict instances isolation shells =
     bind_res (resolve_global_primary agents) (\<lambda>primary. Inr
       \<lparr>ar_agents = agents, ar_strict_isolation = strict, ar_instances = instances,
        ar_isolation_checks = isolation, ar_shell_checks = shells, ar_global_primary = primary\<rparr>)"

section \<open>The fallback decision\<close>

definition CONDITIONAL_FALLBACK :: "error_class set" where
  "CONDITIONAL_FALLBACK = {AUTHORIZATION_FAILED, PERMISSION_DENIED, CAPABILITY_UNAVAILABLE}"

definition fallback_allowed :: "error_class \<Rightarrow> string \<Rightarrow> string \<Rightarrow> bool \<Rightarrow> bool" where
  "fallback_allowed c primary_profile fallback_profile fallback_can_isolate =
     (if c \<in> FALLBACK_ELIGIBLE then True
      else if c \<in> CONDITIONAL_FALLBACK then
        (let same_or_stricter = is_same_or_stricter fallback_profile primary_profile
         in if c = CAPABILITY_UNAVAILABLE then same_or_stricter \<and> fallback_can_isolate
            else same_or_stricter)
      else False)"

definition can_isolate :: "agent_router \<Rightarrow> provider_id \<Rightarrow> bool" where
  "can_isolate r pid =
     (case (ar_isolation_checks r pid, provider_cfg r pid) of
        (Some check, Some cfg) \<Rightarrow> check cfg = []
      | _ \<Rightarrow> False)"

section \<open>Route resolution\<close>

datatype route_source = SOURCE_CONFIG | SOURCE_FLOW_NODE

record resolved_route =
  rt_node_id :: string
  rt_primary :: provider_id
  rt_fallback :: "provider_id option"
  rt_source :: route_source

definition route_providers :: "resolved_route \<Rightarrow> provider_id list" where
  "route_providers route = rt_primary route # (case rt_fallback route of None \<Rightarrow> [] | Some f \<Rightarrow> [f])"

definition other_allowed_provider :: "agent_router \<Rightarrow> provider_id \<Rightarrow> provider_id option" where
  "other_allowed_provider r primary =
     (let others = filter (\<lambda>pid. pid \<noteq> primary \<and> provider_cfg r pid \<noteq> None) (ag_allowed (ar_agents r))
      in if length others = 1 then Some (hd others) else None)"

definition role_issues :: "agent_router \<Rightarrow> route_role \<Rightarrow> provider_id option \<Rightarrow> route_issue list" where
  "role_issues r role p =
     (case p of
        None \<Rightarrow> []
      | Some pid \<Rightarrow>
          (if pid \<notin> set (ag_allowed (ar_agents r)) then [NotAllowed role pid] else []) @
          (if provider_cfg r pid = None then [NotConfigured role pid] else []) @
          (if pid \<notin> set (ar_instances r) then [NoInstance role pid] else []))"

definition assert_available :: "agent_router \<Rightarrow> provider_id \<Rightarrow> provider_id option \<Rightarrow> router_error + unit" where
  "assert_available r primary fallback =
     (let issues = role_issues r ROLE_PRIMARY (Some primary) @ role_issues r ROLE_FALLBACK fallback
      in require (issues = []) (ConfigError issues))"

definition resolve_route :: "agent_router \<Rightarrow> string \<Rightarrow> provider_id option \<Rightarrow> router_error + resolved_route" where
  "resolve_route r nid provider =
     (let primary = (case provider of Some p \<Rightarrow> p | None \<Rightarrow> ar_global_primary r);
          src = (if provider \<noteq> None then SOURCE_FLOW_NODE else SOURCE_CONFIG);
          fallback = (if primary \<noteq> ar_global_primary r then Some (ar_global_primary r)
                      else other_allowed_provider r primary)
      in bind_res (assert_available r primary fallback) (\<lambda>_. Inr
           \<lparr>rt_node_id = nid, rt_primary = primary, rt_fallback = fallback, rt_source = src\<rparr>))"

section \<open>Does an attempt get a shell (security/shell_reach.py)\<close>

type_synonym shell_checks = "provider_id \<Rightarrow> (provider_config \<Rightarrow> shell_query \<Rightarrow> bool) option"

fun any_provider_grants_shell ::
    "provider_id list \<Rightarrow> (provider_id \<Rightarrow> provider_config option) \<Rightarrow> shell_checks \<Rightarrow> shell_query \<Rightarrow> bool" where
  "any_provider_grants_shell [] configs checks query = False"
| "any_provider_grants_shell (p # ps) configs checks query =
     (case (configs p, checks p) of
        (Some cfg, Some check) \<Rightarrow> check cfg query \<or> any_provider_grants_shell ps configs checks query
      | _ \<Rightarrow> True)"

fun all_grant_shell ::
    "provider_id list \<Rightarrow> (provider_id \<Rightarrow> provider_config option) \<Rightarrow> shell_checks \<Rightarrow> shell_query \<Rightarrow> bool" where
  "all_grant_shell [] configs checks query = True"
| "all_grant_shell (p # ps) configs checks query =
     (case (configs p, checks p) of
        (Some cfg, Some check) \<Rightarrow> check cfg query \<and> all_grant_shell ps configs checks query
      | _ \<Rightarrow> False)"

definition every_provider_grants_shell ::
    "provider_id list \<Rightarrow> (provider_id \<Rightarrow> provider_config option) \<Rightarrow> shell_checks \<Rightarrow> shell_query \<Rightarrow> bool" where
  "every_provider_grants_shell ps configs checks query = (ps \<noteq> [] \<and> all_grant_shell ps configs checks query)"

definition shell_query_of :: "agent_router \<Rightarrow> string option \<Rightarrow> bool \<Rightarrow> shell_query" where
  "shell_query_of r profile evidence =
     \<lparr>sq_permission_profile = profile, sq_git_evidence = evidence, sq_strict_isolation = ar_strict_isolation r\<rparr>"

definition route_grants_shell :: "agent_router \<Rightarrow> resolved_route \<Rightarrow> string option \<Rightarrow> bool \<Rightarrow> bool" where
  "route_grants_shell r route profile evidence =
     any_provider_grants_shell (route_providers route) (provider_cfg r) (ar_shell_checks r)
       (shell_query_of r profile evidence)"

definition route_always_grants_shell :: "agent_router \<Rightarrow> resolved_route \<Rightarrow> string option \<Rightarrow> bool \<Rightarrow> bool" where
  "route_always_grants_shell r route profile evidence =
     every_provider_grants_shell (route_providers route) (provider_cfg r) (ar_shell_checks r)
       (shell_query_of r profile evidence)"

section \<open>The running state of a stage\<close>

text \<open>A parsed instant is comparable with another only when both carry an offset or neither does.\<close>

datatype moment = Naive int | Aware int

fun moment_less :: "moment \<Rightarrow> moment \<Rightarrow> bool option" where
  "moment_less (Naive a) (Naive b) = Some (a < b)"
| "moment_less (Aware a) (Aware b) = Some (a < b)"
| "moment_less _ _ = None"

record working_tree_snapshot =
  wt_commit_sha :: string
  wt_porcelain_status :: string
  wt_diff_checksum :: string
  wt_artifacts :: "string list"

record partial_change =
  pt_before :: working_tree_snapshot
  pt_after :: working_tree_snapshot
  pt_diff_path :: string
  pt_note :: string

record 'w stage_env =
  run_provider :: "provider_id \<Rightarrow> agent_request \<Rightarrow> 'w \<Rightarrow> (provider_error + agent_result) \<times> 'w"
  is_cancelled :: "'w \<Rightarrow> bool"
  sleep_for :: "rat \<Rightarrow> 'w \<Rightarrow> 'w"
  fromisoformat :: "string \<Rightarrow> moment option"

record 'w snapshot_hook =
  capture :: "'w \<Rightarrow> working_tree_snapshot"
  partial_change_since :: "working_tree_snapshot \<Rightarrow> 'w \<Rightarrow> partial_change option"

record provider_attempt =
  pa_provider :: provider_id
  pa_attempt :: int
  pa_status :: "run_status option"
  pa_error_class :: "error_class option"
  pa_result :: "agent_result option"
  pa_model :: "string option"
  pa_reasoning :: "string option"
  pa_resumed :: bool

record 'w stage =
  world :: 'w
  stage_attempts :: int
  audit_attempt :: int
  last_error :: "normalized_error option"
  earliest_reset :: "string option"
  partial_diff :: "partial_change option"
  attempts :: "provider_attempt list"
  launched :: "(provider_id \<times> agent_request) list"

record stage_outcome =
  so_route :: resolved_route
  so_result :: "agent_result option"
  so_provider_used :: "provider_id option"
  so_stage_attempts :: int
  so_terminal_error :: "normalized_error option"
  so_attempts :: "provider_attempt list"
  so_partial_change :: "partial_change option"

definition earlier :: "(string \<Rightarrow> moment option) \<Rightarrow> string option \<Rightarrow> string option \<Rightarrow> router_error + string option" where
  "earlier parse_iso current candidate =
     (case candidate of
        None \<Rightarrow> Inr current
      | Some cand \<Rightarrow> (case current of
            None \<Rightarrow> Inr candidate
          | Some cur \<Rightarrow> (case (parse_iso cur, parse_iso cand) of
                (Some t, Some u) \<Rightarrow> (case moment_less u t of
                    Some b \<Rightarrow> Inr (if b then candidate else current)
                  | None \<Rightarrow> Inl IncomparableInstants)
              | _ \<Rightarrow> Inr current)))"

section \<open>One invocation\<close>

definition build_request ::
    "agent_request \<Rightarrow> int \<Rightarrow> partial_change option \<Rightarrow> provider_id option \<Rightarrow> provider_id option \<Rightarrow> agent_request" where
  "build_request request attempt partial from_provider to_provider =
     (let req = request\<lparr>rq_attempt := attempt\<rparr>;
          req = (case partial of None \<Rightarrow> req
                 | Some p \<Rightarrow> req\<lparr>rq_diff_path := Some (pt_diff_path p), rq_change_overview_path := None,
                                 rq_diff_base := None, rq_change_guidance := None\<rparr>)
      in case (from_provider, to_provider) of
           (Some f, Some t) \<Rightarrow>
             (if f \<noteq> t
              then req\<lparr>rq_model := None,
                       rq_reasoning := map_reasoning_for_provider_switch f t (rq_reasoning request),
                       rq_extra_args := [], rq_session_id := None\<rparr>
              else req)
         | _ \<Rightarrow> req)"

definition call_provider ::
    "agent_router \<Rightarrow> 'w stage_env \<Rightarrow> provider_id \<Rightarrow> agent_request \<Rightarrow> 'w stage \<Rightarrow>
     router_error + (provider_error + agent_result) \<times> 'w stage" where
  "call_provider r env pid req st =
     (if pid \<notin> set (ar_instances r) then Inl (MissingProvider pid)
      else (case run_provider env pid req (world st) of
              (answer, w) \<Rightarrow> Inr (answer, st\<lparr>world := w, launched := launched st @ [(pid, req)]\<rparr>)))"

definition attempt_row ::
    "provider_config \<Rightarrow> provider_id \<Rightarrow> agent_request \<Rightarrow> int \<Rightarrow> (provider_error + agent_result) \<Rightarrow> provider_attempt" where
  "attempt_row cfg pid req attempt answer =
     \<lparr>pa_provider = pid, pa_attempt = attempt,
      pa_status = (case answer of Inl _ \<Rightarrow> None | Inr res \<Rightarrow> Some (rr_status res)),
      pa_error_class = (case answer of Inl exc \<Rightarrow> Some (pe_class exc) | Inr res \<Rightarrow> map_option ne_class (rr_error res)),
      pa_result = (case answer of Inl exc \<Rightarrow> pe_result exc | Inr res \<Rightarrow> Some res),
      pa_model = effective_model cfg (rq_model req),
      pa_reasoning = effective_reasoning cfg (rq_reasoning req),
      pa_resumed = (rq_session_id req \<noteq> None)\<rparr>"

definition record_attempt ::
    "agent_router \<Rightarrow> provider_id \<Rightarrow> agent_request \<Rightarrow> int \<Rightarrow> (provider_error + agent_result) \<Rightarrow> 'w stage \<Rightarrow>
     router_error + 'w stage" where
  "record_attempt r pid req attempt answer st =
     bind_res (get_cfg r pid) (\<lambda>cfg.
       Inr (st\<lparr>attempts := attempts st @ [attempt_row cfg pid req attempt answer]\<rparr>))"

text \<open>The bookkeeping of a raised error at the two invocations a hop makes itself.\<close>

definition note_failure :: "'w stage_env \<Rightarrow> provider_error \<Rightarrow> 'w stage \<Rightarrow> router_error + 'w stage" where
  "note_failure env exc st =
     bind_res (earlier (fromisoformat env) (earliest_reset st) (pe_resets_at exc)) (\<lambda>reset.
       Inr (st\<lparr>earliest_reset := reset,
               last_error := Some \<lparr>ne_class = pe_class exc, ne_message = pe_message exc,
                                   ne_failure_subtype = None, ne_resets_at = pe_resets_at exc\<rparr>\<rparr>))"

section \<open>The transient retry\<close>

definition retry_delay :: "retry_config \<Rightarrow> nat \<Rightarrow> rat" where
  "retry_delay retry k = min (rc_base_delay_s retry * 2 ^ k) (rc_max_delay_s retry)"

text \<open>\<open>k\<close> retries are done and \<open>left\<close> remain; the result is the answer, the last class and the state.\<close>

fun retry_loop ::
    "agent_router \<Rightarrow> 'w stage_env \<Rightarrow> provider_id \<Rightarrow> nat \<Rightarrow> nat \<Rightarrow> agent_request \<Rightarrow> error_class \<Rightarrow> 'w stage \<Rightarrow>
     router_error + agent_result option \<times> error_class \<times> 'w stage" where
  "retry_loop r env pid k 0 resume_req last_class st = Inr (None, last_class, st)"
| "retry_loop r env pid k (Suc left) resume_req last_class st =
     (let w = sleep_for env (retry_delay (ag_retry (ar_agents r)) k) (world st);
          number = audit_attempt st + 1;
          attempt_req = resume_req\<lparr>rq_attempt := number\<rparr>
      in bind_res (call_provider r env pid attempt_req (st\<lparr>world := w, audit_attempt := number\<rparr>)) (\<lambda>(answer, st1).
         bind_res (record_attempt r pid attempt_req number answer st1) (\<lambda>st2.
         case answer of
           Inr res \<Rightarrow> Inr (Some res, last_class, st2)
         | Inl exc \<Rightarrow>
             (if pe_class exc = SESSION_UNAVAILABLE
              then retry_loop r env pid (Suc k) left (resume_req\<lparr>rq_session_id := None\<rparr>) (pe_class exc) st2
              else if pe_class exc \<notin> TRANSIENT_RETRYABLE then Inr (None, pe_class exc, st2)
              else retry_loop r env pid (Suc k) left resume_req (pe_class exc) st2))))"

section \<open>One hop\<close>

datatype hop_end = HopReturn agent_result | HopContinue | HopBreak

definition fallback_step ::
    "agent_router \<Rightarrow> ('w \<Rightarrow> partial_change option) \<Rightarrow> provider_id \<Rightarrow> provider_id option \<Rightarrow> error_class \<Rightarrow> 'w stage \<Rightarrow>
     router_error + hop_end \<times> 'w stage" where
  "fallback_step r partial_now pid next_pid c st =
     (case next_pid of
        None \<Rightarrow> Inr (HopContinue, st)
      | Some nxt \<Rightarrow>
          if stage_attempts st \<ge> ag_max_stage_attempts (ar_agents r) then Inr (HopContinue, st)
          else bind_res (profile_of r pid) (\<lambda>primary_profile.
               bind_res (profile_of r nxt) (\<lambda>fallback_profile.
               if fallback_allowed c primary_profile fallback_profile (can_isolate r nxt)
               then Inr (HopContinue, st\<lparr>partial_diff := partial_now (world st)\<rparr>)
               else Inr (HopBreak, st))))"

text \<open>The partial change since \<open>before\<close>; without a hook the recorded one stays.\<close>

definition partial_since ::
    "'w snapshot_hook option \<Rightarrow> working_tree_snapshot option \<Rightarrow> partial_change option \<Rightarrow> 'w \<Rightarrow> partial_change option" where
  "partial_since hook before current w =
     (case (hook, before) of (Some h, Some b) \<Rightarrow> partial_change_since h b w | _ \<Rightarrow> current)"

definition fresh_retry ::
    "agent_router \<Rightarrow> 'w stage_env \<Rightarrow> ('w \<Rightarrow> partial_change option) \<Rightarrow> provider_id \<Rightarrow> provider_id option \<Rightarrow>
     agent_request \<Rightarrow> 'w stage \<Rightarrow> router_error + hop_end \<times> 'w stage" where
  "fresh_retry r env partial_now pid next_pid req st =
     (let number = audit_attempt st + 1;
          fresh_req = req\<lparr>rq_session_id := None, rq_attempt := number\<rparr>
      in bind_res (call_provider r env pid fresh_req
                     (st\<lparr>audit_attempt := number, stage_attempts := stage_attempts st + 1\<rparr>)) (\<lambda>(answer, st1).
         case answer of
           Inr res \<Rightarrow> bind_res (record_attempt r pid fresh_req number answer st1) (\<lambda>st2. Inr (HopReturn res, st2))
         | Inl exc \<Rightarrow>
             bind_res (note_failure env exc st1) (\<lambda>st2.
             bind_res (record_attempt r pid fresh_req number answer st2) (\<lambda>st3.
             fallback_step r partial_now pid next_pid (pe_class exc) st3))))"

definition retry_transient ::
    "agent_router \<Rightarrow> 'w stage_env \<Rightarrow> ('w \<Rightarrow> partial_change option) \<Rightarrow> provider_id \<Rightarrow> provider_id option \<Rightarrow>
     agent_request \<Rightarrow> provider_error \<Rightarrow> 'w stage \<Rightarrow> router_error + hop_end \<times> 'w stage" where
  "retry_transient r env partial_now pid next_pid req exc st =
     bind_res (retry_loop r env pid 0 (nat (rc_max_attempts (ag_retry (ar_agents r)))) req (pe_class exc) st)
       (\<lambda>(retried, last_class, st1).
          case retried of
            Some res \<Rightarrow> Inr (HopReturn res, st1)
          | None \<Rightarrow>
              fallback_step r partial_now pid next_pid last_class
                (st1\<lparr>last_error := Some
                   \<lparr>ne_class = last_class,
                    ne_message = ''transient retries exhausted on '' @ provider_value pid,
                    ne_failure_subtype = None, ne_resets_at = pe_resets_at exc\<rparr>\<rparr>))"

definition cancelled_error :: normalized_error where
  "cancelled_error = \<lparr>ne_class = AGENT_CANCELLED,
     ne_message = ''stop requested; agent cancelled, not falling back'',
     ne_failure_subtype = None, ne_resets_at = None\<rparr>"

definition hop_failed ::
    "agent_router \<Rightarrow> 'w stage_env \<Rightarrow> ('w \<Rightarrow> partial_change option) \<Rightarrow> provider_id \<Rightarrow> provider_id option \<Rightarrow>
     agent_request \<Rightarrow> provider_error \<Rightarrow> 'w stage \<Rightarrow> router_error + hop_end \<times> 'w stage" where
  "hop_failed r env partial_now pid next_pid req exc st =
     (if is_cancelled env (world st) then Inr (HopBreak, st\<lparr>last_error := Some cancelled_error\<rparr>)
      else if pe_class exc = SESSION_UNAVAILABLE \<and> rq_session_id req \<noteq> None \<and>
              stage_attempts st < ag_max_stage_attempts (ar_agents r)
      then fresh_retry r env partial_now pid next_pid req st
      else if pe_class exc \<in> TRANSIENT_RETRYABLE \<and> rc_max_attempts (ag_retry (ar_agents r)) > 0
      then retry_transient r env partial_now pid next_pid req exc st
      else fallback_step r partial_now pid next_pid (pe_class exc) st)"

definition hop ::
    "agent_router \<Rightarrow> 'w stage_env \<Rightarrow> 'w snapshot_hook option \<Rightarrow> working_tree_snapshot option \<Rightarrow> agent_request \<Rightarrow>
     provider_id option \<Rightarrow> provider_id \<Rightarrow> provider_id option \<Rightarrow> 'w stage \<Rightarrow> router_error + hop_end \<times> 'w stage" where
  "hop r env hook before request prev pid next_pid st =
     (let number = audit_attempt st + 1;
          st0 = st\<lparr>stage_attempts := stage_attempts st + 1, audit_attempt := number\<rparr>;
          req = build_request request number (if prev \<noteq> None then partial_diff st0 else None) prev (Some pid);
          partial_now = partial_since hook before (partial_diff st0)
      in bind_res (call_provider r env pid req st0) (\<lambda>(answer, st1).
         case answer of
           Inr res \<Rightarrow> bind_res (record_attempt r pid req number answer st1) (\<lambda>st2. Inr (HopReturn res, st2))
         | Inl exc \<Rightarrow>
             bind_res (note_failure env exc st1) (\<lambda>st2.
             bind_res (record_attempt r pid req number answer st2) (\<lambda>st3.
             hop_failed r env partial_now pid next_pid req exc st3))))"

section \<open>A stage\<close>

fun run_hops ::
    "agent_router \<Rightarrow> 'w stage_env \<Rightarrow> 'w snapshot_hook option \<Rightarrow> working_tree_snapshot option \<Rightarrow> agent_request \<Rightarrow>
     provider_id option \<Rightarrow> provider_id list \<Rightarrow> 'w stage \<Rightarrow>
     router_error + (agent_result \<times> provider_id) option \<times> 'w stage" where
  "run_hops r env hook before request prev [] st = Inr (None, st)"
| "run_hops r env hook before request prev (pid # pids) st =
     (if stage_attempts st \<ge> ag_max_stage_attempts (ar_agents r) then Inr (None, st)
      else bind_res (hop r env hook before request prev pid (case pids of [] \<Rightarrow> None | p # _ \<Rightarrow> Some p) st)
             (\<lambda>(e, st1). case e of
                HopReturn res \<Rightarrow> Inr (Some (res, pid), st1)
              | HopBreak \<Rightarrow> Inr (None, st1)
              | HopContinue \<Rightarrow> run_hops r env hook before request (Some pid) pids st1))"

definition fresh_stage :: "'w \<Rightarrow> 'w stage" where
  "fresh_stage w = \<lparr>world = w, stage_attempts = 0, audit_attempt = 0, last_error = None, earliest_reset = None,
     partial_diff = None, attempts = [], launched = []\<rparr>"

definition surface_reset :: "string option \<Rightarrow> normalized_error option \<Rightarrow> normalized_error option" where
  "surface_reset reset err =
     (case err of
        Some e \<Rightarrow> (if ne_class e \<noteq> AGENT_CANCELLED then Some (e\<lparr>ne_resets_at := reset\<rparr>) else err)
      | None \<Rightarrow> None)"

definition stage_outcome_of :: "resolved_route \<Rightarrow> (agent_result \<times> provider_id) option \<Rightarrow> 'w stage \<Rightarrow> stage_outcome" where
  "stage_outcome_of route answer st =
     \<lparr>so_route = route, so_result = map_option fst answer, so_provider_used = map_option snd answer,
      so_stage_attempts = stage_attempts st,
      so_terminal_error = (case answer of Some _ \<Rightarrow> None | None \<Rightarrow> surface_reset (earliest_reset st) (last_error st)),
      so_attempts = attempts st, so_partial_change = partial_diff st\<rparr>"

definition run_stage ::
    "agent_router \<Rightarrow> 'w stage_env \<Rightarrow> agent_request \<Rightarrow> resolved_route \<Rightarrow> 'w snapshot_hook option \<Rightarrow> 'w \<Rightarrow>
     router_error + stage_outcome \<times> 'w stage" where
  "run_stage r env request route hook w =
     (let before = map_option (\<lambda>h. capture h w) hook
      in bind_res (run_hops r env hook before request None (route_providers route) (fresh_stage w))
           (\<lambda>(answer, st). Inr (stage_outcome_of route answer st, st)))"

end
