(* ===== verification/RouterCorrect.thy ===== *)
theory RouterCorrect
  imports Router
begin

text \<open>
  What a stage run of the router guarantees.  \<open>ran\<close> describes the effect of a piece of the router as
  the invocations it made and the answers it got; every operation is characterised by it once, from
  the retry loop up to the whole stage, and the properties read the result off.
\<close>

section \<open>Invocations\<close>

fun numbered :: "int \<Rightarrow> agent_request list \<Rightarrow> bool" where
  "numbered n [] = True"
| "numbered n (q # qs) = (rq_attempt q = n + 1 \<and> numbered (n + 1) qs)"

lemma numbered_append: "numbered n (xs @ ys) = (numbered n xs \<and> numbered (n + int (length xs)) ys)"
  by (induction xs arbitrary: n) (auto simp: algebra_simps)

lemma numbered_upto: "numbered n qs \<Longrightarrow> map rq_attempt qs = [n + 1 .. n + int (length qs)]"
proof (induction qs arbitrary: n)
  case Nil
  then show ?case by simp
next
  case (Cons q qs)
  then have "map rq_attempt qs = [n + 1 + 1 .. n + 1 + int (length qs)]"
    using Cons.IH [of "n + 1"] by (simp only: numbered.simps)
  moreover have "[n + 1 .. n + int (length (q # qs))] = (n + 1) # [n + 1 + 1 .. n + int (length (q # qs))]"
    by (rule upto_rec1) simp
  moreover have "n + 1 + int (length qs) = n + int (length (q # qs))" by simp
  ultimately show ?case using Cons.prems by (simp only: numbered.simps list.map)
qed

definition row_of :: "agent_router \<Rightarrow> provider_id \<Rightarrow> agent_request \<Rightarrow> (provider_error + agent_result) \<Rightarrow> provider_attempt" where
  "row_of r pid q answer = attempt_row (the (provider_cfg r pid)) pid q (rq_attempt q) answer"

text \<open>Between \<open>st\<close> and \<open>st'\<close> the provider \<open>pid\<close> was called with the requests \<open>qs\<close> and gave \<open>answers\<close>.\<close>

definition ran ::
    "agent_router \<Rightarrow> provider_id \<Rightarrow> 'w stage \<Rightarrow> agent_request list \<Rightarrow> (provider_error + agent_result) list \<Rightarrow>
     'w stage \<Rightarrow> bool" where
  "ran r pid st qs answers st' \<longleftrightarrow>
     length answers = length qs \<and>
     launched st' = launched st @ map (Pair pid) qs \<and>
     attempts st' = attempts st @ map2 (row_of r pid) qs answers \<and>
     numbered (audit_attempt st) qs \<and>
     audit_attempt st' = audit_attempt st + int (length qs)"

lemma ran_refl: "ran r pid st [] [] st"
  by (simp add: ran_def)

lemma ran_trans:
  "ran r pid st qs as1 st1 \<Longrightarrow> ran r pid st1 qs' as2 st2 \<Longrightarrow> ran r pid st (qs @ qs') (as1 @ as2) st2"
  by (auto simp: ran_def numbered_append zip_append)

text \<open>A retry repeats the built request under a new number, at most without its session.\<close>

definition repeats :: "agent_request \<Rightarrow> agent_request \<Rightarrow> bool" where
  "repeats q0 q \<longleftrightarrow>
     q = q0\<lparr>rq_attempt := rq_attempt q, rq_session_id := rq_session_id q\<rparr> \<and>
     (rq_session_id q = rq_session_id q0 \<or> rq_session_id q = None)"

lemma repeats_refl: "repeats q q"
  by (simp add: repeats_def)

lemma repeats_number: "repeats q0 q \<Longrightarrow> repeats q0 (q\<lparr>rq_attempt := n\<rparr>)"
  by (cases q0; cases q) (simp add: repeats_def)

lemma repeats_fresh: "repeats q0 q \<Longrightarrow> repeats q0 (q\<lparr>rq_session_id := None\<rparr>)"
  by (cases q0; cases q) (simp add: repeats_def)

lemma repeats_trans: "repeats q0 q1 \<Longrightarrow> repeats q1 q2 \<Longrightarrow> repeats q0 q2"
  by (cases q0; cases q1; cases q2) (auto simp: repeats_def)

definition class_of :: "error_class \<Rightarrow> (provider_error + agent_result) list \<Rightarrow> error_class" where
  "class_of c answers = (case rev answers of Inl e # _ \<Rightarrow> pe_class e | _ \<Rightarrow> c)"

lemma class_of_simps [simp]:
  "class_of c [] = c"
  "class_of c (xs @ [Inl e]) = pe_class e"
  "class_of c [Inl e] = pe_class e"
  by (simp_all add: class_of_def)

lemma class_of_Cons: "list_all isl as1 \<Longrightarrow> class_of c (Inl e # as1) = class_of (pe_class e) as1"
  by (cases as1 rule: rev_cases) (auto simp: class_of_def split: sum.splits list.splits)

section \<open>The steps of a hop\<close>

text \<open>One invocation and its row.\<close>

lemma call_record_ran:
  assumes "call_provider r env pid q st = Inr (answer, st1)"
    and "record_attempt r pid q (rq_attempt q) answer st2 = Inr st3"
    and "rq_attempt q = audit_attempt st" and "audit_attempt st = audit_attempt st0 + 1"
    and "launched st = launched st0" and "attempts st = attempts st0"
    and "launched st2 = launched st1" and "attempts st2 = attempts st1"
    and "audit_attempt st2 = audit_attempt st1"
  shows "ran r pid st0 [q] [answer] st3 \<and> provider_cfg r pid \<noteq> None"
  using assms
  by (auto simp: call_provider_def record_attempt_def get_cfg_def res_iff ran_def row_of_def
      split: if_splits option.splits prod.splits)

lemma call_provider_frame:
  "call_provider r env pid q st = Inr (answer, st1) \<Longrightarrow>
     stage_attempts st1 = stage_attempts st \<and> partial_diff st1 = partial_diff st \<and>
     audit_attempt st1 = audit_attempt st \<and> attempts st1 = attempts st \<and>
     earliest_reset st1 = earliest_reset st \<and> last_error st1 = last_error st"
  by (auto simp: call_provider_def split: if_splits prod.splits)

lemma record_attempt_frame:
  "record_attempt r pid q n answer st = Inr st1 \<Longrightarrow>
     stage_attempts st1 = stage_attempts st \<and> partial_diff st1 = partial_diff st \<and>
     audit_attempt st1 = audit_attempt st \<and> launched st1 = launched st \<and> world st1 = world st \<and>
     earliest_reset st1 = earliest_reset st \<and> last_error st1 = last_error st"
  by (auto simp: record_attempt_def res_iff)

lemma note_failure_frame:
  "note_failure env exc st = Inr st1 \<Longrightarrow>
     stage_attempts st1 = stage_attempts st \<and> partial_diff st1 = partial_diff st \<and>
     audit_attempt st1 = audit_attempt st \<and> launched st1 = launched st \<and> attempts st1 = attempts st \<and>
     world st1 = world st \<and> last_error st1 \<noteq> None"
  by (auto simp: note_failure_def res_iff)

lemma fallback_step_frame:
  assumes "fallback_step r partial_now pid nxt c st = Inr (e, st')"
  shows "e \<in> {HopContinue, HopBreak} \<and> (\<exists>pd. st' = st\<lparr>partial_diff := pd\<rparr>) \<and>
     (e = HopContinue \<longrightarrow> (case nxt of None \<Rightarrow> True | Some n \<Rightarrow>
        stage_attempts st < ag_max_stage_attempts (ar_agents r) \<longrightarrow>
        (\<exists>p q. profile_of r pid = Inr p \<and> profile_of r n = Inr q \<and> fallback_allowed c p q (can_isolate r n))))"
proof -
  have same: "\<exists>pd. st = st\<lparr>partial_diff := pd\<rparr>" by (rule exI [of _ "partial_diff st"]) simp
  show ?thesis
    using assms same by (auto simp: fallback_step_def res_iff split: option.splits if_splits)
qed

lemma retry_loop_ran:
  "retry_loop r env pid k left q c st = Inr (res, c', st') \<Longrightarrow>
   \<exists>qs answers. ran r pid st qs answers st' \<and> length qs \<le> left \<and> (\<forall>q'\<in>set qs. repeats q q') \<and>
     stage_attempts st' = stage_attempts st \<and> partial_diff st' = partial_diff st \<and>
     (case res of
        None \<Rightarrow> list_all isl answers \<and> c' = class_of c answers
      | Some x \<Rightarrow> (\<exists>fs. answers = fs @ [Inr x] \<and> list_all isl fs))"
proof (induction left arbitrary: k q c st)
  case 0
  then show ?case using ran_refl by fastforce
next
  case (Suc left)
  let ?n = "audit_attempt st + 1"
  let ?q = "q\<lparr>rq_attempt := ?n\<rparr>"
  let ?st0 = "st\<lparr>world := sleep_for env (retry_delay (ag_retry (ar_agents r)) k) (world st), audit_attempt := ?n\<rparr>"
  from Suc.prems obtain answer st1 st2 where call: "call_provider r env pid ?q ?st0 = Inr (answer, st1)"
    and rec: "record_attempt r pid ?q ?n answer st1 = Inr st2"
    by (auto simp: res_iff Let_def)
  have one: "ran r pid st [?q] [answer] st2"
    using call_record_ran [of r env pid ?q ?st0 answer st1 st1 st2 st] call rec by simp
  have frame: "stage_attempts st2 = stage_attempts st" "partial_diff st2 = partial_diff st"
    using call_provider_frame [OF call] record_attempt_frame [OF rec] by simp_all
  have rep: "repeats q ?q" by (simp add: repeats_number repeats_refl)
  show ?case
  proof (cases answer)
    case (Inr x)
    with Suc.prems call rec have "res = Some x" "st' = st2" by (simp_all add: Let_def)
    with Inr one frame rep show ?thesis
      by (intro exI [of _ "[?q]"] exI [of _ "[answer]"]) auto
  next
    case (Inl e)
    have step: "\<exists>qs answers. ran r pid st qs answers st' \<and> length qs \<le> Suc left \<and> (\<forall>q'\<in>set qs. repeats q q') \<and>
        stage_attempts st' = stage_attempts st \<and> partial_diff st' = partial_diff st \<and>
        (case res of None \<Rightarrow> list_all isl answers \<and> c' = class_of c answers
         | Some x \<Rightarrow> (\<exists>fs. answers = fs @ [Inr x] \<and> list_all isl fs))"
      if go: "retry_loop r env pid (Suc k) left q1 (pe_class e) st2 = Inr (res, c', st')" and q1: "repeats q q1" for q1
    proof -
      from Suc.IH [OF go] obtain qs answers where
        ih: "ran r pid st2 qs answers st'" "length qs \<le> left" "\<forall>q'\<in>set qs. repeats q1 q'"
          "stage_attempts st' = stage_attempts st2" "partial_diff st' = partial_diff st2"
          "case res of None \<Rightarrow> list_all isl answers \<and> c' = class_of (pe_class e) answers
           | Some x \<Rightarrow> (\<exists>fs. answers = fs @ [Inr x] \<and> list_all isl fs)" by blast
      have "ran r pid st (?q # qs) (answer # answers) st'"
        using ran_trans [OF one ih(1)] by simp
      moreover have "\<forall>q'\<in>set (?q # qs). repeats q q'"
        using ih(3) q1 rep repeats_trans by fastforce
      moreover have "case res of None \<Rightarrow> list_all isl (answer # answers) \<and> c' = class_of c (answer # answers)
          | Some x \<Rightarrow> (\<exists>fs. answer # answers = fs @ [Inr x] \<and> list_all isl fs)"
        using ih(6) Inl by (cases res) (auto simp: class_of_Cons intro: exI [of _ "answer # _"])
      ultimately show ?thesis using ih(2,4,5) frame
        by (intro exI [of _ "?q # qs"] exI [of _ "answer # answers"]) simp
    qed
    show ?thesis
    proof (cases "pe_class e = SESSION_UNAVAILABLE \<or> pe_class e \<in> TRANSIENT_RETRYABLE")
      case True
      with Suc.prems call rec Inl have
        "retry_loop r env pid (Suc k) left (if pe_class e = SESSION_UNAVAILABLE then q\<lparr>rq_session_id := None\<rparr> else q)
           (pe_class e) st2 = Inr (res, c', st')" by (auto simp: Let_def)
      then show ?thesis by (rule step) (simp add: repeats_fresh repeats_refl)
    next
      case False
      with Suc.prems call rec Inl have "res = None" "c' = pe_class e" "st' = st2" by (auto simp: Let_def)
      with Inl one frame rep show ?thesis
        by (intro exI [of _ "[?q]"] exI [of _ "[answer]"]) auto
    qed
  qed
qed

definition max_hops :: "agent_router \<Rightarrow> int" where
  "max_hops r = ag_max_stage_attempts (ar_agents r)"

definition retries :: "agent_router \<Rightarrow> nat" where
  "retries r = nat (rc_max_attempts (ag_retry (ar_agents r)))"

text \<open>The class of the last answer permits going from \<open>pid\<close> to \<open>nxt\<close>, or no hop is left.\<close>

definition may_fall :: "agent_router \<Rightarrow> provider_id \<Rightarrow> provider_id \<Rightarrow> error_class \<Rightarrow> bool" where
  "may_fall r pid nxt c \<longleftrightarrow>
     (\<exists>p q. profile_of r pid = Inr p \<and> profile_of r nxt = Inr q \<and> fallback_allowed c p q (can_isolate r nxt))"

definition hop_ends ::
    "agent_router \<Rightarrow> provider_id \<Rightarrow> provider_id option \<Rightarrow> error_class \<Rightarrow> (provider_error + agent_result) list \<Rightarrow>
     hop_end \<Rightarrow> 'w stage \<Rightarrow> bool" where
  "hop_ends r pid nxt c answers e st' \<longleftrightarrow>
     (case e of
        HopReturn x \<Rightarrow> (\<exists>fs. answers = fs @ [Inr x] \<and> list_all isl fs)
      | _ \<Rightarrow> list_all isl answers \<and> last_error st' \<noteq> None) \<and>
     (\<forall>n. e = HopContinue \<longrightarrow> nxt = Some n \<longrightarrow> stage_attempts st' < max_hops r \<longrightarrow>
        may_fall r pid n (class_of c answers))"

lemma fallback_step_ends:
  assumes "fallback_step r partial_now pid nxt (class_of c answers) st = Inr (e, st')"
    and "list_all isl answers" and "last_error st \<noteq> None"
  shows "hop_ends r pid nxt c answers e st' \<and> (\<exists>pd. st' = st\<lparr>partial_diff := pd\<rparr>)"
  using fallback_step_frame [OF assms(1)] assms(2,3)
  by (auto simp: hop_ends_def may_fall_def max_hops_def split: hop_end.splits)

lemma ran_partial: "ran r pid st qs as1 (st'\<lparr>partial_diff := pd\<rparr>) = ran r pid st qs as1 st'"
  "ran r pid st qs as1 (st'\<lparr>last_error := le\<rparr>) = ran r pid st qs as1 st'"
  by (simp_all add: ran_def)

lemma fresh_retry_ran:
  assumes "fresh_retry r env partial_now pid nxt q st = Inr (e, st')" and "stage_attempts st < max_hops r"
  shows "\<exists>qs answers. ran r pid st qs answers st' \<and> length qs = 1 \<and> (\<forall>q'\<in>set qs. repeats q q') \<and>
     stage_attempts st' = stage_attempts st + 1 \<and> hop_ends r pid nxt c answers e st'"
proof -
  let ?n = "audit_attempt st + 1"
  let ?q = "q\<lparr>rq_session_id := None, rq_attempt := ?n\<rparr>"
  let ?st0 = "st\<lparr>audit_attempt := ?n, stage_attempts := stage_attempts st + 1\<rparr>"
  from assms(1) obtain answer st1 where call: "call_provider r env pid ?q ?st0 = Inr (answer, st1)"
    by (auto simp: fresh_retry_def res_iff Let_def)
  have rep: "repeats q ?q" using repeats_number [OF repeats_fresh [OF repeats_refl]] by simp
  note frame = call_provider_frame [OF call]
  show ?thesis
  proof (cases answer)
    case (Inr x)
    with assms(1) call have rec: "record_attempt r pid ?q ?n answer st1 = Inr st'" and e: "e = HopReturn x"
      by (auto simp: fresh_retry_def res_iff Let_def)
    have "ran r pid st [?q] [answer] st'"
      using call_record_ran [of r env pid ?q ?st0 answer st1 st1 st' st] call rec by simp
    with Inr e rep frame record_attempt_frame [OF rec] show ?thesis
      by (intro exI [of _ "[?q]"] exI [of _ "[answer]"]) (simp add: hop_ends_def)
  next
    case (Inl x)
    with assms(1) call obtain st2 st3 where nf: "note_failure env x st1 = Inr st2"
      and rec: "record_attempt r pid ?q ?n answer st2 = Inr st3"
      and fb: "fallback_step r partial_now pid nxt (pe_class x) st3 = Inr (e, st')"
      by (auto simp: fresh_retry_def res_iff Let_def)
    have one: "ran r pid st [?q] [answer] st3"
      using call_record_ran [of r env pid ?q ?st0 answer st1 st2 st3 st] call rec note_failure_frame [OF nf] by simp
    have "last_error st3 \<noteq> None" using note_failure_frame [OF nf] record_attempt_frame [OF rec] by simp
    with fb Inl have ends: "hop_ends r pid nxt c [answer] e st' \<and> (\<exists>pd. st' = st3\<lparr>partial_diff := pd\<rparr>)"
      by (intro fallback_step_ends) simp_all
    from one ends rep frame note_failure_frame [OF nf] record_attempt_frame [OF rec] show ?thesis
      by (intro exI [of _ "[?q]"] exI [of _ "[answer]"]) (auto simp: ran_partial)
  qed
qed

lemma retry_transient_ran:
  assumes "retry_transient r env partial_now pid nxt q exc st = Inr (e, st')"
  shows "\<exists>qs answers. ran r pid st qs answers st' \<and> length qs \<le> retries r \<and> (\<forall>q'\<in>set qs. repeats q q') \<and>
     stage_attempts st' = stage_attempts st \<and> hop_ends r pid nxt (pe_class exc) answers e st'"
proof -
  from assms obtain res c st1 where loop:
      "retry_loop r env pid 0 (retries r) q (pe_class exc) st = Inr (res, c, st1)"
    by (auto simp: retry_transient_def retries_def res_iff)
  from retry_loop_ran [OF loop] obtain qs answers where ih:
      "ran r pid st qs answers st1" "length qs \<le> retries r" "\<forall>q'\<in>set qs. repeats q q'"
      "stage_attempts st1 = stage_attempts st"
      "case res of None \<Rightarrow> list_all isl answers \<and> c = class_of (pe_class exc) answers
       | Some x \<Rightarrow> (\<exists>fs. answers = fs @ [Inr x] \<and> list_all isl fs)" by blast
  show ?thesis
  proof (cases res)
    case (Some x)
    with assms loop have "e = HopReturn x" "st' = st1" by (auto simp: retry_transient_def retries_def)
    with ih Some show ?thesis by (auto simp: hop_ends_def)
  next
    case None
    let ?st2 = "st1\<lparr>last_error := Some
        \<lparr>ne_class = c, ne_message = ''transient retries exhausted on '' @ provider_value pid,
         ne_failure_subtype = None, ne_resets_at = pe_resets_at exc\<rparr>\<rparr>"
    from None assms loop have "fallback_step r partial_now pid nxt c ?st2 = Inr (e, st')"
      by (simp add: retry_transient_def retries_def)
    moreover from None ih(5) have fails: "list_all isl answers" "c = class_of (pe_class exc) answers" by simp_all
    ultimately have "hop_ends r pid nxt (pe_class exc) answers e st' \<and> (\<exists>pd. st' = ?st2\<lparr>partial_diff := pd\<rparr>)"
      by (intro fallback_step_ends) simp_all
    with ih(1-4) show ?thesis
      by (intro exI [of _ qs] exI [of _ answers]) (auto simp: ran_partial)
  qed
qed

lemma hop_failed_ran:
  assumes "hop_failed r env partial_now pid nxt q exc st = Inr (e, st')" and "last_error st \<noteq> None"
  shows "\<exists>qs answers. ran r pid st qs answers st' \<and> (\<forall>q'\<in>set qs. repeats q q') \<and>
     int (length qs) \<le> stage_attempts st' - stage_attempts st + int (retries r) \<and>
     stage_attempts st \<le> stage_attempts st' \<and> stage_attempts st' \<le> max (stage_attempts st) (max_hops r) \<and>
     hop_ends r pid nxt (pe_class exc) answers e st'"
proof -
  consider (stop) "is_cancelled env (world st)"
    | (fresh) "fresh_retry r env partial_now pid nxt q st = Inr (e, st')" "stage_attempts st < max_hops r"
    | (retry) "retry_transient r env partial_now pid nxt q exc st = Inr (e, st')"
    | (fall) "fallback_step r partial_now pid nxt (pe_class exc) st = Inr (e, st')"
    using assms(1) by (auto simp: hop_failed_def max_hops_def split: if_splits)
  then show ?thesis
  proof cases
    case stop
    with assms have "e = HopBreak" "st' = st\<lparr>last_error := Some cancelled_error\<rparr>" by (auto simp: hop_failed_def)
    then show ?thesis
      by (intro exI [of _ "[]"]) (auto simp: ran_def hop_ends_def)
  next
    case fresh
    from fresh_retry_ran [OF this, of "pe_class exc"] fresh(2) show ?thesis by fastforce
  next
    case retry
    from retry_transient_ran [OF this] show ?thesis by fastforce
  next
    case fall
    with fallback_step_ends [of r partial_now pid nxt "pe_class exc" "[]" st e st'] assms(2) show ?thesis
      by (intro exI [of _ "[]"]) (auto simp: ran_def)
  qed
qed

lemma hop_ran:
  assumes "hop r env hook before request prev pid nxt st = Inr (e, st')" and "stage_attempts st < max_hops r"
  shows "\<exists>q0 qs a0 answers.
     q0 = build_request request (audit_attempt st + 1) (if prev \<noteq> None then partial_diff st else None) prev (Some pid) \<and>
     ran r pid st (q0 # qs) (a0 # answers) st' \<and> (\<forall>q'\<in>set qs. repeats q0 q') \<and>
     int (length qs) < stage_attempts st' - stage_attempts st + int (retries r) \<and>
     stage_attempts st < stage_attempts st' \<and> stage_attempts st' \<le> max_hops r \<and>
     hop_ends r pid nxt TASK_FAILURE (a0 # answers) e st' \<and> provider_cfg r pid \<noteq> None"
proof -
  let ?n = "audit_attempt st + 1"
  let ?q = "build_request request ?n (if prev \<noteq> None then partial_diff st else None) prev (Some pid)"
  let ?st0 = "st\<lparr>stage_attempts := stage_attempts st + 1, audit_attempt := ?n\<rparr>"
  have num: "rq_attempt ?q = ?n" by (simp add: build_request_def Let_def split: option.splits)
  from assms(1) obtain answer st1 where call: "call_provider r env pid ?q ?st0 = Inr (answer, st1)"
    by (auto simp: hop_def res_iff Let_def split: if_splits)
  note frame = call_provider_frame [OF call]
  show ?thesis
  proof (cases answer)
    case (Inr x)
    with assms(1) call have rec: "record_attempt r pid ?q ?n answer st1 = Inr st'" and e: "e = HopReturn x"
      by (auto simp: hop_def res_iff Let_def split: if_splits)
    have "ran r pid st [?q] [answer] st' \<and> provider_cfg r pid \<noteq> None"
      using call_record_ran [of r env pid ?q ?st0 answer st1 st1 st' st] call rec num by simp
    with Inr e frame record_attempt_frame [OF rec] assms(2) show ?thesis
      by (intro exI [of _ ?q] exI [of _ "[]"] exI [of _ answer]) (simp add: hop_ends_def)
  next
    case (Inl x)
    with assms(1) call obtain st2 st3 where nf: "note_failure env x st1 = Inr st2"
      and rec: "record_attempt r pid ?q ?n answer st2 = Inr st3"
      and fail: "hop_failed r env (partial_since hook before (partial_diff ?st0)) pid nxt ?q x st3 = Inr (e, st')"
      by (auto simp: hop_def res_iff Let_def split: if_splits)
    have one: "ran r pid st [?q] [answer] st3 \<and> provider_cfg r pid \<noteq> None"
      using call_record_ran [of r env pid ?q ?st0 answer st1 st2 st3 st] call rec note_failure_frame [OF nf] num
      by simp
    have le: "last_error st3 \<noteq> None" and sa: "stage_attempts st3 = stage_attempts st + 1"
      using note_failure_frame [OF nf] record_attempt_frame [OF rec] frame by simp_all
    from hop_failed_ran [OF fail le] obtain qs answers where hf:
      "ran r pid st3 qs answers st'" "\<forall>q'\<in>set qs. repeats ?q q'"
      "int (length qs) \<le> stage_attempts st' - stage_attempts st3 + int (retries r)"
      "stage_attempts st3 \<le> stage_attempts st'" "stage_attempts st' \<le> max (stage_attempts st3) (max_hops r)"
      "hop_ends r pid nxt (pe_class x) answers e st'" by blast
    have "ran r pid st (?q # qs) (answer # answers) st'" using ran_trans [of r pid st "[?q]" "[answer]" st3] one hf(1) by simp
    moreover have "hop_ends r pid nxt TASK_FAILURE (answer # answers) e st'"
      using hf(6) Inl
      by (auto simp: hop_ends_def class_of_Cons split: hop_end.splits intro: exI [of _ "answer # _"])
    ultimately show ?thesis using hf one sa assms(2)
      by (intro exI [of _ ?q] exI [of _ qs] exI [of _ answer] exI [of _ answers]) simp
  qed
qed

section \<open>A whole stage\<close>

text \<open>
  The two segments of a stage: the primary's invocations, then the fallback's, the second only
  after a failure of the primary that permits it.
\<close>

definition stage_ran ::
    "agent_router \<Rightarrow> agent_request \<Rightarrow> resolved_route \<Rightarrow> agent_request list \<Rightarrow> (provider_error + agent_result) list \<Rightarrow>
     agent_request list \<Rightarrow> (provider_error + agent_result) list \<Rightarrow> 'w stage \<Rightarrow> bool" where
  "stage_ran r request route qs1 as1 qs2 as2 st \<longleftrightarrow>
     length as1 = length qs1 \<and> length as2 = length qs2 \<and>
     numbered 0 (qs1 @ qs2) \<and> qs1 \<noteq> [] \<and>
     (\<forall>q\<in>set qs1. repeats (build_request request 1 None None (Some (rt_primary route))) q) \<and>
     (case rt_fallback route of
        None \<Rightarrow> qs2 = [] \<and> launched st = map (Pair (rt_primary route)) qs1 \<and>
                attempts st = map2 (row_of r (rt_primary route)) qs1 as1
      | Some f \<Rightarrow>
          launched st = map (Pair (rt_primary route)) qs1 @ map (Pair f) qs2 \<and>
          attempts st = map2 (row_of r (rt_primary route)) qs1 as1 @ map2 (row_of r f) qs2 as2 \<and>
          (qs2 \<noteq> [] \<longrightarrow> may_fall r (rt_primary route) f (class_of TASK_FAILURE as1) \<and>
             (\<exists>n pd. \<forall>q\<in>set qs2. repeats (build_request request n pd (Some (rt_primary route)) (Some f)) q))) \<and>
     int (length qs1 + length qs2) \<le> stage_attempts st + 2 * int (retries r) \<and>
     stage_attempts st \<le> max_hops r"

lemma build_request_first: "build_request request n partial None (Some p) = build_request request n partial None None"
  by (simp add: build_request_def)

lemma repeats_build: "repeats (build_request request n pd f t) q \<Longrightarrow> repeats (build_request request m pd f t) q"
  by (cases q; cases request) (auto simp: repeats_def build_request_def Let_def split: option.splits if_splits)

lemma run_stage_ran:
  assumes run: "run_stage r env request route hook w = Inr (out, st)" and pos: "0 < max_hops r"
  shows "\<exists>qs1 as1 qs2 as2 answer. stage_ran r request route qs1 as1 qs2 as2 st \<and> out = stage_outcome_of route answer st \<and>
     (qs2 \<noteq> [] \<longrightarrow> list_all isl as1) \<and>
     (case answer of
        None \<Rightarrow> list_all isl (as1 @ as2) \<and> last_error st \<noteq> None
      | Some (x, p) \<Rightarrow> (\<exists>fs. as1 @ as2 = fs @ [Inr x] \<and> list_all isl fs) \<and>
          (if qs2 = [] then p = rt_primary route else Some p = rt_fallback route))"
proof -
  let ?p = "rt_primary route"
  let ?before = "map_option (\<lambda>h. capture h w) hook"
  from run obtain answer where hops: "run_hops r env hook ?before request None (route_providers route) (fresh_stage w) = Inr (answer, st)"
    and out: "out = stage_outcome_of route answer st"
    by (auto simp: run_stage_def res_iff Let_def)
  have pos': "\<not> stage_attempts (fresh_stage w) \<ge> ag_max_stage_attempts (ar_agents r)"
    using pos by (simp add: max_hops_def fresh_stage_def)
  let ?rest = "case rt_fallback route of None \<Rightarrow> [] | Some f \<Rightarrow> [f]"
  let ?k = "\<lambda>(e, st1). case e of HopReturn res \<Rightarrow> Inr (Some (res, ?p), st1) | HopBreak \<Rightarrow> Inr (None, st1)
       | HopContinue \<Rightarrow> run_hops r env hook ?before request (Some ?p) ?rest st1"
  have rp: "route_providers route = ?p # ?rest" by (simp add: route_providers_def)
  have nx: "(case ?rest of [] \<Rightarrow> None | p # _ \<Rightarrow> Some p) = rt_fallback route"
    by (cases "rt_fallback route") simp_all
  have "bind_res (hop r env hook ?before request None ?p (rt_fallback route) (fresh_stage w)) ?k = Inr (answer, st)"
    using hops pos' by (simp only: rp run_hops.simps nx if_False)
  then obtain res where res: "hop r env hook ?before request None ?p (rt_fallback route) (fresh_stage w) = Inr res"
      "?k res = Inr (answer, st)" unfolding bind_res_Inr by blast
  obtain e st1 where es: "res = (e, st1)" by (cases res)
  from res es have h1: "hop r env hook ?before request None ?p (rt_fallback route) (fresh_stage w) = Inr (e, st1)"
    and rest: "(case e of HopReturn res \<Rightarrow> Inr (Some (res, ?p), st1) | HopBreak \<Rightarrow> Inr (None, st1)
       | HopContinue \<Rightarrow> run_hops r env hook ?before request (Some ?p) ?rest st1) = Inr (answer, st)" by simp_all
  from hop_ran [OF h1] pos obtain q0 qs a0 answers where one:
    "q0 = build_request request 1 None None (Some ?p)"
    "ran r ?p (fresh_stage w) (q0 # qs) (a0 # answers) st1" "\<forall>q'\<in>set qs. repeats q0 q'"
    "int (length qs) < stage_attempts st1 + int (retries r)" "0 < stage_attempts st1" "stage_attempts st1 \<le> max_hops r"
    "hop_ends r ?p (rt_fallback route) TASK_FAILURE (a0 # answers) e st1"
    by (auto simp: fresh_stage_def)
  let ?qs1 = "q0 # qs" and ?as1 = "a0 # answers"
  have only: "stage_ran r request route ?qs1 ?as1 [] [] st1"
    using one by (auto simp: stage_ran_def ran_def fresh_stage_def repeats_refl split: option.splits)
  show ?thesis
  proof (cases "\<exists>f. e = HopContinue \<and> rt_fallback route = Some f \<and> stage_attempts st1 < max_hops r")
    case False
    with rest have "st = st1 \<and> answer = (case e of HopReturn x \<Rightarrow> Some (x, ?p) | _ \<Rightarrow> None)"
      by (auto simp: max_hops_def split: hop_end.splits option.splits)
    with only one(7) out show ?thesis
      by (intro exI [of _ ?qs1] exI [of _ ?as1] exI [of _ "[]"] exI [of _ answer])
         (auto simp: hop_ends_def split: hop_end.splits)
  next
    case True
    then obtain f where f: "e = HopContinue" "rt_fallback route = Some f" "stage_attempts st1 < max_hops r" by blast
    with one(7) have fails: "list_all isl ?as1" and may: "may_fall r ?p f (class_of TASK_FAILURE ?as1)"
      by (auto simp: hop_ends_def)
    let ?k2 = "\<lambda>(e, st1). case e of HopReturn res \<Rightarrow> Inr (Some (res, f), st1) | HopBreak \<Rightarrow> Inr (None, st1)
       | HopContinue \<Rightarrow> run_hops r env hook ?before request (Some f) [] st1"
    from rest f have "bind_res (hop r env hook ?before request (Some ?p) f None st1) ?k2 = Inr (answer, st)"
      by (simp add: max_hops_def)
    then obtain res2 where res2: "hop r env hook ?before request (Some ?p) f None st1 = Inr res2" "?k2 res2 = Inr (answer, st)"
      unfolding bind_res_Inr by blast
    obtain e2 st2 where es2: "res2 = (e2, st2)" by (cases res2)
    from res2 es2 have h2': "hop r env hook ?before request (Some ?p) f None st1 = Inr (e2, st2)"
      and fin: "?k2 (e2, st2) = Inr (answer, st)" by simp_all
    from fin have st2: "st2 = st" and ans: "answer = (case e2 of HopReturn x \<Rightarrow> Some (x, f) | _ \<Rightarrow> None)"
      by (cases e2; simp)+
    note h2 = h2' [unfolded st2]
    from hop_ran [OF h2 f(3)] obtain n pd p0 ps b0 bs where two:
      "p0 = build_request request n pd (Some ?p) (Some f)"
      "ran r f st1 (p0 # ps) (b0 # bs) st" "\<forall>q'\<in>set ps. repeats p0 q'"
      "int (length ps) < stage_attempts st - stage_attempts st1 + int (retries r)"
      "stage_attempts st1 < stage_attempts st" "stage_attempts st \<le> max_hops r"
      "hop_ends r f None TASK_FAILURE (b0 # bs) e2 st" by (auto)
    have "stage_ran r request route ?qs1 ?as1 (p0 # ps) (b0 # bs) st"
      unfolding stage_ran_def
    proof (intro conjI)
      show "numbered 0 (?qs1 @ p0 # ps)"
        using one(2) two(2) by (simp add: ran_def fresh_stage_def numbered_append)
      show "case rt_fallback route of
          None \<Rightarrow> p0 # ps = [] \<and> launched st = map (Pair ?p) ?qs1 \<and> attempts st = map2 (row_of r ?p) ?qs1 ?as1
        | Some f \<Rightarrow> launched st = map (Pair ?p) ?qs1 @ map (Pair f) (p0 # ps) \<and>
            attempts st = map2 (row_of r ?p) ?qs1 ?as1 @ map2 (row_of r f) (p0 # ps) (b0 # bs) \<and>
            (p0 # ps \<noteq> [] \<longrightarrow> may_fall r ?p f (class_of TASK_FAILURE ?as1) \<and>
              (\<exists>n pd. \<forall>q\<in>set (p0 # ps). repeats (build_request request n pd (Some ?p) (Some f)) q))"
        using one(2) two(1-3) f(2) may repeats_refl by (auto simp: ran_def fresh_stage_def)
    qed (use one two in \<open>auto simp: ran_def repeats_refl\<close>)
    moreover have "case answer of None \<Rightarrow> list_all isl (?as1 @ b0 # bs) \<and> last_error st \<noteq> None
        | Some (x, p) \<Rightarrow> (\<exists>fs. ?as1 @ b0 # bs = fs @ [Inr x] \<and> list_all isl fs) \<and> Some p = rt_fallback route"
    proof (cases answer)
      case None
      with ans two(7) fails show ?thesis by (auto simp: hop_ends_def split: hop_end.splits)
    next
      case (Some a)
      with ans two(7) obtain x fs where "a = (x, f)" "b0 # bs = fs @ [Inr x]" "list_all isl fs"
        by (auto simp: hop_ends_def split: hop_end.splits)
      with Some fails f(2) show ?thesis
        by (auto intro!: exI [of _ "?as1 @ fs"])
    qed
    ultimately show ?thesis using fails out
      by (intro exI [of _ ?qs1] exI [of _ ?as1] exI [of _ "p0 # ps"] exI [of _ "b0 # bs"] exI [of _ answer])
         (auto split: option.splits)
  qed
qed

lemma run_stage_none:
  assumes "run_stage r env request route hook w = Inr (out, st)" and "max_hops r \<le> 0"
  shows "st = fresh_stage w \<and> out = stage_outcome_of route None (fresh_stage w)"
  using assms
  by (auto simp: run_stage_def route_providers_def res_iff max_hops_def fresh_stage_def Let_def)

section \<open>Rows and requests\<close>

definition rows ::
    "agent_router \<Rightarrow> (provider_id \<times> agent_request) list \<Rightarrow> (provider_error + agent_result) list \<Rightarrow> provider_attempt list" where
  "rows r calls answers = map2 (\<lambda>(p, q) a. row_of r p q a) calls answers"

lemma rows_append:
  "length calls = length answers \<Longrightarrow> rows r (calls @ calls') (answers @ answers') = rows r calls answers @ rows r calls' answers'"
  by (simp add: rows_def)

lemma rows_same: "length qs = length answers \<Longrightarrow> rows r (map (Pair p) qs) answers = map2 (row_of r p) qs answers"
  unfolding rows_def by (induction qs answers rule: list_induct2) simp_all

lemma rows_failed: "length calls = length answers \<Longrightarrow> list_all isl answers \<Longrightarrow> list_all (\<lambda>a. pa_status a = None) (rows r calls answers)"
  by (induction calls answers rule: list_induct2)
     (auto simp: rows_def row_of_def attempt_row_def isl_def)

lemma rows_numbers: "length calls = length answers \<Longrightarrow> map pa_attempt (rows r calls answers) = map (rq_attempt \<circ> snd) calls"
  by (induction calls answers rule: list_induct2) (auto simp: rows_def row_of_def attempt_row_def)

text \<open>What a row says of the invocation it stands for.\<close>

definition row_describes :: "agent_router \<Rightarrow> provider_id \<times> agent_request \<Rightarrow> provider_attempt \<Rightarrow> bool" where
  "row_describes r c a \<longleftrightarrow>
     (case c of (p, q) \<Rightarrow>
        pa_provider a = p \<and> pa_attempt a = rq_attempt q \<and> (pa_resumed a \<longleftrightarrow> rq_session_id q \<noteq> None) \<and>
        pa_model a = effective_model (the (provider_cfg r p)) (rq_model q) \<and>
        pa_reasoning a = effective_reasoning (the (provider_cfg r p)) (rq_reasoning q) \<and>
        (pa_status a = None \<or> map_option rr_status (pa_result a) = pa_status a))"

lemma rows_describe: "length calls = length answers \<Longrightarrow> list_all2 (row_describes r) calls (rows r calls answers)"
  by (induction calls answers rule: list_induct2)
     (auto simp: rows_def row_of_def attempt_row_def row_describes_def split: sum.splits)

lemma stage_ran_rows:
  assumes "stage_ran r request route qs1 as1 qs2 as2 st"
  shows "length (launched st) = length (as1 @ as2)" and "attempts st = rows r (launched st) (as1 @ as2)"
    and "map (rq_attempt \<circ> snd) (launched st) = [1 .. int (length (launched st))]"
proof -
  have snd: "map snd (launched st) = qs1 @ qs2" and n: "numbered 0 (qs1 @ qs2)"
    using assms by (auto simp: stage_ran_def comp_def split: option.splits)
  show "length (launched st) = length (as1 @ as2)" "attempts st = rows r (launched st) (as1 @ as2)"
    using assms by (auto simp: stage_ran_def rows_append rows_same split: option.splits)
  from snd have "map (rq_attempt \<circ> snd) (launched st) = map rq_attempt (qs1 @ qs2)" by (metis map_map)
  moreover from snd have "length (launched st) = length (qs1 @ qs2)" by (metis length_map)
  ultimately show "map (rq_attempt \<circ> snd) (launched st) = [1 .. int (length (launched st))]"
    using numbered_upto [OF n] by simp
qed

text \<open>
  The part of a request no attempt may change: all of it but the number, the session, the
  diff-dependent context and the provider-specific fields.
\<close>

definition same_ceiling :: "agent_request \<Rightarrow> agent_request \<Rightarrow> bool" where
  "same_ceiling request q \<longleftrightarrow>
     q = request\<lparr>rq_attempt := rq_attempt q, rq_session_id := rq_session_id q, rq_diff_path := rq_diff_path q,
       rq_change_overview_path := rq_change_overview_path q, rq_diff_base := rq_diff_base q,
       rq_change_guidance := rq_change_guidance q, rq_model := rq_model q, rq_extra_args := rq_extra_args q,
       rq_reasoning := rq_reasoning q\<rparr>"

text \<open>The request of a provider other than the one the request was written for.\<close>

definition portable_to :: "provider_id \<Rightarrow> agent_request \<Rightarrow> bool" where
  "portable_to p q \<longleftrightarrow> rq_model q = None \<and> rq_extra_args q = [] \<and> rq_session_id q = None \<and>
     (case rq_reasoning q of None \<Rightarrow> True | Some l \<Rightarrow> is_reasoning_supported p l)"

lemma reasoning_switch_supported:
  "map_reasoning_for_provider_switch f t l = Some l' \<Longrightarrow> is_reasoning_supported t l'"
  by (auto simp: map_reasoning_for_provider_switch_def is_reasoning_supported_def CLAUDE_REASONING_LEVELS_def
      split: if_splits)

lemma build_ceiling: "same_ceiling request (build_request request n pd f t)"
  by (cases request) (auto simp: same_ceiling_def build_request_def Let_def split: option.splits)

lemma repeats_ceiling: "same_ceiling request q0 \<Longrightarrow> repeats q0 q \<Longrightarrow> same_ceiling request q"
  by (cases request; cases q0; cases q) (auto simp: same_ceiling_def repeats_def)

lemma build_portable: "f \<noteq> t \<Longrightarrow> portable_to t (build_request request n pd (Some f) (Some t))"
  by (auto simp: portable_to_def build_request_def Let_def split: option.splits dest: reasoning_switch_supported)

lemma repeats_portable: "portable_to p q0 \<Longrightarrow> repeats q0 q \<Longrightarrow> portable_to p q"
  by (cases q0; cases q) (auto simp: portable_to_def repeats_def)

lemma stage_ran_requests:
  assumes "stage_ran r request route qs1 as1 qs2 as2 st" and "c \<in> set (launched st)"
  shows "same_ceiling request (snd c) \<and> (fst c \<noteq> rt_primary route \<longrightarrow> portable_to (fst c) (snd c))"
proof -
  from assms consider (primary) q where "c = (rt_primary route, q)" "q \<in> set qs1"
    | (fallback) f q where "c = (f, q)" "q \<in> set qs2" "rt_fallback route = Some f"
    by (auto simp: stage_ran_def split: option.splits)
  then show ?thesis
  proof cases
    case primary
    with assms(1) show ?thesis using repeats_ceiling [OF build_ceiling] by (auto simp: stage_ran_def)
  next
    case fallback
    with assms(1) obtain n pd where "repeats (build_request request n pd (Some (rt_primary route)) (Some f)) q"
      by (auto simp: stage_ran_def)
    with fallback show ?thesis
      using repeats_ceiling [OF build_ceiling] repeats_portable [OF build_portable [OF not_sym]] by auto
  qed
qed

lemma fallback_allowed_cases:
  "fallback_allowed c p q iso1 \<longleftrightarrow>
     c \<in> FALLBACK_ELIGIBLE \<or>
     (c \<in> CONDITIONAL_FALLBACK \<and> is_same_or_stricter q p \<and> (c = CAPABILITY_UNAVAILABLE \<longrightarrow> iso1))"
  by (auto simp: fallback_allowed_def Let_def)

end
