(* ===== verification/RouterProps.thy ===== *)
theory RouterProps
  imports RouterCorrect
begin

text \<open>
  The properties of the router, each applied to a demonstration router of the two providers, and
  the two runs in which the code departs from its documentation: a stop during a transient retry
  and a reset instant reported by one.
\<close>

section \<open>The demonstration router\<close>

text \<open>Codex is the global primary, Claude the other provider; the world is the list of answers to come.\<close>

definition demo_cfg :: "string \<Rightarrow> bool \<Rightarrow> provider_config" where
  "demo_cfg model primary = \<lparr>pc_command = ''cli'', pc_model = model, pc_timeout_seconds = 3600,
     pc_permission_profile = ''workspace-write'', pc_extra_args = [], pc_max_turns = None, pc_reasoning = Some ''high'',
     pc_primary = primary, pc_max_turns_gate = False, pc_background_tasks = False\<rparr>"

definition demo_router :: agent_router where
  "demo_router = \<lparr>ar_agents = \<lparr>ag_allowed = [CODEX, CLAUDE], ag_max_stage_attempts = 3, ag_max_fix_cycles = 3,
       ag_max_total_fix_iterations = 10, ag_decomposition_enabled = True, ag_max_subtasks = 5,
       ag_providers = [(CODEX, demo_cfg ''gpt-5.5'' True), (CLAUDE, demo_cfg ''opus'' False)],
       ag_retry = \<lparr>rc_max_attempts = 2, rc_base_delay_s = 2, rc_max_delay_s = 30, rc_max_blocked_s = 21600\<rparr>\<rparr>,
     ar_strict_isolation = True, ar_instances = [CODEX, CLAUDE],
     ar_isolation_checks = (\<lambda>p. Some (\<lambda>cfg. [])), ar_shell_checks = (\<lambda>p. Some (\<lambda>cfg q. p = CODEX)),
     ar_global_primary = CODEX\<rparr>"

definition demo_route :: resolved_route where
  "demo_route = \<lparr>rt_node_id = ''execution'', rt_primary = CODEX, rt_fallback = Some CLAUDE, rt_source = SOURCE_CONFIG\<rparr>"

definition demo_request :: agent_request where
  "demo_request = \<lparr>rq_task_id = ''task-001'', rq_node_id = ''execution'', rq_working_directory = ''/repo'',
     rq_prompt = ''Do it.'', rq_permission_profile = ''workspace-write'', rq_timeout_seconds = 3600, rq_attempt = 1,
     rq_node_run_id = 7, rq_task_path = Some ''task.md'', rq_plan_path = None, rq_diff_path = None,
     rq_change_overview_path = None, rq_diff_base = None, rq_check_artifacts_path = None,
     rq_review_artifacts_path = None, rq_human_input_path = None, rq_conflicts_path = None,
     rq_rework_report_path = None, rq_supervisor_packet_path = None, rq_output_schema = None,
     rq_model = Some ''gpt-5.5'', rq_extra_args = [''--flag''], rq_reasoning = Some ''minimal'',
     rq_session_id = Some ''sess-1'', rq_continuation_prompt = Some ''Go on.'',
     rq_resume_baseline_output_tokens = None, rq_network_access = False, rq_git_evidence = False,
     rq_write_guard = None, rq_security_preamble = Some ''Contract.'', rq_change_guidance = None,
     rq_required_skills = [], rq_allow_skills = False\<rparr>"

definition demo_result :: "run_status \<Rightarrow> agent_result" where
  "demo_result s = \<lparr>rr_status = s, rr_provider = ''claude'', rr_node_id = ''execution'', rr_attempt = 1,
     rr_exit_code = Some 0, rr_started_at = ''t0'', rr_finished_at = ''t1'', rr_final_message = None,
     rr_structured_output = None, rr_usage = None, rr_normalized_usage = None, rr_session_id = None,
     rr_model = None, rr_reasoning = None, rr_stdout_path = None, rr_stderr_path = None,
     rr_event_log_path = None, rr_error = None\<rparr>"

definition demo_error :: "error_class \<Rightarrow> string option \<Rightarrow> provider_error" where
  "demo_error c reset = \<lparr>pe_class = c, pe_message = ''down'', pe_resets_at = reset, pe_result = None\<rparr>"

type_synonym demo_world = "(provider_error + agent_result) list"

definition demo_run :: "provider_id \<Rightarrow> agent_request \<Rightarrow> demo_world \<Rightarrow> (provider_error + agent_result) \<times> demo_world" where
  "demo_run p q w = (hd w, tl w)"

text \<open>A stop is requested once at most \<open>n\<close> answers are left.\<close>

definition demo_env :: "nat \<Rightarrow> demo_world stage_env" where
  "demo_env n = \<lparr>run_provider = demo_run, is_cancelled = (\<lambda>w. length w < n), sleep_for = (\<lambda>d w. w),
     fromisoformat = (\<lambda>s. map_option (Aware \<circ> int) (map_of [(''10:00'', 10), (''12:00'', 12)] s))\<rparr>"

lemmas demo_defs = demo_cfg_def demo_router_def demo_route_def demo_request_def demo_result_def demo_error_def
  demo_run_def demo_env_def

lemmas stage_defs = run_stage_def route_providers_def fresh_stage_def hop_def build_request_def call_provider_def
  record_attempt_def note_failure_def hop_failed_def fresh_retry_def retry_transient_def fallback_step_def
  profile_of_def get_cfg_def provider_cfg_def partial_since_def fallback_allowed_def stage_outcome_of_def
  surface_reset_def cancelled_error_def earlier_def attempt_row_def FALLBACK_ELIGIBLE_def TRANSIENT_RETRYABLE_def

lemma nat_two: "nat 2 = Suc (Suc 0)"
  by simp

section \<open>Properties\<close>

text \<open>
  The outcome of a stage is explained by its attempts.  With a result, it is the last attempt's
  verdict, success or quality failure alike, returned by the provider that attempt ran on, and
  every attempt before it raised; without one every attempt raised, and the terminal error is
  missing only when the configuration allows no hop at all.
\<close>

theorem stage_outcome_explained:
  assumes "run_stage r env request route hook w = Inr (out, st)"
  shows "case so_result out of
      Some x \<Rightarrow> so_terminal_error out = None \<and>
        (\<exists>bs a. so_attempts out = bs @ [a] \<and> list_all (\<lambda>b. pa_status b = None) bs \<and>
           pa_result a = Some x \<and> pa_status a = Some (rr_status x) \<and> so_provider_used out = Some (pa_provider a))
    | None \<Rightarrow> so_provider_used out = None \<and> list_all (\<lambda>b. pa_status b = None) (so_attempts out) \<and>
        (so_terminal_error out = None \<longleftrightarrow> ag_max_stage_attempts (ar_agents r) \<le> 0)"
proof (cases "0 < max_hops r")
  case False
  with run_stage_none [OF assms] show ?thesis
    by (simp add: stage_outcome_of_def fresh_stage_def surface_reset_def max_hops_def)
next
  case True
  from run_stage_ran [OF assms True] obtain qs1 as1 qs2 as2 answer where ran: "stage_ran r request route qs1 as1 qs2 as2 st"
    and out: "out = stage_outcome_of route answer st"
    and ans: "case answer of None \<Rightarrow> list_all isl (as1 @ as2) \<and> last_error st \<noteq> None
      | Some (x, p) \<Rightarrow> (\<exists>fs. as1 @ as2 = fs @ [Inr x] \<and> list_all isl fs) \<and>
          (if qs2 = [] then p = rt_primary route else Some p = rt_fallback route)" by blast
  note len = stage_ran_rows(1) [OF ran] and att = stage_ran_rows(2) [OF ran]
  show ?thesis
  proof (cases answer)
    case None
    with out ans att rows_failed [OF len] True show ?thesis
      by (auto simp: stage_outcome_of_def surface_reset_def max_hops_def)
  next
    case (Some xp)
    with ans obtain x p fs where x: "answer = Some (x, p)" "as1 @ as2 = fs @ [Inr x]" "list_all isl fs"
      "if qs2 = [] then p = rt_primary route else Some p = rt_fallback route" by (cases xp) auto
    from len x(2) obtain cs c where cs: "launched st = cs @ [c]" by (cases "launched st" rule: rev_cases) auto
    with len x(2) have l: "length cs = length fs" by simp
    have "fst (last (launched st)) = p"
      using ran x(4) by (auto simp: stage_ran_def last_map split: option.splits if_splits)
    with cs have "fst c = p" by simp
    moreover from l have "attempts st = rows r cs fs @ rows r [c] [Inr x]"
      using att cs x(2) rows_append by metis
    ultimately show ?thesis
      using rows_failed [OF l x(3)] out x(1)
      by (cases c) (auto simp: stage_outcome_of_def rows_def row_of_def attempt_row_def)
  qed
qed

theorem stage_outcome_explained_witness:
  "case run_stage demo_router (demo_env 0) demo_request demo_route None
      [Inl (demo_error TIMEOUT None), Inr (demo_result RUN_FAILED)] of
     Inl e \<Rightarrow> False
   | Inr (out, st) \<Rightarrow> so_result out = Some (demo_result RUN_FAILED) \<and> so_terminal_error out = None \<and>
       so_provider_used out = Some CLAUDE \<and> map pa_status (so_attempts out) = [None, Some RUN_FAILED]"
proof -
  let ?run = "run_stage demo_router (demo_env 0) demo_request demo_route None
      [Inl (demo_error TIMEOUT None), Inr (demo_result RUN_FAILED)]"
  have run: "case ?run of Inl e \<Rightarrow> False | Inr (out, st) \<Rightarrow> so_result out = Some (demo_result RUN_FAILED) \<and>
      so_provider_used out = Some CLAUDE \<and> map pa_status (so_attempts out) = [None, Some RUN_FAILED]"
    by (simp add: stage_defs demo_defs Let_def)
  then obtain out st where "?run = Inr (out, st)" by (cases ?run) auto
  with run stage_outcome_explained [OF this] show ?thesis by simp
qed

text \<open>
  C21. The audit is complete and gap-free.  The attempts of a stage are numbered 1, 2, 3, ...
  and stand one for one for the invocations made, each row naming the provider, the number, the
  effective model and reasoning and whether that very request resumed a session; the hops respect
  \<open>max_stage_attempts\<close> and the retries add at most \<open>retry.max_attempts\<close> invocations per provider.
\<close>

theorem stage_audit_complete:
  assumes "run_stage r env request route hook w = Inr (out, st)"
  shows "map pa_attempt (so_attempts out) = [1 .. int (length (so_attempts out))] \<and>
     list_all2 (row_describes r) (launched st) (so_attempts out) \<and>
     so_stage_attempts out \<le> max 0 (ag_max_stage_attempts (ar_agents r)) \<and>
     int (length (so_attempts out)) \<le>
       so_stage_attempts out + 2 * max 0 (rc_max_attempts (ag_retry (ar_agents r)))"
proof (cases "0 < max_hops r")
  case False
  with run_stage_none [OF assms] show ?thesis
    by (simp add: stage_outcome_of_def fresh_stage_def)
next
  case True
  from run_stage_ran [OF assms True] obtain qs1 as1 qs2 as2 answer where ran: "stage_ran r request route qs1 as1 qs2 as2 st"
    and out: "out = stage_outcome_of route answer st" by blast
  note len = stage_ran_rows(1) [OF ran] and att = stage_ran_rows(2) [OF ran] and num = stage_ran_rows(3) [OF ran]
  from ran len have "int (length (launched st)) \<le> stage_attempts st + 2 * int (retries r)" "stage_attempts st \<le> max_hops r"
    by (auto simp: stage_ran_def)
  moreover have "length (attempts st) = length (launched st)" using att len by (simp add: rows_def)
  ultimately show ?thesis
    using out att rows_describe [OF len] rows_numbers [OF len] num
    by (auto simp: stage_outcome_of_def retries_def max_hops_def max_def)
qed

theorem stage_audit_complete_witness:
  "case run_stage demo_router (demo_env 0) demo_request demo_route None
      [Inl (demo_error SESSION_UNAVAILABLE None), Inl (demo_error TIMEOUT None), Inr (demo_result RUN_SUCCEEDED)] of
     Inl e \<Rightarrow> False
   | Inr (out, st) \<Rightarrow> map pa_attempt (so_attempts out) = [1, 2, 3] \<and> map pa_resumed (so_attempts out) = [True, False, False] \<and>
       map pa_model (so_attempts out) = [Some ''gpt-5.5'', Some ''gpt-5.5'', Some ''opus''] \<and>
       list_all2 (row_describes demo_router) (launched st) (so_attempts out)"
proof -
  let ?run = "run_stage demo_router (demo_env 0) demo_request demo_route None
      [Inl (demo_error SESSION_UNAVAILABLE None), Inl (demo_error TIMEOUT None), Inr (demo_result RUN_SUCCEEDED)]"
  have run: "case ?run of Inl e \<Rightarrow> False | Inr (out, st) \<Rightarrow> map pa_attempt (so_attempts out) = [1, 2, 3] \<and>
      map pa_resumed (so_attempts out) = [True, False, False] \<and>
      map pa_model (so_attempts out) = [Some ''gpt-5.5'', Some ''gpt-5.5'', Some ''opus'']"
    by (simp add: stage_defs demo_defs Let_def effective_model_def or_else_def present_str_def)
  then obtain out st where "?run = Inr (out, st)" by (cases ?run) auto
  with run stage_audit_complete [OF this] show ?thesis by simp
qed



text \<open>
  C22. No attempt runs with more than the node was given.  Every request a stage launches is the
  node's own in everything but its number, its session, the diff it is shown and the
  provider-specific fields: the prompt texts, the permission profile, the network and git grants,
  the write guard, the security preamble and the skills never change.  A request to another
  provider than the primary carries no model, no CLI flag and no session of the primary, and only
  a reasoning level the target accepts.
\<close>

theorem requests_keep_ceiling:
  assumes "run_stage r env request route hook w = Inr (out, st)"
  shows "list_all (\<lambda>(p, q). same_ceiling request q \<and> (p = rt_primary route \<or> portable_to p q)) (launched st)"
proof (cases "0 < max_hops r")
  case False
  with run_stage_none [OF assms] show ?thesis by (simp add: fresh_stage_def)
next
  case True
  from run_stage_ran [OF assms True] obtain qs1 as1 qs2 as2 where "stage_ran r request route qs1 as1 qs2 as2 st" by blast
  from stage_ran_requests [OF this] show ?thesis by (fastforce simp: list_all_iff)
qed

theorem requests_keep_ceiling_witness:
  "case run_stage demo_router (demo_env 0) demo_request demo_route None
      [Inl (demo_error TIMEOUT None), Inr (demo_result RUN_SUCCEEDED)] of
     Inl e \<Rightarrow> False
   | Inr (out, st) \<Rightarrow> length (launched st) = 2 \<and> rq_reasoning (snd (last (launched st))) = Some ''low'' \<and>
       list_all (\<lambda>(p, q). same_ceiling demo_request q \<and> (p = rt_primary demo_route \<or> portable_to p q)) (launched st)"
proof -
  let ?run = "run_stage demo_router (demo_env 0) demo_request demo_route None
      [Inl (demo_error TIMEOUT None), Inr (demo_result RUN_SUCCEEDED)]"
  have run: "case ?run of Inl e \<Rightarrow> False | Inr (out, st) \<Rightarrow> length (launched st) = 2 \<and>
      rq_reasoning (snd (last (launched st))) = Some ''low''"
    by (simp add: stage_defs demo_defs Let_def map_reasoning_for_provider_switch_def)
  then obtain out st where r: "?run = Inr (out, st)" by (cases ?run) auto
  with run requests_keep_ceiling [OF r] show ?thesis by simp
qed

section \<open>The prompt an attempt receives\<close>

text \<open>The text of a node's own request, for an attempt that opens a session and one that resumes it.\<close>

definition opening_text :: "agent_request \<Rightarrow> string option \<Rightarrow> string" where
  "opening_text request session =
     (case session of
        Some s \<Rightarrow> (case rq_continuation_prompt request of Some c \<Rightarrow> c | None \<Rightarrow> rq_prompt request)
      | None \<Rightarrow> (if present_str (rq_security_preamble request)
                then paragraphs (the (rq_security_preamble request)) (rq_prompt request) else rq_prompt request))"

lemma effective_prompt_opening:
  assumes "same_ceiling request q"
  shows "starts_with (build_effective_prompt q None) (opening_text request (rq_session_id q))"
proof -
  have "rq_continuation_prompt q = rq_continuation_prompt request" "rq_prompt q = rq_prompt request"
    "rq_security_preamble q = rq_security_preamble request"
    using assms by (cases request; cases q; simp add: same_ceiling_def)+
  then have body: "(let body = (case rq_continuation_prompt q of
        Some c \<Rightarrow> if uses_continuation q then c else rq_prompt q | None \<Rightarrow> rq_prompt q)
      in if present_str (rq_security_preamble q) \<and> rq_session_id q = None
         then paragraphs (the (rq_security_preamble q)) body else body) = opening_text request (rq_session_id q)"
    by (auto simp: opening_text_def uses_continuation_def Let_def split: option.splits)
  have "\<exists>s. build_effective_prompt q None = opening_text request (rq_session_id q) @ s"
    unfolding build_effective_prompt_def option.case body [symmetric] by (simp add: Let_def paragraphs_def)
  then show ?thesis by (simp add: starts_with_iff)
qed

text \<open>
  Every attempt is told what its session needs.  Whatever retries and fallbacks a stage goes
  through, an attempt whose request opens a session starts with the security contract and the
  node's full prompt, an attempt that resumes one starts with the continuation, and an attempt on
  another provider always opens one.
\<close>

theorem prompt_matches_session:
  assumes "run_stage r env request route hook w = Inr (out, st)"
  shows "list_all (\<lambda>(p, q). (p = rt_primary route \<or> rq_session_id q = None) \<and>
     starts_with (build_effective_prompt q None) (opening_text request (rq_session_id q))) (launched st)"
proof (cases "0 < max_hops r")
  case False
  with run_stage_none [OF assms] show ?thesis by (simp add: fresh_stage_def)
next
  case True
  from run_stage_ran [OF assms True] obtain qs1 as1 qs2 as2 where "stage_ran r request route qs1 as1 qs2 as2 st" by blast
  from stage_ran_requests [OF this] show ?thesis
    by (fastforce simp: list_all_iff portable_to_def intro: effective_prompt_opening)
qed

theorem prompt_matches_session_witness:
  "case run_stage demo_router (demo_env 0) demo_request demo_route None
      [Inl (demo_error TIMEOUT None), Inr (demo_result RUN_SUCCEEDED)] of
     Inl e \<Rightarrow> False
   | Inr (out, st) \<Rightarrow> map (rq_session_id \<circ> snd) (launched st) = [Some ''sess-1'', None] \<and>
       map (opening_text demo_request \<circ> (rq_session_id \<circ> snd)) (launched st) =
         [''Go on.'', ''Contract.'' @ newline # newline # ''Do it.''] \<and>
       list_all (\<lambda>(p, q). (p = rt_primary demo_route \<or> rq_session_id q = None) \<and>
         starts_with (build_effective_prompt q None) (opening_text demo_request (rq_session_id q))) (launched st)"
proof -
  let ?run = "run_stage demo_router (demo_env 0) demo_request demo_route None
      [Inl (demo_error TIMEOUT None), Inr (demo_result RUN_SUCCEEDED)]"
  have run: "case ?run of Inl e \<Rightarrow> False | Inr (out, st) \<Rightarrow> map (rq_session_id \<circ> snd) (launched st) = [Some ''sess-1'', None]"
    by (simp add: stage_defs demo_defs Let_def)
  then obtain out st where r: "?run = Inr (out, st)" by (cases ?run) auto
  have texts: "opening_text demo_request (Some ''sess-1'') = ''Go on.''"
    "opening_text demo_request None = ''Contract.'' @ newline # newline # ''Do it.''"
    by (simp_all add: opening_text_def demo_request_def present_str_def paragraphs_def)
  from run r have s: "map (rq_session_id \<circ> snd) (launched st) = [Some ''sess-1'', None]" by simp
  have "map (opening_text demo_request \<circ> (rq_session_id \<circ> snd)) (launched st) =
      map (opening_text demo_request) (map (rq_session_id \<circ> snd) (launched st))" by simp
  with s texts r prompt_matches_session [OF r] show ?thesis by simp
qed

section \<open>Resolved routes never miss a provider\<close>

definition available :: "agent_router \<Rightarrow> provider_id \<Rightarrow> bool" where
  "available r pid \<longleftrightarrow> pid \<in> set (ag_allowed (ar_agents r)) \<and> provider_cfg r pid \<noteq> None \<and> pid \<in> set (ar_instances r)"

text \<open>Where a case distinction raises.\<close>

lemma sum_case_Inl:
  "(case a of Inl x \<Rightarrow> f x | Inr y \<Rightarrow> g y) = Inl e \<longleftrightarrow> (\<exists>x. a = Inl x \<and> f x = Inl e) \<or> (\<exists>y. a = Inr y \<and> g y = Inl e)"
  by (cases a) simp_all

lemma hop_end_case_Inl:
  "(case h of HopReturn x \<Rightarrow> f x | HopContinue \<Rightarrow> g | HopBreak \<Rightarrow> k) = Inl e \<longleftrightarrow>
     (\<exists>x. h = HopReturn x \<and> f x = Inl e) \<or> (h = HopContinue \<and> g = Inl e) \<or> (h = HopBreak \<and> k = Inl e)"
  by (cases h) simp_all

lemma available_cfg: "available r pid \<Longrightarrow> \<exists>cfg. get_cfg r pid = Inr cfg"
  by (auto simp: available_def get_cfg_def)

lemma call_provider_total: "available r pid \<Longrightarrow> call_provider r env pid q st \<noteq> Inl e"
  by (auto simp: call_provider_def available_def split: prod.splits)

lemma record_attempt_total: "available r pid \<Longrightarrow> record_attempt r pid q n answer st \<noteq> Inl e"
  using available_cfg [of r pid] by (auto simp: record_attempt_def)

lemma earlier_Inl: "earlier parse_iso a b = Inl e \<Longrightarrow> e = IncomparableInstants"
  by (auto simp: earlier_def split: option.splits)

lemma note_failure_Inl: "note_failure env exc st = Inl e \<Longrightarrow> e = IncomparableInstants"
  by (auto simp: note_failure_def bind_res_Inl dest: earlier_Inl)

lemma fallback_step_total:
  "available r pid \<Longrightarrow> (case nxt of None \<Rightarrow> True | Some n \<Rightarrow> available r n) \<Longrightarrow> fallback_step r pn pid nxt c st \<noteq> Inl e"
  using available_cfg [of r pid] available_cfg [of r "the nxt"]
  by (auto simp: fallback_step_def profile_of_def split: option.splits if_splits)

lemma retry_loop_total:
  "available r pid \<Longrightarrow> retry_loop r env pid k left q c st \<noteq> Inl e"
proof (induction left arbitrary: k q c st)
  case 0
  then show ?case by simp
next
  case (Suc left)
  then show ?case
    by (auto simp: Let_def sum_case_Inl bind_res_Inl call_provider_total record_attempt_total split: if_split_asm)
qed

lemmas total_steps = call_provider_total record_attempt_total fallback_step_total retry_loop_total

lemma hop_Inl:
  assumes "hop r env hook before request prev pid nxt st = Inl e"
    and "available r pid" and "case nxt of None \<Rightarrow> True | Some n \<Rightarrow> available r n"
  shows "e = IncomparableInstants"
proof -
  have fresh: "fresh_retry r env pn pid nxt q st1 = Inl e \<Longrightarrow> e = IncomparableInstants" for pn q and st1 :: "'a stage"
    by (auto simp: fresh_retry_def Let_def sum_case_Inl bind_res_Inl total_steps assms dest: note_failure_Inl)
  have trans: "retry_transient r env pn pid nxt q exc st1 \<noteq> Inl e" for pn q exc and st1 :: "'a stage"
    by (auto simp: retry_transient_def bind_res_Inl total_steps assms split: option.splits)
  have failed: "hop_failed r env pn pid nxt q exc st1 = Inl e \<Longrightarrow> e = IncomparableInstants" for pn q exc and st1 :: "'a stage"
    by (auto simp: hop_failed_def trans total_steps assms dest: fresh split: if_split_asm)
  from assms(1) show ?thesis
    by (auto simp: hop_def Let_def sum_case_Inl bind_res_Inl total_steps assms dest: failed note_failure_Inl)
qed

lemma run_hops_Inl:
  "run_hops r env hook before request prev pids st = Inl e \<Longrightarrow> \<forall>p\<in>set pids. available r p \<Longrightarrow> e = IncomparableInstants"
proof (induction pids arbitrary: prev st)
  case Nil
  then show ?case by simp
next
  case (Cons pid pids)
  have nxt: "case (case pids of [] \<Rightarrow> None | p # _ \<Rightarrow> Some p) of None \<Rightarrow> True | Some n \<Rightarrow> available r n"
    using Cons.prems(2) by (cases pids) simp_all
  from Cons.prems(1) consider
      "hop r env hook before request prev pid (case pids of [] \<Rightarrow> None | p # _ \<Rightarrow> Some p) st = Inl e"
    | st1 where "run_hops r env hook before request (Some pid) pids st1 = Inl e"
    by (auto simp: bind_res_Inl hop_end_case_Inl split: if_split_asm)
  then show ?case
  proof cases
    case 1
    from hop_Inl [OF 1 _ nxt] Cons.prems(2) show ?thesis by simp
  next
    case 2
    from Cons.IH [OF 2] Cons.prems(2) show ?thesis by simp
  qed
qed

lemma assert_available_Inr:
  "assert_available r p fb = Inr u \<longleftrightarrow> available r p \<and> (case fb of None \<Rightarrow> True | Some f \<Rightarrow> available r f)"
  by (auto simp: assert_available_def Let_def res_iff role_issues_def available_def split: option.splits)

lemma resolve_route_available:
  assumes "resolve_route r nid p = Inr route"
  shows "\<forall>q\<in>set (route_providers route). available r q"
  using assms
  by (auto simp: resolve_route_def Let_def bind_res_Inr assert_available_Inr route_providers_def split: option.splits)

lemma other_allowed_not_primary: "other_allowed_provider r p = Some q \<Longrightarrow> q \<noteq> p"
proof -
  assume "other_allowed_provider r p = Some q"
  then obtain others where "others = filter (\<lambda>pid. pid \<noteq> p \<and> provider_cfg r pid \<noteq> None) (ag_allowed (ar_agents r))"
    "length others = 1" "q = hd others" by (auto simp: other_allowed_provider_def Let_def split: if_splits)
  then have "q \<in> set (filter (\<lambda>pid. pid \<noteq> p \<and> provider_cfg r pid \<noteq> None) (ag_allowed (ar_agents r)))"
    by (metis length_0_conv list.set_sel(1) zero_neq_one)
  then show "q \<noteq> p" by simp
qed

text \<open>
  A resolved route can be run.  The provider a node declares, or the global primary, becomes the
  primary; the fallback differs from it and is the global primary unless the primary is; both are
  allowed, configured and instantiated.  On such a route a stage never fails with a missing
  provider or a configuration error, whatever the providers answer.
\<close>

theorem resolved_route_runs:
  assumes "resolve_route r nid provider = Inr route"
  shows "rt_primary route = (case provider of Some p \<Rightarrow> p | None \<Rightarrow> ar_global_primary r) \<and>
     rt_fallback route \<noteq> Some (rt_primary route) \<and>
     (rt_primary route = ar_global_primary r \<or> rt_fallback route = Some (ar_global_primary r)) \<and>
     list_all (available r) (route_providers route) \<and>
     (case run_stage r env request route hook w of Inl e \<Rightarrow> e = IncomparableInstants | Inr _ \<Rightarrow> True)"
proof (intro conjI)
  show "rt_primary route = (case provider of Some p \<Rightarrow> p | None \<Rightarrow> ar_global_primary r)"
    "rt_fallback route \<noteq> Some (rt_primary route)"
    "rt_primary route = ar_global_primary r \<or> rt_fallback route = Some (ar_global_primary r)"
    using assms by (auto simp: resolve_route_def Let_def bind_res_Inr dest: other_allowed_not_primary split: if_splits)
  note av = resolve_route_available [OF assms]
  then show "list_all (available r) (route_providers route)" by (simp add: list_all_iff)
  show "case run_stage r env request route hook w of Inl e \<Rightarrow> e = IncomparableInstants | Inr _ \<Rightarrow> True"
    using run_hops_Inl [OF _ av] by (auto simp: run_stage_def Let_def bind_res_Inl split: sum.splits)
qed

theorem resolved_route_runs_witness:
  "case resolve_route demo_router ''review'' (Some CLAUDE) of
     Inl e \<Rightarrow> False
   | Inr route \<Rightarrow> rt_primary route = CLAUDE \<and> rt_fallback route = Some CODEX \<and>
       list_all (available demo_router) (route_providers route)"
proof -
  let ?res = "resolve_route demo_router ''review'' (Some CLAUDE)"
  have r: "case ?res of Inl e \<Rightarrow> False | Inr route \<Rightarrow> rt_fallback route = Some CODEX"
    by (simp add: resolve_route_def Let_def demo_defs assert_available_def role_issues_def provider_cfg_def)
  then obtain route where "?res = Inr route" by (cases ?res) auto
  with r resolved_route_runs [OF this, of "demo_env 0" demo_request None "[]"] show ?thesis by simp
qed

section \<open>A requested stop\<close>

text \<open>
  A stop seen at a hop is final.  When the primary's own invocation fails and a stop has been
  requested by then, nothing else is launched, no provider window is inherited and the stage ends
  with the class that parks the task.
\<close>

theorem stop_at_hop_is_final:
  assumes "run_provider env (rt_primary route) (build_request request 1 None None (Some (rt_primary route))) w = (Inl exc, w')"
    and "is_cancelled env w'" and "0 < ag_max_stage_attempts (ar_agents r)"
    and "run_stage r env request route hook w = Inr (out, st)"
  shows "launched st = [(rt_primary route, build_request request 1 None None (Some (rt_primary route)))] \<and>
     so_result out = None \<and> so_terminal_error out = Some cancelled_error \<and>
     classify_exhaustion [pe_class exc] (map_option ne_class (so_terminal_error out)) \<noteq> TERMINAL_DISPOSITION"
proof -
  from assms(3,4) obtain e st1 where "hop r env hook (map_option (\<lambda>h. capture h w) hook) request None (rt_primary route)
      (rt_fallback route) (fresh_stage w) = Inr (e, st1)"
    by (auto simp: run_stage_def route_providers_def Let_def bind_res_Inr fresh_stage_def split: option.splits)
  then have "e = HopBreak \<and> launched st1 = [(rt_primary route, build_request request 1 None None (Some (rt_primary route)))] \<and>
      last_error st1 = Some cancelled_error"
    using assms(1,2)
    by (auto simp: hop_def Let_def bind_res_Inr call_provider_def fresh_stage_def note_failure_def record_attempt_def
        hop_failed_def split: if_splits)
  moreover have "st = st1 \<and> out = stage_outcome_of route None st1"
    using assms(3,4) \<open>hop r env hook _ request None _ _ _ = Inr (e, st1)\<close> calculation
    by (auto simp: run_stage_def route_providers_def Let_def bind_res_Inr fresh_stage_def split: option.splits)
  ultimately show ?thesis
    by (auto simp: stage_outcome_of_def surface_reset_def cancelled_error_def classify_exhaustion_def)
qed

theorem stop_at_hop_is_final_witness:
  "case run_stage demo_router (demo_env 2) demo_request demo_route None [Inl (demo_error PROCESS_CRASHED None), Inr (demo_result RUN_SUCCEEDED)] of
     Inl e \<Rightarrow> False
   | Inr (out, st) \<Rightarrow> length (launched st) = 1 \<and> so_terminal_error out = Some cancelled_error"
proof -
  let ?w = "[Inl (demo_error PROCESS_CRASHED None), Inr (demo_result RUN_SUCCEEDED)]"
  have 1: "run_provider (demo_env 2) (rt_primary demo_route) (build_request demo_request 1 None None (Some (rt_primary demo_route))) ?w
      = (Inl (demo_error PROCESS_CRASHED None), [Inr (demo_result RUN_SUCCEEDED)])" by (simp add: demo_env_def demo_run_def)
  have 2: "is_cancelled (demo_env 2) [Inr (demo_result RUN_SUCCEEDED)]" by (simp add: demo_env_def)
  have 3: "0 < ag_max_stage_attempts (ar_agents demo_router)" by (simp add: demo_router_def)
  have "case run_stage demo_router (demo_env 2) demo_request demo_route None ?w of Inl e \<Rightarrow> False | Inr (out, st) \<Rightarrow> True"
    by (simp add: stage_defs demo_defs Let_def)
  then obtain out st where "run_stage demo_router (demo_env 2) demo_request demo_route None ?w = Inr (out, st)"
    by (auto split: sum.splits)
  with stop_at_hop_is_final [OF 1 2 3 this] show ?thesis by simp
qed

text \<open>
  A stop during a retry is not seen.  In this run the stop is requested while the primary's
  transient retry is in flight: the retry dies with the crash class, and the stage then launches
  the other provider, although the stop test was already true in the state it was launched from.
  The comment at the stop test promises that no fresh agent is respawned after a stop; the test
  guards only the failure of a hop's first invocation.
\<close>

theorem stop_during_retry_respawns:
  "case run_stage demo_router (demo_env 2) demo_request demo_route None
      [Inl (demo_error NETWORK_UNAVAILABLE None), Inl (demo_error PROCESS_CRASHED None), Inr (demo_result RUN_SUCCEEDED)] of
     Inl e \<Rightarrow> False
   | Inr (out, st) \<Rightarrow> map fst (launched st) = [CODEX, CODEX, CLAUDE] \<and> so_result out = Some (demo_result RUN_SUCCEEDED) \<and>
       \<not> is_cancelled (demo_env 2) [Inl (demo_error PROCESS_CRASHED None), Inr (demo_result RUN_SUCCEEDED)] \<and>
       is_cancelled (demo_env 2) [Inr (demo_result RUN_SUCCEEDED)]"
  by (simp add: stage_defs demo_defs Let_def nat_two numeral_2_eq_2)

section \<open>Reset instants\<close>

text \<open>
  Two ways a known reset instant is lost.  An instant reported by a transient retry never reaches
  the terminal error, and an instant that cannot be parsed, once it is the first reported, hides
  every parseable one after it.  The comments in the router promise the earliest instant any
  attempt reported, and that the result is always a parseable instant or none.
\<close>

theorem reset_instants_lost:
  "(case run_stage demo_router (demo_env 0) demo_request demo_route None
      [Inl (demo_error NETWORK_UNAVAILABLE None), Inl (demo_error RATE_LIMITED (Some ''10:00'')), Inl (demo_error TIMEOUT None)] of
     Inl e \<Rightarrow> False
   | Inr (out, st) \<Rightarrow> length (launched st) = 3 \<and> map_option ne_resets_at (so_terminal_error out) = Some None) \<and>
   (case run_stage demo_router (demo_env 0) demo_request demo_route None
      [Inl (demo_error RATE_LIMITED (Some ''soon'')), Inl (demo_error RATE_LIMITED (Some ''10:00''))] of
     Inl e \<Rightarrow> False
   | Inr (out, st) \<Rightarrow> map_option ne_resets_at (so_terminal_error out) = Some (Some ''soon'') \<and>
       fromisoformat (demo_env 0) ''soon'' = None \<and> fromisoformat (demo_env 0) ''10:00'' \<noteq> None)"
  by (rule conjI; simp add: stage_defs demo_defs Let_def nat_two numeral_2_eq_2)

section \<open>Shell reach\<close>

lemma any_unknown: "p \<in> set ps \<Longrightarrow> configs p = None \<or> checks p = None \<Longrightarrow> any_provider_grants_shell ps configs checks query"
  by (induction ps) (auto split: option.splits)

lemma all_unknown: "p \<in> set ps \<Longrightarrow> configs p = None \<or> checks p = None \<Longrightarrow> \<not> all_grant_shell ps configs checks query"
  by (induction ps) (auto split: option.splits)

lemma all_any: "ps \<noteq> [] \<Longrightarrow> all_grant_shell ps configs checks query \<Longrightarrow> any_provider_grants_shell ps configs checks query"
  by (cases ps) (auto split: option.splits)

text \<open>
  The two shell questions fail towards opposite sides and never contradict each other.  A node
  told it can always run commands is also watched as one that may; a route with a provider whose
  configuration or check is missing is watched and is never told; and an answer that would change
  with the route's order does not exist.
\<close>

theorem shell_questions_consistent:
  "(route_always_grants_shell r route profile evidence \<longrightarrow> route_grants_shell r route profile evidence) \<and>
   (list_ex (\<lambda>p. provider_cfg r p = None \<or> ar_shell_checks r p = None) (route_providers route) \<longrightarrow>
      route_grants_shell r route profile evidence \<and> \<not> route_always_grants_shell r route profile evidence) \<and>
   (rt_fallback route = Some f \<longrightarrow>
      route_grants_shell r (route\<lparr>rt_primary := f, rt_fallback := Some (rt_primary route)\<rparr>) profile evidence =
        route_grants_shell r route profile evidence \<and>
      route_always_grants_shell r (route\<lparr>rt_primary := f, rt_fallback := Some (rt_primary route)\<rparr>) profile evidence =
        route_always_grants_shell r route profile evidence)"
proof (intro conjI impI)
  assume "route_always_grants_shell r route profile evidence"
  then show "route_grants_shell r route profile evidence"
    unfolding route_always_grants_shell_def route_grants_shell_def every_provider_grants_shell_def using all_any by blast
next
  assume "list_ex (\<lambda>p. provider_cfg r p = None \<or> ar_shell_checks r p = None) (route_providers route)"
  then obtain p where p: "p \<in> set (route_providers route)" "provider_cfg r p = None \<or> ar_shell_checks r p = None"
    by (auto simp: list_ex_iff)
  then show "route_grants_shell r route profile evidence" "\<not> route_always_grants_shell r route profile evidence"
    unfolding route_always_grants_shell_def route_grants_shell_def every_provider_grants_shell_def
    using any_unknown all_unknown by blast+
next
  assume f: "rt_fallback route = Some f"
  let ?swapped = "route\<lparr>rt_primary := f, rt_fallback := Some (rt_primary route)\<rparr>"
  show "route_grants_shell r ?swapped profile evidence = route_grants_shell r route profile evidence"
    using f by (auto simp: route_grants_shell_def route_providers_def split: option.splits)
  show "route_always_grants_shell r ?swapped profile evidence = route_always_grants_shell r route profile evidence"
    using f by (auto simp: route_always_grants_shell_def every_provider_grants_shell_def route_providers_def split: option.splits)
qed

theorem shell_questions_consistent_witness:
  "route_grants_shell demo_router demo_route None False \<and> \<not> route_always_grants_shell demo_router demo_route None False \<and>
   route_grants_shell (demo_router\<lparr>ar_shell_checks := (\<lambda>p. None)\<rparr>) demo_route None False"
  using shell_questions_consistent [of "demo_router\<lparr>ar_shell_checks := (\<lambda>p. None)\<rparr>" demo_route None False CLAUDE]
  by (simp add: route_grants_shell_def route_always_grants_shell_def every_provider_grants_shell_def route_providers_def
      demo_defs provider_cfg_def)

end
