(* ===== verification/Tables.thy ===== *)
theory Tables
  imports Prelude
begin

text \<open>
  Tables of the state store as lists of rows in insertion order.  The locale \<open>keyed_table\<close> is the
  interface of a table with a \<open>PRIMARY KEY\<close> or \<open>UNIQUE\<close> constraint that is written by an
  \<open>INSERT ... ON CONFLICT(key) DO UPDATE\<close>; every such table of the store interprets it.
\<close>

section \<open>Statements\<close>

definition select_row :: "('r \<Rightarrow> 'k) \<Rightarrow> 'k \<Rightarrow> 'r list \<Rightarrow> 'r option" where
  "select_row key k t = List.find (\<lambda>r. key r = k) t"

text \<open>\<open>merge old new\<close> is the row the conflict clause leaves.\<close>

fun upsert_row :: "('r \<Rightarrow> 'k) \<Rightarrow> ('r \<Rightarrow> 'r \<Rightarrow> 'r) \<Rightarrow> 'r \<Rightarrow> 'r list \<Rightarrow> 'r list" where
  "upsert_row key merge new [] = [new]"
| "upsert_row key merge new (r # t) =
     (if key r = key new then merge r new # t else r # upsert_row key merge new t)"

definition update_rows :: "('r \<Rightarrow> bool) \<Rightarrow> ('r \<Rightarrow> 'r) \<Rightarrow> 'r list \<Rightarrow> 'r list" where
  "update_rows p f t = map (\<lambda>r. if p r then f r else r) t"

definition delete_rows :: "('r \<Rightarrow> bool) \<Rightarrow> 'r list \<Rightarrow> 'r list" where
  "delete_rows p t = filter (\<lambda>r. \<not> p r) t"

definition unique_key :: "('r \<Rightarrow> 'k) \<Rightarrow> 'r list \<Rightarrow> bool" where
  "unique_key key t = distinct (map key t)"

section \<open>Statements as maps\<close>

lemma select_row_simps [simp]:
  "select_row key k [] = None"
  "select_row key k (r # t) = (if key r = k then Some r else select_row key k t)"
  by (simp_all add: select_row_def)

lemma select_row_key: "select_row key k t = Some r \<Longrightarrow> key r = k \<and> r \<in> set t"
  by (induction t) (auto split: if_splits)

lemma select_row_None: "select_row key k t = None \<longleftrightarrow> k \<notin> key ` set t"
  by (induction t) auto

lemma select_row_append:
  "select_row key k (t @ u) = (case select_row key k t of None \<Rightarrow> select_row key k u | Some r \<Rightarrow> Some r)"
  by (induction t) auto

lemma select_row_unique: "unique_key key t \<Longrightarrow> r \<in> set t \<Longrightarrow> select_row key (key r) t = Some r"
  by (induction t) (auto simp: unique_key_def image_iff split: if_splits)

lemma select_update_rows:
  assumes "\<And>r. key (f r) = key r"
  shows "select_row key k (update_rows (\<lambda>r. P (key r)) f t) =
    (if P k then map_option f (select_row key k t) else select_row key k t)"
  using assms by (induction t) (auto simp: update_rows_def)

lemma select_delete_rows:
  "select_row key k (delete_rows (\<lambda>r. P (key r)) t) = (if P k then None else select_row key k t)"
  by (induction t) (auto simp: delete_rows_def)

lemma unique_update_rows: "(\<And>r. key (f r) = key r) \<Longrightarrow> unique_key key (update_rows p f t) = unique_key key t"
proof -
  assume "\<And>r. key (f r) = key r"
  then have "map key (update_rows p f t) = map key t" by (simp add: update_rows_def)
  then show ?thesis by (simp add: unique_key_def)
qed

lemma unique_delete_rows: "unique_key key t \<Longrightarrow> unique_key key (delete_rows p t)"
  by (auto simp: unique_key_def delete_rows_def distinct_map inj_on_subset intro: inj_on_subset)

lemma set_update_rows: "set (update_rows p f t) = (\<lambda>r. if p r then f r else r) ` set t"
  by (simp add: update_rows_def)

lemma set_delete_rows [simp]: "set (delete_rows p t) = {r \<in> set t. \<not> p r}"
  by (auto simp: delete_rows_def)

section \<open>The interface of a keyed table\<close>

locale keyed_table =
  fixes key :: "'r \<Rightarrow> 'k"
    and merge :: "'r \<Rightarrow> 'r \<Rightarrow> 'r"
  assumes key_merge: "key old = key new \<Longrightarrow> key (merge old new) = key new"
begin

lemma select_upsert:
  "select_row key k (upsert_row key merge new t) =
     (if k = key new then Some (case select_row key k t of None \<Rightarrow> new | Some old \<Rightarrow> merge old new)
      else select_row key k t)"
  by (induction t) (auto simp: key_merge)

lemma keys_upsert: "key ` set (upsert_row key merge new t) = insert (key new) (key ` set t)"
  by (induction t) (auto simp: key_merge)

lemma unique_upsert: "unique_key key t \<Longrightarrow> unique_key key (upsert_row key merge new t)"
proof (induction t)
  case Nil
  then show ?case by (simp add: unique_key_def)
next
  case (Cons r t)
  then show ?case
    using keys_upsert [of new t] by (auto simp: unique_key_def key_merge)
qed

lemma upsert_rows_cases:
  "r \<in> set (upsert_row key merge new t) \<Longrightarrow> r \<in> set t \<or> r = new \<or> (\<exists>old\<in>set t. key old = key new \<and> r = merge old new)"
  by (induction t) (auto split: if_splits)

lemma upsert_twice:
  assumes "\<And>old a b. merge (merge old a) b = merge old b" and "\<And>a b. key a = key b \<Longrightarrow> merge a b = b"
    and "key a = key b"
  shows "upsert_row key merge b (upsert_row key merge a t) = upsert_row key merge b t"
  using assms by (induction t) (auto simp: key_merge)

end

text \<open>A table whose conflict clause replaces the row.\<close>

lemma replace_keyed: "keyed_table key (\<lambda>old new. new)"
  by unfold_locales simp

end
