(* ===== verification/StateStore.thy ===== *)
theory StateStore
  imports Complex_Main LoopControl TaskStates Tables
begin

text \<open>
  The SQLite state store (\<open>state_store.py\<close>): one record per table row, the database as the record
  of its tables, and one definition per operation.  A table is the list of its rows in insertion
  order, so \<open>ORDER BY id\<close> is the list order; the two \<open>AUTOINCREMENT\<close> ids the code reads are kept in
  the rows with their sequence counters.  A statement that breaks a foreign key is
  \<open>IntegrityError\<close>, and the transaction around it rolls back.  The text of a JSON column stands for
  the value it encodes; the clock is the argument \<open>now\<close>.  Row fields carry a prefix per table:
  \<open>tk_\<close> tasks, \<open>nr_\<close> node runs (\<open>nd_\<close> here, to keep clear of the engine's \<open>node_result\<close>), \<open>at_\<close>
  provider attempts, \<open>ck_\<close> check runs, \<open>ar_\<close> artifacts (\<open>af_\<close>), \<open>po_\<close> publish operations, \<open>sb_\<close> subtasks,
  \<open>ev_\<close> evaluations (\<open>el_\<close>), \<open>ed_\<close> and \<open>nl_\<close> the two lineages.
\<close>

section \<open>Rows\<close>

record task_row =
  tk_task_id :: string
  tk_title :: string
  tk_status :: status
  tk_source_path :: "string option"
  tk_source_sha256 :: "string option"
  tk_branch :: "string option"
  tk_slug :: "string option"
  tk_created_at :: "string option"
  tk_updated_at :: "string option"
  tk_validation_passed :: "bool option"
  tk_validation_reason :: "string option"
  tk_refinement_ran :: "bool option"
  tk_refinement_skip_reason :: "string option"
  tk_test_fix_cycles :: int
  tk_review_fix_cycles :: int
  tk_test_fix_total :: int
  tk_review_fix_total :: int
  tk_fix_iterations :: int
  tk_decomposition_enabled :: "bool option"
  tk_decomposition_accepted :: "bool option"
  tk_decomposition_reason :: "string option"
  tk_subtask_count :: "int option"
  tk_active_subtask :: "int option"
  tk_subtasks_completed :: int
  tk_failure_report_path :: "string option"
  tk_recovered_loop :: "string option"
  tk_cleanup_target_branch :: "string option"
  tk_cleanup_completed :: "bool option"
  tk_cleanup_completed_at :: "string option"
  tk_cleanup_last_error :: "string option"
  tk_finished_at :: "string option"
  tk_current_node :: "string option"
  tk_flow_run_counters :: "(string \<rightharpoonup> int) option"
  tk_flow_fingerprint :: "string option"
  tk_blocked_since :: "string option"
  tk_blocked_until :: "string option"
  tk_control_bundle_digest :: "string option"
  tk_instruction_manifest_digest :: "string option"
  tk_exchange_contaminated :: bool
  tk_exchange_active_unsafe :: bool
  tk_gate_reference_sha :: "string option"
  tk_push_url_digest :: "string option"
  tk_base_ref :: "string option"
  tk_quarantine_refs :: "string list option"

record node_run_row =
  nd_task_id :: string
  nd_node_id :: string
  nd_node_kind :: string
  nd_subtask_order :: "int option"
  nd_status :: "string option"
  nd_outcome :: "string option"
  nd_route_primary :: "string option"
  nd_route_fallback :: "string option"
  nd_route_source :: "string option"
  nd_provider_used :: "string option"
  nd_error_class :: "string option"
  nd_stage_attempts :: int
  nd_commit_sha_before :: "string option"
  nd_commit_sha_after :: "string option"
  nd_started_at :: "string option"
  nd_finished_at :: "string option"
  nd_skipped :: bool
  nd_skip_reason :: "string option"
  nd_abort_reason :: "string option"
  nd_skills_allowed :: bool
  nd_skills_required :: "string list"
  nd_id :: int

record provider_attempt_row =
  at_task_id :: string
  at_node_run_id :: "int option"
  at_provider :: string
  at_attempt :: int
  at_supervisor_function :: "string option"
  at_model :: "string option"
  at_reasoning :: "string option"
  at_status :: "string option"
  at_error_class :: "string option"
  at_exit_code :: "int option"
  at_attempt_dir :: "string option"
  at_started_at :: "string option"
  at_finished_at :: "string option"
  at_usage_scope :: "string option"
  at_usage_input_total :: "int option"
  at_usage_cache_read :: "int option"
  at_usage_cache_write :: "int option"
  at_usage_uncached_input :: "int option"
  at_usage_output_total :: "int option"
  at_usage_reasoning_output :: "int option"
  at_usage_cost :: "rat option"
  at_usage_delta_status :: "string option"
  at_provider_usage_raw :: "string option"

record check_run_row =
  ck_task_id :: string
  ck_command :: string
  ck_passed :: bool
  ck_log_path :: string
  ck_subtask_order :: "int option"
  ck_exit_code :: "int option"
  ck_timed_out :: bool
  ck_skipped :: bool
  ck_started_at :: "string option"
  ck_finished_at :: "string option"

record artifact_row =
  af_task_id :: string
  af_kind :: string
  af_path :: string
  af_checksum :: string
  af_created_at :: string

text \<open>The row and, with the optional subtask order, the dataclass of a publish operation.\<close>

record publish_op_row =
  po_task_id :: string
  po_kind :: string
  po_subtask_order :: int
  po_fingerprint :: string
  po_result_ref :: "string option"
  po_pushed_sha :: "string option"
  po_status :: string
  po_created_at :: string

record publish_op =
  pb_task_id :: string
  pb_kind :: string
  pb_fingerprint :: string
  pb_status :: string
  pb_subtask_order :: "int option"
  pb_result_ref :: "string option"
  pb_pushed_sha :: "string option"

record subtask_row =
  sb_task_id :: string
  sb_order :: int
  sb_slug :: string
  sb_title :: string
  sb_status :: string
  sb_depends_on :: "int list"
  sb_commit_sha :: "string option"
  sb_artifact_path :: "string option"

record evaluation_row =
  el_task_id :: string
  el_kind :: string
  el_verdict :: string
  el_findings_json :: string
  el_node_id :: "string option"
  el_source_node_run_id :: "int option"
  el_subtask_order :: "int option"
  el_created_at :: "string option"
  el_id :: int

record editing_lineage_row =
  ed_task_id :: string
  ed_subtask_order :: int
  ed_lineage_key :: string
  ed_provider :: string
  ed_raw_session_id :: string
  ed_updated_at :: string
  ed_usage_snapshot :: "string option"

record node_lineage_row =
  nl_task_id :: string
  nl_node_id :: string
  nl_subtask_order :: int
  nl_provider :: string
  nl_raw_session_id :: string
  nl_updated_at :: string
  nl_usage_snapshot :: "string option"

section \<open>The database\<close>

record db =
  db_tasks :: "task_row list"
  db_node_runs :: "node_run_row list"
  db_node_run_seq :: int
  db_provider_attempts :: "provider_attempt_row list"
  db_check_runs :: "check_run_row list"
  db_artifacts :: "artifact_row list"
  db_publish_operations :: "publish_op_row list"
  db_subtasks :: "subtask_row list"
  db_evaluations :: "evaluation_row list"
  db_evaluation_seq :: int
  db_editing_lineage :: "editing_lineage_row list"
  db_node_lineage :: "node_lineage_row list"

definition empty_db :: db where
  "empty_db = \<lparr>db_tasks = [], db_node_runs = [], db_node_run_seq = 0, db_provider_attempts = [],
     db_check_runs = [], db_artifacts = [], db_publish_operations = [], db_subtasks = [],
     db_evaluations = [], db_evaluation_seq = 0, db_editing_lineage = [], db_node_lineage = []\<rparr>"

datatype store_error = IntegrityError | NoSuchRun int | NoSuchTask string

text \<open>\<open>transaction\<close>: the block's database on success, the one before it when the block raised.\<close>

definition transaction :: "(db \<Rightarrow> store_error + db) \<Rightarrow> db \<Rightarrow> store_error option \<times> db" where
  "transaction block d = (case block d of Inl e \<Rightarrow> (Some e, d) | Inr d' \<Rightarrow> (None, d'))"

definition NO_SUBTASK :: int where
  "NO_SUBTASK = -1"

definition sub_key :: "int option \<Rightarrow> int" where
  "sub_key order = (case order of None \<Rightarrow> NO_SUBTASK | Some n \<Rightarrow> n)"

definition has_task :: "string \<Rightarrow> db \<Rightarrow> bool" where
  "has_task tid d = list_ex (\<lambda>r. tk_task_id r = tid) (db_tasks d)"

text \<open>The foreign key \<open>REFERENCES tasks(task_id)\<close> of an inserted row.\<close>

definition references_task :: "string \<Rightarrow> db \<Rightarrow> store_error + unit" where
  "references_task tid d = require (has_task tid d) IntegrityError"

text \<open>\<open>value or now\<close>.\<close>

definition or_now :: "string option \<Rightarrow> string \<Rightarrow> string" where
  "or_now v now = (case v of Some s \<Rightarrow> if s \<noteq> [] then s else now | None \<Rightarrow> now)"

section \<open>Tasks\<close>

definition merge_task :: "task_row \<Rightarrow> task_row \<Rightarrow> task_row" where
  "merge_task old new = old\<lparr>tk_title := tk_title new, tk_status := tk_status new, tk_source_path := tk_source_path new,
     tk_source_sha256 := tk_source_sha256 new, tk_validation_passed := tk_validation_passed new,
     tk_updated_at := tk_updated_at new\<rparr>"

text \<open>The inserted values; the columns the statement does not name take their defaults.\<close>

definition inserted_task :: "string \<Rightarrow> task_row \<Rightarrow> task_row" where
  "inserted_task now row = row\<lparr>tk_created_at := Some (or_now (tk_created_at row) now),
     tk_updated_at := Some (or_now (tk_updated_at row) now), tk_recovered_loop := None, tk_current_node := None,
     tk_flow_run_counters := None, tk_flow_fingerprint := None, tk_blocked_since := None, tk_blocked_until := None,
     tk_control_bundle_digest := None, tk_instruction_manifest_digest := None, tk_exchange_contaminated := False,
     tk_exchange_active_unsafe := False, tk_gate_reference_sha := None, tk_push_url_digest := None,
     tk_base_ref := None, tk_quarantine_refs := None\<rparr>"

definition insert_task :: "string \<Rightarrow> task_row \<Rightarrow> db \<Rightarrow> db" where
  "insert_task now row d =
     d\<lparr>db_tasks := upsert_row tk_task_id merge_task (inserted_task now row) (db_tasks d)\<rparr>"

definition get_task :: "string \<Rightarrow> db \<Rightarrow> task_row option" where
  "get_task tid d = select_row tk_task_id tid (db_tasks d)"

definition task_id_exists :: "string \<Rightarrow> db \<Rightarrow> bool" where
  "task_id_exists tid d = (get_task tid d \<noteq> None)"

definition NON_ACTIVE :: "status set" where
  "NON_ACTIVE = {NEW, PENDING, DONE, FAILED, MANUAL_ACTION_REQUIRED}"

definition find_active_tasks :: "db \<Rightarrow> task_row list" where
  "find_active_tasks d = filter (\<lambda>r. tk_status r \<notin> NON_ACTIVE) (db_tasks d)"

definition find_incomplete_cleanup :: "db \<Rightarrow> task_row list" where
  "find_incomplete_cleanup d =
     filter (\<lambda>r. tk_status r \<in> {DONE, FAILED, MANUAL_ACTION_REQUIRED} \<and> tk_branch r \<noteq> None \<and>
                 tk_cleanup_completed r \<in> {None, Some False}) (db_tasks d)"

text \<open>\<open>ORDER BY updated_at DESC\<close>; rows with equal stamps, whose order SQLite leaves open, keep theirs.\<close>

definition by_recency :: "task_row list \<Rightarrow> task_row list" where
  "by_recency rows = rev (sort_key (\<lambda>r. case tk_updated_at r of None \<Rightarrow> [] | Some s \<Rightarrow> s) (rev rows))"

definition latest_task :: "db \<Rightarrow> task_row option" where
  "latest_task d = (case by_recency (db_tasks d) of [] \<Rightarrow> None | r # _ \<Rightarrow> Some r)"

definition recent_tasks :: "nat \<Rightarrow> db \<Rightarrow> task_row list" where
  "recent_tasks limit d = take limit (by_recency (filter (\<lambda>r. tk_status r \<in> TERMINAL) (db_tasks d)))"

definition all_tasks :: "db \<Rightarrow> task_row list" where
  "all_tasks d = by_recency (db_tasks d)"

text \<open>\<open>update_task(**fields)\<close>: the keyword arguments are setters of the row's columns.\<close>

definition update_task :: "string \<Rightarrow> string \<Rightarrow> (task_row \<Rightarrow> task_row) list \<Rightarrow> db \<Rightarrow> db" where
  "update_task now tid flds d =
     (if flds = [] then d
      else d\<lparr>db_tasks := update_rows (\<lambda>r. tk_task_id r = tid)
               (\<lambda>r. (fold (\<lambda>f r. f r) flds r)\<lparr>tk_updated_at := Some now\<rparr>) (db_tasks d)\<rparr>)"

definition quarantine_refs :: "task_row \<Rightarrow> string list" where
  "quarantine_refs r = (case tk_quarantine_refs r of None \<Rightarrow> [] | Some refs \<Rightarrow> refs)"

definition append_quarantine_ref :: "string \<Rightarrow> string \<Rightarrow> string \<Rightarrow> db \<Rightarrow> db" where
  "append_quarantine_ref now tid ref d =
     (case get_task tid d of
        None \<Rightarrow> d
      | Some row \<Rightarrow>
          if ref \<in> set (quarantine_refs row) then d
          else update_task now tid [tk_quarantine_refs_update (\<lambda>_. Some (quarantine_refs row @ [ref]))] d)"

definition set_status :: "string \<Rightarrow> string \<Rightarrow> status \<Rightarrow> db \<Rightarrow> db" where
  "set_status now tid st d = update_task now tid [tk_status_update (\<lambda>_. st)] d"

definition clear_publish_operations :: "string \<Rightarrow> db \<Rightarrow> db" where
  "clear_publish_operations tid d =
     d\<lparr>db_publish_operations := delete_rows (\<lambda>r. po_task_id r = tid) (db_publish_operations d)\<rparr>"

definition clear_editing_lineage :: "string \<Rightarrow> db \<Rightarrow> db" where
  "clear_editing_lineage tid d =
     d\<lparr>db_editing_lineage := delete_rows (\<lambda>r. ed_task_id r = tid) (db_editing_lineage d),
       db_node_lineage := delete_rows (\<lambda>r. nl_task_id r = tid) (db_node_lineage d)\<rparr>"

definition rerun_fields :: "(task_row \<Rightarrow> task_row) list" where
  "rerun_fields =
     [tk_branch_update (\<lambda>_. None), tk_slug_update (\<lambda>_. None), tk_validation_passed_update (\<lambda>_. None),
      tk_validation_reason_update (\<lambda>_. None), tk_refinement_ran_update (\<lambda>_. None),
      tk_refinement_skip_reason_update (\<lambda>_. None), tk_test_fix_cycles_update (\<lambda>_. 0),
      tk_review_fix_cycles_update (\<lambda>_. 0), tk_test_fix_total_update (\<lambda>_. 0), tk_review_fix_total_update (\<lambda>_. 0),
      tk_fix_iterations_update (\<lambda>_. 0), tk_decomposition_enabled_update (\<lambda>_. None),
      tk_decomposition_accepted_update (\<lambda>_. None), tk_decomposition_reason_update (\<lambda>_. None),
      tk_subtask_count_update (\<lambda>_. None), tk_active_subtask_update (\<lambda>_. None), tk_subtasks_completed_update (\<lambda>_. 0),
      tk_failure_report_path_update (\<lambda>_. None), tk_recovered_loop_update (\<lambda>_. None),
      tk_cleanup_target_branch_update (\<lambda>_. None), tk_cleanup_completed_update (\<lambda>_. None),
      tk_cleanup_completed_at_update (\<lambda>_. None), tk_cleanup_last_error_update (\<lambda>_. None),
      tk_finished_at_update (\<lambda>_. None), tk_current_node_update (\<lambda>_. None), tk_flow_run_counters_update (\<lambda>_. None),
      tk_flow_fingerprint_update (\<lambda>_. None), tk_exchange_contaminated_update (\<lambda>_. False),
      tk_exchange_active_unsafe_update (\<lambda>_. False)]"

definition reset_task_for_rerun :: "string \<Rightarrow> string \<Rightarrow> db \<Rightarrow> db" where
  "reset_task_for_rerun now tid d =
     (let d1 = update_task now tid rerun_fields d;
          d2 = d1\<lparr>db_subtasks := delete_rows (\<lambda>r. sb_task_id r = tid) (db_subtasks d1)\<rparr>;
          d3 = d2\<lparr>db_node_runs := delete_rows (\<lambda>r. nd_task_id r = tid) (db_node_runs d2)\<rparr>
      in clear_editing_lineage tid (clear_publish_operations tid d3))"

definition revive_task_for_continue :: "string \<Rightarrow> string \<Rightarrow> status \<Rightarrow> db \<Rightarrow> db" where
  "revive_task_for_continue now tid stage_status d =
     update_task now tid
       [tk_status_update (\<lambda>_. stage_status), tk_blocked_until_update (\<lambda>_. None), tk_finished_at_update (\<lambda>_. None),
        tk_cleanup_completed_update (\<lambda>_. None), tk_cleanup_completed_at_update (\<lambda>_. None),
        tk_cleanup_last_error_update (\<lambda>_. None), tk_cleanup_target_branch_update (\<lambda>_. None)] d"

text \<open>A read of columns of a task row that raises \<open>KeyError\<close> when the row is missing.\<close>

definition task_columns :: "string \<Rightarrow> (task_row \<Rightarrow> 'a) \<Rightarrow> db \<Rightarrow> store_error + 'a" where
  "task_columns tid f d = (case get_task tid d of None \<Rightarrow> Inl (NoSuchTask tid) | Some r \<Rightarrow> Inr (f r))"

definition get_counters :: "string \<Rightarrow> db \<Rightarrow> store_error + loop_counters_row" where
  "get_counters tid d = task_columns tid (\<lambda>r.
     \<lparr>test_fix_cycles = tk_test_fix_cycles r, review_fix_cycles = tk_review_fix_cycles r,
      test_fix_total = tk_test_fix_total r, review_fix_total = tk_review_fix_total r,
      row_fix_iterations = tk_fix_iterations r\<rparr>) d"

definition save_counters :: "string \<Rightarrow> string \<Rightarrow> loop_counters_row \<Rightarrow> db \<Rightarrow> db" where
  "save_counters now tid c d =
     update_task now tid
       [tk_test_fix_cycles_update (\<lambda>_. test_fix_cycles c), tk_review_fix_cycles_update (\<lambda>_. review_fix_cycles c),
        tk_test_fix_total_update (\<lambda>_. test_fix_total c), tk_review_fix_total_update (\<lambda>_. review_fix_total c),
        tk_fix_iterations_update (\<lambda>_. row_fix_iterations c)] d"

section \<open>Node runs and the flow checkpoint\<close>

definition record_node_run :: "node_run_row \<Rightarrow> db \<Rightarrow> store_error + int \<times> db" where
  "record_node_run run d =
     bind_res (references_task (nd_task_id run) d) (\<lambda>_.
       let rid = db_node_run_seq d + 1
       in Inr (rid, d\<lparr>db_node_runs := db_node_runs d @ [run\<lparr>nd_id := rid\<rparr>], db_node_run_seq := rid\<rparr>))"

definition skipped_run :: "string \<Rightarrow> string \<Rightarrow> string \<Rightarrow> string \<Rightarrow> string \<Rightarrow> int option \<Rightarrow> node_run_row" where
  "skipped_run now tid nid kd reason order =
     \<lparr>nd_task_id = tid, nd_node_id = nid, nd_node_kind = kd, nd_subtask_order = order,
      nd_status = Some ''skipped'', nd_outcome = None, nd_route_primary = None, nd_route_fallback = None,
      nd_route_source = None, nd_provider_used = None, nd_error_class = None, nd_stage_attempts = 0,
      nd_commit_sha_before = None, nd_commit_sha_after = None, nd_started_at = Some now, nd_finished_at = Some now,
      nd_skipped = True, nd_skip_reason = Some reason, nd_abort_reason = None, nd_skills_allowed = False,
      nd_skills_required = [], nd_id = 0\<rparr>"

definition record_node_skip ::
    "string \<Rightarrow> string \<Rightarrow> string \<Rightarrow> string \<Rightarrow> string \<Rightarrow> int option \<Rightarrow> db \<Rightarrow> store_error + int \<times> db" where
  "record_node_skip now tid nid kd reason order d = record_node_run (skipped_run now tid nid kd reason order) d"

record run_completion =
  rn_status :: string
  rn_outcome :: "string option"
  rn_provider_used :: "string option"
  rn_error_class :: "string option"
  rn_stage_attempts :: int
  rn_finished_at :: string
  rn_commit_sha_after :: "string option"
  rn_abort_reason :: "string option"

definition completed_run :: "run_completion \<Rightarrow> node_run_row \<Rightarrow> node_run_row" where
  "completed_run c r = r\<lparr>nd_status := Some (rn_status c), nd_outcome := rn_outcome c,
     nd_provider_used := rn_provider_used c, nd_error_class := rn_error_class c,
     nd_stage_attempts := rn_stage_attempts c, nd_finished_at := Some (rn_finished_at c),
     nd_commit_sha_after := rn_commit_sha_after c, nd_abort_reason := rn_abort_reason c\<rparr>"

definition complete_node_run :: "int \<Rightarrow> run_completion \<Rightarrow> db \<Rightarrow> store_error + db" where
  "complete_node_run rid c d =
     bind_res (require (length (filter (\<lambda>r. nd_id r = rid) (db_node_runs d)) = 1) (NoSuchRun rid)) (\<lambda>_.
       Inr (d\<lparr>db_node_runs := update_rows (\<lambda>r. nd_id r = rid) (completed_run c) (db_node_runs d)\<rparr>))"

definition get_node_runs :: "string \<Rightarrow> db \<Rightarrow> node_run_row list" where
  "get_node_runs tid d = filter (\<lambda>r. nd_task_id r = tid) (db_node_runs d)"

definition get_node_run :: "int \<Rightarrow> db \<Rightarrow> node_run_row option" where
  "get_node_run rid d = select_row nd_id rid (db_node_runs d)"

definition has_prior_provider_run :: "string \<Rightarrow> string \<Rightarrow> int option \<Rightarrow> string \<Rightarrow> int \<Rightarrow> db \<Rightarrow> bool" where
  "has_prior_provider_run tid nid order provider exclude_run_id d =
     list_ex (\<lambda>r. nd_task_id r = tid \<and> nd_node_id r = nid \<and> nd_subtask_order r = order \<and>
                  nd_provider_used r = Some provider \<and> nd_id r \<noteq> exclude_run_id) (db_node_runs d)"

definition open_run :: "string \<Rightarrow> node_run_row \<Rightarrow> bool" where
  "open_run tid r \<longleftrightarrow> nd_task_id r = tid \<and> nd_status r = Some ''running'' \<and> nd_finished_at r = None"

definition reconcile_open_node_runs ::
    "string \<Rightarrow> string \<Rightarrow> string \<Rightarrow> string option \<Rightarrow> string option \<Rightarrow> db \<Rightarrow> node_run_row list \<times> db" where
  "reconcile_open_node_runs tid finished_at st error abort d =
     (let open_rows = filter (open_run tid) (db_node_runs d)
      in if open_rows = [] then ([], d)
         else (open_rows, d\<lparr>db_node_runs := update_rows (open_run tid)
                (\<lambda>r. r\<lparr>nd_status := Some st, nd_finished_at := Some finished_at, nd_error_class := error,
                       nd_abort_reason := abort\<rparr>) (db_node_runs d)\<rparr>))"

definition save_flow_checkpoint ::
    "string \<Rightarrow> string \<Rightarrow> string option \<Rightarrow> (string \<rightharpoonup> int) \<Rightarrow> string \<Rightarrow> int \<Rightarrow> db \<Rightarrow> db" where
  "save_flow_checkpoint now tid node counters fingerprint iterations d =
     update_task now tid
       [tk_current_node_update (\<lambda>_. node), tk_flow_run_counters_update (\<lambda>_. Some counters),
        tk_flow_fingerprint_update (\<lambda>_. Some fingerprint), tk_fix_iterations_update (\<lambda>_. iterations)] d"

definition get_flow_checkpoint ::
    "string \<Rightarrow> db \<Rightarrow> store_error + string option \<times> (string \<rightharpoonup> int) option \<times> string option" where
  "get_flow_checkpoint tid d =
     task_columns tid (\<lambda>r. (tk_current_node r, tk_flow_run_counters r, tk_flow_fingerprint r)) d"

definition get_control_bundle_digest :: "string \<Rightarrow> db \<Rightarrow> store_error + string option" where
  "get_control_bundle_digest tid d = task_columns tid tk_control_bundle_digest d"

definition get_instruction_manifest_digest :: "string \<Rightarrow> db \<Rightarrow> store_error + string option" where
  "get_instruction_manifest_digest tid d = task_columns tid tk_instruction_manifest_digest d"

definition get_exchange_guard :: "string \<Rightarrow> db \<Rightarrow> store_error + bool \<times> bool" where
  "get_exchange_guard tid d = task_columns tid (\<lambda>r. (tk_exchange_contaminated r, tk_exchange_active_unsafe r)) d"

text \<open>The three reference points answer \<open>None\<close> for a missing row and for an empty value.\<close>

definition reference_point :: "string \<Rightarrow> (task_row \<Rightarrow> string option) \<Rightarrow> db \<Rightarrow> string option" where
  "reference_point tid f d =
     (case get_task tid d of
        None \<Rightarrow> None
      | Some r \<Rightarrow> (case f r of Some s \<Rightarrow> if s \<noteq> [] then Some s else None | None \<Rightarrow> None))"

definition get_gate_reference :: "string \<Rightarrow> db \<Rightarrow> string option" where
  "get_gate_reference tid d = reference_point tid tk_gate_reference_sha d"

definition set_gate_reference :: "string \<Rightarrow> string \<Rightarrow> string \<Rightarrow> db \<Rightarrow> db" where
  "set_gate_reference now tid sha d = update_task now tid [tk_gate_reference_sha_update (\<lambda>_. Some sha)] d"

definition get_push_url_digest :: "string \<Rightarrow> db \<Rightarrow> string option" where
  "get_push_url_digest tid d = reference_point tid tk_push_url_digest d"

definition set_push_url_digest :: "string \<Rightarrow> string \<Rightarrow> string \<Rightarrow> db \<Rightarrow> db" where
  "set_push_url_digest now tid digest d = update_task now tid [tk_push_url_digest_update (\<lambda>_. Some digest)] d"

definition get_base_ref :: "string \<Rightarrow> db \<Rightarrow> string option" where
  "get_base_ref tid d = reference_point tid tk_base_ref d"

definition set_base_ref :: "string \<Rightarrow> string \<Rightarrow> string \<Rightarrow> db \<Rightarrow> db" where
  "set_base_ref now tid sha d = update_task now tid [tk_base_ref_update (\<lambda>_. Some sha)] d"

section \<open>Provider attempts, checks, artifacts\<close>

definition record_provider_attempt :: "provider_attempt_row \<Rightarrow> db \<Rightarrow> db" where
  "record_provider_attempt a d = d\<lparr>db_provider_attempts := db_provider_attempts d @ [a]\<rparr>"

definition get_provider_attempts :: "int \<Rightarrow> db \<Rightarrow> provider_attempt_row list" where
  "get_provider_attempts rid d =
     sort_key at_attempt (filter (\<lambda>a. at_node_run_id a = Some rid) (db_provider_attempts d))"

definition get_provider_attempts_for_task :: "string \<Rightarrow> db \<Rightarrow> provider_attempt_row list" where
  "get_provider_attempts_for_task tid d = filter (\<lambda>a. at_task_id a = tid) (db_provider_attempts d)"

definition record_check_run :: "check_run_row \<Rightarrow> db \<Rightarrow> store_error + db" where
  "record_check_run run d =
     bind_res (references_task (ck_task_id run) d) (\<lambda>_. Inr (d\<lparr>db_check_runs := db_check_runs d @ [run]\<rparr>))"

definition get_check_runs :: "string \<Rightarrow> db \<Rightarrow> check_run_row list" where
  "get_check_runs tid d = filter (\<lambda>r. ck_task_id r = tid) (db_check_runs d)"

definition latest_failed_check_log :: "string \<Rightarrow> int option \<Rightarrow> db \<Rightarrow> string option" where
  "latest_failed_check_log tid order d =
     map_option ck_log_path (List.find
       (\<lambda>r. ck_task_id r = tid \<and> ck_subtask_order r = order \<and> \<not> ck_passed r \<and> \<not> ck_skipped r)
       (rev (db_check_runs d)))"

definition task_had_skipped_checks :: "string \<Rightarrow> db \<Rightarrow> bool" where
  "task_had_skipped_checks tid d = list_ex (\<lambda>r. ck_task_id r = tid \<and> ck_skipped r) (db_check_runs d)"

definition artifact_key :: "artifact_row \<Rightarrow> string \<times> string \<times> string" where
  "artifact_key r = (af_task_id r, af_kind r, af_path r)"

definition merge_artifact :: "artifact_row \<Rightarrow> artifact_row \<Rightarrow> artifact_row" where
  "merge_artifact old new = old\<lparr>af_checksum := af_checksum new\<rparr>"

definition register_artifact :: "string \<Rightarrow> artifact_row \<Rightarrow> db \<Rightarrow> store_error + db" where
  "register_artifact now a d =
     bind_res (references_task (af_task_id a) d) (\<lambda>_.
       Inr (d\<lparr>db_artifacts := upsert_row artifact_key merge_artifact (a\<lparr>af_created_at := now\<rparr>) (db_artifacts d)\<rparr>))"

section \<open>Publish operations\<close>

definition publish_key :: "publish_op_row \<Rightarrow> string \<times> string \<times> int" where
  "publish_key r = (po_task_id r, po_kind r, po_subtask_order r)"

definition merge_publish :: "publish_op_row \<Rightarrow> publish_op_row \<Rightarrow> publish_op_row" where
  "merge_publish old new = old\<lparr>po_fingerprint := po_fingerprint new, po_result_ref := po_result_ref new,
     po_pushed_sha := po_pushed_sha new, po_status := po_status new\<rparr>"

definition publish_row :: "string \<Rightarrow> publish_op \<Rightarrow> publish_op_row" where
  "publish_row now p = \<lparr>po_task_id = pb_task_id p, po_kind = pb_kind p, po_subtask_order = sub_key (pb_subtask_order p),
     po_fingerprint = pb_fingerprint p, po_result_ref = pb_result_ref p, po_pushed_sha = pb_pushed_sha p,
     po_status = pb_status p, po_created_at = now\<rparr>"

definition record_publish_op :: "string \<Rightarrow> publish_op \<Rightarrow> db \<Rightarrow> store_error + db" where
  "record_publish_op now p d =
     bind_res (references_task (pb_task_id p) d) (\<lambda>_.
       Inr (d\<lparr>db_publish_operations := upsert_row publish_key merge_publish (publish_row now p) (db_publish_operations d)\<rparr>))"

definition get_publish_op :: "string \<Rightarrow> string \<Rightarrow> int option \<Rightarrow> db \<Rightarrow> publish_op option" where
  "get_publish_op tid kd order d =
     map_option (\<lambda>r. \<lparr>pb_task_id = po_task_id r, pb_kind = po_kind r, pb_fingerprint = po_fingerprint r,
        pb_status = po_status r,
        pb_subtask_order = (if po_subtask_order r = NO_SUBTASK then None else Some (po_subtask_order r)),
        pb_result_ref = po_result_ref r, pb_pushed_sha = po_pushed_sha r\<rparr>)
       (select_row publish_key (tid, kd, sub_key order) (db_publish_operations d))"

definition find_open_pr_tasks :: "db \<Rightarrow> task_row list" where
  "find_open_pr_tasks d =
     (let completed = (\<lambda>t kd. list_ex (\<lambda>r. po_task_id r = tk_task_id t \<and> po_kind r = kd \<and> po_status r = ''completed'')
            (db_publish_operations d))
      in by_recency (filter (\<lambda>t. completed t ''pr'' \<and> \<not> completed t ''pr_merge'') (db_tasks d)))"

section \<open>Subtasks\<close>

definition subtask_key :: "subtask_row \<Rightarrow> string \<times> int" where
  "subtask_key r = (sb_task_id r, sb_order r)"

definition merge_subtask :: "subtask_row \<Rightarrow> subtask_row \<Rightarrow> subtask_row" where
  "merge_subtask old new =
     (if sb_commit_sha old = None
      then old\<lparr>sb_slug := sb_slug new, sb_title := sb_title new, sb_status := sb_status new,
               sb_depends_on := sb_depends_on new, sb_artifact_path := sb_artifact_path new\<rparr>
      else old)"

fun insert_subtasks :: "subtask_row list \<Rightarrow> db \<Rightarrow> store_error + db" where
  "insert_subtasks [] d = Inr d"
| "insert_subtasks (row # rows) d =
     bind_res (references_task (sb_task_id row) d) (\<lambda>_.
       insert_subtasks rows (d\<lparr>db_subtasks := upsert_row subtask_key merge_subtask row (db_subtasks d)\<rparr>))"

definition get_subtasks :: "string \<Rightarrow> db \<Rightarrow> subtask_row list" where
  "get_subtasks tid d = sort_key sb_order (filter (\<lambda>r. sb_task_id r = tid) (db_subtasks d))"

definition set_subtask_commit :: "string \<Rightarrow> int \<Rightarrow> string \<Rightarrow> string \<Rightarrow> db \<Rightarrow> db" where
  "set_subtask_commit tid order sha st d =
     d\<lparr>db_subtasks := update_rows (\<lambda>r. subtask_key r = (tid, order))
         (\<lambda>r. r\<lparr>sb_commit_sha := Some sha, sb_status := st\<rparr>) (db_subtasks d)\<rparr>"

section \<open>Evaluations\<close>

definition REWORK_BUDGET_RESET :: string where
  "REWORK_BUDGET_RESET = ''rework_budget_reset''"

definition record_evaluation :: "string \<Rightarrow> evaluation_row \<Rightarrow> db \<Rightarrow> store_error + int \<times> db" where
  "record_evaluation now row d =
     bind_res (references_task (el_task_id row) d) (\<lambda>_.
       let eid = db_evaluation_seq d + 1;
           stored = row\<lparr>el_created_at := Some (or_now (el_created_at row) now), el_id := eid\<rparr>
       in Inr (eid, d\<lparr>db_evaluations := db_evaluations d @ [stored], db_evaluation_seq := eid\<rparr>))"

definition get_evaluations :: "string \<Rightarrow> db \<Rightarrow> evaluation_row list" where
  "get_evaluations tid d = filter (\<lambda>e. el_task_id e = tid) (db_evaluations d)"

text \<open>\<open>COALESCE((SELECT MAX(r.id) ...), 0)\<close>.\<close>

definition latest_budget_reset :: "string \<Rightarrow> db \<Rightarrow> int" where
  "latest_budget_reset tid d =
     fold max (map el_id (filter (\<lambda>e. el_task_id e = tid \<and> el_kind e = REWORK_BUDGET_RESET) (db_evaluations d))) 0"

text \<open>The join with the node runs: the run the verdict came from still exists.\<close>

definition run_exists :: "db \<Rightarrow> evaluation_row \<Rightarrow> bool" where
  "run_exists d e = list_ex (\<lambda>r. Some (nd_id r) = el_source_node_run_id e) (db_node_runs d)"

definition rework_verdicts_in_force :: "string \<Rightarrow> db \<Rightarrow> evaluation_row list" where
  "rework_verdicts_in_force tid d =
     filter (\<lambda>e. el_task_id e = tid \<and> el_kind e = ''in_flow_verdict'' \<and> el_verdict e = ''rework'' \<and>
                 run_exists d e \<and> el_id e > latest_budget_reset tid d) (db_evaluations d)"

definition count_rework_verdicts :: "string \<Rightarrow> string option \<Rightarrow> int option \<Rightarrow> db \<Rightarrow> nat" where
  "count_rework_verdicts tid nid order d =
     length (filter (\<lambda>e. (nid = None \<or> el_node_id e = nid) \<and> (order = None \<or> el_subtask_order e = order))
               (rework_verdicts_in_force tid d))"

definition count_rework_verdicts_by_subtask :: "string \<Rightarrow> string \<Rightarrow> db \<Rightarrow> (int option \<times> nat) list" where
  "count_rework_verdicts_by_subtask tid nid d =
     (let rows = filter (\<lambda>e. el_node_id e = Some nid) (rework_verdicts_in_force tid d)
      in map (\<lambda>s. (s, length (filter (\<lambda>e. el_subtask_order e = s) rows))) (remdups (map el_subtask_order rows)))"

definition budget_reset_row :: "string \<Rightarrow> evaluation_row" where
  "budget_reset_row tid = \<lparr>el_task_id = tid, el_kind = REWORK_BUDGET_RESET, el_verdict = ''reset'',
     el_findings_json = ''[]'', el_node_id = None, el_source_node_run_id = None, el_subtask_order = None,
     el_created_at = None, el_id = 0\<rparr>"

definition record_rework_budget_reset :: "string \<Rightarrow> string \<Rightarrow> db \<Rightarrow> store_error + int \<times> db" where
  "record_rework_budget_reset now tid d = record_evaluation now (budget_reset_row tid) d"

text \<open>\<open>json.loads\<close> of the findings column is the argument \<open>loads\<close>.\<close>

definition carries_findings :: "(string \<Rightarrow> yval option) \<Rightarrow> string \<Rightarrow> bool" where
  "carries_findings loads findings =
     (case loads findings of Some (YList (f # fs)) \<Rightarrow> True | _ \<Rightarrow> False)"

definition verdict_findings :: "string \<Rightarrow> string \<Rightarrow> int option \<Rightarrow> nat \<Rightarrow> db \<Rightarrow> string list" where
  "verdict_findings tid nid order window d =
     take window (rev (map el_findings_json (filter
       (\<lambda>e. el_task_id e = tid \<and> el_kind e = ''in_flow_verdict'' \<and> el_node_id e = Some nid \<and> run_exists d e \<and>
            (order = None \<or> el_subtask_order e = order)) (db_evaluations d))))"

definition consecutive_identical_findings ::
    "(string \<Rightarrow> yval option) \<Rightarrow> string \<Rightarrow> string \<Rightarrow> int option \<Rightarrow> nat \<Rightarrow> db \<Rightarrow> nat" where
  "consecutive_identical_findings loads tid nid order window d =
     (case verdict_findings tid nid order window d of
        [] \<Rightarrow> 0
      | latest # older \<Rightarrow>
          if \<not> carries_findings loads latest then 0
          else length (takeWhile (\<lambda>f. f = latest) (latest # older)))"

section \<open>Lineages\<close>

definition editing_key :: "editing_lineage_row \<Rightarrow> string \<times> int \<times> string" where
  "editing_key r = (ed_task_id r, ed_subtask_order r, ed_lineage_key r)"

definition merge_editing :: "editing_lineage_row \<Rightarrow> editing_lineage_row \<Rightarrow> editing_lineage_row" where
  "merge_editing old new = old\<lparr>ed_provider := ed_provider new, ed_raw_session_id := ed_raw_session_id new,
     ed_updated_at := ed_updated_at new, ed_usage_snapshot := ed_usage_snapshot new\<rparr>"

definition get_editing_lineage :: "string \<Rightarrow> string \<Rightarrow> int option \<Rightarrow> db \<Rightarrow> editing_lineage_row option" where
  "get_editing_lineage tid lineage order d = select_row editing_key (tid, sub_key order, lineage) (db_editing_lineage d)"

definition upsert_editing_lineage :: "string \<Rightarrow> editing_lineage_row \<Rightarrow> db \<Rightarrow> store_error + db" where
  "upsert_editing_lineage now row d =
     bind_res (references_task (ed_task_id row) d) (\<lambda>_.
       Inr (d\<lparr>db_editing_lineage := upsert_row editing_key merge_editing
                (row\<lparr>ed_updated_at := or_now (Some (ed_updated_at row)) now\<rparr>) (db_editing_lineage d)\<rparr>))"

definition node_lineage_key :: "node_lineage_row \<Rightarrow> string \<times> string \<times> int" where
  "node_lineage_key r = (nl_task_id r, nl_node_id r, nl_subtask_order r)"

definition merge_node_lineage :: "node_lineage_row \<Rightarrow> node_lineage_row \<Rightarrow> node_lineage_row" where
  "merge_node_lineage old new = old\<lparr>nl_provider := nl_provider new, nl_raw_session_id := nl_raw_session_id new,
     nl_updated_at := nl_updated_at new, nl_usage_snapshot := nl_usage_snapshot new\<rparr>"

definition get_node_lineage :: "string \<Rightarrow> string \<Rightarrow> int option \<Rightarrow> db \<Rightarrow> node_lineage_row option" where
  "get_node_lineage tid nid order d = select_row node_lineage_key (tid, nid, sub_key order) (db_node_lineage d)"

definition upsert_node_lineage :: "string \<Rightarrow> node_lineage_row \<Rightarrow> db \<Rightarrow> store_error + db" where
  "upsert_node_lineage now row d =
     bind_res (references_task (nl_task_id row) d) (\<lambda>_.
       Inr (d\<lparr>db_node_lineage := upsert_row node_lineage_key merge_node_lineage
                (row\<lparr>nl_updated_at := or_now (Some (nl_updated_at row)) now\<rparr>) (db_node_lineage d)\<rparr>))"

end
