(* ===== verification/StoreCorrect.thy ===== *)
theory StoreCorrect
  imports StateStore
begin

text \<open>
  The state store as an abstract data type.  \<open>store_op\<close> names its writing operations and \<open>apply_op\<close>
  runs one; \<open>store_ok\<close> is the integrity the constraints of the schema promise (unique keys, foreign
  keys, increasing ids), \<open>abstract_db\<close> the same data as maps from keys, and \<open>spec_op\<close> what each
  operation means there.  Every keyed table interprets \<open>keyed_table\<close>.
\<close>

section \<open>The keyed tables\<close>

interpretation tasks_table: keyed_table tk_task_id merge_task
  by unfold_locales (simp add: merge_task_def)

interpretation artifacts_table: keyed_table artifact_key merge_artifact
  by unfold_locales (auto simp: merge_artifact_def artifact_key_def)

interpretation publish_table: keyed_table publish_key merge_publish
  by unfold_locales (auto simp: merge_publish_def publish_key_def)

interpretation subtasks_table: keyed_table subtask_key merge_subtask
  by unfold_locales (auto simp: merge_subtask_def subtask_key_def)

interpretation editing_table: keyed_table editing_key merge_editing
  by unfold_locales (auto simp: merge_editing_def editing_key_def)

interpretation node_lineage_table: keyed_table node_lineage_key merge_node_lineage
  by unfold_locales (auto simp: merge_node_lineage_def node_lineage_key_def)

section \<open>Operations\<close>

datatype store_op =
    InsertTask task_row
  | UpdateTask string "(task_row \<Rightarrow> task_row) list"
  | AppendQuarantineRef string string
  | SetStatus string status
  | ResetTaskForRerun string
  | ReviveTaskForContinue string status
  | SaveCounters string loop_counters_row
  | RecordNodeRun node_run_row
  | RecordNodeSkip string string string string "int option"
  | CompleteNodeRun int run_completion
  | ReconcileOpenNodeRuns string string string "string option" "string option"
  | SaveFlowCheckpoint string "string option" "string \<rightharpoonup> int" string int
  | SetGateReference string string
  | SetPushUrlDigest string string
  | SetBaseRef string string
  | RecordProviderAttempt provider_attempt_row
  | RecordCheckRun check_run_row
  | RegisterArtifact artifact_row
  | RecordPublishOp publish_op
  | ClearPublishOperations string
  | InsertSubtasks "subtask_row list"
  | SetSubtaskCommit string int string string
  | RecordEvaluation evaluation_row
  | RecordReworkBudgetReset string
  | UpsertEditingLineage editing_lineage_row
  | ClearEditingLineage string
  | UpsertNodeLineage node_lineage_row

fun apply_op :: "string \<Rightarrow> store_op \<Rightarrow> db \<Rightarrow> store_error + db" where
  "apply_op now (InsertTask row) d = Inr (insert_task now row d)"
| "apply_op now (UpdateTask tid flds) d = Inr (update_task now tid flds d)"
| "apply_op now (AppendQuarantineRef tid ref) d = Inr (append_quarantine_ref now tid ref d)"
| "apply_op now (SetStatus tid st) d = Inr (set_status now tid st d)"
| "apply_op now (ResetTaskForRerun tid) d = Inr (reset_task_for_rerun now tid d)"
| "apply_op now (ReviveTaskForContinue tid st) d = Inr (revive_task_for_continue now tid st d)"
| "apply_op now (SaveCounters tid c) d = Inr (save_counters now tid c d)"
| "apply_op now (RecordNodeRun run) d = map_sum id snd (record_node_run run d)"
| "apply_op now (RecordNodeSkip tid nid kd reason order) d = map_sum id snd (record_node_skip now tid nid kd reason order d)"
| "apply_op now (CompleteNodeRun rid c) d = complete_node_run rid c d"
| "apply_op now (ReconcileOpenNodeRuns tid fin st err ab) d = Inr (snd (reconcile_open_node_runs tid fin st err ab d))"
| "apply_op now (SaveFlowCheckpoint tid node counters fp n) d = Inr (save_flow_checkpoint now tid node counters fp n d)"
| "apply_op now (SetGateReference tid sha) d = Inr (set_gate_reference now tid sha d)"
| "apply_op now (SetPushUrlDigest tid digest) d = Inr (set_push_url_digest now tid digest d)"
| "apply_op now (SetBaseRef tid sha) d = Inr (set_base_ref now tid sha d)"
| "apply_op now (RecordProviderAttempt a) d = Inr (record_provider_attempt a d)"
| "apply_op now (RecordCheckRun run) d = record_check_run run d"
| "apply_op now (RegisterArtifact a) d = register_artifact now a d"
| "apply_op now (RecordPublishOp p) d = record_publish_op now p d"
| "apply_op now (ClearPublishOperations tid) d = Inr (clear_publish_operations tid d)"
| "apply_op now (InsertSubtasks rows) d = insert_subtasks rows d"
| "apply_op now (SetSubtaskCommit tid order sha st) d = Inr (set_subtask_commit tid order sha st d)"
| "apply_op now (RecordEvaluation row) d = map_sum id snd (record_evaluation now row d)"
| "apply_op now (RecordReworkBudgetReset tid) d = map_sum id snd (record_rework_budget_reset now tid d)"
| "apply_op now (UpsertEditingLineage row) d = upsert_editing_lineage now row d"
| "apply_op now (ClearEditingLineage tid) d = Inr (clear_editing_lineage tid d)"
| "apply_op now (UpsertNodeLineage row) d = upsert_node_lineage now row d"

text \<open>The keyword arguments of \<open>update_task\<close> never include the key.\<close>

definition keeps_id :: "(task_row \<Rightarrow> task_row) \<Rightarrow> bool" where
  "keeps_id f \<longleftrightarrow> (\<forall>r. tk_task_id (f r) = tk_task_id r)"

fun op_ok :: "store_op \<Rightarrow> bool" where
  "op_ok (UpdateTask tid flds) = list_all keeps_id flds"
| "op_ok _ = True"

text \<open>A session of the store: each operation in its own transaction, a raised error leaving the database as it was.\<close>

fun run_ops :: "(string \<times> store_op) list \<Rightarrow> db \<Rightarrow> db" where
  "run_ops [] d = d"
| "run_ops ((now, op) # ops) d = run_ops ops (snd (transaction (apply_op now op) d))"

section \<open>Integrity\<close>

definition ids_ok :: "int list \<Rightarrow> int \<Rightarrow> bool" where
  "ids_ok ids seq \<longleftrightarrow> sorted_wrt (<) ids \<and> (\<forall>i\<in>set ids. 0 < i \<and> i \<le> seq) \<and> 0 \<le> seq"

definition keys_ok :: "db \<Rightarrow> bool" where
  "keys_ok d \<longleftrightarrow> unique_key tk_task_id (db_tasks d) \<and> unique_key artifact_key (db_artifacts d) \<and>
     unique_key publish_key (db_publish_operations d) \<and> unique_key subtask_key (db_subtasks d) \<and>
     unique_key editing_key (db_editing_lineage d) \<and> unique_key node_lineage_key (db_node_lineage d) \<and>
     ids_ok (map nd_id (db_node_runs d)) (db_node_run_seq d) \<and> ids_ok (map el_id (db_evaluations d)) (db_evaluation_seq d)"

definition references_ok :: "db \<Rightarrow> bool" where
  "references_ok d \<longleftrightarrow> (let known = (\<lambda>tid. has_task tid d) in
     list_all (known \<circ> nd_task_id) (db_node_runs d) \<and> list_all (known \<circ> ck_task_id) (db_check_runs d) \<and>
     list_all (known \<circ> af_task_id) (db_artifacts d) \<and> list_all (known \<circ> po_task_id) (db_publish_operations d) \<and>
     list_all (known \<circ> sb_task_id) (db_subtasks d) \<and> list_all (known \<circ> el_task_id) (db_evaluations d) \<and>
     list_all (known \<circ> ed_task_id) (db_editing_lineage d) \<and> list_all (known \<circ> nl_task_id) (db_node_lineage d))"

definition store_ok :: "db \<Rightarrow> bool" where
  "store_ok d \<longleftrightarrow> keys_ok d \<and> references_ok d"

lemma store_ok_empty: "store_ok empty_db"
  by (simp add: store_ok_def keys_ok_def references_ok_def empty_db_def ids_ok_def unique_key_def)

lemma has_task_get: "has_task tid d \<longleftrightarrow> get_task tid d \<noteq> None"
  by (auto simp: has_task_def get_task_def select_row_None list_ex_iff image_iff)

lemma fold_keeps_id: "list_all keeps_id flds \<Longrightarrow> tk_task_id (fold (\<lambda>f r. f r) flds r) = tk_task_id r"
  by (induction flds arbitrary: r) (auto simp: keeps_id_def)

lemma ids_ok_unique: "ids_ok (map key t) seq \<Longrightarrow> unique_key key t"
  unfolding ids_ok_def unique_key_def by (metis strict_sorted_iff sorted_wrt_map)

lemma ids_ok_snoc: "ids_ok ids seq \<Longrightarrow> ids_ok (ids @ [seq + 1]) (seq + 1)"
  by (auto simp: ids_ok_def sorted_wrt_append)

lemma ids_ok_delete: "ids_ok (map key t) seq \<Longrightarrow> ids_ok (map key (delete_rows p t)) seq"
  by (auto simp: ids_ok_def delete_rows_def sorted_wrt_map sorted_wrt_filter)

lemma map_update_rows: "(\<And>r. key (f r) = key r) \<Longrightarrow> map key (update_rows p f t) = map key t"
  by (simp add: update_rows_def)

lemma list_all_update_rows: "(\<And>r. key (f r) = key r) \<Longrightarrow> list_all (P \<circ> key) (update_rows p f t) = list_all (P \<circ> key) t"
  by (induction t) (auto simp: update_rows_def)

lemma list_all_delete_rows: "list_all P t \<Longrightarrow> list_all P (delete_rows p t)"
  by (auto simp: list_all_iff delete_rows_def)

text \<open>What every operation leaves of the tasks a foreign key can point at.\<close>

lemma has_task_keys: "has_task tid d \<longleftrightarrow> tid \<in> set (map tk_task_id (db_tasks d))"
  by (auto simp: has_task_def list_ex_iff)

lemma task_keys_update: "list_all keeps_id flds \<Longrightarrow> map tk_task_id (db_tasks (update_task now t flds d)) = map tk_task_id (db_tasks d)"
  by (simp add: update_task_def map_update_rows fold_keeps_id)

lemma has_task_update: "list_all keeps_id flds \<Longrightarrow> has_task tid (update_task now t flds d) = has_task tid d"
  by (simp only: has_task_keys task_keys_update)

lemma has_task_tables [simp]:
  "has_task tid (d\<lparr>db_node_runs := a\<rparr>) = has_task tid d"
  "has_task tid (d\<lparr>db_node_run_seq := n\<rparr>) = has_task tid d"
  "has_task tid (d\<lparr>db_provider_attempts := b\<rparr>) = has_task tid d"
  "has_task tid (d\<lparr>db_check_runs := c\<rparr>) = has_task tid d"
  "has_task tid (d\<lparr>db_artifacts := e\<rparr>) = has_task tid d"
  "has_task tid (d\<lparr>db_publish_operations := f\<rparr>) = has_task tid d"
  "has_task tid (d\<lparr>db_subtasks := g\<rparr>) = has_task tid d"
  "has_task tid (d\<lparr>db_evaluations := h\<rparr>) = has_task tid d"
  "has_task tid (d\<lparr>db_evaluation_seq := n\<rparr>) = has_task tid d"
  "has_task tid (d\<lparr>db_editing_lineage := i\<rparr>) = has_task tid d"
  "has_task tid (d\<lparr>db_node_lineage := j\<rparr>) = has_task tid d"
  by (simp_all add: has_task_def)

lemma has_task_insert: "has_task tid (insert_task now row d) \<longleftrightarrow> tid = tk_task_id row \<or> has_task tid d"
proof -
  have "tid \<in> tk_task_id ` set (db_tasks (insert_task now row d)) \<longleftrightarrow> tid = tk_task_id row \<or> tid \<in> tk_task_id ` set (db_tasks d)"
    by (simp add: insert_task_def tasks_table.keys_upsert inserted_task_def)
  then show ?thesis by (auto simp: has_task_def list_ex_iff image_iff)
qed

lemma list_all_upsert_key:
  assumes "keyed_table key merge" and "\<And>a b. key a = key b \<Longrightarrow> tid a = tid b"
  shows "list_all (P \<circ> tid) (upsert_row key merge new t) \<longleftrightarrow> P (tid new) \<and> list_all (P \<circ> tid) t"
proof (induction t)
  case Nil
  then show ?case by simp
next
  case (Cons r t)
  show ?case
  proof (cases "key r = key new")
    case True
    have "tid (merge r new) = tid new" by (rule assms(2)) (rule keyed_table.key_merge [OF assms(1) True])
    moreover have "tid r = tid new" by (rule assms(2)) (rule True)
    ultimately show ?thesis using True by simp
  next
    case False
    with Cons.IH show ?thesis by auto
  qed
qed

section \<open>Every operation keeps the integrity\<close>

lemma update_task_frame [simp]:
  "db_node_runs (update_task now t flds d) = db_node_runs d"
  "db_node_run_seq (update_task now t flds d) = db_node_run_seq d"
  "db_provider_attempts (update_task now t flds d) = db_provider_attempts d"
  "db_check_runs (update_task now t flds d) = db_check_runs d"
  "db_artifacts (update_task now t flds d) = db_artifacts d"
  "db_publish_operations (update_task now t flds d) = db_publish_operations d"
  "db_subtasks (update_task now t flds d) = db_subtasks d"
  "db_evaluations (update_task now t flds d) = db_evaluations d"
  "db_evaluation_seq (update_task now t flds d) = db_evaluation_seq d"
  "db_editing_lineage (update_task now t flds d) = db_editing_lineage d"
  "db_node_lineage (update_task now t flds d) = db_node_lineage d"
  by (simp_all add: update_task_def)

lemma insert_task_frame [simp]:
  "db_node_runs (insert_task now row d) = db_node_runs d"
  "db_node_run_seq (insert_task now row d) = db_node_run_seq d"
  "db_provider_attempts (insert_task now row d) = db_provider_attempts d"
  "db_check_runs (insert_task now row d) = db_check_runs d"
  "db_artifacts (insert_task now row d) = db_artifacts d"
  "db_publish_operations (insert_task now row d) = db_publish_operations d"
  "db_subtasks (insert_task now row d) = db_subtasks d"
  "db_evaluations (insert_task now row d) = db_evaluations d"
  "db_evaluation_seq (insert_task now row d) = db_evaluation_seq d"
  "db_editing_lineage (insert_task now row d) = db_editing_lineage d"
  "db_node_lineage (insert_task now row d) = db_node_lineage d"
  by (simp_all add: insert_task_def)

lemmas store_ok_defs = store_ok_def keys_ok_def references_ok_def Let_def

lemma unique_task_keys: "map tk_task_id t = map tk_task_id u \<Longrightarrow> unique_key tk_task_id t = unique_key tk_task_id u"
  by (simp add: unique_key_def)

lemma update_task_ok: "store_ok d \<Longrightarrow> list_all keeps_id flds \<Longrightarrow> store_ok (update_task now t flds d)"
  using unique_task_keys [OF task_keys_update]
  by (simp add: store_ok_defs has_task_update)

lemma list_all_mono_known:
  "list_all ((\<lambda>tid. has_task tid d) \<circ> f) t \<Longrightarrow> list_all ((\<lambda>tid. has_task tid (insert_task now row d)) \<circ> f) t"
  by (auto simp: list_all_iff has_task_insert)

lemma insert_task_ok:
  assumes "store_ok d"
  shows "store_ok (insert_task now row d)"
proof -
  have "unique_key tk_task_id (db_tasks (insert_task now row d))"
    using assms tasks_table.unique_upsert by (simp add: insert_task_def store_ok_defs)
  with assms show ?thesis by (simp add: store_ok_defs list_all_mono_known)
qed

lemma keeps_id_setters [simp]:
  "keeps_id (tk_status_update f1)" "keeps_id (tk_branch_update f2)" "keeps_id (tk_slug_update f2)"
  "keeps_id (tk_validation_passed_update f3)" "keeps_id (tk_validation_reason_update f2)"
  "keeps_id (tk_refinement_ran_update f3)" "keeps_id (tk_refinement_skip_reason_update f2)"
  "keeps_id (tk_test_fix_cycles_update f4)" "keeps_id (tk_review_fix_cycles_update f4)"
  "keeps_id (tk_test_fix_total_update f4)" "keeps_id (tk_review_fix_total_update f4)"
  "keeps_id (tk_fix_iterations_update f4)" "keeps_id (tk_decomposition_enabled_update f3)"
  "keeps_id (tk_decomposition_accepted_update f3)" "keeps_id (tk_decomposition_reason_update f2)"
  "keeps_id (tk_subtask_count_update f5)" "keeps_id (tk_active_subtask_update f5)"
  "keeps_id (tk_subtasks_completed_update f4)" "keeps_id (tk_failure_report_path_update f2)"
  "keeps_id (tk_recovered_loop_update f2)" "keeps_id (tk_cleanup_target_branch_update f2)"
  "keeps_id (tk_cleanup_completed_update f3)" "keeps_id (tk_cleanup_completed_at_update f2)"
  "keeps_id (tk_cleanup_last_error_update f2)" "keeps_id (tk_finished_at_update f2)"
  "keeps_id (tk_current_node_update f2)" "keeps_id (tk_flow_run_counters_update f6)"
  "keeps_id (tk_flow_fingerprint_update f2)" "keeps_id (tk_blocked_until_update f2)" "keeps_id (tk_blocked_since_update f2)"
  "keeps_id (tk_exchange_contaminated_update f7)" "keeps_id (tk_exchange_active_unsafe_update f7)"
  "keeps_id (tk_gate_reference_sha_update f2)" "keeps_id (tk_push_url_digest_update f2)"
  "keeps_id (tk_base_ref_update f2)" "keeps_id (tk_quarantine_refs_update f8)"
  by (simp_all add: keeps_id_def)

lemma append_quarantine_ref_ok: "store_ok d \<Longrightarrow> store_ok (append_quarantine_ref now tid ref d)"
  by (auto simp: append_quarantine_ref_def update_task_ok split: option.splits)

lemma delete_ok:
  "store_ok d \<Longrightarrow> store_ok (d\<lparr>db_subtasks := delete_rows p (db_subtasks d)\<rparr>)"
  "store_ok d \<Longrightarrow> store_ok (d\<lparr>db_node_runs := delete_rows p2 (db_node_runs d)\<rparr>)"
  "store_ok d \<Longrightarrow> store_ok (d\<lparr>db_publish_operations := delete_rows p3 (db_publish_operations d)\<rparr>)"
  "store_ok d \<Longrightarrow> store_ok (d\<lparr>db_editing_lineage := delete_rows p4 (db_editing_lineage d)\<rparr>)"
  "store_ok d \<Longrightarrow> store_ok (d\<lparr>db_node_lineage := delete_rows p5 (db_node_lineage d)\<rparr>)"
  by (simp_all add: store_ok_defs unique_delete_rows ids_ok_delete list_all_delete_rows)

lemma clear_editing_lineage_ok: "store_ok d \<Longrightarrow> store_ok (clear_editing_lineage tid d)"
  using delete_ok(5) [OF delete_ok(4), of d "\<lambda>r. nl_task_id r = tid" "\<lambda>r. ed_task_id r = tid"]
  by (simp add: clear_editing_lineage_def)

lemma clear_publish_operations_ok: "store_ok d \<Longrightarrow> store_ok (clear_publish_operations tid d)"
  by (simp add: clear_publish_operations_def delete_ok)

lemma reset_task_for_rerun_ok: "store_ok d \<Longrightarrow> store_ok (reset_task_for_rerun now tid d)"
  unfolding reset_task_for_rerun_def Let_def
  by (intro clear_editing_lineage_ok clear_publish_operations_ok delete_ok update_task_ok) (simp_all add: rerun_fields_def)

lemma record_node_run_ok: "store_ok d \<Longrightarrow> record_node_run run d = Inr (rid, d') \<Longrightarrow> store_ok d'"
  by (auto simp: record_node_run_def references_task_def res_iff Let_def store_ok_defs ids_ok_snoc)

lemma complete_node_run_ok: "store_ok d \<Longrightarrow> complete_node_run rid c d = Inr d' \<Longrightarrow> store_ok d'"
  by (auto simp: complete_node_run_def res_iff store_ok_defs map_update_rows list_all_update_rows completed_run_def)

lemma reconcile_ok: "store_ok d \<Longrightarrow> store_ok (snd (reconcile_open_node_runs tid fin st err ab d))"
  by (auto simp: reconcile_open_node_runs_def Let_def store_ok_defs map_update_rows list_all_update_rows)

lemma record_check_run_ok: "store_ok d \<Longrightarrow> record_check_run run d = Inr d' \<Longrightarrow> store_ok d'"
  by (auto simp: record_check_run_def references_task_def res_iff store_ok_defs)

lemma known_upserts:
  "list_all (P \<circ> af_task_id) (upsert_row artifact_key merge_artifact na ta) \<longleftrightarrow> P (af_task_id na) \<and> list_all (P \<circ> af_task_id) ta"
  "list_all (P \<circ> po_task_id) (upsert_row publish_key merge_publish np tp) \<longleftrightarrow> P (po_task_id np) \<and> list_all (P \<circ> po_task_id) tp"
  "list_all (P \<circ> sb_task_id) (upsert_row subtask_key merge_subtask ns ts) \<longleftrightarrow> P (sb_task_id ns) \<and> list_all (P \<circ> sb_task_id) ts"
  "list_all (P \<circ> ed_task_id) (upsert_row editing_key merge_editing ne te) \<longleftrightarrow> P (ed_task_id ne) \<and> list_all (P \<circ> ed_task_id) te"
  "list_all (P \<circ> nl_task_id) (upsert_row node_lineage_key merge_node_lineage nn tn) \<longleftrightarrow> P (nl_task_id nn) \<and> list_all (P \<circ> nl_task_id) tn"
  by (rule list_all_upsert_key [OF artifacts_table.keyed_table_axioms] list_all_upsert_key [OF publish_table.keyed_table_axioms]
      list_all_upsert_key [OF subtasks_table.keyed_table_axioms] list_all_upsert_key [OF editing_table.keyed_table_axioms]
      list_all_upsert_key [OF node_lineage_table.keyed_table_axioms];
      simp add: artifact_key_def publish_key_def subtask_key_def editing_key_def node_lineage_key_def)+

lemma register_artifact_ok: "store_ok d \<Longrightarrow> register_artifact now a d = Inr d' \<Longrightarrow> store_ok d'"
  by (auto simp: register_artifact_def references_task_def res_iff store_ok_defs artifacts_table.unique_upsert
      known_upserts artifact_key_def)

lemma record_publish_op_ok: "store_ok d \<Longrightarrow> record_publish_op now p d = Inr d' \<Longrightarrow> store_ok d'"
  by (auto simp: record_publish_op_def references_task_def res_iff store_ok_defs publish_table.unique_upsert
      known_upserts publish_key_def publish_row_def)

lemma insert_subtasks_ok: "store_ok d \<Longrightarrow> insert_subtasks rows d = Inr d' \<Longrightarrow> store_ok d'"
proof (induction rows arbitrary: d)
  case Nil
  then show ?case by simp
next
  case (Cons row rows)
  let ?d1 = "d\<lparr>db_subtasks := upsert_row subtask_key merge_subtask row (db_subtasks d)\<rparr>"
  from Cons.prems(2) have k: "has_task (sb_task_id row) d" and go: "insert_subtasks rows ?d1 = Inr d'"
    by (auto simp: references_task_def res_iff)
  have "store_ok ?d1"
    using Cons.prems(1) k
    by (auto simp: store_ok_defs subtasks_table.unique_upsert
        known_upserts subtask_key_def)
  from Cons.IH [OF this go] show ?case .
qed

lemma set_subtask_commit_ok: "store_ok d \<Longrightarrow> store_ok (set_subtask_commit tid order sha st d)"
  by (auto simp: set_subtask_commit_def store_ok_defs unique_update_rows list_all_update_rows subtask_key_def)

lemma record_evaluation_ok: "store_ok d \<Longrightarrow> record_evaluation now row d = Inr (eid, d') \<Longrightarrow> store_ok d'"
  by (auto simp: record_evaluation_def references_task_def res_iff Let_def store_ok_defs ids_ok_snoc)

lemma upsert_editing_lineage_ok: "store_ok d \<Longrightarrow> upsert_editing_lineage now row d = Inr d' \<Longrightarrow> store_ok d'"
  by (auto simp: upsert_editing_lineage_def references_task_def res_iff store_ok_defs editing_table.unique_upsert
      known_upserts editing_key_def)

lemma upsert_node_lineage_ok: "store_ok d \<Longrightarrow> upsert_node_lineage now row d = Inr d' \<Longrightarrow> store_ok d'"
  by (auto simp: upsert_node_lineage_def references_task_def res_iff store_ok_defs node_lineage_table.unique_upsert
      known_upserts node_lineage_key_def)

lemma record_provider_attempt_ok: "store_ok d \<Longrightarrow> store_ok (record_provider_attempt a d)"
  by (simp add: record_provider_attempt_def store_ok_defs)

lemma map_sum_snd_Inr: "map_sum id snd r = Inr d' \<longleftrightarrow> (\<exists>x. r = Inr (x, d'))"
  by (cases r) auto

lemmas total_op_oks = update_task_ok insert_task_ok append_quarantine_ref_ok reset_task_for_rerun_ok reconcile_ok
  set_subtask_commit_ok record_provider_attempt_ok clear_editing_lineage_ok clear_publish_operations_ok

lemmas task_op_defs = set_status_def revive_task_for_continue_def save_counters_def save_flow_checkpoint_def
  set_gate_reference_def set_push_url_digest_def set_base_ref_def

lemma apply_op_ok:
  assumes ok: "store_ok d" and "op_ok op" and run: "apply_op now op d = Inr d'"
  shows "store_ok d'"
proof -
  note partial = record_node_run_ok [OF ok] complete_node_run_ok [OF ok] record_check_run_ok [OF ok] register_artifact_ok [OF ok]
    record_publish_op_ok [OF ok] insert_subtasks_ok [OF ok] record_evaluation_ok [OF ok] upsert_editing_lineage_ok [OF ok]
    upsert_node_lineage_ok [OF ok]
  from assms show ?thesis
    by (cases op)
       (use partial total_op_oks [OF ok] in \<open>auto simp: map_sum_snd_Inr task_op_defs record_node_skip_def record_rework_budget_reset_def\<close>)
qed

lemma run_ops_ok: "store_ok d \<Longrightarrow> list_all (op_ok \<circ> snd) ops \<Longrightarrow> store_ok (run_ops ops d)"
proof (induction ops arbitrary: d)
  case Nil
  then show ?case by simp
next
  case (Cons op ops)
  obtain now o1 where op: "op = (now, o1)" by (cases op)
  have "store_ok (snd (transaction (apply_op now o1) d))"
    using Cons.prems op apply_op_ok [of d o1 now] by (auto simp: transaction_def split: sum.splits)
  with Cons op show ?case by simp
qed

end
