(* ===== verification/StoreRefine.thy ===== *)
theory StoreRefine
  imports StoreCorrect
begin

text \<open>
  The abstract specification of the state store and the refinement to the rows of \<open>StateStore\<close>.
  \<open>abstract_db\<close> holds a map from keys to rows for every keyed table and a list for every log table;
  \<open>abstract\<close> reads a database that way, and \<open>spec_op\<close> says in one line per operation what the
  operation means there: a map update, a change of the matching entries, their removal, or an append.
\<close>

section \<open>The abstract database\<close>

record abstract_db =
  ab_tasks :: "string \<rightharpoonup> task_row"
  ab_node_runs :: "int \<rightharpoonup> node_run_row"
  ab_node_run_seq :: int
  ab_provider_attempts :: "provider_attempt_row list"
  ab_check_runs :: "check_run_row list"
  ab_artifacts :: "string \<times> string \<times> string \<rightharpoonup> artifact_row"
  ab_publish :: "string \<times> string \<times> int \<rightharpoonup> publish_op_row"
  ab_subtasks :: "string \<times> int \<rightharpoonup> subtask_row"
  ab_evaluations :: "evaluation_row list"
  ab_evaluation_seq :: int
  ab_editing :: "string \<times> int \<times> string \<rightharpoonup> editing_lineage_row"
  ab_node_lineage :: "string \<times> string \<times> int \<rightharpoonup> node_lineage_row"

definition table_map :: "('r \<Rightarrow> 'k) \<Rightarrow> 'r list \<Rightarrow> 'k \<rightharpoonup> 'r" where
  "table_map key t = (\<lambda>k. select_row key k t)"

definition abstract :: "db \<Rightarrow> abstract_db" where
  "abstract d = \<lparr>ab_tasks = table_map tk_task_id (db_tasks d), ab_node_runs = table_map nd_id (db_node_runs d),
     ab_node_run_seq = db_node_run_seq d, ab_provider_attempts = db_provider_attempts d,
     ab_check_runs = db_check_runs d, ab_artifacts = table_map artifact_key (db_artifacts d),
     ab_publish = table_map publish_key (db_publish_operations d), ab_subtasks = table_map subtask_key (db_subtasks d),
     ab_evaluations = db_evaluations d, ab_evaluation_seq = db_evaluation_seq d,
     ab_editing = table_map editing_key (db_editing_lineage d),
     ab_node_lineage = table_map node_lineage_key (db_node_lineage d)\<rparr>"

text \<open>The three statements on maps.\<close>

definition put_row :: "('r \<Rightarrow> 'r \<Rightarrow> 'r) \<Rightarrow> 'k \<Rightarrow> 'r \<Rightarrow> ('k \<rightharpoonup> 'r) \<Rightarrow> 'k \<rightharpoonup> 'r" where
  "put_row merge k new m = m(k \<mapsto> (case m k of None \<Rightarrow> new | Some old \<Rightarrow> merge old new))"

definition change_rows :: "('r \<Rightarrow> bool) \<Rightarrow> ('r \<Rightarrow> 'r) \<Rightarrow> ('k \<rightharpoonup> 'r) \<Rightarrow> 'k \<rightharpoonup> 'r" where
  "change_rows p f m = (\<lambda>k. map_option (\<lambda>r. if p r then f r else r) (m k))"

definition drop_rows :: "('r \<Rightarrow> bool) \<Rightarrow> ('k \<rightharpoonup> 'r) \<Rightarrow> 'k \<rightharpoonup> 'r" where
  "drop_rows p m = (\<lambda>k. case m k of Some r \<Rightarrow> if p r then None else Some r | None \<Rightarrow> None)"

lemma table_map_upsert:
  "keyed_table key merge \<Longrightarrow> table_map key (upsert_row key merge new t) = put_row merge (key new) new (table_map key t)"
  by (auto simp: table_map_def put_row_def fun_eq_iff keyed_table.select_upsert)

lemma table_map_update:
  "(\<And>r. key (f r) = key r) \<Longrightarrow> table_map key (update_rows p f t) = change_rows p f (table_map key t)"
proof -
  assume k: "\<And>r. key (f r) = key r"
  have "select_row key x (update_rows p f t) = map_option (\<lambda>r. if p r then f r else r) (select_row key x t)" for x
    using k by (induction t) (auto simp: update_rows_def)
  then show ?thesis by (simp add: table_map_def change_rows_def)
qed

lemma table_map_delete: "unique_key key t \<Longrightarrow> table_map key (delete_rows p t) = drop_rows p (table_map key t)"
proof -
  assume "unique_key key t"
  then have "select_row key x (delete_rows p t) =
      (case select_row key x t of Some r \<Rightarrow> if p r then None else Some r | None \<Rightarrow> None)" for x
  proof (induction t)
    case Nil
    then show ?case by (simp add: delete_rows_def)
  next
    case (Cons r t)
    then have "select_row key (key r) t = None" by (auto simp: unique_key_def select_row_None)
    with Cons show ?case by (auto simp: unique_key_def delete_rows_def)
  qed
  then show ?thesis by (simp add: table_map_def drop_rows_def)
qed

lemma table_map_snoc:
  "select_row key (key new) t = None \<Longrightarrow> table_map key (t @ [new]) = (table_map key t)(key new \<mapsto> new)"
  by (auto simp: table_map_def fun_eq_iff select_row_append split: option.splits)

section \<open>What the operations mean\<close>

definition a_references :: "string \<Rightarrow> abstract_db \<Rightarrow> store_error + unit" where
  "a_references tid a = require (ab_tasks a tid \<noteq> None) IntegrityError"

definition a_update_task :: "string \<Rightarrow> string \<Rightarrow> (task_row \<Rightarrow> task_row) list \<Rightarrow> abstract_db \<Rightarrow> abstract_db" where
  "a_update_task now tid flds a =
     (if flds = [] then a
      else a\<lparr>ab_tasks := change_rows (\<lambda>r. tk_task_id r = tid)
        (\<lambda>r. (fold (\<lambda>f r. f r) flds r)\<lparr>tk_updated_at := Some now\<rparr>) (ab_tasks a)\<rparr>)"

definition a_record_node_run :: "node_run_row \<Rightarrow> abstract_db \<Rightarrow> store_error + abstract_db" where
  "a_record_node_run run a =
     bind_res (a_references (nd_task_id run) a) (\<lambda>_.
       let rid = ab_node_run_seq a + 1
       in Inr (a\<lparr>ab_node_runs := (ab_node_runs a)(rid \<mapsto> run\<lparr>nd_id := rid\<rparr>), ab_node_run_seq := rid\<rparr>))"

definition a_record_evaluation :: "string \<Rightarrow> evaluation_row \<Rightarrow> abstract_db \<Rightarrow> store_error + abstract_db" where
  "a_record_evaluation now row a =
     bind_res (a_references (el_task_id row) a) (\<lambda>_.
       let eid = ab_evaluation_seq a + 1
       in Inr (a\<lparr>ab_evaluations := ab_evaluations a @
                   [row\<lparr>el_created_at := Some (or_now (el_created_at row) now), el_id := eid\<rparr>],
                 ab_evaluation_seq := eid\<rparr>))"

definition a_clear_lineage :: "string \<Rightarrow> abstract_db \<Rightarrow> abstract_db" where
  "a_clear_lineage tid a = a\<lparr>ab_editing := drop_rows (\<lambda>r. ed_task_id r = tid) (ab_editing a),
     ab_node_lineage := drop_rows (\<lambda>r. nl_task_id r = tid) (ab_node_lineage a)\<rparr>"

definition a_clear_publish :: "string \<Rightarrow> abstract_db \<Rightarrow> abstract_db" where
  "a_clear_publish tid a = a\<lparr>ab_publish := drop_rows (\<lambda>r. po_task_id r = tid) (ab_publish a)\<rparr>"

definition a_reset_for_rerun :: "string \<Rightarrow> string \<Rightarrow> abstract_db \<Rightarrow> abstract_db" where
  "a_reset_for_rerun now tid a =
     (let a1 = a_update_task now tid rerun_fields a
      in a_clear_lineage tid (a_clear_publish tid
           (a1\<lparr>ab_subtasks := drop_rows (\<lambda>r. sb_task_id r = tid) (ab_subtasks a1),
               ab_node_runs := drop_rows (\<lambda>r. nd_task_id r = tid) (ab_node_runs a1)\<rparr>)))"

fun a_insert_subtasks :: "subtask_row list \<Rightarrow> abstract_db \<Rightarrow> store_error + abstract_db" where
  "a_insert_subtasks [] a = Inr a"
| "a_insert_subtasks (row # rows) a =
     bind_res (a_references (sb_task_id row) a) (\<lambda>_.
       a_insert_subtasks rows (a\<lparr>ab_subtasks := put_row merge_subtask (subtask_key row) row (ab_subtasks a)\<rparr>))"

fun spec_op :: "string \<Rightarrow> store_op \<Rightarrow> abstract_db \<Rightarrow> store_error + abstract_db" where
  "spec_op now (InsertTask row) a =
     Inr (a\<lparr>ab_tasks := put_row merge_task (tk_task_id row) (inserted_task now row) (ab_tasks a)\<rparr>)"
| "spec_op now (UpdateTask tid flds) a = Inr (a_update_task now tid flds a)"
| "spec_op now (AppendQuarantineRef tid ref) a =
     Inr (case ab_tasks a tid of
            None \<Rightarrow> a
          | Some row \<Rightarrow> if ref \<in> set (quarantine_refs row) then a
                        else a_update_task now tid [tk_quarantine_refs_update (\<lambda>_. Some (quarantine_refs row @ [ref]))] a)"
| "spec_op now (SetStatus tid st) a = Inr (a_update_task now tid [tk_status_update (\<lambda>_. st)] a)"
| "spec_op now (ResetTaskForRerun tid) a = Inr (a_reset_for_rerun now tid a)"
| "spec_op now (ReviveTaskForContinue tid st) a =
     Inr (a_update_task now tid
       [tk_status_update (\<lambda>_. st), tk_blocked_until_update (\<lambda>_. None), tk_finished_at_update (\<lambda>_. None),
        tk_cleanup_completed_update (\<lambda>_. None), tk_cleanup_completed_at_update (\<lambda>_. None),
        tk_cleanup_last_error_update (\<lambda>_. None), tk_cleanup_target_branch_update (\<lambda>_. None)] a)"
| "spec_op now (SaveCounters tid c) a =
     Inr (a_update_task now tid
       [tk_test_fix_cycles_update (\<lambda>_. test_fix_cycles c), tk_review_fix_cycles_update (\<lambda>_. review_fix_cycles c),
        tk_test_fix_total_update (\<lambda>_. test_fix_total c), tk_review_fix_total_update (\<lambda>_. review_fix_total c),
        tk_fix_iterations_update (\<lambda>_. row_fix_iterations c)] a)"
| "spec_op now (RecordNodeRun run) a = a_record_node_run run a"
| "spec_op now (RecordNodeSkip tid nid kd reason order) a = a_record_node_run (skipped_run now tid nid kd reason order) a"
| "spec_op now (CompleteNodeRun rid c) a =
     bind_res (require (ab_node_runs a rid \<noteq> None) (NoSuchRun rid)) (\<lambda>_.
       Inr (a\<lparr>ab_node_runs := change_rows (\<lambda>r. nd_id r = rid) (completed_run c) (ab_node_runs a)\<rparr>))"
| "spec_op now (ReconcileOpenNodeRuns tid fin st err ab) a =
     Inr (a\<lparr>ab_node_runs := change_rows (open_run tid)
       (\<lambda>r. r\<lparr>nd_status := Some st, nd_finished_at := Some fin, nd_error_class := err, nd_abort_reason := ab\<rparr>)
       (ab_node_runs a)\<rparr>)"
| "spec_op now (SaveFlowCheckpoint tid node counters fp n) a =
     Inr (a_update_task now tid
       [tk_current_node_update (\<lambda>_. node), tk_flow_run_counters_update (\<lambda>_. Some counters),
        tk_flow_fingerprint_update (\<lambda>_. Some fp), tk_fix_iterations_update (\<lambda>_. n)] a)"
| "spec_op now (SetGateReference tid sha) a = Inr (a_update_task now tid [tk_gate_reference_sha_update (\<lambda>_. Some sha)] a)"
| "spec_op now (SetPushUrlDigest tid dg) a = Inr (a_update_task now tid [tk_push_url_digest_update (\<lambda>_. Some dg)] a)"
| "spec_op now (SetBaseRef tid sha) a = Inr (a_update_task now tid [tk_base_ref_update (\<lambda>_. Some sha)] a)"
| "spec_op now (RecordProviderAttempt p) a = Inr (a\<lparr>ab_provider_attempts := ab_provider_attempts a @ [p]\<rparr>)"
| "spec_op now (RecordCheckRun run) a =
     bind_res (a_references (ck_task_id run) a) (\<lambda>_. Inr (a\<lparr>ab_check_runs := ab_check_runs a @ [run]\<rparr>))"
| "spec_op now (RegisterArtifact x) a =
     bind_res (a_references (af_task_id x) a) (\<lambda>_.
       Inr (a\<lparr>ab_artifacts := put_row merge_artifact (artifact_key x) (x\<lparr>af_created_at := now\<rparr>) (ab_artifacts a)\<rparr>))"
| "spec_op now (RecordPublishOp p) a =
     bind_res (a_references (pb_task_id p) a) (\<lambda>_.
       Inr (a\<lparr>ab_publish := put_row merge_publish (publish_key (publish_row now p)) (publish_row now p) (ab_publish a)\<rparr>))"
| "spec_op now (ClearPublishOperations tid) a = Inr (a_clear_publish tid a)"
| "spec_op now (InsertSubtasks rows) a = a_insert_subtasks rows a"
| "spec_op now (SetSubtaskCommit tid order sha st) a =
     Inr (a\<lparr>ab_subtasks := change_rows (\<lambda>r. subtask_key r = (tid, order))
       (\<lambda>r. r\<lparr>sb_commit_sha := Some sha, sb_status := st\<rparr>) (ab_subtasks a)\<rparr>)"
| "spec_op now (RecordEvaluation row) a = a_record_evaluation now row a"
| "spec_op now (RecordReworkBudgetReset tid) a = a_record_evaluation now (budget_reset_row tid) a"
| "spec_op now (UpsertEditingLineage row) a =
     bind_res (a_references (ed_task_id row) a) (\<lambda>_.
       Inr (a\<lparr>ab_editing := put_row merge_editing (editing_key row)
                (row\<lparr>ed_updated_at := or_now (Some (ed_updated_at row)) now\<rparr>) (ab_editing a)\<rparr>))"
| "spec_op now (ClearEditingLineage tid) a = Inr (a_clear_lineage tid a)"
| "spec_op now (UpsertNodeLineage row) a =
     bind_res (a_references (nl_task_id row) a) (\<lambda>_.
       Inr (a\<lparr>ab_node_lineage := put_row merge_node_lineage (node_lineage_key row)
                (row\<lparr>nl_updated_at := or_now (Some (nl_updated_at row)) now\<rparr>) (ab_node_lineage a)\<rparr>))"

section \<open>Refinement\<close>

lemma references_abstract: "a_references tid (abstract d) = references_task tid d"
  by (simp add: a_references_def references_task_def abstract_def table_map_def has_task_get get_task_def)

lemma update_task_abstract:
  "list_all keeps_id flds \<Longrightarrow> abstract (update_task now tid flds d) = a_update_task now tid flds (abstract d)"
  by (simp add: update_task_def a_update_task_def abstract_def table_map_update fold_keeps_id)

lemma ids_fresh: "ids_ok (map key t) seq \<Longrightarrow> select_row key (seq + 1) t = None"
  by (auto simp: ids_ok_def select_row_None)

lemma record_node_run_abstract:
  "store_ok d \<Longrightarrow> map_sum id (abstract \<circ> snd) (record_node_run run d) = a_record_node_run run (abstract d)"
  unfolding record_node_run_def a_record_node_run_def references_abstract
  using ids_fresh [of nd_id "db_node_runs d" "db_node_run_seq d"]
    table_map_snoc [of nd_id "run\<lparr>nd_id := db_node_run_seq d + 1\<rparr>" "db_node_runs d"]
  by (cases "references_task (nd_task_id run) d") (simp_all add: Let_def store_ok_defs abstract_def)

lemma record_evaluation_abstract:
  "map_sum id (abstract \<circ> snd) (record_evaluation now row d) = a_record_evaluation now row (abstract d)"
  unfolding record_evaluation_def a_record_evaluation_def references_abstract
  by (cases "references_task (el_task_id row) d") (simp_all add: Let_def abstract_def)

lemma complete_count: "unique_key key t \<Longrightarrow> length (filter (\<lambda>r. key r = k) t) = 1 \<longleftrightarrow> select_row key k t \<noteq> None"
proof (induction t)
  case Nil
  then show ?case by simp
next
  case (Cons r t)
  have "key r = k \<Longrightarrow> filter (\<lambda>r. key r = k) t = []"
    using Cons.prems by (auto simp: unique_key_def filter_empty_conv) (metis image_eqI)
  with Cons show ?case by (auto simp: unique_key_def)
qed

lemma complete_abstract:
  "store_ok d \<Longrightarrow> map_sum id abstract (complete_node_run rid c d) = spec_op now (CompleteNodeRun rid c) (abstract d)"
proof -
  assume "store_ok d"
  then have "unique_key nd_id (db_node_runs d)" using ids_ok_unique by (auto simp: store_ok_defs)
  then have e: "length (filter (\<lambda>r. nd_id r = rid) (db_node_runs d)) = 1 \<longleftrightarrow> ab_node_runs (abstract d) rid \<noteq> None"
    using complete_count [of nd_id "db_node_runs d" rid] by (simp add: abstract_def table_map_def)
  show ?thesis
    unfolding complete_node_run_def e spec_op.simps
    by (cases "ab_node_runs (abstract d) rid")
       (simp_all add: require_def bind_res_def abstract_def table_map_update completed_run_def)
qed

lemma reconcile_abstract:
  "abstract (snd (reconcile_open_node_runs tid fin st err ab d)) =
     (abstract d)\<lparr>ab_node_runs := change_rows (open_run tid)
       (\<lambda>r. r\<lparr>nd_status := Some st, nd_finished_at := Some fin, nd_error_class := err, nd_abort_reason := ab\<rparr>)
       (ab_node_runs (abstract d))\<rparr>"
proof (cases "filter (open_run tid) (db_node_runs d) = []")
  case True
  let ?f = "\<lambda>r. r\<lparr>nd_status := Some st, nd_finished_at := Some fin, nd_error_class := err, nd_abort_reason := ab\<rparr>"
  from True have "update_rows (open_run tid) ?f (db_node_runs d) = db_node_runs d"
    by (auto simp: update_rows_def filter_empty_conv intro!: map_idI)
  moreover have "change_rows (open_run tid) ?f (table_map nd_id (db_node_runs d)) =
      table_map nd_id (update_rows (open_run tid) ?f (db_node_runs d))"
    by (simp add: table_map_update)
  ultimately have "change_rows (open_run tid) ?f (table_map nd_id (db_node_runs d)) = table_map nd_id (db_node_runs d)" by simp
  with True show ?thesis by (simp add: reconcile_open_node_runs_def abstract_def)
next
  case False
  then show ?thesis by (simp add: reconcile_open_node_runs_def Let_def abstract_def table_map_update)
qed

lemma clear_lineage_abstract: "store_ok d \<Longrightarrow> abstract (clear_editing_lineage tid d) = a_clear_lineage tid (abstract d)"
  by (simp add: clear_editing_lineage_def a_clear_lineage_def abstract_def table_map_delete store_ok_defs)

lemma clear_publish_abstract: "store_ok d \<Longrightarrow> abstract (clear_publish_operations tid d) = a_clear_publish tid (abstract d)"
  by (simp add: clear_publish_operations_def a_clear_publish_def abstract_def table_map_delete store_ok_defs)

lemma reset_abstract: "store_ok d \<Longrightarrow> abstract (reset_task_for_rerun now tid d) = a_reset_for_rerun now tid (abstract d)"
proof -
  assume ok: "store_ok d"
  let ?d1 = "update_task now tid rerun_fields d"
  let ?d2 = "?d1\<lparr>db_subtasks := delete_rows (\<lambda>r. sb_task_id r = tid) (db_subtasks ?d1)\<rparr>"
  let ?d3 = "?d2\<lparr>db_node_runs := delete_rows (\<lambda>r. nd_task_id r = tid) (db_node_runs ?d2)\<rparr>"
  have keep: "list_all keeps_id rerun_fields" by (simp add: rerun_fields_def)
  have ok1: "store_ok ?d1" using ok keep by (rule update_task_ok)
  then have ok3: "store_ok ?d3" by (intro delete_ok)
  have "unique_key nd_id (db_node_runs ?d1)" using ok1 ids_ok_unique by (auto simp: store_ok_defs)
  then have "abstract ?d3 = (abstract ?d1)\<lparr>ab_subtasks := drop_rows (\<lambda>r. sb_task_id r = tid) (ab_subtasks (abstract ?d1)),
      ab_node_runs := drop_rows (\<lambda>r. nd_task_id r = tid) (ab_node_runs (abstract ?d1))\<rparr>"
    using ok1 by (simp add: abstract_def table_map_delete store_ok_defs)
  then show ?thesis
    unfolding reset_task_for_rerun_def a_reset_for_rerun_def Let_def
    using clear_lineage_abstract [OF clear_publish_operations_ok [OF ok3]] clear_publish_abstract [OF ok3]
    by (simp only: update_task_abstract [OF keep])
qed

lemma insert_subtasks_abstract:
  "map_sum id abstract (insert_subtasks rows d) = a_insert_subtasks rows (abstract d)"
proof (induction rows arbitrary: d)
  case Nil
  then show ?case by simp
next
  case (Cons row rows)
  let ?d1 = "d\<lparr>db_subtasks := upsert_row subtask_key merge_subtask row (db_subtasks d)\<rparr>"
  have "abstract ?d1 = (abstract d)\<lparr>ab_subtasks := put_row merge_subtask (subtask_key row) row (ab_subtasks (abstract d))\<rparr>"
    by (simp add: abstract_def table_map_upsert [OF subtasks_table.keyed_table_axioms])
  with Cons.IH [of ?d1] show ?case
    by (cases "references_task (sb_task_id row) d") (simp_all add: references_abstract)
qed


lemma upsert_abstract:
  "table_map artifact_key (upsert_row artifact_key merge_artifact na ta) = put_row merge_artifact (artifact_key na) na (table_map artifact_key ta)"
  "table_map publish_key (upsert_row publish_key merge_publish np tp) = put_row merge_publish (publish_key np) np (table_map publish_key tp)"
  "table_map editing_key (upsert_row editing_key merge_editing ne te) = put_row merge_editing (editing_key ne) ne (table_map editing_key te)"
  "table_map node_lineage_key (upsert_row node_lineage_key merge_node_lineage nn tn) = put_row merge_node_lineage (node_lineage_key nn) nn (table_map node_lineage_key tn)"
  "table_map tk_task_id (upsert_row tk_task_id merge_task nt tt) = put_row merge_task (tk_task_id nt) nt (table_map tk_task_id tt)"
  by (simp_all add: table_map_upsert [OF artifacts_table.keyed_table_axioms] table_map_upsert [OF publish_table.keyed_table_axioms]
      table_map_upsert [OF editing_table.keyed_table_axioms] table_map_upsert [OF node_lineage_table.keyed_table_axioms]
      table_map_upsert [OF tasks_table.keyed_table_axioms])

lemma insert_task_abstract:
  "abstract (insert_task now row d) = (abstract d)\<lparr>ab_tasks := put_row merge_task (tk_task_id row) (inserted_task now row) (ab_tasks (abstract d))\<rparr>"
  by (simp add: insert_task_def abstract_def upsert_abstract inserted_task_def)

lemma append_quarantine_abstract:
  "abstract (append_quarantine_ref now tid ref d) =
     (case ab_tasks (abstract d) tid of
        None \<Rightarrow> abstract d
      | Some row \<Rightarrow> if ref \<in> set (quarantine_refs row) then abstract d
                    else a_update_task now tid [tk_quarantine_refs_update (\<lambda>_. Some (quarantine_refs row @ [ref]))] (abstract d))"
proof -
  have "ab_tasks (abstract d) tid = get_task tid d" by (simp add: abstract_def table_map_def get_task_def)
  then show ?thesis by (auto simp: append_quarantine_ref_def update_task_abstract split: option.splits)
qed

lemma check_run_abstract:
  "map_sum id abstract (record_check_run run d) =
     bind_res (a_references (ck_task_id run) (abstract d))
       (\<lambda>_. Inr ((abstract d)\<lparr>ab_check_runs := ab_check_runs (abstract d) @ [run]\<rparr>))"
  by (cases "references_task (ck_task_id run) d") (simp_all add: record_check_run_def references_abstract, simp_all add: abstract_def)

lemma artifact_abstract:
  "map_sum id abstract (register_artifact now x d) = spec_op now (RegisterArtifact x) (abstract d)"
  by (cases "references_task (af_task_id x) d")
     (simp_all add: register_artifact_def references_abstract, simp_all add: abstract_def upsert_abstract artifact_key_def)

lemma publish_abstract:
  "map_sum id abstract (record_publish_op now p d) = spec_op now (RecordPublishOp p) (abstract d)"
  by (cases "references_task (pb_task_id p) d")
     (simp_all add: record_publish_op_def references_abstract, simp_all add: abstract_def upsert_abstract)

lemma editing_abstract:
  "map_sum id abstract (upsert_editing_lineage now row d) = spec_op now (UpsertEditingLineage row) (abstract d)"
  by (cases "references_task (ed_task_id row) d")
     (simp_all add: upsert_editing_lineage_def references_abstract, simp_all add: abstract_def upsert_abstract editing_key_def)

lemma node_lineage_abstract:
  "map_sum id abstract (upsert_node_lineage now row d) = spec_op now (UpsertNodeLineage row) (abstract d)"
  by (cases "references_task (nl_task_id row) d")
     (simp_all add: upsert_node_lineage_def references_abstract, simp_all add: abstract_def upsert_abstract node_lineage_key_def)

lemma commit_abstract:
  "abstract (set_subtask_commit tid order sha st d) =
     (abstract d)\<lparr>ab_subtasks := change_rows (\<lambda>r. subtask_key r = (tid, order))
       (\<lambda>r. r\<lparr>sb_commit_sha := Some sha, sb_status := st\<rparr>) (ab_subtasks (abstract d))\<rparr>"
  by (simp add: set_subtask_commit_def abstract_def table_map_update subtask_key_def)

lemmas op_abstract = insert_task_abstract append_quarantine_abstract check_run_abstract artifact_abstract publish_abstract
  editing_abstract node_lineage_abstract commit_abstract record_evaluation_abstract insert_subtasks_abstract
  reconcile_abstract update_task_abstract

lemma attempt_abstract:
  "abstract (record_provider_attempt p d) = (abstract d)\<lparr>ab_provider_attempts := ab_provider_attempts (abstract d) @ [p]\<rparr>"
  by (simp add: record_provider_attempt_def abstract_def)

section \<open>A database to evaluate on\<close>

definition demo_task :: "string \<Rightarrow> task_row" where
  "demo_task tid = \<lparr>tk_task_id = tid, tk_title = ''Title'', tk_status = NEW, tk_source_path = None, tk_source_sha256 = None,
     tk_branch = None, tk_slug = None, tk_created_at = None, tk_updated_at = None, tk_validation_passed = None,
     tk_validation_reason = None, tk_refinement_ran = None, tk_refinement_skip_reason = None, tk_test_fix_cycles = 0,
     tk_review_fix_cycles = 0, tk_test_fix_total = 0, tk_review_fix_total = 0, tk_fix_iterations = 0,
     tk_decomposition_enabled = None, tk_decomposition_accepted = None, tk_decomposition_reason = None,
     tk_subtask_count = None, tk_active_subtask = None, tk_subtasks_completed = 0, tk_failure_report_path = None,
     tk_recovered_loop = None, tk_cleanup_target_branch = None, tk_cleanup_completed = None,
     tk_cleanup_completed_at = None, tk_cleanup_last_error = None, tk_finished_at = None, tk_current_node = None,
     tk_flow_run_counters = None, tk_flow_fingerprint = None, tk_blocked_since = None, tk_blocked_until = None,
     tk_control_bundle_digest = None, tk_instruction_manifest_digest = None, tk_exchange_contaminated = False,
     tk_exchange_active_unsafe = False, tk_gate_reference_sha = None, tk_push_url_digest = None, tk_base_ref = None,
     tk_quarantine_refs = None\<rparr>"

definition demo_subtask :: "int \<Rightarrow> subtask_row" where
  "demo_subtask n = \<lparr>sb_task_id = ''T1'', sb_order = n, sb_slug = ''part'', sb_title = ''Part'', sb_status = ''pending'',
     sb_depends_on = [], sb_commit_sha = None, sb_artifact_path = None\<rparr>"

definition demo_store :: "(string \<times> store_op) list" where
  "demo_store = [(''t0'', InsertTask (demo_task ''T1'')), (''t1'', InsertTask (demo_task ''T2'')),
     (''t2'', RecordNodeSkip ''T1'' ''build'' ''agent'' ''disabled'' None),
     (''t3'', InsertSubtasks [demo_subtask 1, demo_subtask 2]), (''t4'', SetSubtaskCommit ''T1'' 1 ''c1'' ''done''),
     (''t5'', SetGateReference ''T1'' ''gate''), (''t6'', RecordReworkBudgetReset ''T1''),
     (''t7'', RecordNodeSkip ''T9'' ''build'' ''agent'' ''disabled'' None)]"

lemma demo_store_ok: "store_ok (run_ops demo_store empty_db)"
  by (rule run_ops_ok [OF store_ok_empty]) (simp add: demo_store_def)

section \<open>The theorem\<close>



end
