(* ===== verification/StoreProps.thy ===== *)
theory StoreProps
  imports StoreRefine "HOL-Library.Sublist"
begin

text \<open>
  What a session of the store promises: no operation takes a task, an evaluation or a run id back
  (\<open>extends\<close>), an operation touches only the tasks it names (\<open>task_view\<close>, \<open>op_tasks\<close>), a rerun starts from
  a fresh attempt, a replanned task keeps its committed subtasks, and a budget reset ends every
  rework count.
\<close>

section \<open>Histories\<close>

text \<open>What no operation of the store takes back: a task, an evaluation, a run id handed out.\<close>

definition extends :: "db \<Rightarrow> db \<Rightarrow> bool" where
  "extends d d' \<longleftrightarrow> tk_task_id ` set (db_tasks d) \<subseteq> tk_task_id ` set (db_tasks d') \<and>
     prefix (db_evaluations d) (db_evaluations d') \<and> db_node_run_seq d \<le> db_node_run_seq d' \<and>
     prefix (db_check_runs d) (db_check_runs d') \<and> prefix (db_provider_attempts d) (db_provider_attempts d')"

lemma extends_refl [simp]: "extends d d"
  by (simp add: extends_def)

lemma extends_trans: "extends d e \<Longrightarrow> extends e f \<Longrightarrow> extends d f"
  unfolding extends_def by (meson order_trans prefix_order.trans)

lemma task_keys_set: "list_all keeps_id flds \<Longrightarrow> tk_task_id ` set (db_tasks (update_task now t flds d)) = tk_task_id ` set (db_tasks d)"
  using task_keys_update [of flds now t d] by (metis set_map)

lemma extends_update: "list_all keeps_id flds \<Longrightarrow> extends d (update_task now t flds d)"
  by (simp add: extends_def task_keys_set)

lemma extends_insert: "extends d (insert_task now row d)"
proof -
  have "tk_task_id ` set (db_tasks (insert_task now row d)) = insert (tk_task_id row) (tk_task_id ` set (db_tasks d))"
    by (simp add: insert_task_def tasks_table.keys_upsert inserted_task_def)
  then show ?thesis by (auto simp: extends_def)
qed

lemma extends_reset: "extends d (reset_task_for_rerun now tid d)"
proof -
  have "list_all keeps_id rerun_fields" by (simp add: rerun_fields_def)
  from task_keys_set [OF this] show ?thesis
    by (simp add: extends_def reset_task_for_rerun_def Let_def clear_editing_lineage_def clear_publish_operations_def)
qed

lemma extends_insert_subtasks: "insert_subtasks rows d = Inr d' \<Longrightarrow> extends d d'"
proof (induction rows arbitrary: d)
  case Nil
  then show ?case by simp
next
  case (Cons row rows)
  let ?d1 = "d\<lparr>db_subtasks := upsert_row subtask_key merge_subtask row (db_subtasks d)\<rparr>"
  from Cons.prems have "insert_subtasks rows ?d1 = Inr d'" by (auto simp: references_task_def res_iff)
  from Cons.IH [OF this] show ?case by (simp add: extends_def)
qed

lemma extends_quarantine: "extends d (append_quarantine_ref now tid ref d)"
  by (auto simp: append_quarantine_ref_def extends_update split: option.splits)

lemmas store_write_defs = record_node_run_def record_node_skip_def complete_node_run_def reconcile_open_node_runs_def
  record_provider_attempt_def record_check_run_def register_artifact_def record_publish_op_def clear_publish_operations_def
  set_subtask_commit_def record_evaluation_def record_rework_budget_reset_def upsert_editing_lineage_def
  clear_editing_lineage_def upsert_node_lineage_def references_task_def

lemma apply_op_extends:
  assumes "op_ok op" and "apply_op now op d = Inr d'"
  shows "extends d d'"
proof (cases "\<exists>rows. op = InsertSubtasks rows")
  case True
  with assms(2) show ?thesis by (auto intro: extends_insert_subtasks)
next
  case False
  with assms show ?thesis
    by (cases op)
       (auto simp: map_sum_snd_Inr task_op_defs extends_update extends_insert extends_reset extends_quarantine,
        auto simp: store_write_defs res_iff Let_def extends_def)
qed

lemma run_ops_extends: "list_all (op_ok \<circ> snd) ops \<Longrightarrow> extends d (run_ops ops d)"
proof (induction ops arbitrary: d)
  case Nil
  then show ?case by simp
next
  case (Cons op ops)
  obtain now o1 where op: "op = (now, o1)" by (cases op)
  have "extends d (snd (transaction (apply_op now o1) d))"
    using Cons.prems op apply_op_extends [of o1 now d] by (auto simp: transaction_def split: sum.splits)
  moreover have "extends \<dots> (run_ops ops \<dots>)" using Cons by simp
  ultimately show ?case using op by (simp add: extends_trans)
qed

lemma run_ops_append: "run_ops (a @ b) d = run_ops b (run_ops a d)"
  by (induction a arbitrary: d) auto

text \<open>
  C27. Whatever sequence of writing operations is run on a fresh database, raised errors included,
  every unique key, foreign key and increasing id of the schema holds at the end; nothing recorded by
  an earlier part of the sequence is lost (tasks, evaluations, check runs, provider attempts); and
  the id of the next node run is one that no earlier run had, deleted runs included.
\<close>

theorem store_history:
  assumes "list_all (op_ok \<circ> snd) (before @ after)"
  shows "store_ok (run_ops (before @ after) empty_db) \<and>
    extends (run_ops before empty_db) (run_ops (before @ after) empty_db) \<and>
    (record_node_run run (run_ops (before @ after) empty_db) = Inr (rid, d') \<longrightarrow>
      rid \<notin> nd_id ` set (db_node_runs (run_ops before empty_db)))"
proof -
  from assms have b: "list_all (op_ok \<circ> snd) before" and a: "list_all (op_ok \<circ> snd) after" by auto
  have ext: "extends (run_ops before empty_db) (run_ops (before @ after) empty_db)"
    unfolding run_ops_append using a by (rule run_ops_extends)
  have "store_ok (run_ops before empty_db)" using store_ok_empty b by (rule run_ops_ok)
  then have "nd_id r \<le> db_node_run_seq (run_ops before empty_db)" if "r \<in> set (db_node_runs (run_ops before empty_db))" for r
    using that by (auto simp: store_ok_defs ids_ok_def)
  with ext have "record_node_run run (run_ops (before @ after) empty_db) = Inr (rid, d') \<longrightarrow>
      rid \<notin> nd_id ` set (db_node_runs (run_ops before empty_db))"
    by (fastforce simp: record_node_run_def references_task_def res_iff Let_def extends_def)
  with ext run_ops_ok [OF store_ok_empty assms] show ?thesis by blast
qed

lemma store_history_witness:
  "store_ok (run_ops (demo_store @ [(''t8'', ResetTaskForRerun ''T1'')]) empty_db) \<and>
   extends (run_ops demo_store empty_db) (run_ops (demo_store @ [(''t8'', ResetTaskForRerun ''T1'')]) empty_db)"
  using store_history [of demo_store "[(''t8'', ResetTaskForRerun ''T1'')]"] by (simp add: demo_store_def)

section \<open>What belongs to a task\<close>

definition task_view :: "string \<Rightarrow> db \<Rightarrow> task_row option \<times> node_run_row list \<times> check_run_row list \<times> subtask_row list \<times>
    evaluation_row list \<times> (string \<Rightarrow> int option \<Rightarrow> publish_op option) \<times>
    (string \<Rightarrow> int option \<Rightarrow> editing_lineage_row option) \<times> (string \<Rightarrow> int option \<Rightarrow> node_lineage_row option)" where
  "task_view tid d = (get_task tid d, get_node_runs tid d, get_check_runs tid d, get_subtasks tid d, get_evaluations tid d,
     (\<lambda>kd order. get_publish_op tid kd order d), (\<lambda>lineage order. get_editing_lineage tid lineage order d),
     (\<lambda>nid order. get_node_lineage tid nid order d))"

text \<open>The tasks an operation names; completing a run names the task of the run.\<close>

fun op_tasks :: "store_op \<Rightarrow> db \<Rightarrow> string set" where
  "op_tasks (InsertTask row) d = {tk_task_id row}"
| "op_tasks (UpdateTask tid flds) d = {tid}"
| "op_tasks (AppendQuarantineRef tid ref) d = {tid}"
| "op_tasks (SetStatus tid st) d = {tid}"
| "op_tasks (ResetTaskForRerun tid) d = {tid}"
| "op_tasks (ReviveTaskForContinue tid st) d = {tid}"
| "op_tasks (SaveCounters tid c) d = {tid}"
| "op_tasks (RecordNodeRun run) d = {nd_task_id run}"
| "op_tasks (RecordNodeSkip tid nid kd reason order) d = {tid}"
| "op_tasks (CompleteNodeRun rid c) d = nd_task_id ` {r \<in> set (db_node_runs d). nd_id r = rid}"
| "op_tasks (ReconcileOpenNodeRuns tid fin st err ab) d = {tid}"
| "op_tasks (SaveFlowCheckpoint tid node counters fp n) d = {tid}"
| "op_tasks (SetGateReference tid sha) d = {tid}"
| "op_tasks (SetPushUrlDigest tid dg) d = {tid}"
| "op_tasks (SetBaseRef tid sha) d = {tid}"
| "op_tasks (RecordProviderAttempt a) d = {at_task_id a}"
| "op_tasks (RecordCheckRun run) d = {ck_task_id run}"
| "op_tasks (RegisterArtifact a) d = {af_task_id a}"
| "op_tasks (RecordPublishOp p) d = {pb_task_id p}"
| "op_tasks (ClearPublishOperations tid) d = {tid}"
| "op_tasks (InsertSubtasks rows) d = sb_task_id ` set rows"
| "op_tasks (SetSubtaskCommit tid order sha st) d = {tid}"
| "op_tasks (RecordEvaluation row) d = {el_task_id row}"
| "op_tasks (RecordReworkBudgetReset tid) d = {tid}"
| "op_tasks (UpsertEditingLineage row) d = {ed_task_id row}"
| "op_tasks (ClearEditingLineage tid) d = {tid}"
| "op_tasks (UpsertNodeLineage row) d = {nl_task_id row}"

lemma get_task_update:
  assumes "list_all keeps_id flds"
  shows "get_task tid (update_task now t flds d) =
    (if tid = t \<and> flds \<noteq> [] then map_option (\<lambda>r. (fold (\<lambda>f r. f r) flds r)\<lparr>tk_updated_at := Some now\<rparr>) (get_task tid d) else get_task tid d)"
  using select_update_rows [of tk_task_id "\<lambda>r. (fold (\<lambda>f r. f r) flds r)\<lparr>tk_updated_at := Some now\<rparr>" tid "\<lambda>k. k = t" "db_tasks d"]
    fold_keeps_id [OF assms]
  by (auto simp: update_task_def get_task_def)

lemma inserted_task_id [simp]: "tk_task_id (inserted_task now row) = tk_task_id row"
  by (simp add: inserted_task_def)

lemma get_task_insert:
  "get_task tid (insert_task now row d) =
     (if tid = tk_task_id row
      then Some (case get_task tid d of None \<Rightarrow> inserted_task now row | Some old \<Rightarrow> merge_task old (inserted_task now row))
      else get_task tid d)"
  by (auto simp: get_task_def insert_task_def tasks_table.select_upsert)

lemma filter_update_rows:
  "(\<And>r. p r \<Longrightarrow> own (f r) = own r) \<Longrightarrow> (\<And>r. p r \<Longrightarrow> own r \<noteq> tid) \<Longrightarrow>
    filter (\<lambda>r. own r = tid) (update_rows p f t) = filter (\<lambda>r. own r = tid) t"
  by (induction t) (auto simp: update_rows_def)

lemma filter_delete_rows:
  "(\<And>r. p r \<Longrightarrow> own r \<noteq> tid) \<Longrightarrow> filter (\<lambda>r. own r = tid) (delete_rows p t) = filter (\<lambda>r. own r = tid) t"
  by (induction t) (auto simp: delete_rows_def)

lemma select_delete_task:
  "select_row publish_key (tid, kd, n) (delete_rows (\<lambda>r. po_task_id r = t) tp) =
     (if tid = t then None else select_row publish_key (tid, kd, n) tp)"
  "select_row editing_key (tid, n, l) (delete_rows (\<lambda>r. ed_task_id r = t) te) =
     (if tid = t then None else select_row editing_key (tid, n, l) te)"
  "select_row node_lineage_key (tid, nid, n) (delete_rows (\<lambda>r. nl_task_id r = t) tn) =
     (if tid = t then None else select_row node_lineage_key (tid, nid, n) tn)"
  using select_delete_rows [of publish_key "(tid, kd, n)" "\<lambda>k. fst k = t" tp]
    select_delete_rows [of editing_key "(tid, n, l)" "\<lambda>k. fst k = t" te]
    select_delete_rows [of node_lineage_key "(tid, nid, n)" "\<lambda>k. fst k = t" tn]
  by (simp_all add: publish_key_def editing_key_def node_lineage_key_def)

lemma filter_upsert_subtask:
  "sb_task_id row \<noteq> tid \<Longrightarrow> filter (\<lambda>r. sb_task_id r = tid) (upsert_row subtask_key merge_subtask row t) = filter (\<lambda>r. sb_task_id r = tid) t"
  by (induction t) (auto simp: merge_subtask_def subtask_key_def)

lemmas view_defs = task_view_def get_node_runs_def get_check_runs_def get_subtasks_def get_evaluations_def
  get_publish_op_def get_editing_lineage_def get_node_lineage_def

lemma get_task_frame [simp]:
  "get_task tid (d\<lparr>db_node_runs := a\<rparr>) = get_task tid d"
  "get_task tid (d\<lparr>db_node_run_seq := n\<rparr>) = get_task tid d"
  "get_task tid (d\<lparr>db_provider_attempts := b\<rparr>) = get_task tid d"
  "get_task tid (d\<lparr>db_check_runs := c\<rparr>) = get_task tid d"
  "get_task tid (d\<lparr>db_artifacts := e\<rparr>) = get_task tid d"
  "get_task tid (d\<lparr>db_publish_operations := f\<rparr>) = get_task tid d"
  "get_task tid (d\<lparr>db_subtasks := g\<rparr>) = get_task tid d"
  "get_task tid (d\<lparr>db_evaluations := h\<rparr>) = get_task tid d"
  "get_task tid (d\<lparr>db_evaluation_seq := n\<rparr>) = get_task tid d"
  "get_task tid (d\<lparr>db_editing_lineage := i\<rparr>) = get_task tid d"
  "get_task tid (d\<lparr>db_node_lineage := j\<rparr>) = get_task tid d"
  by (simp_all add: get_task_def)

lemma view_update: "list_all keeps_id flds \<Longrightarrow> tid \<noteq> t \<Longrightarrow> task_view tid (update_task now t flds d) = task_view tid d"
  by (simp add: view_defs get_task_update)

lemma view_insert: "tid \<noteq> tk_task_id row \<Longrightarrow> task_view tid (insert_task now row d) = task_view tid d"
  by (simp add: view_defs get_task_insert)

lemma view_quarantine: "tid \<noteq> t \<Longrightarrow> task_view tid (append_quarantine_ref now t ref d) = task_view tid d"
  by (auto simp: append_quarantine_ref_def view_update split: option.splits)

lemma view_clear_lineage: "tid \<noteq> t \<Longrightarrow> task_view tid (clear_editing_lineage t d) = task_view tid d"
  by (simp add: view_defs clear_editing_lineage_def select_delete_task)

lemma view_clear_publish: "tid \<noteq> t \<Longrightarrow> task_view tid (clear_publish_operations t d) = task_view tid d"
  by (simp add: view_defs clear_publish_operations_def select_delete_task)

lemma view_reset: "tid \<noteq> t \<Longrightarrow> task_view tid (reset_task_for_rerun now t d) = task_view tid d"
proof -
  assume ne: "tid \<noteq> t"
  have "list_all keeps_id rerun_fields" by (simp add: rerun_fields_def)
  from view_update [OF this ne] have "task_view tid (update_task now t rerun_fields d) = task_view tid d" .
  moreover have drop: "task_view tid (e\<lparr>db_subtasks := delete_rows (\<lambda>r. sb_task_id r = t) (db_subtasks e),
      db_node_runs := delete_rows (\<lambda>r. nd_task_id r = t) (db_node_runs e)\<rparr>) = task_view tid e" for e
    using ne by (auto simp: view_defs filter_delete_rows)
  ultimately show ?thesis
    using ne drop [of "update_task now t rerun_fields d"]
    by (simp add: reset_task_for_rerun_def Let_def view_clear_lineage view_clear_publish)
qed

lemma view_insert_subtasks: "insert_subtasks rows d = Inr d' \<Longrightarrow> tid \<notin> sb_task_id ` set rows \<Longrightarrow> task_view tid d' = task_view tid d"
proof (induction rows arbitrary: d)
  case Nil
  then show ?case by simp
next
  case (Cons row rows)
  let ?d1 = "d\<lparr>db_subtasks := upsert_row subtask_key merge_subtask row (db_subtasks d)\<rparr>"
  from Cons.prems have "insert_subtasks rows ?d1 = Inr d'" "tid \<notin> sb_task_id ` set rows" by (auto simp: references_task_def res_iff)
  from Cons.IH [OF this] Cons.prems(2) show ?case by (auto simp: view_defs filter_upsert_subtask)
qed

lemma view_set_commit: "tid \<noteq> t \<Longrightarrow> task_view tid (set_subtask_commit t order sha st d) = task_view tid d"
  using filter_update_rows [of "\<lambda>r. subtask_key r = (t, order)" sb_task_id _ tid]
  by (simp add: view_defs set_subtask_commit_def subtask_key_def)

lemma view_reconcile: "tid \<noteq> t \<Longrightarrow> task_view tid (snd (reconcile_open_node_runs t fin st err ab d)) = task_view tid d"
  using filter_update_rows [of "open_run t" nd_task_id _ tid]
  by (simp add: view_defs reconcile_open_node_runs_def Let_def open_run_def)

lemma filter_update_ids:
  "tid \<notin> nd_task_id ` {r \<in> set t. nd_id r = rid} \<Longrightarrow>
    filter (\<lambda>r. nd_task_id r = tid) (update_rows (\<lambda>r. nd_id r = rid) (completed_run c) t) = filter (\<lambda>r. nd_task_id r = tid) t"
  by (induction t) (auto simp: update_rows_def completed_run_def image_iff)

lemma view_complete:
  "complete_node_run rid c d = Inr d' \<Longrightarrow> tid \<notin> nd_task_id ` {r \<in> set (db_node_runs d). nd_id r = rid} \<Longrightarrow> task_view tid d' = task_view tid d"
  by (auto simp: complete_node_run_def res_iff view_defs filter_update_ids)

lemma view_records:
  "tid \<noteq> nd_task_id run \<Longrightarrow> record_node_run run d = Inr (rid, d') \<Longrightarrow> task_view tid d' = task_view tid d"
  "tid \<noteq> ck_task_id cr \<Longrightarrow> record_check_run cr d = Inr d' \<Longrightarrow> task_view tid d' = task_view tid d"
  "tid \<noteq> el_task_id er \<Longrightarrow> record_evaluation now er d = Inr (eid, d') \<Longrightarrow> task_view tid d' = task_view tid d"
  by (auto simp: store_write_defs res_iff Let_def view_defs)

lemma view_artifact: "register_artifact now a d = Inr d' \<Longrightarrow> task_view tid d' = task_view tid d"
  by (auto simp: store_write_defs res_iff view_defs)

lemma view_publish: "tid \<noteq> pb_task_id p \<Longrightarrow> record_publish_op now p d = Inr d' \<Longrightarrow> task_view tid d' = task_view tid d"
  by (auto simp: store_write_defs res_iff view_defs publish_table.select_upsert publish_key_def publish_row_def fun_eq_iff)

lemma view_editing: "tid \<noteq> ed_task_id row \<Longrightarrow> upsert_editing_lineage now row d = Inr d' \<Longrightarrow> task_view tid d' = task_view tid d"
  by (auto simp: store_write_defs res_iff view_defs editing_table.select_upsert editing_key_def fun_eq_iff)

lemma view_node_lineage: "tid \<noteq> nl_task_id row \<Longrightarrow> upsert_node_lineage now row d = Inr d' \<Longrightarrow> task_view tid d' = task_view tid d"
  by (auto simp: store_write_defs res_iff view_defs node_lineage_table.select_upsert node_lineage_key_def fun_eq_iff)

lemma view_attempt: "task_view tid (record_provider_attempt a d) = task_view tid d"
  by (simp add: record_provider_attempt_def view_defs)

lemma view_skip: "tid \<noteq> t \<Longrightarrow> record_node_skip now t nid kd reason order d = Inr (rid, d') \<Longrightarrow> task_view tid d' = task_view tid d"
  using view_records(1) [where tid = tid and run = "skipped_run now t nid kd reason order"]
  by (simp add: record_node_skip_def skipped_run_def)

lemma view_budget: "tid \<noteq> t \<Longrightarrow> record_rework_budget_reset now t d = Inr (eid, d') \<Longrightarrow> task_view tid d' = task_view tid d"
  using view_records(3) [where tid = tid and er = "budget_reset_row t"]
  by (simp add: record_rework_budget_reset_def budget_reset_row_def)

lemmas view_total = view_update view_insert view_quarantine view_reset view_reconcile view_clear_publish view_clear_lineage
  view_set_commit view_attempt

lemmas view_partial = view_insert_subtasks view_complete view_records view_artifact view_publish view_editing view_node_lineage
  view_skip view_budget

lemma apply_op_isolated:
  assumes "op_ok op" and "apply_op now op d = Inr d'" and "tid \<notin> op_tasks op d"
  shows "task_view tid d' = task_view tid d"
  using assms
  by (cases op)
     (use view_partial [where tid = tid and d = d and d' = d'] in
       \<open>auto simp: map_sum_snd_Inr task_op_defs view_total\<close>)


text \<open>No step of the session names the task.\<close>

fun leaves_alone :: "string \<Rightarrow> (string \<times> store_op) list \<Rightarrow> db \<Rightarrow> bool" where
  "leaves_alone tid [] d = True"
| "leaves_alone tid ((now, op) # ops) d =
     (tid \<notin> op_tasks op d \<and> leaves_alone tid ops (snd (transaction (apply_op now op) d)))"



section \<open>Rerun\<close>

definition rerun_attempt :: "string \<Rightarrow> task_row \<Rightarrow> db \<Rightarrow> db" where
  "rerun_attempt now row d = insert_task now row (reset_task_for_rerun now (tk_task_id row) d)"

text \<open>Every evaluation of the task came from one of its own runs.\<close>

definition own_sources :: "string \<Rightarrow> db \<Rightarrow> bool" where
  "own_sources tid d = list_all (\<lambda>e. el_task_id e = tid \<longrightarrow>
     list_all (\<lambda>r. Some (nd_id r) = el_source_node_run_id e \<longrightarrow> nd_task_id r = tid) (db_node_runs d)) (db_evaluations d)"

lemma rerun_keeps_ids: "list_all keeps_id rerun_fields"
  by (simp add: rerun_fields_def)

lemma rerun_reset_frame [simp]:
  "db_tasks (reset_task_for_rerun now tid d) = db_tasks (update_task now tid rerun_fields d)"
  "db_evaluations (reset_task_for_rerun now tid d) = db_evaluations d"
  "db_check_runs (reset_task_for_rerun now tid d) = db_check_runs d"
  "db_node_runs (reset_task_for_rerun now tid d) = delete_rows (\<lambda>r. nd_task_id r = tid) (db_node_runs d)"
  "db_subtasks (reset_task_for_rerun now tid d) = delete_rows (\<lambda>r. sb_task_id r = tid) (db_subtasks d)"
  "db_publish_operations (reset_task_for_rerun now tid d) = delete_rows (\<lambda>r. po_task_id r = tid) (db_publish_operations d)"
  "db_editing_lineage (reset_task_for_rerun now tid d) = delete_rows (\<lambda>r. ed_task_id r = tid) (db_editing_lineage d)"
  "db_node_lineage (reset_task_for_rerun now tid d) = delete_rows (\<lambda>r. nl_task_id r = tid) (db_node_lineage d)"
  by (simp_all add: reset_task_for_rerun_def Let_def clear_editing_lineage_def clear_publish_operations_def)

lemma get_task_reset: "get_task tid (reset_task_for_rerun now tid d) =
    map_option (\<lambda>r. (fold (\<lambda>f r. f r) rerun_fields r)\<lparr>tk_updated_at := Some now\<rparr>) (get_task tid d)"
proof -
  have "get_task tid (reset_task_for_rerun now tid d) = get_task tid (update_task now tid rerun_fields d)"
    by (simp only: get_task_def rerun_reset_frame)
  moreover have "rerun_fields \<noteq> []" by (simp add: rerun_fields_def)
  ultimately show ?thesis by (simp add: get_task_update [OF rerun_keeps_ids])
qed

lemma filter_delete_same [simp]: "filter (\<lambda>r. own r = tid) (delete_rows (\<lambda>r. own r = tid) t) = []"
  by (simp add: delete_rows_def filter_empty_conv)

lemma no_verdicts_after_reset:
  assumes "own_sources tid d"
  shows "rework_verdicts_in_force tid (reset_task_for_rerun now tid d) = []"
proof -
  have "\<not> run_exists (reset_task_for_rerun now tid d) e" if "e \<in> set (db_evaluations d)" "el_task_id e = tid" for e
    using assms that by (auto simp: own_sources_def run_exists_def list_all_iff list_ex_iff)
  then show ?thesis by (auto simp: rework_verdicts_in_force_def filter_empty_conv)
qed

lemma rework_frame_insert: "rework_verdicts_in_force tid (insert_task now row d) = rework_verdicts_in_force tid d"
  by (simp add: rework_verdicts_in_force_def run_exists_def latest_budget_reset_def)


lemmas demo_eval_defs = demo_store_def empty_db_def insert_task_def inserted_task_def demo_task_def record_node_skip_def
  record_node_run_def skipped_run_def references_task_def has_task_def require_def transaction_def demo_subtask_def
  subtask_key_def set_subtask_commit_def update_rows_def set_gate_reference_def update_task_def or_now_def
  record_rework_budget_reset_def record_evaluation_def budget_reset_row_def

lemma demo_store_eval: "get_task ''T1'' (run_ops demo_store empty_db) \<noteq> None"
  "map el_source_node_run_id (db_evaluations (run_ops demo_store empty_db)) = [None]"
  by (simp_all add: demo_eval_defs Let_def get_task_def)


text \<open>
  The reset leaves two things of the old attempt: the reference points of the task row (the gate
  keeps measuring from a commit of the old attempt, where a first attempt measures from the base of
  the task) and the check runs (a skipped check of the old attempt still counts as one of the task).
\<close>

theorem rerun_keeps_reference_points:
  assumes "get_task (tk_task_id row) d = Some old"
  shows "get_gate_reference (tk_task_id row) (rerun_attempt now row d) = get_gate_reference (tk_task_id row) d \<and>
    get_base_ref (tk_task_id row) (rerun_attempt now row d) = get_base_ref (tk_task_id row) d \<and>
    task_had_skipped_checks (tk_task_id row) (rerun_attempt now row d) = task_had_skipped_checks (tk_task_id row) d \<and>
    latest_failed_check_log (tk_task_id row) order (rerun_attempt now row d) = latest_failed_check_log (tk_task_id row) order d"
proof -
  let ?d = "rerun_attempt now row d"
  have row: "get_task (tk_task_id row) ?d = Some (merge_task
      ((fold (\<lambda>f r. f r) rerun_fields old)\<lparr>tk_updated_at := Some now\<rparr>) (inserted_task now row))"
    using assms by (simp add: rerun_attempt_def get_task_insert get_task_reset)
  have checks: "db_check_runs ?d = db_check_runs d" by (simp add: rerun_attempt_def)
  show ?thesis
    unfolding get_gate_reference_def get_base_ref_def reference_point_def row assms
      task_had_skipped_checks_def latest_failed_check_log_def checks
    by (simp add: merge_task_def rerun_fields_def)
qed


section \<open>Reading back what was written\<close>

lemma committed_merge: "sb_commit_sha old \<noteq> None \<Longrightarrow> merge_subtask old new = old"
  by (auto simp: merge_subtask_def)

lemma insert_subtasks_committed:
  "insert_subtasks rows d = Inr d' \<Longrightarrow> select_row subtask_key k (db_subtasks d) = Some r \<Longrightarrow> sb_commit_sha r \<noteq> None \<Longrightarrow>
    select_row subtask_key k (db_subtasks d') = Some r"
proof (induction rows arbitrary: d)
  case Nil
  then show ?case by simp
next
  case (Cons row rows)
  let ?d1 = "d\<lparr>db_subtasks := upsert_row subtask_key merge_subtask row (db_subtasks d)\<rparr>"
  from Cons.prems have go: "insert_subtasks rows ?d1 = Inr d'" by (auto simp: references_task_def res_iff)
  have "select_row subtask_key k (db_subtasks ?d1) = Some r"
    using Cons.prems(2,3) by (auto simp: subtasks_table.select_upsert committed_merge)
  from Cons.IH [OF go this Cons.prems(3)] show ?case .
qed

lemma insert_subtasks_other:
  "insert_subtasks rows d = Inr d' \<Longrightarrow> k \<notin> subtask_key ` set rows \<Longrightarrow>
    select_row subtask_key k (db_subtasks d') = select_row subtask_key k (db_subtasks d)"
proof (induction rows arbitrary: d)
  case Nil
  then show ?case by simp
next
  case (Cons row rows)
  let ?d1 = "d\<lparr>db_subtasks := upsert_row subtask_key merge_subtask row (db_subtasks d)\<rparr>"
  from Cons.prems have "insert_subtasks rows ?d1 = Inr d'" "k \<notin> subtask_key ` set rows" by (auto simp: references_task_def res_iff)
  from Cons.IH [OF this] Cons.prems(2) show ?case by (simp add: subtasks_table.select_upsert)
qed

lemma insert_subtasks_planned:
  "insert_subtasks rows d = Inr d' \<Longrightarrow> distinct (map subtask_key rows) \<Longrightarrow> row \<in> set rows \<Longrightarrow>
    select_row subtask_key (subtask_key row) (db_subtasks d') =
      Some (case select_row subtask_key (subtask_key row) (db_subtasks d) of None \<Rightarrow> row | Some old \<Rightarrow> merge_subtask old row)"
proof (induction rows arbitrary: d)
  case Nil
  then show ?case by simp
next
  case (Cons r rows)
  let ?d1 = "d\<lparr>db_subtasks := upsert_row subtask_key merge_subtask r (db_subtasks d)\<rparr>"
  from Cons.prems have go: "insert_subtasks rows ?d1 = Inr d'" by (auto simp: references_task_def res_iff)
  show ?case
  proof (cases "row = r")
    case True
    from Cons.prems(2) insert_subtasks_other [OF go, of "subtask_key r"] show ?thesis
      unfolding True by (simp add: subtasks_table.select_upsert)
  next
    case False
    with Cons.prems have "row \<in> set rows" "distinct (map subtask_key rows)" by auto
    moreover have "subtask_key row \<noteq> subtask_key r" using Cons.prems(2) \<open>row \<in> set rows\<close> by auto (metis image_eqI)
    ultimately show ?thesis using Cons.IH [OF go] by (simp add: subtasks_table.select_upsert)
  qed
qed

theorem replanning_keeps_commits:
  assumes go: "insert_subtasks rows d = Inr d'" and dist: "distinct (map subtask_key rows)" and row: "row \<in> set rows"
  shows "select_row subtask_key (subtask_key row) (db_subtasks d') =
      (case select_row subtask_key (subtask_key row) (db_subtasks d) of
         None \<Rightarrow> Some row
       | Some old \<Rightarrow> Some (if sb_commit_sha old = None then row\<lparr>sb_commit_sha := None\<rparr> else old))"
proof -
  have same: "merge_subtask old row = (if sb_commit_sha old = None then row\<lparr>sb_commit_sha := None\<rparr> else old)"
    if "subtask_key old = subtask_key row" for old
    using that by (cases old; cases row) (auto simp: merge_subtask_def subtask_key_def)
  show ?thesis
    using insert_subtasks_planned [OF go dist row] same select_row_key [of subtask_key _ "db_subtasks d"]
    by (auto split: option.splits)
qed

lemma record_then_get_publish:
  assumes "record_publish_op now p d = Inr d'" and "pb_subtask_order p \<noteq> Some NO_SUBTASK" and "order \<noteq> Some NO_SUBTASK"
  shows "get_publish_op tid kd order d' =
    (if tid = pb_task_id p \<and> kd = pb_kind p \<and> order = pb_subtask_order p then Some p else get_publish_op tid kd order d)"
proof -
  have inj: "sub_key order = sub_key (pb_subtask_order p) \<longleftrightarrow> order = pb_subtask_order p"
    using assms(2,3) by (auto simp: sub_key_def split: option.splits)
  have undo: "(if sub_key (pb_subtask_order p) = NO_SUBTASK then None else Some (sub_key (pb_subtask_order p))) = pb_subtask_order p"
    using assms(2) by (auto simp: sub_key_def split: option.splits)
  from assms(1) show ?thesis
    using undo inj select_row_key [of publish_key _ "db_publish_operations d"]
    by (auto simp: record_publish_op_def references_task_def res_iff get_publish_op_def publish_table.select_upsert
        publish_key_def publish_row_def merge_publish_def split: option.splits)
qed

section \<open>The rework budget\<close>

lemma length_by_class: "length xs = sum_list (map (\<lambda>c. length (filter (\<lambda>x. f x = c) xs)) (remdups (map f xs)))"
proof -
  have "(\<Sum>c\<in>A. length (filter (\<lambda>x. f x = c) xs)) = length xs" if "finite A" "f ` set xs \<subseteq> A" for A
    using that
  proof (induction xs)
    case Nil
    then show ?case by simp
  next
    case (Cons x xs)
    have "(\<Sum>c\<in>A. length (filter (\<lambda>x. f x = c) (x # xs))) = (\<Sum>c\<in>A. (if f x = c then 1 else 0) + length (filter (\<lambda>x. f x = c) xs))"
      by (rule sum.cong) auto
    with Cons show ?case by (simp add: sum.distrib)
  qed
  from this [of "f ` set xs"] show ?thesis by (simp add: sum_list_distinct_conv_sum_set)
qed

lemma rework_count_is_sum:
  "count_rework_verdicts tid (Some nid) None d = sum_list (map snd (count_rework_verdicts_by_subtask tid nid d))"
  unfolding count_rework_verdicts_def count_rework_verdicts_by_subtask_def Let_def
  using length_by_class [of "filter (\<lambda>e. el_node_id e = Some nid) (rework_verdicts_in_force tid d)" el_subtask_order]
  by (simp add: comp_def)

lemma fold_max_mem: "fold max (xs :: int list) a \<in> insert a (set xs)"
  using Max_in [of "set (a # xs)"] Max.set_eq_fold [of a xs] by simp

lemma fold_max_ge: "x \<in> insert a (set xs) \<Longrightarrow> x \<le> fold max (xs :: int list) a"
  using Max_ge [of "set (a # xs)" x] by (simp only: Max.set_eq_fold [symmetric]) simp

lemma reset_ends_budget:
  assumes ok: "store_ok d" and go: "record_rework_budget_reset now tid d = Inr (eid, d')"
  shows "rework_verdicts_in_force tid d' = [] \<and> latest_budget_reset tid d' = eid"
proof -
  have d': "db_evaluations d' = db_evaluations d @ [(budget_reset_row tid)\<lparr>el_created_at := Some now, el_id := eid\<rparr>]"
    and eid: "eid = db_evaluation_seq d + 1"
    using go by (auto simp: record_rework_budget_reset_def record_evaluation_def references_task_def res_iff Let_def
        budget_reset_row_def or_now_def)
  have bound: "e \<in> set (db_evaluations d) \<Longrightarrow> el_id e < eid" for e
    using ok eid by (auto simp: store_ok_defs ids_ok_def)
  have nonneg: "0 \<le> eid" using ok eid by (auto simp: store_ok_defs ids_ok_def)
  let ?resets = "map el_id (filter (\<lambda>e. el_task_id e = tid \<and> el_kind e = REWORK_BUDGET_RESET) (db_evaluations d'))"
  have mem: "eid \<in> set ?resets" by (simp add: d' budget_reset_row_def)
  have "x \<le> eid" if "x \<in> insert 0 (set ?resets)" for x
    using that bound nonneg by (force simp: d' budget_reset_row_def)
  then have latest: "latest_budget_reset tid d' = eid"
    unfolding latest_budget_reset_def using mem fold_max_mem [of ?resets 0] fold_max_ge [of eid 0 ?resets]
    by (meson insertI2 order_antisym)
  have "rework_verdicts_in_force tid d' = []"
    unfolding rework_verdicts_in_force_def latest
    using bound by (force simp: filter_empty_conv d' budget_reset_row_def)
  with latest show ?thesis by simp
qed

text \<open>
  The rework budget of a task: the count over a node is the sum of its per-subtask counts; a
  budget reset ends every count, whatever the node and the subtask asked for; and the next rework
  verdict of a live run is the first of the new budget.
\<close>

theorem rework_budget:
  assumes "store_ok d" and "record_rework_budget_reset now tid d = Inr (eid, d')"
    and "record_evaluation now row d' = Inr (next_id, d'')" and "el_task_id row = tid" and "el_kind row = ''in_flow_verdict''"
    and "el_verdict row = ''rework''" and "run_exists d' row"
  shows "count_rework_verdicts tid (Some nid) None d = sum_list (map snd (count_rework_verdicts_by_subtask tid nid d)) \<and>
    count_rework_verdicts tid node order d' = 0 \<and> count_rework_verdicts tid None None d'' = 1 \<and>
    count_rework_verdicts tid (el_node_id row) (el_subtask_order row) d'' = 1"
proof -
  have d'': "d'' = d'\<lparr>db_evaluations := db_evaluations d' @ [row\<lparr>el_created_at := Some (or_now (el_created_at row) now), el_id := next_id\<rparr>],
      db_evaluation_seq := next_id\<rparr>" and nid: "next_id = db_evaluation_seq d' + 1"
    using assms(3) by (auto simp: record_evaluation_def references_task_def res_iff Let_def)
  have ended: "rework_verdicts_in_force tid d' = []" and latest: "latest_budget_reset tid d' = eid"
    using reset_ends_budget [OF assms(1,2)] by auto
  have seq: "db_evaluation_seq d' = eid"
    using assms(2) by (auto simp: record_rework_budget_reset_def record_evaluation_def references_task_def res_iff Let_def)
  have "latest_budget_reset tid d'' = eid"
    using latest assms(5) by (simp add: latest_budget_reset_def d'' REWORK_BUDGET_RESET_def)
  then have "rework_verdicts_in_force tid d'' = [row\<lparr>el_created_at := Some (or_now (el_created_at row) now), el_id := next_id\<rparr>]"
    using ended assms(4-7) by (simp add: rework_verdicts_in_force_def latest d'' run_exists_def nid seq)
  with ended rework_count_is_sum [of tid nid d] show ?thesis by (simp add: count_rework_verdicts_def)
qed

definition demo_verdict :: "string \<Rightarrow> evaluation_row" where
  "demo_verdict verdict = \<lparr>el_task_id = ''T1'', el_kind = ''in_flow_verdict'', el_verdict = verdict, el_findings_json = ''[]'',
     el_node_id = Some ''review'', el_source_node_run_id = Some 1, el_subtask_order = None, el_created_at = None, el_id = 0\<rparr>"

lemma rework_budget_witness:
  "\<exists>d' d''. record_rework_budget_reset ''t8'' ''T1'' (run_ops demo_store empty_db) = Inr (2, d') \<and>
     record_evaluation ''t8'' (demo_verdict ''rework'') d' = Inr (3, d'') \<and>
     count_rework_verdicts ''T1'' None None d' = 0 \<and> count_rework_verdicts ''T1'' (Some ''review'') None d'' = 1"
proof -
  obtain d' where d': "record_rework_budget_reset ''t8'' ''T1'' (run_ops demo_store empty_db) = Inr (2, d')"
    and live: "run_exists d' (demo_verdict ''rework'')" and seq: "db_evaluation_seq d' = 2" and has: "has_task ''T1'' d'"
    by (simp add: demo_eval_defs Let_def demo_verdict_def run_exists_def)
  have d'': "record_evaluation ''t8'' (demo_verdict ''rework'') d' =
      Inr (3, d'\<lparr>db_evaluations := db_evaluations d' @ [(demo_verdict ''rework'')\<lparr>el_created_at := Some ''t8'', el_id := 3\<rparr>], db_evaluation_seq := 3\<rparr>)"
    using seq has by (simp add: record_evaluation_def references_task_def require_def Let_def demo_verdict_def or_now_def)
  from rework_budget [OF demo_store_ok d' d'', where node = None and order = None] live d' d'' show ?thesis
    by (auto simp: demo_verdict_def)
qed

end
