(* ===== verification/StoreSchema.thy ===== *)
theory StoreSchema
  imports Prelude
begin

text \<open>
  Opening the state database (\<open>state_store.py\<close>): the schema script, the additive migration and the
  version gate.  The shape of a database is the list of its tables with their columns (name and
  declaration); the rows play no part here.
\<close>

type_synonym column = "string \<times> string"
type_synonym shape = "(string \<times> column list) list"

definition DB_SCHEMA_VERSION :: int where
  "DB_SCHEMA_VERSION = 28"

section \<open>The schema script\<close>

definition tasks_table :: "column list" where
  "tasks_table =
     [(''task_id'', ''TEXT PRIMARY KEY''), (''title'', ''TEXT NOT NULL''), (''status'', ''TEXT NOT NULL''),
      (''source_path'', ''TEXT''), (''source_sha256'', ''TEXT''), (''branch'', ''TEXT''), (''slug'', ''TEXT''),
      (''created_at'', ''TEXT NOT NULL''), (''updated_at'', ''TEXT NOT NULL''), (''validation_passed'', ''INTEGER''),
      (''validation_reason'', ''TEXT''), (''refinement_ran'', ''INTEGER''), (''refinement_skip_reason'', ''TEXT''),
      (''test_fix_cycles'', ''INTEGER NOT NULL DEFAULT 0''), (''review_fix_cycles'', ''INTEGER NOT NULL DEFAULT 0''),
      (''test_fix_total'', ''INTEGER NOT NULL DEFAULT 0''), (''review_fix_total'', ''INTEGER NOT NULL DEFAULT 0''),
      (''fix_iterations'', ''INTEGER NOT NULL DEFAULT 0''), (''decomposition_enabled'', ''INTEGER''),
      (''decomposition_accepted'', ''INTEGER''), (''decomposition_reason'', ''TEXT''),
      (''subtask_count'', ''INTEGER''), (''active_subtask'', ''INTEGER''),
      (''subtasks_completed'', ''INTEGER NOT NULL DEFAULT 0''), (''failure_report_path'', ''TEXT''),
      (''recovered_loop'', ''TEXT''), (''cleanup_target_branch'', ''TEXT''), (''cleanup_completed'', ''INTEGER''),
      (''cleanup_completed_at'', ''TEXT''), (''cleanup_last_error'', ''TEXT''), (''finished_at'', ''TEXT''),
      (''current_node'', ''TEXT''), (''flow_run_counters'', ''TEXT''), (''flow_fingerprint'', ''TEXT''),
      (''blocked_since'', ''TEXT''), (''blocked_until'', ''TEXT''), (''control_bundle_digest'', ''TEXT''),
      (''instruction_manifest_digest'', ''TEXT''), (''exchange_contaminated'', ''INTEGER NOT NULL DEFAULT 0''),
      (''exchange_active_unsafe'', ''INTEGER NOT NULL DEFAULT 0''), (''gate_reference_sha'', ''TEXT''),
      (''push_url_digest'', ''TEXT''), (''base_ref'', ''TEXT''), (''quarantine_refs'', ''TEXT'')]"

definition node_runs_table :: "column list" where
  "node_runs_table =
     [(''id'', ''INTEGER PRIMARY KEY AUTOINCREMENT''), (''task_id'', ''TEXT NOT NULL REFERENCES tasks(task_id)''),
      (''node_id'', ''TEXT NOT NULL''), (''node_kind'', ''TEXT NOT NULL''), (''subtask_order'', ''INTEGER''),
      (''status'', ''TEXT''), (''outcome'', ''TEXT''), (''route_primary'', ''TEXT''), (''route_fallback'', ''TEXT''),
      (''route_source'', ''TEXT''), (''provider_used'', ''TEXT''), (''error_class'', ''TEXT''),
      (''stage_attempts'', ''INTEGER NOT NULL DEFAULT 0''), (''commit_sha_before'', ''TEXT''),
      (''commit_sha_after'', ''TEXT''), (''started_at'', ''TEXT''), (''finished_at'', ''TEXT''),
      (''skipped'', ''INTEGER NOT NULL DEFAULT 0''), (''skip_reason'', ''TEXT''), (''abort_reason'', ''TEXT''),
      (''skills_allowed'', ''INTEGER NOT NULL DEFAULT 0''), (''skills_required'', ''TEXT'')]"

definition provider_attempts_table :: "column list" where
  "provider_attempts_table =
     [(''id'', ''INTEGER PRIMARY KEY AUTOINCREMENT''), (''task_id'', ''TEXT NOT NULL''),
      (''node_run_id'', ''INTEGER''), (''supervisor_function'', ''TEXT''), (''provider'', ''TEXT NOT NULL''),
      (''attempt'', ''INTEGER NOT NULL''), (''model'', ''TEXT''), (''reasoning'', ''TEXT''), (''status'', ''TEXT''),
      (''error_class'', ''TEXT''), (''exit_code'', ''INTEGER''), (''attempt_dir'', ''TEXT''),
      (''started_at'', ''TEXT''), (''finished_at'', ''TEXT''), (''usage_scope'', ''TEXT''),
      (''usage_input_total'', ''INTEGER''), (''usage_cache_read'', ''INTEGER''), (''usage_cache_write'', ''INTEGER''),
      (''usage_uncached_input'', ''INTEGER''), (''usage_output_total'', ''INTEGER''),
      (''usage_reasoning_output'', ''INTEGER''), (''usage_cost'', ''REAL''), (''usage_delta_status'', ''TEXT''),
      (''provider_usage_raw'', ''TEXT'')]"

definition check_runs_table :: "column list" where
  "check_runs_table =
     [(''id'', ''INTEGER PRIMARY KEY AUTOINCREMENT''), (''task_id'', ''TEXT NOT NULL REFERENCES tasks(task_id)''),
      (''subtask_order'', ''INTEGER''), (''command'', ''TEXT NOT NULL''), (''exit_code'', ''INTEGER''),
      (''timed_out'', ''INTEGER NOT NULL DEFAULT 0''), (''passed'', ''INTEGER NOT NULL''),
      (''log_path'', ''TEXT NOT NULL''), (''skipped'', ''INTEGER NOT NULL DEFAULT 0''), (''started_at'', ''TEXT''),
      (''finished_at'', ''TEXT'')]"

definition artifacts_table :: "column list" where
  "artifacts_table =
     [(''id'', ''INTEGER PRIMARY KEY AUTOINCREMENT''), (''task_id'', ''TEXT NOT NULL REFERENCES tasks(task_id)''),
      (''kind'', ''TEXT NOT NULL''), (''path'', ''TEXT NOT NULL''), (''checksum'', ''TEXT NOT NULL''),
      (''created_at'', ''TEXT NOT NULL'')]"

definition publish_operations_table :: "column list" where
  "publish_operations_table =
     [(''id'', ''INTEGER PRIMARY KEY AUTOINCREMENT''), (''task_id'', ''TEXT NOT NULL REFERENCES tasks(task_id)''),
      (''kind'', ''TEXT NOT NULL''), (''subtask_order'', ''INTEGER NOT NULL DEFAULT -1''),
      (''fingerprint'', ''TEXT NOT NULL''), (''result_ref'', ''TEXT''), (''pushed_sha'', ''TEXT''),
      (''status'', ''TEXT NOT NULL''), (''created_at'', ''TEXT NOT NULL'')]"

definition subtasks_table :: "column list" where
  "subtasks_table =
     [(''id'', ''INTEGER PRIMARY KEY AUTOINCREMENT''), (''task_id'', ''TEXT NOT NULL REFERENCES tasks(task_id)''),
      (''order'', ''INTEGER NOT NULL''), (''slug'', ''TEXT NOT NULL''), (''title'', ''TEXT NOT NULL''),
      (''status'', ''TEXT NOT NULL''), (''depends_on'', ''TEXT NOT NULL''), (''commit_sha'', ''TEXT''),
      (''artifact_path'', ''TEXT'')]"

definition evaluations_table :: "column list" where
  "evaluations_table =
     [(''id'', ''INTEGER PRIMARY KEY AUTOINCREMENT''), (''task_id'', ''TEXT NOT NULL REFERENCES tasks(task_id)''),
      (''node_id'', ''TEXT''), (''source_node_run_id'', ''INTEGER''), (''subtask_order'', ''INTEGER''),
      (''kind'', ''TEXT NOT NULL''), (''verdict'', ''TEXT NOT NULL''), (''findings_json'', ''TEXT NOT NULL''),
      (''created_at'', ''TEXT NOT NULL'')]"

definition editing_lineage_table :: "column list" where
  "editing_lineage_table =
     [(''task_id'', ''TEXT NOT NULL REFERENCES tasks(task_id)''),
      (''subtask_order'', ''INTEGER NOT NULL DEFAULT -1''), (''lineage_key'', ''TEXT NOT NULL''),
      (''provider'', ''TEXT NOT NULL''), (''raw_session_id'', ''TEXT NOT NULL''), (''updated_at'', ''TEXT NOT NULL''),
      (''usage_snapshot'', ''TEXT'')]"

definition node_lineage_table :: "column list" where
  "node_lineage_table =
     [(''task_id'', ''TEXT NOT NULL REFERENCES tasks(task_id)''), (''node_id'', ''TEXT NOT NULL''),
      (''subtask_order'', ''INTEGER NOT NULL DEFAULT -1''), (''provider'', ''TEXT NOT NULL''),
      (''raw_session_id'', ''TEXT NOT NULL''), (''updated_at'', ''TEXT NOT NULL''), (''usage_snapshot'', ''TEXT'')]"

definition SCHEMA :: shape where
  "SCHEMA = [(''tasks'', tasks_table),
     (''node_runs'', node_runs_table),
     (''provider_attempts'', provider_attempts_table),
     (''check_runs'', check_runs_table),
     (''artifacts'', artifacts_table),
     (''publish_operations'', publish_operations_table),
     (''subtasks'', subtasks_table),
     (''evaluations'', evaluations_table),
     (''editing_lineage'', editing_lineage_table),
     (''node_lineage'', node_lineage_table)]"

definition ADDITIVE_TASK_COLUMNS :: "column list" where
  "ADDITIVE_TASK_COLUMNS =
     [(''current_node'', ''TEXT''), (''flow_run_counters'', ''TEXT''), (''flow_fingerprint'', ''TEXT''),
      (''blocked_since'', ''TEXT''), (''blocked_until'', ''TEXT''), (''source_sha256'', ''TEXT''),
      (''test_fix_total'', ''INTEGER NOT NULL DEFAULT 0''), (''review_fix_total'', ''INTEGER NOT NULL DEFAULT 0''),
      (''recovered_loop'', ''TEXT''), (''control_bundle_digest'', ''TEXT''),
      (''instruction_manifest_digest'', ''TEXT''), (''exchange_contaminated'', ''INTEGER NOT NULL DEFAULT 0''),
      (''exchange_active_unsafe'', ''INTEGER NOT NULL DEFAULT 0''), (''gate_reference_sha'', ''TEXT''),
      (''push_url_digest'', ''TEXT''), (''base_ref'', ''TEXT''), (''quarantine_refs'', ''TEXT'')]"

definition ADDITIVE_ATTEMPT_COLUMNS :: "column list" where
  "ADDITIVE_ATTEMPT_COLUMNS =
     [(''task_id'', ''TEXT NOT NULL DEFAULT '' @ [CHR 0x27, CHR 0x27]), (''supervisor_function'', ''TEXT''),
      (''model'', ''TEXT''), (''reasoning'', ''TEXT''), (''usage_scope'', ''TEXT''),
      (''usage_input_total'', ''INTEGER''), (''usage_cache_read'', ''INTEGER''), (''usage_cache_write'', ''INTEGER''),
      (''usage_uncached_input'', ''INTEGER''), (''usage_output_total'', ''INTEGER''),
      (''usage_reasoning_output'', ''INTEGER''), (''usage_cost'', ''REAL''), (''usage_delta_status'', ''TEXT''),
      (''provider_usage_raw'', ''TEXT'')]"

section \<open>Migration\<close>

definition column_names :: "column list \<Rightarrow> string list" where
  "column_names cols = map fst cols"

text \<open>\<open>ALTER TABLE ADD COLUMN\<close> behind its \<open>PRAGMA table_info\<close> check.\<close>

definition add_column :: "column \<Rightarrow> column list \<Rightarrow> column list" where
  "add_column c cols = (if fst c \<in> set (column_names cols) then cols else cols @ [c])"

definition add_columns :: "column list \<Rightarrow> column list \<Rightarrow> column list" where
  "add_columns new cols = fold add_column new cols"

definition alter_table :: "string \<Rightarrow> column list \<Rightarrow> shape \<Rightarrow> shape" where
  "alter_table name new sh = map (\<lambda>(n, cols). (n, if n = name then add_columns new cols else cols)) sh"

definition migrate_task_columns :: "shape \<Rightarrow> shape" where
  "migrate_task_columns sh = alter_table ''tasks'' ADDITIVE_TASK_COLUMNS sh"

definition migrate_node_run_columns :: "shape \<Rightarrow> shape" where
  "migrate_node_run_columns sh = alter_table ''node_runs'' [(''abort_reason'', ''TEXT'')] sh"

definition migrate_usage_columns :: "shape \<Rightarrow> shape" where
  "migrate_usage_columns sh =
     alter_table ''node_lineage'' [(''usage_snapshot'', ''TEXT'')]
       (alter_table ''editing_lineage'' [(''usage_snapshot'', ''TEXT'')]
         (alter_table ''provider_attempts'' ADDITIVE_ATTEMPT_COLUMNS sh))"

definition migrate :: "shape \<Rightarrow> shape" where
  "migrate sh =
     (let tasks = migrate_task_columns sh;
          runs = migrate_node_run_columns tasks;
          publish = alter_table ''publish_operations'' [(''pushed_sha'', ''TEXT'')] runs
      in migrate_usage_columns publish)"

section \<open>Opening\<close>

datatype schema_error = NewerSchema int | OlderSchema int

text \<open>\<open>CREATE TABLE IF NOT EXISTS\<close> for every table of the script.\<close>

definition apply_schema :: "shape \<Rightarrow> shape" where
  "apply_schema sh = fold (\<lambda>t sh. if fst t \<in> set (map fst sh) then sh else sh @ [t]) SCHEMA sh"

definition enforce_schema_version :: "bool \<Rightarrow> int \<times> shape \<Rightarrow> schema_error + int \<times> shape" where
  "enforce_schema_version writable d =
     (let current = fst d
      in if current > DB_SCHEMA_VERSION then Inl (NewerSchema current)
         else if 0 < current \<and> current < DB_SCHEMA_VERSION then Inl (OlderSchema current)
         else if writable then Inr (if current \<noteq> DB_SCHEMA_VERSION then DB_SCHEMA_VERSION else current, migrate (snd d))
         else Inr d)"

definition open_store :: "int \<times> shape \<Rightarrow> schema_error + int \<times> shape" where
  "open_store d = enforce_schema_version True (fst d, apply_schema (snd d))"

definition open_readonly :: "int \<times> shape \<Rightarrow> schema_error + int \<times> shape" where
  "open_readonly d = enforce_schema_version False d"

section \<open>The opened database\<close>

definition columns_of :: "string \<Rightarrow> shape \<Rightarrow> string list" where
  "columns_of name sh = (case map_of sh name of None \<Rightarrow> [] | Some cols \<Rightarrow> column_names cols)"

lemma add_columns_names: "set (column_names (add_columns new cols)) = set (column_names cols) \<union> set (column_names new)"
  unfolding add_columns_def
  by (induction new arbitrary: cols) (auto simp: add_column_def column_names_def)

lemma add_columns_present: "set (column_names new) \<subseteq> set (column_names cols) \<Longrightarrow> add_columns new cols = cols"
  unfolding add_columns_def
  by (induction new) (auto simp: add_column_def column_names_def)

lemma map_of_alter: "map_of (alter_table name new sh) n = map_option (\<lambda>cols. if n = name then add_columns new cols else cols) (map_of sh n)"
  by (induction sh) (auto simp: alter_table_def)

lemma alter_names: "map fst (alter_table name new sh) = map fst sh"
  by (simp add: alter_table_def comp_def case_prod_beta)

text \<open>A shape in which the migration has nothing to add.\<close>

definition holds :: "shape \<Rightarrow> string \<Rightarrow> column list \<Rightarrow> bool" where
  "holds sh name new \<longleftrightarrow> list_all (\<lambda>(n, cols). n = name \<longrightarrow> set (column_names new) \<subseteq> set (column_names cols)) sh"

lemma alter_done: "holds sh name new \<Longrightarrow> alter_table name new sh = sh"
  by (induction sh) (auto simp: alter_table_def holds_def add_columns_present)

lemma alter_holds: "holds (alter_table name new sh) name new"
  by (auto simp: alter_table_def holds_def list_all_iff add_columns_names)

lemma holds_alter: "holds sh name new \<Longrightarrow> holds (alter_table name' new' sh) name new"
  by (fastforce simp: alter_table_def holds_def list_all_iff add_columns_names)

definition migrated :: "shape \<Rightarrow> bool" where
  "migrated sh \<longleftrightarrow> holds sh ''tasks'' ADDITIVE_TASK_COLUMNS \<and> holds sh ''node_runs'' [(''abort_reason'', ''TEXT'')] \<and>
     holds sh ''publish_operations'' [(''pushed_sha'', ''TEXT'')] \<and> holds sh ''provider_attempts'' ADDITIVE_ATTEMPT_COLUMNS \<and>
     holds sh ''editing_lineage'' [(''usage_snapshot'', ''TEXT'')] \<and> holds sh ''node_lineage'' [(''usage_snapshot'', ''TEXT'')]"

lemmas migrate_defs = migrate_def migrate_task_columns_def migrate_node_run_columns_def migrate_usage_columns_def Let_def

lemma migrate_migrated: "migrated (migrate sh)"
  by (simp add: migrate_defs migrated_def alter_holds holds_alter)

lemma migrate_done: "migrated sh \<Longrightarrow> migrate sh = sh"
  by (simp add: migrate_defs migrated_def alter_done)

lemma migrate_names: "map fst (migrate sh) = map fst sh"
  by (simp add: migrate_defs alter_names)

lemma columns_alter: "set (columns_of n sh) \<subseteq> set (columns_of n (alter_table name new sh))"
  by (auto simp: columns_of_def map_of_alter add_columns_names split: option.splits)

lemma columns_migrate: "set (columns_of n sh) \<subseteq> set (columns_of n (migrate sh))"
  unfolding migrate_defs by (meson columns_alter order_trans)

lemma fold_tables_names:
  "set (map fst (fold (\<lambda>t sh. if fst t \<in> set (map fst sh) then sh else sh @ [t]) ts sh)) = set (map fst sh) \<union> set (map fst ts)"
  by (induction ts arbitrary: sh) auto

lemma fold_tables_map_of:
  "map_of sh n = Some cols \<Longrightarrow> map_of (fold (\<lambda>t sh. if fst t \<in> set (map fst sh) then sh else sh @ [t]) ts sh) n = Some cols"
  by (induction ts arbitrary: sh) (auto simp: map_add_def)

lemma fold_tables_done:
  "set (map fst ts) \<subseteq> set (map fst sh) \<Longrightarrow> fold (\<lambda>t sh. if fst t \<in> set (map fst sh) then sh else sh @ [t]) ts sh = sh"
  by (induction ts) auto

lemma fresh_schema: "apply_schema [] = SCHEMA"
  by code_simp

lemma schema_migrated: "migrated SCHEMA"
  by code_simp

lemma schema_names: "set (map fst (apply_schema sh)) = set (map fst sh) \<union> set (map fst SCHEMA)"
  unfolding apply_schema_def by (rule fold_tables_names)

text \<open>
  C30. Opening a database is safe to repeat and loses nothing: a fresh file gets exactly the tables of
  the script and the current version; an adopted one keeps every table and column it had, gains the
  missing ones, and opening it again changes nothing; and a versioned database of any other
  version is refused on both ways of opening.
\<close>

theorem open_store_migrates:
  "open_store (0, []) = Inr (DB_SCHEMA_VERSION, SCHEMA) \<and>
   (case open_store (v, sh) of
      Inl e \<Rightarrow> v \<noteq> DB_SCHEMA_VERSION \<and> 0 < v \<and> open_readonly (v, sh) = Inl e
    | Inr d' \<Rightarrow> (v \<le> 0 \<or> v = DB_SCHEMA_VERSION) \<and> fst d' = DB_SCHEMA_VERSION \<and> open_store d' = Inr d' \<and> open_readonly d' = Inr d' \<and>
        set (map fst (snd d')) = set (map fst sh) \<union> set (map fst SCHEMA) \<and>
        set (columns_of n sh) \<subseteq> set (columns_of n (snd d')) \<and> migrated (snd d'))"
proof -
  have fresh: "open_store (0, []) = Inr (DB_SCHEMA_VERSION, SCHEMA)"
    using migrate_done [OF schema_migrated]
    by (simp add: open_store_def enforce_schema_version_def DB_SCHEMA_VERSION_def fresh_schema)
  have again: "apply_schema (migrate (apply_schema sh)) = migrate (apply_schema sh)"
    unfolding apply_schema_def
    by (rule fold_tables_done) (use schema_names [of sh] in \<open>auto simp: migrate_names apply_schema_def\<close>)
  have kept: "set (columns_of n sh) \<subseteq> set (columns_of n (apply_schema sh))"
    unfolding columns_of_def apply_schema_def
    by (cases "map_of sh n") (simp_all only: fold_tables_map_of option.case set_simps(1) empty_subsetI order_refl)
  have names: "set (map fst (migrate (apply_schema sh))) = set (map fst sh) \<union> set (map fst SCHEMA)"
    by (simp only: migrate_names schema_names)
  show ?thesis
    using fresh again names order_trans [OF kept columns_migrate] migrate_migrated [of "apply_schema sh"]
      migrate_done [OF migrate_migrated [of "apply_schema sh"]]
    by (auto simp: open_store_def open_readonly_def enforce_schema_version_def Let_def DB_SCHEMA_VERSION_def)
qed

end
