(* ===== verification/Recorder.thy ===== *)
theory Recorder
  imports FlowEngine StateStore PyValues
begin

text \<open>
  What a flow run durably records (\<open>core/flow/recorder.py\<close>): the persistence adapter of the engine,
  the step record of a run and the checkpoint a resume reads; the open node-run lifetime of
  \<open>core/flow/nodes/base.py\<close>; and the ledger with its failure report (\<open>ledger.py\<close>).  \<open>json.loads\<close> of
  a stored findings text is the argument \<open>loads\<close>, the text files of a run are the argument \<open>read_file\<close>;
  the long dash of the messages is written \<open>--\<close>.
\<close>

section \<open>Failure evidence\<close>

definition read_last_findings :: "(string \<Rightarrow> yval option) \<Rightarrow> string \<Rightarrow> db \<Rightarrow> yval list option" where
  "read_last_findings loads tid d =
     (let verdicts = filter (\<lambda>e. el_kind e = ''in_flow_verdict'') (get_evaluations tid d)
      in if verdicts = [] then None
         else case loads (el_findings_json (last verdicts)) of
                Some (YList fs) \<Rightarrow> Some fs
              | _ \<Rightarrow> None)"

record attempt_evidence =
  ae_provider :: string
  ae_attempt :: int
  ae_error_class :: "string option"
  ae_exit_code :: "int option"
  ae_started_at :: "string option"

record failure_evidence =
  fe_node_id :: "string option"
  fe_provider_attempts :: "attempt_evidence list"
  fe_check_log_note :: "string option"

definition no_evidence :: failure_evidence where
  "no_evidence = \<lparr>fe_node_id = None, fe_provider_attempts = [], fe_check_log_note = None\<rparr>"

text \<open>\<open>{n:06d}\<close>\<close>

definition pad6 :: "int \<Rightarrow> string" where
  "pad6 n = (let s = show_int n in replicate (6 - length s) CHR ''0'' @ s)"

definition check_log_note :: "node_run_row \<Rightarrow> string option" where
  "check_log_note r =
     (if nd_node_kind r \<noteq> ''tool'' then None
      else let place = (if nd_id r \<noteq> 0 then ''stages/'' @ nd_node_id r @ ''/run-'' @ pad6 (nd_id r) @ ''/stdout.txt''
                         else ''its run'')
           in Some (''no check log: '' @ [quote_char] @ nd_node_id r @ [quote_char] @
                ''is a tool node, and tool nodes do not write check runs -- their output is the redacted stream at '' @
                place @ '' under this task'' @ [quote_char] @ ''s log directory''))"

definition failing_node_evidence :: "string \<Rightarrow> string option \<Rightarrow> db \<Rightarrow> failure_evidence" where
  "failing_node_evidence tid nid d =
     (case nid of
        None \<Rightarrow> no_evidence
      | Some n \<Rightarrow>
          (let runs = filter (\<lambda>r. nd_node_id r = n) (get_node_runs tid d)
           in if runs = [] then no_evidence\<lparr>fe_node_id := Some n\<rparr>
              else \<lparr>fe_node_id = Some n,
                    fe_provider_attempts = map (\<lambda>a. \<lparr>ae_provider = at_provider a, ae_attempt = at_attempt a,
                        ae_error_class = at_error_class a, ae_exit_code = at_exit_code a,
                        ae_started_at = at_started_at a\<rparr>) (get_provider_attempts (nd_id (last runs)) d),
                    fe_check_log_note = check_log_note (last runs)\<rparr>))"

section \<open>The step record\<close>

record step_facts =
  sf_node_id :: string
  sf_node_kind :: string
  sf_status :: "string option"
  sf_outcome :: "string option"
  sf_stage_attempts :: int
  sf_subtask_order :: "int option"
  sf_provider_used :: "string option"
  sf_fallback_from :: "string option"
  sf_error_class :: "string option"
  sf_skipped :: bool
  sf_skip_reason :: "string option"
  sf_started_at :: "string option"
  sf_finished_at :: "string option"
  sf_message :: "string option"
  sf_tool_data :: "string option"
  sf_tool_stdout :: "string option"
  sf_findings :: "string option"

definition fell_back_from :: "node_run_row \<Rightarrow> string option" where
  "fell_back_from r =
     (case (nd_provider_used r, nd_route_primary r) of
        (Some used, Some primary) \<Rightarrow>
          if used \<noteq> [] \<and> primary \<noteq> [] \<and> used \<noteq> primary then Some primary else None
      | _ \<Rightarrow> None)"

definition step_facts_of ::
    "node_run_row \<Rightarrow> string option \<Rightarrow> string option \<Rightarrow> string option \<Rightarrow> string option \<Rightarrow> step_facts" where
  "step_facts_of r message tool_data tool_stdout found =
     \<lparr>sf_node_id = nd_node_id r, sf_node_kind = nd_node_kind r, sf_status = nd_status r, sf_outcome = nd_outcome r,
      sf_stage_attempts = nd_stage_attempts r, sf_subtask_order = nd_subtask_order r,
      sf_provider_used = nd_provider_used r, sf_fallback_from = fell_back_from r, sf_error_class = nd_error_class r,
      sf_skipped = nd_skipped r, sf_skip_reason = nd_skip_reason r, sf_started_at = nd_started_at r,
      sf_finished_at = nd_finished_at r, sf_message = message, sf_tool_data = tool_data, sf_tool_stdout = tool_stdout,
      sf_findings = found\<rparr>"

text \<open>A later verdict of a run replaces an earlier one.\<close>

definition verdicts_by_run :: "evaluation_row list \<Rightarrow> int \<rightharpoonup> string" where
  "verdicts_by_run evs =
     fold (\<lambda>e m. case el_source_node_run_id e of
                   Some rid \<Rightarrow> if el_kind e = ''in_flow_verdict'' then m(rid \<mapsto> el_findings_json e) else m
                 | None \<Rightarrow> m) evs Map.empty"

text \<open>\<open>node_run_dir\<close> of \<open>providers/artifacts.py\<close>, as path segments below the artifacts root.\<close>

definition node_run_dir :: "string \<Rightarrow> string \<Rightarrow> int \<Rightarrow> string list" where
  "node_run_dir tid nid rid = [''logs'', tid, ''stages'', nid, ''run-'' @ pad6 rid]"

text \<open>\<open>tool_data\<close> is what \<open>tool_reported_data\<close> read from the stream, already rendered; \<open>None\<close> when it reported none.\<close>

definition tool_output ::
    "(string list \<Rightarrow> string option) \<Rightarrow> (string \<Rightarrow> string option) \<Rightarrow> string \<Rightarrow> node_run_row \<Rightarrow> string option \<times> string option" where
  "tool_output read_file tool_data tid r =
     (if nd_node_kind r \<noteq> ''tool'' then (None, None)
      else case read_file (node_run_dir tid (nd_node_id r) (nd_id r) @ [''stdout.txt'']) of
             None \<Rightarrow> (None, None)
           | Some out \<Rightarrow> (tool_data out, if out \<noteq> [] then Some out else None))"

definition step_message :: "(string list \<Rightarrow> string option) \<Rightarrow> string \<Rightarrow> node_run_row \<Rightarrow> string option" where
  "step_message read_file tid r = read_file (node_run_dir tid (nd_node_id r) (nd_id r) @ [nd_node_id r @ ''.out.md''])"

definition collect_step_facts ::
    "(string list \<Rightarrow> string option) \<Rightarrow> (string \<Rightarrow> string option) \<Rightarrow> string \<Rightarrow> node_run_row list \<Rightarrow>
     evaluation_row list \<Rightarrow> step_facts list" where
  "collect_step_facts read_file tool_data tid runs evs =
     map (\<lambda>r. let (data, out) = tool_output read_file tool_data tid r
              in step_facts_of r (step_message read_file tid r) data out (verdicts_by_run evs (nd_id r))) runs"

section \<open>The recorder of the engine\<close>

definition skip_text :: "skip_reason \<Rightarrow> string" where
  "skip_text why = (case why of
       DisabledByTask nid \<Rightarrow> ''disabled by task: nodes.'' @ nid @ ''.enabled=false''
     | DeterministicSkip guard eq \<Rightarrow>
         ''deterministic skip: when '' @ guard @ '' != '' @ (if eq then ''True'' else ''False''))"

definition record_skip ::
    "string \<Rightarrow> string \<Rightarrow> string \<Rightarrow> string \<Rightarrow> skip_reason \<Rightarrow> int option \<Rightarrow> db \<Rightarrow> store_error + db" where
  "record_skip now tid nid kd why order d =
     map_sum id snd (record_node_skip now tid nid kd (skip_text why) order d)"

definition save_checkpoint :: "string \<Rightarrow> string \<Rightarrow> flow_run_state \<Rightarrow> db \<Rightarrow> db" where
  "save_checkpoint now tid rs d =
     save_flow_checkpoint now tid (current_node rs) (loop_counters rs) (flow_fingerprint rs) (fix_iterations rs) d"

record decomposed_failure =
  df_subtask_count :: nat
  df_subtasks_completed :: nat
  df_failing_subtask :: int
  df_committed_shas :: "string list"

definition decomposed_failure_of :: "string \<Rightarrow> int option \<Rightarrow> db \<Rightarrow> decomposed_failure option" where
  "decomposed_failure_of tid order d =
     (case order of
        None \<Rightarrow> None
      | Some n \<Rightarrow>
          (let subtasks = get_subtasks tid d;
               committed = List.map_filter (\<lambda>s. case sb_commit_sha s of
                   Some sha \<Rightarrow> if sha \<noteq> [] then Some sha else None | None \<Rightarrow> None) subtasks
           in Some \<lparr>df_subtask_count = length subtasks, df_subtasks_completed = length committed,
                    df_failing_subtask = n, df_committed_shas = committed\<rparr>))"

text \<open>The content of \<open>failure_report.json\<close>.\<close>

record failure_report =
  rp_task_id :: string
  rp_loop :: string
  rp_limit :: string
  rp_counters :: "string \<rightharpoonup> int"
  rp_check_log :: "string option"
  rp_findings :: "yval list"
  rp_diff :: string
  rp_decomposed :: "decomposed_failure option"
  rp_evidence :: failure_evidence

definition or_unknown :: "string option \<Rightarrow> string" where
  "or_unknown l = (case l of Some s \<Rightarrow> if s \<noteq> [] then s else ''unknown'' | None \<Rightarrow> ''unknown'')"

definition failure_report_of ::
    "(string \<Rightarrow> yval option) \<Rightarrow> string \<Rightarrow> string \<Rightarrow> string \<Rightarrow> string option \<Rightarrow> string \<Rightarrow> flow_run_state \<Rightarrow>
     int option \<Rightarrow> db \<Rightarrow> failure_report" where
  "failure_report_of loads diff tid nid loop limit rs order d =
     \<lparr>rp_task_id = tid, rp_loop = or_unknown loop, rp_limit = limit, rp_counters = loop_counters rs, rp_check_log = None,
      rp_findings = (case read_last_findings loads tid d of None \<Rightarrow> [] | Some fs \<Rightarrow> fs), rp_diff = diff,
      rp_decomposed = decomposed_failure_of tid order d, rp_evidence = failing_node_evidence tid (Some nid) d\<rparr>"

definition record_failure_report :: "string \<Rightarrow> string \<Rightarrow> string \<Rightarrow> db \<Rightarrow> db" where
  "record_failure_report now tid path d = update_task now tid [tk_failure_report_path_update (\<lambda>_. Some path)] d"

definition hydrate_run_state :: "string \<Rightarrow> db \<Rightarrow> store_error + flow_run_state option" where
  "hydrate_run_state tid d =
     bind_res (get_flow_checkpoint tid d) (\<lambda>(node, counters, fingerprint).
       Inr (case fingerprint of
              None \<Rightarrow> None
            | Some fp \<Rightarrow> Some \<lparr>flow_fingerprint = fp, current_node = node,
                completed_nodes = map nd_node_id (get_node_runs tid d),
                loop_counters = (case counters of None \<Rightarrow> Map.empty | Some c \<Rightarrow> c)\<rparr>))"

section \<open>One open node run\<close>

text \<open>
  \<open>open_node_run\<close>: reserve the row, run the node's body with its id, close the row on every exit.
  The body answers what it did to the store, whether it completed the row itself, and how it ended.
\<close>

record body_end =
  bd_db :: db
  bd_closed :: bool
  bd_raised :: "(string \<times> string) option"

definition ABORT_REASON_MAX :: nat where
  "ABORT_REASON_MAX = 500"

definition abort_run :: "string \<Rightarrow> int \<Rightarrow> string \<Rightarrow> db \<Rightarrow> store_error + db" where
  "abort_run now rid reason d =
     complete_node_run rid \<lparr>rn_status = ''aborted'', rn_outcome = None, rn_provider_used = None, rn_error_class = None,
       rn_stage_attempts = 0, rn_finished_at = now, rn_commit_sha_after = None,
       rn_abort_reason = Some (take ABORT_REASON_MAX reason)\<rparr> d"

definition raised_text :: "string \<times> string \<Rightarrow> string" where
  "raised_text e = (if snd e \<noteq> [] then fst e @ '': '' @ snd e else fst e)"

definition open_node_run ::
    "string \<Rightarrow> (int \<Rightarrow> db \<Rightarrow> body_end) \<Rightarrow> node_run_row \<Rightarrow> db \<Rightarrow> store_error + (string \<times> string) option \<times> db" where
  "open_node_run now body row d =
     bind_res (record_node_run row d) (\<lambda>(rid, d1).
       let e = body rid d1
       in if bd_closed e then Inr (bd_raised e, bd_db e)
          else bind_res (abort_run now rid
                 (case bd_raised e of
                    Some ex \<Rightarrow> raised_text ex
                  | None \<Rightarrow> ''the node runner returned without recording an outcome'') (bd_db e))
               (\<lambda>d2. Inr (bd_raised e, d2)))"

section \<open>The ledger\<close>

record ledger_record =
  lg_id :: string
  lg_title :: string
  lg_final_status :: string
  lg_finished_at :: string
  lg_branch :: "string option"
  lg_pr_url :: "string option"
  lg_auto_merged :: bool
  lg_merge_outcome :: "string option"
  lg_fix_iterations :: int
  lg_terminal_cleanup :: "string option"
  lg_failure_report :: "string option"
  lg_validation_reason :: "string option"
  lg_decomposed :: bool
  lg_subtask_count :: "int option"
  lg_subtasks_completed :: "int option"
  lg_attempt :: int
  lg_rerun_of :: "string option"
  lg_manual :: bool
  lg_note :: "string option"
  lg_outcome :: "string option"
  lg_governance_changed :: "string list"
  lg_advanced_mode :: bool
  lg_recovered_from_stuck :: bool
  lg_recovered_loop :: "string option"
  lg_stop_node :: "string option"
  lg_stuck_loop :: "string option"
  lg_stuck_limit :: "string option"

definition ledger_append :: "ledger_record \<Rightarrow> ledger_record list \<Rightarrow> ledger_record list" where
  "ledger_append r ledger = ledger @ [r]"

definition ledger_has_task_id :: "string \<Rightarrow> ledger_record list \<Rightarrow> bool" where
  "ledger_has_task_id tid ledger = list_ex (\<lambda>r. lg_id r = tid) ledger"

definition only_validation_rejects :: "string \<Rightarrow> ledger_record list \<Rightarrow> bool" where
  "only_validation_rejects tid ledger =
     (let mine = filter (\<lambda>r. lg_id r = tid) ledger
      in mine \<noteq> [] \<and> list_all (\<lambda>r. lg_validation_reason r \<noteq> None \<and> lg_validation_reason r \<noteq> Some []) mine)"

text \<open>\<open>_ledger_attempt_count\<close> of the orchestrator: gate refusals do not count.\<close>

definition ledger_attempt_count :: "string \<Rightarrow> ledger_record list \<Rightarrow> nat" where
  "ledger_attempt_count tid ledger =
     length (filter (\<lambda>r. lg_id r = tid \<and> (lg_validation_reason r = None \<or> lg_validation_reason r = Some [])) ledger)"

end
