(* ===== verification/RecordedRuns.thy ===== *)
theory RecordedRuns
  imports Recorder TranslateFlow StoreProps
begin

text \<open>
  The engine and the store together.  A run of the engine is a trace of recorder events; \<open>persist\<close>
  replays such a trace into the database, one log entry per event, with whatever the node runners and
  the post-node hook wrote to the store in between.  What a resume reads back is the engine's state.
\<close>

section \<open>Replaying a trace into the database\<close>

text \<open>One event, when it was recorded, what the event's own code wrote, and the report path of a stuck run.\<close>

record log_entry =
  le_event :: recorder_event
  le_now :: string
  le_ops :: "(string \<times> store_op) list"
  le_report :: string

definition kind_of :: "engine \<Rightarrow> string \<Rightarrow> string" where
  "kind_of eng nid = (case node_at (snapshot eng) nid of None \<Rightarrow> [] | Some n \<Rightarrow> node_kind n)"

fun event_ops :: "engine \<Rightarrow> log_entry \<Rightarrow> (string \<times> store_op) list" where
  "event_ops eng l =
     (case le_event l of
        RecordSkip nid why order \<Rightarrow> [(le_now l, RecordNodeSkip (task_id eng) nid (kind_of eng nid) (skip_text why) order)]
      | SaveCheckpoint rs \<Rightarrow>
          [(le_now l, SaveFlowCheckpoint (task_id eng) (current_node rs) (loop_counters rs) (flow_fingerprint rs) (fix_iterations rs))]
      | WriteFailureReport nid loop limit rs order \<Rightarrow>
          [(le_now l, UpdateTask (task_id eng) [tk_failure_report_path_update (\<lambda>_. Some (le_report l))])]
      | RunNode nid ctx \<Rightarrow> le_ops l
      | PostNode nid out rid \<Rightarrow> le_ops l)"

definition persist :: "engine \<Rightarrow> log_entry list \<Rightarrow> db \<Rightarrow> db" where
  "persist eng logs d = run_ops (concat (map (event_ops eng) logs)) d"

text \<open>The recorder's own methods are these operations.\<close>

lemma event_ops_recorder:
  "record_skip now (task_id eng) nid (kind_of eng nid) why order d =
     apply_op now (RecordNodeSkip (task_id eng) nid (kind_of eng nid) (skip_text why) order) d"
  "Inr (save_checkpoint now (task_id eng) rs d) =
     apply_op now (SaveFlowCheckpoint (task_id eng) (current_node rs) (loop_counters rs) (flow_fingerprint rs) (fix_iterations rs)) d"
  "Inr (record_failure_report now (task_id eng) path d) =
     apply_op now (UpdateTask (task_id eng) [tk_failure_report_path_update (\<lambda>_. Some path)]) d"
  by (simp_all add: record_skip_def save_checkpoint_def record_failure_report_def)

section \<open>What a resume reads\<close>

definition checkpoint_columns :: "string \<Rightarrow> db \<Rightarrow> (string option \<times> (string \<rightharpoonup> int) option \<times> string option \<times> int) option" where
  "checkpoint_columns tid d =
     map_option (\<lambda>r. (tk_current_node r, tk_flow_run_counters r, tk_flow_fingerprint r, tk_fix_iterations r)) (get_task tid d)"

definition run_nodes :: "string \<Rightarrow> db \<Rightarrow> string list" where
  "run_nodes tid d = map nd_node_id (get_node_runs tid d)"

lemma hydrate_columns:
  "hydrate_run_state tid d =
     (case checkpoint_columns tid d of
        None \<Rightarrow> Inl (NoSuchTask tid)
      | Some (node, counters, None, n) \<Rightarrow> Inr None
      | Some (node, counters, Some fp, n) \<Rightarrow> Inr (Some \<lparr>flow_fingerprint = fp, current_node = node,
          completed_nodes = run_nodes tid d, loop_counters = (case counters of None \<Rightarrow> Map.empty | Some c \<Rightarrow> c)\<rparr>))"
  by (auto simp: hydrate_run_state_def get_flow_checkpoint_def task_columns_def checkpoint_columns_def run_nodes_def
      split: option.splits)

text \<open>Setters that leave the checkpoint alone, and the operations node code may run.\<close>

definition keeps_checkpoint :: "(task_row \<Rightarrow> task_row) \<Rightarrow> bool" where
  "keeps_checkpoint f \<longleftrightarrow> (\<forall>r. tk_current_node (f r) = tk_current_node r \<and> tk_flow_run_counters (f r) = tk_flow_run_counters r \<and>
     tk_flow_fingerprint (f r) = tk_flow_fingerprint r \<and> tk_fix_iterations (f r) = tk_fix_iterations r)"

fun leaves_checkpoint :: "string \<Rightarrow> store_op \<Rightarrow> bool" where
  "leaves_checkpoint tid (UpdateTask t flds) = (t \<noteq> tid \<or> list_all keeps_checkpoint flds)"
| "leaves_checkpoint tid (ResetTaskForRerun t) = (t \<noteq> tid)"
| "leaves_checkpoint tid (SaveCounters t c) = (t \<noteq> tid)"
| "leaves_checkpoint tid (SaveFlowCheckpoint t n c f i) = (t \<noteq> tid)"
| "leaves_checkpoint tid op = True"

text \<open>The node runs an operation opens for the task.\<close>

fun opens_run :: "string \<Rightarrow> store_op \<Rightarrow> string list" where
  "opens_run tid (RecordNodeRun run) = (if nd_task_id run = tid then [nd_node_id run] else [])"
| "opens_run tid (RecordNodeSkip t nid kd reason order) = (if t = tid then [nid] else [])"
| "opens_run tid op = []"

text \<open>Node code opens exactly one run of its node (\<open>open_node_run\<close>), post-node code none.\<close>

definition log_ok :: "engine \<Rightarrow> log_entry \<Rightarrow> bool" where
  "log_ok eng l \<longleftrightarrow> list_all (op_ok \<circ> snd) (le_ops l) \<and> list_all (leaves_checkpoint (task_id eng) \<circ> snd) (le_ops l) \<and>
     (case le_event l of
        RunNode nid ctx \<Rightarrow> concat (map (opens_run (task_id eng) \<circ> snd) (le_ops l)) = [nid]
      | PostNode nid out rid \<Rightarrow> concat (map (opens_run (task_id eng) \<circ> snd) (le_ops l)) = []
      | _ \<Rightarrow> True)"

lemma fold_keeps_checkpoint:
  "list_all keeps_checkpoint flds \<Longrightarrow> keeps_checkpoint (fold (\<lambda>f r. f r) flds)"
proof (induction flds)
  case Nil
  then show ?case by (simp add: keeps_checkpoint_def)
next
  case (Cons f flds)
  then show ?case by (simp add: keeps_checkpoint_def)
qed

lemma columns_update_keep:
  assumes "list_all keeps_id flds" and "t \<noteq> tid \<or> list_all keeps_checkpoint flds"
  shows "checkpoint_columns tid (update_task now t flds d) = checkpoint_columns tid d"
proof -
  have "keeps_checkpoint (fold (\<lambda>f r. f r) flds)" if "t = tid" using assms(2) that fold_keeps_checkpoint by blast
  then show ?thesis
    by (auto simp: checkpoint_columns_def get_task_update [OF assms(1)] keeps_checkpoint_def option.map_comp comp_def)
qed


lemma columns_frame [simp]:
  "checkpoint_columns tid (d\<lparr>db_node_runs := a\<rparr>) = checkpoint_columns tid d"
  "checkpoint_columns tid (d\<lparr>db_node_run_seq := n\<rparr>) = checkpoint_columns tid d"
  "checkpoint_columns tid (d\<lparr>db_provider_attempts := b\<rparr>) = checkpoint_columns tid d"
  "checkpoint_columns tid (d\<lparr>db_check_runs := c\<rparr>) = checkpoint_columns tid d"
  "checkpoint_columns tid (d\<lparr>db_artifacts := e\<rparr>) = checkpoint_columns tid d"
  "checkpoint_columns tid (d\<lparr>db_publish_operations := f\<rparr>) = checkpoint_columns tid d"
  "checkpoint_columns tid (d\<lparr>db_subtasks := g\<rparr>) = checkpoint_columns tid d"
  "checkpoint_columns tid (d\<lparr>db_evaluations := h\<rparr>) = checkpoint_columns tid d"
  "checkpoint_columns tid (d\<lparr>db_evaluation_seq := n\<rparr>) = checkpoint_columns tid d"
  "checkpoint_columns tid (d\<lparr>db_editing_lineage := i\<rparr>) = checkpoint_columns tid d"
  "checkpoint_columns tid (d\<lparr>db_node_lineage := j\<rparr>) = checkpoint_columns tid d"
  by (simp_all add: checkpoint_columns_def)

lemma columns_other: "task_view tid d' = task_view tid d \<Longrightarrow> checkpoint_columns tid d' = checkpoint_columns tid d \<and> run_nodes tid d' = run_nodes tid d"
  by (simp add: task_view_def checkpoint_columns_def run_nodes_def)

lemma columns_insert_task: "has_task tid d \<Longrightarrow> checkpoint_columns tid (insert_task now row d) = checkpoint_columns tid d"
  by (auto simp: checkpoint_columns_def get_task_insert merge_task_def has_task_get)

lemma insert_subtasks_frame: "insert_subtasks rows d = Inr d' \<Longrightarrow> db_tasks d' = db_tasks d \<and> db_node_runs d' = db_node_runs d"
proof (induction rows arbitrary: d)
  case Nil
  then show ?case by simp
next
  case (Cons row rows)
  let ?d1 = "d\<lparr>db_subtasks := upsert_row subtask_key merge_subtask row (db_subtasks d)\<rparr>"
  from Cons.prems have "insert_subtasks rows ?d1 = Inr d'" by (auto simp: references_task_def res_iff)
  from Cons.IH [OF this] show ?case by simp
qed

lemma columns_tasks: "db_tasks d' = db_tasks d \<Longrightarrow> checkpoint_columns tid d' = checkpoint_columns tid d"
  by (simp add: checkpoint_columns_def get_task_def)

lemma run_nodes_runs: "db_node_runs d' = db_node_runs d \<Longrightarrow> run_nodes tid d' = run_nodes tid d"
  by (simp add: run_nodes_def get_node_runs_def)

lemma run_nodes_update_rows:
  "(\<And>r. nd_task_id (f r) = nd_task_id r \<and> nd_node_id (f r) = nd_node_id r) \<Longrightarrow>
    map nd_node_id (filter (\<lambda>r. nd_task_id r = tid) (update_rows p f t)) = map nd_node_id (filter (\<lambda>r. nd_task_id r = tid) t)"
  by (induction t) (auto simp: update_rows_def)

lemma keeps_checkpoint_setters [simp]:
  "keeps_checkpoint (tk_status_update f1)" "keeps_checkpoint (tk_failure_report_path_update f2)"
  "keeps_checkpoint (tk_quarantine_refs_update f3)" "keeps_checkpoint (tk_gate_reference_sha_update f2)"
  "keeps_checkpoint (tk_push_url_digest_update f2)" "keeps_checkpoint (tk_base_ref_update f2)"
  "keeps_checkpoint (tk_blocked_until_update f2)" "keeps_checkpoint (tk_finished_at_update f2)"
  "keeps_checkpoint (tk_cleanup_completed_update f4)" "keeps_checkpoint (tk_cleanup_completed_at_update f2)"
  "keeps_checkpoint (tk_cleanup_last_error_update f2)" "keeps_checkpoint (tk_cleanup_target_branch_update f2)"
  by (simp_all add: keeps_checkpoint_def)

lemma quarantine_columns: "checkpoint_columns tid (append_quarantine_ref now t ref d) = checkpoint_columns tid d"
  by (auto simp: append_quarantine_ref_def columns_update_keep split: option.splits)

lemma quarantine_runs: "db_node_runs (append_quarantine_ref now t ref d) = db_node_runs d"
  by (auto simp: append_quarantine_ref_def split: option.splits)

lemma record_node_run_effect:
  "record_node_run run d = Inr (rid, d') \<Longrightarrow> checkpoint_columns tid d' = checkpoint_columns tid d \<and>
     run_nodes tid d' = run_nodes tid d @ (if nd_task_id run = tid then [nd_node_id run] else [])"
  by (auto simp: record_node_run_def references_task_def res_iff Let_def run_nodes_def get_node_runs_def)

text \<open>One operation: the checkpoint stays, the run list grows by the runs it opens.\<close>

lemma apply_op_effect:
  assumes ok: "op_ok op" and keep: "leaves_checkpoint tid op" and has: "has_task tid d" and go: "apply_op now op d = Inr d'"
  shows "checkpoint_columns tid d' = checkpoint_columns tid d \<and> run_nodes tid d' = run_nodes tid d @ opens_run tid op"
proof (cases op)
  case (InsertTask row)
  with assms show ?thesis by (auto simp: columns_insert_task intro: run_nodes_runs)
next
  case (UpdateTask t flds)
  with assms show ?thesis by (auto simp: columns_update_keep intro: run_nodes_runs)
next
  case (AppendQuarantineRef t ref)
  with assms show ?thesis by (auto simp: quarantine_columns quarantine_runs intro: run_nodes_runs)
next
  case (SetStatus t st)
  with assms show ?thesis by (auto simp: task_op_defs columns_update_keep intro: run_nodes_runs)
next
  case (ResetTaskForRerun t)
  with assms columns_other [OF view_reset [of tid t now d]] show ?thesis by auto
next
  case (ReviveTaskForContinue t st)
  with assms show ?thesis by (auto simp: task_op_defs columns_update_keep intro: run_nodes_runs)
next
  case (SaveCounters t c)
  with assms show ?thesis by (auto simp: task_op_defs columns_update_keep intro: run_nodes_runs)
next
  case (RecordNodeRun run)
  with go obtain rid where "record_node_run run d = Inr (rid, d')" by (auto simp: map_sum_snd_Inr)
  from record_node_run_effect [OF this, of tid] RecordNodeRun show ?thesis by simp
next
  case (RecordNodeSkip t nid kd reason order)
  with go obtain rid where "record_node_run (skipped_run now t nid kd reason order) d = Inr (rid, d')"
    by (auto simp: map_sum_snd_Inr record_node_skip_def)
  from record_node_run_effect [OF this, of tid] RecordNodeSkip show ?thesis by (simp add: skipped_run_def)
next
  case (CompleteNodeRun rid c)
  with go show ?thesis
    by (auto simp: complete_node_run_def res_iff run_nodes_def get_node_runs_def run_nodes_update_rows completed_run_def)
next
  case (ReconcileOpenNodeRuns t fin st err ab)
  with go show ?thesis
    by (auto simp: reconcile_open_node_runs_def Let_def run_nodes_def get_node_runs_def run_nodes_update_rows)
next
  case (SaveFlowCheckpoint t node counters fp n)
  with assms show ?thesis by (auto simp: task_op_defs columns_update_keep intro: run_nodes_runs)
next
  case (SetGateReference t sha)
  with assms show ?thesis by (auto simp: task_op_defs columns_update_keep intro: run_nodes_runs)
next
  case (SetPushUrlDigest t dg)
  with assms show ?thesis by (auto simp: task_op_defs columns_update_keep intro: run_nodes_runs)
next
  case (SetBaseRef t sha)
  with assms show ?thesis by (auto simp: task_op_defs columns_update_keep intro: run_nodes_runs)
next
  case (InsertSubtasks rows)
  with go have "db_tasks d' = db_tasks d" "db_node_runs d' = db_node_runs d" using insert_subtasks_frame [of rows d d'] by auto
  with InsertSubtasks show ?thesis using columns_tasks [of d' d tid] run_nodes_runs [of d' d tid] by simp
qed (use go in \<open>auto simp: map_sum_snd_Inr store_write_defs res_iff Let_def set_subtask_commit_def run_nodes_def get_node_runs_def\<close>)

section \<open>The run list and the trace\<close>

definition event_nodes :: "recorder_event \<Rightarrow> string list" where
  "event_nodes ev = (case ev of RunNode nid ctx \<Rightarrow> [nid] | RecordSkip nid why order \<Rightarrow> [nid] | _ \<Rightarrow> [])"

definition nodes_of :: "recorder_event list \<Rightarrow> string list" where
  "nodes_of evs = concat (map event_nodes evs)"

lemma nodes_of_simps [simp]:
  "nodes_of [] = []" "nodes_of (ev # evs) = event_nodes ev @ nodes_of evs" "nodes_of (a @ b) = nodes_of a @ nodes_of b"
  "event_nodes (SaveCheckpoint rs) = []" "event_nodes (WriteFailureReport n l limit rs order) = []"
  by (simp_all add: nodes_of_def event_nodes_def)

lemma execute_node_nodes:
  "execute_node eng t node s = (s', Inr outcome) \<Longrightarrow> \<exists>tr. trace s' = trace s @ tr \<and> nodes_of tr = [node_id node]"
  by (auto simp: execute_node_def Let_def nodes_of_def event_nodes_def emit_def split: if_splits sum.splits option.splits)

lemma charge_completed: "charge_rework eng e rs = (rs', st) \<Longrightarrow> completed_nodes rs' = completed_nodes rs"
  by (auto simp: charge_rework_def Let_def record_rework_def split: option.splits)

lemma reset_loops_completed: "completed_nodes (run_state (reset_loops_at eng nid s)) = completed_nodes (run_state s)"
proof -
  have "completed_nodes (run_state (fold reset_loop_of es s)) = completed_nodes (run_state s)" for es
    by (induction es arbitrary: s) (auto simp: reset_loop_of_def split: option.splits)
  then show ?thesis by (simp add: reset_loops_at_def)
qed

lemma advance_completed: "advance eng nid e s = (s', r) \<Longrightarrow> completed_nodes (run_state s') = completed_nodes (run_state s)"
  by (auto simp: advance_def Let_def emit_def split: option.splits if_splits)

lemma park_completed: "park_stuck eng t nid st s = (s', r) \<Longrightarrow> completed_nodes (run_state s') = completed_nodes (run_state s)"
  by (auto simp: park_stuck_def Let_def emit_def)

lemma take_rework_completed:
  assumes "take_rework eng t node e s = (s', r)"
  shows "completed_nodes (run_state s') = completed_nodes (run_state s)"
proof -
  obtain s1 stalled where s1: "(case e_loop e of
       Some l \<Rightarrow> if \<not> advisory node then check_stall eng t (node_id node) l s else (s, None)
     | None \<Rightarrow> (s, None)) = (s1, stalled)" (is "?x = _") by (cases ?x)
  then have c: "run_state s1 = run_state s" by (auto split: option.splits if_splits dest: check_stall_run_state)
  obtain rs st where ch: "charge_rework eng e (run_state s1) = (rs, st)" by (cases "charge_rework eng e (run_state s1)")
  from assms s1 ch show ?thesis
    using charge_completed [OF ch] c
    by (cases stalled; cases st) (auto simp: take_rework_def dest!: park_completed advance_completed)
qed

lemma after_node_completed:
  "after_node eng t node outcome s = (s', r) \<Longrightarrow> completed_nodes (run_state s') = completed_nodes (run_state s) @ [node_id node]"
  by (auto simp: after_node_def Let_def emit_def mark_completed_def reset_loops_completed
      split: if_splits sum.splits dest!: take_rework_completed advance_completed)

lemma after_node_nodes:
  assumes "after_node eng t node outcome s = (s', r)"
  shows "\<exists>tr. trace s' = trace s @ tr \<and> nodes_of tr = []"
  using after_node_trace [OF assms refl] by cases auto

lemma engine_step_completed:
  assumes "wf_snapshot (snapshot eng)" and "engine_step eng t s = (s', r)" and "settled r"
  shows "\<exists>tr. trace s' = trace s @ tr \<and> completed_nodes (run_state s') = completed_nodes (run_state s) @ nodes_of tr"
proof -
  from assms(2,3) obtain cur node0 node s1 outcome where
      ex: "execute_node eng t node s = (s1, Inr outcome)" and an: "after_node eng t node outcome s1 = (s', r)"
    by (auto simp: engine_step_def split: option.splits if_splits sum.splits prod.splits)
  obtain tr1 where tr1: "trace s1 = trace s @ tr1" "nodes_of tr1 = [node_id node]" using execute_node_nodes [OF ex] by blast
  obtain tr2 where tr2: "trace s' = trace s1 @ tr2" "nodes_of tr2 = []" using after_node_nodes [OF an] by blast
  have "run_state s1 = run_state s" using execute_node_run_state [OF ex] .
  with after_node_completed [OF an] tr1 tr2 show ?thesis by (intro exI [of _ "tr1 @ tr2"]) simp
qed

lemma run_completed:
  assumes "wf_snapshot (snapshot eng)" and "run_machine (engine_step eng) ts s = (s', r)" and "settled r"
  shows "\<exists>tr. trace s' = trace s @ tr \<and> completed_nodes (run_state s') = completed_nodes (run_state s) @ nodes_of tr"
  using assms(2)
proof (induction ts arbitrary: s)
  case Nil
  then show ?case by auto
next
  case (Cons t ts)
  obtain s1 q where s1: "engine_step eng t s = (s1, q)" by (cases "engine_step eng t s")
  show ?case
  proof (cases q)
    case None
    with Cons.prems s1 have "run_machine (engine_step eng) ts s1 = (s', r)" by simp
    from Cons.IH [OF this] engine_step_completed [OF assms(1) s1] None show ?thesis by auto
  next
    case (Some x)
    with Cons.prems s1 have "s1 = s'" "r = q" by simp_all
    with engine_step_completed [OF assms(1) s1] assms(3) show ?thesis by auto
  qed
qed

section \<open>The replayed database\<close>

definition columns_of_state :: "flow_run_state \<Rightarrow> string option \<times> (string \<rightharpoonup> int) option \<times> string option \<times> int" where
  "columns_of_state rs = (current_node rs, Some (loop_counters rs), Some (flow_fingerprint rs), fix_iterations rs)"

definition has_save :: "recorder_event list \<Rightarrow> bool" where
  "has_save evs = list_ex (\<lambda>ev. case ev of SaveCheckpoint rs \<Rightarrow> True | _ \<Rightarrow> False) evs"

lemma no_save_saved: "\<not> has_save evs \<Longrightarrow> saved base evs = base"
  by (induction evs) (auto simp: has_save_def split: recorder_event.splits)

lemma has_task_extends: "extends d d' \<Longrightarrow> has_task tid d \<Longrightarrow> has_task tid d'"
  by (auto simp: extends_def has_task_keys)

lemma opens_run_succeeds: "has_task tid d \<Longrightarrow> opens_run tid op \<noteq> [] \<Longrightarrow> \<exists>d'. apply_op now op d = Inr d'"
  by (cases op) (auto simp: record_node_run_def record_node_skip_def skipped_run_def references_task_def require_def bind_res_def Let_def split: if_splits)

lemma transaction_effect:
  assumes "op_ok op" and "leaves_checkpoint tid op" and "has_task tid d"
  shows "checkpoint_columns tid (snd (transaction (apply_op now op) d)) = checkpoint_columns tid d \<and>
    run_nodes tid (snd (transaction (apply_op now op) d)) = run_nodes tid d @ opens_run tid op \<and>
    has_task tid (snd (transaction (apply_op now op) d))"
proof (cases "apply_op now op d")
  case (Inl e)
  with opens_run_succeeds [OF assms(3), of op now] have "opens_run tid op = []" by auto
  with Inl assms(3) show ?thesis by (simp add: transaction_def)
next
  case (Inr d')
  with apply_op_effect [OF assms Inr] has_task_extends [OF apply_op_extends [OF assms(1) Inr] assms(3)] show ?thesis
    by (simp add: transaction_def)
qed

lemma run_ops_effect:
  assumes "list_all (op_ok \<circ> snd) ops" and "list_all (leaves_checkpoint tid \<circ> snd) ops" and "has_task tid d"
  shows "checkpoint_columns tid (run_ops ops d) = checkpoint_columns tid d \<and>
    run_nodes tid (run_ops ops d) = run_nodes tid d @ concat (map (opens_run tid \<circ> snd) ops) \<and> has_task tid (run_ops ops d)"
  using assms
proof (induction ops arbitrary: d)
  case Nil
  then show ?case by simp
next
  case (Cons op ops)
  obtain now o1 where op: "op = (now, o1)" by (cases op)
  from Cons.prems op transaction_effect [of o1 tid d now]
  have "checkpoint_columns tid (snd (transaction (apply_op now o1) d)) = checkpoint_columns tid d"
    "run_nodes tid (snd (transaction (apply_op now o1) d)) = run_nodes tid d @ opens_run tid o1"
    "has_task tid (snd (transaction (apply_op now o1) d))" by auto
  with Cons op show ?case by simp
qed

lemma save_effect:
  assumes "has_task tid d"
  shows "checkpoint_columns tid (save_flow_checkpoint now tid node c fp n d) = Some (node, Some c, Some fp, n)"
proof -
  have keep: "list_all keeps_id [tk_current_node_update (\<lambda>_. node), tk_flow_run_counters_update (\<lambda>_. Some c),
     tk_flow_fingerprint_update (\<lambda>_. Some fp), tk_fix_iterations_update (\<lambda>_. n)]" by simp
  from assms obtain row where "get_task tid d = Some row" by (auto simp: has_task_get)
  then show ?thesis
    by (simp add: checkpoint_columns_def save_flow_checkpoint_def get_task_update [OF keep])
qed

lemma event_effect:
  assumes "log_ok eng l" and "has_task (task_id eng) d"
  shows "run_nodes (task_id eng) (run_ops (event_ops eng l) d) = run_nodes (task_id eng) d @ event_nodes (le_event l) \<and>
    has_task (task_id eng) (run_ops (event_ops eng l) d) \<and>
    checkpoint_columns (task_id eng) (run_ops (event_ops eng l) d) =
      (case le_event l of SaveCheckpoint rs \<Rightarrow> Some (columns_of_state rs) | _ \<Rightarrow> checkpoint_columns (task_id eng) d)"
proof (cases "le_event l")
  case (RecordSkip nid why order)
  have "list_all (op_ok \<circ> snd) (event_ops eng l)" "list_all (leaves_checkpoint (task_id eng) \<circ> snd) (event_ops eng l)"
    using RecordSkip by auto
  from run_ops_effect [OF this assms(2)] RecordSkip show ?thesis by (simp add: event_nodes_def)
next
  case (SaveCheckpoint rs)
  have run: "run_ops (event_ops eng l) d =
      save_flow_checkpoint (le_now l) (task_id eng) (current_node rs) (loop_counters rs) (flow_fingerprint rs) (fix_iterations rs) d"
    using SaveCheckpoint by (simp add: transaction_def)
  have "has_task (task_id eng) (run_ops (event_ops eng l) d)"
    by (rule has_task_extends [OF run_ops_extends assms(2)]) (simp add: SaveCheckpoint)
  moreover have "run_nodes (task_id eng) (run_ops (event_ops eng l) d) = run_nodes (task_id eng) d"
    unfolding run by (rule run_nodes_runs) (simp add: save_flow_checkpoint_def)
  moreover have "checkpoint_columns (task_id eng) (run_ops (event_ops eng l) d) = Some (columns_of_state rs)"
    unfolding run save_effect [OF assms(2)] columns_of_state_def ..
  ultimately show ?thesis using SaveCheckpoint by simp
next
  case (WriteFailureReport nid loop limit rs order)
  have "list_all (op_ok \<circ> snd) (event_ops eng l)" "list_all (leaves_checkpoint (task_id eng) \<circ> snd) (event_ops eng l)"
    using WriteFailureReport by auto
  from run_ops_effect [OF this assms(2)] WriteFailureReport show ?thesis by simp
next
  case (RunNode nid ctx)
  have "list_all (op_ok \<circ> snd) (event_ops eng l)" "list_all (leaves_checkpoint (task_id eng) \<circ> snd) (event_ops eng l)"
    using RunNode assms(1) by (auto simp: log_ok_def)
  from run_ops_effect [OF this assms(2)] RunNode assms(1) show ?thesis by (simp add: log_ok_def event_nodes_def)
next
  case (PostNode nid out rid)
  have "list_all (op_ok \<circ> snd) (event_ops eng l)" "list_all (leaves_checkpoint (task_id eng) \<circ> snd) (event_ops eng l)"
    using PostNode assms(1) by (auto simp: log_ok_def)
  from run_ops_effect [OF this assms(2)] PostNode assms(1) show ?thesis by (simp add: log_ok_def event_nodes_def)
qed

lemma run_ops_app: "run_ops (a @ b) d = run_ops b (run_ops a d)"
  by (rule run_ops_append)

lemma persist_effect:
  assumes "list_all (log_ok eng) logs" and "has_task (task_id eng) d"
  shows "run_nodes (task_id eng) (persist eng logs d) = run_nodes (task_id eng) d @ nodes_of (map le_event logs) \<and>
    has_task (task_id eng) (persist eng logs d) \<and>
    checkpoint_columns (task_id eng) (persist eng logs d) =
      (if has_save (map le_event logs) then Some (columns_of_state (saved base (map le_event logs)))
       else checkpoint_columns (task_id eng) d)"
  using assms
proof (induction logs arbitrary: d base)
  case Nil
  then show ?case by (simp add: persist_def has_save_def)
next
  case (Cons l logs)
  let ?d1 = "run_ops (event_ops eng l) d"
  have l: "log_ok eng l" "list_all (log_ok eng) logs" using Cons.prems(1) by auto
  note ev = event_effect [OF l(1) Cons.prems(2)]
  have split: "persist eng (l # logs) d = persist eng logs ?d1"
    unfolding persist_def by (simp add: run_ops_append del: event_ops.simps)
  have IH: "run_nodes (task_id eng) (persist eng logs ?d1) = run_nodes (task_id eng) ?d1 @ nodes_of (map le_event logs) \<and>
    has_task (task_id eng) (persist eng logs ?d1) \<and>
    checkpoint_columns (task_id eng) (persist eng logs ?d1) =
      (if has_save (map le_event logs) then Some (columns_of_state (saved b (map le_event logs)))
       else checkpoint_columns (task_id eng) ?d1)" for b
    using Cons.IH [OF l(2)] ev by blast
  show ?case
    unfolding split
    using IH [of "saved base [le_event l]"] ev no_save_saved [of "map le_event logs"]
    by (auto simp: has_save_def split: recorder_event.splits)
qed

lemma hydrate_state:
  "checkpoint_columns tid d = Some (columns_of_state rs) \<Longrightarrow> run_nodes tid d = completed_nodes rs \<Longrightarrow>
    hydrate_run_state tid d = Inr (Some rs)"
  by (simp add: hydrate_columns columns_of_state_def)

lemma saved_any: "(\<And>base. saved base tr = rs) \<Longrightarrow> has_save tr"
proof (rule ccontr)
  assume all: "\<And>base. saved base tr = rs" and "\<not> has_save tr"
  then have "base = rs" for base using no_save_saved [of tr base] by simp
  from this [of "rs\<lparr>flow_fingerprint := flow_fingerprint rs @ [CHR ''x'']\<rparr>"] show False
    by (metis append_self_conv flow_run_state.select_convs(1) flow_run_state.surjective flow_run_state.update_convs(1) list.distinct(1))
qed

text \<open>
  C31. A resume reads back exactly what the engine had.  When a run of the engine returns, and its
  recorder and its nodes wrote to the database what they write (each node run opening one row for its
  node, and none of the node's other writes touching the checkpoint), then the checkpoint a later
  process rebuilds from the database is the final state of the run: node, completed nodes, every
  counter and the fingerprint.
\<close>

theorem resume_reads_final_state:
  assumes "wf_snapshot (snapshot eng)" and run: "engine_run eng ticks s = (s', Some (Returned res))"
    and logs: "trace s' = trace s @ map le_event logs" "list_all (log_ok eng) logs"
    and task: "has_task (task_id eng) d"
    and before: "map nd_node_id (get_node_runs (task_id eng) d) = completed_nodes (run_state s)"
  shows "hydrate_run_state (task_id eng) (persist eng logs d) = Inr (Some (run_state s'))"
proof -
  let ?u = "s\<lparr>run_state := seeded eng (run_state s)\<rparr>"
  have go: "run_machine (engine_step eng) ticks ?u = (s', Some (Returned res))"
    using run by (auto simp: engine_run_def seeded_def start_node_def split: option.splits sum.splits)
  from run_saved [OF assms(1) go] logs(1) have all: "saved base (map le_event logs) = run_state s'" for base by auto
  from run_completed [OF assms(1) go] logs(1)
  have "completed_nodes (run_state s') = completed_nodes (run_state s) @ nodes_of (map le_event logs)"
    by (auto simp: seeded_def)
  with persist_effect [OF logs(2) task] saved_any [OF all] all before show ?thesis
    by (intro hydrate_state) (simp_all add: run_nodes_def)
qed

text \<open>A log in which every node opens its one run and writes nothing else.\<close>

definition plain_run :: "string \<Rightarrow> string \<Rightarrow> node_run_row" where
  "plain_run tid nid = (skipped_run ''t'' tid nid ''agent'' ''none'' None)\<lparr>nd_skipped := False, nd_status := Some ''done''\<rparr>"

definition plain_log :: "engine \<Rightarrow> recorder_event \<Rightarrow> log_entry" where
  "plain_log eng ev = \<lparr>le_event = ev, le_now = ''t'', le_ops = (case ev of
       RunNode nid ctx \<Rightarrow> [(''t'', RecordNodeRun (plain_run (task_id eng) nid))] | _ \<Rightarrow> []), le_report = ''report.json''\<rparr>"

lemma plain_log_ok: "log_ok eng (plain_log eng ev)"
  by (cases ev) (simp_all add: log_ok_def plain_log_def plain_run_def skipped_run_def)

lemma plain_log_event: "map le_event (map (plain_log eng) evs) = evs"
  by (simp add: plain_log_def comp_def)

definition one_task :: "string \<Rightarrow> db" where
  "one_task tid = run_ops [(''t0'', InsertTask (demo_task tid))] empty_db"

lemma one_task_reads: "has_task tid (one_task tid)" "get_node_runs tid (one_task tid) = []"
  by (simp_all add: one_task_def transaction_def insert_task_def inserted_task_def demo_task_def empty_db_def has_task_def get_node_runs_def)

lemma resume_reads_final_state_witness:
  "\<exists>s'. engine_run translate_engine (replicate 5 (tick_with ''accept'')) fresh_run =
       (s', Some (Returned (done_result ''publish''))) \<and>
     hydrate_run_state (task_id translate_engine)
       (persist translate_engine (map (plain_log translate_engine) (trace s')) (one_task (task_id translate_engine))) =
     Inr (Some (run_state s'))"
proof -
  obtain s' where run: "engine_run translate_engine (replicate 5 (tick_with ''accept'')) fresh_run =
      (s', Some (Returned (done_result ''publish'')))"
    using translate_accepts by (metis prod.collapse)
  have "hydrate_run_state (task_id translate_engine)
       (persist translate_engine (map (plain_log translate_engine) (trace s')) (one_task (task_id translate_engine))) =
     Inr (Some (run_state s'))"
    by (rule resume_reads_final_state [OF _ run])
      (simp_all add: translate_engine_fields translate_flow_ok fresh_run_def plain_log_event plain_log_ok list_all_iff one_task_reads
        del: map_map)
  with run show ?thesis by blast
qed

section \<open>Node runs are closed, failure reports may be stale\<close>

text \<open>Whatever the body does, the row of the run is finished once the block is left without a store error.\<close>

lemma node_run_closed:
  assumes "open_node_run now body row d = Inr (ex, d')"
    and body: "\<And>rid d1. bd_closed (body rid d1) \<Longrightarrow> \<exists>r\<in>set (db_node_runs (bd_db (body rid d1))). nd_id r = rid \<and> nd_finished_at r \<noteq> None"
  shows "\<exists>r\<in>set (db_node_runs d'). nd_id r = db_node_run_seq d + 1 \<and> nd_finished_at r \<noteq> None"
proof -
  obtain rid d1 where rec: "record_node_run row d = Inr (rid, d1)"
    and go: "(let e = body rid d1 in if bd_closed e then Inr (bd_raised e, bd_db e)
          else bind_res (abort_run now rid (case bd_raised e of Some x \<Rightarrow> raised_text x
                  | None \<Rightarrow> ''the node runner returned without recording an outcome'') (bd_db e))
               (\<lambda>d2. Inr (bd_raised e, d2))) = Inr (ex, d')"
    using assms(1) by (auto simp: open_node_run_def res_iff simp del: bind_res_simps)
  have rid: "rid = db_node_run_seq d + 1" using rec by (auto simp: record_node_run_def references_task_def res_iff Let_def)
  show ?thesis
  proof (cases "bd_closed (body rid d1)")
    case True
    with go body [OF True] rid show ?thesis by (auto simp: Let_def)
  next
    case False
    with go obtain reason where ab: "abort_run now rid reason (bd_db (body rid d1)) = Inr d'"
      by (auto simp: Let_def res_iff)
    then have "filter (\<lambda>r. nd_id r = rid) (db_node_runs (bd_db (body rid d1))) \<noteq> []"
      by (auto simp: abort_run_def complete_node_run_def res_iff)
    then obtain r where "r \<in> set (db_node_runs (bd_db (body rid d1)))" "nd_id r = rid"
      by (auto simp: filter_empty_conv)
    with ab rid show ?thesis
      by (intro bexI [of _ "completed_run \<lparr>rn_status = ''aborted'', rn_outcome = None, rn_provider_used = None,
            rn_error_class = None, rn_stage_attempts = 0, rn_finished_at = now, rn_commit_sha_after = None,
            rn_abort_reason = Some (take ABORT_REASON_MAX reason)\<rparr> r"])
         (auto simp: abort_run_def complete_node_run_def res_iff set_update_rows completed_run_def image_iff intro!: bexI [of _ r])
  qed
qed

text \<open>
  The findings of a failure report are the last verdict the store has of the task, not of the run:
  a rerun that records no verdict of its own reports the old attempt's.
\<close>

lemma stale_findings_after_rerun:
  "read_last_findings loads tid (rerun_attempt now row d) = read_last_findings loads tid d"
  by (simp add: read_last_findings_def get_evaluations_def rerun_attempt_def)

end
