(* ===== verification/NodeOverrides.thy ===== *)
theory NodeOverrides
  imports FlowValidator TranslateFlow
begin

text \<open>
  A task's per-node overrides (\<open>core/node_overrides.py\<close>): the best-effort resolution into the overlay
  the engine applies.  The validated flow and configuration are those of \<open>FlowValidator\<close>; the overlay
  fields are those of \<open>FlowEngine\<close>.
\<close>

section \<open>Resolution\<close>

record node_override =
  no_enabled :: "bool option"
  no_model :: "string option"
  no_reasoning :: "string option"
  no_provider :: "string option"

datatype override_warning =
    OverrideNoSuchNode string
  | OverrideTakesNone string string
  | OverrideProvider string string "string list"
  | OverrideReasoning string string "string list"

definition coerce_provider :: "string \<Rightarrow> provider_id option" where
  "coerce_provider v = List.find (\<lambda>p. provider_value p = v) [CODEX, CLAUDE]"

definition reasoning_ok :: "provider_id option \<Rightarrow> string \<Rightarrow> bool" where
  "reasoning_ok provider reasoning =
     (case provider of None \<Rightarrow> reasoning \<in> set all_reasoning_levels | Some p \<Rightarrow> is_reasoning_supported p reasoning)"

definition reasoning_expectation :: "provider_id option \<Rightarrow> string list" where
  "reasoning_expectation provider =
     (case provider of None \<Rightarrow> sort (remdups all_reasoning_levels) | Some p \<Rightarrow> sort (reasoning_levels_for p))"

text \<open>\<open>node.provider\<close> of the two classes that take an override.\<close>

definition overridable :: "flow_node \<Rightarrow> provider_id option option" where
  "overridable node = (case node of AgentNode n \<Rightarrow> Some (a_provider n) | EvaluatorNode n \<Rightarrow> Some (ev_provider n) | _ \<Rightarrow> None)"

definition provider_field ::
    "flow_config \<Rightarrow> string \<Rightarrow> string option \<Rightarrow> provider_id option \<times> override_warning list" where
  "provider_field cfg nid v =
     (case v of
        None \<Rightarrow> (None, [])
      | Some s \<Rightarrow>
          (case coerce_provider s of
             Some p \<Rightarrow> if p \<in> set (allowed_providers cfg) then (Some p, [])
                       else (None, [OverrideProvider nid s (sort (map provider_value (remdups (allowed_providers cfg))))])
           | None \<Rightarrow> (None, [OverrideProvider nid s (sort (map provider_value (remdups (allowed_providers cfg))))])))"

definition reasoning_field ::
    "string \<Rightarrow> provider_id option \<Rightarrow> string option \<Rightarrow> overlay_field list \<times> override_warning list" where
  "reasoning_field nid provider v =
     (case v of
        None \<Rightarrow> ([], [])
      | Some r \<Rightarrow> if reasoning_ok provider r then ([OverlayReasoning r], [])
                  else ([], [OverrideReasoning nid r (reasoning_expectation provider)]))"

definition resolve_override ::
    "flow_snapshot \<Rightarrow> flow_config \<Rightarrow> string \<Rightarrow> node_override \<Rightarrow> overlay_field list \<times> override_warning list" where
  "resolve_override snap cfg nid ov =
     (if no_model ov = None \<and> no_reasoning ov = None \<and> no_provider ov = None then ([], [])
      else case node_at snap nid of
        None \<Rightarrow> ([], [OverrideNoSuchNode nid])
      | Some node \<Rightarrow>
          (case overridable node of
             None \<Rightarrow> ([], [OverrideTakesNone nid (node_kind node)])
           | Some declared \<Rightarrow>
               (let (p, w1) = provider_field cfg nid (no_provider ov);
                    resolved = (case p of Some q \<Rightarrow> Some q
                      | None \<Rightarrow> (case declared of Some q \<Rightarrow> Some q | None \<Rightarrow> global_primary cfg));
                    (rs, w2) = reasoning_field nid resolved (no_reasoning ov)
                in ((case p of None \<Rightarrow> [] | Some q \<Rightarrow> [OverlayProvider q]) @ rs @
                      (case no_model ov of None \<Rightarrow> [] | Some m \<Rightarrow> [OverlayModel m]),
                    w1 @ w2))))"

text \<open>The whole task: only nodes with a valid field appear in the overlay.\<close>

definition resolve_node_overrides ::
    "flow_snapshot \<Rightarrow> (string \<times> node_override) list \<Rightarrow> flow_config \<Rightarrow>
     (string \<times> overlay_field list) list \<times> override_warning list" where
  "resolve_node_overrides snap overrides cfg =
     (let resolved = map (\<lambda>(nid, ov). (nid, resolve_override snap cfg nid ov)) overrides
      in (List.map_filter (\<lambda>(nid, flds, ws). if flds \<noteq> [] then Some (nid, flds) else None) resolved,
          concat (map (\<lambda>(nid, flds, ws). ws) resolved)))"

section \<open>What the engine may rely on\<close>

lemma coerce_provider_value: "coerce_provider v = Some p \<Longrightarrow> provider_value p = v"
  by (auto simp: coerce_provider_def split: if_splits)

lemma provider_field_allowed: "provider_field cfg nid v = (Some p, ws) \<Longrightarrow> p \<in> set (allowed_providers cfg) \<and> v = Some (provider_value p)"
  by (auto simp: provider_field_def coerce_provider_value split: option.splits if_splits)

definition provider_of :: "overlay_field list \<Rightarrow> provider_id option" where
  "provider_of flds = (case flds of OverlayProvider p # _ \<Rightarrow> Some p | _ \<Rightarrow> None)"

text \<open>The fields of one node are sound: allowed provider, reasoning accepted by the provider in effect.\<close>

definition fields_ok :: "flow_config \<Rightarrow> provider_id option \<Rightarrow> overlay_field list \<Rightarrow> bool" where
  "fields_ok cfg declared flds \<longleftrightarrow> list_all (\<lambda>f. case f of
     OverlayProvider p \<Rightarrow> p \<in> set (allowed_providers cfg)
   | OverlayReasoning r \<Rightarrow> reasoning_ok (case provider_of flds of Some p \<Rightarrow> Some p
       | None \<Rightarrow> (case declared of Some p \<Rightarrow> Some p | None \<Rightarrow> global_primary cfg)) r
   | OverlayModel m \<Rightarrow> True) flds"

lemma resolve_override_ok:
  assumes "resolve_override snap cfg nid ov = (flds, ws)" and "flds \<noteq> []" and "node_at snap nid = Some node"
  shows "\<exists>declared. overridable node = Some declared \<and> fields_ok cfg declared flds"
proof -
  from assms obtain declared where d: "overridable node = Some declared"
    by (auto simp: resolve_override_def split: if_splits option.splits)
  obtain p w1 where p: "provider_field cfg nid (no_provider ov) = (p, w1)" by fastforce
  define resolved where "resolved = (case p of Some q \<Rightarrow> Some q
      | None \<Rightarrow> (case declared of Some q \<Rightarrow> Some q | None \<Rightarrow> global_primary cfg))"
  obtain rs w2 where r: "reasoning_field nid resolved (no_reasoning ov) = (rs, w2)" by fastforce
  have rs: "rs = [] \<or> (\<exists>x. rs = [OverlayReasoning x] \<and> reasoning_ok resolved x)"
    using r by (auto simp: reasoning_field_def split: option.splits if_splits)
  have flds: "flds = (case p of None \<Rightarrow> [] | Some q \<Rightarrow> [OverlayProvider q]) @ rs @
      (case no_model ov of None \<Rightarrow> [] | Some m \<Rightarrow> [OverlayModel m])"
    using assms d p r by (auto simp: resolve_override_def resolved_def split: if_splits)
  have "provider_of flds = p"
    using rs by (auto simp: flds provider_of_def split: option.splits)
  with rs provider_field_allowed [of cfg nid "no_provider ov"] p have "fields_ok cfg declared flds"
    by (auto simp: fields_ok_def flds resolved_def split: option.splits)
  with d show ?thesis by blast
qed

lemma overlay_member:
  assumes "(nid, flds) \<in> set (fst (resolve_node_overrides snap overrides cfg))"
  shows "flds \<noteq> [] \<and> (\<exists>ov ws. resolve_override snap cfg nid ov = (flds, ws))"
proof -
  from assms obtain x where "x \<in> set (map (\<lambda>(nid, ov). (nid, resolve_override snap cfg nid ov)) overrides)"
    and "(\<lambda>(nid, flds, ws). if flds \<noteq> [] then Some (nid, flds) else None) x = Some (nid, flds)"
    unfolding resolve_node_overrides_def Let_def fst_conv in_map_filter by blast
  then show ?thesis by (auto split: if_splits prod.splits) (metis)
qed

lemma overlay_agent_frame: "a_when (overlay_agent f n) = a_when n" "a_id (overlay_agent f n) = a_id n"
  by (cases f; simp)+

lemma overlay_evaluator_frame: "ev_when (overlay_evaluator f n) = ev_when n" "ev_id (overlay_evaluator f n) = ev_id n"
  by (cases f; simp)+

lemma fold_overlay_frame:
  "a_when (fold overlay_agent flds n) = a_when n \<and> a_id (fold overlay_agent flds n) = a_id n"
  "ev_when (fold overlay_evaluator flds m) = ev_when m \<and> ev_id (fold overlay_evaluator flds m) = ev_id m"
  by (induction flds arbitrary: n m) (simp_all add: overlay_agent_frame overlay_evaluator_frame)

text \<open>
  An override never stops a task and never widens what the operator allowed: every overlay entry
  belongs to an agent or evaluator of the flow, so the engine applies it without an error and the node
  keeps its id, its kind and its guard; a provider in it is one of the allowed ones; and a reasoning
  level in it is one that the provider the node will run under accepts.
\<close>

theorem overrides_best_effort:
  assumes "wf_snapshot (snapshot eng)"
    and "node_overrides eng = map_of (fst (resolve_node_overrides (snapshot eng) overrides cfg))"
    and "node_at (snapshot eng) nid = Some node"
  shows "\<exists>node'. apply_overrides eng node = Inr node' \<and> node_id node' = nid \<and> node_kind node' = node_kind node \<and>
    node_when node' = node_when node \<and>
    (case node_overrides eng nid of
       None \<Rightarrow> node' = node
     | Some flds \<Rightarrow> \<exists>declared. overridable node = Some declared \<and> fields_ok cfg declared flds)"
proof -
  have nid: "node_id node = nid" using wf_snapshot_node_at [OF assms(1,3)] .
  show ?thesis
  proof (cases "node_overrides eng nid")
    case None
    with nid show ?thesis by (simp add: apply_overrides_def)
  next
    case (Some flds)
    with assms(2) have "(nid, flds) \<in> set (fst (resolve_node_overrides (snapshot eng) overrides cfg))"
      by (simp add: map_of_SomeD)
    from overlay_member [OF this] obtain ov ws where
      ne: "flds \<noteq> []" and ov: "resolve_override (snapshot eng) cfg nid ov = (flds, ws)" by blast
    from resolve_override_ok [OF ov ne assms(3)] obtain declared where
      d: "overridable node = Some declared" and ok: "fields_ok cfg declared flds" by blast
    obtain f fs where f: "flds = f # fs" using ne by (cases flds) auto
    from d Some nid f show ?thesis
      using ok fold_overlay_frame overlay_agent_frame overlay_evaluator_frame
      by (cases node) (auto simp: overridable_def apply_overrides_def simp del: fold_simps)
  qed
qed

definition both_allowed :: flow_config where
  "both_allowed = \<lparr>allowed_providers = [CODEX, CLAUDE],
     provider_table = [(CLAUDE, \<lparr>ps_primary = True, ps_profile = ''workspace-write''\<rparr>),
       (CODEX, \<lparr>ps_primary = False, ps_profile = ''workspace-write''\<rparr>)],
     strict_isolation = True, supervisor_enabled = False, observe_global = OBSERVE_NONE, tasks_dir = ''tasks''\<rparr>"

definition to_codex :: node_override where
  "to_codex = \<lparr>no_enabled = None, no_model = Some ''m'', no_reasoning = Some ''minimal'', no_provider = Some ''codex''\<rparr>"

lemma to_codex_resolves:
  "resolve_node_overrides translate_snapshot [(''fixing'', to_codex)] both_allowed =
     ([(''fixing'', [OverlayProvider CODEX, OverlayReasoning ''minimal'', OverlayModel ''m''])], [])"
  by (simp add: resolve_node_overrides_def resolve_override_def to_codex_def translate_nodes overridable_def
      provider_field_def coerce_provider_def both_allowed_def reasoning_field_def reasoning_ok_def
      is_reasoning_supported_def CODEX_REASONING_LEVELS_def CODEX_REASONING_ALIASES_def map_filter_simps)

lemma overrides_best_effort_witness:
  "\<exists>node'. apply_overrides (translate_engine\<lparr>node_overrides :=
      map_of (fst (resolve_node_overrides translate_snapshot [(''fixing'', to_codex)] both_allowed))\<rparr>) (AgentNode fixing) =
     Inr node' \<and> node_id node' = ''fixing''"
  using overrides_best_effort [of "translate_engine\<lparr>node_overrides :=
      map_of (fst (resolve_node_overrides translate_snapshot [(''fixing'', to_codex)] both_allowed))\<rparr>"
      "[(''fixing'', to_codex)]" both_allowed "''fixing''" "AgentNode fixing"]
  by (auto simp: translate_engine_fields translate_flow_ok translate_nodes)

section \<open>What the resolution does not look at\<close>

text \<open>
  The resolution tests the fields the task names, not the node they produce.  Two nodes the
  configuration layer of the validator accepts are overlaid without a warning into nodes it rejects:
  a Codex node whose own reasoning level Claude does not have, and a networked writer that moves to
  Codex under strict isolation.
\<close>

definition minimal_node :: agent_node where
  "minimal_node = (plain_agent ''fixing'' ''r.md'')\<lparr>a_provider := Some CODEX, a_reasoning := Some ''minimal''\<rparr>"

definition network_node :: agent_node where
  "network_node = (plain_agent ''fixing'' ''r.md'')\<lparr>a_network_access := Some True\<rparr>"

definition only_provider :: "string \<Rightarrow> node_override" where
  "only_provider p = \<lparr>no_enabled = None, no_model = None, no_reasoning = None, no_provider = Some p\<rparr>"

lemma override_escapes_config_check:
  assumes "node_at snap ''fixing'' = Some (AgentNode n)"
  shows "n = minimal_node \<Longrightarrow>
      node_config_violations both_allowed content_translate (AgentNode n) = [] \<and>
      resolve_override snap both_allowed ''fixing'' (only_provider ''claude'') = ([OverlayProvider CLAUDE], []) \<and>
      node_config_violations both_allowed content_translate (AgentNode (overlay_agent (OverlayProvider CLAUDE) n)) =
        [ReasoningUnsupported ''fixing'' ''minimal'' CLAUDE]"
    and "n = network_node \<Longrightarrow>
      node_config_violations both_allowed content_translate (AgentNode n) = [] \<and>
      resolve_override snap both_allowed ''fixing'' (only_provider ''codex'') = ([OverlayProvider CODEX], []) \<and>
      node_config_violations both_allowed content_translate (AgentNode (overlay_agent (OverlayProvider CODEX) n)) =
        [CodexWriteNetwork ''fixing'']"
  using assms
  by (simp_all add: minimal_node_def network_node_def plain_agent_def node_config_violations_def provider_violations_def
      reasoning_violations_def resolved_provider_def both_allowed_def global_primary_def resolve_override_def
      only_provider_def overridable_def provider_field_def coerce_provider_def reasoning_field_def
      is_reasoning_supported_def CODEX_REASONING_LEVELS_def CODEX_REASONING_ALIASES_def CLAUDE_REASONING_LEVELS_def
      effective_profile_def resolve_network_access_def content_translate_def)

end
