(* ===== verification/Decomposition.thy ===== *)
theory Decomposition
  imports FlowEngine StateStore PyValues Router
begin

text \<open>
  Splitting a task: the deterministic acceptance rule and the artifacts of \<open>core/decomposition.py\<close>, the
  partition of a flow (\<open>core/flow/engine_driver.py\<close>), the restart decision of \<open>core/recovery.py\<close> and the
  per-node overrides of \<open>core/node_overrides.py\<close>.  Files are maps from path segments to texts; whether
  a commit is on a branch is the argument \<open>on_branch\<close>.
\<close>

section \<open>Acceptance (core/decomposition.py)\<close>

datatype split_reason =
    GATE_OFF | NOT_RECOMMENDED | N_OUT_OF_RANGE | MALFORMED_SUBTASK | NON_LINEAR_DEPENDENCIES | ACCEPTED | OPERATOR_AUTHORED

fun split_reason_value :: "split_reason \<Rightarrow> string" where
  "split_reason_value GATE_OFF = ''gate_off''"
| "split_reason_value NOT_RECOMMENDED = ''not_recommended''"
| "split_reason_value N_OUT_OF_RANGE = ''n_out_of_range''"
| "split_reason_value MALFORMED_SUBTASK = ''malformed_subtask''"
| "split_reason_value NON_LINEAR_DEPENDENCIES = ''non_linear_dependencies''"
| "split_reason_value ACCEPTED = ''accepted''"
| "split_reason_value OPERATOR_AUTHORED = ''operator_authored''"

record subtask_spec =
  sp_order :: int
  sp_title :: string
  sp_slug :: string
  sp_criteria :: "string list"
  sp_depends_on :: "int list"
  sp_body :: "string option"

record split_decision =
  dd_accepted :: bool
  dd_reason :: split_reason
  dd_n :: nat
  dd_subtasks :: "subtask_spec list"

definition single_unit :: "split_reason \<Rightarrow> split_decision" where
  "single_unit why = \<lparr>dd_accepted = False, dd_reason = why, dd_n = 1, dd_subtasks = []\<rparr>"

definition non_blank :: "string \<Rightarrow> bool" where
  "non_blank s = (py_strip s \<noteq> [])"

fun as_texts :: "yval list \<Rightarrow> string list option" where
  "as_texts [] = Some []"
| "as_texts (YStr s # vs) = (if non_blank s then map_option ((#) s) (as_texts vs) else None)"
| "as_texts (_ # vs) = None"

fun as_ints :: "yval list \<Rightarrow> int list option" where
  "as_ints [] = Some []"
| "as_ints (YInt n # vs) = map_option ((#) n) (as_ints vs)"
| "as_ints (_ # vs) = None"

text \<open>\<open>_parse_subtask\<close>: the fields are tested in turn, so every malformed one yields \<open>None\<close>.\<close>

definition parse_subtask :: "yval \<Rightarrow> subtask_spec option" where
  "parse_subtask raw =
     (case raw of
        YMap m \<Rightarrow>
          (case (get_or_none m ''order'', get_or_none m ''title'', get_or_none m ''slug'',
                 get_or_none m ''acceptance_criteria'', get_or_none m ''depends_on'') of
             (YInt order, YStr title, YStr slug, YList criteria, YList depends) \<Rightarrow>
               if non_blank title \<and> non_blank slug \<and> criteria \<noteq> []
               then (case (as_texts criteria, as_ints depends) of
                       (Some cs, Some ds) \<Rightarrow> Some \<lparr>sp_order = order, sp_title = title, sp_slug = slug,
                          sp_criteria = cs, sp_depends_on = ds, sp_body = None\<rparr>
                     | _ \<Rightarrow> None)
               else None
           | _ \<Rightarrow> None)
      | _ \<Rightarrow> None)"

text \<open>The loop over the sorted specs: \<open>index\<close> is the order the next one must have.\<close>

fun linear_from :: "int \<Rightarrow> subtask_spec list \<Rightarrow> bool" where
  "linear_from i [] = True"
| "linear_from i (s # ss) =
     (sp_order s = i \<and> list_all (\<lambda>d. \<not> (d < 1 \<or> d \<ge> sp_order s)) (sp_depends_on s) \<and> linear_from (i + 1) ss)"

definition decide_from_specs :: "subtask_spec list \<Rightarrow> int \<Rightarrow> split_decision" where
  "decide_from_specs specs max_subtasks =
     (let n = length specs; ordered = sort_key sp_order specs
      in if n < 2 \<or> int n > max_subtasks then single_unit N_OUT_OF_RANGE
         else if \<not> linear_from 1 ordered then single_unit NON_LINEAR_DEPENDENCIES
         else \<lparr>dd_accepted = True, dd_reason = ACCEPTED, dd_n = n, dd_subtasks = ordered\<rparr>)"

fun parse_subtasks :: "yval list \<Rightarrow> subtask_spec list option" where
  "parse_subtasks [] = Some []"
| "parse_subtasks (raw # raws) =
     (case parse_subtask raw of
        None \<Rightarrow> None
      | Some s \<Rightarrow> map_option ((#) s) (parse_subtasks raws))"

definition decide_decomposition :: "yval option \<Rightarrow> bool \<Rightarrow> int \<Rightarrow> split_decision" where
  "decide_decomposition structured gate_on max_subtasks =
     (if \<not> gate_on then single_unit GATE_OFF
      else case structured of
        Some (YMap m) \<Rightarrow>
          if get_or_none m ''decompose'' \<noteq> YBool True then single_unit NOT_RECOMMENDED
          else (case get_or_none m ''subtasks'' of
                  YList raws \<Rightarrow>
                    (case parse_subtasks raws of
                       None \<Rightarrow> single_unit MALFORMED_SUBTASK
                     | Some specs \<Rightarrow> decide_from_specs specs max_subtasks)
                | _ \<Rightarrow> single_unit NOT_RECOMMENDED)
      | _ \<Rightarrow> single_unit NOT_RECOMMENDED)"

definition decide_operator_decomposition :: "subtask_spec list \<Rightarrow> int \<Rightarrow> split_decision" where
  "decide_operator_decomposition specs max_subtasks =
     (let d = decide_from_specs specs max_subtasks
      in if dd_accepted d then d\<lparr>dd_reason := OPERATOR_AUTHORED\<rparr> else d)"

text \<open>\<open>read_decomposition\<close> of \<open>core/flow/postprocess.py\<close>.\<close>

definition read_decomposition :: "node_outcome \<Rightarrow> bool \<Rightarrow> int \<Rightarrow> split_decision" where
  "read_decomposition outcome gate_on max_subtasks =
     decide_decomposition (structured_output outcome) gate_on max_subtasks"

section \<open>Subtask artifacts\<close>

text \<open>\<open>{n:02d}\<close>\<close>

definition pad2 :: "int \<Rightarrow> string" where
  "pad2 n = (let s = show_int n in replicate (2 - length s) CHR ''0'' @ s)"

definition subtasks_dir :: "string \<Rightarrow> string list" where
  "subtasks_dir tid = [''logs'', tid, ''subtasks'']"

text \<open>A slug with a separator makes more than one segment of the file name.\<close>

definition subtask_spec_path :: "string \<Rightarrow> int \<Rightarrow> string \<Rightarrow> string list" where
  "subtask_spec_path tid order slug = subtasks_dir tid @ split_on (CHR ''/'') (pad2 order @ ''-'' @ slug @ ''.md'')"

definition subtask_handoff_path :: "string \<Rightarrow> int \<Rightarrow> string \<Rightarrow> string list" where
  "subtask_handoff_path tid order slug =
     subtasks_dir tid @ split_on (CHR ''/'') (pad2 order @ ''-'' @ slug @ ''.handoff.md'')"

record index_entry =
  ix_order :: int
  ix_slug :: string
  ix_title :: string
  ix_depends_on :: "int list"
  ix_status :: string
  ix_commit_sha :: "string option"

definition index_entry_of :: "subtask_spec \<Rightarrow> index_entry" where
  "index_entry_of s = \<lparr>ix_order = sp_order s, ix_slug = sp_slug s, ix_title = sp_title s,
     ix_depends_on = sp_depends_on s, ix_status = ''pending'', ix_commit_sha = None\<rparr>"

definition newline :: string where "newline = [CHR 0x0A]"

definition subtask_spec_text :: "subtask_spec \<Rightarrow> string" where
  "subtask_spec_text s =
     (case sp_body s of
        Some body \<Rightarrow> body
      | None \<Rightarrow>
          ''# Subtask '' @ pad2 (sp_order s) @ '': '' @ sp_title s @ newline @ newline @
          ''slug: '' @ sp_slug s @ newline @
          ''depends_on: '' @ (if sp_depends_on s = [] then ''none'' else comma_join (map show_int (sp_depends_on s))) @ newline @ newline @
          ''## Acceptance criteria'' @ newline @ newline @
          join_with (CHR 0x0A) (map (\<lambda>c. ''- '' @ c) (sp_criteria s)) @ newline)"

record split_files =
  sf_index :: "index_entry list option"
  sf_specs :: "string list \<rightharpoonup> string"

datatype artifact_error = NoSuchDirectory "string list" | NoIndex | IndexOrderMissing int

text \<open>
  Only the subtasks directory itself is created, so a spec file can be written when it stands directly
  in it (POSIX paths); writing below a missing directory raises.
\<close>

definition parent_exists :: "string \<Rightarrow> string list \<Rightarrow> bool" where
  "parent_exists tid path = (butlast path = subtasks_dir tid)"

fun write_specs :: "string \<Rightarrow> subtask_spec list \<Rightarrow> split_files \<Rightarrow> artifact_error + split_files" where
  "write_specs tid [] fs = Inr fs"
| "write_specs tid (s # ss) fs =
     (let path = subtask_spec_path tid (sp_order s) (sp_slug s)
      in if sf_specs fs path \<noteq> None then write_specs tid ss fs
         else if \<not> parent_exists tid path then Inl (NoSuchDirectory path)
         else write_specs tid ss (fs\<lparr>sf_specs := (sf_specs fs)(path \<mapsto> subtask_spec_text s)\<rparr>))"

text \<open>The index is on disk before the first spec file is written, also when one of those raises.\<close>

definition write_subtask_artifacts :: "split_decision \<Rightarrow> string \<Rightarrow> split_files \<Rightarrow> split_files \<times> artifact_error option" where
  "write_subtask_artifacts d tid fs =
     (if \<not> dd_accepted d then (fs, None)
      else let fs1 = fs\<lparr>sf_index := Some (map index_entry_of (dd_subtasks d))\<rparr>
           in case write_specs tid (dd_subtasks d) fs1 of
                Inr fs2 \<Rightarrow> (fs2, None)
              | Inl e \<Rightarrow> (fs1, Some e))"

text \<open>The first entry of the order is updated; without one the \<open>for\<close> loop's \<open>else\<close> raises.\<close>

fun update_entry :: "int \<Rightarrow> (index_entry \<Rightarrow> index_entry) \<Rightarrow> index_entry list \<Rightarrow> index_entry list option" where
  "update_entry order f [] = None"
| "update_entry order f (e # es) =
     (if ix_order e = order then Some (f e # es) else map_option ((#) e) (update_entry order f es))"

definition update_subtask_index ::
    "int \<Rightarrow> string \<Rightarrow> string option \<Rightarrow> split_files \<Rightarrow> artifact_error + split_files" where
  "update_subtask_index order st sha fs =
     (case sf_index fs of
        None \<Rightarrow> Inl NoIndex
      | Some es \<Rightarrow>
          (case update_entry order (\<lambda>e. e\<lparr>ix_status := st,
                  ix_commit_sha := (case sha of None \<Rightarrow> ix_commit_sha e | Some s \<Rightarrow> Some s)\<rparr>) es of
             None \<Rightarrow> Inl (IndexOrderMissing order)
           | Some es' \<Rightarrow> Inr (fs\<lparr>sf_index := Some es'\<rparr>)))"

section \<open>The three phases of a decomposed flow (core/flow/engine_driver.py)\<close>

record regions =
  rg_pre :: "string list"
  rg_region :: "string list"
  rg_region_entry :: string
  rg_post_entry :: string

datatype partition_error = NoDecomposition | PartitionBug engine_bug

text \<open>
  The region is a Python set, so the order in which its exits are tried is not fixed: the argument
  \<open>visit\<close> is the order of one process.
\<close>

definition first_exit :: "flow_snapshot \<Rightarrow> string list \<Rightarrow> string list \<Rightarrow> string option" where
  "first_exit snap visit reg =
     map_option e_to (List.find (\<lambda>e. e_to e \<notin> set reg \<and> \<not> is_rework e) (concat (map (out_edges snap) visit)))"

definition partition_decomposition :: "string list \<Rightarrow> flow_snapshot \<Rightarrow> partition_error + regions" where
  "partition_decomposition visit snap =
     (case decomposition (doc snap) of
        None \<Rightarrow> Inl NoDecomposition
      | Some dec \<Rightarrow>
          (case List.find (\<lambda>e. e_to e \<in> set (sub_flow dec)) (out_edges snap (proposed_by dec)) of
             None \<Rightarrow> Inl (PartitionBug (NoRegionEntry (proposed_by dec)))
           | Some entry \<Rightarrow>
               (case first_exit snap visit (sub_flow dec) of
                  None \<Rightarrow> Inl (PartitionBug NoRegionExit)
                | Some post \<Rightarrow>
                    Inr \<lparr>rg_pre = filter (\<lambda>n. n \<notin> set (sub_flow dec) \<and> n \<notin> set (reachable_nodes snap post))
                             (remdups (map fst (nodes_by_id snap))),
                         rg_region = sub_flow dec, rg_region_entry = e_to entry, rg_post_entry = post\<rparr>)))"

section \<open>Restart decisions (core/recovery.py)\<close>

datatype recovery_action = RA_NONE | RA_RESUME | RA_CLEANUP | RA_MANUAL

datatype manual_reason =
    SeveralActive
  | CommitAbsent int string string
  | CommitsUnrecorded nat int

record recovery_plan =
  rv_action :: recovery_action
  rv_task :: "string option"
  rv_resume_subtask :: "int option"
  rv_reason :: "manual_reason option"
  rv_manual_tasks :: "string list"

definition bare_plan :: "recovery_action \<Rightarrow> string option \<Rightarrow> recovery_plan" where
  "bare_plan a t = \<lparr>rv_action = a, rv_task = t, rv_resume_subtask = None, rv_reason = None, rv_manual_tasks = []\<rparr>"

text \<open>\<open>if sub.commit_sha\<close>: neither \<open>None\<close> nor empty.\<close>

definition commit_of :: "subtask_row \<Rightarrow> string option" where
  "commit_of r = (case sb_commit_sha r of Some sha \<Rightarrow> if sha \<noteq> [] then Some sha else None | None \<Rightarrow> None)"

text \<open>The loop over the subtasks: the number of commits, or the first one that is not on the branch.\<close>

fun count_commits :: "(string \<Rightarrow> string \<Rightarrow> bool) \<Rightarrow> string \<Rightarrow> subtask_row list \<Rightarrow> nat \<Rightarrow> manual_reason + nat" where
  "count_commits on_branch branch [] n = Inr n"
| "count_commits on_branch branch (r # rs) n =
     (case commit_of r of
        None \<Rightarrow> count_commits on_branch branch rs n
      | Some sha \<Rightarrow>
          if branch \<noteq> [] \<and> \<not> on_branch sha branch then Inl (CommitAbsent (sb_order r) sha branch)
          else count_commits on_branch branch rs (n + 1))"

definition manual_plan :: "string \<Rightarrow> manual_reason \<Rightarrow> recovery_plan" where
  "manual_plan tid why = \<lparr>rv_action = RA_MANUAL, rv_task = Some tid, rv_resume_subtask = None, rv_reason = Some why,
     rv_manual_tasks = [tid]\<rparr>"

definition reconcile_decomposed :: "(string \<Rightarrow> string \<Rightarrow> bool) \<Rightarrow> task_row \<Rightarrow> db \<Rightarrow> recovery_plan" where
  "reconcile_decomposed on_branch task d =
     (let branch = (case tk_branch task of None \<Rightarrow> [] | Some b \<Rightarrow> b)
      in case count_commits on_branch branch (get_subtasks (tk_task_id task) d) 0 of
           Inl why \<Rightarrow> manual_plan (tk_task_id task) why
         | Inr committed \<Rightarrow>
             if int committed > tk_subtasks_completed task
             then manual_plan (tk_task_id task) (CommitsUnrecorded committed (tk_subtasks_completed task))
             else (bare_plan RA_RESUME (Some (tk_task_id task)))\<lparr>rv_resume_subtask := Some (int committed + 1)\<rparr>)"

definition reconcile :: "(string \<Rightarrow> string \<Rightarrow> bool) \<Rightarrow> db \<Rightarrow> recovery_plan" where
  "reconcile on_branch d =
     (case find_active_tasks d of
        [] \<Rightarrow>
          (case find_incomplete_cleanup d of
             [] \<Rightarrow> bare_plan RA_NONE None
           | t # _ \<Rightarrow> bare_plan RA_CLEANUP (Some (tk_task_id t)))
      | [task] \<Rightarrow>
          if (case tk_subtask_count task of None \<Rightarrow> False | Some n \<Rightarrow> n \<noteq> 0) \<and> tk_decomposition_accepted task = Some True
          then reconcile_decomposed on_branch task d
          else bare_plan RA_RESUME (Some (tk_task_id task))
      | active \<Rightarrow> \<lparr>rv_action = RA_MANUAL, rv_task = None, rv_resume_subtask = None, rv_reason = Some SeveralActive,
                    rv_manual_tasks = map tk_task_id active\<rparr>)"

end
