(* ===== verification/DecomposedRun.thy ===== *)
theory DecomposedRun
  imports Decomposition Recorder StoreProps
begin

text \<open>
  How the orchestrator drives a decomposed task (\<open>core/orchestrator.py\<close>): persisting the decision, the
  phases of a run, the fan-out over the subtasks and the commit of one.  The engine run of a phase, the
  publication of a subtask's inputs and the Git commit are the environment, one record of functions;
  \<open>dv_trace\<close> lists the phases driven and the commits made.
\<close>

section \<open>The driven state\<close>

datatype drive_event = PhaseDriven string "string list option" "int option" | SubtaskCommitted int string

record drive =
  dv_db :: db
  dv_run :: flow_run_state
  dv_files :: split_files
  dv_split :: split_decision
  dv_trace :: "drive_event list"

datatype drive_error =
    DriveEngine engine_exn
  | DriveGit string
  | DriveArtifact artifact_error
  | DriveStore store_error
  | DrivePartition partition_error
  | DriveNoEntry

record drive_env =
  dn_task :: string
  dn_now :: string
  dn_drive :: "string list option \<Rightarrow> int option \<Rightarrow> drive \<Rightarrow> drive \<times> (engine_exn + flow_run_result)"
  dn_prepare :: "subtask_spec \<Rightarrow> drive \<Rightarrow> drive_error + db"
  dn_commit :: "int \<Rightarrow> string \<Rightarrow> string \<Rightarrow> db \<Rightarrow> db \<times> (string + string)"

section \<open>Persisting a decision\<close>

definition split_fields :: "split_decision \<Rightarrow> bool \<Rightarrow> (task_row \<Rightarrow> task_row) list" where
  "split_fields d gate_on =
     [tk_decomposition_enabled_update (\<lambda>_. Some gate_on), tk_decomposition_accepted_update (\<lambda>_. Some (dd_accepted d)),
      tk_decomposition_reason_update (\<lambda>_. Some (split_reason_value (dd_reason d))),
      tk_subtask_count_update (\<lambda>_. if dd_accepted d then Some (int (dd_n d)) else None),
      tk_active_subtask_update (\<lambda>_. if dd_accepted d then Some 1 else None)]"

definition planned_row :: "string \<Rightarrow> subtask_spec \<Rightarrow> subtask_row" where
  "planned_row tid s = \<lparr>sb_task_id = tid, sb_order = sp_order s, sb_slug = sp_slug s, sb_title = sp_title s,
     sb_status = ''pending'', sb_depends_on = sp_depends_on s, sb_commit_sha = None, sb_artifact_path = None\<rparr>"

text \<open>\<open>_register_artifact\<close>; the checksum of a file is the argument.\<close>

fun register_all ::
    "string \<Rightarrow> (string list \<Rightarrow> string) \<Rightarrow> string \<Rightarrow> (string \<times> string list) list \<Rightarrow> db \<Rightarrow> store_error + db" where
  "register_all now checksum tid [] d = Inr d"
| "register_all now checksum tid ((kd, path) # fs) d =
     bind_res (register_artifact now \<lparr>af_task_id = tid, af_kind = kd, af_path = join_with (CHR ''/'') path,
         af_checksum = checksum path, af_created_at = []\<rparr> d)
       (register_all now checksum tid fs)"

definition persist_decomposition ::
    "string \<Rightarrow> (string list \<Rightarrow> string) \<Rightarrow> string \<Rightarrow> split_decision \<Rightarrow> bool \<Rightarrow> drive \<Rightarrow> drive \<times> drive_error option" where
  "persist_decomposition now checksum tid d gate_on s =
     (let s1 = s\<lparr>dv_split := d, dv_db := update_task now tid (split_fields d gate_on) (dv_db s)\<rparr>
      in if \<not> dd_accepted d then (s1, None)
         else case write_subtask_artifacts d tid (dv_files s1) of
           (fs, Some e) \<Rightarrow> (s1\<lparr>dv_files := fs\<rparr>, Some (DriveArtifact e))
         | (fs, None) \<Rightarrow>
             let s2 = s1\<lparr>dv_files := fs\<rparr>;
                 arts = (''subtasks_index'', subtasks_dir tid @ [''index.json'']) #
                        map (\<lambda>sp. (''subtask_spec'', subtask_spec_path tid (sp_order sp) (sp_slug sp))) (dd_subtasks d)
             in (case bind_res (register_all now checksum tid arts (dv_db s2))
                        (insert_subtasks (map (planned_row tid) (dd_subtasks d))) of
                   Inl e \<Rightarrow> (s2, Some (DriveStore e))
                 | Inr d' \<Rightarrow> (s2\<lparr>dv_db := d'\<rparr>, None)))"

section \<open>One phase, one subtask\<close>

definition checkpoint_at :: "drive_env \<Rightarrow> string \<Rightarrow> drive \<Rightarrow> drive" where
  "checkpoint_at env nid s =
     (let rs = (dv_run s)\<lparr>current_node := Some nid\<rparr>
      in s\<lparr>dv_run := rs, dv_db := save_checkpoint (dn_now env) (dn_task env) rs (dv_db s)\<rparr>)"

text \<open>\<open>phase\<close>: the checkpoint is seeded before the entry node runs.\<close>

definition phase ::
    "drive_env \<Rightarrow> string \<Rightarrow> string list option \<Rightarrow> int option \<Rightarrow> drive \<Rightarrow> drive \<times> (engine_exn + flow_run_result)" where
  "phase env entry reg subtask s =
     (let s1 = checkpoint_at env entry s
      in dn_drive env reg subtask (s1\<lparr>dv_trace := dv_trace s1 @ [PhaseDriven entry reg subtask]\<rparr>))"

text \<open>
  \<open>_commit_subtask\<close>: Git, the index file, then two separate store transactions.  \<open>commit_marked\<close> is the
  database between the two.
\<close>

definition commit_marked :: "drive_env \<Rightarrow> int \<Rightarrow> string \<Rightarrow> db \<Rightarrow> db" where
  "commit_marked env order sha d = set_subtask_commit (dn_task env) order sha ''committed'' d"

definition commit_subtask :: "drive_env \<Rightarrow> subtask_spec \<Rightarrow> drive \<Rightarrow> drive \<times> drive_error option" where
  "commit_subtask env u s =
     (case dn_commit env (sp_order u) (sp_slug u) (sp_title u) (dv_db s) of
        (d1, Inl e) \<Rightarrow> (s\<lparr>dv_db := d1\<rparr>, Some (DriveGit e))
      | (d1, Inr sha) \<Rightarrow>
          (case update_subtask_index (sp_order u) ''committed'' (Some sha) (dv_files s) of
             Inl e \<Rightarrow> (s\<lparr>dv_db := d1\<rparr>, Some (DriveArtifact e))
           | Inr fs \<Rightarrow>
               (s\<lparr>dv_files := fs,
                  dv_db := update_task (dn_now env) (dn_task env) [tk_subtasks_completed_update (\<lambda>_. sp_order u)]
                             (commit_marked env (sp_order u) sha d1),
                  dv_trace := dv_trace s @ [SubtaskCommitted (sp_order u) sha]\<rparr>, None)))"

section \<open>The fan-out\<close>

definition landed_orders :: "string \<Rightarrow> db \<Rightarrow> int list" where
  "landed_orders tid d = map sb_order (filter (\<lambda>r. commit_of r \<noteq> None) (get_subtasks tid d))"

definition next_unit :: "drive_env \<Rightarrow> int \<Rightarrow> drive \<Rightarrow> drive" where
  "next_unit env order s = s\<lparr>dv_run := reset_consecutive_fix_budget (dv_run s),
     dv_db := update_task (dn_now env) (dn_task env) [tk_active_subtask_update (\<lambda>_. Some (order + 1))] (dv_db s)\<rparr>"

text \<open>The loop over the units; \<open>index != len(units) - 1\<close> is \<open>us \<noteq> []\<close>.\<close>

fun fan_out_units ::
    "drive_env \<Rightarrow> regions \<Rightarrow> int list \<Rightarrow> subtask_spec list \<Rightarrow> drive \<Rightarrow> drive \<times> (drive_error + flow_run_result option)" where
  "fan_out_units env rg committed [] s = (s, Inr None)"
| "fan_out_units env rg committed (u # us) s =
     (if sp_order u \<in> set committed then fan_out_units env rg committed us s
      else case dn_prepare env u s of
        Inl e \<Rightarrow> (s, Inl e)
      | Inr d1 \<Rightarrow>
          (case phase env (rg_region_entry rg) (Some (rg_region rg)) (Some (sp_order u)) (s\<lparr>dv_db := d1\<rparr>) of
             (s2, Inl e) \<Rightarrow> (s2, Inl (DriveEngine e))
           | (s2, Inr res) \<Rightarrow>
               if fr_status res \<noteq> DONE then (s2, Inr (Some res))
               else let s3 = (if us \<noteq> [] then checkpoint_at env (rg_region_entry rg) s2 else s2)
                    in (case commit_subtask env u s3 of
                          (s4, Some e) \<Rightarrow> (s4, Inl e)
                        | (s4, None) \<Rightarrow>
                            fan_out_units env rg committed us (if us \<noteq> [] then next_unit env (sp_order u) s4 else s4))))"

definition engine_outcome :: "drive \<times> (engine_exn + flow_run_result) \<Rightarrow> drive \<times> (drive_error + flow_run_result)" where
  "engine_outcome r = (fst r, map_sum DriveEngine id (snd r))"

definition fan_out_subtasks :: "drive_env \<Rightarrow> regions \<Rightarrow> drive \<Rightarrow> drive \<times> (drive_error + flow_run_result)" where
  "fan_out_subtasks env rg s =
     (case fan_out_units env rg (landed_orders (dn_task env) (dv_db s)) (dd_subtasks (dv_split s)) s of
        (s1, Inl e) \<Rightarrow> (s1, Inl e)
      | (s1, Inr (Some res)) \<Rightarrow> (s1, Inr res)
      | (s1, Inr None) \<Rightarrow> engine_outcome (phase env (rg_post_entry rg) None None s1))"

text \<open>The predecessors a subtask is told about: what landed before it, and whether it declared them.\<close>

definition predecessors :: "string \<Rightarrow> subtask_spec list \<Rightarrow> subtask_spec \<Rightarrow> db \<Rightarrow> (subtask_spec \<times> string \<times> bool) list" where
  "predecessors tid specs u d =
     List.map_filter (\<lambda>r.
       case (List.find (\<lambda>s. sp_order s = sb_order r) specs, commit_of r) of
         (Some s, Some sha) \<Rightarrow> Some (s, sha, sb_order r \<in> set (sp_depends_on u))
       | _ \<Rightarrow> None)
       (sort_key sb_order (filter (\<lambda>r. commit_of r \<noteq> None \<and> sb_order r < sp_order u) (get_subtasks tid d)))"

section \<open>All phases of a run\<close>

definition run_phases ::
    "drive_env \<Rightarrow> string list \<Rightarrow> flow_snapshot \<Rightarrow> bool \<Rightarrow> drive \<Rightarrow> drive \<times> (drive_error + flow_run_result)" where
  "run_phases env visit snap resume s =
     (let current = current_node (dv_run s);
          resumed = (resume \<and> current \<noteq> None);
          entry = (case entry_node_id snap of Inl e \<Rightarrow> Inl (DriveEngine e) | Inr n \<Rightarrow> Inr n)
      in if decomposition (doc snap) = None then
           (case (if resumed then Inr (the current) else entry) of
              Inl e \<Rightarrow> (s, Inl e)
            | Inr n \<Rightarrow> engine_outcome (phase env n None None s))
         else case partition_decomposition visit snap of
           Inl e \<Rightarrow> (s, Inl (DrivePartition e))
         | Inr rg \<Rightarrow>
             let in_pre = (resumed \<and> the current \<in> set (rg_pre rg));
                 after_pre = (\<lambda>s1.
                   if dd_accepted (dv_split s1) then fan_out_subtasks env rg s1
                   else engine_outcome (phase env (if resumed \<and> \<not> in_pre then the current else rg_region_entry rg) None None s1))
             in if \<not> resumed \<or> in_pre then
                  (case (if in_pre then Inr (the current) else entry) of
                     Inl e \<Rightarrow> (s, Inl e)
                   | Inr n \<Rightarrow>
                       (case phase env n (Some (rg_pre rg)) None s of
                          (s1, Inl e) \<Rightarrow> (s1, Inl (DriveEngine e))
                        | (s1, Inr res) \<Rightarrow> if fr_status res \<noteq> DONE then (s1, Inr res) else after_pre s1))
                else after_pre s)"

end
