(* ===== verification/DecompositionProps.thy ===== *)
theory DecompositionProps
  imports DecomposedRun ValidatorLimits "HOL-Library.Multiset"
begin

text \<open>
  Decomposition end to end: which proposed splits are accepted, what the store says of a split while its
  subtasks land, how recovery reads it, and the order in which the fan-out drives and commits.  The last
  sections are concrete runs: a crash inside a commit, a slug with a separator, and a validated flow whose
  planner the first phase misses.
\<close>

section \<open>Accepted decisions\<close>

lemma linear_orders: "linear_from i ss \<Longrightarrow> map sp_order ss = [i..i + int (length ss) - 1]"
proof (induction i ss rule: linear_from.induct)
  case (1 i)
  then show ?case by simp
next
  case (2 i s ss)
  then have "map sp_order ss = [i + 1..i + int (length ss)]" by (simp add: algebra_simps)
  with 2 show ?case by (simp add: upto_rec1)
qed

lemma linear_depends: "linear_from i ss \<Longrightarrow> s \<in> set ss \<Longrightarrow> dep \<in> set (sp_depends_on s) \<Longrightarrow> 1 \<le> dep \<and> dep < sp_order s"
  by (induction i ss rule: linear_from.induct) (auto simp: list_all_iff not_le)

lemma decide_from_specs_accepted:
  "dd_accepted (decide_from_specs specs m) \<longleftrightarrow>
     2 \<le> length specs \<and> int (length specs) \<le> m \<and> linear_from 1 (sort_key sp_order specs)"
  by (auto simp: decide_from_specs_def Let_def single_unit_def)

lemma decide_from_specs_subtasks:
  "dd_accepted (decide_from_specs specs m) \<Longrightarrow> dd_subtasks (decide_from_specs specs m) = sort_key sp_order specs \<and>
     dd_n (decide_from_specs specs m) = length specs"
  by (auto simp: decide_from_specs_def Let_def single_unit_def split: if_splits)

lemma same_mset_sorted: "mset xs = mset ys \<Longrightarrow> sorted xs \<Longrightarrow> sorted ys \<Longrightarrow> xs = (ys :: int list)"
  by (metis properties_for_sort)

lemma mset_sort_orders: "mset (map sp_order (sort_key sp_order specs)) = mset (map sp_order specs)"
  by (metis mset_map mset_sort)

lemma linear_iff:
  "linear_from i ss \<longleftrightarrow> map sp_order ss = [i..i + int (length ss) - 1] \<and>
     (\<forall>s\<in>set ss. \<forall>dep\<in>set (sp_depends_on s). 1 \<le> dep \<and> dep < sp_order s)"
proof (intro iffI conjI)
  assume "linear_from i ss"
  then show "map sp_order ss = [i..i + int (length ss) - 1]"
    and "\<forall>s\<in>set ss. \<forall>dep\<in>set (sp_depends_on s). 1 \<le> dep \<and> dep < sp_order s"
    using linear_orders linear_depends by blast+
next
  assume "map sp_order ss = [i..i + int (length ss) - 1] \<and>
     (\<forall>s\<in>set ss. \<forall>dep\<in>set (sp_depends_on s). 1 \<le> dep \<and> dep < sp_order s)"
  then show "linear_from i ss"
  proof (induction ss arbitrary: i)
    case Nil
    then show ?case by simp
  next
    case (Cons s ss)
    then have "sp_order s = i" "map sp_order ss = [i + 1..i + 1 + int (length ss) - 1]"
      by (simp_all add: upto_rec1 algebra_simps)
    with Cons show ?case by (auto simp: list_all_iff not_le)
  qed
qed

text \<open>The rule as the documentation states it.\<close>

definition valid_split :: "subtask_spec list \<Rightarrow> int \<Rightarrow> bool" where
  "valid_split specs m \<longleftrightarrow> 2 \<le> length specs \<and> int (length specs) \<le> m \<and>
     mset (map sp_order specs) = mset [1..int (length specs)] \<and>
     (\<forall>s\<in>set specs. \<forall>dep\<in>set (sp_depends_on s). 1 \<le> dep \<and> dep < sp_order s)"

lemma decide_from_specs_iff: "dd_accepted (decide_from_specs specs m) \<longleftrightarrow> valid_split specs m"
proof -
  have "map sp_order (sort_key sp_order specs) = [1..int (length specs)] \<longleftrightarrow>
      mset (map sp_order specs) = mset [1..int (length specs)]"
    by (metis mset_sort_orders same_mset_sorted sorted_sort_key sorted_upto)
  then show ?thesis by (simp add: decide_from_specs_accepted valid_split_def linear_iff)
qed

definition proposed_specs :: "yval option \<Rightarrow> subtask_spec list option" where
  "proposed_specs structured =
     (case structured of
        Some (YMap m) \<Rightarrow>
          (case (get_or_none m ''decompose'', get_or_none m ''subtasks'') of
             (YBool True, YList raws) \<Rightarrow> parse_subtasks raws
           | _ \<Rightarrow> None)
      | _ \<Rightarrow> None)"

lemma single_unit_rejected [simp]: "\<not> dd_accepted (single_unit why)" "dd_n (single_unit why) = 1" "dd_subtasks (single_unit why) = []"
  by (simp_all add: single_unit_def)

lemma decide_decomposition_cases:
  "decide_decomposition structured gate_on m =
     (case proposed_specs structured of
        Some specs \<Rightarrow> if gate_on then decide_from_specs specs m else single_unit GATE_OFF
      | None \<Rightarrow> decide_decomposition structured gate_on m) \<and>
   (proposed_specs structured = None \<longrightarrow> \<not> dd_accepted (decide_decomposition structured gate_on m))"
  by (auto simp: decide_decomposition_def proposed_specs_def split: option.splits yval.splits bool.splits)

text \<open>
  C33. A proposed split is accepted exactly when the documented rule holds: the gate is on, the planner
  recommended it and every subtask parses, there are between two and \<open>max_subtasks\<close> of them, their
  orders are \<open>1..n\<close> and every dependency is an earlier order.  An accepted split is the proposed
  subtasks in order, a rejected one is a single unit, and an operator's split meets the same rule.
\<close>

theorem split_accepted_iff_valid:
  "(dd_accepted (decide_decomposition structured gate_on m) \<longleftrightarrow>
      gate_on \<and> (case proposed_specs structured of None \<Rightarrow> False | Some specs \<Rightarrow> valid_split specs m)) \<and>
   (dd_accepted (decide_operator_decomposition specs' m) \<longleftrightarrow> valid_split specs' m) \<and>
   (case proposed_specs structured of
      None \<Rightarrow> dd_n (decide_decomposition structured gate_on m) = 1
    | Some specs \<Rightarrow>
        if dd_accepted (decide_decomposition structured gate_on m)
        then mset (dd_subtasks (decide_decomposition structured gate_on m)) = mset specs \<and>
             map sp_order (dd_subtasks (decide_decomposition structured gate_on m)) = [1..int (length specs)]
        else dd_n (decide_decomposition structured gate_on m) = 1 \<and> dd_subtasks (decide_decomposition structured gate_on m) = [])"
proof -
  have op: "dd_accepted (decide_operator_decomposition specs' m) \<longleftrightarrow> valid_split specs' m"
    by (simp add: decide_operator_decomposition_def Let_def decide_from_specs_iff)
  show ?thesis
  proof (cases "proposed_specs structured")
    case None
    then have "\<not> dd_accepted (decide_decomposition structured gate_on m)" using decide_decomposition_cases by blast
    moreover have "dd_n (decide_decomposition structured gate_on m) = 1"
      using None by (auto simp: decide_decomposition_def proposed_specs_def single_unit_def split: option.splits yval.splits bool.splits)
    ultimately show ?thesis using None op by simp
  next
    case (Some specs)
    with decide_decomposition_cases [of structured gate_on m]
    have d: "decide_decomposition structured gate_on m = (if gate_on then decide_from_specs specs m else single_unit GATE_OFF)"
      by simp
    have orders: "map sp_order (sort_key sp_order specs) = [1..int (length specs)]" if "dd_accepted (decide_from_specs specs m)"
      using that linear_orders [of 1 "sort_key sp_order specs"] by (simp add: decide_from_specs_accepted)
    have rejected: "dd_n (decide_from_specs specs m) = 1 \<and> dd_subtasks (decide_from_specs specs m) = []"
      if "\<not> dd_accepted (decide_from_specs specs m)"
      using that by (auto simp: decide_from_specs_def Let_def single_unit_def split: if_splits)
    show ?thesis
      using Some op d orders rejected decide_from_specs_subtasks [of specs m]
      by (auto simp: decide_from_specs_iff [symmetric])
  qed
qed

section \<open>The split as the store has it\<close>

text \<open>\<open>n\<close> planned subtasks, the first \<open>k\<close> of them committed, and the task row says so.\<close>

definition split_inv :: "string \<Rightarrow> int \<Rightarrow> int \<Rightarrow> db \<Rightarrow> bool" where
  "split_inv tid n k d \<longleftrightarrow>
     map (\<lambda>r. (sb_order r, commit_of r \<noteq> None)) (get_subtasks tid d) = map (\<lambda>i. (i, i \<le> k)) [1..n] \<and>
     map_option tk_subtasks_completed (get_task tid d) = Some k"

definition keeps_split :: "string \<Rightarrow> db \<Rightarrow> db \<Rightarrow> bool" where
  "keeps_split tid d d' \<longleftrightarrow> get_subtasks tid d' = get_subtasks tid d \<and>
     map_option tk_subtasks_completed (get_task tid d') = map_option tk_subtasks_completed (get_task tid d)"

lemma split_inv_keeps: "keeps_split tid d d' \<Longrightarrow> split_inv tid n k d' = split_inv tid n k d"
  by (simp add: keeps_split_def split_inv_def)

lemma keeps_split_trans: "keeps_split tid d e \<Longrightarrow> keeps_split tid e f \<Longrightarrow> keeps_split tid d f"
  by (simp add: keeps_split_def)

lemma keeps_split_refl [simp]: "keeps_split tid d d"
  by (simp add: keeps_split_def)

lemma keeps_split_update:
  assumes "list_all keeps_id flds" and "list_all (\<lambda>f. \<forall>r. tk_subtasks_completed (f r) = tk_subtasks_completed r) flds"
  shows "keeps_split tid d (update_task now t flds d)"
proof -
  have "tk_subtasks_completed (fold (\<lambda>f r. f r) flds r) = tk_subtasks_completed r" for r
    using assms(2) by (induction flds arbitrary: r) auto
  then show ?thesis
    by (simp add: keeps_split_def get_subtasks_def get_task_update [OF assms(1)] option.map_comp comp_def)
qed

lemma keeps_split_checkpoint: "keeps_split tid d (save_checkpoint now t rs d)"
  unfolding save_checkpoint_def save_flow_checkpoint_def by (rule keeps_split_update) simp_all

lemma insort_key_map: "(\<And>x. f (g x) = f x) \<Longrightarrow> insort_key f (g x) (map g xs) = map g (insort_key f x xs)"
  by (induction xs) auto

lemma sort_key_map_keeps: "(\<And>x. f (g x) = f x) \<Longrightarrow> sort_key f (map g xs) = map g (sort_key f xs)"
  by (induction xs) (simp_all add: insort_key_map)

lemma filter_map_keeps: "(\<And>x. p (g x) = p x) \<Longrightarrow> filter p (map g xs) = map g (filter p xs)"
  by (induction xs) auto

lemma get_subtasks_commit:
  "get_subtasks tid (set_subtask_commit tid order sha st d) =
     map (\<lambda>r. if sb_order r = order then r\<lparr>sb_commit_sha := Some sha, sb_status := st\<rparr> else r) (get_subtasks tid d)"
proof -
  let ?g = "\<lambda>r. if subtask_key r = (tid, order) then r\<lparr>sb_commit_sha := Some sha, sb_status := st\<rparr> else r"
  have "get_subtasks tid (set_subtask_commit tid order sha st d) = map ?g (get_subtasks tid d)"
    by (simp add: get_subtasks_def set_subtask_commit_def update_rows_def filter_map_keeps sort_key_map_keeps)
  moreover have "map ?g (get_subtasks tid d) =
      map (\<lambda>r. if sb_order r = order then r\<lparr>sb_commit_sha := Some sha, sb_status := st\<rparr> else r) (get_subtasks tid d)"
    by (rule map_cong) (auto simp: subtask_key_def get_subtasks_def)
  ultimately show ?thesis by simp
qed

lemma get_task_commit [simp]: "get_task tid (set_subtask_commit t order sha st d) = get_task tid d"
  by (simp add: set_subtask_commit_def)

lemma commit_rows:
  assumes "split_inv tid n k d" and "sha \<noteq> []" and "0 \<le> k"
  shows "map (\<lambda>r. (sb_order r, commit_of r \<noteq> None)) (get_subtasks tid (set_subtask_commit tid (k + 1) sha st d)) =
    map (\<lambda>i. (i, i \<le> k + 1)) [1..n]"
proof -
  have "map (\<lambda>r. (sb_order r, commit_of r \<noteq> None)) (get_subtasks tid (set_subtask_commit tid (k + 1) sha st d)) =
      map (\<lambda>(i, c). (i, i = k + 1 \<or> c)) (map (\<lambda>r. (sb_order r, commit_of r \<noteq> None)) (get_subtasks tid d))"
    using assms(2) by (auto simp: get_subtasks_commit commit_of_def)
  also have "\<dots> = map (\<lambda>i. (i, i \<le> k + 1)) [1..n]"
    using assms(1,3) by (auto simp: split_inv_def)
  finally show ?thesis .
qed

lemma commit_advances:
  assumes "split_inv tid n k d" and "sha \<noteq> []" and "0 \<le> k"
  shows "split_inv tid n (k + 1) (update_task now tid [tk_subtasks_completed_update (\<lambda>_. k + 1)]
    (set_subtask_commit tid (k + 1) sha st d))"
proof -
  have keep: "list_all keeps_id [tk_subtasks_completed_update (\<lambda>_. k + 1)]" by simp
  moreover have "get_task tid d \<noteq> None" using assms(1) by (auto simp: split_inv_def)
  ultimately show ?thesis using commit_rows [OF assms]
    by (auto simp: split_inv_def get_task_update [OF keep] get_subtasks_def)
qed

section \<open>Recovery of a split\<close>

lemma count_commits_all:
  "list_all (\<lambda>r. case commit_of r of None \<Rightarrow> True | Some sha \<Rightarrow> branch = [] \<or> on_branch sha branch) rs \<Longrightarrow>
    count_commits on_branch branch rs n = Inr (n + length (filter (\<lambda>r. commit_of r \<noteq> None) rs))"
  by (induction rs arbitrary: n) (auto split: option.splits)

definition branch_of :: "task_row \<Rightarrow> string" where
  "branch_of task = (case tk_branch task of None \<Rightarrow> [] | Some b \<Rightarrow> b)"

definition commits_on_branch :: "(string \<Rightarrow> string \<Rightarrow> bool) \<Rightarrow> task_row \<Rightarrow> db \<Rightarrow> bool" where
  "commits_on_branch on_branch task d \<longleftrightarrow>
     list_all (\<lambda>r. case commit_of r of None \<Rightarrow> True | Some sha \<Rightarrow> branch_of task = [] \<or> on_branch sha (branch_of task))
       (get_subtasks (tk_task_id task) d)"

lemma landed_count:
  assumes "map (\<lambda>r. (sb_order r, commit_of r \<noteq> None)) rs = map (\<lambda>i. (i, i \<le> k)) [1..n]" and "0 \<le> k" and "k \<le> n"
  shows "length (filter (\<lambda>r. commit_of r \<noteq> None) rs) = nat k \<and> map sb_order (filter (\<lambda>r. commit_of r \<noteq> None) rs) = [1..k]"
proof -
  have "map sb_order (filter (\<lambda>r. commit_of r \<noteq> None) rs) =
      map fst (filter snd (map (\<lambda>r. (sb_order r, commit_of r \<noteq> None)) rs))"
    by (simp add: filter_map comp_def)
  also have "\<dots> = filter (\<lambda>i. i \<le> k) [1..n]" unfolding assms(1) by (simp add: filter_map comp_def)
  also have "\<dots> = [1..k]"
  proof -
    have "[1..n] = [1..k] @ [k + 1..n]" using assms(2,3) upto_split1 [of 1 "k + 1" n] by (cases "k = n") simp_all
    then show ?thesis by (auto simp: filter_empty_conv)
  qed
  finally have "map sb_order (filter (\<lambda>r. commit_of r \<noteq> None) rs) = [1..k]" .
  moreover from arg_cong [OF this, of length] have "length (filter (\<lambda>r. commit_of r \<noteq> None) rs) = nat k" by simp
  ultimately show ?thesis by simp
qed

lemma reconcile_split:
  assumes "split_inv (tk_task_id task) n k d" and "0 \<le> k" and "k \<le> n" and "commits_on_branch on_branch task d"
    and "tk_subtasks_completed task = c"
  shows "reconcile_decomposed on_branch task d =
    (if c < k then manual_plan (tk_task_id task) (CommitsUnrecorded (nat k) c)
     else (bare_plan RA_RESUME (Some (tk_task_id task)))\<lparr>rv_resume_subtask := Some (k + 1)\<rparr>)"
proof -
  have "count_commits on_branch (branch_of task) (get_subtasks (tk_task_id task) d) 0 =
      Inr (length (filter (\<lambda>r. commit_of r \<noteq> None) (get_subtasks (tk_task_id task) d)))"
    using assms(4) by (simp add: count_commits_all commits_on_branch_def)
  moreover have "length (filter (\<lambda>r. commit_of r \<noteq> None) (get_subtasks (tk_task_id task) d)) = nat k"
    using landed_count assms(1-3) by (auto simp: split_inv_def)
  ultimately show ?thesis
    using assms(2,5) by (simp add: reconcile_decomposed_def branch_of_def [symmetric] Let_def)
qed

section \<open>The fan-out commits in order\<close>

text \<open>
  What the environment keeps: a phase, the publication of inputs and a Git commit leave the subtask
  rows, the recorded count, the index and the decision alone, and a commit has a hash.
\<close>

definition env_ok :: "drive_env \<Rightarrow> bool" where
  "env_ok env \<longleftrightarrow>
     (\<forall>reg sub s. keeps_split (dn_task env) (dv_db s) (dv_db (fst (dn_drive env reg sub s))) \<and>
        dv_files (fst (dn_drive env reg sub s)) = dv_files s \<and> dv_trace (fst (dn_drive env reg sub s)) = dv_trace s) \<and>
     (\<forall>u s d. dn_prepare env u s = Inr d \<longrightarrow> keeps_split (dn_task env) (dv_db s) d) \<and>
     (\<forall>order slug title d. keeps_split (dn_task env) d (fst (dn_commit env order slug title d)) \<and>
        snd (dn_commit env order slug title d) \<noteq> Inr [])"

definition index_ok :: "int \<Rightarrow> split_files \<Rightarrow> bool" where
  "index_ok n fs \<longleftrightarrow> (\<exists>es. sf_index fs = Some es \<and> map ix_order es = [1..n])"

text \<open>What the trace shows of units \<open>i, i + 1, \<dots>\<close>: each driven once, then committed.\<close>

fun unit_trace :: "regions \<Rightarrow> int \<Rightarrow> string list \<Rightarrow> drive_event list" where
  "unit_trace rg i [] = []"
| "unit_trace rg i (sha # shas) =
     PhaseDriven (rg_region_entry rg) (Some (rg_region rg)) (Some i) # SubtaskCommitted i sha # unit_trace rg (i + 1) shas"

lemma update_entry_orders:
  "(\<And>e. ix_order (f e) = ix_order e) \<Longrightarrow> order \<in> set (map ix_order es) \<Longrightarrow>
    \<exists>es'. update_entry order f es = Some es' \<and> map ix_order es' = map ix_order es"
  by (induction es) auto

lemma update_index_ok:
  assumes "index_ok n fs" and "1 \<le> order" and "order \<le> n"
  shows "\<exists>fs'. update_subtask_index order st sha fs = Inr fs' \<and> index_ok n fs'"
proof -
  from assms(1) obtain es where es: "sf_index fs = Some es" "map ix_order es = [1..n]" by (auto simp: index_ok_def)
  have "order \<in> set (map ix_order es)" using assms(2,3) unfolding es(2) by simp
  then obtain es' where "update_entry order (\<lambda>e. e\<lparr>ix_status := st,
      ix_commit_sha := (case sha of None \<Rightarrow> ix_commit_sha e | Some s \<Rightarrow> Some s)\<rparr>) es = Some es'" "map ix_order es' = map ix_order es"
    using update_entry_orders [of "\<lambda>e. e\<lparr>ix_status := st,
      ix_commit_sha := (case sha of None \<Rightarrow> ix_commit_sha e | Some s \<Rightarrow> Some s)\<rparr>" order es] by auto
  with es show ?thesis by (simp add: update_subtask_index_def index_ok_def)
qed

lemma env_drive:
  "env_ok env \<Longrightarrow> keeps_split (dn_task env) (dv_db s) (dv_db (fst (dn_drive env reg sub s))) \<and>
     dv_files (fst (dn_drive env reg sub s)) = dv_files s \<and> dv_trace (fst (dn_drive env reg sub s)) = dv_trace s"
  by (simp add: env_ok_def)

lemma env_prepare: "env_ok env \<Longrightarrow> dn_prepare env u s = Inr d \<Longrightarrow> keeps_split (dn_task env) (dv_db s) d"
  by (simp add: env_ok_def)

lemma env_commit:
  "env_ok env \<Longrightarrow> dn_commit env order slug title d = (d1, r) \<Longrightarrow> keeps_split (dn_task env) d d1 \<and> r \<noteq> Inr []"
  unfolding env_ok_def by (metis fst_conv snd_conv)

lemma checkpoint_at_frame [simp]:
  "dv_files (checkpoint_at env nid s) = dv_files s" "dv_trace (checkpoint_at env nid s) = dv_trace s"
  "split_inv (dn_task env) n k (dv_db (checkpoint_at env nid s)) = split_inv (dn_task env) n k (dv_db s)"
  by (simp_all add: checkpoint_at_def Let_def split_inv_keeps [OF keeps_split_checkpoint])

lemma phase_frame:
  assumes "env_ok env" and "phase env entry reg sub s = (s', r)"
  shows "dv_files s' = dv_files s \<and> dv_trace s' = dv_trace s @ [PhaseDriven entry reg sub] \<and>
    split_inv (dn_task env) n k (dv_db s') = split_inv (dn_task env) n k (dv_db s)"
proof -
  let ?s1 = "checkpoint_at env entry s"
  let ?s2 = "?s1\<lparr>dv_trace := dv_trace ?s1 @ [PhaseDriven entry reg sub]\<rparr>"
  have "s' = fst (dn_drive env reg sub ?s2)" using assms(2) by (simp add: phase_def Let_def)
  with env_drive [OF assms(1), of ?s2 reg sub]
  have "keeps_split (dn_task env) (dv_db ?s2) (dv_db s')" "dv_files s' = dv_files ?s2" "dv_trace s' = dv_trace ?s2" by blast+
  from split_inv_keeps [OF this(1)] this(2,3) show ?thesis by simp
qed

lemma commit_subtask_step:
  assumes "env_ok env" and "split_inv (dn_task env) n k (dv_db s)" and "index_ok n (dv_files s)" and "0 \<le> k" and "k < n"
    and "sp_order u = k + 1" and "commit_subtask env u s = (s', e)"
  shows "(e \<noteq> None \<and> split_inv (dn_task env) n k (dv_db s') \<and> dv_files s' = dv_files s \<and> dv_trace s' = dv_trace s) \<or>
    (e = None \<and> split_inv (dn_task env) n (k + 1) (dv_db s') \<and> index_ok n (dv_files s') \<and>
      (\<exists>sha. dv_trace s' = dv_trace s @ [SubtaskCommitted (k + 1) sha]))"
proof -
  obtain d1 r where c: "dn_commit env (k + 1) (sp_slug u) (sp_title u) (dv_db s) = (d1, r)" by fastforce
  have keep: "keeps_split (dn_task env) (dv_db s) d1" and ne: "r \<noteq> Inr []"
    using env_commit [OF assms(1) c] by auto
  have inv: "split_inv (dn_task env) n k d1" using assms(2) split_inv_keeps [OF keep] by simp
  show ?thesis
  proof (cases r)
    case (Inl x)
    with assms(6,7) c inv show ?thesis by (auto simp: commit_subtask_def)
  next
    case (Inr sha)
    with update_index_ok [OF assms(3), of "k + 1" "''committed''" "Some sha"] assms(4,5)
    obtain fs where "update_subtask_index (k + 1) ''committed'' (Some sha) (dv_files s) = Inr fs" "index_ok n fs" by auto
    with assms(6,7) c Inr ne commit_advances [OF inv _ assms(4), of sha] show ?thesis
      by (auto simp: commit_subtask_def commit_marked_def)
  qed
qed

lemma next_unit_frame [simp]:
  "dv_files (next_unit env order s) = dv_files s" "dv_trace (next_unit env order s) = dv_trace s"
  "split_inv (dn_task env) n k (dv_db (next_unit env order s)) = split_inv (dn_task env) n k (dv_db s)"
  unfolding next_unit_def
  by (simp_all add: split_inv_keeps [OF keeps_split_update])

lemma fan_out_units_inv:
  assumes env: "env_ok env" and "\<And>i. i \<in> set committed \<Longrightarrow> i \<le> k" and "0 \<le> k" and "k \<le> n"
    and "map sp_order us = [k + 1..n]" and "split_inv (dn_task env) n k (dv_db s)" and "index_ok n (dv_files s)"
    and "fan_out_units env rg committed us s = (s', r)"
  shows "\<exists>m shas tail. k \<le> m \<and> m \<le> n \<and> length shas = nat (m - k) \<and>
    split_inv (dn_task env) n m (dv_db s') \<and> index_ok n (dv_files s') \<and>
    dv_trace s' = dv_trace s @ unit_trace rg (k + 1) shas @ tail \<and>
    (r = Inr None \<longrightarrow> m = n \<and> tail = []) \<and>
    (r \<noteq> Inr None \<longrightarrow> m < n \<and> tail \<in> {[], [PhaseDriven (rg_region_entry rg) (Some (rg_region rg)) (Some (m + 1))]} \<and>
      (\<forall>res. r = Inr (Some res) \<longrightarrow> fr_status res \<noteq> DONE))"
  using assms(2-)
proof (induction us arbitrary: k s)
  case Nil
  then have "n = k" by simp
  with Nil show ?case by (intro exI [of _ k] exI [of _ "[]"]) auto
next
  case (Cons u us)
  have kn: "k < n"
  proof (rule ccontr)
    assume "\<not> k < n"
    then have "[k + 1..n] = []" by simp
    with Cons.prems(4) show False by simp
  qed
  then have "[k + 1..n] = (k + 1) # [k + 1 + 1..n]" by (simp add: upto_rec1)
  with Cons.prems(4) have u: "sp_order u = k + 1" and us: "map sp_order us = [k + 1 + 1..n]" by simp_all
  have fresh: "sp_order u \<notin> set committed" using Cons.prems(1) u by force
  show ?case
  proof (cases "dn_prepare env u s")
    case (Inl e)
    with Cons.prems fresh u have "s' = s" "r = Inl e" by auto
    with Cons.prems kn show ?thesis by (intro exI [of _ k] exI [of _ "[]"] exI [of _ "[]"]) auto
  next
    case (Inr d1)
    let ?s1 = "s\<lparr>dv_db := d1\<rparr>"
    obtain s2 pr where ph: "phase env (rg_region_entry rg) (Some (rg_region rg)) (Some (sp_order u)) ?s1 = (s2, pr)" by fastforce
    have inv1: "split_inv (dn_task env) n k d1"
      using split_inv_keeps [OF env_prepare [OF env Inr]] Cons.prems(5) by simp
    from phase_frame [OF env ph, of n k] inv1 u
    have p2: "dv_files s2 = dv_files s" "dv_trace s2 = dv_trace s @ [PhaseDriven (rg_region_entry rg) (Some (rg_region rg)) (Some (k + 1))]"
      "split_inv (dn_task env) n k (dv_db s2)" by simp_all
    show ?thesis
    proof (cases "\<exists>res. pr = Inr res \<and> fr_status res = DONE")
      case False
      with Cons.prems(7) fresh Inr ph have "s' = s2" "r \<noteq> Inr None" "\<And>res. r = Inr (Some res) \<Longrightarrow> fr_status res \<noteq> DONE"
        by (auto split: sum.splits if_splits)
      with p2 kn Cons.prems(2,3,6) show ?thesis
        by (intro exI [of _ k] exI [of _ "[]"]
              exI [of _ "[PhaseDriven (rg_region_entry rg) (Some (rg_region rg)) (Some (k + 1))]"]) auto
    next
      case True
      then obtain res where res: "pr = Inr res" "fr_status res = DONE" by blast
      let ?s3 = "if us \<noteq> [] then checkpoint_at env (rg_region_entry rg) s2 else s2"
      have p3: "dv_files ?s3 = dv_files s" "dv_trace ?s3 = dv_trace s2" "split_inv (dn_task env) n k (dv_db ?s3)"
        using p2 by simp_all
      obtain s4 e where cm: "commit_subtask env u ?s3 = (s4, e)" by fastforce
      from commit_subtask_step [OF env p3(3) _ Cons.prems(2) kn u cm] Cons.prems(6) p3(1)
      have step: "(e \<noteq> None \<and> split_inv (dn_task env) n k (dv_db s4) \<and> dv_files s4 = dv_files ?s3 \<and> dv_trace s4 = dv_trace ?s3) \<or>
        (e = None \<and> split_inv (dn_task env) n (k + 1) (dv_db s4) \<and> index_ok n (dv_files s4) \<and>
          (\<exists>sha. dv_trace s4 = dv_trace ?s3 @ [SubtaskCommitted (k + 1) sha]))" by simp
      have run: "fan_out_units env rg committed (u # us) s =
          (case e of Some x \<Rightarrow> (s4, Inl x)
           | None \<Rightarrow> fan_out_units env rg committed us (if us \<noteq> [] then next_unit env (sp_order u) s4 else s4))"
        using fresh Inr ph res cm by (simp split: option.splits)
      show ?thesis
      proof (cases e)
        case (Some x)
        with run Cons.prems(7) step p3 p2 kn Cons.prems(2,3,6) show ?thesis
          by (intro exI [of _ k] exI [of _ "[]"]
                exI [of _ "[PhaseDriven (rg_region_entry rg) (Some (rg_region rg)) (Some (k + 1))]"]) auto
      next
        case None
        with step obtain sha where s4: "split_inv (dn_task env) n (k + 1) (dv_db s4)" "index_ok n (dv_files s4)"
          "dv_trace s4 = dv_trace ?s3 @ [SubtaskCommitted (k + 1) sha]" by auto
        let ?s5 = "if us \<noteq> [] then next_unit env (sp_order u) s4 else s4"
        have s5: "split_inv (dn_task env) n (k + 1) (dv_db ?s5)" "index_ok n (dv_files ?s5)" "dv_trace ?s5 = dv_trace s4"
          using s4 by simp_all
        have go: "fan_out_units env rg committed us ?s5 = (s', r)" using run None Cons.prems(7) by simp
        have le: "\<And>i. i \<in> set committed \<Longrightarrow> i \<le> k + 1" using Cons.prems(1) by force
        from Cons.IH [OF le _ _ us s5(1,2) go] kn Cons.prems(2) obtain m shas tail where
          m: "k + 1 \<le> m" "m \<le> n" "length shas = nat (m - (k + 1))" "split_inv (dn_task env) n m (dv_db s')" "index_ok n (dv_files s')"
          "dv_trace s' = dv_trace ?s5 @ unit_trace rg (k + 1 + 1) shas @ tail"
          "r = Inr None \<longrightarrow> m = n \<and> tail = []"
          "r \<noteq> Inr None \<longrightarrow> m < n \<and> tail \<in> {[], [PhaseDriven (rg_region_entry rg) (Some (rg_region rg)) (Some (m + 1))]} \<and>
            (\<forall>res. r = Inr (Some res) \<longrightarrow> fr_status res \<noteq> DONE)"
          by auto
        have tr: "dv_trace s' = dv_trace s @ unit_trace rg (k + 1) (sha # shas) @ tail"
          using m(6) s5(3) s4(3) p3(2) p2(2) by simp
        have len: "length (sha # shas) = nat (m - k)" using m(1,3) by simp
        from m tr len show ?thesis by (intro exI [of _ m] exI [of _ "sha # shas"] exI [of _ tail]) auto
      qed
    qed
  qed
qed


lemma fan_out_units_skip:
  "list_all (\<lambda>u. sp_order u \<in> set committed) us \<Longrightarrow>
    fan_out_units env rg committed (us @ vs) s = fan_out_units env rg committed vs s"
  by (induction us) simp_all

lemma get_task_id: "get_task tid d = Some task \<Longrightarrow> tk_task_id task = tid"
  by (auto simp: get_task_def dest: select_row_key)

definition succeeded :: "drive_error + flow_run_result \<Rightarrow> bool" where
  "succeeded r = (case r of Inl e \<Rightarrow> False | Inr res \<Rightarrow> fr_status res = DONE)"

lemma landed_orders_split: "split_inv tid n k d \<Longrightarrow> 0 \<le> k \<Longrightarrow> k \<le> n \<Longrightarrow> landed_orders tid d = [1..k]"
  unfolding landed_orders_def using landed_count by (auto simp: split_inv_def)

lemma recorded_count: "split_inv (dn_task env) n m d \<Longrightarrow> get_task (dn_task env) d = Some task \<Longrightarrow> tk_subtasks_completed task = m"
  by (simp add: split_inv_def)

text \<open>
  C32. A decomposed run commits its subtasks once each, in order.  From a store in which the first \<open>k\<close> of
  \<open>n\<close> subtasks are committed, the fan-out drives nothing for those, and then for \<open>k + 1, k + 2, \<dots>\<close>
  drives the region confined to its nodes and commits, until one unit fails; the evaluator phase runs
  exactly when all \<open>n\<close> are committed, and a run with a unit missing does not end done.  However it ends,
  the store again has the first \<open>m\<close> subtasks committed and recovery resumes at \<open>m + 1\<close>.
\<close>

theorem fan_out_in_order:
  assumes "env_ok env" and "split_inv (dn_task env) n k (dv_db s)" and "0 \<le> k" and "k \<le> n"
    and "map sp_order (dd_subtasks (dv_split s)) = [1..n]" and "index_ok n (dv_files s)"
    and "fan_out_subtasks env rg s = (s', r)"
  shows "\<exists>m shas tail. k \<le> m \<and> m \<le> n \<and> length shas = nat (m - k) \<and> split_inv (dn_task env) n m (dv_db s') \<and>
    dv_trace s' = dv_trace s @ unit_trace rg (k + 1) shas @ tail \<and>
    (if m = n then tail = [PhaseDriven (rg_post_entry rg) None None]
     else \<not> succeeded r \<and> tail \<in> {[], [PhaseDriven (rg_region_entry rg) (Some (rg_region rg)) (Some (m + 1))]}) \<and>
    (\<forall>task on_branch. get_task (dn_task env) (dv_db s') = Some task \<longrightarrow> commits_on_branch on_branch task (dv_db s') \<longrightarrow>
      rv_resume_subtask (reconcile_decomposed on_branch task (dv_db s')) = Some (m + 1))"
proof -
  let ?first = "take (nat k) (dd_subtasks (dv_split s))" and ?left = "drop (nat k) (dd_subtasks (dv_split s))"
  have split: "[1..n] = [1..k] @ [k + 1..n]" using assms(3,4) upto_split1 [of 1 "k + 1" n] by (cases "k = n") simp_all
  have landed: "landed_orders (dn_task env) (dv_db s) = [1..k]" using landed_orders_split assms(2-4) by blast
  have first: "map sp_order ?first = [1..k]" and left: "map sp_order ?left = [k + 1..n]"
    by (simp_all only: take_map [symmetric] drop_map [symmetric] assms(5) split) (simp_all add: assms(3))
  have "list_all (\<lambda>i. i \<in> set [1..k]) (map sp_order ?first)" unfolding first by (simp add: list_all_iff)
  then have "list_all (\<lambda>u. sp_order u \<in> set [1..k]) ?first" by (simp add: list.pred_map comp_def)
  from fan_out_units_skip [OF this, of env rg ?left s]
  have units: "fan_out_units env rg [1..k] (dd_subtasks (dv_split s)) s = fan_out_units env rg [1..k] ?left s" by simp
  obtain s1 q where run: "fan_out_units env rg [1..k] ?left s = (s1, q)" by fastforce
  have le: "\<And>i. i \<in> set [1..k] \<Longrightarrow> i \<le> k" by simp
  from fan_out_units_inv [OF assms(1) le assms(3,4) left assms(2,6) run] obtain m shas tail where
    m: "k \<le> m" "m \<le> n" "length shas = nat (m - k)" "split_inv (dn_task env) n m (dv_db s1)"
       "dv_trace s1 = dv_trace s @ unit_trace rg (k + 1) shas @ tail"
       "q = Inr None \<longrightarrow> m = n \<and> tail = []"
       "q \<noteq> Inr None \<longrightarrow> m < n \<and> tail \<in> {[], [PhaseDriven (rg_region_entry rg) (Some (rg_region rg)) (Some (m + 1))]} \<and>
          (\<forall>res. q = Inr (Some res) \<longrightarrow> fr_status res \<noteq> DONE)" by auto
  have result: "fan_out_subtasks env rg s = (case q of Inl e \<Rightarrow> (s1, Inl e) | Inr (Some res) \<Rightarrow> (s1, Inr res)
      | Inr None \<Rightarrow> engine_outcome (phase env (rg_post_entry rg) None None s1))"
    by (simp add: fan_out_subtasks_def landed units run split: sum.splits option.splits)
  have ends: "split_inv (dn_task env) n m (dv_db s') \<and> (\<exists>tail'. dv_trace s' = dv_trace s @ unit_trace rg (k + 1) shas @ tail' \<and>
    (if m = n then tail' = [PhaseDriven (rg_post_entry rg) None None]
     else \<not> succeeded r \<and> tail' \<in> {[], [PhaseDriven (rg_region_entry rg) (Some (rg_region rg)) (Some (m + 1))]}))"
  proof (cases "q = Inr None")
    case True
    obtain s2 p where ph: "phase env (rg_post_entry rg) None None s1 = (s2, p)" by fastforce
    with True result assms(7) have "s' = s2" by (simp add: engine_outcome_def)
    with phase_frame [OF assms(1) ph, of n m] m(4,5,6) True show ?thesis by simp
  next
    case False
    with result assms(7) m(7) have "s' = s1" "\<not> succeeded r"
      by (auto simp: succeeded_def split: sum.splits option.splits)
    with False m(4,5,7) show ?thesis by auto
  qed
  have "rv_resume_subtask (reconcile_decomposed on_branch task (dv_db s')) = Some (m + 1)"
    if t: "get_task (dn_task env) (dv_db s') = Some task" and on: "commits_on_branch on_branch task (dv_db s')" for task on_branch
  proof -
    have "0 \<le> m" using m(1) assms(3) by simp
    with reconcile_split [OF _ this m(2) on recorded_count [OF conjunct1 [OF ends] t]] get_task_id [OF t] ends
    show ?thesis by simp
  qed
  with m(1-3) ends show ?thesis by blast
qed

section \<open>Concrete runs\<close>

text \<open>Every phase ends done and every commit has the same hash; the first subtask of two has landed.\<close>

definition demo_regions :: regions where
  "demo_regions = \<lparr>rg_pre = [''plan''], rg_region = [''build''], rg_region_entry = ''build'', rg_post_entry = ''publish''\<rparr>"

definition demo_env :: drive_env where
  "demo_env = \<lparr>dn_task = ''T1'', dn_now = ''t9'',
     dn_drive = (\<lambda>reg sub s. (s, Inr \<lparr>fr_status = DONE, fr_final_node = ''build'', fr_stuck_loop = None,
        fr_limit_name = None, fr_failure_report_path = None\<rparr>)),
     dn_prepare = (\<lambda>u s. Inr (dv_db s)), dn_commit = (\<lambda>order slug title d. (d, Inr ''c2''))\<rparr>"

definition demo_spec :: "int \<Rightarrow> subtask_spec" where
  "demo_spec n = \<lparr>sp_order = n, sp_title = ''Part'', sp_slug = ''part'', sp_criteria = [''works''], sp_depends_on = [], sp_body = None\<rparr>"

definition demo_drive :: drive where
  "demo_drive = \<lparr>dv_db = update_task ''t8'' ''T1'' [tk_subtasks_completed_update (\<lambda>_. 1)] (run_ops demo_store empty_db),
     dv_run = \<lparr>flow_fingerprint = ''fp'', current_node = Some ''build'', completed_nodes = [], loop_counters = Map.empty\<rparr>,
     dv_files = \<lparr>sf_index = Some (map (index_entry_of \<circ> demo_spec) [1, 2]), sf_specs = Map.empty\<rparr>,
     dv_split = \<lparr>dd_accepted = True, dd_reason = ACCEPTED, dd_n = 2, dd_subtasks = map demo_spec [1, 2]\<rparr>,
     dv_trace = []\<rparr>"

lemma demo_env_ok: "env_ok demo_env"
  by (simp add: env_ok_def demo_env_def)

lemma demo_split_rows:
  "map (\<lambda>r. (sb_order r, sb_commit_sha r)) (get_subtasks ''T1'' (run_ops demo_store empty_db)) = [(1, Some ''c1''), (2, None)]"
  "map_option tk_subtasks_completed (get_task ''T1'' (run_ops demo_store empty_db)) = Some 0"
  by (simp_all add: demo_eval_defs Let_def get_task_def get_subtasks_def)

lemma demo_split_inv: "split_inv ''T1'' 2 1 (dv_db demo_drive)"
proof -
  let ?d = "run_ops demo_store empty_db"
  have rows: "map (\<lambda>r. (sb_order r, commit_of r \<noteq> None)) (get_subtasks ''T1'' ?d) = [(1, True), (2, False)]"
    using demo_split_rows(1) by (auto simp: commit_of_def map_eq_Cons_conv)
  have "get_subtasks ''T1'' (dv_db demo_drive) = get_subtasks ''T1'' ?d"
    by (simp add: demo_drive_def get_subtasks_def)
  moreover have "map_option tk_subtasks_completed (get_task ''T1'' (dv_db demo_drive)) = Some 1"
    using demo_split_rows(2) get_task_update [of "[tk_subtasks_completed_update (\<lambda>_. 1)]"] by (auto simp: demo_drive_def)
  ultimately show ?thesis using rows by (simp add: split_inv_def upto_rec1)
qed

theorem fan_out_in_order_witness:
  "env_ok demo_env \<and>
   (\<exists>m shas tail. 1 \<le> m \<and> m \<le> 2 \<and> length shas = nat (m - 1) \<and>
     split_inv ''T1'' 2 m (dv_db (fst (fan_out_subtasks demo_env demo_regions demo_drive))) \<and>
     dv_trace (fst (fan_out_subtasks demo_env demo_regions demo_drive)) = unit_trace demo_regions 2 shas @ tail)"
proof -
  have id: "dn_task demo_env = ''T1''" by (simp add: demo_env_def)
  have specs: "map sp_order (dd_subtasks (dv_split demo_drive)) = [1..2]"
    and idx: "index_ok 2 (dv_files demo_drive)" and tr: "dv_trace demo_drive = []"
    by (simp_all add: demo_drive_def demo_spec_def index_ok_def index_entry_of_def upto_rec1)
  obtain s' r where run: "fan_out_subtasks demo_env demo_regions demo_drive = (s', r)" by fastforce
  from fan_out_in_order [OF demo_env_ok _ _ _ specs idx run, of 1] demo_split_inv id tr run demo_env_ok
  show ?thesis by auto
qed

section \<open>The crash window of a commit\<close>

text \<open>
  \<open>set_subtask_commit\<close> and the update of \<open>subtasks_completed\<close> are two transactions.  A process that
  stops between them leaves a subtask committed and not counted, which recovery cannot place: instead of
  resuming at the next subtask it asks for an operator.
\<close>

lemma crash_between_commit_and_count:
  assumes "split_inv (dn_task env) n k d" and "0 \<le> k" and "k < n" and "sha \<noteq> []" and "get_task (dn_task env) d = Some task"
    and "commits_on_branch on_branch task (commit_marked env (k + 1) sha d)"
  shows "reconcile_decomposed on_branch task (commit_marked env (k + 1) sha d) =
    manual_plan (dn_task env) (CommitsUnrecorded (nat (k + 1)) k)"
proof -
  let ?d1 = "commit_marked env (k + 1) sha d" and ?t = "dn_task env"
  have id: "tk_task_id task = ?t" using get_task_id [OF assms(5)] .
  have count: "tk_subtasks_completed task = k" using assms(1,5) by (simp add: split_inv_def)
  have "map (\<lambda>r. (sb_order r, commit_of r \<noteq> None)) (get_subtasks ?t ?d1) = map (\<lambda>i. (i, i \<le> k + 1)) [1..n]"
    using commit_rows [OF assms(1,4,2)] by (simp add: commit_marked_def)
  with landed_count [of "get_subtasks ?t ?d1" "k + 1" n] assms(2,3)
  have "length (filter (\<lambda>r. commit_of r \<noteq> None) (get_subtasks ?t ?d1)) = nat (k + 1)" by simp
  moreover have "count_commits on_branch (branch_of task) (get_subtasks ?t ?d1) 0 =
      Inr (length (filter (\<lambda>r. commit_of r \<noteq> None) (get_subtasks ?t ?d1)))"
    using assms(6) by (simp add: count_commits_all commits_on_branch_def id)
  ultimately show ?thesis
    using assms(2) count by (simp add: reconcile_decomposed_def branch_of_def [symmetric] Let_def id)
qed

section \<open>A slug with a separator\<close>

text \<open>
  The planner's slug is any non-blank text.  With a \<open>/\<close> in it the split is accepted, the decision is
  persisted, and then the first spec file cannot be written.
\<close>

definition slash_split :: yval where
  "slash_split = YMap [(''decompose'', YBool True), (''subtasks'', YList (map (\<lambda>i. YMap
     [(''order'', YInt i), (''title'', YStr ''Part''), (''slug'', YStr ''api/client''),
      (''acceptance_criteria'', YList [YStr ''works'']), (''depends_on'', YList [])]) [1, 2]))]"

lemma slash_slug_accepted: "dd_accepted (decide_decomposition (Some slash_split) True 5)"
  by code_simp

lemma slash_slug_breaks_persisting:
  "snd (persist_decomposition ''t'' (\<lambda>_. []) ''T1'' (decide_decomposition (Some slash_split) True 5) True demo_drive) =
     Some (DriveArtifact (NoSuchDirectory [''logs'', ''T1'', ''subtasks'', ''01-api'', ''client.md'']))"
proof -
  have dec: "decide_decomposition (Some slash_split) True 5 = \<lparr>dd_accepted = True, dd_reason = ACCEPTED, dd_n = 2,
      dd_subtasks = map (\<lambda>i. \<lparr>sp_order = i, sp_title = ''Part'', sp_slug = ''api/client'', sp_criteria = [''works''],
        sp_depends_on = [], sp_body = None\<rparr>) [1, 2]\<rparr>"
    by code_simp
  have path: "subtask_spec_path ''T1'' 1 ''api/client'' = [''logs'', ''T1'', ''subtasks'', ''01-api'', ''client.md'']"
    by code_simp
  show ?thesis
    by (simp add: dec persist_decomposition_def Let_def write_subtask_artifacts_def path parent_exists_def subtasks_dir_def demo_drive_def)
qed

section \<open>A planner behind the region\<close>

text \<open>
  The nodes before the region are those the evaluator phase cannot reach.  In this flow the review sends
  rework to the planner itself, which is an ordinary loop for the validator, so the planner is not among
  them: the first phase ends after \<open>frame\<close>, no decision is ever proposed, and the run goes on at
  \<open>build\<close> without a plan.
\<close>

definition replanning_doc :: flow_doc where
  "replanning_doc = (bare_doc
     [AgentNode (plain_agent ''frame'' ''frame.md''), AgentNode (plain_agent ''plan'' ''plan.md''),
      AgentNode (plain_agent ''build'' ''build.md''), EvaluatorNode (en_critic\<lparr>ev_id := ''review''\<rparr>), done_node]
     [arrow ''frame'' ''plan'' None None, arrow ''plan'' ''build'' None None, arrow ''build'' ''review'' None None,
      arrow ''review'' ''publish'' (Some ''accept'') None, arrow ''review'' ''plan'' (Some ''rework'') (Some ''replan'')]
     [''replan'' \<mapsto> 1])\<lparr>decomposition := Some \<lparr>proposed_by = ''plan'', sub_flow = [''build''], shared_budget = None\<rparr>\<rparr>"

lemma replanning_validates: "validate_flow references (snapshot_of replanning_doc ''fp'' None) = Inr ()"
proof -
  have "check_graph (snapshot_of replanning_doc ''fp'' None) = []" by code_simp
  moreover have "check_ceiling (snapshot_of replanning_doc ''fp'' None) = []" by code_simp
  moreover have "check_report_dir references (snapshot_of replanning_doc ''fp'' None) = []"
    by (simp add: check_report_dir_def check_report_dir_references_def snapshot_of_def replanning_doc_def
        bare_doc_def content_translate_def)
  ultimately show ?thesis by (simp add: validate_flow_def)
qed

lemma replanning_regions:
  "partition_decomposition [''build''] (snapshot_of replanning_doc ''fp'' None) =
     Inr \<lparr>rg_pre = [''frame''], rg_region = [''build''], rg_region_entry = ''build'', rg_post_entry = ''review''\<rparr>"
  by code_simp

lemma replanning_entry: "entry_node_id (snapshot_of replanning_doc ''fp'' None) = Inr ''frame''"
  by code_simp

lemma planner_behind_region_never_plans:
  "dv_trace (fst (run_phases demo_env [''build''] (snapshot_of replanning_doc ''fp'' None) False
     (demo_drive\<lparr>dv_split := single_unit NOT_RECOMMENDED\<rparr>))) =
   [PhaseDriven ''frame'' (Some [''frame'']) None, PhaseDriven ''build'' None None]"
proof -
  have "decomposition (doc (snapshot_of replanning_doc ''fp'' None)) \<noteq> None"
    by (simp add: replanning_doc_def)
  then show ?thesis
    by (simp add: run_phases_def Let_def replanning_entry replanning_regions phase_def checkpoint_at_def demo_env_def
        engine_outcome_def demo_drive_def del: doc_snapshot_of)
qed

end
