(* ===== verification/TaskFile.thy ===== *)
theory TaskFile
  imports NodeOverrides PyValues "HOL-Library.AList"
begin

text \<open>
  The task model and the task file parser (\<open>task/model.py\<close>, \<open>task/parser.py\<close>).  The YAML and JSON
  parsers are the arguments \<open>yaml\<close> and \<open>json\<close>: a text to an error message or a value, duplicate keys
  being an error (the loaders that reject them are theirs).  Paths are POSIX.
\<close>

section \<open>Task model (task/model.py)\<close>

definition BRANCH_NAME_MAX_BYTES :: nat where "BRANCH_NAME_MAX_BYTES = 255"

definition BRANCH_NAME_MAX_LEN :: nat where "BRANCH_NAME_MAX_LEN = 50"

definition branch_forbidden_chars :: "char set" where
  "branch_forbidden_chars = {CHR '' '', CHR ''~'', CHR ''^'', CHR '':'', CHR ''?'', CHR ''*'', CHR ''['', CHR 0x5C}"

definition ALLOWED_TASK_KEYS :: "string list" where
  "ALLOWED_TASK_KEYS =
    [''id'', ''title'', ''task_type'', ''branch_name'', ''branch_mode'', ''branch_ref'', ''publish'', ''auto_merge'',
     ''prompt_audit'', ''decomposition'', ''trust_level'', ''commit_type'', ''contacts'', ''depends_on'', ''subtasks'',
     ''priority'', ''queue'', ''nodes'', ''references'']"

definition REQUIRED_TASK_FIELDS :: "string list" where
  "REQUIRED_TASK_FIELDS = [''id'', ''title'']"

definition REFERENCES_MAX_ITEMS :: nat where "REFERENCES_MAX_ITEMS = 16"

definition REFERENCE_MAX_CHARS :: nat where "REFERENCE_MAX_CHARS = 200"

definition COMMIT_TYPES :: "string list" where
  "COMMIT_TYPES = [''feat'', ''fix'', ''docs'', ''style'', ''refactor'', ''perf'', ''test'', ''build'', ''ci'', ''chore'', ''revert'']"

definition DEFAULT_QUEUE :: string where "DEFAULT_QUEUE = ''default''"

datatype task_priority = LOW | MID | HIGH

fun priority_value :: "task_priority \<Rightarrow> string" where
  "priority_value LOW = ''low''"
| "priority_value MID = ''mid''"
| "priority_value HIGH = ''high''"

definition normalize_priority :: "yval \<Rightarrow> task_priority" where
  "normalize_priority v =
     (case v of
        YStr s \<Rightarrow> (let folded = py_lower (py_strip s)
                  in if folded = ''low'' then LOW else if folded = ''high'' then HIGH else MID)
      | _ \<Rightarrow> MID)"

definition priority_rank :: "yval \<Rightarrow> nat" where
  "priority_rank v = (case normalize_priority v of HIGH \<Rightarrow> 0 | MID \<Rightarrow> 1 | LOW \<Rightarrow> 2)"

text \<open>\<open>len(s.encode('utf-8'))\<close> on code points below 256.\<close>

definition utf8_len :: "string \<Rightarrow> nat" where
  "utf8_len s = sum_list (map (\<lambda>c. if (of_char c :: nat) < 128 then 1 else 2) s)"

definition branch_component_ok :: "string \<Rightarrow> bool" where
  "branch_component_ok c =
     (c \<noteq> [] \<and> \<not> starts_with c ''.'' \<and> \<not> starts_with c ''-'' \<and> \<not> ends_with c ''.lock'' \<and> \<not> ends_with c ''.'')"

definition is_valid_branch_name :: "string \<Rightarrow> bool" where
  "is_valid_branch_name b =
     (if b = [] \<or> utf8_len b > BRANCH_NAME_MAX_BYTES then False
      else if b \<noteq> py_strip b then False
      else if b = ''@'' \<or> py_upper b = ''HEAD'' then False
      else if starts_with b ''/'' \<or> starts_with b ''-'' \<or> starts_with b ''refs/'' \<or> ends_with b ''/'' \<or> ends_with b ''.'' then False
      else if contains_sub b ''..'' \<or> contains_sub b ''//'' \<or> contains_sub b (CHR ''@'' # [CHR 0x7B]) then False
      else if list_ex (\<lambda>c. (of_char c :: nat) < 32 \<or> (of_char c :: nat) = 127 \<or> c \<in> branch_forbidden_chars) b then False
      else list_all branch_component_ok (split_on (CHR ''/'') b))"

datatype branch_mode = BM_NEW | BM_EXISTING | BM_CURRENT

fun branch_mode_value :: "branch_mode \<Rightarrow> string" where
  "branch_mode_value BM_NEW = ''new''"
| "branch_mode_value BM_EXISTING = ''existing''"
| "branch_mode_value BM_CURRENT = ''current''"

datatype publish_scope = PS_COMMIT | PS_PUSH | PS_PULL_REQUEST

fun publish_scope_value :: "publish_scope \<Rightarrow> string" where
  "publish_scope_value PS_COMMIT = ''commit''"
| "publish_scope_value PS_PUSH = ''push''"
| "publish_scope_value PS_PULL_REQUEST = ''pull_request''"

record normalized_task =
  nt_id :: string
  nt_title :: string
  nt_description :: string
  nt_task_type :: "string option"
  nt_branch_name :: "string option"
  nt_branch_mode :: "branch_mode option"
  nt_branch_ref :: "string option"
  nt_publish :: "publish_scope option"
  nt_auto_merge :: "bool option"
  nt_prompt_audit :: "bool option"
  nt_decomposition :: "bool option"
  nt_trust_level :: "string option"
  nt_commit_type :: "string option"
  nt_contacts :: "string list"
  nt_depends_on :: "string list"
  nt_priority :: task_priority
  nt_queue :: string
  nt_subtasks :: "string list"
  nt_references :: "string list"
  nt_node_overrides :: "(string \<times> node_override) list"

definition task_disabled_nodes :: "normalized_task \<Rightarrow> string list" where
  "task_disabled_nodes t = map fst (filter (\<lambda>(n, ov). no_enabled ov = Some False) (nt_node_overrides t))"

section \<open>Front matter (task/parser.py)\<close>

text \<open>A task file: its suffix, its size in bytes, and its text unless the bytes are not UTF-8.\<close>

record parsed_source =
  src_suffix :: string
  src_size :: nat
  src_text :: "string option"

record frontmatter_parse =
  fp_present :: bool
  fp_malformed :: bool
  fp_frontmatter :: ydict
  fp_body :: string
  fp_detail :: string

text \<open>\<open>str.splitlines(keepends=True)\<close>\<close>

definition is_line_break :: "char \<Rightarrow> bool" where
  "is_line_break c = (let n = (of_char c :: nat) in (10 \<le> n \<and> n \<le> 13) \<or> (28 \<le> n \<and> n \<le> 30) \<or> n = 133)"

fun split_lines :: "string \<Rightarrow> string list" where
  "split_lines [] = []"
| "split_lines [c] = [[c]]"
| "split_lines (c # d # cs) =
     (if c = CHR 0x0D \<and> d = CHR 0x0A then [c, d] # split_lines cs
      else if is_line_break c then [c] # split_lines (d # cs)
      else (case split_lines (d # cs) of [] \<Rightarrow> [[c]] | l # ls \<Rightarrow> (c # l) # ls))"

definition line_text :: "string \<Rightarrow> string" where
  "line_text l = takeWhile (\<lambda>c. \<not> is_line_break c) l"

definition FENCE :: string where "FENCE = ''---''"

definition no_frontmatter :: "string \<Rightarrow> frontmatter_parse" where
  "no_frontmatter body = \<lparr>fp_present = False, fp_malformed = False, fp_frontmatter = [], fp_body = body, fp_detail = []\<rparr>"

definition bad_frontmatter :: "string \<Rightarrow> string \<Rightarrow> frontmatter_parse" where
  "bad_frontmatter body detail = \<lparr>fp_present = True, fp_malformed = True, fp_frontmatter = [], fp_body = body, fp_detail = detail\<rparr>"

definition split_md :: "(string \<Rightarrow> string + yval) \<Rightarrow> string \<Rightarrow> frontmatter_parse" where
  "split_md yaml text =
     (case split_lines text of
        [] \<Rightarrow> no_frontmatter text
      | first # lines \<Rightarrow>
          if py_strip first \<noteq> FENCE then no_frontmatter text
          else let inner = takeWhile (\<lambda>l. py_strip l \<noteq> FENCE) lines
               in if length inner = length lines
                  then bad_frontmatter [] (''front matter has no closing '' @ [quote_char] @ FENCE @ [quote_char] @ '' fence'')
                  else let body = concat (drop (length inner + 1) lines)
                       in (case yaml (concat inner) of
                             Inl msg \<Rightarrow> bad_frontmatter body (''front matter YAML error: '' @ msg)
                           | Inr YNone \<Rightarrow> \<lparr>fp_present = True, fp_malformed = False, fp_frontmatter = [], fp_body = body, fp_detail = []\<rparr>
                           | Inr (YMap m) \<Rightarrow> \<lparr>fp_present = True, fp_malformed = False, fp_frontmatter = m, fp_body = body, fp_detail = []\<rparr>
                           | Inr _ \<Rightarrow> bad_frontmatter body ''front matter is not a mapping''))"

definition JSON_BODY_KEY :: string where "JSON_BODY_KEY = ''description''"

definition split_json :: "(string \<Rightarrow> string + yval) \<Rightarrow> string \<Rightarrow> frontmatter_parse" where
  "split_json json text =
     (case json text of
        Inl msg \<Rightarrow> bad_frontmatter [] (''JSON error: '' @ msg)
      | Inr (YMap m) \<Rightarrow>
          \<lparr>fp_present = True, fp_malformed = False, fp_frontmatter = filter (\<lambda>(k, v). k \<noteq> JSON_BODY_KEY) m,
           fp_body = (case get_or m JSON_BODY_KEY (YStr []) of YStr s \<Rightarrow> s | _ \<Rightarrow> []), fp_detail = []\<rparr>
      | Inr _ \<Rightarrow> no_frontmatter [])"

definition split_frontmatter ::
    "(string \<Rightarrow> string + yval) \<Rightarrow> (string \<Rightarrow> string + yval) \<Rightarrow> string \<Rightarrow> string \<Rightarrow> frontmatter_parse" where
  "split_frontmatter yaml json text suffix = (if suffix = ''.json'' then split_json json text else split_md yaml text)"

section \<open>Sections\<close>

text \<open>
  One match of \<open>^#{1,6}\s+(.+?)\s*$\<close> (multi-line) at the start of a line: the title and the text after
  the match.  The blanks after the hashes may be line feeds, so the title may stand on a later line; the
  closing blanks run to the last line feed before the next text.  When only blanks follow the hashes, the
  title is the last of them that is no line feed, if it is not the only one.
\<close>

definition heading_at :: "string \<Rightarrow> (string \<times> string) option" where
  "heading_at s =
     (let hashes = takeWhile (\<lambda>c. c = CHR ''#'') s;
          after = drop (length hashes) s;
          blanks = takeWhile py_space after;
          rest = drop (length blanks) after
      in if length hashes < 1 \<or> length hashes > 6 \<or> blanks = [] then None
         else if rest = [] then
           (case filter (\<lambda>c. c \<noteq> CHR 0x0A) (tl blanks) of [] \<Rightarrow> None | cs \<Rightarrow> Some ([last cs], []))
         else let line = takeWhile (\<lambda>c. c \<noteq> CHR 0x0A) rest;
                  title = rev (dropWhile py_space (rev line));
                  tail = drop (length title) rest;
                  closing = takeWhile py_space tail
              in if length closing = length tail then Some (title, [])
                 else Some (title, drop (length (dropWhile (\<lambda>c. c \<noteq> CHR 0x0A) (rev closing)) - 1) tail))"

lemma heading_at_shorter: "heading_at s = Some (title, rest) \<Longrightarrow> length rest < length s"
proof -
  assume h: "heading_at s = Some (title, rest)"
  let ?k = "length (takeWhile (\<lambda>c. c = CHR ''#'') s)"
  have k: "?k \<le> length s" "0 < ?k"
    using h by (auto simp: heading_at_def Let_def length_takeWhile_le split: if_splits)
  from h have "rest = [] \<or> (\<exists>a b c. rest = drop a (drop b (drop c (drop ?k s))))"
    unfolding heading_at_def Let_def by (simp del: drop_drop split: if_splits list.splits) blast+
  moreover have "length (drop a (drop b (drop c (drop ?k s)))) < length s" for a b c
    using k unfolding length_drop by linarith
  ultimately show ?thesis using k by auto
qed

text \<open>\<open>finditer\<close>: the text before the first heading, and each heading with the text up to the next one.\<close>

function scan_headings :: "bool \<Rightarrow> string \<Rightarrow> string \<times> (string \<times> string) list" where
  "scan_headings bol s =
     (case s of
        [] \<Rightarrow> ([], [])
      | c # cs \<Rightarrow>
          (case (if bol then heading_at s else None) of
             Some (title, rest) \<Rightarrow> let (pre, hs) = scan_headings False rest in ([], (title, pre) # hs)
           | None \<Rightarrow> let (pre, hs) = scan_headings (c = CHR 0x0A) cs in (c # pre, hs)))"
  by pat_completeness auto
termination by (relation "measure (length \<circ> snd)") (auto dest: heading_at_shorter split: if_splits)

declare scan_headings.simps [simp del]

definition extract_section :: "string \<Rightarrow> string \<Rightarrow> string option" where
  "extract_section body header =
     (let target = py_lower (py_strip header)
      in map_option (py_strip \<circ> snd)
           (List.find (\<lambda>(title, content). py_lower (py_strip title) = target) (snd (scan_headings True body))))"

section \<open>Slugs\<close>

text \<open>\<open>re.sub('[^a-z0-9]+', '-', s)\<close>: every run of other characters becomes one dash.\<close>

fun dash_runs :: "bool \<Rightarrow> string \<Rightarrow> string" where
  "dash_runs in_run [] = []"
| "dash_runs in_run (c # cs) =
     (if is_lower_alnum c then c # dash_runs False cs
      else if in_run then dash_runs True cs
      else CHR ''-'' # dash_runs True cs)"

definition slugify :: "string \<Rightarrow> string" where
  "slugify s =
     (let slug = strip_on (\<lambda>c. c = CHR ''-'') (dash_runs False (py_lower (py_strip s)))
      in if slug = [] then ''task'' else slug)"

definition slugify_bounded :: "string \<Rightarrow> int \<Rightarrow> string" where
  "slugify_bounded s max_len =
     (if max_len \<le> 0 then []
      else rev (dropWhile (\<lambda>c. c = CHR ''-'') (rev (take (nat max_len) (slugify s)))))"

section \<open>The normalized manifest\<close>

definition opt_doc :: "('a \<Rightarrow> yval) \<Rightarrow> 'a option \<Rightarrow> yval" where
  "opt_doc f x = (case x of None \<Rightarrow> YNone | Some v \<Rightarrow> f v)"

definition node_override_json :: "node_override \<Rightarrow> ydict" where
  "node_override_json ov =
     (case no_enabled ov of None \<Rightarrow> [] | Some b \<Rightarrow> [(''enabled'', YBool b)]) @
     (case no_model ov of None \<Rightarrow> [] | Some s \<Rightarrow> [(''model'', YStr s)]) @
     (case no_reasoning ov of None \<Rightarrow> [] | Some s \<Rightarrow> [(''reasoning'', YStr s)]) @
     (case no_provider ov of None \<Rightarrow> [] | Some s \<Rightarrow> [(''provider'', YStr s)])"

text \<open>The document \<open>write_normalized\<close> serializes.\<close>

definition write_normalized :: "normalized_task \<Rightarrow> ydict" where
  "write_normalized t =
    [(''id'', YStr (nt_id t)), (''title'', YStr (nt_title t)), (''description'', YStr (nt_description t)),
     (''task_type'', opt_doc YStr (nt_task_type t)), (''branch_name'', opt_doc YStr (nt_branch_name t)),
     (''branch_mode'', opt_doc (YStr \<circ> branch_mode_value) (nt_branch_mode t)),
     (''branch_ref'', opt_doc YStr (nt_branch_ref t)),
     (''publish'', opt_doc (YStr \<circ> publish_scope_value) (nt_publish t)),
     (''auto_merge'', opt_doc YBool (nt_auto_merge t)), (''prompt_audit'', opt_doc YBool (nt_prompt_audit t)),
     (''decomposition'', opt_doc YBool (nt_decomposition t)), (''commit_type'', opt_doc YStr (nt_commit_type t)),
     (''trust_level'', opt_doc YStr (nt_trust_level t)), (''contacts'', YList (map YStr (nt_contacts t))),
     (''depends_on'', YList (map YStr (nt_depends_on t))), (''priority'', YStr (priority_value (nt_priority t))),
     (''queue'', YStr (nt_queue t)), (''subtasks'', YList (map YStr (nt_subtasks t))),
     (''references'', YList (map YStr (nt_references t))),
     (''nodes'', YMap (map (\<lambda>(n, ov). (n, YMap (node_override_json ov))) (nt_node_overrides t)))]"

text \<open>\<open>_opt_enum\<close>: any value but a member's name defers.\<close>

definition opt_enum :: "('e \<Rightarrow> string) \<Rightarrow> 'e list \<Rightarrow> yval \<Rightarrow> 'e option" where
  "opt_enum name members v = (case v of YStr s \<Rightarrow> List.find (\<lambda>m. name m = s) members | _ \<Rightarrow> None)"

text \<open>
  Reading back.  The Python code hands on whatever value a key holds; a value of another type than the
  writer's is outside the model and reads as \<open>None\<close> here.
\<close>

definition as_text :: "yval \<Rightarrow> string option option" where
  "as_text v = (case v of YNone \<Rightarrow> Some None | YStr s \<Rightarrow> Some (Some s) | _ \<Rightarrow> None)"

definition as_flag :: "yval \<Rightarrow> bool option option" where
  "as_flag v = (case v of YNone \<Rightarrow> Some None | YBool b \<Rightarrow> Some (Some b) | _ \<Rightarrow> None)"

definition as_list :: "yval \<Rightarrow> string list option" where
  "as_list v = (case v of YList vs \<Rightarrow> those (map (\<lambda>x. case x of YStr s \<Rightarrow> Some s | _ \<Rightarrow> None) vs) | _ \<Rightarrow> None)"

definition load_override :: "yval \<Rightarrow> node_override option" where
  "load_override v =
     (case v of
        YMap m \<Rightarrow>
          (case (as_flag (get_or_none m ''enabled''), as_text (get_or_none m ''model''),
                 as_text (get_or_none m ''reasoning''), as_text (get_or_none m ''provider'')) of
             (Some e, Some mo, Some r, Some p) \<Rightarrow> Some \<lparr>no_enabled = e, no_model = mo, no_reasoning = r, no_provider = p\<rparr>
           | _ \<Rightarrow> None)
      | _ \<Rightarrow> None)"

definition load_overrides :: "yval \<Rightarrow> (string \<times> node_override) list option" where
  "load_overrides v =
     (case v of
        YNone \<Rightarrow> Some []
      | YMap m \<Rightarrow> those (map (\<lambda>(n, ov). map_option (Pair n) (load_override ov)) m)
      | _ \<Rightarrow> None)"

definition load_normalized :: "ydict \<Rightarrow> normalized_task option" where
  "load_normalized d =
     (case (map_of d ''id'', map_of d ''title'', get_or d ''description'' (YStr [])) of
        (Some (YStr i), Some (YStr ti), YStr desc) \<Rightarrow>
          (case (as_text (get_or_none d ''task_type''), as_text (get_or_none d ''branch_name''),
                 as_text (get_or_none d ''branch_ref''), as_text (get_or_none d ''commit_type''),
                 as_text (get_or_none d ''trust_level'')) of
             (Some tt, Some bn, Some br, Some ct, Some trust) \<Rightarrow>
               (case (as_flag (get_or_none d ''auto_merge''), as_flag (get_or_none d ''prompt_audit''),
                      as_flag (get_or_none d ''decomposition''), as_list (get_or d ''contacts'' (YList [])),
                      as_list (get_or d ''depends_on'' (YList [])), as_text (get_or_none d ''queue'')) of
                  (Some am, Some pa, Some dc, Some cs, Some ds, Some q) \<Rightarrow>
                    (case (as_list (get_or d ''subtasks'' (YList [])), as_list (get_or d ''references'' (YList [])),
                           load_overrides (get_or_none d ''nodes'')) of
                       (Some st, Some rf, Some nos) \<Rightarrow>
                         Some \<lparr>nt_id = i, nt_title = ti, nt_description = desc, nt_task_type = tt, nt_branch_name = bn,
                           nt_branch_mode = opt_enum branch_mode_value [BM_NEW, BM_EXISTING, BM_CURRENT] (get_or_none d ''branch_mode''),
                           nt_branch_ref = br,
                           nt_publish = opt_enum publish_scope_value [PS_COMMIT, PS_PUSH, PS_PULL_REQUEST] (get_or_none d ''publish''),
                           nt_auto_merge = am, nt_prompt_audit = pa, nt_decomposition = dc, nt_trust_level = trust,
                           nt_commit_type = ct, nt_contacts = cs, nt_depends_on = ds,
                           nt_priority = normalize_priority (get_or_none d ''priority''),
                           nt_queue = (case q of None \<Rightarrow> DEFAULT_QUEUE | Some s \<Rightarrow> if s = [] then DEFAULT_QUEUE else s),
                           nt_subtasks = st, nt_references = rf, nt_node_overrides = nos\<rparr>
                     | _ \<Rightarrow> None)
                | _ \<Rightarrow> None)
           | _ \<Rightarrow> None)
      | _ \<Rightarrow> None)"

section \<open>Operator subtask files\<close>

record subtask_spec_file =
  ssf_title :: string
  ssf_slug :: string
  ssf_depends_on :: "string list"
  ssf_criteria :: "string list"
  ssf_body :: string

text \<open>A reference that leaves the directory of the task file is dropped.\<close>

definition ref_inside :: "string \<Rightarrow> bool" where
  "ref_inside ref = (\<not> starts_with ref ''/'' \<and> ''..'' \<notin> set (split_on (CHR ''/'') ref))"

definition read_subtask_refs ::
    "(string \<Rightarrow> string + yval) \<Rightarrow> (string \<Rightarrow> string + yval) \<Rightarrow> parsed_source \<Rightarrow> string list" where
  "read_subtask_refs yaml json src =
     (case src_text src of
        None \<Rightarrow> []
      | Some text \<Rightarrow>
          (let parse = split_frontmatter yaml json text (src_suffix src)
           in if \<not> fp_present parse \<or> fp_malformed parse then []
              else case get_or (fp_frontmatter parse) ''subtasks'' (YList []) of
                     YList raws \<Rightarrow> List.map_filter (\<lambda>raw. case raw of
                         YStr s \<Rightarrow> if py_strip s \<noteq> [] \<and> ref_inside (py_strip s) then Some (py_strip s) else None
                       | _ \<Rightarrow> None) raws
                   | _ \<Rightarrow> []))"

definition CRITERIA_MARKERS :: "string list" where
  "CRITERIA_MARKERS = [''- [ ] '', ''- [x] '', ''- '', ''* '']"

definition parse_criteria :: "string \<Rightarrow> string list" where
  "parse_criteria section_text =
     filter (\<lambda>i. i \<noteq> [])
       (List.map_filter (\<lambda>line. let stripped = py_strip (line_text line)
           in map_option (\<lambda>m. py_strip (drop (length m) stripped)) (List.find (starts_with stripped) CRITERIA_MARKERS))
         (split_lines section_text))"

definition non_blank_texts :: "yval list \<Rightarrow> string list option" where
  "non_blank_texts vs = those (map (\<lambda>v. case v of YStr s \<Rightarrow> if py_strip s \<noteq> [] then Some (py_strip s) else None | _ \<Rightarrow> None) vs)"

definition subtask_slug :: "string \<Rightarrow> yval \<Rightarrow> string option" where
  "subtask_slug title raw =
     (case raw of
        YNone \<Rightarrow> Some (slugify title)
      | YStr s \<Rightarrow> Some (if py_strip s \<noteq> [] then slugify s else slugify title)
      | _ \<Rightarrow> None)"

definition read_subtask_spec :: "(string \<Rightarrow> string + yval) \<Rightarrow> string \<Rightarrow> subtask_spec_file option" where
  "read_subtask_spec yaml text =
     (let parse = split_md yaml text; fm = fp_frontmatter parse
      in if \<not> fp_present parse \<or> fp_malformed parse then None
         else case get_or_none fm ''title'' of
           YStr title \<Rightarrow>
             if py_strip title = [] then None
             else (case (subtask_slug title (get_or_none fm ''slug''), get_or fm ''depends_on'' (YList [])) of
                       (Some sl, YList raws) \<Rightarrow>
                         (case non_blank_texts raws of
                            None \<Rightarrow> None
                          | Some deps \<Rightarrow>
                              if py_strip (fp_body parse) = [] then None
                              else Some \<lparr>ssf_title = py_strip title, ssf_slug = sl, ssf_depends_on = deps,
                                ssf_criteria = (case extract_section (fp_body parse) ''Acceptance criteria'' of
                                    None \<Rightarrow> [] | Some s \<Rightarrow> if s = [] then [] else parse_criteria s),
                                ssf_body = fp_body parse\<rparr>)
                     | _ \<Rightarrow> None)
         | _ \<Rightarrow> None)"

end
