(* ===== verification/TaskGate.thy ===== *)
theory TaskGate
  imports TaskFile
begin

text \<open>
  The validation gate (\<open>task/validation_gate.py\<close>): the structural phase with its first failure, the
  normalized task it builds, and the completeness class.  A reject carries its machine-readable reason;
  the detail text and the log warnings are left out.  \<open>max_control_ratio\<close> is a fraction.
\<close>

section \<open>Reasons and configuration\<close>

datatype validation_reason =
    FILE_TOO_LARGE | NOT_UTF8 | BINARY_OR_CONTROL_CHARS | TOO_LONG | FRONTMATTER_MISSING | FRONTMATTER_MALFORMED
  | UNKNOWN_TOP_LEVEL_FIELD | MISSING_REQUIRED_FIELD | INVALID_FIELD_TYPE | INVALID_TASK_ID | INVALID_BRANCH_NAME
  | INVALID_BRANCH_MODE | DUPLICATE_TASK_ID | INVALID_NODE_OVERRIDE | INVALID_DEPENDS_ON | INVALID_REFERENCES
  | INJECTION_SUSPECTED | INVALID_SUBTASKS | INVALID_SUBTASK_PATH | SUBTASK_FILE_MISSING | SUBTASK_MALFORMED
  | SUBTASK_COUNT_OUT_OF_RANGE | SUBTASK_DEPENDS_FORWARD | FLOW_CANNOT_DECOMPOSE

datatype completeness = COMPLETE | NEEDS_ENRICHMENT

record validation_config =
  vc_max_task_bytes :: nat
  vc_max_task_lines :: nat
  vc_max_line_bytes :: nat
  vc_max_control_ratio :: "nat \<times> nat"

record validation_gate =
  vg_config :: validation_config
  vg_base_branch :: string
  vg_branch_mode :: branch_mode
  vg_store_has_task_id :: "string \<Rightarrow> bool"
  vg_ledger_has_task_id :: "string \<Rightarrow> bool"
  vg_is_recovery_rerun :: "string \<Rightarrow> bool"
  vg_only_validation_rejects :: "string \<Rightarrow> bool"
  vg_yaml :: "string \<Rightarrow> string + yval"
  vg_json :: "string \<Rightarrow> string + yval"

section \<open>Text checks\<close>

definition is_control :: "char \<Rightarrow> bool" where
  "is_control c = (let n = (of_char c :: nat) in (n < 32 \<or> n = 127) \<and> n \<noteq> 9 \<and> n \<noteq> 10 \<and> n \<noteq> 13)"

definition check_control_chars :: "nat \<times> nat \<Rightarrow> string \<Rightarrow> validation_reason option" where
  "check_control_chars ratio text =
     (if CHR 0x00 \<in> set text then Some BINARY_OR_CONTROL_CHARS
      else if text \<noteq> [] \<and> length (filter is_control text) * snd ratio > fst ratio * length text
      then Some BINARY_OR_CONTROL_CHARS else None)"

definition check_length :: "nat \<Rightarrow> nat \<Rightarrow> string \<Rightarrow> validation_reason option" where
  "check_length max_lines max_line_bytes text =
     (let lines = split_lines text
      in if length lines > max_lines then Some TOO_LONG
         else if list_ex (\<lambda>l. utf8_len (line_text l) > max_line_bytes) lines then Some TOO_LONG else None)"

section \<open>Field types\<close>

definition present :: "ydict \<Rightarrow> string \<Rightarrow> bool" where
  "present fm k = (map_of fm k \<noteq> None)"

definition is_text :: "yval \<Rightarrow> bool" where
  "is_text v = (case v of YStr _ \<Rightarrow> True | _ \<Rightarrow> False)"

definition is_flag :: "yval \<Rightarrow> bool" where
  "is_flag v = (case v of YBool _ \<Rightarrow> True | _ \<Rightarrow> False)"

definition text_in :: "(string \<Rightarrow> bool) \<Rightarrow> yval \<Rightarrow> bool" where
  "text_in p v = (case v of YStr s \<Rightarrow> p (py_strip s) | _ \<Rightarrow> False)"

definition list_of :: "(yval \<Rightarrow> bool) \<Rightarrow> yval \<Rightarrow> bool" where
  "list_of p v = (case v of YList vs \<Rightarrow> list_all p vs | _ \<Rightarrow> False)"

text \<open>\<open>_check_references\<close>: every failure has the same reason.\<close>

definition reference_ok :: "yval \<Rightarrow> bool" where
  "reference_ok v =
     (case v of
        YStr s \<Rightarrow> py_strip s \<noteq> [] \<and> length s \<le> REFERENCE_MAX_CHARS \<and> CHR 0x0A \<notin> set s \<and> CHR 0x0D \<notin> set s
      | _ \<Rightarrow> False)"

definition check_references :: "yval \<Rightarrow> bool" where
  "check_references v =
     (case v of YList vs \<Rightarrow> vs \<noteq> [] \<and> length vs \<le> REFERENCES_MAX_ITEMS \<and> list_all reference_ok vs | _ \<Rightarrow> False)"

text \<open>\<open>_check_field_types\<close>: the checks in order, each with its reason; the first that fails is reported.\<close>

definition field_checks :: "ydict \<Rightarrow> (bool \<times> validation_reason) list" where
  "field_checks fm =
     (let v = get_or_none fm;
          optional = (\<lambda>k p. v k = YNone \<or> p (v k));
          given = (\<lambda>k p. \<not> present fm k \<or> p (v k))
      in [(is_text (v ''title''), INVALID_FIELD_TYPE),
          (optional ''branch_name'' is_text, INVALID_FIELD_TYPE),
          (optional ''task_type'' is_text, INVALID_FIELD_TYPE),
          (optional ''branch_mode'' is_text, INVALID_FIELD_TYPE),
          (optional ''branch_ref'' is_text, INVALID_FIELD_TYPE),
          (optional ''publish'' is_text, INVALID_FIELD_TYPE),
          (given ''queue'' (text_in (\<lambda>s. s \<noteq> [])), INVALID_FIELD_TYPE),
          (optional ''auto_merge'' is_flag, INVALID_FIELD_TYPE),
          (optional ''prompt_audit'' is_flag, INVALID_FIELD_TYPE),
          (optional ''decomposition'' is_flag, INVALID_FIELD_TYPE),
          (optional ''trust_level'' (text_in (\<lambda>s. s \<in> {''strict'', ''auto''})), INVALID_FIELD_TYPE),
          (optional ''commit_type'' (text_in (\<lambda>s. s \<in> set COMMIT_TYPES)), INVALID_FIELD_TYPE),
          (given ''contacts'' (list_of is_text), INVALID_FIELD_TYPE),
          (given ''depends_on'' (list_of (text_in (\<lambda>s. s \<noteq> []))), INVALID_DEPENDS_ON),
          (given ''subtasks'' (list_of (text_in (\<lambda>s. s \<noteq> []))), INVALID_SUBTASKS),
          (given ''references'' check_references, INVALID_REFERENCES)])"

definition check_field_types :: "ydict \<Rightarrow> validation_reason option" where
  "check_field_types fm = map_option snd (List.find (\<lambda>c. \<not> fst c) (field_checks fm))"

section \<open>Branch fields\<close>

definition branch_name_field :: "validation_gate \<Rightarrow> yval \<Rightarrow> validation_reason + string option" where
  "branch_name_field g raw =
     (case raw of
        YStr s \<Rightarrow>
          if py_strip s = [] then Inr None
          else if \<not> is_valid_branch_name s then Inl INVALID_BRANCH_NAME
          else if length s > BRANCH_NAME_MAX_LEN then Inr None
          else if s = vg_base_branch g then Inl INVALID_BRANCH_NAME
          else Inr (Some s)
      | _ \<Rightarrow> Inr None)"

text \<open>\<open>_parse_enum\<close>: absent or blank defers, any other text must name a member.\<close>

definition parse_enum :: "('e \<Rightarrow> string) \<Rightarrow> 'e list \<Rightarrow> yval \<Rightarrow> validation_reason + 'e option" where
  "parse_enum name members raw =
     (case raw of
        YStr s \<Rightarrow>
          if py_strip s = [] then Inr None
          else (case List.find (\<lambda>m. name m = py_strip s) members of
                  None \<Rightarrow> Inl INVALID_BRANCH_MODE
                | Some m \<Rightarrow> Inr (Some m))
      | _ \<Rightarrow> Inr None)"

definition stripped_text :: "yval \<Rightarrow> string option" where
  "stripped_text raw = (case raw of YStr s \<Rightarrow> if py_strip s = [] then None else Some (py_strip s) | _ \<Rightarrow> None)"

definition effective_mode :: "validation_gate \<Rightarrow> branch_mode option \<Rightarrow> branch_mode" where
  "effective_mode g m = (case m of None \<Rightarrow> vg_branch_mode g | Some x \<Rightarrow> x)"

definition branch_fields ::
    "validation_gate \<Rightarrow> ydict \<Rightarrow> string option \<Rightarrow>
     validation_reason + branch_mode option \<times> string option \<times> publish_scope option \<times> string option" where
  "branch_fields g fm branch_name =
     bind_res (parse_enum branch_mode_value [BM_NEW, BM_EXISTING, BM_CURRENT] (get_or_none fm ''branch_mode'')) (\<lambda>mode.
     bind_res (parse_enum publish_scope_value [PS_COMMIT, PS_PUSH, PS_PULL_REQUEST] (get_or_none fm ''publish'')) (\<lambda>publish.
     let ref = stripped_text (get_or_none fm ''branch_ref''); eff = effective_mode g mode
     in if (case ref of None \<Rightarrow> False | Some r \<Rightarrow> \<not> is_valid_branch_name r) then Inl INVALID_BRANCH_MODE
        else if eff = BM_EXISTING \<and> ref = None then Inl INVALID_BRANCH_MODE
        else if ref \<noteq> None \<and> eff \<noteq> BM_EXISTING then Inl INVALID_BRANCH_MODE
        else Inr (mode, ref, publish, if branch_name \<noteq> None \<and> eff \<noteq> BM_NEW then None else branch_name)))"

section \<open>Node overrides\<close>

definition OVERRIDE_KEYS :: "string list" where
  "OVERRIDE_KEYS = [''enabled'', ''model'', ''reasoning'', ''provider'']"

definition override_text :: "yval \<Rightarrow> validation_reason + string option" where
  "override_text raw =
     (case raw of
        YNone \<Rightarrow> Inr None
      | YStr s \<Rightarrow> if py_strip s = [] then Inl INVALID_NODE_OVERRIDE else Inr (Some (py_strip s))
      | _ \<Rightarrow> Inl INVALID_NODE_OVERRIDE)"

definition plain_override :: node_override where
  "plain_override = \<lparr>no_enabled = None, no_model = None, no_reasoning = None, no_provider = None\<rparr>"

definition build_override :: "yval \<Rightarrow> validation_reason + node_override" where
  "build_override raw =
     (case raw of
        YNone \<Rightarrow> Inr plain_override
      | YMap m \<Rightarrow>
          bind_res (require (\<not> list_ex (\<lambda>k. k \<notin> set OVERRIDE_KEYS) (map fst m)) INVALID_NODE_OVERRIDE) (\<lambda>_.
          bind_res (case get_or_none m ''enabled'' of
                      YNone \<Rightarrow> Inr None | YBool b \<Rightarrow> Inr (Some b) | _ \<Rightarrow> Inl INVALID_NODE_OVERRIDE) (\<lambda>enabled.
          bind_res (override_text (get_or_none m ''model'')) (\<lambda>model.
          bind_res (override_text (get_or_none m ''reasoning'')) (\<lambda>reasoning.
          bind_res (override_text (get_or_none m ''provider'')) (\<lambda>provider.
          Inr \<lparr>no_enabled = enabled, no_model = model, no_reasoning = reasoning, no_provider = provider\<rparr>)))))
      | _ \<Rightarrow> Inl INVALID_NODE_OVERRIDE)"

fun build_overrides ::
    "(string \<times> yval) list \<Rightarrow> (string \<times> node_override) list \<Rightarrow> validation_reason + (string \<times> node_override) list" where
  "build_overrides [] acc = Inr acc"
| "build_overrides ((nid, raw) # rest) acc =
     bind_res (build_override raw) (\<lambda>ov. build_overrides rest (AList.update nid ov acc))"

definition node_overrides_field :: "yval \<Rightarrow> validation_reason + (string \<times> node_override) list" where
  "node_overrides_field raw =
     (case raw of YNone \<Rightarrow> Inr [] | YMap m \<Rightarrow> build_overrides m [] | _ \<Rightarrow> Inl INVALID_NODE_OVERRIDE)"

section \<open>Phase A\<close>

definition extract_description :: "string \<Rightarrow> string" where
  "extract_description body = (case extract_section body ''Description'' of Some s \<Rightarrow> s | None \<Rightarrow> body)"

definition text_items :: "yval \<Rightarrow> string list" where
  "text_items v = (case v of YList vs \<Rightarrow> map (\<lambda>x. case x of YStr s \<Rightarrow> s | _ \<Rightarrow> py_str x) vs | _ \<Rightarrow> [])"

definition as_tristate :: "yval \<Rightarrow> bool option" where
  "as_tristate v = (case v of YBool b \<Rightarrow> Some b | _ \<Rightarrow> None)"

definition text_of :: "yval \<Rightarrow> string" where
  "text_of v = (case v of YStr s \<Rightarrow> s | _ \<Rightarrow> py_str v)"

definition ledger_blocks :: "validation_gate \<Rightarrow> string \<Rightarrow> bool" where
  "ledger_blocks g i = (vg_ledger_has_task_id g i \<and> \<not> (vg_only_validation_rejects g i \<and> \<not> vg_store_has_task_id g i))"

definition is_duplicate :: "validation_gate \<Rightarrow> string \<Rightarrow> bool" where
  "is_duplicate g i = (\<not> vg_is_recovery_rerun g i \<and> (vg_store_has_task_id g i \<or> ledger_blocks g i))"

text \<open>The checks before the task id is known to be usable.\<close>

definition check_shape :: "ydict \<Rightarrow> string \<Rightarrow> validation_reason option" where
  "check_shape fm body =
     (if \<not> list_all (\<lambda>k. k \<in> set ALLOWED_TASK_KEYS) (map fst fm) then Some UNKNOWN_TOP_LEVEL_FIELD
      else if \<not> list_all (present fm) (sort REQUIRED_TASK_FIELDS) then Some MISSING_REQUIRED_FIELD
      else if (case get_or_none fm ''title'' of YStr s \<Rightarrow> py_strip s = [] | _ \<Rightarrow> False) then Some MISSING_REQUIRED_FIELD
      else if py_strip (extract_description body) = [] then Some MISSING_REQUIRED_FIELD
      else check_field_types fm)"

definition normalized_of ::
    "ydict \<Rightarrow> string \<Rightarrow> string \<Rightarrow> branch_mode option \<times> string option \<times> publish_scope option \<times> string option \<Rightarrow>
     (string \<times> node_override) list \<Rightarrow> normalized_task" where
  "normalized_of fm body i branch overrides =
     (case branch of (mode, ref, publish, branch_name) \<Rightarrow>
      \<lparr>nt_id = i, nt_title = text_of (get_or_none fm ''title''), nt_description = py_strip body,
       nt_task_type = stripped_text (get_or_none fm ''task_type''), nt_branch_name = branch_name,
       nt_branch_mode = mode, nt_branch_ref = ref, nt_publish = publish,
       nt_auto_merge = as_tristate (get_or_none fm ''auto_merge''),
       nt_prompt_audit = as_tristate (get_or_none fm ''prompt_audit''),
       nt_decomposition = as_tristate (get_or_none fm ''decomposition''),
       nt_trust_level = (case get_or_none fm ''trust_level'' of YNone \<Rightarrow> None | v \<Rightarrow> Some (py_strip (text_of v))),
       nt_commit_type = (case get_or_none fm ''commit_type'' of YNone \<Rightarrow> None | v \<Rightarrow> Some (py_strip (text_of v))),
       nt_contacts = text_items (get_or fm ''contacts'' (YList [])),
       nt_depends_on = map py_strip (text_items (get_or fm ''depends_on'' (YList []))),
       nt_priority = normalize_priority (get_or_none fm ''priority''),
       nt_queue = (case get_or_none fm ''queue'' of YStr s \<Rightarrow> py_strip s | _ \<Rightarrow> DEFAULT_QUEUE),
       nt_subtasks = map py_strip (text_items (get_or fm ''subtasks'' (YList []))),
       nt_references = text_items (get_or fm ''references'' (YList [])), nt_node_overrides = overrides\<rparr>)"

definition validate_fields :: "validation_gate \<Rightarrow> ydict \<Rightarrow> string \<Rightarrow> validation_reason + normalized_task" where
  "validate_fields g fm body =
     (case check_shape fm body of
        Some why \<Rightarrow> Inl why
      | None \<Rightarrow>
          (case get_or_none fm ''id'' of
             YStr i \<Rightarrow>
               if \<not> is_valid_task_id i then Inl INVALID_TASK_ID
               else if i \<in> set (map py_strip (text_items (get_or fm ''depends_on'' (YList [])))) then Inl INVALID_DEPENDS_ON
               else if is_duplicate g i then Inl DUPLICATE_TASK_ID
               else bind_res (node_overrides_field (get_or_none fm ''nodes'')) (\<lambda>overrides.
                    if scan_frontmatter fm \<noteq> None then Inl INJECTION_SUSPECTED
                    else bind_res (branch_name_field g (get_or_none fm ''branch_name'')) (\<lambda>branch_name.
                         bind_res (branch_fields g fm branch_name) (\<lambda>branch.
                         Inr (normalized_of fm body i branch overrides))))
           | _ \<Rightarrow> Inl INVALID_TASK_ID))"

definition phase_a :: "validation_gate \<Rightarrow> parsed_source \<Rightarrow> validation_reason + normalized_task" where
  "phase_a g src =
     (if src_size src > vc_max_task_bytes (vg_config g) then Inl FILE_TOO_LARGE
      else case src_text src of
        None \<Rightarrow> Inl NOT_UTF8
      | Some text \<Rightarrow>
          (case check_control_chars (vc_max_control_ratio (vg_config g)) text of
             Some why \<Rightarrow> Inl why
           | None \<Rightarrow>
               (case check_length (vc_max_task_lines (vg_config g)) (vc_max_line_bytes (vg_config g)) text of
                  Some why \<Rightarrow> Inl why
                | None \<Rightarrow>
                    (let parse = split_frontmatter (vg_yaml g) (vg_json g) text (src_suffix src)
                     in if \<not> fp_present parse then Inl FRONTMATTER_MISSING
                        else if fp_malformed parse then Inl FRONTMATTER_MALFORMED
                        else validate_fields g (fp_frontmatter parse) (fp_body parse)))))"

section \<open>Phase B and the result\<close>

definition phase_b :: "normalized_task \<Rightarrow> completeness" where
  "phase_b t =
     (if py_strip (nt_description t) \<noteq> [] \<and> extract_section (nt_description t) ''Acceptance criteria'' \<noteq> None
      then COMPLETE else NEEDS_ENRICHMENT)"

definition validate :: "validation_gate \<Rightarrow> parsed_source \<Rightarrow> validation_reason + normalized_task \<times> completeness" where
  "validate g src = map_sum id (\<lambda>t. (t, phase_b t)) (phase_a g src)"

end
