(* ===== verification/TaskGateProps.thy ===== *)
theory TaskGateProps
  imports TaskGate
begin

text \<open>
  What the gate lets through: the guarantees on an admitted task, its manifest surviving a restart, and
  the shape of a slug.
\<close>

section \<open>Field checks\<close>

lemma find_None_all: "List.find p xs = None \<longleftrightarrow> list_all (\<lambda>x. \<not> p x) xs"
  by (induction xs) auto

lemma check_shape_None: "check_shape fm body = None \<Longrightarrow>
    list_all fst (field_checks fm) \<and> present fm ''id'' \<and> present fm ''title'' \<and>
    (\<forall>s. get_or_none fm ''title'' = YStr s \<longrightarrow> py_strip s \<noteq> [])"
proof -
  assume a: "check_shape fm body = None"
  then have "check_field_types fm = None" by (simp add: check_shape_def split: if_splits)
  then have "list_all fst (field_checks fm)" by (simp add: check_field_types_def find_None_all)
  moreover have "sort REQUIRED_TASK_FIELDS = [''id'', ''title'']" by code_simp
  moreover from a have "list_all (present fm) (sort REQUIRED_TASK_FIELDS)"
    "\<forall>s. get_or_none fm ''title'' = YStr s \<longrightarrow> py_strip s \<noteq> []"
    by (auto simp: check_shape_def split: if_splits)
  ultimately show ?thesis by simp
qed

lemma validate_fields_Inr:
  assumes "validate_fields g fm body = Inr t"
  shows "\<exists>i branch_name branch overrides. check_shape fm body = None \<and> get_or_none fm ''id'' = YStr i \<and> is_valid_task_id i \<and>
    i \<notin> set (map py_strip (text_items (get_or fm ''depends_on'' (YList [])))) \<and> \<not> is_duplicate g i \<and>
    node_overrides_field (get_or_none fm ''nodes'') = Inr overrides \<and> scan_frontmatter fm = None \<and>
    branch_name_field g (get_or_none fm ''branch_name'') = Inr branch_name \<and> branch_fields g fm branch_name = Inr branch \<and>
    t = normalized_of fm body i branch overrides"
  using assms by (auto simp: validate_fields_def bind_res_Inr split: option.splits yval.splits if_splits)

lemma phase_a_Inr:
  assumes "phase_a g src = Inr t"
  shows "\<exists>fm body. validate_fields g fm body = Inr t"
  using assms by (auto simp: phase_a_def Let_def split: option.splits if_splits)

section \<open>Branch fields\<close>

lemma branch_name_field_Some:
  "branch_name_field g raw = Inr (Some b) \<Longrightarrow>
    is_valid_branch_name b \<and> length b \<le> BRANCH_NAME_MAX_LEN \<and> b \<noteq> vg_base_branch g"
  by (auto simp: branch_name_field_def split: yval.splits if_splits)

lemma branch_fields_Inr:
  assumes "branch_fields g fm bn = Inr (mode, ref, publish, bn')"
  shows "(effective_mode g mode = BM_EXISTING \<longleftrightarrow> ref \<noteq> None) \<and> (\<forall>r. ref = Some r \<longrightarrow> is_valid_branch_name r) \<and>
    (\<forall>b. bn' = Some b \<longrightarrow> bn = Some b \<and> effective_mode g mode = BM_NEW)"
proof -
  obtain x where x: "stripped_text (get_or_none fm ''branch_ref'') = x" by blast
  from assms show ?thesis
    unfolding branch_fields_def Let_def x by (cases x) (auto simp: bind_res_Inr split: if_splits)
qed

section \<open>Overrides\<close>

lemma build_overrides_distinct:
  "build_overrides m acc = Inr ovs \<Longrightarrow> distinct (map fst acc) \<Longrightarrow> distinct (map fst ovs)"
  by (induction m acc rule: build_overrides.induct) (auto simp: bind_res_Inr distinct_update)

lemma node_overrides_distinct: "node_overrides_field raw = Inr ovs \<Longrightarrow> distinct (map fst ovs)"
  by (auto simp: node_overrides_field_def build_overrides_distinct split: yval.splits)

section \<open>Texts of an admitted front matter\<close>

lemma scan_None_plain: "scan_frontmatter fm = None \<Longrightarrow> map_of fm k = Some v \<Longrightarrow> s \<in> set (text_leaves v) \<Longrightarrow> plain_text s"
proof (induction fm rule: scan_frontmatter.induct)
  case 1
  then show ?case by simp
next
  case (2 key v' rest)
  then show ?case using scan_value_None(1) [of key v'] by (auto split: option.splits if_splits)
qed

definition reference_text_ok :: "string \<Rightarrow> bool" where
  "reference_text_ok s \<longleftrightarrow> py_strip s \<noteq> [] \<and> length s \<le> 200 \<and> CHR 0x0A \<notin> set s \<and> CHR 0x0D \<notin> set s \<and> plain_text s"

lemma given_references:
  assumes "present fm ''references'' \<longrightarrow> check_references (get_or_none fm ''references'')" and "scan_frontmatter fm = None"
  shows "length (text_items (get_or fm ''references'' (YList []))) \<le> 16 \<and>
    list_all reference_text_ok (text_items (get_or fm ''references'' (YList [])))"
proof (cases "map_of fm ''references''")
  case None
  then show ?thesis by (simp add: get_or_def text_items_def)
next
  case (Some v)
  with assms(1) have "check_references v" by (simp add: present_def get_or_none_def)
  then obtain vs where vs: "v = YList vs" "length vs \<le> 16" "list_all reference_ok vs"
    by (auto simp: check_references_def REFERENCES_MAX_ITEMS_def split: yval.splits)
  have "reference_text_ok (case x of YStr s \<Rightarrow> s | _ \<Rightarrow> py_str x)" if "x \<in> set vs" for x
  proof -
    from that vs(3) have "reference_ok x" by (simp add: list_all_iff)
    then obtain s where s: "x = YStr s" by (auto simp: reference_ok_def split: yval.splits)
    with that vs(1) have "s \<in> set (text_leaves v)" by (auto simp: image_iff intro!: bexI [of _ x])
    with scan_None_plain [OF assms(2) Some] s \<open>reference_ok x\<close> show ?thesis
      by (simp add: reference_text_ok_def reference_ok_def REFERENCE_MAX_CHARS_def)
  qed
  with Some vs show ?thesis by (simp add: get_or_def text_items_def list_all_iff)
qed

section \<open>The guarantees\<close>

definition admitted :: "validation_gate \<Rightarrow> normalized_task \<Rightarrow> bool" where
  "admitted g t \<longleftrightarrow>
     is_valid_task_id (nt_id t) \<and> is_portable_path_segment (nt_id t) \<and> nt_id t \<notin> set (nt_depends_on t) \<and>
     (vg_is_recovery_rerun g (nt_id t) \<or> \<not> vg_store_has_task_id g (nt_id t)) \<and>
     py_strip (nt_title t) \<noteq> [] \<and> plain_text (nt_title t) \<and> nt_queue t \<noteq> [] \<and>
     (effective_mode g (nt_branch_mode t) = BM_EXISTING \<longleftrightarrow> nt_branch_ref t \<noteq> None) \<and>
     (\<forall>r. nt_branch_ref t = Some r \<longrightarrow> is_valid_branch_name r) \<and>
     (\<forall>b. nt_branch_name t = Some b \<longrightarrow> is_valid_branch_name b \<and> length b \<le> 50 \<and> b \<noteq> vg_base_branch g \<and>
        effective_mode g (nt_branch_mode t) = BM_NEW) \<and>
     nt_trust_level t \<in> {None, Some ''strict'', Some ''auto''} \<and>
     (\<forall>c. nt_commit_type t = Some c \<longrightarrow> c \<in> set COMMIT_TYPES) \<and>
     length (nt_references t) \<le> 16 \<and> list_all reference_text_ok (nt_references t) \<and>
     distinct (map fst (nt_node_overrides t))"

text \<open>
  C35. Whatever bytes and whatever front matter a task file holds, a task the gate admits is usable: its id
  is one portable path segment, depends on no itself and is new unless it is the rerun the operator
  asked for; its branch fields fit the branch mode in force; its trust level and commit type are of the
  closed lists; every reference it publishes is one bounded plain line; title and references hold no
  argument-shaped text; and no node is overridden twice.
\<close>

theorem gate_admits:
  assumes "phase_a g src = Inr t"
  shows "admitted g t"
proof -
  obtain fm body where v: "validate_fields g fm body = Inr t" using phase_a_Inr [OF assms] by blast
  from validate_fields_Inr [OF v] obtain i bn mode ref publish bn' ovs where
    shape: "check_shape fm body = None" and id: "is_valid_task_id i"
    and dep: "i \<notin> set (map py_strip (text_items (get_or fm ''depends_on'' (YList []))))" and dup: "\<not> is_duplicate g i"
    and ovs: "node_overrides_field (get_or_none fm ''nodes'') = Inr ovs" and scan: "scan_frontmatter fm = None"
    and bn: "branch_name_field g (get_or_none fm ''branch_name'') = Inr bn"
    and branch: "branch_fields g fm bn = Inr (mode, ref, publish, bn')"
    and t: "t = normalized_of fm body i (mode, ref, publish, bn') ovs"
    by (metis prod_cases4)
  from check_shape_None [OF shape] have checks: "list_all fst (field_checks fm)" and title: "present fm ''title''"
    and blank: "\<forall>s. get_or_none fm ''title'' = YStr s \<longrightarrow> py_strip s \<noteq> []" by blast+
  from checks have f: "is_text (get_or_none fm ''title'')"
    "present fm ''queue'' \<longrightarrow> text_in (\<lambda>s. s \<noteq> []) (get_or_none fm ''queue'')"
    "get_or_none fm ''trust_level'' = YNone \<or> text_in (\<lambda>s. s \<in> {''strict'', ''auto''}) (get_or_none fm ''trust_level'')"
    "get_or_none fm ''commit_type'' = YNone \<or> text_in (\<lambda>s. s \<in> set COMMIT_TYPES) (get_or_none fm ''commit_type'')"
    "present fm ''references'' \<longrightarrow> check_references (get_or_none fm ''references'')"
    by (simp_all add: field_checks_def Let_def)
  from f(1) obtain s where s: "get_or_none fm ''title'' = YStr s" by (auto simp: is_text_def split: yval.splits)
  then have "map_of fm ''title'' = Some (YStr s)" by (auto simp: get_or_none_def split: option.splits)
  from scan_None_plain [OF scan this] have plain: "plain_text s" by simp
  have queue: "(case get_or_none fm ''queue'' of YStr q \<Rightarrow> py_strip q | _ \<Rightarrow> DEFAULT_QUEUE) \<noteq> []"
    using f(2) by (cases "map_of fm ''queue''")
      (auto simp: present_def text_in_def get_or_none_def DEFAULT_QUEUE_def split: yval.splits)
  have trust: "(case get_or_none fm ''trust_level'' of YNone \<Rightarrow> None | v \<Rightarrow> Some (py_strip (text_of v))) \<in> {None, Some ''strict'', Some ''auto''}"
    using f(3) by (auto simp: text_in_def text_of_def split: yval.splits)
  have commit: "(case get_or_none fm ''commit_type'' of YNone \<Rightarrow> None | v \<Rightarrow> Some (py_strip (text_of v))) = Some c \<Longrightarrow> c \<in> set COMMIT_TYPES" for c
    using f(4) by (auto simp: text_in_def text_of_def split: yval.splits)
  from branch_fields_Inr [OF branch] have br: "effective_mode g mode = BM_EXISTING \<longleftrightarrow> ref \<noteq> None"
    "\<forall>r. ref = Some r \<longrightarrow> is_valid_branch_name r" "\<forall>b. bn' = Some b \<longrightarrow> bn = Some b \<and> effective_mode g mode = BM_NEW" by blast+
  show ?thesis
    unfolding admitted_def
  proof (intro conjI)
    show "\<forall>b. nt_branch_name t = Some b \<longrightarrow> is_valid_branch_name b \<and> length b \<le> 50 \<and> b \<noteq> vg_base_branch g \<and>
        effective_mode g (nt_branch_mode t) = BM_NEW"
      using br(3) bn branch_name_field_Some [of g "get_or_none fm ''branch_name''"]
      by (simp add: t normalized_of_def BRANCH_NAME_MAX_LEN_def)
  qed (use id dep dup valid_task_id_portable [OF id] s blank plain queue trust commit br given_references [OF f(5) scan]
        node_overrides_distinct [OF ovs] in \<open>auto simp: t normalized_of_def is_duplicate_def text_of_def\<close>)
qed

section \<open>The manifest\<close>

lemma those_texts: "those (map (\<lambda>x. case x of YStr s \<Rightarrow> Some s | _ \<Rightarrow> None) (map YStr xs)) = Some xs"
  by (induction xs) simp_all

lemma as_list_texts [simp]: "as_list (YList (map YStr xs)) = Some xs"
  using those_texts by (simp add: as_list_def comp_def)

lemma as_text_opt [simp]: "as_text (opt_doc YStr x) = Some x"
  by (cases x) (simp_all add: as_text_def opt_doc_def)

lemma as_flag_opt [simp]: "as_flag (opt_doc YBool x) = Some x"
  by (cases x) (simp_all add: as_flag_def opt_doc_def)

lemma opt_enum_mode [simp]:
  "opt_enum branch_mode_value [BM_NEW, BM_EXISTING, BM_CURRENT] (opt_doc (YStr \<circ> branch_mode_value) m) = m"
  by (cases m; cases "the m") (auto simp: opt_enum_def opt_doc_def)

lemma opt_enum_scope [simp]:
  "opt_enum publish_scope_value [PS_COMMIT, PS_PUSH, PS_PULL_REQUEST] (opt_doc (YStr \<circ> publish_scope_value) m) = m"
  by (cases m; cases "the m") (auto simp: opt_enum_def opt_doc_def)

lemma load_override_json [simp]: "load_override (YMap (node_override_json ov)) = Some ov"
  by (cases ov; simp add: load_override_def node_override_json_def get_or_none_def as_flag_def as_text_def split: option.splits)

lemma load_overrides_json [simp]:
  "load_overrides (YMap (map (\<lambda>(n, ov). (n, YMap (node_override_json ov))) ovs)) = Some ovs"
  by (induction ovs) (auto simp: load_overrides_def)

lemma normalize_priority_value [simp]: "normalize_priority (YStr (priority_value p)) = p"
proof (cases p)
  case LOW
  moreover have "normalize_priority (YStr ''low'') = LOW" by code_simp
  ultimately show ?thesis by simp
next
  case MID
  moreover have "normalize_priority (YStr ''mid'') = MID" by code_simp
  ultimately show ?thesis by simp
next
  case HIGH
  moreover have "normalize_priority (YStr ''high'') = HIGH" by code_simp
  ultimately show ?thesis by simp
qed

lemma load_write:
  assumes "nt_queue t \<noteq> []"
  shows "load_normalized (write_normalized t) = Some t"
  using assms
  by (simp add: load_normalized_def write_normalized_def get_or_none_def get_or_def as_text_def [of "YStr _"])

text \<open>
  C36. A restart does not change the task.  The manifest of an admitted task, read back, is the task the
  gate built: every gate the operator set (trust level, publishing cap, decomposition, references, node
  overrides) comes back as it was.
\<close>

theorem manifest_survives_restart:
  assumes "phase_a g src = Inr t"
  shows "load_normalized (write_normalized t) = Some t \<and> phase_b (the (load_normalized (write_normalized t))) = phase_b t"
proof -
  obtain fm body where v: "validate_fields g fm body = Inr t" using phase_a_Inr [OF assms] by blast
  from validate_fields_Inr [OF v] obtain i branch ovs where shape: "check_shape fm body = None"
    and t: "t = normalized_of fm body i branch ovs" by blast
  from check_shape_None [OF shape] have "present fm ''queue'' \<longrightarrow> text_in (\<lambda>s. s \<noteq> []) (get_or_none fm ''queue'')"
    by (simp add: field_checks_def Let_def)
  then have "nt_queue t \<noteq> []"
    by (cases "map_of fm ''queue''"; cases branch)
      (auto simp: t normalized_of_def present_def text_in_def get_or_none_def DEFAULT_QUEUE_def split: yval.splits)
  with load_write show ?thesis by simp
qed

section \<open>A concrete task\<close>

definition demo_frontmatter :: ydict where
  "demo_frontmatter = [(''id'', YStr ''task-7''), (''title'', YStr ''Add search''), (''trust_level'', YStr '' strict''),
     (''references'', YList [YStr ''Closes 12'']), (''nodes'', YMap [(''review'', YMap [(''model'', YStr ''m'')])])]"

definition demo_source :: parsed_source where
  "demo_source = \<lparr>src_suffix = ''.md'', src_size = 60, src_text = Some (''---'' @ [CHR 0x0A] @ ''id: task-7'' @ [CHR 0x0A] @ ''---'' @ [CHR 0x0A] @
     ''## Description'' @ [CHR 0x0A] @ ''Search the index.'')\<rparr>"

definition demo_gate :: validation_gate where
  "demo_gate = \<lparr>vg_config = \<lparr>vc_max_task_bytes = 1000, vc_max_task_lines = 100, vc_max_line_bytes = 200, vc_max_control_ratio = (1, 100)\<rparr>,
     vg_base_branch = ''main'', vg_branch_mode = BM_NEW, vg_store_has_task_id = (\<lambda>_. False), vg_ledger_has_task_id = (\<lambda>_. True),
     vg_is_recovery_rerun = (\<lambda>_. False), vg_only_validation_rejects = (\<lambda>_. True),
     vg_yaml = (\<lambda>text. Inr (YMap demo_frontmatter)), vg_json = (\<lambda>text. Inl [])\<rparr>"

lemma demo_admitted: "\<exists>t. phase_a demo_gate demo_source = Inr t \<and> nt_id t = ''task-7''"
proof -
  have "case phase_a demo_gate demo_source of Inr t \<Rightarrow> nt_id t = ''task-7'' | Inl e \<Rightarrow> False" by code_simp
  then show ?thesis by (auto split: sum.splits)
qed

lemma gate_admits_witness: "\<exists>t. phase_a demo_gate demo_source = Inr t \<and> nt_id t = ''task-7'' \<and> admitted demo_gate t"
  using demo_admitted gate_admits by blast

lemma manifest_survives_restart_witness:
  "\<exists>t. phase_a demo_gate demo_source = Inr t \<and> load_normalized (write_normalized t) = Some t"
  using demo_admitted manifest_survives_restart by blast

text \<open>
  A heading line with no title takes the next line as its title, whatever that line is: the section of
  the swallowed heading is gone, and with it, here, the required description.
\<close>

lemma empty_heading_swallows:
  "extract_section (''##'' @ [CHR 0x0A] @ ''## Description'' @ [CHR 0x0A] @ ''Text'') ''Description'' = None"
  "extract_section (''## Description'' @ [CHR 0x0A] @ ''Text'') ''Description'' = Some ''Text''"
  by code_simp+

section \<open>Slugs\<close>

fun no_double :: "bool \<Rightarrow> string \<Rightarrow> bool" where
  "no_double b [] = True"
| "no_double b (c # cs) = (if c = CHR ''-'' then \<not> b \<and> no_double True cs else no_double False cs)"

definition slug_char :: "char \<Rightarrow> bool" where
  "slug_char c = (is_lower_alnum c \<or> c = CHR ''-'')"

lemma dash_not_alnum [simp]: "\<not> is_lower_alnum (CHR ''-'')"
  by code_simp

lemma dash_runs_ok: "no_double b (dash_runs b s) \<and> list_all slug_char (dash_runs b s)"
  by (induction b s rule: dash_runs.induct) (auto simp: slug_char_def)

lemma dash_runs_id: "no_double b s \<Longrightarrow> list_all slug_char s \<Longrightarrow> dash_runs b s = s"
  by (induction b s rule: no_double.induct) (auto simp: slug_char_def split: if_splits)

lemma no_double_append: "no_double b (u @ v) \<Longrightarrow> no_double b u"
  by (induction b u rule: no_double.induct) (auto split: if_splits)

lemma no_double_drop: "no_double b s \<Longrightarrow> no_double False (dropWhile (\<lambda>c. c = CHR ''-'') s)"
  by (induction b s rule: no_double.induct) (auto split: if_splits)

lemma strip_end: "\<exists>v. s = rev (dropWhile p (rev s)) @ v"
  by (metis rev_append rev_rev_ident takeWhile_dropWhile_id)

definition slug_ok :: "string \<Rightarrow> bool" where
  "slug_ok s \<longleftrightarrow> s \<noteq> [] \<and> list_all slug_char s \<and> hd s \<noteq> CHR ''-'' \<and> last s \<noteq> CHR ''-'' \<and> no_double False s"

lemma strip_dashes_ok:
  assumes "no_double b s" and "list_all slug_char s" and "strip_on (\<lambda>c. c = CHR ''-'') s \<noteq> []"
  shows "slug_ok (strip_on (\<lambda>c. c = CHR ''-'') s)"
proof -
  let ?p = "\<lambda>c. c = CHR ''-''" and ?l = "dropWhile (\<lambda>c. c = CHR ''-'') s"
  obtain v where v: "?l = strip_on ?p s @ v" unfolding strip_on_def using strip_end [of ?l ?p] by blast
  have "no_double False (strip_on ?p s @ v)" using no_double_drop [OF assms(1)] v by simp
  moreover have "list_all slug_char (strip_on ?p s @ v)"
    unfolding v [symmetric] using assms(2) by (auto simp: list_all_iff dest: set_dropWhileD)
  moreover have "hd (strip_on ?p s) \<noteq> CHR ''-''"
    using hd_dropWhile [of ?p s] assms(3) v by (metis append_is_Nil_conv hd_append2)
  moreover have "last (strip_on ?p s) \<noteq> CHR ''-''"
    using hd_dropWhile [of ?p "rev ?l"] assms(3) unfolding strip_on_def by (metis last_rev rev.simps(1))
  ultimately show ?thesis using assms(3) no_double_append by (auto simp: slug_ok_def)
qed

lemma slug_char_plain: "slug_char c \<Longrightarrow> \<not> py_space c \<and> char_lower c = c"
  by (auto simp: slug_char_def is_lower_alnum_def py_space_def char_lower_def Let_def)

lemma dropWhile_none: "list_all (\<lambda>c. \<not> p c) s \<Longrightarrow> dropWhile p s = s"
  by (cases s) simp_all

lemma slug_ok_fixed:
  assumes "slug_ok s"
  shows "slugify s = s"
proof -
  have plain: "list_all (\<lambda>c. \<not> py_space c \<and> char_lower c = c) s"
    using assms slug_char_plain by (auto simp: slug_ok_def list_all_iff)
  then have "py_strip s = s" by (simp add: py_strip_def strip_on_def dropWhile_none list_all_iff)
  moreover have "py_lower s = s" using plain by (simp add: py_lower_def list_all_iff map_idI)
  moreover have "dash_runs False s = s" using assms by (simp add: slug_ok_def dash_runs_id)
  moreover have "dropWhile (\<lambda>c. c = CHR ''-'') s = s" using assms by (cases s) (auto simp: slug_ok_def)
  moreover have "dropWhile (\<lambda>c. c = CHR ''-'') (rev s) = rev s"
    using assms by (cases s rule: rev_cases) (auto simp: slug_ok_def)
  ultimately show ?thesis using assms by (simp add: slugify_def strip_on_def slug_ok_def)
qed

text \<open>
  Every slug is branch-safe and stable: from any title the fold yields a non-empty text of lowercase
  letters, digits and single inner dashes, folding it again changes nothing, and the bounded slug never
  exceeds its bound nor ends in a dash.
\<close>

theorem slug_well_formed:
  "slug_ok (slugify s) \<and> slugify (slugify s) = slugify s \<and> length (slugify_bounded s n) \<le> nat n \<and>
   last (CHR ''x'' # slugify_bounded s n) \<noteq> CHR ''-''"
proof -
  have task: "slug_ok ''task''" by code_simp
  have ok: "slug_ok (slugify s)"
    using strip_dashes_ok dash_runs_ok [of False "py_lower (py_strip s)"] task by (auto simp: slugify_def Let_def)
  have "length (slugify_bounded s n) \<le> nat n"
    using length_dropWhile_le [of "\<lambda>c. c = CHR ''-''" "rev (take (nat n) (slugify s))"]
    by (auto simp: slugify_bounded_def)
  moreover have "slugify_bounded s n = [] \<or> last (slugify_bounded s n) \<noteq> CHR ''-''"
    using hd_dropWhile [of "\<lambda>c. c = CHR ''-''" "rev (take (nat n) (slugify s))"]
    by (auto simp: slugify_bounded_def last_rev)
  ultimately show ?thesis using ok slug_ok_fixed by auto
qed

end
