(* ===== verification/DiffGate.thy ===== *)
theory DiffGate
  imports Prelude
begin

text \<open>
  Path patterns and what they decide: \<open>globmatch.py\<close>, the selection of check sets by the changed paths
  (\<open>checks/selection.py\<close>, \<open>checks/model.py\<close>) and the approval gate of a diff
  (\<open>core/dangerous_diff.py\<close>).
\<close>

section \<open>Globs (globmatch.py)\<close>

definition slash :: char where "slash = CHR ''/''"

definition backslash :: char where "backslash = CHR 0x5C"

definition line_feed :: char where "line_feed = CHR 0x0A"

text \<open>What \<open>compile_glob\<close> appends to its regular expression, piece by piece.\<close>

datatype glob =
    GDirs         \<comment> \<open>\<open>(?:.*/)?\<close>\<close>
  | GAll          \<comment> \<open>\<open>.*\<close>\<close>
  | GSeg          \<comment> \<open>\<open>[^/]*\<close>\<close>
  | GOne          \<comment> \<open>\<open>[^/]\<close>\<close>
  | GLit char

definition norm_path :: "string \<Rightarrow> string" where
  "norm_path s = replace_char backslash slash s"

fun compile_chars :: "string \<Rightarrow> glob list" where
  "compile_chars [] = []"
| "compile_chars (c # cs) =
     (if c = CHR ''*'' then
        (case cs of
           [] \<Rightarrow> [GSeg]
         | d # ds \<Rightarrow>
             if d = CHR ''*'' then
               (case ds of
                  [] \<Rightarrow> [GAll]
                | e # es \<Rightarrow> if e = slash then GDirs # compile_chars es else GAll # compile_chars ds)
             else GSeg # compile_chars cs)
      else if c = CHR ''?'' then GOne # compile_chars cs
      else GLit c # compile_chars cs)"

definition compile_glob :: "string \<Rightarrow> glob list" where
  "compile_glob pattern = compile_chars (norm_path pattern)"

text \<open>
  \<open>fullmatch\<close> of the compiled pattern.  A dot of the expression matches every character but a line
  feed (no \<open>DOTALL\<close>); the complement classes match a line feed too.
\<close>

fun after_slashes :: "string \<Rightarrow> string list" where
  "after_slashes [] = []"
| "after_slashes (c # cs) =
     (if c = line_feed then [] else if c = slash then cs # after_slashes cs else after_slashes cs)"

fun prefixes_while :: "(char \<Rightarrow> bool) \<Rightarrow> string \<Rightarrow> string list" where
  "prefixes_while p [] = [[]]"
| "prefixes_while p (c # cs) = (c # cs) # (if p c then prefixes_while p cs else [])"

fun glob_match :: "glob list \<Rightarrow> string \<Rightarrow> bool" where
  "glob_match [] s = (s = [])"
| "glob_match (GLit c # g) s = (case s of [] \<Rightarrow> False | d # t \<Rightarrow> d = c \<and> glob_match g t)"
| "glob_match (GOne # g) s = (case s of [] \<Rightarrow> False | d # t \<Rightarrow> d \<noteq> slash \<and> glob_match g t)"
| "glob_match (GSeg # g) s = list_ex (glob_match g) (prefixes_while (\<lambda>c. c \<noteq> slash) s)"
| "glob_match (GAll # g) s = list_ex (glob_match g) (prefixes_while (\<lambda>c. c \<noteq> line_feed) s)"
| "glob_match (GDirs # g) s = (glob_match g s \<or> list_ex (glob_match g) (after_slashes s))"

definition path_matches_any :: "string \<Rightarrow> string list \<Rightarrow> bool" where
  "path_matches_any path patterns = list_ex (\<lambda>p. glob_match (compile_glob p) (norm_path path)) patterns"

section \<open>Check commands and sets (checks/model.py)\<close>

record resolved_check =
  rc_name :: string
  rc_argv :: "string list"
  rc_cwd :: string

record check_set =
  cs_name :: string
  cs_paths :: "string list"
  cs_checks :: "resolved_check list"
  cs_timeout :: "int option"
  cs_skip_if_unavailable :: bool

text \<open>\<open>PureWindowsPath(value).is_absolute()\<close> for a path that does not start with a separator.\<close>

definition windows_absolute :: "string \<Rightarrow> bool" where
  "windows_absolute s = (case s of c # d # e # _ \<Rightarrow> d = CHR '':'' \<and> (e = slash \<or> e = backslash) | _ \<Rightarrow> False)"

definition is_safe_relpath :: "string \<Rightarrow> bool" where
  "is_safe_relpath s =
     (let n = py_strip (norm_path s)
      in if n = [] then False
         else if starts_with n ''/'' \<or> starts_with n ''~'' \<or> ''..'' \<in> set (split_on slash n) then False
         else \<not> windows_absolute s)"

definition shell_metachars :: "char set \<Rightarrow> string list \<Rightarrow> string option" where
  "shell_metachars metas argv = List.find (list_ex (\<lambda>c. c \<in> metas)) argv"

text \<open>\<open>' '.join(entry.split())\<close>; \<open>words\<close> are the runs of non-blank characters.\<close>

fun words_from :: "string \<Rightarrow> string \<Rightarrow> string list" where
  "words_from acc [] = (if acc = [] then [] else [rev acc])"
| "words_from acc (c # cs) =
     (if py_space c then (if acc = [] then words_from [] cs else rev acc # words_from [] cs)
      else words_from (c # acc) cs)"

definition argv_matches_denied :: "string list \<Rightarrow> string list \<Rightarrow> string option" where
  "argv_matches_denied argv denied =
     (let joined = join_with (CHR '' '') argv
      in List.find (\<lambda>p. p \<noteq> [] \<and> (joined = p \<or> starts_with joined (p @ '' '')))
           (map (\<lambda>entry. join_with (CHR '' '') (words_from [] entry)) denied))"

section \<open>Selection by diff (checks/selection.py)\<close>

fun select_sets :: "string list \<Rightarrow> string list \<Rightarrow> check_set list \<Rightarrow> check_set list" where
  "select_sets paths seen [] = []"
| "select_sets paths seen (c # cs) =
     (if (cs_paths c = [] \<or> list_ex (\<lambda>p. path_matches_any p (cs_paths c)) paths) \<and> cs_name c \<notin> set seen
      then c # select_sets paths (cs_name c # seen) cs
      else select_sets paths seen cs)"

definition select_check_sets :: "check_set list \<Rightarrow> string list option \<Rightarrow> check_set list" where
  "select_check_sets sets changed =
     (case changed of
        None \<Rightarrow> sets
      | Some [] \<Rightarrow> []
      | Some ps \<Rightarrow> select_sets (map norm_path ps) [] sets)"

section \<open>The approval gate of a diff (core/dangerous_diff.py)\<close>

record changed_path =
  cp_status :: string
  cp_path :: string
  cp_previous :: "string option"

record dangerous_diff =
  dg_risk :: string
  dg_paths :: "string list"
  dg_deleted :: "string list"
  dg_dependencies :: "string list"
  dg_protected :: "string list"

definition DEPENDENCY_PATTERNS :: "string list" where
  "DEPENDENCY_PATTERNS =
    [''pyproject.toml'', ''uv.lock'', ''poetry.lock'', ''Pipfile'', ''Pipfile.lock'', ''requirements*.txt'', ''setup.py'',
     ''setup.cfg'', ''package.json'', ''package-lock.json'', ''npm-shrinkwrap.json'', ''pnpm-lock.yaml'', ''yarn.lock'',
     ''bun.lock'', ''bun.lockb'', ''Cargo.toml'', ''Cargo.lock'', ''go.mod'', ''go.sum'', ''Gemfile'', ''Gemfile.lock'',
     ''composer.json'', ''composer.lock'', ''pom.xml'', ''build.gradle'', ''build.gradle.kts'', ''gradle.lockfile'',
     ''libs.versions.toml'', ''Package.swift'', ''Package.resolved'', ''Podfile'', ''Podfile.lock'', ''Cartfile'',
     ''Cartfile.resolved'', ''pubspec.yaml'', ''pubspec.lock'', ''mix.exs'', ''mix.lock'', ''*.csproj'', ''*.fsproj'',
     ''*.vbproj'', ''Directory.Packages.props'', ''packages.lock.json'', ''packages.config'', ''paket.dependencies'',
     ''paket.lock'', ''deps.edn'', ''project.clj'', ''build.sbt'', ''conanfile.py'', ''conanfile.txt'', ''conan.lock'',
     ''vcpkg.json'', ''MODULE.bazel'', ''WORKSPACE'', ''flake.nix'', ''flake.lock'', ''.terraform.lock.hcl'']"

text \<open>\<open>fnmatch.fnmatchcase\<close>; no pattern of the list has a bracket expression, so none is modelled.\<close>

fun fn_match :: "string \<Rightarrow> string \<Rightarrow> bool" where
  "fn_match [] s = (s = [])"
| "fn_match (p # ps) s =
     (if p = CHR ''*'' then list_ex (fn_match ps) (prefixes_while (\<lambda>c. True) s)
      else (case s of [] \<Rightarrow> False | c # t \<Rightarrow> (p = CHR ''?'' \<or> p = c) \<and> fn_match ps t))"

definition is_dependency_path :: "string \<Rightarrow> bool" where
  "is_dependency_path path = list_ex (\<lambda>p. fn_match p (last (split_on slash (norm_path path)))) DEPENDENCY_PATTERNS"

definition touched :: "changed_path \<Rightarrow> string list" where
  "touched e = cp_path e # (case cp_previous e of None \<Rightarrow> [] | Some p \<Rightarrow> [p])"

definition deleted_path :: "changed_path \<Rightarrow> string option" where
  "deleted_path e =
     (let code = take 1 (py_upper (cp_status e))
      in if code = ''D'' then Some (cp_path e) else if code = ''R'' then cp_previous e else None)"

text \<open>\<open>tuple(sorted(set(xs)))\<close>\<close>

definition sorted_set :: "string list \<Rightarrow> string list" where
  "sorted_set xs = sort (remdups xs)"

definition deleted_paths :: "changed_path list \<Rightarrow> string list" where
  "deleted_paths entries = sorted_set (List.map_filter deleted_path entries)"

definition dependency_paths :: "changed_path list \<Rightarrow> string list" where
  "dependency_paths entries = sorted_set (filter is_dependency_path (concat (map touched entries)))"

definition classify_dangerous_diff :: "changed_path list \<Rightarrow> dangerous_diff option" where
  "classify_dangerous_diff entries =
     (let deleted = deleted_paths entries; dependencies = dependency_paths entries
      in if deleted = [] \<and> dependencies = [] then None
         else Some \<lparr>dg_risk = (if deleted \<noteq> [] \<and> dependencies \<noteq> [] then ''other''
                                else if deleted \<noteq> [] then ''deletion'' else ''dependency''),
                    dg_paths = sorted_set (deleted @ dependencies), dg_deleted = deleted,
                    dg_dependencies = dependencies, dg_protected = []\<rparr>)"

definition protected_hits :: "changed_path list \<Rightarrow> string list \<Rightarrow> string list" where
  "protected_hits entries patterns =
     (if patterns = [] then []
      else sorted_set (filter (\<lambda>p. path_matches_any p patterns) (concat (map touched entries))))"

definition combined_risk :: "string list \<Rightarrow> string list \<Rightarrow> string list \<Rightarrow> string" where
  "combined_risk deleted dependencies guarded =
     (if length (filter (\<lambda>g. g \<noteq> []) [deleted, dependencies, guarded]) > 1 then ''other''
      else if guarded \<noteq> [] then ''protected''
      else if deleted \<noteq> [] then ''deletion''
      else ''dependency'')"

definition evaluate_diff_gate :: "changed_path list \<Rightarrow> string \<Rightarrow> string list \<Rightarrow> dangerous_diff option" where
  "evaluate_diff_gate entries trust_level patterns =
     (let guarded = protected_hits entries patterns;
          base = (if trust_level = ''strict'' then classify_dangerous_diff entries else None)
      in if guarded = [] \<and> base = None then None
         else let deleted = (case base of None \<Rightarrow> [] | Some b \<Rightarrow> dg_deleted b);
                  dependencies = (case base of None \<Rightarrow> [] | Some b \<Rightarrow> dg_dependencies b)
              in Some \<lparr>dg_risk = combined_risk deleted dependencies guarded,
                       dg_paths = sorted_set (deleted @ dependencies @ guarded), dg_deleted = deleted,
                       dg_dependencies = dependencies, dg_protected = guarded\<rparr>)"

section \<open>What a glob means\<close>

text \<open>The texts one piece stands for, and a pattern as the concatenation of its pieces.\<close>

definition piece_lang :: "glob \<Rightarrow> string set" where
  "piece_lang g = (case g of
     GDirs \<Rightarrow> {[]} \<union> {u @ [slash] | u. line_feed \<notin> set u}
   | GAll \<Rightarrow> {u. line_feed \<notin> set u}
   | GSeg \<Rightarrow> {u. slash \<notin> set u}
   | GOne \<Rightarrow> {[c] | c. c \<noteq> slash}
   | GLit c \<Rightarrow> {[c]})"

lemma in_prefixes_while: "t \<in> set (prefixes_while p s) \<longleftrightarrow> (\<exists>u. s = u @ t \<and> list_all p u)"
proof (induction p s rule: prefixes_while.induct)
  case (1 p)
  then show ?case by auto
next
  case (2 p c cs)
  then show ?case by (auto simp: Cons_eq_append_conv)
qed

lemma in_after_slashes: "t \<in> set (after_slashes s) \<longleftrightarrow> (\<exists>u. s = u @ slash # t \<and> line_feed \<notin> set u)"
proof (induction s rule: after_slashes.induct)
  case 1
  then show ?case by simp
next
  case (2 c cs)
  have "slash \<noteq> line_feed" by (simp add: slash_def line_feed_def)
  with 2 show ?case by (auto simp: Cons_eq_append_conv)
qed

lemma match_prefixes: "list_ex (glob_match g) (prefixes_while p s) \<longleftrightarrow> (\<exists>u t. s = u @ t \<and> list_all p u \<and> glob_match g t)"
  unfolding list_ex_iff Bex_def in_prefixes_while by blast

lemma glob_match_Cons: "glob_match (x # g) s \<longleftrightarrow> (\<exists>u t. s = u @ t \<and> u \<in> piece_lang x \<and> glob_match g t)"
proof (cases x)
  case GDirs
  have "list_ex (glob_match g) (after_slashes s) \<longleftrightarrow> (\<exists>u t. s = u @ slash # t \<and> line_feed \<notin> set u \<and> glob_match g t)"
    unfolding list_ex_iff Bex_def in_after_slashes by blast
  also have "\<dots> \<longleftrightarrow> (\<exists>u t. s = (u @ [slash]) @ t \<and> line_feed \<notin> set u \<and> glob_match g t)" by simp
  also have "\<dots> \<longleftrightarrow> (\<exists>v t. s = v @ t \<and> (\<exists>u. v = u @ [slash] \<and> line_feed \<notin> set u) \<and> glob_match g t)" by blast
  finally have "glob_match (GDirs # g) s \<longleftrightarrow>
      (\<exists>v t. s = v @ t \<and> (v = [] \<or> (\<exists>u. v = u @ [slash] \<and> line_feed \<notin> set u)) \<and> glob_match g t)"
    by (metis append_Nil glob_match.simps(6))
  then show ?thesis using GDirs by (simp add: piece_lang_def)
next
  case GAll
  have "list_all (\<lambda>c. c \<noteq> line_feed) u \<longleftrightarrow> line_feed \<notin> set u" for u by (auto simp: list_all_iff)
  then show ?thesis using GAll by (simp add: piece_lang_def match_prefixes)
next
  case GSeg
  have "list_all (\<lambda>c. c \<noteq> slash) u \<longleftrightarrow> slash \<notin> set u" for u by (auto simp: list_all_iff)
  then show ?thesis using GSeg by (simp add: piece_lang_def match_prefixes)
next
  case GOne
  have "(\<exists>u t. s = u @ t \<and> (\<exists>c. u = [c] \<and> c \<noteq> slash) \<and> glob_match g t) \<longleftrightarrow> (\<exists>c t. s = c # t \<and> c \<noteq> slash \<and> glob_match g t)"
    by (metis append_Cons append_Nil)
  with GOne show ?thesis by (cases s) (simp_all add: piece_lang_def)
qed (auto simp: piece_lang_def Cons_eq_append_conv split: list.splits)

lemma glob_match_pieces:
  "glob_match g s \<longleftrightarrow> (\<exists>parts. list_all2 (\<lambda>p x. p \<in> piece_lang x) parts g \<and> concat parts = s)"
proof (induction g arbitrary: s)
  case Nil
  then show ?case by auto
next
  case (Cons x g)
  have "glob_match (x # g) s \<longleftrightarrow>
      (\<exists>u parts. s = u @ concat parts \<and> u \<in> piece_lang x \<and> list_all2 (\<lambda>p x. p \<in> piece_lang x) parts g)"
    unfolding glob_match_Cons Cons.IH by blast
  also have "\<dots> \<longleftrightarrow> (\<exists>u parts. list_all2 (\<lambda>p x. p \<in> piece_lang x) (u # parts) (x # g) \<and> concat (u # parts) = s)"
    by auto
  also have "\<dots> \<longleftrightarrow> (\<exists>parts. list_all2 (\<lambda>p x. p \<in> piece_lang x) parts (x # g) \<and> concat parts = s)"
    by (metis list_all2_Cons2)
  finally show ?case .
qed

section \<open>What the gate decides\<close>

lemma sorted_set_props: "set (sorted_set xs) = set xs" "sorted (sorted_set xs)" "distinct (sorted_set xs)"
  by (simp_all add: sorted_set_def)

definition guarded_paths :: "changed_path list \<Rightarrow> string list \<Rightarrow> string set" where
  "guarded_paths entries patterns = {p \<in> set (concat (map touched entries)). path_matches_any p patterns}"

definition removed_paths :: "changed_path list \<Rightarrow> string set" where
  "removed_paths entries = {p. \<exists>e\<in>set entries. deleted_path e = Some p}"

definition manifest_paths :: "changed_path list \<Rightarrow> string set" where
  "manifest_paths entries = {p \<in> set (concat (map touched entries)). is_dependency_path p}"

lemma set_protected_hits: "set (protected_hits entries patterns) = guarded_paths entries patterns"
  by (auto simp: protected_hits_def guarded_paths_def sorted_set_props path_matches_any_def)

lemma set_deleted_paths: "set (deleted_paths entries) = removed_paths entries"
  by (auto simp: deleted_paths_def removed_paths_def sorted_set_props in_map_filter)

lemma set_dependency_paths: "set (dependency_paths entries) = manifest_paths entries"
  by (auto simp: dependency_paths_def manifest_paths_def sorted_set_props)

text \<open>What must be approved, by the two documented layers.\<close>

definition needs_approval :: "changed_path list \<Rightarrow> string \<Rightarrow> string list \<Rightarrow> string set" where
  "needs_approval entries trust_level patterns = guarded_paths entries patterns \<union>
     (if trust_level = ''strict'' then removed_paths entries \<union> manifest_paths entries else {})"

definition kinds_present :: "changed_path list \<Rightarrow> string \<Rightarrow> string list \<Rightarrow> string list" where
  "kinds_present entries trust_level patterns =
     (if guarded_paths entries patterns \<noteq> {} then [''protected''] else []) @
     (if trust_level = ''strict'' \<and> removed_paths entries \<noteq> {} then [''deletion''] else []) @
     (if trust_level = ''strict'' \<and> manifest_paths entries \<noteq> {} then [''dependency''] else [])"

lemma empty_lists:
  "protected_hits entries patterns = [] \<longleftrightarrow> guarded_paths entries patterns = {}"
  "deleted_paths entries = [] \<longleftrightarrow> removed_paths entries = {}"
  "dependency_paths entries = [] \<longleftrightarrow> manifest_paths entries = {}"
  by (metis set_protected_hits set_empty, metis set_deleted_paths set_empty, metis set_dependency_paths set_empty)


text \<open>
  A dot of the compiled pattern does not match a line feed, so a file whose name has one is outside
  every \<open>**\<close> pattern; Git reports such a name unquoted (\<open>-z\<close>), and no level gates its change.
\<close>

lemma line_feed_escapes_floor:
  "evaluate_diff_gate [\<lparr>cp_status = ''M'', cp_path = ''secrets/key'', cp_previous = None\<rparr>] ''auto'' [''secrets/**''] \<noteq> None"
  "evaluate_diff_gate [\<lparr>cp_status = ''M'', cp_path = ''secrets/a'' @ [line_feed] @ ''key'', cp_previous = None\<rparr>] ''strict'' [''secrets/**''] = None"
  by code_simp+

section \<open>What the selection runs\<close>

definition claims :: "string list \<Rightarrow> check_set \<Rightarrow> bool" where
  "claims paths c \<longleftrightarrow> cs_paths c = [] \<or> list_ex (\<lambda>p. path_matches_any p (cs_paths c)) paths"

lemma norm_path_idem [simp]: "norm_path (norm_path s) = norm_path s"
  by (simp add: norm_path_def replace_char_def slash_def backslash_def comp_def)

lemma claims_norm [simp]: "claims (map norm_path ps) = claims ps"
  by (rule ext) (simp add: claims_def path_matches_any_def list_ex_iff)

lemma select_sets_filter:
  "distinct (map cs_name sets) \<Longrightarrow> set (map cs_name sets) \<inter> set seen = {} \<Longrightarrow>
    select_sets paths seen sets = filter (claims paths) sets"
  by (induction sets arbitrary: seen) (auto simp: claims_def)

text \<open>
  The selection of check sets, on sets with names of their own (they are keys of one mapping): an
  unknown diff runs all, an empty one none, and any other exactly the sets that claim a changed path,
  in their order.  A larger diff never runs less.
\<close>

theorem selection_is_union:
  assumes "distinct (map cs_name sets)"
  shows "select_check_sets sets None = sets \<and> select_check_sets sets (Some []) = [] \<and>
    (ps \<noteq> [] \<longrightarrow> select_check_sets sets (Some ps) = filter (claims ps) sets) \<and>
    (set ps \<subseteq> set qs \<longrightarrow> set (select_check_sets sets (Some ps)) \<subseteq> set (select_check_sets sets (Some qs)))"
proof -
  have some: "select_check_sets sets (Some xs) = filter (claims xs) sets" if "xs \<noteq> []" for xs
    using that select_sets_filter [OF assms, of "[]" "map norm_path xs"]
    by (cases xs) (simp_all add: select_check_sets_def del: list.map claims_norm add: claims_norm [of "_ # _"])
  have "set (select_check_sets sets (Some ps)) \<subseteq> set (select_check_sets sets (Some qs))" if "set ps \<subseteq> set qs"
  proof (cases "ps = []")
    case True
    then show ?thesis by (simp add: select_check_sets_def)
  next
    case False
    with that have "qs \<noteq> []" by auto
    with False that show ?thesis by (auto simp: some claims_def list_ex_iff)
  qed
  with some show ?thesis by (simp add: select_check_sets_def)
qed

lemma selection_is_union_witness:
  "select_check_sets [\<lparr>cs_name = ''web'', cs_paths = [''web/**''], cs_checks = [], cs_timeout = None, cs_skip_if_unavailable = False\<rparr>,
      \<lparr>cs_name = ''all'', cs_paths = [], cs_checks = [], cs_timeout = None, cs_skip_if_unavailable = False\<rparr>] (Some [''docs/a.md'']) =
    filter (claims [''docs/a.md'']) [\<lparr>cs_name = ''web'', cs_paths = [''web/**''], cs_checks = [], cs_timeout = None, cs_skip_if_unavailable = False\<rparr>,
      \<lparr>cs_name = ''all'', cs_paths = [], cs_checks = [], cs_timeout = None, cs_skip_if_unavailable = False\<rparr>]"
  by (rule selection_is_union [THEN conjunct2, THEN conjunct2, THEN conjunct1, rule_format]) simp_all

end
