(* ===== verification/GitPaths.thy ===== *)
theory GitPaths
  imports DiffGate TaskFile OutputPolicy
begin

text \<open>
  What the git manager (\<open>git_manager.py\<close>) computes without running git: the parsers of NUL-delimited
  git output, the path predicates of its staging gates, the command lines it launches and the
  environment it launches them in, and the inventory of configuration keys that name a program.
\<close>

section \<open>NUL-delimited output\<close>

definition nul :: char where "nul = CHR 0x00"

definition horizontal_tab :: char where "horizontal_tab = CHR 0x09"

text \<open>\<open>[t for t in output.split("\0") if t]\<close>\<close>

definition tokens_z :: "string \<Rightarrow> string list" where
  "tokens_z output = filter (\<lambda>t. t \<noteq> []) (split_on nul output)"

definition parse_name_only_z :: "string \<Rightarrow> string list" where
  "parse_name_only_z output = tokens_z output"

definition two_paths :: "string \<Rightarrow> bool" where
  "two_paths code = (take 1 code = ''R'' \<or> take 1 code = ''C'')"

fun name_status_records :: "string list \<Rightarrow> (string \<times> string \<times> string option) list" where
  "name_status_records [] = []"
| "name_status_records [s] = []"
| "name_status_records [s, a] = [(s, a, None)]"
| "name_status_records (s # a # b # ts) =
     (if two_paths s then (s, b, Some a) # name_status_records ts
      else (s, a, None) # name_status_records (b # ts))"

definition parse_name_status_z :: "string \<Rightarrow> (string \<times> string \<times> string option) list" where
  "parse_name_status_z output = name_status_records (tokens_z output)"

text \<open>\<open>XY path\<close>; a rename or copy is followed by its source, which is skipped.\<close>

definition porcelain_two_paths :: "string \<Rightarrow> bool" where
  "porcelain_two_paths code = list_ex (\<lambda>c. c = CHR ''R'' \<or> c = CHR ''C'') code"

fun porcelain_records :: "string list \<Rightarrow> (string \<times> string) list" where
  "porcelain_records [] = []"
| "porcelain_records (r # ts) =
     (if porcelain_two_paths (take 2 r)
      then (case ts of [] \<Rightarrow> [] | src # ts' \<Rightarrow> (take 2 r, drop 3 r) # porcelain_records ts')
      else (take 2 r, drop 3 r) # porcelain_records ts)"

definition parse_porcelain_status_z :: "string \<Rightarrow> (string \<times> string) list" where
  "parse_porcelain_status_z output = porcelain_records (tokens_z output)"

text \<open>\<open>text.split(sep, 1)\<close> and \<open>text.split()\<close>.\<close>

definition split_once :: "char \<Rightarrow> string \<Rightarrow> (string \<times> string) option" where
  "split_once c s = (if c \<in> set s then Some (takeWhile (\<lambda>x. x \<noteq> c) s, tl (dropWhile (\<lambda>x. x \<noteq> c) s)) else None)"

fun py_words_from :: "string \<Rightarrow> string \<Rightarrow> string list" where
  "py_words_from acc [] = (if acc = [] then [] else [rev acc])"
| "py_words_from acc (c # cs) =
     (if py_space c then (if acc = [] then py_words_from [] cs else rev acc # py_words_from [] cs)
      else py_words_from (c # acc) cs)"

definition py_words :: "string \<Rightarrow> string list" where
  "py_words s = py_words_from [] s"

text \<open>One \<open>mode sha stage TAB path\<close> record of \<open>git ls-files\<close>; a malformed one is skipped.\<close>

definition index_record :: "string \<Rightarrow> (string \<times> string \<times> string \<times> string) option" where
  "index_record record =
     (case split_once horizontal_tab record of
        None \<Rightarrow> None
      | Some (meta, path) \<Rightarrow>
          (case py_words meta of [mode, sha, stage] \<Rightarrow> Some (path, mode, sha, stage) | _ \<Rightarrow> None))"

definition parse_ls_files_stage_z :: "string \<Rightarrow> (string \<times> string \<times> string \<times> string) list" where
  "parse_ls_files_stage_z output =
     fold (\<lambda>e acc. AList.update (fst e) (snd e) acc) (List.map_filter index_record (split_on nul output)) []"

section \<open>Conflicted paths\<close>

datatype conflict_evidence = WORKTREE_BYTES | NOTHING_TO_DECIDE | OUT_OF_BAND

definition CONFLICT_BY_STAGES :: "(nat set \<times> string \<times> string \<times> conflict_evidence) list" where
  "CONFLICT_BY_STAGES =
     [({1, 2, 3}, ''UU'', ''both sides modified it'', WORKTREE_BYTES),
      ({2, 3}, ''AA'', ''both sides added it'', WORKTREE_BYTES),
      ({1, 2}, ''UD'', ''we modified it, base deleted it'', WORKTREE_BYTES),
      ({1, 3}, ''DU'', ''we deleted it, base modified it'', WORKTREE_BYTES),
      ({2}, ''AU'', ''only we added it'', WORKTREE_BYTES),
      ({3}, ''UA'', ''only base added it'', WORKTREE_BYTES),
      ({1}, ''DD'', ''both sides deleted it'', NOTHING_TO_DECIDE)]"

definition GITLINK_MODE :: string where "GITLINK_MODE = ''160000''"

definition digits_value :: "string \<Rightarrow> nat option" where
  "digits_value s =
     (if s \<noteq> [] \<and> list_all (\<lambda>c. CHR ''0'' \<le> c \<and> c \<le> CHR ''9'') s
      then Some (fold (\<lambda>c n. 10 * n + (of_char c - 48)) s 0) else None)"

definition unmerged_record :: "string \<Rightarrow> (string \<times> string \<times> nat) option" where
  "unmerged_record record =
     (case index_record record of
        None \<Rightarrow> None
      | Some (path, mode, sha, stage) \<Rightarrow> map_option (\<lambda>n. (path, mode, n)) (digits_value stage))"

definition parse_ls_files_unmerged_z :: "string \<Rightarrow> (string \<times> (string \<times> nat) list) list" where
  "parse_ls_files_unmerged_z output =
     fold (\<lambda>(path, mode, n) acc.
         AList.update path ((case map_of acc path of None \<Rightarrow> [] | Some xs \<Rightarrow> xs) @ [(mode, n)]) acc)
       (List.map_filter unmerged_record (split_on nul output)) []"

record conflicted_path =
  cf_path :: string
  cf_code :: string
  cf_description :: string
  cf_has_base :: bool
  cf_has_ours :: bool
  cf_has_theirs :: bool
  cf_evidence :: conflict_evidence
  cf_exists :: bool
  cf_digest :: "string option"
  cf_binary :: bool
  cf_has_markers :: bool

text \<open>The entry of one unmerged path, given what the probe of its working-tree file answered.\<close>

definition conflicted_entry ::
    "(string \<Rightarrow> bool \<times> string option \<times> bool \<times> bool) \<Rightarrow> string \<times> (string \<times> nat) list \<Rightarrow> conflicted_path" where
  "conflicted_entry probe e =
     (case e of (path, stages) \<Rightarrow>
      let held = set (map snd stages);
          (code, description, evidence) =
            (case map_of CONFLICT_BY_STAGES held of
               None \<Rightarrow> (''??'', ''an unmerged entry Git described in a shape we do not model'', OUT_OF_BAND)
             | Some kd \<Rightarrow> kd);
          gitlink = list_ex (\<lambda>(mode, n). mode = GITLINK_MODE) stages;
          (exists, digest, binary, markers) = probe path
      in \<lparr>cf_path = path, cf_code = code,
          cf_description = (if gitlink then description @ '' (a submodule gitlink, the answer is a commit id)'' else description),
          cf_has_base = (1 \<in> held), cf_has_ours = (2 \<in> held), cf_has_theirs = (3 \<in> held),
          cf_evidence = (if gitlink then OUT_OF_BAND else evidence),
          cf_exists = exists, cf_digest = digest, cf_binary = binary, cf_has_markers = markers\<rparr>)"

definition conflicted_entries :: "(string \<Rightarrow> bool \<times> string option \<times> bool \<times> bool) \<Rightarrow> string \<Rightarrow> conflicted_path list" where
  "conflicted_entries probe output = sort_key cf_path (map (conflicted_entry probe) (parse_ls_files_unmerged_z output))"

section \<open>Paths of the staging gates\<close>

definition RUNTIME_EXCLUDED_DIRS :: "string list" where
  "RUNTIME_EXCLUDED_DIRS = [CONTROL_HOME_DIRNAME, EXCHANGE_HOME_DIRNAME]"

definition TRACKED_LIFECYCLE_STATES :: "string list" where
  "TRACKED_LIFECYCLE_STATES = [''preparing'', ''pending'', ''done'', ''failed'']"

definition audit_pathspec :: "string \<Rightarrow> string \<Rightarrow> string list" where
  "audit_pathspec tdir tid =
     concat (map (\<lambda>state. map (\<lambda>suffix. tdir @ ''/'' @ state @ ''/'' @ tid @ suffix) [''.md'', ''.summary.md''])
       TRACKED_LIFECYCLE_STATES)"

definition runtime_exclude_pathspecs :: "string list \<Rightarrow> string list" where
  "runtime_exclude_pathspecs roots = map (\<lambda>r. '':(exclude,top)'' @ r @ ''/'') roots"

text \<open>A path of the tree at or below a directory; the directory itself counts.\<close>

definition at_or_below :: "string \<Rightarrow> string \<Rightarrow> bool" where
  "at_or_below path d = (path = d \<or> starts_with path (d @ ''/''))"

definition under_declared_dir :: "string \<Rightarrow> string option \<Rightarrow> bool" where
  "under_declared_dir path declared =
     (case declared of
        None \<Rightarrow> False
      | Some d \<Rightarrow>
          (let normalized = strip_slashes (norm_path path); base = strip_slashes (norm_path d)
           in at_or_below normalized base \<or> starts_with base (normalized @ ''/'')))"

definition is_artifact_path :: "string list \<Rightarrow> string \<Rightarrow> bool" where
  "is_artifact_path excluded path = list_ex (at_or_below (norm_path path)) excluded"

definition within_allowlist :: "string \<Rightarrow> string list \<Rightarrow> bool" where
  "within_allowlist candidate allowed =
     (candidate \<in> set allowed \<or> list_ex (\<lambda>d. ends_with d ''/'' \<and> starts_with candidate d) allowed)"

text \<open>The staged entries outside the allowlist of an operation; \<open>None\<close> is the mode of a base merge.\<close>

definition staged_offenders ::
    "string list \<Rightarrow> string option \<Rightarrow> string list option \<Rightarrow> (string \<times> string \<times> string option) list \<Rightarrow> string list" where
  "staged_offenders excluded private_base allowed staged =
     concat (map (\<lambda>(code, path, previous).
       (case allowed of
          None \<Rightarrow> filter (\<lambda>p. is_artifact_path excluded p \<or> under_declared_dir p private_base)
                    (path # (case previous of None \<Rightarrow> [] | Some q \<Rightarrow> [q]))
        | Some ok \<Rightarrow>
            (if within_allowlist path ok then [] else [path]) @
            (case previous of
               None \<Rightarrow> []
             | Some q \<Rightarrow> if is_artifact_path excluded q \<and> \<not> within_allowlist q ok then [q] else []))) staged)"

section \<open>Command lines and their environment\<close>

definition GIT_HARDENING_CONFIG :: "(string \<times> string) list" where
  "GIT_HARDENING_CONFIG =
     [(''core.fsmonitor'', ''false''), (''core.editor'', ''false''), (''sequence.editor'', ''false''),
      (''commit.gpgsign'', ''false''), (''tag.gpgsign'', ''false'')]"

definition HARDENED_DIFF :: "string list" where
  "HARDENED_DIFF = [''diff'', ''--no-textconv'', ''--no-ext-diff'', ''--no-color'', ''--src-prefix=a/'', ''--dst-prefix=b/'']"

definition hardening_prefix :: "string \<Rightarrow> string list" where
  "hardening_prefix null_hooks_dir =
     [''--no-pager'', ''-c'', ''core.hooksPath='' @ null_hooks_dir] @
     concat (map (\<lambda>(key, v). [''-c'', key @ ''='' @ v]) GIT_HARDENING_CONFIG)"

definition harden_git_argv :: "string \<Rightarrow> string list \<Rightarrow> string list" where
  "harden_git_argv null_hooks_dir argv =
     (case argv of
        [] \<Rightarrow> argv
      | program # rest \<Rightarrow>
          if program \<noteq> ''git'' then argv
          else program # hardening_prefix null_hooks_dir @
            (case rest of [] \<Rightarrow> [] | sub # args \<Rightarrow> if sub = ''diff'' then HARDENED_DIFF @ args else rest))"

definition pinned_argv :: "(string \<Rightarrow> string) \<Rightarrow> string list \<Rightarrow> string list" where
  "pinned_argv launch argv = (case argv of [] \<Rightarrow> [] | program # args \<Rightarrow> launch program # args)"

definition GIT_HARDENING_ENV :: "(string \<times> string) list" where
  "GIT_HARDENING_ENV =
     [(''GIT_TERMINAL_PROMPT'', ''0''), (''GIT_OPTIONAL_LOCKS'', ''0''), (''GIT_EDITOR'', ''false''),
      (''GIT_SEQUENCE_EDITOR'', ''false''), (''GCM_INTERACTIVE'', ''Never''), (''LC_ALL'', ''C'')]"

definition GIT_ENV_NAMESPACE_ALLOWED :: "string list" where
  "GIT_ENV_NAMESPACE_ALLOWED = [''GIT_CONFIG_GLOBAL'', ''GH_TOKEN'', ''GITHUB_TOKEN'']"

definition GIT_ENV_NAMESPACE_PREFIXES :: "string list" where
  "GIT_ENV_NAMESPACE_PREFIXES = [''GIT_'', ''GH_'', ''GITHUB_'']"

definition GIT_ENV_SCRUB :: "string list" where
  "GIT_ENV_SCRUB =
     [''GIT_DIR'', ''GIT_WORK_TREE'', ''GIT_INDEX_FILE'', ''GIT_OBJECT_DIRECTORY'', ''GIT_ALTERNATE_OBJECT_DIRECTORIES'',
      ''GIT_CONFIG'', ''GIT_CONFIG_SYSTEM'', ''GIT_CONFIG_COUNT'', ''GIT_SSH'', ''GIT_SSH_COMMAND'', ''GIT_ASKPASS'',
      ''SSH_ASKPASS'', ''GIT_AUTHOR_NAME'', ''GIT_AUTHOR_EMAIL'', ''GIT_AUTHOR_DATE'', ''GIT_COMMITTER_NAME'',
      ''GIT_COMMITTER_EMAIL'', ''GIT_COMMITTER_DATE'', ''GH_REPO'', ''GH_HOST'', ''GIT_CONFIG_PARAMETERS'', ''GH_CONFIG_DIR'']"

text \<open>\<open>build_git_env\<close>, from the allowlisted environment \<open>build_orchestrator_env\<close> returned.\<close>

definition git_namespace :: "string \<Rightarrow> bool" where
  "git_namespace name =
     (list_ex (starts_with (py_upper name)) GIT_ENV_NAMESPACE_PREFIXES \<and> py_upper name \<notin> set GIT_ENV_NAMESPACE_ALLOWED)"

definition build_git_env :: "(string \<times> string) list \<Rightarrow> (string \<times> string) list" where
  "build_git_env env =
     fold (\<lambda>(k, v) e. AList.update k v e) GIT_HARDENING_ENV
       (filter (\<lambda>(k, v). k \<notin> set GIT_ENV_SCRUB) (filter (\<lambda>(k, v). \<not> git_namespace k) env))"

section \<open>Configuration that names a program\<close>

definition DRIVER_VARIABLES :: "string list" where
  "DRIVER_VARIABLES = [''clean'', ''smudge'', ''process'', ''command'', ''textconv'']"

definition PROGRAM_CONFIG_KEYS :: "string list" where
  "PROGRAM_CONFIG_KEYS = [''core.sshcommand'', ''credential.helper'']"

text \<open>\<open>^(filter|diff)\.[^.]+\.(clean|smudge|process|command|textconv)$\<close>\<close>

definition filter_driver_key :: "string \<Rightarrow> bool" where
  "filter_driver_key key =
     (case split_on (CHR ''.'') key of
        [kd, driver, variable] \<Rightarrow> kd \<in> {''filter'', ''diff''} \<and> driver \<noteq> [] \<and> variable \<in> set DRIVER_VARIABLES
      | _ \<Rightarrow> False)"

definition program_key :: "string \<Rightarrow> bool" where
  "program_key key = (filter_driver_key key \<or> key \<in> set PROGRAM_CONFIG_KEYS)"

text \<open>The keys of one \<open>git config --list -z\<close> answer; a key ends at its first line feed.\<close>

definition config_keys :: "string \<Rightarrow> string list" where
  "config_keys output = map (takeWhile (\<lambda>c. c \<noteq> line_feed)) (tokens_z output)"

section \<open>Branches and remotes\<close>

text \<open>\<open>GitManager.branch_name\<close>: an override wins; otherwise the slug fills what the prefix leaves.\<close>

definition branch_name :: "string \<Rightarrow> string \<Rightarrow> string \<Rightarrow> int \<Rightarrow> string option \<Rightarrow> string" where
  "branch_name prefix tid slug epoch override =
     (let fixed = prefix @ ''/'' @ show_int epoch @ ''-'' @ tid;
          bounded = slugify_bounded slug (int BRANCH_NAME_MAX_LEN - int (length fixed) - 1)
      in case override of
           Some b \<Rightarrow> if b \<noteq> [] then b else if bounded \<noteq> [] then fixed @ ''-'' @ bounded else fixed
         | None \<Rightarrow> if bounded \<noteq> [] then fixed @ ''-'' @ bounded else fixed)"

text \<open>The \<open>ls-remote\<close> line of exactly one head.\<close>

definition exact_head :: "string \<Rightarrow> string \<Rightarrow> string option" where
  "exact_head output branch =
     map_option (\<lambda>(sha, ref). py_strip sha)
       (List.find (\<lambda>(sha, ref). py_strip ref = ''refs/heads/'' @ branch \<and> py_strip sha \<noteq> [])
         (map (\<lambda>l. case split_once horizontal_tab (line_text l) of None \<Rightarrow> (line_text l, []) | Some p \<Rightarrow> p) (split_lines output)))"

definition opt_text :: "string \<Rightarrow> string option" where
  "opt_text s = (if s = [] then None else Some s)"

end
