(* ===== verification/GitManager.thy ===== *)
theory GitManager
  imports GitPaths StateStore
begin

text \<open>
  The git manager (\<open>git_manager.py\<close>): branch preparation, staging gates, the idempotent publication steps
  over \<open>publish_operations\<close>, the operator's merge and terminal cleanup.  The \<open>git\<close> and \<open>gh\<close> programs are a
  function from a command line and the state of the clone and its remote to a result and the next state;
  the world of an operation is the database, that state, what the manager keeps in memory, and the
  command lines launched so far.  Log lines, heartbeats and the redaction of messages are left out; the
  \<open>--repo\<close> pin of \<open>gh\<close> is resolved outside the model.
\<close>

section \<open>Results, errors and the world\<close>

record git_result =
  gr_exit :: "int option"
  gr_stdout :: string
  gr_stderr :: string
  gr_timed_out :: bool
  gr_launch_error :: "string option"

definition gr_ok :: "git_result \<Rightarrow> bool" where
  "gr_ok r = (gr_exit r = Some 0 \<and> \<not> gr_timed_out r \<and> gr_launch_error r = None)"

definition gr_text :: "git_result \<Rightarrow> string" where
  "gr_text r = py_strip (gr_stdout r)"

datatype manual_cause =
    UntrustedDriver "string list"
  | AlreadyStaged "string list"
  | RuntimePathStaged "string list"
  | OutsideAllowlist "string list"
  | PushDestinationChanged
  | LifecycleRewritten string
  | ForeignConflict "string list"
  | ForeignNotFinalized

datatype git_error = GitCommandError string | ManualActionRequired manual_cause | GitStoreError store_error

record active_task =
  at_task_id :: string
  at_slug :: string
  at_branch :: string
  at_base_ref :: "string option"
  at_push_url_digest :: "string option"

record 'r git_world =
  gw_db :: db
  gw_repo :: 'r
  gw_active :: "active_task option"
  gw_adopted :: "(string \<times> nat) list"
  gw_tasks_ignored :: "bool option"
  gw_report_dir :: "string option"
  gw_report_base :: "string option"
  gw_calls :: "string list list"

datatype audit_branch = AUDIT_TASK | AUDIT_SIBLING

datatype merge_strategy = MERGE | SQUASH | REBASE

fun merge_strategy_value :: "merge_strategy \<Rightarrow> string" where
  "merge_strategy_value MERGE = ''merge''"
| "merge_strategy_value SQUASH = ''squash''"
| "merge_strategy_value REBASE = ''rebase''"

text \<open>The configuration the manager reads and the programs and library functions it calls.\<close>

record 'r git_env =
  ge_run :: "string list \<Rightarrow> 'r \<Rightarrow> git_result \<times> 'r"
  ge_launch :: "string \<Rightarrow> string"
  ge_null_hooks :: string
  ge_repo_pin :: "string option"
  ge_sha256 :: "string \<Rightarrow> string"
  ge_json :: "string \<Rightarrow> yval option"
  ge_now :: string
  ge_file_digest :: "string \<Rightarrow> 'r \<Rightarrow> string option"
  ge_probe :: "string \<Rightarrow> 'r \<Rightarrow> bool \<times> string option \<times> bool \<times> bool"
  ge_read_text :: "string \<Rightarrow> 'r \<Rightarrow> string option"
  ge_write_text :: "string \<Rightarrow> string \<Rightarrow> 'r \<Rightarrow> 'r"
  ge_repo_relative :: "string \<Rightarrow> string option"
  ge_task_dir :: "string \<Rightarrow> string"
  ge_base_branch :: string
  ge_branch_prefix :: string
  ge_checkout_base :: "bool option"
  ge_tasks_dir :: string
  ge_create_pr :: bool
  ge_pr_base :: string
  ge_audit_branch :: audit_branch
  ge_audit_message :: "string \<Rightarrow> string"

type_synonym ('r, 'a) git_m = "'r git_world \<Rightarrow> (git_error + 'a) \<times> 'r git_world"

definition ret :: "'a \<Rightarrow> ('r, 'a) git_m" where
  "ret x w = (Inr x, w)"

definition raise :: "git_error \<Rightarrow> ('r, 'a) git_m" where
  "raise e w = (Inl e, w)"

definition bind_m :: "('r, 'a) git_m \<Rightarrow> ('a \<Rightarrow> ('r, 'b) git_m) \<Rightarrow> ('r, 'b) git_m" where
  "bind_m m f w = (case m w of (Inl e, w') \<Rightarrow> (Inl e, w') | (Inr x, w') \<Rightarrow> f x w')"

definition catch_m :: "('r, 'a) git_m \<Rightarrow> (git_error \<Rightarrow> ('r, 'a) git_m) \<Rightarrow> ('r, 'a) git_m" where
  "catch_m m h w = (case m w of (Inl e, w') \<Rightarrow> h e w' | (Inr x, w') \<Rightarrow> (Inr x, w'))"

definition ask :: "('r git_world \<Rightarrow> 'a) \<Rightarrow> ('r, 'a) git_m" where
  "ask g w = (Inr (g w), w)"

definition change :: "('r git_world \<Rightarrow> 'r git_world) \<Rightarrow> ('r, unit) git_m" where
  "change g w = (Inr (), g w)"

definition when_m :: "bool \<Rightarrow> ('r, unit) git_m \<Rightarrow> ('r, unit) git_m" where
  "when_m b m = (if b then m else ret ())"

definition read_db :: "(db \<Rightarrow> 'a) \<Rightarrow> ('r, 'a) git_m" where
  "read_db g = ask (\<lambda>w. g (gw_db w))"

definition write_db :: "(db \<Rightarrow> db) \<Rightarrow> ('r, unit) git_m" where
  "write_db g = change (gw_db_update g)"

definition record_op :: "'r git_env \<Rightarrow> publish_op \<Rightarrow> ('r, unit) git_m" where
  "record_op env p w =
     (case record_publish_op (ge_now env) p (gw_db w) of
        Inl e \<Rightarrow> (Inl (GitStoreError e), w)
      | Inr d \<Rightarrow> (Inr (), w\<lparr>gw_db := d\<rparr>))"

section \<open>Running commands\<close>

text \<open>\<open>_run\<close>: the only place a process is launched, hardened and with its program pinned.\<close>

definition run_cmd :: "'r git_env \<Rightarrow> string list \<Rightarrow> ('r, git_result) git_m" where
  "run_cmd env argv w =
     (case ge_run env (pinned_argv (ge_launch env) (harden_git_argv (ge_null_hooks env) argv)) (gw_repo w) of
        (r, repo) \<Rightarrow> (Inr r, w\<lparr>gw_repo := repo, gw_calls := gw_calls w @ [argv]\<rparr>))"

definition git :: "'r git_env \<Rightarrow> string list \<Rightarrow> ('r, git_result) git_m" where
  "git env args = run_cmd env (''git'' # args)"

definition gh :: "'r git_env \<Rightarrow> string list \<Rightarrow> ('r, git_result) git_m" where
  "gh env args = run_cmd env (''gh'' # args @ (case ge_repo_pin env of None \<Rightarrow> [] | Some slug \<Rightarrow> [''--repo'', slug]))"

definition failure_text :: "string list \<Rightarrow> git_result \<Rightarrow> string" where
  "failure_text args r =
     ''git '' @ join_with (CHR '' '') args @ '' failed (exit='' @
     (case gr_exit r of None \<Rightarrow> ''None'' | Some n \<Rightarrow> show_int n) @ ''): '' @ py_strip (gr_stderr r)"

definition git_checked :: "'r git_env \<Rightarrow> string list \<Rightarrow> ('r, string) git_m" where
  "git_checked env args =
     bind_m (git env args) (\<lambda>r. if gr_ok r then ret (gr_text r) else raise (GitCommandError (failure_text args r)))"

definition TRANSIENT_GIT_STDERR_MARKERS :: "string list" where
  "TRANSIENT_GIT_STDERR_MARKERS =
     [''index.lock'', ''another git process'', ''could not resolve host'', [CHR ''c'', CHR ''o'', CHR ''u'', CHR ''l'', CHR ''d'',
      CHR ''n'', CHR 0x27, CHR ''t''] @ '' resolve host'', ''connection timed out'', ''connection reset'', ''connection refused'',
      ''operation timed out'', ''failed to connect'', ''temporary failure'', ''the remote end hung up'', ''rpc failed'',
      ''early eof'', ''unable to access'', ''ssh: connect to host'']"

definition PUSH_MAX_RETRIES :: nat where "PUSH_MAX_RETRIES = 2"

definition transient :: "git_error \<Rightarrow> bool" where
  "transient e = (case e of GitCommandError msg \<Rightarrow> list_ex (contains_sub (py_lower msg)) TRANSIENT_GIT_STDERR_MARKERS | _ \<Rightarrow> False)"

fun retrying :: "nat \<Rightarrow> ('r, 'a) git_m \<Rightarrow> ('r, 'a) git_m" where
  "retrying 0 m = m"
| "retrying (Suc n) m = catch_m m (\<lambda>e. if transient e then retrying n m else raise e)"

definition git_checked_retryable :: "'r git_env \<Rightarrow> string list \<Rightarrow> ('r, string) git_m" where
  "git_checked_retryable env args = retrying PUSH_MAX_RETRIES (git_checked env args)"

section \<open>Probes\<close>

definition untrusted_config_programs :: "'r git_env \<Rightarrow> ('r, string list) git_m" where
  "untrusted_config_programs env =
     bind_m (git env [''config'', ''--local'', ''--list'', ''-z'']) (\<lambda>a.
     bind_m (git env [''config'', ''--worktree'', ''--list'', ''-z'']) (\<lambda>b.
     ret (filter program_key
       ((if gr_ok a then config_keys (gr_stdout a) else []) @ (if gr_ok b then config_keys (gr_stdout b) else [])))))"

definition assert_no_untrusted_filters :: "'r git_env \<Rightarrow> ('r, unit) git_m" where
  "assert_no_untrusted_filters env =
     bind_m (untrusted_config_programs env) (\<lambda>ps.
     if ps \<noteq> [] then raise (ManualActionRequired (UntrustedDriver (sorted_set ps))) else ret ())"

definition head_sha :: "'r git_env \<Rightarrow> ('r, string) git_m" where
  "head_sha env = bind_m (git env [''rev-parse'', ''HEAD'']) (\<lambda>r. ret (gr_text r))"

definition current_branch :: "'r git_env \<Rightarrow> ('r, string option) git_m" where
  "current_branch env =
     bind_m (git env [''rev-parse'', ''--abbrev-ref'', ''HEAD'']) (\<lambda>r.
     ret (if gr_text r = [] \<or> gr_text r = ''HEAD'' then None else Some (gr_text r)))"

definition branch_exists :: "'r git_env \<Rightarrow> string \<Rightarrow> ('r, bool) git_m" where
  "branch_exists env branch =
     bind_m (git env [''rev-parse'', ''--verify'', ''--quiet'', ''refs/heads/'' @ branch]) (\<lambda>r. ret (gr_ok r))"

definition local_branch_sha :: "'r git_env \<Rightarrow> string \<Rightarrow> ('r, string option) git_m" where
  "local_branch_sha env branch =
     bind_m (git env [''rev-parse'', ''--verify'', ''-q'', ''refs/heads/'' @ branch]) (\<lambda>r.
     ret (if gr_ok r then opt_text (gr_text r) else None))"

text \<open>Empty when the remote has no such head, none when the probe did not answer.\<close>

definition remote_head :: "'r git_env \<Rightarrow> string \<Rightarrow> ('r, string option) git_m" where
  "remote_head env branch =
     bind_m (git env [''ls-remote'', ''--heads'', ''origin'', branch]) (\<lambda>r.
     ret (if \<not> gr_ok r then None
          else Some (case exact_head (gr_stdout r) branch of None \<Rightarrow> [] | Some sha \<Rightarrow> sha)))"

definition remote_branch_exists :: "'r git_env \<Rightarrow> string \<Rightarrow> ('r, bool) git_m" where
  "remote_branch_exists env branch = bind_m (remote_head env branch) (\<lambda>h. ret (h \<noteq> None \<and> h \<noteq> Some []))"

definition local_or_remote_branch_exists :: "'r git_env \<Rightarrow> string \<Rightarrow> ('r, bool) git_m" where
  "local_or_remote_branch_exists env branch =
     bind_m (git env [''fetch'', ''origin'']) (\<lambda>_.
     bind_m (branch_exists env branch) (\<lambda>b. if b then ret True else remote_branch_exists env branch))"

definition commit_on_branch :: "'r git_env \<Rightarrow> string \<Rightarrow> string \<Rightarrow> ('r, bool) git_m" where
  "commit_on_branch env sha branch =
     (if sha = [] then ret False
      else bind_m (git env [''merge-base'', ''--is-ancestor'', sha, branch]) (\<lambda>r. ret (gr_ok r)))"

definition merge_in_progress :: "'r git_env \<Rightarrow> ('r, bool) git_m" where
  "merge_in_progress env = bind_m (git env [''rev-parse'', ''-q'', ''--verify'', ''MERGE_HEAD'']) (\<lambda>r. ret (gr_ok r))"

definition merge_abort :: "'r git_env \<Rightarrow> ('r, unit) git_m" where
  "merge_abort env =
     bind_m (merge_in_progress env) (\<lambda>b. when_m b (bind_m (git env [''merge'', ''--abort'']) (\<lambda>_. ret ())))"

definition push_url_digest :: "'r git_env \<Rightarrow> ('r, string option) git_m" where
  "push_url_digest env =
     bind_m (git env [''remote'', ''get-url'', ''--push'', ''origin'']) (\<lambda>r.
     ret (if gr_ok r then Some (ge_sha256 env (gr_text r)) else None))"

definition excluded_dirs :: "'r git_env \<Rightarrow> string list" where
  "excluded_dirs env = RUNTIME_EXCLUDED_DIRS @ [ge_tasks_dir env]"

definition artifact_path :: "'r git_env \<Rightarrow> string \<Rightarrow> bool" where
  "artifact_path env path = is_artifact_path (excluded_dirs env) path"

definition set_private_report_dir :: "string option \<Rightarrow> string option \<Rightarrow> ('r, unit) git_m" where
  "set_private_report_dir subdir base =
     change (\<lambda>w. w\<lparr>gw_report_dir := subdir, gw_report_base := (case base of None \<Rightarrow> subdir | Some b \<Rightarrow> Some b)\<rparr>)"

section \<open>What changed\<close>

definition changed_code_paths :: "'r git_env \<Rightarrow> ('r, string list) git_m" where
  "changed_code_paths env =
     bind_m (git env [''status'', ''--porcelain'', ''-z'']) (\<lambda>r.
     bind_m (ask gw_report_dir) (\<lambda>report.
     ret (filter (\<lambda>p. \<not> artifact_path env p \<and> \<not> under_declared_dir p report)
       (map snd (parse_porcelain_status_z (gr_stdout r))))))"

definition unaccounted_dirty_paths :: "'r git_env \<Rightarrow> ('r, string list) git_m" where
  "unaccounted_dirty_paths env =
     bind_m (git env [''status'', ''--porcelain'', ''-z'']) (\<lambda>r.
     ret (sorted_set (map snd (filter (\<lambda>(code, p). \<not> artifact_path env p \<and> (code = ''??'' \<or> py_strip code \<noteq> []))
       (parse_porcelain_status_z (gr_stdout r))))))"

definition diff_base :: "'r git_env \<Rightarrow> ('r, string) git_m" where
  "diff_base env w =
     (case gw_active w of
        None \<Rightarrow> (Inr (ge_base_branch env), w)
      | Some a \<Rightarrow>
          (let base = (case at_base_ref a of Some b \<Rightarrow> if b \<noteq> [] then Some b else get_base_ref (at_task_id a) (gw_db w)
                       | None \<Rightarrow> get_base_ref (at_task_id a) (gw_db w))
           in (Inr (case base of Some b \<Rightarrow> if b \<noteq> [] then b else ge_base_branch env | None \<Rightarrow> ge_base_branch env),
               w\<lparr>gw_active := Some (a\<lparr>at_base_ref := base\<rparr>)\<rparr>)))"

definition gate_reference :: "'r git_env \<Rightarrow> string \<Rightarrow> ('r, string) git_m" where
  "gate_reference env tid =
     bind_m (read_db (get_gate_reference tid)) (\<lambda>ref.
     (case ref of Some sha \<Rightarrow> if sha \<noteq> [] then ret sha else diff_base env | None \<Rightarrow> diff_base env))"

definition untracked_paths :: "'r git_env \<Rightarrow> ('r, string list) git_m" where
  "untracked_paths env =
     bind_m (git env [''ls-files'', ''--others'', ''--exclude-standard'', ''-z'']) (\<lambda>r. ret (parse_name_only_z (gr_stdout r)))"

definition changed_code_entries :: "'r git_env \<Rightarrow> string \<Rightarrow> ('r, changed_path list) git_m" where
  "changed_code_entries env tid =
     bind_m (gate_reference env tid) (\<lambda>ref.
     bind_m (git env [''diff'', ''--name-status'', ''-z'', ref, ''--'']) (\<lambda>tracked.
     bind_m (untracked_paths env) (\<lambda>untracked.
     ret (map (\<lambda>(code, p, q). \<lparr>cp_status = code, cp_path = p, cp_previous = q\<rparr>)
            (filter (\<lambda>(code, p, q). \<not> artifact_path env p) (parse_name_status_z (gr_stdout tracked))) @
          map (\<lambda>p. \<lparr>cp_status = ''??'', cp_path = p, cp_previous = None\<rparr>)
            (filter (\<lambda>p. \<not> artifact_path env p) untracked)))))"

definition keep_first :: "string list \<Rightarrow> string list" where
  "keep_first xs = rev (remdups (rev xs))"

definition changed_code_paths_from :: "'r git_env \<Rightarrow> string \<Rightarrow> ('r, string list) git_m" where
  "changed_code_paths_from env base =
     bind_m (git env [''diff'', ''--name-only'', ''-z'', base, ''--'']) (\<lambda>tracked.
     bind_m (untracked_paths env) (\<lambda>untracked.
     ret (filter (\<lambda>p. \<not> artifact_path env p) (keep_first (parse_name_only_z (gr_stdout tracked) @ untracked)))))"

definition changed_code_paths_since_base :: "'r git_env \<Rightarrow> ('r, string list) git_m" where
  "changed_code_paths_since_base env = changed_code_paths_from env (ge_base_branch env)"

definition changed_code_paths_since_task_base :: "'r git_env \<Rightarrow> ('r, string list) git_m" where
  "changed_code_paths_since_task_base env = bind_m (diff_base env) (changed_code_paths_from env)"


section \<open>Branch preparation\<close>

definition set_active :: "string \<Rightarrow> string \<Rightarrow> string \<Rightarrow> ('r, unit) git_m" where
  "set_active tid slug branch =
     change (\<lambda>w. w\<lparr>gw_active := Some \<lparr>at_task_id = tid, at_slug = slug, at_branch = branch, at_base_ref = None,
       at_push_url_digest = None\<rparr>\<rparr>)"

definition set_base_from_head :: "'r git_env \<Rightarrow> ('r, unit) git_m" where
  "set_base_from_head env =
     bind_m (head_sha env) (\<lambda>sha. change (gw_active_update (map_option (at_base_ref_update (\<lambda>_. opt_text sha)))))"

definition prepare_new :: "'r git_env \<Rightarrow> string \<Rightarrow> string \<Rightarrow> int \<Rightarrow> string option \<Rightarrow> ('r, string) git_m" where
  "prepare_new env tid slug epoch override =
     (let branch = branch_name (ge_branch_prefix env) tid slug epoch override
      in bind_m (set_active tid slug branch) (\<lambda>_.
         bind_m (merge_abort env) (\<lambda>_.
         bind_m (branch_exists env branch) (\<lambda>there.
         if there
         then bind_m (current_branch env) (\<lambda>cur.
              bind_m (if cur \<noteq> Some branch then git_checked env [''checkout'', branch] else ret []) (\<lambda>_. ret branch))
         else bind_m (git env [''fetch'', ''origin'']) (\<lambda>_.
              bind_m (git_checked env [''checkout'', ge_base_branch env]) (\<lambda>_.
              bind_m (git env [''pull'', ''--ff-only'']) (\<lambda>_.
              bind_m (git_checked env [''checkout'', ''-b'', branch]) (\<lambda>_. ret branch))))))))"

definition prepare_existing :: "'r git_env \<Rightarrow> string \<Rightarrow> string \<Rightarrow> string option \<Rightarrow> ('r, string) git_m" where
  "prepare_existing env tid slug ref =
     (case ref of
        None \<Rightarrow> raise (GitCommandError ''branch_mode existing requires branch_ref'')
      | Some [] \<Rightarrow> raise (GitCommandError ''branch_mode existing requires branch_ref'')
      | Some b \<Rightarrow>
          bind_m (set_active tid slug b) (\<lambda>_.
          bind_m (git env [''fetch'', ''origin'']) (\<lambda>_.
          bind_m (branch_exists env b) (\<lambda>local.
          bind_m (if local then git_checked env [''checkout'', b]
                  else bind_m (remote_branch_exists env b) (\<lambda>remote.
                       if remote then git_checked env [''checkout'', ''-b'', b, ''origin/'' @ b]
                       else raise (GitCommandError (''branch_ref '' @ b @ '' does not exist locally or on origin'')))) (\<lambda>_.
          bind_m (set_base_from_head env) (\<lambda>_. ret b))))))"

definition prepare_current :: "'r git_env \<Rightarrow> string \<Rightarrow> string \<Rightarrow> ('r, string) git_m" where
  "prepare_current env tid slug =
     bind_m (current_branch env) (\<lambda>cur.
     (case cur of
        None \<Rightarrow> raise (GitCommandError ''branch_mode current requires a branch (HEAD is detached)'')
      | Some b \<Rightarrow> bind_m (set_active tid slug b) (\<lambda>_. bind_m (set_base_from_head env) (\<lambda>_. ret b))))"

definition assert_index_clean_at_start :: "'r git_env \<Rightarrow> ('r, unit) git_m" where
  "assert_index_clean_at_start env =
     bind_m (git env [''diff'', ''--cached'', ''--name-status'', ''-z'']) (\<lambda>r.
     (let offenders = filter (\<lambda>p. \<not> artifact_path env p)
            (concat (map (\<lambda>(code, p, q). p # (case q of None \<Rightarrow> [] | Some x \<Rightarrow> [x])) (parse_name_status_z (gr_stdout r))))
      in if offenders \<noteq> [] then raise (ManualActionRequired (AlreadyStaged (sorted_set offenders))) else ret ()))"

text \<open>The start commit is stamped once and afterwards restored; the push destination is stamped at every preparation.\<close>

definition stamp_base_ref :: "'r git_env \<Rightarrow> string \<Rightarrow> ('r, unit) git_m" where
  "stamp_base_ref env tid =
     bind_m (read_db (get_base_ref tid)) (\<lambda>stored.
     bind_m (ask gw_active) (\<lambda>act.
     (case (stored, act) of
        (Some (c # cs), _) \<Rightarrow> change (gw_active_update (map_option (at_base_ref_update (\<lambda>_. Some (c # cs)))))
      | (_, Some a) \<Rightarrow>
          (case at_base_ref a of Some (c # cs) \<Rightarrow> write_db (set_base_ref (ge_now env) tid (c # cs)) | _ \<Rightarrow> ret ())
      | (_, None) \<Rightarrow> ret ())))"

definition stamp_push_url :: "'r git_env \<Rightarrow> string \<Rightarrow> ('r, unit) git_m" where
  "stamp_push_url env tid =
     bind_m (push_url_digest env) (\<lambda>digest.
     bind_m (change (gw_active_update (map_option (at_push_url_digest_update (\<lambda>_. digest))))) (\<lambda>_.
     (case digest of None \<Rightarrow> ret () | Some dg \<Rightarrow> write_db (set_push_url_digest (ge_now env) tid dg))))"

definition prepare_branch ::
    "'r git_env \<Rightarrow> string \<Rightarrow> string \<Rightarrow> int \<Rightarrow> string option \<Rightarrow> branch_mode \<Rightarrow> string option \<Rightarrow> ('r, string) git_m" where
  "prepare_branch env tid slug epoch override mode ref =
     bind_m (assert_no_untrusted_filters env) (\<lambda>_.
     bind_m (case mode of
               BM_EXISTING \<Rightarrow> prepare_existing env tid slug ref
             | BM_CURRENT \<Rightarrow> prepare_current env tid slug
             | BM_NEW \<Rightarrow> prepare_new env tid slug epoch override) (\<lambda>branch.
     bind_m (assert_index_clean_at_start env) (\<lambda>_.
     bind_m (stamp_base_ref env tid) (\<lambda>_.
     bind_m (stamp_push_url env tid) (\<lambda>_. ret branch)))))"

definition delete_branch :: "'r git_env \<Rightarrow> string \<Rightarrow> ('r, bool) git_m" where
  "delete_branch env branch =
     bind_m (branch_exists env branch) (\<lambda>there.
     if there then bind_m (git_checked env [''branch'', ''-D'', branch]) (\<lambda>_. ret True) else ret False)"

definition reset_branch_to_base ::
    "'r git_env \<Rightarrow> string \<Rightarrow> string \<Rightarrow> int \<Rightarrow> string option \<Rightarrow> bool \<Rightarrow> ('r, string) git_m" where
  "reset_branch_to_base env tid slug epoch override force_remote =
     (let branch = branch_name (ge_branch_prefix env) tid slug epoch override
      in bind_m (assert_no_untrusted_filters env) (\<lambda>_.
         bind_m (git env [''fetch'', ''origin'']) (\<lambda>_.
         bind_m (git_checked env [''checkout'', ge_base_branch env]) (\<lambda>_.
         bind_m (git env [''pull'', ''--ff-only'']) (\<lambda>_.
         bind_m (if force_remote then remote_branch_exists env branch else ret False) (\<lambda>there.
         bind_m (when_m there (bind_m (git env [''push'', ''origin'', ''--delete'', branch]) (\<lambda>_. ret ()))) (\<lambda>_.
         bind_m (delete_branch env branch) (\<lambda>_. ret branch))))))))"

definition refresh_base :: "'r git_env \<Rightarrow> ('r, unit) git_m" where
  "refresh_base env =
     bind_m (git env [''rev-parse'', ''--abbrev-ref'', ''HEAD'']) (\<lambda>r.
     if gr_text r \<noteq> ge_base_branch env then ret ()
     else bind_m (untrusted_config_programs env) (\<lambda>ps.
          if ps \<noteq> [] then ret ()
          else bind_m (git env [''fetch'', ''origin'']) (\<lambda>_. bind_m (git env [''pull'', ''--ff-only'']) (\<lambda>_. ret ()))))"

section \<open>Staging gates\<close>

definition tasks_dir_ignored :: "'r git_env \<Rightarrow> ('r, bool) git_m" where
  "tasks_dir_ignored env =
     bind_m (ask gw_tasks_ignored) (\<lambda>known.
     (case known of
        Some b \<Rightarrow> ret b
      | None \<Rightarrow>
          bind_m (git env [''check-ignore'', ''-q'', ''--no-index'', strip_slashes (py_strip (norm_path (ge_tasks_dir env))) @ ''/probe''])
            (\<lambda>r. bind_m (change (gw_tasks_ignored_update (\<lambda>_. Some (gr_ok r)))) (\<lambda>_. ret (gr_ok r)))))"

definition fully_staged_deletions :: "'r git_env \<Rightarrow> ('r, string list) git_m" where
  "fully_staged_deletions env =
     bind_m (git env [''status'', ''--porcelain'', ''-z'']) (\<lambda>r.
     ret (map snd (filter (\<lambda>(code, p). code = ''D '' \<and> p \<noteq> [] \<and> \<not> artifact_path env p)
       (parse_porcelain_status_z (gr_stdout r)))))"

definition staged_pathspec :: "'r git_env \<Rightarrow> string list \<Rightarrow> ('r, string list) git_m" where
  "staged_pathspec env paths =
     bind_m (fully_staged_deletions env) (\<lambda>deleted.
     bind_m (tasks_dir_ignored env) (\<lambda>ignored.
     (let stageable = filter (\<lambda>p. p \<notin> set deleted) paths
      in ret (if ignored then stageable else stageable @ ['':(exclude)'' @ ge_tasks_dir env @ ''/'']))))"

fun not_ignored :: "'r git_env \<Rightarrow> string list \<Rightarrow> ('r, string list) git_m" where
  "not_ignored env [] = ret []"
| "not_ignored env (d # ds) =
     bind_m (git env [''check-ignore'', ''-q'', d @ ''/'']) (\<lambda>r.
     bind_m (not_ignored env ds) (\<lambda>rest. ret (if gr_ok r then rest else d # rest)))"

definition runtime_add_excludes :: "'r git_env \<Rightarrow> ('r, string list) git_m" where
  "runtime_add_excludes env =
     bind_m (ask gw_report_base) (\<lambda>base.
     bind_m (not_ignored env (RUNTIME_EXCLUDED_DIRS @ (case base of None \<Rightarrow> [] | Some b \<Rightarrow> [b]))) (\<lambda>roots.
     ret (runtime_exclude_pathspecs roots)))"

definition assert_exchange_never_staged :: "'r git_env \<Rightarrow> ('r, unit) git_m" where
  "assert_exchange_never_staged env =
     bind_m (git env [''ls-files'', ''--cached'', ''-z'', ''--'', EXCHANGE_HOME_DIRNAME]) (\<lambda>a.
     bind_m (git env ([''diff'', ''--cached'', ''--name-only'', ''-z'', ''--''] @ RUNTIME_EXCLUDED_DIRS)) (\<lambda>b.
     (let offenders = sorted_set (parse_name_only_z (gr_stdout a) @ parse_name_only_z (gr_stdout b))
      in if offenders \<noteq> [] then raise (ManualActionRequired (RuntimePathStaged offenders)) else ret ())))"

definition assert_staged_allowed :: "'r git_env \<Rightarrow> string list option \<Rightarrow> ('r, unit) git_m" where
  "assert_staged_allowed env allowed =
     bind_m (assert_exchange_never_staged env) (\<lambda>_.
     bind_m (git env [''diff'', ''--cached'', ''--name-status'', ''-z'']) (\<lambda>r.
     bind_m (ask gw_report_base) (\<lambda>base.
     (let offenders = staged_offenders (excluded_dirs env) base allowed (parse_name_status_z (gr_stdout r))
      in if offenders \<noteq> [] then raise (ManualActionRequired (OutsideAllowlist (sorted_set offenders))) else ret ()))))"

section \<open>Publish operations\<close>

definition KIND_CODE_COMMIT :: string where "KIND_CODE_COMMIT = ''code_commit''"
definition KIND_SUBTASK_COMMIT :: string where "KIND_SUBTASK_COMMIT = ''subtask_commit''"
definition KIND_AUDIT_COMMIT :: string where "KIND_AUDIT_COMMIT = ''audit_commit''"
definition KIND_MERGE_COMMIT :: string where "KIND_MERGE_COMMIT = ''merge_commit''"
definition KIND_PUSH :: string where "KIND_PUSH = ''push''"
definition KIND_PR :: string where "KIND_PR = ''pr''"
definition KIND_PR_MERGE :: string where "KIND_PR_MERGE = ''pr_merge''"

definition STATUS_STARTED :: string where "STATUS_STARTED = ''started''"
definition STATUS_COMPLETED :: string where "STATUS_COMPLETED = ''completed''"

lemmas kind_defs = KIND_CODE_COMMIT_def KIND_SUBTASK_COMMIT_def KIND_AUDIT_COMMIT_def KIND_MERGE_COMMIT_def KIND_PUSH_def
  KIND_PR_def KIND_PR_MERGE_def STATUS_STARTED_def STATUS_COMPLETED_def

definition publish_of :: "string \<Rightarrow> string \<Rightarrow> int option \<Rightarrow> string \<Rightarrow> string \<Rightarrow> string option \<Rightarrow> string option \<Rightarrow> publish_op" where
  "publish_of tid kd order fingerprint st result_ref pushed =
     \<lparr>pb_task_id = tid, pb_kind = kd, pb_fingerprint = fingerprint, pb_status = st, pb_subtask_order = order,
      pb_result_ref = result_ref, pb_pushed_sha = pushed\<rparr>"

text \<open>The result of a completed operation of this kind, if there is one.\<close>

definition completed_op :: "string \<Rightarrow> string \<Rightarrow> int option \<Rightarrow> db \<Rightarrow> publish_op option" where
  "completed_op tid kd order d =
     (case get_publish_op tid kd order d of
        Some p \<Rightarrow> if pb_status p = STATUS_COMPLETED then Some p else None
      | None \<Rightarrow> None)"

definition CODE_KINDS :: "string list" where
  "CODE_KINDS = [KIND_CODE_COMMIT, KIND_SUBTASK_COMMIT, KIND_MERGE_COMMIT]"

definition advance_gate_reference :: "'r git_env \<Rightarrow> string \<Rightarrow> string \<Rightarrow> string \<Rightarrow> ('r, unit) git_m" where
  "advance_gate_reference env kd tid sha =
     when_m (kd \<in> set CODE_KINDS) (write_db (set_gate_reference (ge_now env) tid sha))"

definition record_completed ::
    "'r git_env \<Rightarrow> string \<Rightarrow> string \<Rightarrow> string \<Rightarrow> string \<Rightarrow> string option \<Rightarrow> int option \<Rightarrow> ('r, unit) git_m" where
  "record_completed env tid kd fingerprint result_ref pushed order =
     bind_m (record_op env (publish_of tid kd order fingerprint STATUS_COMPLETED (Some result_ref) pushed)) (\<lambda>_.
     advance_gate_reference env kd tid result_ref)"

definition fingerprint :: "'r git_env \<Rightarrow> string \<Rightarrow> string \<Rightarrow> int option \<Rightarrow> string \<Rightarrow> string list \<Rightarrow> string" where
  "fingerprint env tid kd order head paths =
     ge_sha256 env (join_with (CHR ''|'') [tid, kd, (case order of None \<Rightarrow> ''None'' | Some n \<Rightarrow> show_int n), head,
       join_with (CHR '','') (sort paths)])"

section \<open>Commits\<close>

text \<open>\<open>_commit\<close>: nothing on a restart; otherwise a started row, the staged set proved, the commit and its row.\<close>

definition stage_and_commit :: "'r git_env \<Rightarrow> string \<Rightarrow> string list \<Rightarrow> ('r, string) git_m" where
  "stage_and_commit env message paths =
     bind_m (assert_no_untrusted_filters env) (\<lambda>_.
     bind_m (staged_pathspec env paths) (\<lambda>spec.
     bind_m (if list_ex (\<lambda>p. \<not> starts_with p '':(exclude)'') spec then git_checked env ([''add'', ''--''] @ spec) else ret []) (\<lambda>_.
     bind_m (assert_staged_allowed env (Some paths)) (\<lambda>_.
     bind_m (git_checked env [''commit'', ''-m'', message]) (\<lambda>_.
     git_checked env [''rev-parse'', ''HEAD''])))))"

definition commit_op ::
    "'r git_env \<Rightarrow> string \<Rightarrow> string \<Rightarrow> int option \<Rightarrow> string \<Rightarrow> string list \<Rightarrow> ('r, string option) git_m" where
  "commit_op env tid kd order message paths =
     bind_m (read_db (completed_op tid kd order)) (\<lambda>finished.
     (case finished of
        Some p \<Rightarrow> ret (pb_result_ref p)
      | None \<Rightarrow>
          bind_m (head_sha env) (\<lambda>head.
          (let fp = fingerprint env tid kd order head paths
           in bind_m (record_op env (publish_of tid kd order fp STATUS_STARTED None None)) (\<lambda>_.
              if paths = [] then ret None
              else bind_m (stage_and_commit env message paths) (\<lambda>sha.
                   bind_m (record_op env (publish_of tid kd order fp STATUS_COMPLETED (Some sha) None)) (\<lambda>_.
                   bind_m (advance_gate_reference env kd tid sha) (\<lambda>_. ret (Some sha)))))))))"

definition add_adopted :: "string \<Rightarrow> nat \<Rightarrow> (string \<times> nat) list \<Rightarrow> (string \<times> nat) list" where
  "add_adopted tid n counts = AList.update tid ((case map_of counts tid of None \<Rightarrow> 0 | Some k \<Rightarrow> k) + n) counts"

definition adopted_commit_count :: "string \<Rightarrow> 'r git_world \<Rightarrow> nat" where
  "adopted_commit_count tid w = (case map_of (gw_adopted w) tid of None \<Rightarrow> 0 | Some k \<Rightarrow> k)"

definition adopt_committed_head :: "'r git_env \<Rightarrow> string \<Rightarrow> string \<Rightarrow> int option \<Rightarrow> ('r, string option) git_m" where
  "adopt_committed_head env tid kd order =
     bind_m (head_sha env) (\<lambda>head.
     if head = [] then ret None
     else bind_m (gate_reference env tid) (\<lambda>ref.
          bind_m (git env [''rev-parse'', ref]) (\<lambda>r.
          (let reference = gr_text r
           in if reference = [] \<or> head = reference then ret (Some head)
              else bind_m (git env [''rev-list'', ''--count'', reference @ ''..'' @ head]) (\<lambda>c.
                   bind_m (change (gw_adopted_update (add_adopted tid
                     (case digits_value (gr_text c) of None \<Rightarrow> 1 | Some n \<Rightarrow> n)))) (\<lambda>_.
                   bind_m (record_completed env tid kd head head None order) (\<lambda>_. ret (Some head))))))))"

definition commit_code :: "'r git_env \<Rightarrow> string \<Rightarrow> string \<Rightarrow> ('r, string option) git_m" where
  "commit_code env tid message =
     bind_m (changed_code_paths env) (\<lambda>paths.
     if paths = [] then adopt_committed_head env tid KIND_CODE_COMMIT None
     else commit_op env tid KIND_CODE_COMMIT None message paths)"

text \<open>The slug of the subtask is only logged.\<close>

definition git_commit_subtask :: "'r git_env \<Rightarrow> string \<Rightarrow> int \<Rightarrow> string \<Rightarrow> ('r, string) git_m" where
  "git_commit_subtask env tid order message =
     bind_m (changed_code_paths env) (\<lambda>paths.
     bind_m (commit_op env tid KIND_SUBTASK_COMMIT (Some order) message paths) (\<lambda>sha.
     (case sha of
        Some s \<Rightarrow> ret s
      | None \<Rightarrow>
          bind_m (adopt_committed_head env tid KIND_SUBTASK_COMMIT (Some order)) (\<lambda>adopted.
          (case adopted of Some a \<Rightarrow> if a \<noteq> [] then ret a else head_sha env | None \<Rightarrow> head_sha env)))))"

definition commit_merge_resolution :: "'r git_env \<Rightarrow> string \<Rightarrow> string \<Rightarrow> ('r, string option) git_m" where
  "commit_merge_resolution env tid message =
     bind_m (read_db (completed_op tid KIND_MERGE_COMMIT None)) (\<lambda>finished.
     (case finished of
        Some p \<Rightarrow> ret (pb_result_ref p)
      | None \<Rightarrow>
          bind_m (merge_in_progress env) (\<lambda>merging.
          if \<not> merging then bind_m (head_sha env) (\<lambda>h. ret (opt_text h))
          else bind_m (head_sha env) (\<lambda>head.
               bind_m (record_op env (publish_of tid KIND_MERGE_COMMIT None
                 (fingerprint env tid KIND_MERGE_COMMIT None head []) STATUS_STARTED None None)) (\<lambda>_.
               bind_m (assert_no_untrusted_filters env) (\<lambda>_.
               bind_m (runtime_add_excludes env) (\<lambda>excludes.
               bind_m (git_checked env ([''add'', ''-A''] @ (if excludes = [] then [] else [''--'', '':/''] @ excludes))) (\<lambda>_.
               bind_m (git env [''diff'', ''--cached'', ''--check'']) (\<lambda>r.
               if contains_sub (py_lower (gr_stdout r)) ''leftover conflict marker''
               then raise (GitCommandError ''merge resolution left conflict markers; refusing to commit'')
               else bind_m (assert_staged_allowed env None) (\<lambda>_.
                    bind_m (git_checked env [''commit'', ''-m'', message]) (\<lambda>_.
                    bind_m (git_checked env [''rev-parse'', ''HEAD'']) (\<lambda>sha.
                    bind_m (record_completed env tid KIND_MERGE_COMMIT head sha None None) (\<lambda>_. ret (Some sha))))))))))))))"

end
