(* ===== verification/GitPublish.thy ===== *)
theory GitPublish
  imports GitManager
begin

text \<open>
  Publication (\<open>git_manager.py\<close>): the audit commit, the push with its four cases, the pull request and its
  body, the merge, the operator's base merge, and terminal cleanup.
\<close>

section \<open>The audit commit\<close>

definition record_audit_op :: "'r git_env \<Rightarrow> string \<Rightarrow> string option \<Rightarrow> ('r, unit) git_m" where
  "record_audit_op env tid sha =
     record_op env (publish_of tid KIND_AUDIT_COMMIT None (case sha of Some (c # cs) \<Rightarrow> c # cs | _ \<Rightarrow> ''noop'')
       STATUS_COMPLETED sha None)"

definition file_exists :: "'r git_env \<Rightarrow> string \<Rightarrow> 'r \<Rightarrow> bool" where
  "file_exists env path repo = (ge_file_digest env path repo \<noteq> None)"

definition stageable_audit_paths :: "'r git_env \<Rightarrow> string list \<Rightarrow> ('r, string list) git_m" where
  "stageable_audit_paths env files =
     bind_m (git env ([''ls-files'', ''--''] @ files)) (\<lambda>r.
     bind_m (tasks_dir_ignored env) (\<lambda>ignored.
     bind_m (ask gw_repo) (\<lambda>repo.
     ret (filter (\<lambda>p. p \<in> set (map line_text (split_lines (gr_stdout r))) \<or> (\<not> ignored \<and> file_exists env p repo)) files))))"

text \<open>The lifecycle file of the task must be the one the run was authorized from.\<close>

definition rewritten_lifecycle :: "'r git_env \<Rightarrow> string \<Rightarrow> string list \<Rightarrow> string \<Rightarrow> 'r \<Rightarrow> string option" where
  "rewritten_lifecycle env tid stageable packet repo =
     List.find (\<lambda>p. p \<in> set stageable \<and> (case ge_file_digest env p repo of None \<Rightarrow> False | Some dg \<Rightarrow> dg \<noteq> packet))
       (map (\<lambda>state. ge_tasks_dir env @ ''/'' @ state @ ''/'' @ tid @ ''.md'') [''done'', ''failed''])"

definition assert_lifecycle_matches_packet :: "'r git_env \<Rightarrow> string \<Rightarrow> string list \<Rightarrow> string \<Rightarrow> ('r, unit) git_m" where
  "assert_lifecycle_matches_packet env tid stageable packet =
     bind_m (ask (\<lambda>w. rewritten_lifecycle env tid stageable packet (gw_repo w))) (\<lambda>bad.
     (case bad of None \<Rightarrow> ret () | Some p \<Rightarrow> raise (ManualActionRequired (LifecycleRewritten p))))"

definition switch_audit_branch :: "'r git_env \<Rightarrow> string \<Rightarrow> ('r, unit) git_m" where
  "switch_audit_branch env code_branch =
     (if ge_audit_branch env \<noteq> AUDIT_SIBLING then ret ()
      else bind_m (branch_exists env (code_branch @ ''-audit'')) (\<lambda>there.
           bind_m (git_checked env ([''checkout''] @ (if there then [] else [''-b'']) @ [code_branch @ ''-audit''])) (\<lambda>_. ret ())))"

definition audit_commit_step :: "'r git_env \<Rightarrow> string \<Rightarrow> string list \<Rightarrow> ('r, string option) git_m" where
  "audit_commit_step env tid stageable =
     bind_m (tasks_dir_ignored env) (\<lambda>ignored.
     bind_m (git env ([''add'', ''-A''] @ (if ignored then [''-f''] else []) @ [''--''] @ stageable)) (\<lambda>r.
     if \<not> gr_ok r then ret None
     else bind_m (assert_staged_allowed env (Some stageable)) (\<lambda>_.
          bind_m (git env [''commit'', ''-m'', ge_audit_message env tid]) (\<lambda>c.
          if \<not> gr_ok c then ret None
          else bind_m (git_checked env [''rev-parse'', ''HEAD'']) (\<lambda>sha. ret (Some sha))))))"

definition commit_audit :: "'r git_env \<Rightarrow> string \<Rightarrow> string option \<Rightarrow> ('r, string option) git_m" where
  "commit_audit env tid packet =
     bind_m (read_db (completed_op tid KIND_AUDIT_COMMIT None)) (\<lambda>finished.
     (case finished of
        Some p \<Rightarrow> ret (pb_result_ref p)
      | None \<Rightarrow>
          bind_m (stageable_audit_paths env (audit_pathspec (ge_tasks_dir env) tid)) (\<lambda>stageable.
          if stageable = [] then bind_m (record_audit_op env tid None) (\<lambda>_. ret None)
          else bind_m (assert_no_untrusted_filters env) (\<lambda>_.
               bind_m (git env [''rev-parse'', ''--abbrev-ref'', ''HEAD'']) (\<lambda>cur.
               bind_m (switch_audit_branch env (gr_text cur)) (\<lambda>_.
               bind_m (case packet of None \<Rightarrow> ret () | Some dg \<Rightarrow> assert_lifecycle_matches_packet env tid stageable dg) (\<lambda>_.
               bind_m (audit_commit_step env tid stageable) (\<lambda>sha.
               bind_m (if ge_audit_branch env = AUDIT_SIBLING then git_checked env [''checkout'', gr_text cur] else ret []) (\<lambda>_.
               bind_m (record_audit_op env tid sha) (\<lambda>_. ret sha))))))))))"

section \<open>Push\<close>

record push_outcome =
  ph_pushed :: bool
  ph_adopted :: "string list"

definition already_published :: "'r git_env \<Rightarrow> string \<Rightarrow> string \<Rightarrow> ('r, bool) git_m" where
  "already_published env tid branch =
     bind_m (read_db (completed_op tid KIND_PUSH None)) (\<lambda>finished.
     (case finished of
        None \<Rightarrow> ret False
      | Some p \<Rightarrow>
          (case pb_pushed_sha p of
             None \<Rightarrow> ret True
           | Some sha \<Rightarrow> bind_m (local_branch_sha env branch) (\<lambda>local. ret (local = Some sha)))))"

definition recorded_push_sha :: "string \<Rightarrow> db \<Rightarrow> string option" where
  "recorded_push_sha tid d = (case get_publish_op tid KIND_PUSH None d of None \<Rightarrow> None | Some p \<Rightarrow> pb_pushed_sha p)"

definition commits_only_on_remote :: "'r git_env \<Rightarrow> string \<Rightarrow> ('r, string list) git_m" where
  "commits_only_on_remote env branch =
     bind_m (git env [''rev-list'', ''--reverse'', ''--abbrev-commit'', branch @ ''..origin/'' @ branch]) (\<lambda>r.
     ret (if gr_ok r then filter (\<lambda>l. l \<noteq> []) (map (\<lambda>l. py_strip (line_text l)) (split_lines (gr_stdout r))) else []))"

definition adopt_remote_commits :: "'r git_env \<Rightarrow> string \<Rightarrow> string \<Rightarrow> ('r, string list) git_m" where
  "adopt_remote_commits env tid branch =
     bind_m (assert_no_untrusted_filters env) (\<lambda>_.
     bind_m (git env [''fetch'', ''origin'']) (\<lambda>_.
     bind_m (commits_only_on_remote env branch) (\<lambda>foreign.
     bind_m (git env [''merge'', ''--no-commit'', ''--no-edit'', ''origin/'' @ branch]) (\<lambda>r.
     if \<not> gr_ok r
     then bind_m (merge_in_progress env) (\<lambda>conflicted.
          bind_m (merge_abort env) (\<lambda>_.
          if conflicted then raise (ManualActionRequired (ForeignConflict foreign))
          else raise (GitCommandError (''git merge origin/'' @ branch @ '' failed: '' @ py_strip (gr_stderr r)))))
     else bind_m (catch_m (commit_merge_resolution env tid (''merge('' @ tid @ ''): integrate remote '' @ branch))
                   (\<lambda>e. bind_m (merge_abort env) (\<lambda>_. raise e))) (\<lambda>_.
          bind_m (merge_in_progress env) (\<lambda>unfinished.
          if unfinished then bind_m (merge_abort env) (\<lambda>_. raise (ManualActionRequired ForeignNotFinalized))
          else ret foreign))))))"

definition adopt_foreign_commits :: "'r git_env \<Rightarrow> string \<Rightarrow> string \<Rightarrow> ('r, string list) git_m" where
  "adopt_foreign_commits env tid branch =
     bind_m (already_published env tid branch) (\<lambda>published.
     if published then ret []
     else bind_m (local_branch_sha env branch) (\<lambda>local.
          bind_m (remote_head env branch) (\<lambda>remote.
          (case (remote, local) of
             (Some (c # cs), Some l) \<Rightarrow>
               if c # cs = l then ret []
               else bind_m (commit_on_branch env (c # cs) branch) (\<lambda>behind.
                    if behind then ret []
                    else bind_m (read_db (recorded_push_sha tid)) (\<lambda>recorded.
                         if recorded = Some (c # cs) then ret [] else adopt_remote_commits env tid branch))
           | _ \<Rightarrow> ret []))))"

definition assert_push_destination_unchanged :: "'r git_env \<Rightarrow> string \<Rightarrow> ('r, unit) git_m" where
  "assert_push_destination_unchanged env tid =
     bind_m (ask gw_active) (\<lambda>act.
     bind_m (read_db (get_push_url_digest tid)) (\<lambda>stored.
     (case (case act of None \<Rightarrow> None | Some a \<Rightarrow> at_push_url_digest a) of
        Some baseline \<Rightarrow>
          bind_m (push_url_digest env) (\<lambda>cur.
          if cur = None \<or> cur = Some baseline then ret () else raise (ManualActionRequired PushDestinationChanged))
      | None \<Rightarrow>
          (case (if tid = [] then None else stored) of
             None \<Rightarrow> ret ()
           | Some baseline \<Rightarrow>
               bind_m (push_url_digest env) (\<lambda>cur.
               if cur = None \<or> cur = Some baseline then ret () else raise (ManualActionRequired PushDestinationChanged))))))"

text \<open>What the remote holds decides how the branch goes out.\<close>

datatype push_way = AlreadyThere string | Ordinary | Leased string | AfterAdopting

definition push_way_of :: "'r git_env \<Rightarrow> string \<Rightarrow> string option \<Rightarrow> string option \<Rightarrow> string option \<Rightarrow> ('r, push_way) git_m" where
  "push_way_of env branch recorded local remote =
     (case (remote, local) of
        (Some (c # cs), Some l) \<Rightarrow>
          if c # cs = l then ret (AlreadyThere l)
          else bind_m (commit_on_branch env (c # cs) branch) (\<lambda>behind.
               ret (if behind then Ordinary
                    else if recorded = Some (c # cs) then Leased (c # cs) else AfterAdopting))
      | _ \<Rightarrow> ret Ordinary)"

definition send_branch :: "'r git_env \<Rightarrow> string \<Rightarrow> string \<Rightarrow> string option \<Rightarrow> string option \<Rightarrow> ('r, unit) git_m" where
  "send_branch env tid branch recorded lease =
     bind_m (record_op env (publish_of tid KIND_PUSH None branch STATUS_STARTED None recorded)) (\<lambda>_.
     bind_m (assert_push_destination_unchanged env tid) (\<lambda>_.
     bind_m (git_checked_retryable env ([''push''] @
         (case lease of None \<Rightarrow> [] | Some sha \<Rightarrow> [''--force-with-lease='' @ branch @ '':'' @ sha]) @
         [''--set-upstream'', ''origin'', branch])) (\<lambda>_.
     bind_m (local_branch_sha env branch) (\<lambda>sent.
     record_completed env tid KIND_PUSH branch branch sent None))))"

definition deliver :: "'r git_env \<Rightarrow> string \<Rightarrow> string \<Rightarrow> string option \<Rightarrow> push_way \<Rightarrow> ('r, push_outcome) git_m" where
  "deliver env tid branch recorded way =
     (case way of
        AlreadyThere sha \<Rightarrow>
          bind_m (record_completed env tid KIND_PUSH branch branch (Some sha) None) (\<lambda>_. ret \<lparr>ph_pushed = False, ph_adopted = []\<rparr>)
      | Ordinary \<Rightarrow> bind_m (send_branch env tid branch recorded None) (\<lambda>_. ret \<lparr>ph_pushed = True, ph_adopted = []\<rparr>)
      | Leased sha \<Rightarrow> bind_m (send_branch env tid branch recorded (Some sha)) (\<lambda>_. ret \<lparr>ph_pushed = True, ph_adopted = []\<rparr>)
      | AfterAdopting \<Rightarrow>
          bind_m (adopt_remote_commits env tid branch) (\<lambda>foreign.
          bind_m (send_branch env tid branch recorded None) (\<lambda>_. ret \<lparr>ph_pushed = True, ph_adopted = foreign\<rparr>)))"

definition push_recorded :: "'r git_env \<Rightarrow> string \<Rightarrow> string \<Rightarrow> string option \<Rightarrow> ('r, push_outcome) git_m" where
  "push_recorded env tid branch recorded =
     bind_m (local_branch_sha env branch) (\<lambda>local.
     bind_m (already_published env tid branch) (\<lambda>published.
     if published then ret \<lparr>ph_pushed = False, ph_adopted = []\<rparr>
     else bind_m (remote_head env branch) (\<lambda>remote.
          bind_m (push_way_of env branch recorded local remote) (deliver env tid branch recorded))))"

definition push_branch :: "'r git_env \<Rightarrow> string \<Rightarrow> string \<Rightarrow> branch_mode \<Rightarrow> ('r, push_outcome) git_m" where
  "push_branch env tid branch mode =
     (if branch = ge_base_branch env \<and> mode = BM_NEW
      then raise (GitCommandError (''refusing to push directly to base branch '' @ branch))
      else bind_m (read_db (recorded_push_sha tid)) (push_recorded env tid branch))"

definition push_branch_update :: "'r git_env \<Rightarrow> string \<Rightarrow> string \<Rightarrow> ('r, unit) git_m" where
  "push_branch_update env tid branch =
     bind_m (assert_push_destination_unchanged env tid) (\<lambda>_.
     bind_m (git_checked env [''push'', ''origin'', branch]) (\<lambda>_. ret ()))"

section \<open>Pull requests\<close>

definition recorded_pr_url :: "string \<Rightarrow> db \<Rightarrow> string option" where
  "recorded_pr_url tid d = (case completed_op tid KIND_PR None d of None \<Rightarrow> None | Some p \<Rightarrow> pb_result_ref p)"

definition verify_pr_state :: "'r git_env \<Rightarrow> string \<Rightarrow> ('r, string option) git_m" where
  "verify_pr_state env url =
     bind_m (gh env [''pr'', ''view'', url, ''--json'', ''state'', ''-q'', ''.state'']) (\<lambda>r.
     ret (if gr_ok r then opt_text (gr_text r) else None))"

definition text_field :: "ydict \<Rightarrow> string \<Rightarrow> string option" where
  "text_field m k = (case get_or_none m k of YStr s \<Rightarrow> opt_text s | _ \<Rightarrow> None)"

text \<open>\<open>gh\<close> documents one object with a state and the merge commit, whose fields are strings or null.\<close>

definition pr_merge_state :: "'r git_env \<Rightarrow> string \<Rightarrow> ('r, string option \<times> string option) git_m" where
  "pr_merge_state env url =
     bind_m (gh env [''pr'', ''view'', url, ''--json'', ''state,mergeCommit'']) (\<lambda>r.
     ret (if \<not> gr_ok r then (None, None)
          else (case ge_json env (if gr_stdout r = [] then ''{}'' else gr_stdout r) of
                  Some (YMap m) \<Rightarrow>
                    (text_field m ''state'', (case get_or_none m ''mergeCommit'' of YMap c \<Rightarrow> text_field c ''oid'' | _ \<Rightarrow> None))
                | _ \<Rightarrow> (None, None))))"

definition row_text :: "yval \<Rightarrow> string \<Rightarrow> string" where
  "row_text v k = (case v of YMap m \<Rightarrow> (case text_field m k of None \<Rightarrow> [] | Some s \<Rightarrow> s) | _ \<Rightarrow> [])"

text \<open>The most recently updated open pull request of this head and base.\<close>

definition find_open_pr :: "'r git_env \<Rightarrow> string \<Rightarrow> ('r, string option) git_m" where
  "find_open_pr env branch =
     bind_m (gh env [''pr'', ''list'', ''--head'', branch, ''--base'', ge_pr_base env, ''--state'', ''open'', ''--json'', ''url,updatedAt'']) (\<lambda>r.
     ret (if \<not> gr_ok r then None
          else (case ge_json env (if gr_stdout r = [] then ''[]'' else gr_stdout r) of
                  Some (YList rows) \<Rightarrow>
                    (case rev (sort_key (\<lambda>v. row_text v ''updatedAt'') (rev rows)) of
                       [] \<Rightarrow> None
                     | newest # _ \<Rightarrow> opt_text (row_text newest ''url''))
                | _ \<Rightarrow> None)))"

text \<open>
  The body of a reused pull request: one section per task of the chain, found again by its marker, bounded
  by compacting the oldest sections first, in a pass that keeps the follow-ups and one that does not.
\<close>

definition PR_BODY_MAX_CHARS :: nat where "PR_BODY_MAX_CHARS = 60000"
definition TASK_MARKER_PREFIX :: string where "TASK_MARKER_PREFIX = ''<!-- worc-task:''"
definition SUMMARY_POINTER_PREFIX :: string where "SUMMARY_POINTER_PREFIX = ''<!-- worc-summary:''"
definition FOLLOW_UPS_HEADING :: string where "FOLLOW_UPS_HEADING = ''## Technical debt / follow-ups''"
definition blank_line :: string where "blank_line = [line_feed, line_feed]"
definition SECTION_SEPARATOR :: string where "SECTION_SEPARATOR = blank_line @ ''---'' @ blank_line"
definition marker_end :: string where "marker_end = ''-->''"

text \<open>\<open>text.partition(sep)\<close>, the tail none when the separator does not occur.\<close>

fun cut_at :: "string \<Rightarrow> string \<Rightarrow> string \<times> string option" where
  "cut_at sep [] = ([], None)"
| "cut_at sep (c # cs) =
     (if starts_with (c # cs) sep then ([], Some (drop (length sep) (c # cs)))
      else (case cut_at sep cs of (a, b) \<Rightarrow> (c # a, b)))"

definition or_empty :: "string option \<Rightarrow> string" where
  "or_empty v = (case v of None \<Rightarrow> [] | Some s \<Rightarrow> s)"

definition remove_prefix :: "string \<Rightarrow> string \<Rightarrow> string" where
  "remove_prefix p s = (if starts_with s p then drop (length p) s else s)"

definition remove_suffix :: "string \<Rightarrow> string \<Rightarrow> string" where
  "remove_suffix p s = (if ends_with s p \<and> p \<noteq> [] then take (length s - length p) s else s)"

definition py_rstrip :: "string \<Rightarrow> string" where
  "py_rstrip s = rev (dropWhile py_space (rev s))"

text \<open>\<open>re.split\<close> at each separator that a task marker follows.\<close>

function split_sections :: "string \<Rightarrow> string list" where
  "split_sections [] = [[]]"
| "split_sections (c # cs) =
     (if starts_with (c # cs) (SECTION_SEPARATOR @ TASK_MARKER_PREFIX)
      then [] # split_sections (drop (length SECTION_SEPARATOR) (c # cs))
      else (case split_sections cs of [] \<Rightarrow> [[c]] | y # ys \<Rightarrow> (c # y) # ys))"
  by pat_completeness auto
termination
  by (relation "measure length") (auto simp: SECTION_SEPARATOR_def blank_line_def)

definition marker_block_of :: "string \<Rightarrow> string" where
  "marker_block_of section_text = fst (cut_at blank_line section_text)"

definition title_line_of :: "string \<Rightarrow> string" where
  "title_line_of section_text = fst (cut_at blank_line (or_empty (snd (cut_at blank_line section_text))))"

definition summary_of :: "string \<Rightarrow> string" where
  "summary_of section_text = or_empty (snd (cut_at blank_line (or_empty (snd (cut_at blank_line section_text)))))"

definition summary_pointer :: "string \<Rightarrow> string" where
  "summary_pointer marker_block =
     (case List.find (\<lambda>l. starts_with l SUMMARY_POINTER_PREFIX) (map line_text (split_lines marker_block)) of
        None \<Rightarrow> []
      | Some l \<Rightarrow> py_strip (remove_suffix marker_end (remove_prefix SUMMARY_POINTER_PREFIX l)))"

definition compact_pr_section :: "bool \<Rightarrow> string \<Rightarrow> string" where
  "compact_pr_section keep_follow_ups section_text =
     (let marker_block = marker_block_of section_text; title = title_line_of section_text; summary = summary_of section_text;
          tid = remove_suffix marker_end (remove_prefix TASK_MARKER_PREFIX (hd (split_on line_feed marker_block)));
          committed = summary_pointer marker_block;
          follow_ups = (if \<not> keep_follow_ups then []
             else case snd (cut_at FOLLOW_UPS_HEADING summary) of
                    None \<Rightarrow> []
                  | Some rest \<Rightarrow> [line_feed] @ FOLLOW_UPS_HEADING @ py_rstrip rest @ [line_feed]);
          what = (if follow_ups \<noteq> [] then ''Summary prose'' else ''Summary'');
          kept = (if follow_ups \<noteq> [] then '' the follow-ups below are complete;'' else []);
          place = (if committed \<noteq> [] then ''the full text is committed in this PR at `'' @ committed @ ''`''
                   else ''the full text stays on the run host at `.worc/logs/'' @ py_strip tid @ ''/summary.md` (not in the repository)'')
      in marker_block @ blank_line @ title @ blank_line @ ''_'' @ what @ '' elided to keep the PR body under GitHub'' @ [CHR 0x27] @
         ''s limit;'' @ kept @ '' '' @ place @ ''._'' @ [line_feed] @ follow_ups)"

fun compact_pass :: "bool \<Rightarrow> int \<Rightarrow> string list \<Rightarrow> int \<times> string list" where
  "compact_pass keep_follow_ups amount [] = (amount, [])"
| "compact_pass keep_follow_ups amount (s # ss) =
     (if amount \<le> int PR_BODY_MAX_CHARS then (amount, s # ss)
      else let c = compact_pr_section keep_follow_ups s;
               (amount', ss') = compact_pass keep_follow_ups (amount - (int (length s) - int (length c))) ss
           in (amount', c # ss'))"

definition join_sections :: "string list \<Rightarrow> string" where
  "join_sections parts = (case parts of [] \<Rightarrow> [] | p # ps \<Rightarrow> p @ concat (map (\<lambda>s. SECTION_SEPARATOR @ s) ps))"

definition bound_pr_body :: "string \<Rightarrow> string" where
  "bound_pr_body body =
     (if length body \<le> PR_BODY_MAX_CHARS then body
      else case split_sections body of
             head # s # ss \<Rightarrow>
               (let amount = int (length head) + sum_list (map (\<lambda>x. int (length SECTION_SEPARATOR) + int (length x)) (s # ss));
                    (amount1, once) = compact_pass True amount (s # ss);
                    (amount2, twice) = compact_pass False amount1 once
                in join_sections (head # twice))
           | _ \<Rightarrow> body)"

fun count_sub :: "string \<Rightarrow> string \<Rightarrow> nat" where
  "count_sub t [] = 0"
| "count_sub t (c # cs) = (if starts_with (c # cs) t then 1 else 0) + count_sub t cs"

text \<open>The annotated copy of the body; the original when it cannot be read.\<close>

definition annotated_body :: "'r git_env \<Rightarrow> string \<Rightarrow> string \<Rightarrow> string option \<Rightarrow> string option \<Rightarrow> ('r, string) git_m" where
  "annotated_body env tid body_path notice references_block =
     bind_m (ask (\<lambda>w. if body_path = [] then Some [] else ge_read_text env body_path (gw_repo w))) (\<lambda>original.
     (case original of
        None \<Rightarrow> ret body_path
      | Some text \<Rightarrow>
          (let noted = (if or_empty notice \<noteq> [] then or_empty notice @ blank_line @ text else text);
               annotated = (if or_empty references_block \<noteq> []
                 then py_rstrip noted @ blank_line @ or_empty references_block @ [line_feed] else noted);
               dest = ge_task_dir env tid @ ''/pr-body.md''
           in bind_m (change (gw_repo_update (ge_write_text env dest annotated))) (\<lambda>_. ret dest))))"

definition pr_body :: "'r git_env \<Rightarrow> string \<Rightarrow> ('r, string option) git_m" where
  "pr_body env url =
     bind_m (gh env [''pr'', ''view'', url, ''--json'', ''body'', ''-q'', ''.body'']) (\<lambda>r.
     ret (if gr_ok r then Some (rev (dropWhile (\<lambda>c. c = line_feed) (rev (gr_stdout r)))) else None))"

definition append_reused_pr_body :: "'r git_env \<Rightarrow> string \<Rightarrow> string \<Rightarrow> string \<Rightarrow> string \<Rightarrow> string \<Rightarrow> ('r, unit) git_m" where
  "append_reused_pr_body env tid url branch title body_path =
     (let marker = TASK_MARKER_PREFIX @ tid @ '' '' @ marker_end
      in bind_m (pr_body env url) (\<lambda>current.
         (case current of
            None \<Rightarrow> ret ()
          | Some text \<Rightarrow>
              if contains_sub text marker then ret ()
              else bind_m (ask (\<lambda>w. py_strip (or_empty (ge_read_text env body_path (gw_repo w))))) (\<lambda>summary.
                   (let block = (case ge_repo_relative env body_path of
                          None \<Rightarrow> marker | Some p \<Rightarrow> marker @ [line_feed] @ SUMMARY_POINTER_PREFIX @ '' '' @ p @ '' '' @ marker_end);
                        whole = py_rstrip text @ SECTION_SEPARATOR @ block @ blank_line @ ''## '' @ title @ blank_line @ summary @ [line_feed];
                        chain_title = show_nat (count_sub TASK_MARKER_PREFIX whole + 1) @ '' tasks on '' @ branch;
                        file = ge_task_dir env tid @ ''/pr_body_appended.md''
                    in bind_m (change (gw_repo_update (ge_write_text env file (bound_pr_body whole)))) (\<lambda>_.
                       bind_m (gh env [''pr'', ''edit'', url, ''--title'', chain_title, ''--body-file'', file]) (\<lambda>_. ret ())))))))"

definition create_pr ::
    "'r git_env \<Rightarrow> string \<Rightarrow> string \<Rightarrow> string \<Rightarrow> string \<Rightarrow> string option \<Rightarrow> string option \<Rightarrow> ('r, string option) git_m" where
  "create_pr env tid branch title body_path notice references_block =
     (if \<not> ge_create_pr env \<or> branch = ge_pr_base env then ret None
      else bind_m (read_db (completed_op tid KIND_PR None)) (\<lambda>finished.
           (case finished of
              Some p \<Rightarrow> ret (pb_result_ref p)
            | None \<Rightarrow>
                bind_m (if or_empty notice \<noteq> [] \<or> or_empty references_block \<noteq> []
                        then annotated_body env tid body_path notice references_block else ret body_path) (\<lambda>body.
                bind_m (find_open_pr env branch) (\<lambda>reused.
                (case reused of
                   Some url \<Rightarrow>
                     bind_m (append_reused_pr_body env tid url branch title body) (\<lambda>_.
                     bind_m (record_completed env tid KIND_PR branch url None None) (\<lambda>_. ret (Some url)))
                 | None \<Rightarrow>
                     bind_m (record_op env (publish_of tid KIND_PR None branch STATUS_STARTED None None)) (\<lambda>_.
                     bind_m (gh env [''pr'', ''create'', ''--base'', ge_pr_base env, ''--head'', branch, ''--title'', title,
                               ''--body-file'', body]) (\<lambda>r.
                     if \<not> gr_ok r then raise (GitCommandError (''gh pr create failed: '' @ py_strip (gr_stderr r)))
                     else (let url = (case split_lines (gr_text r) of [] \<Rightarrow> [] | ls \<Rightarrow> line_text (last ls))
                           in bind_m (record_completed env tid KIND_PR branch url None None) (\<lambda>_. ret (Some url)))))))))))"

section \<open>Merging\<close>

definition ALREADY_MERGED_MARKERS :: "string list" where
  "ALREADY_MERGED_MARKERS = [''already merged'', ''already been merged'', ''not open'', ''was merged'']"

definition merge_commit_sha :: "'r git_env \<Rightarrow> string \<Rightarrow> ('r, string option) git_m" where
  "merge_commit_sha env url =
     bind_m (gh env [''pr'', ''view'', url, ''--json'', ''mergeCommit'', ''-q'', ''.mergeCommit.oid'']) (\<lambda>r.
     ret (if gr_ok r then opt_text (gr_text r) else None))"

definition merge_pr_args :: "string \<Rightarrow> merge_strategy \<Rightarrow> bool \<Rightarrow> string option \<Rightarrow> string option \<Rightarrow> string list" where
  "merge_pr_args url strategy wait_for_checks subject body =
     [''pr'', ''merge'', url, ''--'' @ merge_strategy_value strategy] @
     (case subject of
        None \<Rightarrow> []
      | Some s \<Rightarrow> if strategy = REBASE then [] else [''--subject'', s, ''--body'', (case body of None \<Rightarrow> [] | Some b \<Rightarrow> b)]) @
     (if wait_for_checks then [''--auto''] else [])"

definition merge_pr ::
    "'r git_env \<Rightarrow> string \<Rightarrow> string \<Rightarrow> merge_strategy \<Rightarrow> bool \<Rightarrow> string option \<Rightarrow> string option \<Rightarrow> ('r, string option) git_m" where
  "merge_pr env tid url strategy wait_for_checks subject body =
     (if url = [] then ret None
      else bind_m (read_db (completed_op tid KIND_PR_MERGE None)) (\<lambda>finished.
           (case finished of
              Some p \<Rightarrow> ret (pb_result_ref p)
            | None \<Rightarrow>
                bind_m (record_op env (publish_of tid KIND_PR_MERGE None url STATUS_STARTED None None)) (\<lambda>_.
                bind_m (gh env (merge_pr_args url strategy wait_for_checks subject body)) (\<lambda>r.
                if \<not> gr_ok r
                then (if list_ex (contains_sub (py_lower (gr_stderr r @ [line_feed] @ gr_stdout r))) ALREADY_MERGED_MARKERS
                      then bind_m (record_completed env tid KIND_PR_MERGE url ''merged'' None None) (\<lambda>_. ret (Some ''merged''))
                      else raise (GitCommandError (''gh pr merge failed: '' @ py_strip (gr_stderr r))))
                else bind_m (if wait_for_checks then ret (Some ''armed'') else merge_commit_sha env url) (\<lambda>sha.
                     (let outcome = (case sha of None \<Rightarrow> ''merged'' | Some s \<Rightarrow> s)
                      in bind_m (record_completed env tid KIND_PR_MERGE url outcome None None) (\<lambda>_. ret (Some outcome)))))))))"

definition record_external_merge :: "'r git_env \<Rightarrow> string \<Rightarrow> string \<Rightarrow> ('r, unit) git_m" where
  "record_external_merge env tid url =
     bind_m (read_db (completed_op tid KIND_PR_MERGE None)) (\<lambda>finished.
     if finished \<noteq> None then ret () else record_completed env tid KIND_PR_MERGE url ''merged'' None None)"

definition backfill_merge_sha :: "'r git_env \<Rightarrow> string \<Rightarrow> string \<Rightarrow> ('r, unit) git_m" where
  "backfill_merge_sha env tid sha =
     (if sha = [] then ret ()
      else bind_m (read_db (completed_op tid KIND_PR_MERGE None)) (\<lambda>finished.
           (case finished of
              None \<Rightarrow> ret ()
            | Some p \<Rightarrow> if pb_result_ref p = Some sha then ret ()
                        else record_completed env tid KIND_PR_MERGE (pb_fingerprint p) sha None None)))"

section \<open>The operator's base merge\<close>

definition update_branch_with_base :: "'r git_env \<Rightarrow> string \<Rightarrow> string \<Rightarrow> ('r, bool) git_m" where
  "update_branch_with_base env branch base =
     bind_m (assert_no_untrusted_filters env) (\<lambda>_.
     bind_m (git_checked env [''checkout'', branch]) (\<lambda>_.
     bind_m (git env [''fetch'', ''origin'']) (\<lambda>_.
     bind_m (git env [''merge'', ''--no-commit'', ''--no-edit'', ''origin/'' @ base]) (\<lambda>r.
     if gr_ok r then ret False
     else bind_m (merge_in_progress env) (\<lambda>conflicted.
          if conflicted then ret True
          else raise (GitCommandError (''git merge origin/'' @ base @ '' failed: '' @ py_strip (gr_stderr r))))))))"

definition conflicted_paths :: "'r git_env \<Rightarrow> ('r, conflicted_path list) git_m" where
  "conflicted_paths env =
     bind_m (git_checked env [''ls-files'', ''-u'', ''-z'']) (\<lambda>raw.
     bind_m (ask gw_repo) (\<lambda>repo. ret (conflicted_entries (\<lambda>p. ge_probe env p repo) raw)))"

section \<open>Terminal cleanup\<close>

record cleanup_outcome =
  co_safe :: bool
  co_target_branch :: string
  co_error :: "string option"

definition returns_to_base :: "'r git_env \<Rightarrow> branch_mode \<Rightarrow> bool" where
  "returns_to_base env mode =
     (if mode = BM_CURRENT then False else case ge_checkout_base env of None \<Rightarrow> mode = BM_NEW | Some b \<Rightarrow> b)"

definition stay_on_branch :: "'r git_env \<Rightarrow> ('r, cleanup_outcome) git_m" where
  "stay_on_branch env =
     bind_m (current_branch env) (\<lambda>cur.
     bind_m (change (gw_active_update (\<lambda>_. None))) (\<lambda>_.
     ret \<lparr>co_safe = True, co_target_branch = (case cur of None \<Rightarrow> ge_base_branch env | Some b \<Rightarrow> b), co_error = None\<rparr>))"

definition unsafe_cleanup :: "'r git_env \<Rightarrow> string \<Rightarrow> cleanup_outcome" where
  "unsafe_cleanup env why = \<lparr>co_safe = False, co_target_branch = ge_base_branch env, co_error = Some why\<rparr>"

definition comma_list :: "string list \<Rightarrow> string" where
  "comma_list xs = concat (case xs of [] \<Rightarrow> [] | y # ys \<Rightarrow> y # map (\<lambda>s. '', '' @ s) ys)"

definition terminal_cleanup :: "'r git_env \<Rightarrow> branch_mode \<Rightarrow> bool \<Rightarrow> ('r, cleanup_outcome) git_m" where
  "terminal_cleanup env mode preserve_own_wip =
     (if \<not> returns_to_base env mode then stay_on_branch env
      else bind_m (unaccounted_dirty_paths env) (\<lambda>dirty.
           if dirty \<noteq> [] \<and> preserve_own_wip then stay_on_branch env
           else if dirty \<noteq> [] then ret (unsafe_cleanup env (''working tree has unaccounted changes: '' @ comma_list dirty))
           else bind_m (untrusted_config_programs env) (\<lambda>ps.
                if ps \<noteq> [] then ret (unsafe_cleanup env (''untrusted program-launching driver: '' @ comma_list (sorted_set ps)))
                else bind_m (git env [''checkout'', ge_base_branch env]) (\<lambda>r.
                     if \<not> gr_ok r then ret (unsafe_cleanup env (''checkout failed: '' @ py_strip (gr_stderr r)))
                     else bind_m (change (gw_active_update (\<lambda>_. None))) (\<lambda>_.
                          ret \<lparr>co_safe = True, co_target_branch = ge_base_branch env, co_error = None\<rparr>)))))"

end
