(* ===== verification/GitCommands.thy ===== *)
theory GitCommands
  imports GitPublish
begin

text \<open>
  Which command lines the operations of the git manager launch.  \<open>issues_at P m w\<close> says that every process
  \<open>m\<close> starts from the world \<open>w\<close>, whatever the programs answer, satisfies \<open>P\<close>; it composes along the code.
\<close>

section \<open>Commands an operation issues\<close>

definition issues_at :: "(string list \<Rightarrow> bool) \<Rightarrow> ('r, 'a) git_m \<Rightarrow> 'r git_world \<Rightarrow> bool" where
  "issues_at P m w = (\<exists>cs. gw_calls (snd (m w)) = gw_calls w @ cs \<and> list_all P cs)"

definition issues :: "(string list \<Rightarrow> bool) \<Rightarrow> ('r, 'a) git_m \<Rightarrow> bool" where
  "issues P m = (\<forall>w. issues_at P m w)"

named_theorems issue_rules "operations issue only commands of a kind"

lemma issues_at_bind:
  assumes "issues_at P m w" and "\<And>x w'. m w = (Inr x, w') \<Longrightarrow> issues_at P (f x) w'"
  shows "issues_at P (bind_m m f) w"
proof -
  obtain cs where cs: "gw_calls (snd (m w)) = gw_calls w @ cs" "list_all P cs"
    using assms(1) by (auto simp: issues_at_def)
  show ?thesis
  proof (cases "m w")
    case (Pair r w')
    show ?thesis
    proof (cases r)
      case (Inl e)
      with Pair cs show ?thesis by (auto simp: issues_at_def bind_m_def)
    next
      case (Inr x)
      with assms(2) Pair obtain ds where "gw_calls (snd (f x w')) = gw_calls w' @ ds" "list_all P ds"
        by (auto simp: issues_at_def)
      with cs Pair Inr show ?thesis by (auto simp: issues_at_def bind_m_def)
    qed
  qed
qed

lemma issues_bind [issue_rules]: "issues P m \<Longrightarrow> (\<And>x. issues P (f x)) \<Longrightarrow> issues P (bind_m m f)"
  by (auto simp: issues_def intro: issues_at_bind)

lemma issues_catch [issue_rules]: "issues P m \<Longrightarrow> (\<And>e. issues P (h e)) \<Longrightarrow> issues P (catch_m m h)"
  unfolding issues_def
proof (intro allI)
  fix w
  assume m: "\<forall>w. issues_at P m w" and h: "\<And>e. \<forall>w. issues_at P (h e) w"
  from m obtain cs where cs: "gw_calls (snd (m w)) = gw_calls w @ cs" "list_all P cs"
    by (auto simp: issues_at_def)
  show "issues_at P (catch_m m h) w"
  proof (cases "m w")
    case (Pair r w')
    show ?thesis
    proof (cases r)
      case (Inl e)
      from h [of e] obtain ds where "gw_calls (snd (h e w')) = gw_calls w' @ ds" "list_all P ds"
        by (auto simp: issues_at_def)
      with cs Pair Inl show ?thesis by (auto simp: issues_at_def catch_m_def)
    next
      case (Inr x)
      with Pair cs show ?thesis by (auto simp: issues_at_def catch_m_def)
    qed
  qed
qed

lemma issues_leaf [issue_rules]:
  "issues P (ret x)" "issues P (raise e)" "issues P (ask g)" "issues P (read_db r)" "issues P (write_db u)" "issues P (record_op env p)"
  by (auto simp: issues_def issues_at_def ret_def raise_def ask_def read_db_def write_db_def change_def record_op_def split: sum.splits)

lemma issues_change [issue_rules]: "(\<And>w. gw_calls (g w) = gw_calls w) \<Longrightarrow> issues P (change g)"
  by (simp add: issues_def issues_at_def change_def)

lemma issues_run [issue_rules]: "P argv \<Longrightarrow> issues P (run_cmd env argv)"
  by (auto simp: issues_def issues_at_def run_cmd_def split: prod.splits)

lemma issues_git [issue_rules]: "P (''git'' # args) \<Longrightarrow> issues P (git env args)"
  by (simp add: git_def issues_run)

lemma issues_if [issue_rules]: "(b \<Longrightarrow> issues P m) \<Longrightarrow> (\<not> b \<Longrightarrow> issues P n) \<Longrightarrow> issues P (if b then m else n)"
  by simp

lemma issues_option [issue_rules]:
  "(v = None \<Longrightarrow> issues P m) \<Longrightarrow> (\<And>x. v = Some x \<Longrightarrow> issues P (f x)) \<Longrightarrow> issues P (case v of None \<Rightarrow> m | Some x \<Rightarrow> f x)"
  by (cases v) simp_all

lemma issues_list [issue_rules]:
  "(v = [] \<Longrightarrow> issues P m) \<Longrightarrow> (\<And>x xs. v = x # xs \<Longrightarrow> issues P (f x xs)) \<Longrightarrow> issues P (case v of [] \<Rightarrow> m | x # xs \<Rightarrow> f x xs)"
  by (cases v) simp_all

lemma issues_pair [issue_rules]: "(\<And>a b. v = (a, b) \<Longrightarrow> issues P (f a b)) \<Longrightarrow> issues P (case v of (a, b) \<Rightarrow> f a b)"
  by (cases v) simp

lemma issues_let [issue_rules]: "issues P (f x) \<Longrightarrow> issues P (Let x f)"
  by (simp add: Let_def)

lemma issues_when [issue_rules]: "issues P m \<Longrightarrow> issues P (when_m b m)"
  by (simp add: when_m_def issues_leaf)

lemma issues_retrying: "issues P m \<Longrightarrow> issues P (retrying n m)"
  by (induction n) (auto intro!: issue_rules)

lemma issues_checked [issue_rules]: "P (''git'' # args) \<Longrightarrow> issues P (git_checked env args)"
  unfolding git_checked_def by (intro issue_rules)

lemma issues_retryable [issue_rules]: "P (''git'' # args) \<Longrightarrow> issues P (git_checked_retryable env args)"
  unfolding git_checked_retryable_def by (intro issues_retrying issues_checked)

lemma issues_mono: "issues P m \<Longrightarrow> (\<And>argv. P argv \<Longrightarrow> Q argv) \<Longrightarrow> issues Q m"
  unfolding issues_def issues_at_def by (meson list.pred_mono_strong)

section \<open>Gentle commands\<close>

text \<open>
  The options of a \<open>gh\<close> command line: the word after an option that takes a value is not one.  A refspec that
  starts with a plus or holds a colon, and a word that starts with a dash, mean something else to git than
  the branch of that name.
\<close>

definition GH_VALUED :: "string list" where
  "GH_VALUED = [''--subject'', ''--body'', ''--title'', ''--body-file'', ''--repo'', ''--json'', ''-q'', ''--head'', ''--base'', ''--state'']"

fun gh_options :: "string list \<Rightarrow> string list" where
  "gh_options [] = []"
| "gh_options [a] = [a]"
| "gh_options (a # b # rest) = (if a \<in> set GH_VALUED then a # gh_options rest else a # gh_options (b # rest))"

definition plain_ref :: "string \<Rightarrow> bool" where
  "plain_ref b = (b \<noteq> [] \<and> hd b \<noteq> CHR ''-'' \<and> hd b \<noteq> CHR ''+'' \<and> CHR '':'' \<notin> set b)"

definition PROBES :: "string list" where
  "PROBES = [''config'', ''rev-parse'', ''rev-list'', ''ls-remote'', ''ls-files'', ''merge-base'', ''remote'', ''status'', ''diff'', ''check-ignore'', ''fetch'']"

text \<open>
  Nothing is forced: probes, fetches, fast-forward pulls, checkouts of a plain name, merges that do not commit
  by themselves, staging, commits with a message, and pushes of one plain branch.
\<close>

definition gentle_git :: "string list \<Rightarrow> bool" where
  "gentle_git args =
     (case args of
        [] \<Rightarrow> False
      | sub # rest \<Rightarrow>
          sub \<in> set PROBES \<or> args = [''pull'', ''--ff-only''] \<or> args = [''merge'', ''--abort''] \<or>
          (\<exists>b. args = [''merge'', ''--no-commit'', ''--no-edit'', ''origin/'' @ b]) \<or>
          (\<exists>b. plain_ref b \<and> (args = [''checkout'', b] \<or> args = [''checkout'', ''-b'', b] \<or>
             args = [''checkout'', ''-b'', b, ''origin/'' @ b])) \<or>
          sub = ''add'' \<or> (\<exists>msg. args = [''commit'', ''-m'', msg]) \<or>
          (\<exists>b. plain_ref b \<and> (args = [''push'', ''--set-upstream'', ''origin'', b] \<or> args = [''push'', ''origin'', b])))"

definition gentle_gh :: "string list \<Rightarrow> bool" where
  "gentle_gh args =
     (take 2 args \<in> set [[''pr'', ''view''], [''pr'', ''list''], [''pr'', ''create''], [''pr'', ''edit''], [''pr'', ''merge'']] \<and>
      ''--admin'' \<notin> set (gh_options (drop 2 args)))"

definition gentle :: "string list \<Rightarrow> bool" where
  "gentle argv =
     (case argv of [] \<Rightarrow> False | program # args \<Rightarrow>
        (program = ''git'' \<and> gentle_git args) \<or> (program = ''gh'' \<and> gentle_gh args))"

lemma gentle_probe [issue_rules]: "sub \<in> set PROBES \<Longrightarrow> gentle (''git'' # sub # rest)"
  by (simp add: gentle_def gentle_git_def)

lemma gentle_shapes [issue_rules]:
  "gentle [''git'', ''pull'', ''--ff-only'']" "gentle [''git'', ''merge'', ''--abort'']"
  "gentle [''git'', ''merge'', ''--no-commit'', ''--no-edit'', ''origin/'' @ b]"
  "gentle (''git'' # ''add'' # paths)" "gentle [''git'', ''commit'', ''-m'', msg]"
  "plain_ref b \<Longrightarrow> gentle [''git'', ''checkout'', b]" "plain_ref b \<Longrightarrow> gentle [''git'', ''checkout'', ''-b'', b]"
  "plain_ref b \<Longrightarrow> gentle [''git'', ''checkout'', ''-b'', b, ''origin/'' @ b]"
  "plain_ref b \<Longrightarrow> gentle [''git'', ''push'', ''--set-upstream'', ''origin'', b]"
  "plain_ref b \<Longrightarrow> gentle [''git'', ''push'', ''origin'', b]"
  by (simp_all add: gentle_def gentle_git_def)


section \<open>Every operation is gentle\<close>

definition plain_word :: "string \<Rightarrow> bool" where
  "plain_word s = (take 1 s \<noteq> ''-'')"

lemma plain_word_valued: "plain_word s \<Longrightarrow> s \<notin> set GH_VALUED \<and> s \<noteq> ''--admin''"
  by (auto simp: plain_word_def GH_VALUED_def)

lemma gh_options_pin: "''--admin'' \<notin> set (gh_options (case pin of None \<Rightarrow> [] | Some slug \<Rightarrow> [''--repo'', slug]))"
  by (cases pin) (simp_all add: GH_VALUED_def)

lemma gh_options_word:
  "a \<notin> set GH_VALUED \<Longrightarrow> ''--admin'' \<in> set (gh_options (a # rest)) \<longleftrightarrow> a = ''--admin'' \<or> ''--admin'' \<in> set (gh_options rest)"
  by (cases rest) auto

lemma gh_options_valued: "a \<in> set GH_VALUED \<Longrightarrow> gh_options (a # b # rest) = a # gh_options rest"
  by simp

lemma issues_gh:
  assumes "take 2 args \<in> set [[''pr'', ''view''], [''pr'', ''list''], [''pr'', ''create''], [''pr'', ''edit''], [''pr'', ''merge'']]"
    and "''--admin'' \<notin> set (gh_options (drop 2 args @ (case ge_repo_pin env of None \<Rightarrow> [] | Some slug \<Rightarrow> [''--repo'', slug])))"
  shows "issues gentle (gh env args)"
proof -
  have "length args \<ge> 2" using assms(1) by (auto simp: take_Suc_conv_app_nth split: if_splits intro: ccontr)
  with assms show ?thesis
    unfolding gh_def by (intro issues_run) (simp add: gentle_def gentle_gh_def)
qed


lemma valued_words:
  "''--subject'' \<in> set GH_VALUED" "''--body'' \<in> set GH_VALUED" "''--title'' \<in> set GH_VALUED" "''--body-file'' \<in> set GH_VALUED"
  "''--json'' \<in> set GH_VALUED" "''-q'' \<in> set GH_VALUED" "''--head'' \<in> set GH_VALUED" "''--base'' \<in> set GH_VALUED"
  "''--state'' \<in> set GH_VALUED" "''--auto'' \<notin> set GH_VALUED" "''--merge'' \<notin> set GH_VALUED" "''--squash'' \<notin> set GH_VALUED"
  "''--rebase'' \<notin> set GH_VALUED"
  by (simp_all add: GH_VALUED_def)

lemmas gh_option_rules = gh_options_word gh_options_valued gh_options_pin valued_words

declare gh_options.simps [simp del]

lemma issues_gh_calls [issue_rules]:
  "plain_word url \<Longrightarrow> issues gentle (gh env [''pr'', ''view'', url, ''--json'', f])"
  "plain_word url \<Longrightarrow> issues gentle (gh env [''pr'', ''view'', url, ''--json'', f, ''-q'', q])"
  "issues gentle (gh env [''pr'', ''list'', ''--head'', b, ''--base'', c, ''--state'', t, ''--json'', f])"
  "plain_word url \<Longrightarrow> issues gentle (gh env [''pr'', ''edit'', url, ''--title'', t, ''--body-file'', f])"
  "issues gentle (gh env [''pr'', ''create'', ''--base'', b, ''--head'', h, ''--title'', t, ''--body-file'', f])"
  by (rule issues_gh; simp add: gh_option_rules plain_word_valued)+

lemma issues_merge_call [issue_rules]:
  "plain_word url \<Longrightarrow> issues gentle (gh env (merge_pr_args url strategy wait_for_checks subject body))"
proof (rule issues_gh)
  assume "plain_word url"
  then show "''--admin'' \<notin> set (gh_options (drop 2 (merge_pr_args url strategy wait_for_checks subject body) @
      (case ge_repo_pin env of None \<Rightarrow> [] | Some slug \<Rightarrow> [''--repo'', slug])))"
    unfolding merge_pr_args_def
    by (cases strategy; cases subject; cases wait_for_checks; simp add: gh_option_rules plain_word_valued)
qed (simp add: merge_pr_args_def)

lemma issues_pr_probes [issue_rules]:
  "plain_word url \<Longrightarrow> issues gentle (verify_pr_state env url)"
  "plain_word url \<Longrightarrow> issues gentle (pr_merge_state env url)"
  "plain_word url \<Longrightarrow> issues gentle (merge_commit_sha env url)"
  "plain_word url \<Longrightarrow> issues gentle (pr_body env url)"
  "issues gentle (find_open_pr env branch)"
  unfolding verify_pr_state_def pr_merge_state_def merge_commit_sha_def pr_body_def find_open_pr_def
  by (intro issues_bind issues_leaf issues_gh_calls; assumption)+

lemma issues_probes [issue_rules]:
  "issues gentle (untrusted_config_programs env)" "issues gentle (assert_no_untrusted_filters env)"
  "issues gentle (head_sha env)" "issues gentle (current_branch env)" "issues gentle (branch_exists env b)"
  "issues gentle (local_branch_sha env b)" "issues gentle (remote_head env b)" "issues gentle (remote_branch_exists env b)"
  "issues gentle (local_or_remote_branch_exists env b)" "issues gentle (commit_on_branch env sha b)"
  "issues gentle (merge_in_progress env)" "issues gentle (merge_abort env)" "issues gentle (push_url_digest env)"
  unfolding untrusted_config_programs_def assert_no_untrusted_filters_def head_sha_def current_branch_def branch_exists_def
    local_branch_sha_def remote_head_def remote_branch_exists_def local_or_remote_branch_exists_def commit_on_branch_def
    merge_in_progress_def merge_abort_def push_url_digest_def
  by (intro issue_rules; simp add: PROBES_def)+


lemma issues_store [issue_rules]:
  "issues P (diff_base env)" "issues P (gate_reference env tid)" "issues P (set_active tid slug b)"
  "issues P (advance_gate_reference env kd tid sha)" "issues P (record_completed env tid kd fp ref pushed order)"
  "issues P (record_audit_op env tid audit)" "issues P (set_private_report_dir subdir base)"
  "issues P (assert_lifecycle_matches_packet env tid stageable packet)"
proof -
  show base: "issues P (diff_base env)"
    by (auto simp: issues_def issues_at_def diff_base_def Let_def split: option.splits)
  show "issues P (gate_reference env tid)" unfolding gate_reference_def by (intro issue_rules base)
  show "issues P (set_active tid slug b)" unfolding set_active_def by (intro issue_rules) simp
  show adv: "issues P (advance_gate_reference env kd tid sha)" for kd sha unfolding advance_gate_reference_def by (intro issue_rules)
  show "issues P (record_completed env tid kd fp ref pushed order)" unfolding record_completed_def by (intro issue_rules adv)
  show "issues P (record_audit_op env tid audit)" unfolding record_audit_op_def by (intro issue_rules)
  show "issues P (set_private_report_dir subdir base)" unfolding set_private_report_dir_def by (intro issue_rules) simp
  show "issues P (assert_lifecycle_matches_packet env tid stageable packet)"
    unfolding assert_lifecycle_matches_packet_def by (intro issue_rules)
qed

lemma issues_changed [issue_rules]:
  "issues gentle (changed_code_paths env)" "issues gentle (unaccounted_dirty_paths env)" "issues gentle (untracked_paths env)"
  "issues gentle (tasks_dir_ignored env)" "issues gentle (fully_staged_deletions env)" "issues gentle (set_base_from_head env)"
  "issues gentle (assert_index_clean_at_start env)" "issues gentle (assert_exchange_never_staged env)"
  unfolding changed_code_paths_def unaccounted_dirty_paths_def untracked_paths_def tasks_dir_ignored_def fully_staged_deletions_def
    set_base_from_head_def assert_index_clean_at_start_def assert_exchange_never_staged_def append_Cons append_Nil
  by (intro issue_rules; simp add: PROBES_def)+

lemma issues_not_ignored: "issues gentle (not_ignored env ds)"
proof (induction ds)
  case Nil
  show ?case by (simp add: issues_leaf)
next
  case (Cons d ds)
  show ?case unfolding not_ignored.simps by (intro issue_rules Cons.IH) (simp add: PROBES_def)
qed

lemma issues_staging [issue_rules]:
  "issues gentle (runtime_add_excludes env)" "issues gentle (assert_staged_allowed env allowed)" "issues gentle (staged_pathspec env paths)"
  unfolding runtime_add_excludes_def assert_staged_allowed_def staged_pathspec_def
  by (intro issue_rules issues_not_ignored; simp add: PROBES_def)+

lemma issues_commits [issue_rules]:
  "issues gentle (stage_and_commit env msg paths)" "issues gentle (commit_merge_resolution env tid msg)"
  "issues gentle (adopt_committed_head env tid kd order)"
  unfolding stage_and_commit_def commit_merge_resolution_def adopt_committed_head_def append_Cons append_Nil
  by (intro issue_rules; simp add: PROBES_def)+

lemma issues_commit_op [issue_rules]: "issues gentle (commit_op env tid kd order msg paths)"
  unfolding commit_op_def by (intro issue_rules)

lemma issues_code_commits [issue_rules]:
  "issues gentle (commit_code env tid msg)" "issues gentle (git_commit_subtask env tid n msg)"
  unfolding commit_code_def git_commit_subtask_def by (intro issue_rules)+

lemma issues_audit [issue_rules]:
  assumes "ge_audit_branch env = AUDIT_TASK"
  shows "issues gentle (commit_audit env tid packet)"
proof -
  have step: "issues gentle (audit_commit_step env tid paths)" for paths
    unfolding audit_commit_step_def append_Cons append_Nil by (intro issue_rules; simp add: PROBES_def)
  have stageable: "issues gentle (stageable_audit_paths env files)" for files
    unfolding stageable_audit_paths_def append_Cons append_Nil by (intro issue_rules; simp add: PROBES_def)
  have switch: "issues gentle (switch_audit_branch env b)" for b
    unfolding switch_audit_branch_def by (simp add: assms issues_leaf)
  show ?thesis unfolding commit_audit_def
    by (intro issue_rules step stageable switch; simp add: PROBES_def assms)
qed

lemma issues_branches [issue_rules]:
  assumes "plain_ref (ge_base_branch env)"
  shows "plain_ref (branch_name (ge_branch_prefix env) tid slug epoch override) \<Longrightarrow>
      issues gentle (prepare_new env tid slug epoch override)"
    and "(\<And>b. ref = Some b \<Longrightarrow> plain_ref b) \<Longrightarrow> issues gentle (prepare_existing env tid slug ref)"
    and "issues gentle (prepare_current env tid slug)" and "issues gentle (refresh_base env)"
    and "issues gentle (terminal_cleanup env mode wip)"
  unfolding prepare_new_def prepare_existing_def prepare_current_def refresh_base_def terminal_cleanup_def stay_on_branch_def
  using assms by (intro issue_rules; simp add: PROBES_def)+

end
