(* ===== verification/GitProps.thy ===== *)
theory GitProps
  imports GitCommands StoreProps
begin

text \<open>
  The properties of the git manager: what it launches, what a push may overwrite, that a publication step
  happens once, what the staging gate lets through, and the names of the branches it makes.
\<close>

section \<open>What is launched\<close>

lemma valid_branch_plain:
  assumes "is_valid_branch_name b" and "hd b \<noteq> CHR ''+''"
  shows "plain_ref b"
proof -
  from assms(1) have b: "b \<noteq> []" "\<not> starts_with b ''-''" "list_all (\<lambda>c. c \<notin> branch_forbidden_chars) b"
    by (auto simp: is_valid_branch_name_def list_all_iff list_ex_iff split: if_splits)
  then have "CHR '':'' \<notin> set b" by (auto simp: list_all_iff branch_forbidden_chars_def)
  moreover have "hd b \<noteq> CHR ''-''" using b(1,2) by (cases b) (auto simp: starts_with_def)
  ultimately show ?thesis using b(1) assms(2) by (simp add: plain_ref_def)
qed

lemma issues_stamps:
  "issues P (stamp_base_ref env tid)" "issues gentle (stamp_push_url env tid)"
proof -
  show "issues P (stamp_base_ref env tid)"
    unfolding stamp_base_ref_def
    by (intro issue_rules) (auto intro!: issue_rules split: option.splits list.splits)
  show "issues gentle (stamp_push_url env tid)"
    unfolding stamp_push_url_def by (intro issue_rules) simp
qed

definition branch_in_use :: "'r git_env \<Rightarrow> string \<Rightarrow> string \<Rightarrow> int \<Rightarrow> string option \<Rightarrow> branch_mode \<Rightarrow> string option \<Rightarrow> string" where
  "branch_in_use env tid slug epoch override mode ref =
     (case mode of BM_EXISTING \<Rightarrow> or_empty ref | _ \<Rightarrow> branch_name (ge_branch_prefix env) tid slug epoch override)"

lemma issues_prepare_branch:
  assumes "plain_ref (ge_base_branch env)"
    and "plain_ref (branch_in_use env tid slug epoch override mode ref)"
  shows "issues gentle (prepare_branch env tid slug epoch override mode ref)"
proof -
  have "issues gentle (case mode of BM_EXISTING \<Rightarrow> prepare_existing env tid slug ref
      | BM_CURRENT \<Rightarrow> prepare_current env tid slug | BM_NEW \<Rightarrow> prepare_new env tid slug epoch override)"
  proof (cases mode)
    case BM_EXISTING
    with assms(2) have "\<And>b. ref = Some b \<Longrightarrow> plain_ref b" by (simp add: branch_in_use_def or_empty_def)
    with BM_EXISTING show ?thesis using issues_branches(2) [OF assms(1)] by simp
  qed (use assms(2) issues_branches [OF assms(1)] in \<open>simp_all add: branch_in_use_def\<close>)
  then show ?thesis unfolding prepare_branch_def by (intro issue_rules issues_stamps)
qed

lemma issues_push_destination: "issues gentle (assert_push_destination_unchanged env tid)"
  unfolding assert_push_destination_unchanged_def by (intro issue_rules)

lemma issues_adopt:
  "issues gentle (already_published env tid branch)" "issues gentle (commits_only_on_remote env branch)"
  "issues gentle (adopt_remote_commits env tid branch)" "issues gentle (adopt_foreign_commits env tid branch)"
proof -
  show pub: "issues gentle (already_published env tid branch)"
    unfolding already_published_def by (intro issue_rules)
  show only: "issues gentle (commits_only_on_remote env branch)"
    unfolding commits_only_on_remote_def by (intro issue_rules) (simp add: PROBES_def)
  show adopt: "issues gentle (adopt_remote_commits env tid branch)"
    unfolding adopt_remote_commits_def by (intro issue_rules only; simp add: PROBES_def)
  have rest: "issues gentle (case (remote, local) of (Some (c # cs), Some l) \<Rightarrow> f c cs l | _ \<Rightarrow> ret [])"
    if "\<And>c cs l. issues gentle (f c cs l)" for remote local :: "string option" and f
    using that by (auto intro: issues_leaf split: option.splits list.splits)
  show "issues gentle (adopt_foreign_commits env tid branch)"
    unfolding adopt_foreign_commits_def by (intro issue_rules pub adopt rest)
qed


definition urls_plain :: "'r git_env \<Rightarrow> string \<Rightarrow> bool" where
  "urls_plain env branch = (\<forall>w w' url. find_open_pr env branch w = (Inr (Some url), w') \<longrightarrow> plain_word url)"

lemma issues_bind_from:
  assumes "issues P m" and "\<And>x w w'. m w = (Inr x, w') \<Longrightarrow> issues P (f x)"
  shows "issues P (bind_m m f)"
  using assms unfolding issues_def by (metis issues_at_bind)

lemma issues_create_pr:
  assumes "urls_plain env branch"
  shows "issues gentle (create_pr env tid branch title body notice refs)"
proof -
  have annotated: "issues gentle (annotated_body env tid body notice refs)"
    unfolding annotated_body_def Let_def by (intro issue_rules) simp
  have appended: "plain_word url \<Longrightarrow> issues gentle (append_reused_pr_body env tid url branch title b)" for url b
    unfolding append_reused_pr_body_def Let_def by (intro issue_rules) simp_all
  have opened: "issues gentle (bind_m (find_open_pr env branch) f)" if "\<And>r. (\<And>url. r = Some url \<Longrightarrow> plain_word url) \<Longrightarrow> issues gentle (f r)" for f :: "string option \<Rightarrow> _"
    using assms by (intro issues_bind_from issues_pr_probes that) (auto simp: urls_plain_def)
  show ?thesis unfolding create_pr_def
    by (intro issue_rules annotated opened appended) auto
qed



section \<open>What a push may overwrite\<close>

definition leased_push :: "string \<Rightarrow> string \<Rightarrow> string list" where
  "leased_push branch sha = [''git'', ''push'', ''--force-with-lease='' @ branch @ '':'' @ sha, ''--set-upstream'', ''origin'', branch]"

definition own_or_gentle :: "string \<Rightarrow> string option \<Rightarrow> string list \<Rightarrow> bool" where
  "own_or_gentle branch recorded argv = (gentle argv \<or> (\<exists>sha. recorded = Some sha \<and> argv = leased_push branch sha))"

lemma gentle_own: "issues gentle m \<Longrightarrow> issues (own_or_gentle branch recorded) m"
  by (erule issues_mono) (simp add: own_or_gentle_def)

lemma issues_send:
  assumes "plain_ref branch" and "lease = None \<or> lease = recorded"
  shows "issues (own_or_gentle branch recorded) (send_branch env tid branch kept lease)"
proof -
  have "own_or_gentle branch recorded (''git'' # ([''push''] @
      (case lease of None \<Rightarrow> [] | Some sha \<Rightarrow> [''--force-with-lease='' @ branch @ '':'' @ sha]) @ [''--set-upstream'', ''origin'', branch]))"
    using assms gentle_shapes(9) [of branch]
    by (cases lease) (auto simp: own_or_gentle_def leased_push_def)
  then show ?thesis unfolding send_branch_def
    by (intro issues_bind issue_rules gentle_own [OF issues_push_destination] gentle_own [OF issues_probes(6)])
qed

lemma push_way_leased: "push_way_of env branch recorded local remote w = (Inr (Leased sha), w') \<Longrightarrow> recorded = Some sha"
  by (auto simp: push_way_of_def ret_def bind_m_def commit_on_branch_def git_def run_cmd_def
      split: option.splits list.splits if_splits prod.splits)

lemma issues_push_way: "issues gentle (push_way_of env branch recorded local remote)"
proof -
  have rest: "issues gentle (case (remote, local) of (Some (c # cs), Some l) \<Rightarrow> f c cs l | _ \<Rightarrow> ret Ordinary)"
    if "\<And>c cs l. issues gentle (f c cs l)" for f
    using that by (auto intro: issues_leaf split: option.splits list.splits)
  show ?thesis unfolding push_way_of_def by (intro rest issue_rules)
qed


lemma issues_at_if_all: "issues P m \<Longrightarrow> issues_at P m w"
  by (simp add: issues_def)

text \<open>
  C38. A push can only ever overwrite the commit this orchestrator itself left on the remote.  Every process of
  a push is gentle, or is one push leased on the sha that the task's own push row records; a push to the
  base branch in \<open>new\<close> mode launches nothing at all.
\<close>

theorem push_overwrites_only_own:
  assumes "is_valid_branch_name branch" and "hd branch \<noteq> CHR ''+''"
  shows "issues_at (own_or_gentle branch (recorded_push_sha tid (gw_db w))) (push_branch env tid branch mode) w \<and>
    (branch = ge_base_branch env \<and> mode = BM_NEW \<longrightarrow> gw_calls (snd (push_branch env tid branch mode w)) = gw_calls w)"
proof -
  let ?r = "recorded_push_sha tid (gw_db w)"
  let ?P = "own_or_gentle branch ?r"
  have b: "plain_ref branch" using assms valid_branch_plain by blast
  have sent: "issues ?P (deliver env tid branch ?r way)" if "\<And>sha. way = Leased sha \<Longrightarrow> ?r = Some sha" for way
    using that unfolding deliver_def
    by (cases way) (auto intro!: issues_bind issues_leaf issues_store issues_send [OF b] gentle_own [OF issues_adopt(3)])
  have decided: "issues ?P (bind_m (push_way_of env branch ?r local remote) (deliver env tid branch ?r))" for local remote
    by (intro issues_bind_from gentle_own [OF issues_push_way] sent) (auto dest: push_way_leased)
  have "issues ?P (push_recorded env tid branch ?r)" unfolding push_recorded_def
    by (intro decided issues_bind gentle_own [OF issues_probes(6)] gentle_own [OF issues_adopt(1)] issues_if issues_leaf
        gentle_own [OF issues_probes(7)])
  then have "issues_at ?P (bind_m (read_db (recorded_push_sha tid)) (push_recorded env tid branch)) w"
    by (intro issues_at_bind issues_at_if_all issues_leaf) (auto simp: read_db_def ask_def issues_def)
  then have "issues_at ?P (push_branch env tid branch mode) w"
    unfolding push_branch_def by (auto simp: issues_at_if_all issues_leaf)
  then show ?thesis by (simp add: push_branch_def raise_def)
qed


section \<open>A concrete clone\<close>

text \<open>
  The answers of a clone whose remote branch holds \<open>r1\<close>, diverged from the local \<open>l1\<close>; the task has pushed
  \<open>r1\<close> before.  The state counts the processes.
\<close>

definition answer :: "int \<Rightarrow> string \<Rightarrow> git_result" where
  "answer code out = \<lparr>gr_exit = Some code, gr_stdout = out, gr_stderr = [], gr_timed_out = False, gr_launch_error = None\<rparr>"

definition demo_run :: "string list \<Rightarrow> nat \<Rightarrow> git_result \<times> nat" where
  "demo_run argv n =
     (if ''ls-remote'' \<in> set argv then answer 0 (''r1'' @ [horizontal_tab] @ ''refs/heads/work'' @ [line_feed])
      else if ''--is-ancestor'' \<in> set argv then answer 1 []
      else if ''rev-parse'' \<in> set argv then answer 0 ''l1''
      else if ''status'' \<in> set argv then answer 0 ('' M a.py'' @ [nul])
      else answer 0 [], n + 1)"

definition demo_git :: "nat git_env" where
  "demo_git = \<lparr>ge_run = demo_run, ge_launch = (\<lambda>p. ''/usr/bin/'' @ p), ge_null_hooks = ''/h'', ge_repo_pin = Some ''o/n'',
     ge_sha256 = id, ge_json = (\<lambda>_. None), ge_now = ''now'', ge_file_digest = (\<lambda>_ _. None),
     ge_probe = (\<lambda>_ _. (False, None, False, False)), ge_read_text = (\<lambda>_ _. None), ge_write_text = (\<lambda>_ _ n. n),
     ge_repo_relative = (\<lambda>_. None), ge_task_dir = id, ge_base_branch = ''main'', ge_branch_prefix = ''worc'',
     ge_checkout_base = None, ge_tasks_dir = ''tasks'', ge_create_pr = True, ge_pr_base = ''main'',
     ge_audit_branch = AUDIT_TASK, ge_audit_message = id\<rparr>"

definition demo_task_row :: task_row where
  "demo_task_row = \<lparr>tk_task_id = ''t1'', tk_title = ''Task'', tk_status = RUNNING, tk_source_path = None, tk_source_sha256 = None,
     tk_branch = Some ''work'', tk_slug = None, tk_created_at = None, tk_updated_at = None, tk_validation_passed = None,
     tk_validation_reason = None, tk_refinement_ran = None, tk_refinement_skip_reason = None, tk_test_fix_cycles = 0,
     tk_review_fix_cycles = 0, tk_test_fix_total = 0, tk_review_fix_total = 0, tk_fix_iterations = 0,
     tk_decomposition_enabled = None, tk_decomposition_accepted = None, tk_decomposition_reason = None, tk_subtask_count = None,
     tk_active_subtask = None, tk_subtasks_completed = 0, tk_failure_report_path = None, tk_recovered_loop = None,
     tk_cleanup_target_branch = None, tk_cleanup_completed = None, tk_cleanup_completed_at = None, tk_cleanup_last_error = None,
     tk_finished_at = None, tk_current_node = None, tk_flow_run_counters = None, tk_flow_fingerprint = None,
     tk_blocked_since = None, tk_blocked_until = None, tk_control_bundle_digest = None, tk_instruction_manifest_digest = None,
     tk_exchange_contaminated = False, tk_exchange_active_unsafe = False, tk_gate_reference_sha = None, tk_push_url_digest = None,
     tk_base_ref = None, tk_quarantine_refs = None\<rparr>"

definition demo_ops :: "publish_op list \<Rightarrow> db" where
  "demo_ops ops = fold (\<lambda>p d. case record_publish_op ''now'' p d of Inl e \<Rightarrow> d | Inr d' \<Rightarrow> d') ops (insert_task ''now'' demo_task_row empty_db)"

definition demo_clone :: "publish_op list \<Rightarrow> nat git_world" where
  "demo_clone ops = \<lparr>gw_db = demo_ops ops, gw_repo = 0, gw_active = None, gw_adopted = [], gw_tasks_ignored = None,
     gw_report_dir = None, gw_report_base = None, gw_calls = []\<rparr>"

definition demo_push_row :: publish_op where
  "demo_push_row = publish_of ''t1'' KIND_PUSH None ''work'' STATUS_STARTED None (Some ''r1'')"

lemma demo_branches: "is_valid_branch_name ''work''" "is_valid_branch_name ''main''"
  by code_simp+

lemma demo_urls: "urls_plain demo_git branch"
proof -
  have "fst (find_open_pr demo_git branch w) = Inr None" for w
    by (simp add: find_open_pr_def bind_m_def gh_def run_cmd_def ret_def demo_git_def split: prod.splits)
  then show ?thesis by (metis fst_conv option.distinct(1) sum.inject(2) urls_plain_def)
qed


lemma push_overwrites_only_own_witness:
  "issues_at (own_or_gentle ''work'' (Some ''r1'')) (push_branch demo_git ''t1'' ''work'' BM_NEW) (demo_clone [demo_push_row]) \<and>
   leased_push ''work'' ''r1'' \<in> set (gw_calls (snd (push_branch demo_git ''t1'' ''work'' BM_NEW (demo_clone [demo_push_row]))))"
proof -
  have "recorded_push_sha ''t1'' (gw_db (demo_clone [demo_push_row])) = Some ''r1''" by code_simp
  moreover have "leased_push ''work'' ''r1'' \<in> set (gw_calls (snd (push_branch demo_git ''t1'' ''work'' BM_NEW (demo_clone [demo_push_row]))))"
    by code_simp
  moreover have "hd ''work'' \<noteq> CHR ''+''" by simp
  ultimately show ?thesis
    using push_overwrites_only_own [OF demo_branches(1), of "''t1''" "demo_clone [demo_push_row]" demo_git BM_NEW] by metis
qed

text \<open>
  A valid branch name may start with a plus.  Its push is the forced push of another branch: here of the base
  branch itself, past the refusal to push to the base.
\<close>

lemma plus_branch_forces_base:
  "is_valid_branch_name ''+main'' \<and>
   [''git'', ''push'', ''--set-upstream'', ''origin'', ''+main''] \<in>
     set (gw_calls (snd (push_branch demo_git ''t1'' ''+main'' BM_NEW (demo_clone []))))"
  by code_simp

text \<open>
  A driver whose name holds a dot, a credential helper scoped to a URL and a merge driver all name a program
  that git runs, and none is found by the inventory that refuses to run git over such a configuration.
\<close>

lemma dotted_driver_escapes_gate:
  "\<not> program_key ''filter.my.drv.clean'' \<and> \<not> program_key ''credential.https://github.com.helper'' \<and>
   \<not> program_key ''merge.ours.driver'' \<and> program_key ''filter.drv.clean''"
  by code_simp

end
