(* ===== verification/GitPublishProps.thy ===== *)
theory GitPublishProps
  imports GitProps
begin

text \<open>
  What the publication steps leave in \<open>publish_operations\<close>, and what the staging gate and the branch names
  guarantee.
\<close>

section \<open>Recorded operations\<close>

lemma get_publish_update [simp]:
  "get_publish_op tid kd order (set_gate_reference now t sha d) = get_publish_op tid kd order d"
  "completed_op tid kd order (set_gate_reference now t sha d) = completed_op tid kd order d"
  by (simp_all add: get_publish_op_def set_gate_reference_def update_task_def completed_op_def)

lemma record_op_completed:
  assumes "record_op env (publish_of tid kd order fp STATUS_COMPLETED ref pushed) w = (Inr u, w')" and "order \<noteq> Some NO_SUBTASK"
  shows "completed_op tid kd order (gw_db w') = Some (publish_of tid kd order fp STATUS_COMPLETED ref pushed)"
proof -
  from assms(1) obtain d where d: "record_publish_op (ge_now env) (publish_of tid kd order fp STATUS_COMPLETED ref pushed) (gw_db w) = Inr d"
    "w' = w\<lparr>gw_db := d\<rparr>"
    by (auto simp: record_op_def split: sum.splits)
  from record_then_get_publish [OF d(1), of order tid kd] assms(2) show ?thesis
    by (simp add: d(2) completed_op_def publish_of_def)
qed

lemma gate_reference_completed:
  "advance_gate_reference env kd' t sha w = (Inr u, w') \<Longrightarrow> completed_op tid kd order (gw_db w') = completed_op tid kd order (gw_db w)"
  by (auto simp: advance_gate_reference_def when_m_def ret_def write_db_def change_def split: if_splits)

lemma record_completed_op:
  assumes "record_completed env tid kd fp ref pushed order w = (Inr u, w')" and "order \<noteq> Some NO_SUBTASK"
  shows "completed_op tid kd order (gw_db w') = Some (publish_of tid kd order fp STATUS_COMPLETED (Some ref) pushed)"
  using assms gate_reference_completed record_op_completed
  by (fastforce simp: record_completed_def bind_m_def split: prod.splits sum.splits)

lemma bind_Inr: "bind_m m f w = (Inr y, w') \<longleftrightarrow> (\<exists>x w1. m w = (Inr x, w1) \<and> f x w1 = (Inr y, w'))"
  by (auto simp: bind_m_def split: prod.splits sum.splits)

lemma read_db_bind [simp]: "bind_m (read_db g) f w = f (g (gw_db w)) w"
  by (simp add: bind_m_def read_db_def ask_def)

lemma ret_Inr [simp]: "ret x w = (Inr y, w') \<longleftrightarrow> y = x \<and> w' = w"
  by (auto simp: ret_def)

lemma raise_Inr [simp]: "raise e w \<noteq> (Inr y, w')"
  by (simp add: raise_def)

definition op_done :: "string \<Rightarrow> string \<Rightarrow> int option \<Rightarrow> string option \<Rightarrow> db \<Rightarrow> bool" where
  "op_done tid kd order ref d = (\<exists>p. completed_op tid kd order d = Some p \<and> pb_result_ref p = ref)"

lemma commit_op_done:
  assumes "commit_op env tid kd order msg paths w = (Inr (Some sha), w')" and "order \<noteq> Some NO_SUBTASK"
  shows "op_done tid kd order (Some sha) (gw_db w')"
proof (cases "completed_op tid kd order (gw_db w)")
  case (Some p)
  with assms(1) show ?thesis by (auto simp: commit_op_def op_done_def)
next
  case None
  with assms(1) obtain fp w1 w2 u v where r: "record_op env (publish_of tid kd order fp STATUS_COMPLETED (Some sha) None) w1 = (Inr u, w2)"
    "advance_gate_reference env kd tid sha w2 = (Inr v, w')"
    by (auto simp: commit_op_def bind_Inr Let_def split: if_splits)
  from record_op_completed [OF r(1) assms(2)] gate_reference_completed [OF r(2)] show ?thesis
    by (simp add: op_done_def publish_of_def)
qed

lemma create_pr_done:
  assumes "create_pr env tid branch title body notice refs w = (Inr (Some url), w')"
  shows "op_done tid KIND_PR None (Some url) (gw_db w')"
proof (cases "completed_op tid KIND_PR None (gw_db w)")
  case (Some p)
  with assms show ?thesis by (auto simp: create_pr_def op_done_def split: if_splits)
next
  case None
  with assms obtain w1 u where "record_completed env tid KIND_PR branch url None None w1 = (Inr u, w')"
    by (auto simp: create_pr_def bind_Inr Let_def split: if_splits option.splits)
  from record_completed_op [OF this] show ?thesis by (simp add: op_done_def publish_of_def)
qed

lemma merge_pr_done:
  assumes "merge_pr env tid url strategy wait_for_checks subject text w = (Inr (Some out), w')"
  shows "op_done tid KIND_PR_MERGE None (Some out) (gw_db w')"
proof (cases "completed_op tid KIND_PR_MERGE None (gw_db w)")
  case (Some p)
  with assms show ?thesis by (auto simp: merge_pr_def op_done_def split: if_splits)
next
  case None
  with assms obtain w1 u where "record_completed env tid KIND_PR_MERGE url out None None w1 = (Inr u, w')"
    by (auto simp: merge_pr_def bind_Inr Let_def split: if_splits)
  from record_completed_op [OF this] show ?thesis by (simp add: op_done_def publish_of_def)
qed

lemma commit_audit_done:
  assumes "commit_audit env tid packet w = (Inr sha, w')"
  shows "op_done tid KIND_AUDIT_COMMIT None sha (gw_db w')"
proof (cases "completed_op tid KIND_AUDIT_COMMIT None (gw_db w)")
  case (Some p)
  with assms show ?thesis by (auto simp: commit_audit_def op_done_def)
next
  case None
  with assms obtain w1 u where "record_audit_op env tid sha w1 = (Inr u, w')"
    by (auto simp: commit_audit_def bind_Inr split: if_splits)
  from record_op_completed [OF this [unfolded record_audit_op_def]] show ?thesis by (simp add: op_done_def publish_of_def)
qed


text \<open>
  C39. A publication step happens once.  A commit, audit commit, pull request or merge that returned a
  reference has its row completed with that reference; and once the row is there, every later attempt, with
  whatever message, paths, branch state or strategy, returns the same reference, launches no process and
  leaves the world as it is.
\<close>

theorem publication_once:
  assumes "order \<noteq> Some NO_SUBTASK"
  shows "(\<forall>w w' sha. commit_op env tid kd order msg paths w = (Inr (Some sha), w') \<longrightarrow> op_done tid kd order (Some sha) (gw_db w')) \<and>
    (\<forall>w w' sha. commit_audit env tid packet w = (Inr sha, w') \<longrightarrow> op_done tid KIND_AUDIT_COMMIT None sha (gw_db w')) \<and>
    (\<forall>w w' url. create_pr env tid branch title body notice refs w = (Inr (Some url), w') \<longrightarrow> op_done tid KIND_PR None (Some url) (gw_db w')) \<and>
    (\<forall>w w' out. merge_pr env tid url strategy wait_for_checks subject text w = (Inr (Some out), w') \<longrightarrow>
       op_done tid KIND_PR_MERGE None (Some out) (gw_db w')) \<and>
    (\<forall>w ref. op_done tid kd order ref (gw_db w) \<longrightarrow> commit_op env tid kd order msg paths w = (Inr ref, w)) \<and>
    (\<forall>w ref. op_done tid KIND_AUDIT_COMMIT None ref (gw_db w) \<longrightarrow> commit_audit env tid packet w = (Inr ref, w)) \<and>
    (\<forall>w ref. op_done tid KIND_PR None ref (gw_db w) \<and> ge_create_pr env \<and> branch \<noteq> ge_pr_base env \<longrightarrow>
       create_pr env tid branch title body notice refs w = (Inr ref, w)) \<and>
    (\<forall>w ref. op_done tid KIND_PR_MERGE None ref (gw_db w) \<and> url \<noteq> [] \<longrightarrow>
       merge_pr env tid url strategy wait_for_checks subject text w = (Inr ref, w))"
proof (intro conjI)
  show "\<forall>w w' sha. commit_op env tid kd order msg paths w = (Inr (Some sha), w') \<longrightarrow> op_done tid kd order (Some sha) (gw_db w')"
    using commit_op_done assms by blast
  show "\<forall>w w' sha. commit_audit env tid packet w = (Inr sha, w') \<longrightarrow> op_done tid KIND_AUDIT_COMMIT None sha (gw_db w')"
    using commit_audit_done by blast
  show "\<forall>w w' url. create_pr env tid branch title body notice refs w = (Inr (Some url), w') \<longrightarrow> op_done tid KIND_PR None (Some url) (gw_db w')"
    using create_pr_done by blast
  show "\<forall>w w' out. merge_pr env tid url strategy wait_for_checks subject text w = (Inr (Some out), w') \<longrightarrow>
       op_done tid KIND_PR_MERGE None (Some out) (gw_db w')"
    using merge_pr_done by blast
qed (auto simp: op_done_def commit_op_def commit_audit_def create_pr_def merge_pr_def ret_def)

lemma publication_once_witness:
  "op_done ''t1'' KIND_CODE_COMMIT None (Some ''l1'') (gw_db (snd (commit_code demo_git ''t1'' ''m'' (demo_clone [])))) \<and>
   commit_op demo_git ''t1'' KIND_CODE_COMMIT None ''other'' [''b.py''] (snd (commit_code demo_git ''t1'' ''m'' (demo_clone []))) =
     (Inr (Some ''l1''), snd (commit_code demo_git ''t1'' ''m'' (demo_clone [])))"
proof -
  let ?w = "snd (commit_code demo_git ''t1'' ''m'' (demo_clone []))"
  have d: "op_done ''t1'' KIND_CODE_COMMIT None (Some ''l1'') (gw_db ?w)"
  proof -
    have "map_option pb_result_ref (completed_op ''t1'' KIND_CODE_COMMIT None (gw_db ?w)) = Some (Some ''l1'')" by code_simp
    then show ?thesis by (auto simp: op_done_def)
  qed
  have "(None :: int option) \<noteq> Some NO_SUBTASK" by simp
  from publication_once [OF this, of demo_git "''t1''" KIND_CODE_COMMIT "''other''" "[''b.py'']"] d show ?thesis by blast
qed

section \<open>Where the idempotence of commits goes wrong\<close>

text \<open>
  A task whose code commit is recorded and that then changed more files, as a continued run does, commits
  none of them: the step answers with the old commit.
\<close>

lemma completed_commit_hides_new_work:
  assumes "changed_code_paths env w = (Inr (p # ps), w1)" and "op_done tid KIND_CODE_COMMIT None ref (gw_db w1)"
  shows "commit_code env tid msg w = (Inr ref, w1)"
proof -
  have "commit_op env tid KIND_CODE_COMMIT None msg (p # ps) w1 = (Inr ref, w1)"
    using assms(2) by (auto simp: op_done_def commit_op_def ret_def)
  with assms(1) show ?thesis by (simp add: commit_code_def bind_m_def)
qed

text \<open>A clone with one head and one dirty file; a commit moves the head to \<open>own\<close>.\<close>

definition sim_run :: "string list \<Rightarrow> string \<times> bool \<Rightarrow> git_result \<times> string \<times> bool" where
  "sim_run argv s =
     (if ''commit'' \<in> set argv then (answer 0 [], ''own'', False)
      else if ''rev-list'' \<in> set argv then (answer 0 ''1'', s)
      else if ''rev-parse'' \<in> set argv then (answer 0 (if last argv = ''HEAD'' then fst s else last argv), s)
      else if ''status'' \<in> set argv then (answer 0 (if snd s then '' M a.py'' @ [nul] else []), s)
      else (answer 0 [], s))"

definition sim_git :: "(string \<times> bool) git_env" where
  "sim_git = \<lparr>ge_run = sim_run, ge_launch = id, ge_null_hooks = ''/h'', ge_repo_pin = None,
     ge_sha256 = id, ge_json = (\<lambda>_. None), ge_now = ''now'', ge_file_digest = (\<lambda>_ _. None),
     ge_probe = (\<lambda>_ _. (False, None, False, False)), ge_read_text = (\<lambda>_ _. None), ge_write_text = (\<lambda>_ _ n. n),
     ge_repo_relative = (\<lambda>_. None), ge_task_dir = id, ge_base_branch = ''main'', ge_branch_prefix = ''worc'',
     ge_checkout_base = None, ge_tasks_dir = ''tasks'', ge_create_pr = True, ge_pr_base = ''main'',
     ge_audit_branch = AUDIT_TASK, ge_audit_message = id\<rparr>"

definition sim_clone :: "string \<times> bool \<Rightarrow> db \<Rightarrow> (string \<times> bool) git_world" where
  "sim_clone s d = \<lparr>gw_db = d, gw_repo = s, gw_active = None, gw_adopted = [], gw_tasks_ignored = None,
     gw_report_dir = None, gw_report_base = None, gw_calls = []\<rparr>"

text \<open>
  Killed between its commit and the row that records it, the orchestrator comes back to a clean tree ahead
  of the gate reference and reports its own commit as one it did not make.
\<close>

lemma crash_reports_own_commit_as_foreign:
  "(case stage_and_commit sim_git ''m'' [''a.py'']
       (sim_clone (''main'', True) (demo_ops [publish_of ''t1'' KIND_CODE_COMMIT None ''f'' STATUS_STARTED None None])) of
      (Inr sha, w) \<Rightarrow>
        sha = ''own'' \<and>
        (case commit_code sim_git ''t1'' ''m'' (sim_clone (gw_repo w) (gw_db w)) of
           (r, w') \<Rightarrow> r = Inr (Some ''own'') \<and> adopted_commit_count ''t1'' w' = 1)
    | _ \<Rightarrow> False)"
  by code_simp

section \<open>The staging gate\<close>

definition render_name_status :: "(string \<times> string \<times> string option) list \<Rightarrow> string" where
  "render_name_status entries = concat (map (\<lambda>(code, p, q).
     code @ [nul] @ (case q of None \<Rightarrow> [] | Some old \<Rightarrow> old @ [nul]) @ p @ [nul]) entries)"

definition field_ok :: "string \<Rightarrow> bool" where
  "field_ok s = (s \<noteq> [] \<and> nul \<notin> set s)"

definition entry_ok :: "string \<times> string \<times> string option \<Rightarrow> bool" where
  "entry_ok e = (case e of (code, p, q) \<Rightarrow>
     field_ok code \<and> field_ok p \<and> (case q of None \<Rightarrow> \<not> two_paths code | Some old \<Rightarrow> field_ok old \<and> two_paths code))"

lemma tokens_z_field: "field_ok s \<Longrightarrow> tokens_z (s @ nul # rest) = s # tokens_z rest"
  by (simp add: tokens_z_def field_ok_def split_on_append)

lemma tokens_z_Nil [simp]: "tokens_z [] = []"
  by (simp add: tokens_z_def)

lemma name_status_plain: "\<not> two_paths s \<Longrightarrow> name_status_records (s # a # ts) = (s, a, None) # name_status_records ts"
  by (cases ts) simp_all

lemma parse_render_name_status: "\<forall>e\<in>set entries. entry_ok e \<Longrightarrow> parse_name_status_z (render_name_status entries) = entries"
proof (induction entries)
  case Nil
  then show ?case by (simp add: parse_name_status_z_def render_name_status_def)
next
  case (Cons e entries)
  obtain code p q where e: "e = (code, p, q)" by (cases e)
  have render: "render_name_status (e # entries) =
      code @ nul # (case q of None \<Rightarrow> [] | Some old \<Rightarrow> old @ [nul]) @ p @ nul # render_name_status entries"
    by (simp add: render_name_status_def e)
  from Cons show ?case
    unfolding render parse_name_status_z_def
    by (cases q) (auto simp: e entry_ok_def tokens_z_field name_status_plain)
qed

lemma parse_name_only_render: "\<forall>p\<in>set ps. field_ok p \<Longrightarrow> parse_name_only_z (concat (map (\<lambda>p. p @ [nul]) ps)) = ps"
  by (induction ps) (simp_all add: parse_name_only_z_def tokens_z_field)


text \<open>A probe that leaves the clone as it is and prints this text.\<close>

definition prints :: "'r git_env \<Rightarrow> 'r \<Rightarrow> string list \<Rightarrow> string \<Rightarrow> bool" where
  "prints env repo args out =
     (case ge_run env (pinned_argv (ge_launch env) (harden_git_argv (ge_null_hooks env) (''git'' # args))) repo of
        (r, repo') \<Rightarrow> repo' = repo \<and> gr_stdout r = out)"

definition render_names :: "string list \<Rightarrow> string" where
  "render_names ps = concat (map (\<lambda>p. p @ [nul]) ps)"

lemma git_prints:
  assumes "prints env (gw_repo w) args out"
  obtains r w' where "git env args w = (Inr r, w')" "gr_stdout r = out" "gw_repo w' = gw_repo w" "gw_report_base w' = gw_report_base w"
  using assms by (auto simp: prints_def git_def run_cmd_def split: prod.splits)

text \<open>What one staged entry must satisfy.\<close>

definition entry_allowed :: "string list \<Rightarrow> string list \<Rightarrow> string \<times> string \<times> string option \<Rightarrow> bool" where
  "entry_allowed excluded allowed e =
     (case e of (code, p, q) \<Rightarrow> within_allowlist p allowed \<and>
        (case q of None \<Rightarrow> True | Some old \<Rightarrow> is_artifact_path excluded old \<longrightarrow> within_allowlist old allowed))"

lemma staged_offenders_Cons:
  "staged_offenders excluded base (Some allowed) (e # es) = [] \<longleftrightarrow>
     entry_allowed excluded allowed e \<and> staged_offenders excluded base (Some allowed) es = []"
proof (cases e)
  case (fields code p q)
  then show ?thesis by (cases q) (simp_all add: staged_offenders_def entry_allowed_def del: concat_eq_Nil_conv)
qed

lemma staged_offenders_none:
  "staged_offenders excluded base (Some allowed) entries = [] \<longleftrightarrow> list_all (entry_allowed excluded allowed) entries"
proof (induction entries)
  case Nil
  show ?case by (simp add: staged_offenders_def)
qed (simp add: staged_offenders_Cons)

lemma sorted_set_empty: "sorted_set xs = [] \<longleftrightarrow> xs = []"
  by (metis sorted_set_props(1) set_empty)

text \<open>
  C40. The staging gate decides exactly what its documentation says: given what git prints, it lets an index
  through if and only if no runtime path is tracked or staged and every staged path, and the source of every
  staged rename that leaves an artifact root, is in the allowlist of the operation.
\<close>

theorem staged_gate_exact:
  assumes "prints env (gw_repo w) [''ls-files'', ''--cached'', ''-z'', ''--'', EXCHANGE_HOME_DIRNAME] (render_names tracked)"
    and "prints env (gw_repo w) ([''diff'', ''--cached'', ''--name-only'', ''-z'', ''--''] @ RUNTIME_EXCLUDED_DIRS) (render_names runtime)"
    and "prints env (gw_repo w) [''diff'', ''--cached'', ''--name-status'', ''-z''] (render_name_status entries)"
    and "\<forall>p\<in>set tracked \<union> set runtime. field_ok p" and "\<forall>e\<in>set entries. entry_ok e"
  shows "fst (assert_staged_allowed env (Some allowed) w) = Inr () \<longleftrightarrow>
    tracked = [] \<and> runtime = [] \<and> (\<forall>e\<in>set entries. entry_allowed (excluded_dirs env) allowed e)"
proof -
  obtain ra wa where a: "git env [''ls-files'', ''--cached'', ''-z'', ''--'', EXCHANGE_HOME_DIRNAME] w = (Inr ra, wa)"
      "gr_stdout ra = render_names tracked" "gw_repo wa = gw_repo w"
    using git_prints [OF assms(1)] by metis
  obtain rb wb where b: "git env ([''diff'', ''--cached'', ''--name-only'', ''-z'', ''--''] @ RUNTIME_EXCLUDED_DIRS) wa = (Inr rb, wb)"
      "gr_stdout rb = render_names runtime" "gw_repo wb = gw_repo w"
    using git_prints [of env wa "[''diff'', ''--cached'', ''--name-only'', ''-z'', ''--''] @ RUNTIME_EXCLUDED_DIRS"] assms(2) a(3) by metis
  obtain rc wc where c: "git env [''diff'', ''--cached'', ''--name-status'', ''-z''] wb = (Inr rc, wc)"
      "gr_stdout rc = render_name_status entries"
    using git_prints [of env wb "[''diff'', ''--cached'', ''--name-status'', ''-z'']"] assms(3) b(3) by metis
  have names: "parse_name_only_z (gr_stdout ra) = tracked" "parse_name_only_z (gr_stdout rb) = runtime"
    unfolding a(2) b(2) render_names_def using assms(4) parse_name_only_render by auto
  have never: "assert_exchange_never_staged env w =
      (if tracked = [] \<and> runtime = [] then (Inr (), wb)
       else (Inl (ManualActionRequired (RuntimePathStaged (sorted_set (tracked @ runtime)))), wb))"
    unfolding assert_exchange_never_staged_def bind_m_def a(1)
    using b(1) by (simp add: bind_m_def names sorted_set_empty raise_def ret_def Let_def del: append.simps)
  have "fst (assert_staged_allowed env (Some allowed) w) = Inr () \<longleftrightarrow>
      tracked = [] \<and> runtime = [] \<and> staged_offenders (excluded_dirs env) (gw_report_base wc) (Some allowed) entries = []"
    by (simp add: assert_staged_allowed_def bind_m_def never c parse_render_name_status [OF assms(5)] ask_def
        sorted_set_empty raise_def ret_def Let_def del: append.simps) blast
  then show ?thesis by (simp add: staged_offenders_none list_all_iff)
qed

definition staged_git :: "nat git_env" where
  "staged_git = demo_git\<lparr>ge_run := (\<lambda>argv repo.
     (\<lparr>gr_exit = Some 0,
       gr_stdout = (if ''--name-status'' \<in> set argv
         then render_name_status [(''M'', ''src/a.py'', None), (''R100'', ''docs/new.md'', Some ''docs/old.md'')] else []),
       gr_stderr = [], gr_timed_out = False, gr_launch_error = None\<rparr>, repo))\<rparr>"

theorem staged_gate_exact_witness:
  "fst (assert_staged_allowed staged_git (Some [''src/a.py'', ''docs/'']) (demo_clone [])) = Inr ()"
proof -
  let ?es = "[(''M'', ''src/a.py'', None), (''R100'', ''docs/new.md'', Some ''docs/old.md'')]"
  have "prints staged_git (gw_repo (demo_clone [])) [''ls-files'', ''--cached'', ''-z'', ''--'', EXCHANGE_HOME_DIRNAME] (render_names []) \<and>
    prints staged_git (gw_repo (demo_clone [])) ([''diff'', ''--cached'', ''--name-only'', ''-z'', ''--''] @ RUNTIME_EXCLUDED_DIRS) (render_names []) \<and>
    prints staged_git (gw_repo (demo_clone [])) [''diff'', ''--cached'', ''--name-status'', ''-z''] (render_name_status ?es) \<and>
    list_all entry_ok ?es \<and> list_all (entry_allowed (excluded_dirs staged_git) [''src/a.py'', ''docs/'']) ?es"
    by code_simp
  then have p: "prints staged_git (gw_repo (demo_clone [])) [''ls-files'', ''--cached'', ''-z'', ''--'', EXCHANGE_HOME_DIRNAME] (render_names [])"
    "prints staged_git (gw_repo (demo_clone [])) ([''diff'', ''--cached'', ''--name-only'', ''-z'', ''--''] @ RUNTIME_EXCLUDED_DIRS) (render_names [])"
    "prints staged_git (gw_repo (demo_clone [])) [''diff'', ''--cached'', ''--name-status'', ''-z''] (render_name_status ?es)"
    and e: "list_all entry_ok ?es" "list_all (entry_allowed (excluded_dirs staged_git) [''src/a.py'', ''docs/'']) ?es"
    by blast+
  show ?thesis
    using staged_gate_exact [OF p, of "[''src/a.py'', ''docs/'']"] e unfolding list_all_iff by simp
qed

section \<open>Branch names\<close>

text \<open>
  A task id the gate accepts may hold two dots in a row, and git refuses the branch made from it.
\<close>

lemma dotted_id_breaks_branch_name:
  "is_valid_task_id ''a..b'' \<and>
   \<not> is_valid_branch_name (branch_name ''ai'' ''a..b'' ''fix'' 7 None)"
  by code_simp

end
