(* ===== verification/OrchWorld.thy ===== *)
theory OrchWorld
  imports GitPublish TaskGate DecomposedRun
begin

text \<open>
  The orchestrator's state and the small operations its larger ones share (\<open>core/orchestrator.py\<close>):
  the world of a run (the clone with the task files in it, the database, the ledger, what was notified),
  the per-run context, commit subjects, lifecycle folders, settled task files, gate refusals.
  The file system and the stores of artifacts are functions on the clone; log lines are left out.
\<close>

section \<open>Results, contexts and errors\<close>

record pipeline_result =
  rs_task_id :: string
  rs_status :: status
  rs_pr_url :: "string option"
  rs_reason :: "string option"
  rs_quarantine :: "string option"

record stop_facts =
  sf_node :: "string option"
  sf_loop :: "string option"
  sf_limit :: "string option"

text \<open>\<open>_Pipeline\<close>: the parts of the run context that outlive one stage.\<close>

record pipeline =
  pl_task :: normalized_task
  pl_task_file :: string
  pl_status :: status
  pl_counters :: loop_counters_row
  pl_accepted :: bool
  pl_units :: nat
  pl_branch :: string
  pl_slug :: string
  pl_skip :: "string list"
  pl_operator_split :: "split_decision option"
  pl_governance :: "string list"
  pl_stop :: "stop_facts option"

datatype orch_error =
    ManualRequired string
  | PipelineFailed string
  | GitFailed string
  | SlotBusyError string
  | Escaped string

record 'r orch_world =
  ow_git :: "'r git_world"
  ow_ledger :: "ledger_record list"
  ow_notified :: "(string \<times> status) list"
  ow_continue_adopt :: "string list"
  ow_run :: "pipeline option"

text \<open>How the phases of a flow end for the orchestrator (\<open>_run_phases\<close>).\<close>

record infra_error =
  ie_text :: string
  ie_class :: "error_class option"
  ie_classes :: "error_class list"
  ie_resets_at :: "string option"

datatype phases_end =
    FlowEnded flow_run_result
  | NodeManualRequired string bool
  | FlowStopped string
  | EvaluatorInfraError infra_error
  | NodeInfraError infra_error
  | PhasesRaised orch_error

text \<open>
  The configuration and the surroundings: the gate and the git manager, the file system, the stored
  normalized tasks, and the parts of the run that have a theory of their own or are not modelled.
\<close>

record 'r orch_env =
  oe_git :: "'r git_env"
  oe_gate :: validation_gate
  oe_source :: "string \<Rightarrow> 'r \<Rightarrow> parsed_source option"
  oe_is_file :: "string \<Rightarrow> 'r \<Rightarrow> bool"
  oe_move :: "string \<Rightarrow> string \<Rightarrow> 'r \<Rightarrow> 'r option"
  oe_task_doc :: "string \<Rightarrow> 'r \<Rightarrow> ydict option"
  oe_write_task_doc :: "string \<Rightarrow> ydict \<Rightarrow> 'r \<Rightarrow> 'r"
  oe_quarantine_folder :: string
  oe_branch_mode :: branch_mode
  oe_auto_merge :: bool
  oe_merge_strategy :: merge_strategy
  oe_wait_for_checks :: bool
  oe_decomposition :: bool
  oe_max_subtasks :: int
  oe_advanced :: bool
  oe_clean_runs :: bool
  oe_gov_floor :: "string list \<Rightarrow> string list"
  oe_isolation_reasons :: "string list"
  oe_max_blocked_s :: int
  oe_instant :: "string \<Rightarrow> (bool \<times> int) option"
  oe_isoformat :: "bool \<times> int \<Rightarrow> string"
  oe_flow :: "string option \<Rightarrow> 'r \<Rightarrow> flow_snapshot option"
  oe_final_diff :: "string \<Rightarrow> 'r \<Rightarrow> string"
  oe_loads :: "string \<Rightarrow> yval option"
  oe_write_report :: "failure_report \<Rightarrow> 'r \<Rightarrow> string option \<times> 'r"
  oe_summary_exists :: "string \<Rightarrow> 'r \<Rightarrow> bool"
  oe_write_summary :: "pipeline \<Rightarrow> string option \<Rightarrow> 'r \<Rightarrow> bool \<times> 'r"
  oe_retire_report :: "string \<Rightarrow> 'r \<Rightarrow> string option \<times> 'r"
  oe_failure_memory :: "string \<Rightarrow> 'r \<Rightarrow> 'r"
  oe_seal :: "string \<Rightarrow> status \<Rightarrow> 'r \<Rightarrow> bool \<times> 'r"
  oe_quarantine_exchange :: "string \<Rightarrow> nat \<Rightarrow> 'r \<Rightarrow> (unit + string option) \<times> 'r"
  oe_remove_runs :: "string \<Rightarrow> 'r \<Rightarrow> 'r"
  oe_packet_digest :: "string \<Rightarrow> 'r \<Rightarrow> string option"
  oe_clear_foreign :: "string \<Rightarrow> 'r \<Rightarrow> string + 'r"
  oe_ensure_exchange :: "string \<Rightarrow> bool \<Rightarrow> bool \<Rightarrow> 'r \<Rightarrow> string + 'r"
  oe_freeze :: "string \<Rightarrow> flow_snapshot \<Rightarrow> 'r \<Rightarrow> string + string \<times> 'r"
  oe_load_bundle :: "string \<Rightarrow> string \<Rightarrow> 'r \<Rightarrow> string + flow_snapshot"
  oe_live_digest :: "flow_snapshot \<Rightarrow> 'r \<Rightarrow> string option"
  oe_inputs :: "pipeline \<Rightarrow> bool \<Rightarrow> bool \<Rightarrow> 'r \<Rightarrow> string + string option \<times> 'r"
  oe_epoch :: int
  oe_store_report :: "string \<Rightarrow> 'r \<Rightarrow> 'r"
  oe_resolve_dir :: "string \<Rightarrow> string"
  oe_archive :: "string \<Rightarrow> nat \<Rightarrow> 'r \<Rightarrow> 'r"
  oe_clear_exchange :: "string \<Rightarrow> 'r \<Rightarrow> 'r"
  oe_reset_interactions :: "string \<Rightarrow> 'r \<Rightarrow> 'r"
  oe_consume_interactions :: "string \<Rightarrow> 'r \<Rightarrow> 'r"
  oe_max_fix_cycles :: int
  oe_max_total_fixes :: int
  oe_merge_flow_found :: "'r \<Rightarrow> bool"
  oe_conflict_report :: "string \<Rightarrow> conflicted_path list \<Rightarrow> 'r \<Rightarrow> 'r"
  oe_manual_text :: "manual_cause \<Rightarrow> string"
  oe_store_text :: "store_error \<Rightarrow> string"
  oe_recovery_text :: "manual_reason \<Rightarrow> string"
  oe_run_phases :: "pipeline \<Rightarrow> flow_snapshot \<Rightarrow> flow_run_state \<Rightarrow> bool \<Rightarrow> 'r orch_world \<Rightarrow>
    (phases_end \<times> flow_run_state \<times> pipeline) \<times> 'r orch_world"
  oe_split :: "pipeline \<Rightarrow> split_decision \<Rightarrow> 'r orch_world \<Rightarrow> (orch_error + unit) \<times> 'r orch_world"
  oe_run_merge_flow :: "pipeline \<Rightarrow> 'r orch_world \<Rightarrow> (orch_error + string + bool) \<times> 'r orch_world"

type_synonym ('r, 'a) orch_m = "'r orch_world \<Rightarrow> (orch_error + 'a) \<times> 'r orch_world"

definition oret :: "'a \<Rightarrow> ('r, 'a) orch_m" where
  "oret x w = (Inr x, w)"

definition oraise :: "orch_error \<Rightarrow> ('r, 'a) orch_m" where
  "oraise e w = (Inl e, w)"

definition obind :: "('r, 'a) orch_m \<Rightarrow> ('a \<Rightarrow> ('r, 'b) orch_m) \<Rightarrow> ('r, 'b) orch_m" where
  "obind m f w = (case m w of (Inl e, w') \<Rightarrow> (Inl e, w') | (Inr x, w') \<Rightarrow> f x w')"

definition ocatch :: "('r, 'a) orch_m \<Rightarrow> (orch_error \<Rightarrow> ('r, 'a) orch_m) \<Rightarrow> ('r, 'a) orch_m" where
  "ocatch m h w = (case m w of (Inl e, w') \<Rightarrow> h e w' | (Inr x, w') \<Rightarrow> (Inr x, w'))"

definition oask :: "('r orch_world \<Rightarrow> 'a) \<Rightarrow> ('r, 'a) orch_m" where
  "oask g w = (Inr (g w), w)"

definition ochange :: "('r orch_world \<Rightarrow> 'r orch_world) \<Rightarrow> ('r, unit) orch_m" where
  "ochange g w = (Inr (), g w)"

definition owhen :: "bool \<Rightarrow> ('r, unit) orch_m \<Rightarrow> ('r, unit) orch_m" where
  "owhen b m = (if b then m else oret ())"

definition ow_db :: "'r orch_world \<Rightarrow> db" where
  "ow_db w = gw_db (ow_git w)"

definition ow_clone :: "'r orch_world \<Rightarrow> 'r" where
  "ow_clone w = gw_repo (ow_git w)"

definition in_db :: "(db \<Rightarrow> db) \<Rightarrow> ('r, unit) orch_m" where
  "in_db g = ochange (ow_git_update (gw_db_update g))"

definition in_clone :: "('r \<Rightarrow> 'r) \<Rightarrow> ('r, unit) orch_m" where
  "in_clone g = ochange (ow_git_update (gw_repo_update g))"

text \<open>
  The run context is mutable: a stage that changes it leaves it where an exception handler finds it.
\<close>

definition keep :: "pipeline \<Rightarrow> ('r, pipeline) orch_m" where
  "keep p = obind (ochange (ow_run_update (\<lambda>_. Some p))) (\<lambda>_. oret p)"

definition oe_now :: "'r orch_env \<Rightarrow> string" where
  "oe_now env = ge_now (oe_git env)"

text \<open>A call of the git manager; its error classes keep their meaning.\<close>

definition git_error_of :: "'r orch_env \<Rightarrow> git_error \<Rightarrow> orch_error" where
  "git_error_of env e = (case e of
     GitCommandError msg \<Rightarrow> GitFailed msg
   | ManualActionRequired why \<Rightarrow> ManualRequired (oe_manual_text env why)
   | GitStoreError why \<Rightarrow> Escaped (oe_store_text env why))"

definition via_git :: "'r orch_env \<Rightarrow> ('r, 'a) git_m \<Rightarrow> ('r, 'a) orch_m" where
  "via_git env m w = (case m (ow_git w) of
     (Inl e, g) \<Rightarrow> (Inl (git_error_of env e), w\<lparr>ow_git := g\<rparr>)
   | (Inr x, g) \<Rightarrow> (Inr x, w\<lparr>ow_git := g\<rparr>))"

text \<open>A store operation that may raise.\<close>

definition via_store :: "'r orch_env \<Rightarrow> (db \<Rightarrow> store_error + db) \<Rightarrow> ('r, unit) orch_m" where
  "via_store env f w = (case f (ow_db w) of
     Inl e \<Rightarrow> (Inl (Escaped (oe_store_text env e)), w)
   | Inr d \<Rightarrow> (Inr (), w\<lparr>ow_git := (ow_git w)\<lparr>gw_db := d\<rparr>\<rparr>))"

definition update_row :: "'r orch_env \<Rightarrow> string \<Rightarrow> (task_row \<Rightarrow> task_row) list \<Rightarrow> ('r, unit) orch_m" where
  "update_row env tid flds = in_db (update_task (oe_now env) tid flds)"

section \<open>Paths\<close>

text \<open>\<open>parent\<close>, \<open>name\<close>, \<open>stem\<close> and \<open>/\<close> of \<open>pathlib\<close>, on the spelling it prints.\<close>

definition path_name :: "string \<Rightarrow> string" where
  "path_name s = last (split_on (CHR ''/'') s)"

definition path_parent :: "string \<Rightarrow> string" where
  "path_parent s = (case butlast (split_on (CHR ''/'') s) of
     [] \<Rightarrow> ''.''
   | [[]] \<Rightarrow> ''/''
   | segs \<Rightarrow> join_with (CHR ''/'') segs)"

definition path_join :: "string \<Rightarrow> string \<Rightarrow> string" where
  "path_join a b = (if starts_with b ''/'' then b else if a = ''.'' then b else if a = ''/'' then a @ b else a @ ''/'' @ b)"

definition path_stem :: "string \<Rightarrow> string" where
  "path_stem s =
     (let n = path_name s; ext = takeWhile (\<lambda>c. c \<noteq> CHR ''.'') (rev n); k = length n - length ext - 1
      in if CHR ''.'' \<in> set n \<and> 0 < k \<and> ext \<noteq> [] then take k n else n)"

section \<open>Commit subjects and destinations\<close>

definition DEFAULT_COMMIT_TYPE :: string where "DEFAULT_COMMIT_TYPE = ''feat''"

definition task_commit_subject :: "string \<Rightarrow> string \<Rightarrow> string option \<Rightarrow> string" where
  "task_commit_subject tid title commit_type =
     (if or_empty commit_type = [] then DEFAULT_COMMIT_TYPE else or_empty commit_type) @ ''('' @ tid @ ''): '' @ title"

definition all_digits :: "string \<Rightarrow> bool" where
  "all_digits s = (s \<noteq> [] \<and> list_all (\<lambda>c. c \<in> set ''0123456789'') s)"

definition pr_number :: "string option \<Rightarrow> string option" where
  "pr_number url =
     (let tail = last (split_on (CHR ''/'') (rev (dropWhile (\<lambda>c. c = CHR ''/'') (rev (or_empty url)))))
      in if or_empty url = [] \<or> \<not> all_digits tail then None else Some tail)"

definition merge_commit_subject :: "string \<Rightarrow> string \<Rightarrow> string option \<Rightarrow> string option \<Rightarrow> string" where
  "merge_commit_subject tid title url commit_type =
     task_commit_subject tid title commit_type @
     (case pr_number url of None \<Rightarrow> [] | Some n \<Rightarrow> '' (#'' @ n @ '')'')"

definition lifecycle_destination :: "string option \<Rightarrow> status \<Rightarrow> string option" where
  "lifecycle_destination task_file final =
     (if final \<notin> {DONE, FAILED} \<or> or_empty task_file = [] then None
      else let parent = path_parent (or_empty task_file);
               root = (if path_name parent \<in> set TRACKED_LIFECYCLE_STATES then path_parent parent else parent)
           in Some (path_join (path_join root (if final = DONE then ''done'' else ''failed'')) (path_name (or_empty task_file))))"

text \<open>One character stands for the ellipsis.\<close>

definition ellipsis :: string where "ellipsis = [CHR 0x85]"

definition reason_line :: "string option \<Rightarrow> nat \<Rightarrow> string option" where
  "reason_line why limit =
     (if or_empty why = [] then None
      else let texts = filter (\<lambda>t. t \<noteq> []) (map py_strip (split_lines (or_empty why)));
               line = (case texts of [] \<Rightarrow> [] | t # _ \<Rightarrow> t)
           in Some (if length line \<le> limit then line else py_rstrip (take (limit - 1) line) @ ellipsis))"

definition quoted :: "string \<Rightarrow> string" where
  "quoted s = [CHR 0x27] @ s @ [CHR 0x27]"

section \<open>Settled task files\<close>

datatype settled_file = NOT_SETTLED | OWN | FOREIGN | UNVERIFIABLE

definition classify_settled :: "task_row option \<Rightarrow> string option \<Rightarrow> settled_file" where
  "classify_settled row found =
     (case row of
        None \<Rightarrow> NOT_SETTLED
      | Some r \<Rightarrow>
          if tk_status r \<notin> TERMINAL then NOT_SETTLED
          else if or_empty (tk_source_sha256 r) = [] then UNVERIFIABLE
          else (case found of
                  None \<Rightarrow> UNVERIFIABLE
                | Some digest \<Rightarrow> if Some digest = tk_source_sha256 r then OWN else FOREIGN))"

definition file_class :: "'r orch_env \<Rightarrow> string \<Rightarrow> string \<Rightarrow> 'r orch_world \<Rightarrow> settled_file" where
  "file_class env tid path w =
     classify_settled (get_task tid (ow_db w)) (ge_file_digest (oe_git env) path (ow_clone w))"

definition settled_own_file :: "'r orch_env \<Rightarrow> string \<Rightarrow> string \<Rightarrow> 'r orch_world \<Rightarrow> bool" where
  "settled_own_file env tid path w = (file_class env tid path w = OWN)"

definition acquire_slot :: "string \<Rightarrow> db \<Rightarrow> bool" where
  "acquire_slot tid d = (\<not> list_ex (\<lambda>t. tk_task_id t \<noteq> tid) (find_active_tasks d))"

section \<open>Decisions of the task over the instance\<close>

definition effective_skip :: "normalized_task \<Rightarrow> string list" where
  "effective_skip t = task_disabled_nodes t"

definition branch_mode_of :: "'r orch_env \<Rightarrow> normalized_task \<Rightarrow> branch_mode" where
  "branch_mode_of env t = (case nt_branch_mode t of None \<Rightarrow> oe_branch_mode env | Some m \<Rightarrow> m)"

definition auto_merge_on :: "'r orch_env \<Rightarrow> normalized_task \<Rightarrow> bool" where
  "auto_merge_on env t = (case nt_auto_merge t of None \<Rightarrow> oe_auto_merge env | Some b \<Rightarrow> b)"

definition decomposition_gate_on :: "'r orch_env \<Rightarrow> normalized_task \<Rightarrow> bool" where
  "decomposition_gate_on env t =
     (if nt_decomposition t = Some True then True else if nt_decomposition t = Some False then False else oe_decomposition env)"

text \<open>\<open>load_normalized\<close> on the stored manifest; \<open>None\<close> is an unreadable or malformed one.\<close>

definition persisted_task :: "'r orch_env \<Rightarrow> string \<Rightarrow> 'r \<Rightarrow> normalized_task option" where
  "persisted_task env tid r = (case oe_task_doc env tid r of None \<Rightarrow> None | Some manifest \<Rightarrow> load_normalized manifest)"

definition persisted_branch_mode :: "'r orch_env \<Rightarrow> string \<Rightarrow> 'r \<Rightarrow> branch_mode" where
  "persisted_branch_mode env tid r =
     (case persisted_task env tid r of None \<Rightarrow> oe_branch_mode env | Some t \<Rightarrow> branch_mode_of env t)"

definition persisted_commit_type :: "'r orch_env \<Rightarrow> string \<Rightarrow> 'r \<Rightarrow> string option" where
  "persisted_commit_type env tid r = (case persisted_task env tid r of None \<Rightarrow> None | Some t \<Rightarrow> nt_commit_type t)"

section \<open>Status changes\<close>

text \<open>\<open>_transition\<close>: one transaction; an illegal move changes nothing.\<close>

definition transition_to ::
    "'r orch_env \<Rightarrow> pipeline \<Rightarrow> status \<Rightarrow> (task_row \<Rightarrow> task_row) list \<Rightarrow> ('r, pipeline) orch_m" where
  "transition_to env p dst flds =
     (case assert_transition (pl_status p) dst of
        Inl (InvalidTransition a b) \<Rightarrow> oraise (Escaped ''invalid status transition'')
      | Inr _ \<Rightarrow>
          obind (in_db (\<lambda>d. update_task (oe_now env) (nt_id (pl_task p)) flds
                   (save_counters (oe_now env) (nt_id (pl_task p)) (pl_counters p)
                     (set_status (oe_now env) (nt_id (pl_task p)) dst d)))) (\<lambda>_.
          keep (p\<lparr>pl_status := dst\<rparr>)))"

definition transition_row :: "'r orch_env \<Rightarrow> string \<Rightarrow> status \<Rightarrow> status \<Rightarrow> ('r, unit) orch_m" where
  "transition_row env tid src dst =
     (case assert_transition src dst of
        Inl (InvalidTransition a b) \<Rightarrow> oraise (Escaped ''invalid status transition'')
      | Inr _ \<Rightarrow> in_db (set_status (oe_now env) tid dst))"

section \<open>The ledger and the notifier\<close>

fun status_value :: "status \<Rightarrow> string" where
  "status_value NEW = ''new''"
| "status_value PENDING = ''pending''"
| "status_value VALIDATED = ''validated''"
| "status_value PREPARING = ''preparing''"
| "status_value RUNNING = ''running''"
| "status_value DONE = ''done''"
| "status_value FAILED = ''failed''"
| "status_value MANUAL_ACTION_REQUIRED = ''manual_action_required''"

definition blank_record :: "'r orch_env \<Rightarrow> string \<Rightarrow> string \<Rightarrow> status \<Rightarrow> ledger_record" where
  "blank_record env tid title final =
     \<lparr>lg_id = tid, lg_title = title, lg_final_status = status_value final, lg_finished_at = oe_now env, lg_branch = None,
      lg_pr_url = None, lg_auto_merged = False, lg_merge_outcome = None, lg_fix_iterations = 0, lg_terminal_cleanup = None,
      lg_failure_report = None, lg_validation_reason = None, lg_decomposed = False, lg_subtask_count = None,
      lg_subtasks_completed = None, lg_attempt = 1, lg_rerun_of = None, lg_manual = False, lg_note = None,
      lg_outcome = None, lg_governance_changed = [], lg_advanced_mode = oe_advanced env, lg_recovered_from_stuck = False,
      lg_recovered_loop = None, lg_stop_node = None, lg_stuck_loop = None, lg_stuck_limit = None\<rparr>"

definition to_ledger :: "ledger_record \<Rightarrow> ('r, unit) orch_m" where
  "to_ledger r = ochange (ow_ledger_update (ledger_append r))"

definition notify :: "string \<Rightarrow> status \<Rightarrow> ('r, unit) orch_m" where
  "notify tid final = ochange (ow_notified_update (\<lambda>ns. ns @ [(tid, final)]))"

definition cleanup_word :: "bool \<Rightarrow> string" where
  "cleanup_word safe = (if safe then ''completed'' else ''blocked'')"

text \<open>\<open>_append_ledger\<close>.\<close>

definition terminal_record ::
    "'r orch_env \<Rightarrow> pipeline \<Rightarrow> status \<Rightarrow> string option \<Rightarrow> bool \<Rightarrow> nat \<Rightarrow> string option \<Rightarrow> string option \<Rightarrow> task_row option \<Rightarrow> ledger_record" where
  "terminal_record env p final url safe attempt outcome recovered row =
     (blank_record env (nt_id (pl_task p)) (nt_title (pl_task p)) final)
       \<lparr>lg_branch := opt_text (pl_branch p), lg_pr_url := url, lg_auto_merged := outcome \<noteq> None, lg_merge_outcome := outcome,
        lg_fix_iterations := row_fix_iterations (pl_counters p), lg_terminal_cleanup := Some (cleanup_word safe),
        lg_failure_report := (case row of None \<Rightarrow> None | Some r \<Rightarrow> tk_failure_report_path r),
        lg_decomposed := pl_accepted p, lg_subtask_count := (if pl_accepted p then Some (int (pl_units p)) else None),
        lg_subtasks_completed := (case row of None \<Rightarrow> None | Some r \<Rightarrow> Some (tk_subtasks_completed r)),
        lg_attempt := int attempt, lg_rerun_of := (if attempt > 1 then Some (nt_id (pl_task p)) else None),
        lg_governance_changed := pl_governance p, lg_recovered_from_stuck := recovered \<noteq> None,
        lg_recovered_loop := recovered,
        lg_stop_node := (if final = DONE then None else Option.bind (pl_stop p) sf_node),
        lg_stuck_loop := (if final = DONE then None else Option.bind (pl_stop p) sf_loop),
        lg_stuck_limit := (if final = DONE then None else Option.bind (pl_stop p) sf_limit)\<rparr>"

definition append_ledger ::
    "'r orch_env \<Rightarrow> pipeline \<Rightarrow> status \<Rightarrow> string option \<Rightarrow> bool \<Rightarrow> nat \<Rightarrow> string option \<Rightarrow> string option \<Rightarrow> ('r, unit) orch_m" where
  "append_ledger env p final url safe attempt outcome recovered =
     obind (oask (\<lambda>w. get_task (nt_id (pl_task p)) (ow_db w))) (\<lambda>row.
     to_ledger (terminal_record env p final url safe attempt outcome recovered row))"

section \<open>Moving task files\<close>

fun relocate_subtask_specs :: "'r orch_env \<Rightarrow> string list \<Rightarrow> string \<Rightarrow> string \<Rightarrow> ('r, unit) orch_m" where
  "relocate_subtask_specs env [] src dest = oret ()"
| "relocate_subtask_specs env (ref # refs) src dest =
     obind (oask ow_clone) (\<lambda>r.
     obind (if \<not> oe_is_file env (path_join src ref) r \<or> oe_is_file env (path_join dest ref) r then oret ()
            else case oe_move env (path_join src ref) (path_join dest ref) r of
                   None \<Rightarrow> oret ()
                 | Some r' \<Rightarrow> in_clone (\<lambda>_. r')) (\<lambda>_.
     relocate_subtask_specs env refs src dest))"

definition subtask_refs_of :: "'r orch_env \<Rightarrow> string \<Rightarrow> 'r \<Rightarrow> string list" where
  "subtask_refs_of env path r =
     (case oe_source env path r of
        None \<Rightarrow> []
      | Some src \<Rightarrow> read_subtask_refs (vg_yaml (oe_gate env)) (vg_json (oe_gate env)) src)"

text \<open>\<open>_relocate_task_file\<close>: the destination, when the file moved now or was there already.\<close>

definition relocate_task_file :: "'r orch_env \<Rightarrow> string option \<Rightarrow> string \<Rightarrow> status \<Rightarrow> ('r, string option) orch_m" where
  "relocate_task_file env task_file tid final =
     (case lifecycle_destination task_file final of
        None \<Rightarrow> oret None
      | Some dest \<Rightarrow>
          let src = or_empty task_file
          in if src = dest then oret (Some dest)
             else obind (oask ow_clone) (\<lambda>r.
                  if \<not> oe_is_file env src r then oret (if oe_is_file env dest r then Some dest else None)
                  else case oe_move env src dest r of
                         None \<Rightarrow> oret None
                       | Some r' \<Rightarrow>
                           obind (in_clone (\<lambda>_. r')) (\<lambda>_.
                           obind (update_row env tid [tk_source_path_update (\<lambda>_. Some dest)]) (\<lambda>_.
                           obind (relocate_subtask_specs env (subtask_refs_of env src r) (path_parent src) (path_parent dest)) (\<lambda>_.
                           oret (Some dest))))))"

definition quarantine :: "'r orch_env \<Rightarrow> string \<Rightarrow> ('r, string option) orch_m" where
  "quarantine env path =
     obind (oask ow_clone) (\<lambda>r.
     if \<not> oe_is_file env path r then oret None
     else let dest = path_join (oe_quarantine_folder env) (path_name path)
          in case oe_move env path dest r of
               None \<Rightarrow> oret None
             | Some r' \<Rightarrow> obind (in_clone (\<lambda>_. r')) (\<lambda>_. oret (Some dest)))"

section \<open>Gate refusals\<close>

fun validation_reason_value :: "validation_reason \<Rightarrow> string" where
  "validation_reason_value FILE_TOO_LARGE = ''file_too_large''"
| "validation_reason_value NOT_UTF8 = ''not_utf8''"
| "validation_reason_value BINARY_OR_CONTROL_CHARS = ''binary_or_control_chars''"
| "validation_reason_value TOO_LONG = ''too_long''"
| "validation_reason_value FRONTMATTER_MISSING = ''frontmatter_missing''"
| "validation_reason_value FRONTMATTER_MALFORMED = ''frontmatter_malformed''"
| "validation_reason_value UNKNOWN_TOP_LEVEL_FIELD = ''unknown_top_level_field''"
| "validation_reason_value MISSING_REQUIRED_FIELD = ''missing_required_field''"
| "validation_reason_value INVALID_FIELD_TYPE = ''invalid_field_type''"
| "validation_reason_value INVALID_TASK_ID = ''invalid_task_id''"
| "validation_reason_value INVALID_BRANCH_NAME = ''invalid_branch_name''"
| "validation_reason_value INVALID_BRANCH_MODE = ''invalid_branch_mode''"
| "validation_reason_value DUPLICATE_TASK_ID = ''duplicate_task_id''"
| "validation_reason_value INVALID_NODE_OVERRIDE = ''invalid_node_override''"
| "validation_reason_value INVALID_DEPENDS_ON = ''invalid_depends_on''"
| "validation_reason_value INVALID_REFERENCES = ''invalid_references''"
| "validation_reason_value INJECTION_SUSPECTED = ''injection_suspected''"
| "validation_reason_value INVALID_SUBTASKS = ''invalid_subtasks''"
| "validation_reason_value INVALID_SUBTASK_PATH = ''invalid_subtask_path''"
| "validation_reason_value SUBTASK_FILE_MISSING = ''subtask_file_missing''"
| "validation_reason_value SUBTASK_MALFORMED = ''subtask_malformed''"
| "validation_reason_value SUBTASK_COUNT_OUT_OF_RANGE = ''subtask_count_out_of_range''"
| "validation_reason_value SUBTASK_DEPENDS_FORWARD = ''subtask_depends_forward''"
| "validation_reason_value FLOW_CANNOT_DECOMPOSE = ''flow_cannot_decompose''"

text \<open>\<open>_reject_settled\<close>: only a file proven to be another task leaves its place.\<close>

definition reject_settled :: "'r orch_env \<Rightarrow> string \<Rightarrow> settled_file \<Rightarrow> ('r, string option) orch_m" where
  "reject_settled env path cls = (if cls = FOREIGN then quarantine env path else oret None)"

definition reject_record :: "'r orch_env \<Rightarrow> string \<Rightarrow> validation_reason \<Rightarrow> ledger_record" where
  "reject_record env tid why = (blank_record env tid tid FAILED)\<lparr>lg_validation_reason := Some (validation_reason_value why)\<rparr>"

definition reject :: "'r orch_env \<Rightarrow> string \<Rightarrow> validation_reason \<Rightarrow> ('r, pipeline_result) orch_m" where
  "reject env path why =
     (let tid = path_stem path
      in obind (oask (file_class env tid path)) (\<lambda>cls.
         obind (if cls = NOT_SETTLED
                then obind (quarantine env path) (\<lambda>q.
                     obind (to_ledger (reject_record env tid why)) (\<lambda>_.
                     obind (notify tid FAILED) (\<lambda>_. oret q)))
                else reject_settled env path cls) (\<lambda>q.
         oret \<lparr>rs_task_id = tid, rs_status = FAILED, rs_pr_url = None, rs_reason = Some (validation_reason_value why),
               rs_quarantine = q\<rparr>)))"

definition reject_dependency :: "'r orch_env \<Rightarrow> string \<Rightarrow> ('r, pipeline_result) orch_m" where
  "reject_dependency env path = reject env path INVALID_DEPENDS_ON"

end
