(* ===== verification/OrchTerminal.thy ===== *)
theory OrchTerminal
  imports OrchWorld
begin

text \<open>
  How a run ends (\<open>core/orchestrator.py\<close>): failure reports, the final artifacts, the terminal transition
  with its cleanup, ledger record, notification and exchange seal, and the best-effort publication of a
  failed attempt.
\<close>

section \<open>Guards\<close>

definition exchange_active_unsafe :: "string \<Rightarrow> db \<Rightarrow> bool" where
  "exchange_active_unsafe tid d =
     (case get_exchange_guard tid d of Inl _ \<Rightarrow> False | Inr (contaminated, active_unsafe) \<Rightarrow> active_unsafe)"

definition worktree_is_task_output :: "string \<Rightarrow> db \<Rightarrow> bool" where
  "worktree_is_task_output tid d =
     list_ex (\<lambda>r. nd_node_kind r \<in> {''agent'', ''evaluator'', ''checks'', ''publish''}) (get_node_runs tid d)"

definition checkpoint_node :: "string \<Rightarrow> db \<Rightarrow> string option" where
  "checkpoint_node tid d = (case get_flow_checkpoint tid d of Inl _ \<Rightarrow> None | Inr (node, _, _) \<Rightarrow> node)"

section \<open>Failure reports\<close>

definition INFRA_LOOP :: string where "INFRA_LOOP = ''infra''"

definition infra_report ::
    "'r orch_env \<Rightarrow> string \<Rightarrow> string option \<Rightarrow> string \<Rightarrow> flow_run_state option \<Rightarrow> 'r orch_world \<Rightarrow> failure_report" where
  "infra_report env tid node error rs w =
     \<lparr>rp_task_id = tid, rp_loop = INFRA_LOOP, rp_limit = error,
      rp_counters = (case rs of None \<Rightarrow> Map.empty | Some s \<Rightarrow> loop_counters s), rp_check_log = None,
      rp_findings = (case read_last_findings (oe_loads env) tid (ow_db w) of None \<Rightarrow> [] | Some fs \<Rightarrow> fs),
      rp_diff = oe_final_diff env tid (ow_clone w), rp_decomposed = None,
      rp_evidence = failing_node_evidence tid node (ow_db w)\<rparr>"

definition write_infra_failure_report ::
    "'r orch_env \<Rightarrow> pipeline \<Rightarrow> string option \<Rightarrow> string \<Rightarrow> flow_run_state option \<Rightarrow> ('r, pipeline) orch_m" where
  "write_infra_failure_report env p node error rs =
     (let tid = nt_id (pl_task p)
      in obind (oask (\<lambda>w. oe_write_report env (infra_report env tid node error rs w) (ow_clone w))) (\<lambda>(path, r).
         obind (in_clone (\<lambda>_. r)) (\<lambda>_.
         (case path of
            None \<Rightarrow> oret p
          | Some f \<Rightarrow>
              obind (update_row env tid [tk_failure_report_path_update (\<lambda>_. Some f)]) (\<lambda>_.
              keep (if pl_stop p = None
                    then p\<lparr>pl_stop := Some \<lparr>sf_node = node, sf_loop = None, sf_limit = reason_line (Some error) 160\<rparr>\<rparr>
                    else p))))))"

section \<open>Final artifacts\<close>

definition capture_governance_changed :: "'r orch_env \<Rightarrow> pipeline \<Rightarrow> ('r, pipeline) orch_m" where
  "capture_governance_changed env p =
     obind (via_git env (changed_code_paths_since_task_base (oe_git env))) (\<lambda>paths.
     keep (p\<lparr>pl_governance := oe_gov_floor env paths\<rparr>))"

text \<open>\<open>_move_task_file\<close> and \<open>_finalize_task_artifacts\<close>: whether a summary lies beside the moved file.\<close>

definition move_task_file :: "'r orch_env \<Rightarrow> pipeline \<Rightarrow> status \<Rightarrow> ('r, string option) orch_m" where
  "move_task_file env p final = relocate_task_file env (Some (pl_task_file p)) (nt_id (pl_task p)) final"

definition finalize_task_artifacts :: "'r orch_env \<Rightarrow> pipeline \<Rightarrow> status \<Rightarrow> ('r, pipeline \<times> bool) orch_m" where
  "finalize_task_artifacts env p final =
     obind (capture_governance_changed env p) (\<lambda>p1.
     obind (move_task_file env p1 final) (\<lambda>dest.
     obind (oask (\<lambda>w. oe_write_summary env p1 dest (ow_clone w))) (\<lambda>(written, r).
     obind (in_clone (\<lambda>_. r)) (\<lambda>_.
     oret (p1, dest \<noteq> None \<and> written)))))"

text \<open>A step whose git and file errors are logged and passed over; what it changed before them stays.\<close>

definition best_effort :: "'a \<Rightarrow> ('r, 'a) orch_m \<Rightarrow> ('r, 'a) orch_m" where
  "best_effort x m = ocatch m (\<lambda>e. case e of GitFailed _ \<Rightarrow> oret x | _ \<Rightarrow> oraise e)"

definition explain_terminal :: "'r orch_env \<Rightarrow> pipeline \<Rightarrow> status \<Rightarrow> string option \<Rightarrow> ('r, pipeline \<times> bool) orch_m" where
  "explain_terminal env p final why =
     (let tid = nt_id (pl_task p)
      in obind (oask (\<lambda>w. (get_task tid (ow_db w), checkpoint_node tid (ow_db w)))) (\<lambda>(row, node).
         obind (case row of
                  None \<Rightarrow> oret p
                | Some r \<Rightarrow>
                    if or_empty (tk_failure_report_path r) = [] \<or> pl_stop p = None
                    then write_infra_failure_report env p node
                           (if or_empty why = [] then ''terminal transition to '' @ status_value final else or_empty why) None
                    else oret p) (\<lambda>p1.
         obind (oask ow_clone) (\<lambda>r.
         if oe_summary_exists env tid r then oret (p1, False)
         else best_effort (p1, False) (finalize_task_artifacts env p1 final)))))"

definition recover_failure_artifacts :: "'r orch_env \<Rightarrow> string \<Rightarrow> ('r, string option) orch_m" where
  "recover_failure_artifacts env tid =
     obind (oask (\<lambda>w. oe_retire_report env tid (ow_clone w))) (\<lambda>(l, r). obind (in_clone (\<lambda>_. r)) (\<lambda>_. oret l))"

section \<open>Node runs a hard stop left open\<close>

definition CANCELLED_VALUE :: string where "CANCELLED_VALUE = ''cancelled''"

definition aborted_attempt :: "string \<Rightarrow> string \<Rightarrow> node_run_row \<Rightarrow> string \<Rightarrow> provider_attempt_row" where
  "aborted_attempt tid now run provider =
     \<lparr>provider_attempt_row.at_task_id = tid, at_node_run_id = Some (nd_id run), at_provider = provider, at_attempt = 1,
      at_supervisor_function = None, at_model = None, at_reasoning = None, at_status = Some ''aborted'',
      at_error_class = Some CANCELLED_VALUE, at_exit_code = None, at_attempt_dir = None,
      at_started_at = nd_started_at run, at_finished_at = Some now, at_usage_scope = None, at_usage_input_total = None,
      at_usage_cache_read = None, at_usage_cache_write = None, at_usage_uncached_input = None,
      at_usage_output_total = None, at_usage_reasoning_output = None, at_usage_cost = None,
      at_usage_delta_status = Some ''unknown'', at_provider_usage_raw = None\<rparr>"

definition bill_aborted :: "string \<Rightarrow> string \<Rightarrow> node_run_row \<Rightarrow> db \<Rightarrow> db" where
  "bill_aborted tid now run d =
     (case nd_route_primary run of None \<Rightarrow> d | Some provider \<Rightarrow> record_provider_attempt (aborted_attempt tid now run provider) d)"

definition close_open_runs :: "string \<Rightarrow> string \<Rightarrow> string \<Rightarrow> db \<Rightarrow> db" where
  "close_open_runs now tid why d =
     (case reconcile_open_node_runs tid now ''aborted'' (Some CANCELLED_VALUE) (Some why) d of
        (stranded, d1) \<Rightarrow> fold (bill_aborted tid now) stranded d1)"

section \<open>The exchange and the run artifacts\<close>

definition seal_terminal_exchange ::
    "'r orch_env \<Rightarrow> string \<Rightarrow> status \<Rightarrow> nat \<Rightarrow> bool \<Rightarrow> ('r, unit) orch_m" where
  "seal_terminal_exchange env tid final attempt mutation =
     obind (oask (\<lambda>w. get_exchange_guard tid (ow_db w))) (\<lambda>guard.
     (case guard of
        Inl _ \<Rightarrow> oret ()
      | Inr (contaminated, active_unsafe) \<Rightarrow>
          if active_unsafe then oret ()
          else if contaminated \<or> mutation
          then obind (update_row env tid [tk_exchange_contaminated_update (\<lambda>_. True)]) (\<lambda>_.
               obind (oask (\<lambda>w. oe_quarantine_exchange env tid attempt (ow_clone w))) (\<lambda>(evidence, r).
               obind (in_clone (\<lambda>_. r)) (\<lambda>_.
               (case evidence of
                  Inl _ \<Rightarrow> update_row env tid [tk_exchange_active_unsafe_update (\<lambda>_. True)]
                | Inr None \<Rightarrow> oret ()
                | Inr (Some ref) \<Rightarrow> in_db (append_quarantine_ref (oe_now env) tid ref)))))
          else obind (oask (\<lambda>w. oe_seal env tid final (ow_clone w))) (\<lambda>(sealed, r).
               obind (in_clone (\<lambda>_. r)) (\<lambda>_.
               if sealed then oret () else update_row env tid [tk_exchange_active_unsafe_update (\<lambda>_. True)]))))"

definition evict_run_artifacts :: "'r orch_env \<Rightarrow> string \<Rightarrow> status \<Rightarrow> ('r, unit) orch_m" where
  "evict_run_artifacts env tid final =
     (if final \<noteq> DONE \<or> \<not> oe_clean_runs env then oret ()
      else obind (oask (\<lambda>w. get_exchange_guard tid (ow_db w))) (\<lambda>guard.
           (case guard of
              Inl _ \<Rightarrow> oret ()
            | Inr (contaminated, active_unsafe) \<Rightarrow>
                if contaminated \<or> active_unsafe then oret () else in_clone (oe_remove_runs env tid))))"

section \<open>The terminal transition\<close>

definition WITHHELD :: string where
  "WITHHELD = ''terminal cleanup withheld: provider tree not proven quiescent''"

text \<open>The cleanup a terminal may do: none over a tree not proven quiescent.\<close>

definition terminal_cleanup_for :: "'r orch_env \<Rightarrow> string \<Rightarrow> status \<Rightarrow> branch_mode \<Rightarrow> ('r, cleanup_outcome) orch_m" where
  "terminal_cleanup_for env tid st mode =
     obind (oask (\<lambda>w. (exchange_active_unsafe tid (ow_db w), worktree_is_task_output tid (ow_db w)))) (\<lambda>(withheld, own_work).
     if withheld then oret (unsafe_cleanup (oe_git env) WITHHELD)
     else via_git env (terminal_cleanup (oe_git env) mode (st = MANUAL_ACTION_REQUIRED \<and> own_work)))"

definition last_error :: "string option \<Rightarrow> cleanup_outcome \<Rightarrow> string option" where
  "last_error why c =
     (if or_empty why \<noteq> [] \<and> or_empty (co_error c) \<noteq> [] \<and> \<not> co_safe c
      then Some (or_empty why @ ''; terminal cleanup: '' @ or_empty (co_error c))
      else if or_empty why \<noteq> [] then why else co_error c)"

definition cleanup_fields :: "'r orch_env \<Rightarrow> cleanup_outcome \<Rightarrow> string option \<Rightarrow> (task_row \<Rightarrow> task_row) list" where
  "cleanup_fields env c err =
     [tk_cleanup_target_branch_update (\<lambda>_. Some (co_target_branch c)), tk_cleanup_completed_update (\<lambda>_. Some (co_safe c)),
      tk_cleanup_completed_at_update (\<lambda>_. if co_safe c then Some (oe_now env) else None),
      tk_cleanup_last_error_update (\<lambda>_. err)]"

definition unparked :: "(task_row \<Rightarrow> task_row) list" where
  "unparked = [tk_blocked_since_update (\<lambda>_. None), tk_blocked_until_update (\<lambda>_. None)]"

definition done_fields :: "string option \<Rightarrow> (task_row \<Rightarrow> task_row) list" where
  "done_fields recovered =
     [tk_current_node_update (\<lambda>_. None), tk_flow_run_counters_update (\<lambda>_. None), tk_flow_fingerprint_update (\<lambda>_. None),
      tk_failure_report_path_update (\<lambda>_. None), tk_recovered_loop_update (\<lambda>_. recovered)]"

text \<open>The part after the outcome is decided: transition, file, ledger, notification, exchange.\<close>

definition settle ::
    "'r orch_env \<Rightarrow> pipeline \<Rightarrow> status \<Rightarrow> string option \<Rightarrow> cleanup_outcome \<Rightarrow> bool \<Rightarrow> string option \<Rightarrow> bool \<Rightarrow> string option \<Rightarrow>
     ('r, pipeline_result) orch_m" where
  "settle env p final url c already_moved outcome mutation recovered =
     (let tid = nt_id (pl_task p)
      in obind (transition_to env p final [tk_finished_at_update (\<lambda>_. Some (oe_now env))]) (\<lambda>p1.
         obind (if already_moved then oret None else move_task_file env p1 final) (\<lambda>_.
         obind (oask (\<lambda>w. ledger_attempt_count tid (ow_ledger w) + 1)) (\<lambda>attempt.
         obind (append_ledger env p1 final url (co_safe c) attempt outcome recovered) (\<lambda>_.
         obind (notify tid final) (\<lambda>_.
         obind (seal_terminal_exchange env tid final attempt mutation) (\<lambda>_.
         obind (evict_run_artifacts env tid final) (\<lambda>_.
         oret \<lparr>rs_task_id = tid, rs_status = final, rs_pr_url = url, rs_reason = None, rs_quarantine = None\<rparr>))))))))"

definition go_terminal ::
    "'r orch_env \<Rightarrow> pipeline \<Rightarrow> status \<Rightarrow> string option \<Rightarrow> string option \<Rightarrow> bool \<Rightarrow> string option \<Rightarrow> bool \<Rightarrow>
     ('r, pipeline_result) orch_m" where
  "go_terminal env p st url why moved outcome mutation =
     (let tid = nt_id (pl_task p)
      in obind (terminal_cleanup_for env tid st (branch_mode_of env (pl_task p))) (\<lambda>c.
         (let final = (if \<not> co_safe c \<and> st = DONE then MANUAL_ACTION_REQUIRED else st)
          in obind (if st \<noteq> DONE then in_clone (oe_failure_memory env tid) else oret ()) (\<lambda>_.
             obind (update_row env tid (cleanup_fields env c (last_error why c) @ unparked)) (\<lambda>_.
             obind (if final \<noteq> DONE
                    then obind (explain_terminal env p final (last_error why c)) (\<lambda>(p1, m). oret (p1, m \<or> moved))
                    else oret (p, moved)) (\<lambda>(p1, moved1).
             obind (in_db (close_open_runs (oe_now env) tid
                      (if or_empty why \<noteq> [] then or_empty why else ''terminal transition to '' @ status_value final))) (\<lambda>_.
             obind (if final = DONE
                    then obind (recover_failure_artifacts env tid) (\<lambda>l.
                         obind (update_row env tid (done_fields l)) (\<lambda>_. oret l))
                    else oret None) (\<lambda>recovered.
             settle env p1 final url c moved1 outcome mutation recovered))))))))"

section \<open>An attempt that failed\<close>

text \<open>\<open>_declare_private_report_dir\<close>: the frozen flow, else the live one, else no declaration.\<close>

definition resolve_flow :: "'r orch_env \<Rightarrow> pipeline \<Rightarrow> ('r, flow_snapshot) orch_m" where
  "resolve_flow env p =
     obind (oask ow_clone) (\<lambda>r.
     (case oe_flow env (nt_task_type (pl_task p)) r of
        None \<Rightarrow> oraise (PipelineFailed ''the flow does not resolve'')
      | Some snap \<Rightarrow>
          (case validate_disabled_nodes snap (task_disabled_nodes (pl_task p)) of
             Inl _ \<Rightarrow> oraise (PipelineFailed ''the flow does not resolve'')
           | Inr _ \<Rightarrow> oret snap)))"

definition declared_flow :: "'r orch_env \<Rightarrow> pipeline \<Rightarrow> 'r orch_world \<Rightarrow> flow_snapshot option" where
  "declared_flow env p w =
     (let live = (case fst (resolve_flow env p w) of Inl _ \<Rightarrow> None | Inr snap \<Rightarrow> Some snap)
      in case get_control_bundle_digest (nt_id (pl_task p)) (ow_db w) of
           Inr (Some digest) \<Rightarrow>
             (case oe_load_bundle env (nt_id (pl_task p)) digest (ow_clone w) of Inl _ \<Rightarrow> live | Inr snap \<Rightarrow> Some snap)
         | _ \<Rightarrow> live)"

definition private_dirs :: "string \<Rightarrow> flow_snapshot option \<Rightarrow> string option \<times> string option" where
  "private_dirs tid snap =
     (case snap of
        None \<Rightarrow> (None, None)
      | Some s \<Rightarrow>
          (let r = resolve_output_policy (doc_output_policy (doc s)) tid (report_dir (doc s))
           in if private_report r then (report_subdir r, report_base r) else (None, None)))"

definition declare_private_report_dir :: "'r orch_env \<Rightarrow> pipeline \<Rightarrow> ('r, unit) orch_m" where
  "declare_private_report_dir env p =
     obind (oask (declared_flow env p)) (\<lambda>snap.
     (case private_dirs (nt_id (pl_task p)) snap of
        (d, b) \<Rightarrow> via_git env (set_private_report_dir d b)))"

text \<open>The commit, the audit commit and the push of a failed attempt.\<close>

definition failure_verb :: "status \<Rightarrow> string" where
  "failure_verb st = (if st = FAILED then ''failed attempt'' else ''manual action required'')"

definition em_dash :: string where "em_dash = [CHR 0x97]"

definition publish_attempt :: "'r orch_env \<Rightarrow> pipeline \<Rightarrow> status \<Rightarrow> ('r, unit) orch_m" where
  "publish_attempt env p st =
     (let tid = nt_id (pl_task p)
      in obind (via_git env (commit_code (oe_git env) tid
              (''chore('' @ tid @ ''): '' @ failure_verb st @ '' '' @ em_dash @ '' '' @ nt_title (pl_task p)))) (\<lambda>_.
         obind (oask (\<lambda>w. oe_packet_digest env tid (ow_clone w))) (\<lambda>packet.
         obind (via_git env (commit_audit (oe_git env) tid packet)) (\<lambda>_.
         obind (via_git env (push_branch (oe_git env) tid (pl_branch p) BM_NEW)) (\<lambda>_. oret ())))))"

definition fail_run ::
    "'r orch_env \<Rightarrow> pipeline \<Rightarrow> string \<Rightarrow> status \<Rightarrow> string option \<Rightarrow> flow_run_state option \<Rightarrow> ('r, pipeline_result) orch_m" where
  "fail_run env p error st node rs =
     obind (write_infra_failure_report env p node error rs) (\<lambda>p1.
     obind (oask (\<lambda>w. exchange_active_unsafe (nt_id (pl_task p)) (ow_db w))) (\<lambda>withheld.
     if pl_branch p1 = [] \<or> withheld then go_terminal env p1 st None (Some error) False None False
     else obind (declare_private_report_dir env p1) (\<lambda>_.
          obind (best_effort None (obind (finalize_task_artifacts env p1 st) (\<lambda>x. oret (Some x)))) (\<lambda>finalized.
          (case finalized of
             None \<Rightarrow> go_terminal env p1 st None (Some error) False None False
           | Some (p2, moved) \<Rightarrow>
               obind (best_effort () (publish_attempt env p2 st)) (\<lambda>_.
               go_terminal env p2 st None (Some error) moved None False))))))"

end
