(* ===== verification/OrchRun.thy ===== *)
theory OrchRun
  imports OrchTerminal
begin

text \<open>
  One run of a task (\<open>core/orchestrator.py\<close>): claiming, the checks before a branch is taken, the drive of
  the flow and what each of its endings becomes, parking on a provider outage, and the resumption of the
  one unfinished task after a restart.
\<close>

section \<open>Parking\<close>

definition instants :: "'r orch_env \<Rightarrow> string \<Rightarrow> string \<Rightarrow> (int \<times> int) option" where
  "instants env a b =
     (case (oe_instant env a, oe_instant env b) of
        (Some (za, ta), Some (zb, tb)) \<Rightarrow> if za = zb then Some (ta, tb) else None
      | _ \<Rightarrow> None)"

text \<open>Instants are counted in microseconds; those with and without a time zone do not compare.\<close>

definition park_ceiling :: "'r orch_env \<Rightarrow> int" where
  "park_ceiling env = oe_max_blocked_s env * 1000000"

definition park_wake_instant :: "'r orch_env \<Rightarrow> infra_error \<Rightarrow> string \<Rightarrow> string option" where
  "park_wake_instant env e parked_since =
     (case ie_resets_at e of
        None \<Rightarrow> None
      | Some resets \<Rightarrow>
          if ie_class e = Some AGENT_CANCELLED then None
          else (case (instants env resets (oe_now env), instants env resets parked_since, oe_instant env resets) of
                  (Some (wake, now), Some (_, since), Some (zone, _)) \<Rightarrow>
                    if wake \<le> now then None
                    else Some (oe_isoformat env (zone, if since + park_ceiling env < wake then since + park_ceiling env else wake))
                | _ \<Rightarrow> None))"

definition still_blocked :: "'r orch_env \<Rightarrow> string option \<Rightarrow> bool" where
  "still_blocked env until =
     (case until of
        None \<Rightarrow> False
      | Some u \<Rightarrow> (case instants env u (oe_now env) of None \<Rightarrow> False | Some (wake, now) \<Rightarrow> now < wake))"

definition whole_seconds :: "int \<Rightarrow> string" where
  "whole_seconds us = show_int ((us + 500000) div 1000000)"

definition park_ceiling_exceeded :: "'r orch_env \<Rightarrow> string \<Rightarrow> db \<Rightarrow> string option" where
  "park_ceiling_exceeded env tid d =
     (case Option.bind (get_task tid d) tk_blocked_since of
        None \<Rightarrow> None
      | Some since \<Rightarrow>
          (case instants env (oe_now env) since of
             None \<Rightarrow> None
           | Some (now, parked) \<Rightarrow>
               if now - parked > park_ceiling env
               then Some (''provider outage exceeded agents.retry.max_blocked_s ('' @ whole_seconds (now - parked) @ ''s parked > '' @
                          whole_seconds (park_ceiling env) @ ''s)'')
               else None))"

definition plain_result :: "string \<Rightarrow> status \<Rightarrow> pipeline_result" where
  "plain_result tid st = \<lparr>rs_task_id = tid, rs_status = st, rs_pr_url = None, rs_reason = None, rs_quarantine = None\<rparr>"

definition park :: "'r orch_env \<Rightarrow> pipeline \<Rightarrow> infra_error \<Rightarrow> ('r, pipeline_result) orch_m" where
  "park env p e =
     (let tid = nt_id (pl_task p)
      in obind (oask (\<lambda>w. Option.bind (get_task tid (ow_db w)) tk_blocked_since)) (\<lambda>prior.
         (let since = (case prior of None \<Rightarrow> oe_now env | Some s \<Rightarrow> s)
          in obind (update_row env tid [tk_blocked_since_update (\<lambda>_. Some since),
                      tk_blocked_until_update (\<lambda>_. park_wake_instant env e since)]) (\<lambda>_.
             oret (plain_result tid RUNNING)))))"

section \<open>How a drive of the flow ends\<close>

definition evaluator_degrade_reason :: "'r orch_env \<Rightarrow> string \<Rightarrow> infra_error \<Rightarrow> 'r \<Rightarrow> string" where
  "evaluator_degrade_reason env tid e r =
     (if py_strip (oe_final_diff env tid r) = [] then ie_text e @ '' (no changes were produced to review)'' else ie_text e)"

definition terminal_infra_manual :: "'r orch_env \<Rightarrow> pipeline \<Rightarrow> infra_error \<Rightarrow> flow_run_state \<Rightarrow> ('r, pipeline_result) orch_m" where
  "terminal_infra_manual env p e rs =
     obind (owhen (CONTAINMENT_UNVERIFIED \<in> set (ie_classes e))
              (update_row env (nt_id (pl_task p)) [tk_exchange_active_unsafe_update (\<lambda>_. True)])) (\<lambda>_.
     fail_run env p (ie_text e) MANUAL_ACTION_REQUIRED (current_node rs) (Some rs))"

definition dispatch_infra_exhaustion ::
    "'r orch_env \<Rightarrow> pipeline \<Rightarrow> infra_error \<Rightarrow> flow_run_state \<Rightarrow> status \<Rightarrow> string \<Rightarrow> ('r, pipeline_result) orch_m" where
  "dispatch_infra_exhaustion env p e rs st why =
     (case classify_exhaustion (ie_classes e) (ie_class e) of
        MANUAL \<Rightarrow> terminal_infra_manual env p e rs
      | PARK \<Rightarrow> park env p e
      | TERMINAL_DISPOSITION \<Rightarrow> fail_run env p why st (current_node rs) (Some rs))"

definition auto_merge :: "'r orch_env \<Rightarrow> pipeline \<Rightarrow> string \<Rightarrow> ('r, pipeline_result) orch_m" where
  "auto_merge env p url =
     (let t = pl_task p
      in obind (ocatch
            (via_git env (merge_pr (oe_git env) (nt_id t) url (oe_merge_strategy env) (oe_wait_for_checks env)
               (Some (merge_commit_subject (nt_id t) (nt_title t) (Some url) (nt_commit_type t))) (Some [])))
            (\<lambda>e. case e of GitFailed msg \<Rightarrow> oraise (ManualRequired (''auto-merge blocked: '' @ msg)) | _ \<Rightarrow> oraise e)) (\<lambda>outcome.
         go_terminal env p DONE (Some url) None True outcome False))"

definition finish_engine_run :: "'r orch_env \<Rightarrow> pipeline \<Rightarrow> flow_run_result \<Rightarrow> ('r, pipeline_result) orch_m" where
  "finish_engine_run env p res =
     (let tid = nt_id (pl_task p)
      in if fr_status res = DONE
         then obind (oask (\<lambda>w. (recorded_pr_url tid (ow_db w), task_had_skipped_checks tid (ow_db w)))) (\<lambda>(url, skipped).
              if or_empty url \<noteq> [] \<and> auto_merge_on env (pl_task p) \<and> \<not> skipped
              then auto_merge env p (or_empty url)
              else go_terminal env p DONE url None True None False)
         else if fr_status res = MANUAL_ACTION_REQUIRED
         then obind (keep (p\<lparr>pl_stop := Some \<lparr>sf_node = Some (fr_final_node res), sf_loop = fr_stuck_loop res,
                               sf_limit = fr_limit_name res\<rparr>\<rparr>)) (\<lambda>p1.
              go_terminal env p1 MANUAL_ACTION_REQUIRED None
                (Some (if or_empty (fr_limit_name res) = [] then ''stuck'' else or_empty (fr_limit_name res))) False None False)
         else fail_run env p (if or_empty (fr_limit_name res) = [] then ''flow run failed'' else or_empty (fr_limit_name res))
                FAILED None None)"

definition cancelled_infra :: "string \<Rightarrow> infra_error" where
  "cancelled_infra msg = \<lparr>ie_text = msg, ie_class = Some AGENT_CANCELLED, ie_classes = [AGENT_CANCELLED], ie_resets_at = None\<rparr>"

definition synced :: "pipeline \<Rightarrow> flow_run_state \<Rightarrow> ('r, pipeline) orch_m" where
  "synced p rs = keep (p\<lparr>pl_counters := from_run_state rs\<rparr>)"

definition after_phases :: "'r orch_env \<Rightarrow> phases_end \<Rightarrow> flow_run_state \<Rightarrow> pipeline \<Rightarrow> ('r, pipeline_result) orch_m" where
  "after_phases env how rs p0 =
     (let tid = nt_id (pl_task p0)
      in case how of
           PhasesRaised e \<Rightarrow> oraise e
         | FlowEnded res \<Rightarrow> obind (synced p0 rs) (\<lambda>p. finish_engine_run env p res)
         | NodeManualRequired msg mutation \<Rightarrow>
             obind (synced p0 rs) (\<lambda>p.
             obind (owhen mutation (update_row env tid [tk_exchange_contaminated_update (\<lambda>_. True)])) (\<lambda>_.
             go_terminal env p MANUAL_ACTION_REQUIRED None (Some msg) False None mutation))
         | FlowStopped msg \<Rightarrow> obind (synced p0 rs) (\<lambda>p. park env p (cancelled_infra msg))
         | EvaluatorInfraError e \<Rightarrow>
             obind (synced p0 rs) (\<lambda>p.
             obind (oask (\<lambda>w. evaluator_degrade_reason env tid e (ow_clone w))) (\<lambda>why.
             dispatch_infra_exhaustion env p e rs MANUAL_ACTION_REQUIRED why))
         | NodeInfraError e \<Rightarrow> obind (synced p0 rs) (\<lambda>p. dispatch_infra_exhaustion env p e rs FAILED (ie_text e)))"

section \<open>The drive\<close>

text \<open>A gate before the first node: its refusal ends the run as manual action.\<close>

definition refuse :: "'r orch_env \<Rightarrow> pipeline \<Rightarrow> string \<Rightarrow> ('r, pipeline_result) orch_m" where
  "refuse env p why = go_terminal env p MANUAL_ACTION_REQUIRED None (Some why) False None False"

text \<open>\<open>_prepare_control_bundle\<close>: a fresh or adopting run freezes the live control plane, any other resume
  verifies the frozen one.\<close>

definition prepare_control_bundle :: "'r orch_env \<Rightarrow> pipeline \<Rightarrow> bool \<Rightarrow> bool \<Rightarrow> ('r, string + flow_snapshot) orch_m" where
  "prepare_control_bundle env p resume adopt =
     (let tid = nt_id (pl_task p)
      in if \<not> resume \<or> adopt
         then obind (resolve_flow env p) (\<lambda>live.
              obind (oask (\<lambda>w. oe_freeze env tid live (ow_clone w))) (\<lambda>frozen.
              (case frozen of
                 Inl why \<Rightarrow> oret (Inl why)
               | Inr (digest, r) \<Rightarrow>
                   obind (in_clone (\<lambda>_. r)) (\<lambda>_.
                   obind (update_row env tid [tk_control_bundle_digest_update (\<lambda>_. Some digest)]) (\<lambda>_. oret (Inr live))))))
         else obind (oask (\<lambda>w. (get_control_bundle_digest tid (ow_db w), ow_clone w, fst (resolve_flow env p w)))) (\<lambda>(digest, r, live).
              (case digest of
                 Inl e \<Rightarrow> oraise (Escaped (oe_store_text env e))
               | Inr None \<Rightarrow> oret (Inl ''no persisted control-bundle digest to resume against; use a fresh rerun'')
               | Inr (Some expected) \<Rightarrow>
                   (case oe_load_bundle env tid expected r of
                      Inl why \<Rightarrow> oret (Inl why)
                    | Inr snap \<Rightarrow>
                        (case (live, oe_live_digest env snap r) of
                           (Inr _, Some now_digest) \<Rightarrow>
                             if now_digest = expected then oret (Inr snap)
                             else oret (Inl ''live control plane was edited while the task was parked; use a fresh rerun/restart to adopt it'')
                         | _ \<Rightarrow> oret (Inl ''live control plane changed since the task was frozen; use a fresh rerun/restart''))))))"

definition guard_current_exchange :: "'r orch_env \<Rightarrow> string \<Rightarrow> bool \<Rightarrow> ('r, string option) orch_m" where
  "guard_current_exchange env tid adopt =
     obind (oask (\<lambda>w. get_exchange_guard tid (ow_db w))) (\<lambda>guard.
     (case guard of
        Inl e \<Rightarrow> oraise (Escaped (oe_store_text env e))
      | Inr (contaminated, active_unsafe) \<Rightarrow>
          obind (owhen (contaminated \<and> adopt) (update_row env tid [tk_exchange_contaminated_update (\<lambda>_. False)])) (\<lambda>_.
          obind (oask (\<lambda>w. oe_ensure_exchange env tid (contaminated \<and> \<not> adopt) active_unsafe (ow_clone w))) (\<lambda>ensured.
          (case ensured of
             Inl why \<Rightarrow> oret (Some why)
           | Inr r \<Rightarrow> obind (in_clone (\<lambda>_. r)) (\<lambda>_. oret None))))))"

definition fresh_run_state :: "string \<Rightarrow> flow_run_state" where
  "fresh_run_state fp = \<lparr>flow_fingerprint = fp, current_node = None, completed_nodes = [], loop_counters = Map.empty\<rparr>"

text \<open>From the frozen agent inputs to the end of the run.\<close>

definition run_frozen ::
    "'r orch_env \<Rightarrow> pipeline \<Rightarrow> flow_snapshot \<Rightarrow> flow_run_state \<Rightarrow> bool \<Rightarrow> bool \<Rightarrow> ('r, pipeline_result) orch_m" where
  "run_frozen env p snap rs resume adopt =
     obind (oask (\<lambda>w. oe_inputs env p resume adopt (ow_clone w))) (\<lambda>inputs.
     (case inputs of
        Inl why \<Rightarrow> refuse env p (''agent inputs: '' @ why)
      | Inr (digest, r) \<Rightarrow>
          obind (in_clone (\<lambda>_. r)) (\<lambda>_.
          obind (owhen (\<not> resume \<or> adopt)
                   (update_row env (nt_id (pl_task p)) [tk_instruction_manifest_digest_update (\<lambda>_. digest)])) (\<lambda>_.
          (\<lambda>w. case oe_run_phases env p snap rs resume w of
             ((how, rs1, p1), w1) \<Rightarrow> obind (keep p1) (after_phases env how rs1) w1)))))"

definition engine_run_task :: "'r orch_env \<Rightarrow> pipeline \<Rightarrow> bool \<Rightarrow> flow_run_state option \<Rightarrow> ('r, pipeline_result) orch_m" where
  "engine_run_task env p resume rs =
     (let tid = nt_id (pl_task p)
      in obind (oask (\<lambda>w. (oe_clear_foreign env tid (ow_clone w), resume \<and> tid \<in> set (ow_continue_adopt w)))) (\<lambda>(cleared, adopt).
         (case cleared of
            Inl why \<Rightarrow> refuse env p (''exchange not clean: '' @ why)
          | Inr r \<Rightarrow>
              obind (in_clone (\<lambda>_. r)) (\<lambda>_.
              obind (if resume then guard_current_exchange env tid adopt else oret None) (\<lambda>bad.
              (case bad of
                 Some why \<Rightarrow> refuse env p (''exchange restore: '' @ why)
               | None \<Rightarrow>
                   obind (prepare_control_bundle env p resume adopt) (\<lambda>bundle.
                   (case bundle of
                      Inl why \<Rightarrow> refuse env p (''control plane: '' @ why)
                    | Inr snap \<Rightarrow>
                        (case private_dirs tid (Some snap) of
                           (d, b) \<Rightarrow>
                             obind (via_git env (set_private_report_dir d b)) (\<lambda>_.
                             (case rs of
                                None \<Rightarrow> run_frozen env p snap (fresh_run_state (snap_fingerprint snap)) resume adopt
                              | Some s \<Rightarrow>
                                  if snap_fingerprint snap \<noteq> flow_fingerprint s
                                  then refuse env p ''control plane: frozen flow does not match checkpoint; rerun fresh''
                                  else run_frozen env p snap s resume adopt)))))))))))"

definition prepare_task_branch :: "'r orch_env \<Rightarrow> pipeline \<Rightarrow> string \<Rightarrow> string option \<Rightarrow> ('r, pipeline) orch_m" where
  "prepare_task_branch env p slug override =
     (let t = pl_task p
      in obind (via_git env (prepare_branch (oe_git env) (nt_id t) slug (oe_epoch env) override
              (branch_mode_of env t) (nt_branch_ref t))) (\<lambda>branch.
         obind (keep (p\<lparr>pl_slug := slug, pl_branch := branch\<rparr>)) (\<lambda>p1.
         obind (update_row env (nt_id t) [tk_branch_update (\<lambda>_. Some branch), tk_slug_update (\<lambda>_. Some slug)]) (\<lambda>_. oret p1))))"

definition isolation_text :: "string list \<Rightarrow> string" where
  "isolation_text reasons = ''isolation: '' @ concat (case reasons of [] \<Rightarrow> [] | r # rs \<Rightarrow> r # map (\<lambda>s. ''; '' @ s) rs)"

definition drive_via_engine :: "'r orch_env \<Rightarrow> pipeline \<Rightarrow> ('r, pipeline_result) orch_m" where
  "drive_via_engine env p =
     obind (resolve_flow env p) (\<lambda>_.
     obind (case pl_operator_split p of
              None \<Rightarrow> oret p
            | Some d \<Rightarrow>
                obind (keep (p\<lparr>pl_accepted := dd_accepted d, pl_units := dd_n d\<rparr>)) (\<lambda>p1.
                obind (oe_split env p1 d) (\<lambda>_. oret p1))) (\<lambda>p1.
     if oe_isolation_reasons env \<noteq> [] then oraise (PipelineFailed (isolation_text (oe_isolation_reasons env)))
     else obind (transition_to env p1 PREPARING []) (\<lambda>p2.
          obind (prepare_task_branch env p2 (slugify (nt_title (pl_task p2))) (nt_branch_name (pl_task p2))) (\<lambda>p3.
          obind (transition_to env p3 RUNNING []) (\<lambda>p4.
          engine_run_task env p4 False None)))))"

section \<open>Checks before a branch is taken\<close>

text \<open>\<open>_resolve_subtask_path\<close> on spellings without symbolic links.\<close>

definition resolve_subtask_path :: "'r orch_env \<Rightarrow> string \<Rightarrow> string \<Rightarrow> 'r \<Rightarrow> validation_reason + string" where
  "resolve_subtask_path env ref base r =
     (if \<not> ref_inside ref then Inl INVALID_SUBTASK_PATH
      else let resolved = normpath (path_join base ref)
           in if \<not> starts_with resolved (base @ ''/'') then Inl INVALID_SUBTASK_PATH
              else if path_parent resolved = base then Inl INVALID_SUBTASK_PATH
              else if \<not> oe_is_file env resolved r then Inl SUBTASK_FILE_MISSING
              else Inr resolved)"

fun read_spec_files ::
    "'r orch_env \<Rightarrow> string list \<Rightarrow> string \<Rightarrow> string list \<Rightarrow> 'r \<Rightarrow> validation_reason + subtask_spec_file list" where
  "read_spec_files env [] base seen r = Inr []"
| "read_spec_files env (ref # refs) base seen r =
     bind_res (resolve_subtask_path env ref base r) (\<lambda>path.
     (case Option.bind (oe_source env path r) (\<lambda>s. Option.bind (src_text s) (read_subtask_spec (vg_yaml (oe_gate env)))) of
        None \<Rightarrow> Inl SUBTASK_MALFORMED
      | Some spec \<Rightarrow>
          if ssf_slug spec \<in> set seen then Inl SUBTASK_MALFORMED
          else bind_res (read_spec_files env refs base (ssf_slug spec # seen) r) (\<lambda>rest. Inr (spec # rest))))"

text \<open>The orders of the slugs, from the list of slugs in order.\<close>

fun order_of :: "string list \<Rightarrow> string \<Rightarrow> int option" where
  "order_of [] s = None"
| "order_of (x # xs) s = (if x = s then Some 1 else map_option (\<lambda>n. n + 1) (order_of xs s))"

fun spec_units :: "string list \<Rightarrow> int \<Rightarrow> subtask_spec_file list \<Rightarrow> validation_reason + subtask_spec list" where
  "spec_units slugs n [] = Inr []"
| "spec_units slugs n (f # fs) =
     bind_res (map_res (\<lambda>dep. case order_of slugs dep of
          None \<Rightarrow> Inl SUBTASK_DEPENDS_FORWARD
        | Some k \<Rightarrow> if k \<ge> n then Inl SUBTASK_DEPENDS_FORWARD else Inr k) (ssf_depends_on f)) (\<lambda>deps.
     bind_res (spec_units slugs (n + 1) fs) (\<lambda>rest.
     Inr (\<lparr>sp_order = n, sp_title = ssf_title f, sp_slug = ssf_slug f, sp_criteria = ssf_criteria f,
           sp_depends_on = deps, sp_body = Some (ssf_body f)\<rparr> # rest)))"

definition validate_operator_subtasks :: "'r orch_env \<Rightarrow> normalized_task \<Rightarrow> string \<Rightarrow> 'r \<Rightarrow> validation_reason + split_decision option" where
  "validate_operator_subtasks env t path r =
     (if nt_subtasks t = [] then Inr None
      else case oe_flow env (nt_task_type t) r of
        None \<Rightarrow> Inl FLOW_CANNOT_DECOMPOSE
      | Some snap \<Rightarrow>
          if decomposition (doc snap) = None then Inl FLOW_CANNOT_DECOMPOSE
          else bind_res (read_spec_files env (nt_subtasks t) (path_parent (oe_resolve_dir env path)) [] r) (\<lambda>files.
               bind_res (spec_units (map ssf_slug files) 1 files) (\<lambda>specs.
               (let d = decide_operator_decomposition specs (oe_max_subtasks env)
                in if dd_accepted d then Inr (Some d)
                   else Inl (if dd_reason d = N_OUT_OF_RANGE then SUBTASK_COUNT_OUT_OF_RANGE else SUBTASK_DEPENDS_FORWARD)))))"

definition validate_branch_mode :: "'r orch_env \<Rightarrow> normalized_task \<Rightarrow> ('r, validation_reason option) orch_m" where
  "validate_branch_mode env t =
     (case branch_mode_of env t of
        BM_EXISTING \<Rightarrow>
          obind (via_git env (local_or_remote_branch_exists (oe_git env) (or_empty (nt_branch_ref t)))) (\<lambda>b.
          oret (if b then None else Some INVALID_BRANCH_MODE))
      | BM_CURRENT \<Rightarrow>
          obind (via_git env (current_branch (oe_git env))) (\<lambda>b.
          oret (if b = None then Some INVALID_BRANCH_MODE else None))
      | BM_NEW \<Rightarrow> oret None)"

section \<open>Running one task file\<close>

text \<open>The gate with the two duplicate-id questions answered by the store and the ledger.\<close>

definition gate_now :: "'r orch_env \<Rightarrow> 'r orch_world \<Rightarrow> validation_gate" where
  "gate_now env w = (oe_gate env)\<lparr>vg_store_has_task_id := (\<lambda>i. task_id_exists i (ow_db w)),
     vg_ledger_has_task_id := (\<lambda>i. ledger_has_task_id i (ow_ledger w)),
     vg_only_validation_rejects := (\<lambda>i. only_validation_rejects i (ow_ledger w))\<rparr>"

definition new_row :: "normalized_task \<Rightarrow> string \<Rightarrow> string option \<Rightarrow> task_row" where
  "new_row t path digest =
     \<lparr>tk_task_id = nt_id t, tk_title = nt_title t, tk_status = NEW, tk_source_path = Some path, tk_source_sha256 = digest,
      tk_branch = None, tk_slug = None, tk_created_at = None, tk_updated_at = None, tk_validation_passed = Some True,
      tk_validation_reason = None, tk_refinement_ran = None, tk_refinement_skip_reason = None, tk_test_fix_cycles = 0,
      tk_review_fix_cycles = 0, tk_test_fix_total = 0, tk_review_fix_total = 0, tk_fix_iterations = 0,
      tk_decomposition_enabled = None, tk_decomposition_accepted = None, tk_decomposition_reason = None, tk_subtask_count = None,
      tk_active_subtask = None, tk_subtasks_completed = 0, tk_failure_report_path = None, tk_recovered_loop = None,
      tk_cleanup_target_branch = None, tk_cleanup_completed = None, tk_cleanup_completed_at = None, tk_cleanup_last_error = None,
      tk_finished_at = None, tk_current_node = None, tk_flow_run_counters = None, tk_flow_fingerprint = None,
      tk_blocked_since = None, tk_blocked_until = None, tk_control_bundle_digest = None, tk_instruction_manifest_digest = None,
      tk_exchange_contaminated = False, tk_exchange_active_unsafe = False, tk_gate_reference_sha = None, tk_push_url_digest = None,
      tk_base_ref = None, tk_quarantine_refs = None\<rparr>"

definition register_task :: "'r orch_env \<Rightarrow> normalized_task \<Rightarrow> string \<Rightarrow> string option \<Rightarrow> ('r, unit) orch_m" where
  "register_task env t path digest =
     obind (in_db (insert_task (oe_now env) (new_row t path digest))) (\<lambda>_.
     obind (in_clone (oe_write_task_doc env (nt_id t) (write_normalized t))) (\<lambda>_.
     obind (in_clone (oe_store_report env (nt_id t))) (\<lambda>_.
     transition_row env (nt_id t) NEW VALIDATED)))"

definition zero_counters :: loop_counters_row where
  "zero_counters = \<lparr>test_fix_cycles = 0, review_fix_cycles = 0, test_fix_total = 0, review_fix_total = 0, row_fix_iterations = 0\<rparr>"

definition new_pipeline :: "normalized_task \<Rightarrow> string \<Rightarrow> split_decision option \<Rightarrow> pipeline" where
  "new_pipeline t path split =
     \<lparr>pl_task = t, pl_task_file = path, pl_status = VALIDATED, pl_counters = zero_counters, pl_accepted = False, pl_units = 1,
      pl_branch = [], pl_slug = [], pl_skip = effective_skip t, pl_operator_split = split, pl_governance = [], pl_stop = None\<rparr>"

definition busy_text :: "string \<Rightarrow> db \<Rightarrow> string" where
  "busy_text tid d =
     (case List.find (\<lambda>t. tk_task_id t \<noteq> tid) (find_active_tasks d) of
        None \<Rightarrow> ''another task is active; '' @ tid @ '' must wait''
      | Some b \<Rightarrow>
          ''another task is active: '' @ tk_task_id b @
          (case or_empty (checkpoint_node (tk_task_id b) d) of [] \<Rightarrow> [] | n \<Rightarrow> '' at node '' @ n) @ ''; '' @ tid @ '' must wait'')"

text \<open>The handlers of \<open>run_task\<close> and of \<open>_resume_task\<close>, on the context as the stages left it.\<close>

definition context_or :: "pipeline \<Rightarrow> 'r orch_world \<Rightarrow> pipeline" where
  "context_or p w = (case ow_run w of None \<Rightarrow> p | Some q \<Rightarrow> q)"

definition guarded_run ::
    "'r orch_env \<Rightarrow> pipeline \<Rightarrow> (pipeline \<Rightarrow> string \<Rightarrow> ('r, pipeline_result) orch_m) \<Rightarrow> ('r, pipeline_result) orch_m \<Rightarrow>
     ('r, pipeline_result) orch_m" where
  "guarded_run env p on_failure m =
     obind (keep p) (\<lambda>_.
     ocatch m (\<lambda>e.
       obind (oask (context_or p)) (\<lambda>q.
       (case e of
          ManualRequired why \<Rightarrow> go_terminal env q MANUAL_ACTION_REQUIRED None (Some why) False None False
        | PipelineFailed why \<Rightarrow> on_failure q why
        | GitFailed why \<Rightarrow> on_failure q why
        | _ \<Rightarrow> oraise e))))"

definition run_task :: "'r orch_env \<Rightarrow> string \<Rightarrow> ('r, pipeline_result) orch_m" where
  "run_task env path =
     obind (oask (\<lambda>w. (oe_source env path (ow_clone w), gate_now env w))) (\<lambda>(source, gate).
     (case source of
        None \<Rightarrow> oraise (Escaped ''the task file cannot be read'')
      | Some src \<Rightarrow>
          (case validate gate src of
             Inl why \<Rightarrow> reject env path why
           | Inr (t, _) \<Rightarrow>
               obind (oask (\<lambda>w. validate_operator_subtasks env t path (ow_clone w))) (\<lambda>split.
               (case split of
                  Inl why \<Rightarrow> reject env path why
                | Inr decision \<Rightarrow>
                    obind (validate_branch_mode env t) (\<lambda>bad.
                    (case bad of
                       Some why \<Rightarrow> reject env path why
                     | None \<Rightarrow>
                         obind (oask (\<lambda>w. (acquire_slot (nt_id t) (ow_db w), busy_text (nt_id t) (ow_db w),
                                            ge_file_digest (oe_git env) path (ow_clone w)))) (\<lambda>(free, busy, digest).
                         if \<not> free then oraise (SlotBusyError busy)
                         else obind (register_task env t path digest) (\<lambda>_.
                              (let p = new_pipeline t path decision
                               in guarded_run env p (\<lambda>q why. fail_run env q why FAILED None None) (drive_via_engine env p)))))))))))"

section \<open>Resuming after a restart\<close>

fun mark_manual :: "'r orch_env \<Rightarrow> string option \<Rightarrow> string list \<Rightarrow> ('r, unit) orch_m" where
  "mark_manual env why [] = oret ()"
| "mark_manual env why (tid # tids) =
     obind (in_db (set_status (oe_now env) tid MANUAL_ACTION_REQUIRED)) (\<lambda>_.
     obind (update_row env tid [tk_finished_at_update (\<lambda>_. Some (oe_now env)), tk_cleanup_last_error_update (\<lambda>_. why)]) (\<lambda>_.
     obind (oask (\<lambda>w. (get_task tid (ow_db w), ledger_has_task_id tid (ow_ledger w)))) (\<lambda>(row, known).
     obind (case row of
              None \<Rightarrow> oret ()
            | Some r \<Rightarrow>
                if known then oret ()
                else obind (to_ledger ((blank_record env tid (tk_title r) MANUAL_ACTION_REQUIRED)
                             \<lparr>lg_branch := tk_branch r, lg_fix_iterations := tk_fix_iterations r\<rparr>)) (\<lambda>_.
                     notify tid MANUAL_ACTION_REQUIRED)) (\<lambda>_.
     mark_manual env why tids))))"

definition resume_manual :: "'r orch_env \<Rightarrow> recovery_plan \<Rightarrow> ('r, pipeline_result) orch_m" where
  "resume_manual env plan =
     obind (mark_manual env (map_option (oe_recovery_text env) (rv_reason plan)) (rv_manual_tasks plan)) (\<lambda>_.
     oret (plain_result (case rv_manual_tasks plan of t # _ \<Rightarrow> t | [] \<Rightarrow> or_empty (rv_task plan)) MANUAL_ACTION_REQUIRED))"

definition resume_terminal_cleanup :: "'r orch_env \<Rightarrow> string \<Rightarrow> status \<Rightarrow> ('r, cleanup_outcome) orch_m" where
  "resume_terminal_cleanup env tid st =
     obind (oask (\<lambda>w. persisted_branch_mode env tid (ow_clone w))) (terminal_cleanup_for env tid st)"

definition resume_cleanup :: "'r orch_env \<Rightarrow> string option \<Rightarrow> ('r, pipeline_result option) orch_m" where
  "resume_cleanup env task =
     (case task of
        None \<Rightarrow> oret None
      | Some tid \<Rightarrow>
          obind (oask (\<lambda>w. get_task tid (ow_db w))) (\<lambda>row.
          (case row of
             None \<Rightarrow> oret None
           | Some r \<Rightarrow>
               obind (resume_terminal_cleanup env tid (tk_status r)) (\<lambda>c.
               obind (update_row env tid (cleanup_fields env c (co_error c))) (\<lambda>_.
               obind (oask (\<lambda>w. ledger_has_task_id tid (ow_ledger w))) (\<lambda>known.
               obind (if known then oret ()
                      else obind (to_ledger ((blank_record env tid (tk_title r) (tk_status r))
                                    \<lparr>lg_branch := tk_branch r, lg_fix_iterations := tk_fix_iterations r,
                                     lg_terminal_cleanup := Some (cleanup_word (co_safe c))\<rparr>)) (\<lambda>_.
                           notify tid (tk_status r))) (\<lambda>_.
               oret (if co_safe c then Some (plain_result tid (tk_status r)) else None))))))))"

definition counters_of :: "string \<Rightarrow> db \<Rightarrow> loop_counters_row" where
  "counters_of tid d = (case get_counters tid d of Inl _ \<Rightarrow> zero_counters | Inr c \<Rightarrow> c)"

definition blank_task :: "string \<Rightarrow> string \<Rightarrow> normalized_task" where
  "blank_task tid title =
     \<lparr>nt_id = tid, nt_title = title, nt_description = [], nt_task_type = None, nt_branch_name = None, nt_branch_mode = None,
      nt_branch_ref = None, nt_publish = None, nt_auto_merge = None, nt_prompt_audit = None, nt_decomposition = None,
      nt_trust_level = None, nt_commit_type = None, nt_contacts = [], nt_depends_on = [], nt_priority = MID,
      nt_queue = DEFAULT_QUEUE, nt_subtasks = [], nt_references = [], nt_node_overrides = []\<rparr>"

text \<open>\<open>_rebuild_decomposition\<close>: whether the split was accepted and its number of units.\<close>

definition rebuilt_units :: "task_row \<Rightarrow> db \<Rightarrow> bool \<times> nat" where
  "rebuilt_units r d =
     (if tk_decomposition_accepted r \<noteq> Some True then (False, 1)
      else (True, case tk_subtask_count r of
              Some n \<Rightarrow> if n = 0 then length (get_subtasks (tk_task_id r) d) else nat n
            | None \<Rightarrow> length (get_subtasks (tk_task_id r) d)))"

definition stored_pipeline :: "task_row \<Rightarrow> normalized_task \<Rightarrow> string \<Rightarrow> string list \<Rightarrow> db \<Rightarrow> pipeline" where
  "stored_pipeline r t slug skips d =
     (case rebuilt_units r d of
        (accepted, n) \<Rightarrow>
          \<lparr>pl_task = t, pl_task_file = or_empty (tk_source_path r), pl_status = tk_status r,
           pl_counters = counters_of (tk_task_id r) d, pl_accepted = accepted, pl_units = n,
           pl_branch = or_empty (tk_branch r), pl_slug = slug, pl_skip = skips, pl_operator_split = None,
           pl_governance = [], pl_stop = None\<rparr>)"

definition degraded_pipeline :: "task_row \<Rightarrow> db \<Rightarrow> pipeline" where
  "degraded_pipeline r d =
     stored_pipeline r (blank_task (tk_task_id r) (tk_title r)) (or_empty (tk_slug r)) [] d"

definition resume_via_engine :: "'r orch_env \<Rightarrow> pipeline \<Rightarrow> ('r, pipeline_result) orch_m" where
  "resume_via_engine env p =
     (let tid = nt_id (pl_task p)
      in obind (oask (\<lambda>w. (hydrate_run_state tid (ow_db w), park_ceiling_exceeded env tid (ow_db w),
                           Option.bind (get_task tid (ow_db w)) tk_blocked_until))) (\<lambda>(state, ceiling, until).
         (case state of
            Inl e \<Rightarrow> oraise (Escaped (oe_store_text env e))
          | Inr rs \<Rightarrow>
              (case ceiling of
                 Some why \<Rightarrow> fail_run env p why FAILED (Option.bind rs current_node) rs
               | None \<Rightarrow>
                   if still_blocked env until then oret (plain_result tid RUNNING)
                   else (case rs of
                     None \<Rightarrow>
                       obind (if pl_status p \<in> {NEW, PENDING, VALIDATED} then oret p
                              else obind (in_db (set_status (oe_now env) tid VALIDATED)) (\<lambda>_. keep (p\<lparr>pl_status := VALIDATED\<rparr>)))
                         (drive_via_engine env)
                   | Some s \<Rightarrow>
                       obind (prepare_task_branch env p (pl_slug p)
                                (if pl_branch p = [] then nt_branch_name (pl_task p) else Some (pl_branch p))) (\<lambda>p1.
                       engine_run_task env p1 True (Some s)))))))"

definition resume_task :: "'r orch_env \<Rightarrow> string \<Rightarrow> ('r, pipeline_result) orch_m" where
  "resume_task env tid =
     obind (oask (\<lambda>w. (get_task tid (ow_db w), persisted_task env tid (ow_clone w), ow_db w))) (\<lambda>(row, stored, d).
     (case row of
        None \<Rightarrow> oraise (Escaped ''no such task'')
      | Some r \<Rightarrow>
          (case stored of
             None \<Rightarrow>
               obind (keep (degraded_pipeline r d)) (\<lambda>p.
               go_terminal env p MANUAL_ACTION_REQUIRED None (Some ''corrupt normalized task artifact'') False None False)
           | Some t \<Rightarrow>
               (let p = stored_pipeline r t (if or_empty (tk_slug r) = [] then slugify (nt_title t) else or_empty (tk_slug r))
                          (effective_skip t) d
                in guarded_run env p (\<lambda>q why. go_terminal env q FAILED None (Some why) False None False)
                     (resume_via_engine env p)))))"

text \<open>The branch test of the reconciler reads the clone; a parameter here answers it from the world.\<close>

definition on_branch_now :: "'r orch_env \<Rightarrow> 'r orch_world \<Rightarrow> string \<Rightarrow> string \<Rightarrow> bool" where
  "on_branch_now env w sha branch =
     (case fst (commit_on_branch (oe_git env) sha branch (ow_git w)) of Inl _ \<Rightarrow> False | Inr b \<Rightarrow> b)"

definition resume :: "'r orch_env \<Rightarrow> ('r, pipeline_result option) orch_m" where
  "resume env =
     obind (oask (\<lambda>w. reconcile (on_branch_now env w) (ow_db w))) (\<lambda>plan.
     (case rv_action plan of
        RA_NONE \<Rightarrow> oret None
      | RA_MANUAL \<Rightarrow> obind (resume_manual env plan) (\<lambda>r. oret (Some r))
      | RA_CLEANUP \<Rightarrow> resume_cleanup env (rv_task plan)
      | RA_RESUME \<Rightarrow> obind (resume_task env (or_empty (rv_task plan))) (\<lambda>r. oret (Some r))))"

end
