(* ===== verification/Scheduler.thy ===== *)
theory Scheduler
  imports OrchRun "HOL-Library.Product_Lexorder"
begin

text \<open>
  Which task runs next: the order of the pending files, the dependencies between tasks
  (\<open>core/orchestrator.py\<close>), one pass of the watcher with its claim gate, the loop around it, the
  promotion of staged files and the stop ladder (\<open>cli.py\<close>).  The directory listing, the monotonic
  clock and the answers of the operator are functions of the environment.
\<close>

section \<open>The natural order of file names\<close>

type_synonym natural_token = "nat \<times> nat \<times> string"
type_synonym natural_key = "natural_token list \<times> string"

definition strip_zeros :: "string \<Rightarrow> string" where
  "strip_zeros s = dropWhile (\<lambda>c. c = CHR ''0'') s"

text \<open>One token per maximal run of digits or of other characters.\<close>

function natural_tokens :: "string \<Rightarrow> natural_token list" where
  "natural_tokens [] = []"
| "natural_tokens (c # cs) =
     (let p = (\<lambda>d. is_digit d = is_digit c);
          run = takeWhile p (c # cs);
          token = (if is_digit c then (1, length (strip_zeros run), strip_zeros run) else (0, 0, run))
      in token # natural_tokens (dropWhile p cs))"
  by pat_completeness auto
termination
  by (relation "measure length") (auto simp: le_imp_less_Suc length_dropWhile_le)

definition natural_sort_key :: "string \<Rightarrow> natural_key" where
  "natural_sort_key name = (natural_tokens (casefold name), name)"

section \<open>Pending files\<close>

record pending_scan =
  ps_task_id :: "string option"
  ps_depends_on :: "string list"
  ps_priority_rank :: nat
  ps_queue :: string
  ps_title :: "string option"

record human_answer =
  ha_failure :: "string option"
  ha_answered :: bool
  ha_approved :: "bool option"

record 'r sched_env =
  se_orch :: "'r orch_env"
  se_list :: "string \<Rightarrow> 'r \<Rightarrow> string list option"
  se_exists :: "string \<Rightarrow> 'r \<Rightarrow> bool"
  se_auto :: bool
  se_queue :: string
  se_confirm :: bool
  se_monotonic :: "nat \<Rightarrow> int"
  se_answer :: "nat \<Rightarrow> string \<Rightarrow> human_answer"

definition path_suffix :: "string \<Rightarrow> string" where
  "path_suffix path = drop (length (path_stem path)) (path_name path)"

definition select_pending :: "'r sched_env \<Rightarrow> string \<Rightarrow> 'r \<Rightarrow> string list" where
  "select_pending env folder r =
     (case se_list env folder r of
        None \<Rightarrow> []
      | Some names \<Rightarrow>
          map (path_join folder)
            (sort_key natural_sort_key (filter (\<lambda>n. py_lower (path_suffix n) \<in> {''.md'', ''.json''}) names)))"

definition unread_scan :: pending_scan where
  "unread_scan = \<lparr>ps_task_id = None, ps_depends_on = [], ps_priority_rank = priority_rank YNone, ps_queue = DEFAULT_QUEUE,
     ps_title = None\<rparr>"

text \<open>A text field that says something, stripped.\<close>

definition said :: "yval \<Rightarrow> string option" where
  "said v = (case v of YStr s \<Rightarrow> opt_text (py_strip s) | _ \<Rightarrow> None)"

definition scan_pending_meta :: "'r sched_env \<Rightarrow> string \<Rightarrow> 'r \<Rightarrow> pending_scan" where
  "scan_pending_meta env path r =
     (case Option.bind (oe_source (se_orch env) path r)
             (\<lambda>src. map_option (\<lambda>text. split_frontmatter (vg_yaml (oe_gate (se_orch env))) (vg_json (oe_gate (se_orch env)))
                                        text (src_suffix src)) (src_text src)) of
        None \<Rightarrow> unread_scan
      | Some parse \<Rightarrow>
          if \<not> fp_present parse \<or> fp_malformed parse then unread_scan
          else let fm = fp_frontmatter parse
               in \<lparr>ps_task_id = (case get_or_none fm ''id'' of YStr s \<Rightarrow> Some s | _ \<Rightarrow> None),
                   ps_depends_on = (case get_or fm ''depends_on'' (YList []) of
                       YList deps \<Rightarrow> (case non_blank_texts deps of None \<Rightarrow> [] | Some ds \<Rightarrow> ds)
                     | _ \<Rightarrow> []),
                   ps_priority_rank = priority_rank (get_or_none fm ''priority''),
                   ps_queue = (case said (get_or_none fm ''queue'') of None \<Rightarrow> DEFAULT_QUEUE | Some q \<Rightarrow> q),
                   ps_title = said (get_or_none fm ''title'')\<rparr>)"

definition scan_key :: "string \<times> pending_scan \<Rightarrow> nat \<times> natural_key" where
  "scan_key item = (ps_priority_rank (snd item), natural_sort_key (path_name (fst item)))"

definition scan_pending_sorted :: "'r sched_env \<Rightarrow> string \<Rightarrow> string \<Rightarrow> 'r \<Rightarrow> (string \<times> pending_scan) list" where
  "scan_pending_sorted env folder selector r =
     sort_key scan_key (filter (\<lambda>(p, s). ps_queue s = selector)
       (map (\<lambda>p. (p, scan_pending_meta env p r)) (select_pending env folder r)))"

definition find_task_file :: "'r sched_env \<Rightarrow> string \<Rightarrow> string \<Rightarrow> 'r \<Rightarrow> string option" where
  "find_task_file env folder target r =
     List.find (\<lambda>p. target = path_name p \<or> target = path_stem p \<or> Some target = ps_task_id (scan_pending_meta env p r))
       (select_pending env folder r)"

section \<open>Promoting staged files\<close>

type_synonym promotion = "string list \<times> string list"

definition promote_one :: "'r sched_env \<Rightarrow> string \<Rightarrow> string \<Rightarrow> promotion \<Rightarrow> ('r, promotion) orch_m" where
  "promote_one env src dest out =
     (case out of (moved, errors) \<Rightarrow>
        obind (oask ow_clone) (\<lambda>r.
        if \<not> oe_is_file (se_orch env) src r then oret (moved, errors @ [''no such staged file: '' @ path_name src])
        else if se_exists env dest r
        then oret (moved, errors @ [path_name dest @ '' already in pending '' @ em_dash @ '' not overwriting a queued task''])
        else (case oe_move (se_orch env) src dest r of
                None \<Rightarrow> oraise (Escaped ''the staged file cannot be moved'')
              | Some r' \<Rightarrow> obind (in_clone (\<lambda>_. r')) (\<lambda>_. oret (moved @ [path_name dest], errors)))))"

fun promote_each :: "'r sched_env \<Rightarrow> (string \<times> string) list \<Rightarrow> promotion \<Rightarrow> ('r, promotion) orch_m" where
  "promote_each env [] out = oret out"
| "promote_each env ((src, dest) # rest) out = obind (promote_one env src dest out) (promote_each env rest)"

definition promote_tasks ::
    "'r sched_env \<Rightarrow> string \<Rightarrow> string \<Rightarrow> string option \<Rightarrow> bool \<Rightarrow> ('r, promotion) orch_m" where
  "promote_tasks env preparing pending target all_files =
     obind (oask ow_clone) (\<lambda>r.
     if all_files
     then obind (promote_each env (map (\<lambda>f. (f, path_join (path_join pending ''subtasks'') (path_name f)))
                   (select_pending env (path_join preparing ''subtasks'') r)) ([], [])) (\<lambda>out1.
          obind (oask ow_clone) (\<lambda>r1.
          obind (promote_each env (map (\<lambda>f. (f, path_join pending (path_name f))) (select_pending env preparing r1)) out1)
            (\<lambda>(moved, errors).
          oret (if moved = [] \<and> errors = [] then ([], [''nothing staged in '' @ path_name preparing @ ''/'']) else (moved, errors)))))
     else if or_empty target = [] then oret ([], [''nothing to promote: give a task id/file or --all''])
     else (case find_task_file env preparing (or_empty target) r of
             None \<Rightarrow> oret ([], [repr_string (or_empty target) @ '' is not a staged file in '' @ path_name preparing @ ''/''])
           | Some root_file \<Rightarrow>
               promote_each env
                 (map (\<lambda>ref. (path_join preparing ref, path_join pending ref)) (subtask_refs_of (se_orch env) root_file r) @
                  [(root_file, path_join pending (path_name root_file))]) ([], [])))"

section \<open>Dependencies\<close>

datatype eligibility = ELIGIBLE | WAITING | BROKEN

record dependency_verdict =
  dv_state :: eligibility
  dv_detail :: string

type_synonym pending_map = "(string \<times> string list) list"

definition is_pending :: "pending_map \<Rightarrow> string \<Rightarrow> bool" where
  "is_pending pending d = (d \<in> fst ` set pending)"

text \<open>The edges the search follows: those between pending tasks.\<close>

definition pending_edges :: "pending_map \<Rightarrow> pending_map" where
  "pending_edges pending = map (\<lambda>(k, ds). (k, filter (is_pending pending) ds)) pending"

lemma pending_edges_keys [simp]: "fst ` set (pending_edges pending) = fst ` set pending"
  by (force simp: pending_edges_def image_iff)

function cycle_search :: "pending_map \<Rightarrow> string \<Rightarrow> string list \<Rightarrow> string list \<Rightarrow> bool" where
  "cycle_search adj start [] seen = False"
| "cycle_search adj start (x # stack) seen =
     (if x = start then True
      else if x \<in> set seen then cycle_search adj start stack seen
      else cycle_search adj start (rev (succs adj x) @ stack) (x # seen))"
  by pat_completeness auto
termination
proof (relation "measures [\<lambda>(adj, start, stack, seen). card (fst ` set adj - set seen),
    \<lambda>(adj, start, stack, seen). length stack]", goal_cases)
  case 1
  show ?case by simp
next
  case (2 adj start x stack seen)
  then show ?case by simp
next
  case (3 adj start x stack seen)
  then show ?case
    by (cases "x \<in> fst ` set adj")
      (use dfs_decreases [of x adj seen] in simp,
       use dfs_keeps [of x adj seen] succs_no_key [of x adj] in simp)
qed

definition in_cycle :: "string \<Rightarrow> pending_map \<Rightarrow> bool" where
  "in_cycle start pending =
     cycle_search (pending_edges pending) start (rev (succs (pending_edges pending) start)) []"

text \<open>\<open>' '.join(text.lower().split())\<close>.\<close>

function py_words :: "string \<Rightarrow> string list" where
  "py_words [] = []"
| "py_words (c # cs) =
     (if py_space c then py_words cs
      else (c # takeWhile (\<lambda>d. \<not> py_space d) cs) # py_words (dropWhile (\<lambda>d. \<not> py_space d) cs))"
  by pat_completeness auto
termination
  by (relation "measure length") (auto simp: le_imp_less_Suc length_dropWhile_le)

definition norm_title :: "string \<Rightarrow> string" where
  "norm_title title = join_with (CHR '' '') (py_words (py_lower title))"

definition replacement_hint :: "string \<Rightarrow> string option \<Rightarrow> ledger_record list \<Rightarrow> string" where
  "replacement_hint dep title records =
     (if or_empty title = [] then []
      else (case List.find (\<lambda>r. lg_id r \<noteq> dep \<and> lg_final_status r = status_value DONE \<and>
                              norm_title (lg_title r) = norm_title (or_empty title)) records of
              None \<Rightarrow> []
            | Some r \<Rightarrow> '' '' @ em_dash @ '' '' @ quoted dep @ '' looks abandoned; did you mean '' @ quoted (lg_id r) @
                        '' (same title, done)?''))"

definition dependency_merged :: "'r orch_env \<Rightarrow> string \<Rightarrow> ('r, eligibility \<times> string) orch_m" where
  "dependency_merged env dep =
     obind (oask (\<lambda>w. recorded_pr_url dep (ow_db w))) (\<lambda>url.
     (case url of
        None \<Rightarrow> oret (ELIGIBLE, [])
      | Some u \<Rightarrow>
          obind (via_git env (pr_merge_state (oe_git env) u)) (\<lambda>(state, sha).
          if state = Some ''MERGED''
          then obind (via_git env (record_external_merge (oe_git env) dep u)) (\<lambda>_.
               obind (case sha of None \<Rightarrow> oret () | Some s \<Rightarrow> via_git env (backfill_merge_sha (oe_git env) dep s)) (\<lambda>_.
               oret (ELIGIBLE, [])))
          else (case state of
                  None \<Rightarrow> oret (WAITING, ''dependency '' @ quoted dep @ '' merge state unconfirmable'')
                | Some s \<Rightarrow> oret (WAITING, ''dependency '' @ quoted dep @ '' PR is '' @ s @ '' (unmerged)'')))))"

definition resolve_dependency :: "'r orch_env \<Rightarrow> pending_map \<Rightarrow> string \<Rightarrow> ('r, eligibility \<times> string) orch_m" where
  "resolve_dependency env pending dep =
     obind (oask (\<lambda>w. (get_task dep (ow_db w), ow_ledger w))) (\<lambda>(row, records).
     (case row of
        Some r \<Rightarrow>
          if tk_status r = DONE then dependency_merged env dep
          else if tk_status r \<in> {FAILED, MANUAL_ACTION_REQUIRED}
          then oret (WAITING, ''dependency '' @ quoted dep @ '' is '' @ status_value (tk_status r) @ '' (unmerged)'' @
                     replacement_hint dep (Some (tk_title r)) records)
          else oret (WAITING, ''dependency '' @ quoted dep @ '' is in flight ('' @ status_value (tk_status r) @ '')'')
      | None \<Rightarrow>
          if is_pending pending dep then oret (WAITING, ''dependency '' @ quoted dep @ '' is pending (not yet run)'')
          else if ledger_has_task_id dep records
          then (if list_ex (\<lambda>r. lg_id r = dep \<and> lg_final_status r = status_value DONE) records then dependency_merged env dep
                else oret (WAITING, ''dependency '' @ quoted dep @ '' terminated unmerged'' @
                           replacement_hint dep (map_option lg_title (List.find (\<lambda>r. lg_id r = dep) records)) records))
          else oret (BROKEN, ''depends on unknown task '' @ quoted dep)))"

fun resolve_each ::
    "'r orch_env \<Rightarrow> pending_map \<Rightarrow> string list \<Rightarrow> dependency_verdict \<Rightarrow> ('r, dependency_verdict) orch_m" where
  "resolve_each env pending [] verdict = oret verdict"
| "resolve_each env pending (dep # deps) verdict =
     obind (resolve_dependency env pending dep) (\<lambda>(state, detail).
     if state = BROKEN then oret \<lparr>dv_state = BROKEN, dv_detail = detail\<rparr>
     else resolve_each env pending deps
            (if state = WAITING \<and> dv_state verdict = ELIGIBLE then \<lparr>dv_state = WAITING, dv_detail = detail\<rparr> else verdict))"

definition dependency_eligibility ::
    "'r orch_env \<Rightarrow> string \<Rightarrow> string list \<Rightarrow> pending_map \<Rightarrow> ('r, dependency_verdict) orch_m" where
  "dependency_eligibility env tid deps pending =
     (if deps = [] then oret \<lparr>dv_state = ELIGIBLE, dv_detail = []\<rparr>
      else if in_cycle tid pending
      then oret \<lparr>dv_state = BROKEN, dv_detail = ''dependency cycle involving '' @ quoted tid\<rparr>
      else resolve_each env pending deps \<lparr>dv_state = ELIGIBLE, dv_detail = []\<rparr>)"

definition refresh_repo :: "'r orch_env \<Rightarrow> ('r, unit) orch_m" where
  "refresh_repo env = via_git env (refresh_base (oe_git env))"

section \<open>One pass of the watcher\<close>

text \<open>\<open>WatchNotes\<close>, and how often the clock was read or the operator asked.\<close>

record watch_notes =
  wn_declined :: "string \<rightharpoonup> int"
  wn_withheld :: "string list"
  wn_asked :: nat

type_synonym 'r sched = "'r orch_world \<times> watch_notes"

text \<open>What a pass did, with the result it reports.\<close>

datatype pass_event =
    Resumed pipeline_result
  | RejectedDep string pipeline_result
  | Ran string pipeline_result

primrec event_result :: "pass_event \<Rightarrow> pipeline_result" where
  "event_result (Resumed r) = r"
| "event_result (RejectedDep path r) = r"
| "event_result (Ran path r) = r"

definition DECLINE_COOLOFF_S :: int where "DECLINE_COOLOFF_S = 3600"

definition confirm_next_task ::
    "'r sched_env \<Rightarrow> string option \<Rightarrow> string option \<Rightarrow> watch_notes \<Rightarrow> bool \<times> watch_notes" where
  "confirm_next_task env tid title notes =
     (let context = ''Task '' @ (if or_empty tid = [] then ''(unknown id)'' else or_empty tid) @
                    (if or_empty title = [] then [] else '' '' @ em_dash @ '' '' @ or_empty title);
          a = se_answer env (wn_asked notes) context
      in (ha_failure a = None \<and> ha_answered a \<and> ha_approved a = Some True, notes\<lparr>wn_asked := wn_asked notes + 1\<rparr>))"

text \<open>The gate with its memory; \<open>kept\<close> says whether the caller keeps notes.\<close>

definition claim_allowed ::
    "'r sched_env \<Rightarrow> bool \<Rightarrow> string option \<Rightarrow> string option \<Rightarrow> watch_notes \<Rightarrow> bool \<times> watch_notes" where
  "claim_allowed env kept tid title notes =
     (let until = (if kept then Option.bind tid (wn_declined notes) else None)
      in if (case until of None \<Rightarrow> False | Some t \<Rightarrow> se_monotonic env (wn_asked notes) < t) then (False, notes)
         else case confirm_next_task env tid title notes of
                (True, notes1) \<Rightarrow> (True, notes1)
              | (False, notes1) \<Rightarrow>
                  (False, case tid of
                            Some t \<Rightarrow>
                              if kept then notes1\<lparr>wn_declined := (wn_declined notes1)(t \<mapsto> se_monotonic env (wn_asked notes1) + DECLINE_COOLOFF_S)\<rparr>
                              else notes1
                          | None \<Rightarrow> notes1))"

definition withhold :: "bool \<Rightarrow> string option \<Rightarrow> watch_notes \<Rightarrow> watch_notes" where
  "withhold kept tid notes =
     (case tid of Some t \<Rightarrow> if kept then notes\<lparr>wn_withheld := wn_withheld notes @ [t]\<rparr> else notes | None \<Rightarrow> notes)"

text \<open>The verdict on the dependencies; a file without an id or without dependencies has none to wait for.\<close>

definition scan_verdict ::
    "'r sched_env \<Rightarrow> pending_map \<Rightarrow> pending_scan \<Rightarrow> ('r, dependency_verdict) orch_m" where
  "scan_verdict env pending scan =
     (case ps_task_id scan of
        None \<Rightarrow> oret \<lparr>dv_state = ELIGIBLE, dv_detail = []\<rparr>
      | Some tid \<Rightarrow> dependency_eligibility (se_orch env) tid (ps_depends_on scan) pending)"

definition left_for_operator :: "'r sched_env \<Rightarrow> string \<Rightarrow> pending_scan \<Rightarrow> 'r orch_world \<Rightarrow> bool" where
  "left_for_operator env path scan w =
     (case ps_task_id scan of None \<Rightarrow> False | Some tid \<Rightarrow> settled_own_file (se_orch env) tid path w)"

fun watch_scans ::
    "'r sched_env \<Rightarrow> bool \<Rightarrow> pending_map \<Rightarrow> (string \<times> pending_scan) list \<Rightarrow> 'r sched \<Rightarrow>
     (orch_error option \<times> pass_event list) \<times> 'r sched" where
  "watch_scans env kept pending [] s = ((None, []), s)"
| "watch_scans env kept pending ((path, scan) # scans) (w, notes) =
     (if \<not> acquire_slot [] (ow_db w) then ((None, []), w, notes)
      else if left_for_operator env path scan w then watch_scans env kept pending scans (w, notes)
      else case scan_verdict env pending scan w of
             (Inl e, w1) \<Rightarrow> ((Some e, []), w1, notes)
           | (Inr verdict, w1) \<Rightarrow>
               if dv_state verdict = WAITING
               then watch_scans env kept pending scans (w1, withhold kept (ps_task_id scan) notes)
               else if dv_state verdict = BROKEN
               then (case reject_dependency (se_orch env) path w1 of
                       (Inl e, w2) \<Rightarrow> ((Some e, []), w2, notes)
                     | (Inr r, w2) \<Rightarrow>
                         (case watch_scans env kept pending scans (w2, notes) of
                            ((e, evs), s') \<Rightarrow> ((e, RejectedDep path r # evs), s')))
               else (case (if se_confirm env then claim_allowed env kept (ps_task_id scan) (ps_title scan) notes else (True, notes)) of
                       (False, notes1) \<Rightarrow> ((None, []), w1, withhold kept (ps_task_id scan) notes1)
                     | (True, notes1) \<Rightarrow>
                         (case run_task (se_orch env) path w1 of
                            (Inl e, w2) \<Rightarrow> ((Some e, []), w2, notes1)
                          | (Inr r, w2) \<Rightarrow>
                              if rs_status r = MANUAL_ACTION_REQUIRED \<or> \<not> se_auto env then ((None, [Ran path r]), w2, notes1)
                              else (case watch_scans env kept pending scans (w2, notes1) of
                                      ((e, evs), s') \<Rightarrow> ((e, Ran path r # evs), s')))))"

definition pending_of :: "(string \<times> pending_scan) list \<Rightarrow> pending_map" where
  "pending_of scans = rev (List.map_filter (\<lambda>(p, s). map_option (\<lambda>t. (t, ps_depends_on s)) (ps_task_id s)) scans)"

definition watch_once ::
    "'r sched_env \<Rightarrow> bool \<Rightarrow> string \<Rightarrow> string option \<Rightarrow> 'r sched \<Rightarrow> (orch_error option \<times> pass_event list) \<times> 'r sched" where
  "watch_once env kept folder queue s =
     (case s of (w, notes) \<Rightarrow>
        (case resume (se_orch env) w of
           (Inl e, w1) \<Rightarrow> ((Some e, []), w1, notes)
         | (Inr resumed, w1) \<Rightarrow>
             (let before = (case resumed of None \<Rightarrow> [] | Some r \<Rightarrow> [Resumed r]);
                  stops = (case resumed of None \<Rightarrow> False
                           | Some r \<Rightarrow> rs_status r = MANUAL_ACTION_REQUIRED \<or> rs_status r \<notin> TERMINAL)
              in if stops then ((None, before), w1, notes)
                 else let scans = scan_pending_sorted env folder (case queue of None \<Rightarrow> se_queue env | Some q \<Rightarrow> q) (ow_clone w1)
                      in case watch_scans env kept (pending_of scans) scans (w1, notes) of
                           ((e, evs), s') \<Rightarrow> ((e, before @ evs), s'))))"

section \<open>The loop\<close>

text \<open>
  Whether a stop is seen before a tick and after the sleep that follows it; the loop that outlives the
  given ticks is \<open>None\<close>.  Both stop channels and the sleep between ticks are in these two flags.
\<close>

fun watch_loop ::
    "'r sched_env \<Rightarrow> string \<Rightarrow> string option \<Rightarrow> int \<Rightarrow> nat option \<Rightarrow> nat \<Rightarrow> (bool \<times> bool) list \<Rightarrow> 'r sched \<Rightarrow>
     (orch_error option \<times> pass_event list) option \<times> 'r sched" where
  "watch_loop env folder queue poll max_iterations n [] s = (None, s)"
| "watch_loop env folder queue poll max_iterations n ((before, after) # ticks) (w, notes) =
     (if before then (Some (None, []), w, notes)
      else case refresh_repo (se_orch env) w of
             (Inl e, w1) \<Rightarrow> (Some (Some e, []), w1, notes)
           | (Inr _, w1) \<Rightarrow>
               (case watch_once env True folder queue (w1, notes) of
                  ((Some e, evs), s1) \<Rightarrow> (Some (Some e, evs), s1)
                | ((None, evs), s1) \<Rightarrow>
                    if poll \<le> 0 \<or> (case max_iterations of None \<Rightarrow> False | Some m \<Rightarrow> m \<le> n + 1) \<or> after
                    then (Some (None, evs), s1)
                    else (case watch_loop env folder queue poll max_iterations (n + 1) ticks s1 of
                            (None, s2) \<Rightarrow> (None, s2)
                          | (Some (e, evs'), s2) \<Rightarrow> (Some (e, evs @ evs'), s2))))"

section \<open>What the operator sees\<close>

definition display_status :: "task_row \<Rightarrow> bool \<Rightarrow> string" where
  "display_status r alive =
     (if tk_status r = RUNNING \<and> \<not> alive then ''parked (no daemon)''
      else if tk_status r = RUNNING \<and> or_empty (tk_blocked_since r) \<noteq> []
      then (if or_empty (tk_blocked_until r) \<noteq> [] then ''running (paused until '' @ or_empty (tk_blocked_until r) @ '')''
            else ''running (paused)'')
      else if tk_status r = DONE \<and> or_empty (tk_recovered_loop r) \<noteq> []
      then ''done (recovered: '' @ or_empty (tk_recovered_loop r) @ '')''
      else status_value (tk_status r))"

datatype stop_level = STOP_SOFT | STOP_FULL

text \<open>The level to stop with, or the message and exit code of a refusal.\<close>

definition resolve_stop_level :: "bool \<Rightarrow> bool \<Rightarrow> bool \<Rightarrow> bool \<Rightarrow> bool \<Rightarrow> (string \<times> int) + stop_level" where
  "resolve_stop_level active force force_full interactive confirmed =
     (if force_full then Inr STOP_FULL
      else if \<not> active \<or> force then Inr STOP_SOFT
      else if interactive then (if confirmed then Inr STOP_SOFT else Inl (''stop: aborted'', 0))
      else Inl (''stop: a task is active; pass --force (soft: finishes the current flow node) or '' @
                ''--force-full (hard: interrupts the running agent now and reaps its subtree)'', 1))"

end
