(* ===== verification/OrchLogic.thy ===== *)
theory OrchLogic
  imports OrchRun GitPublishProps
begin

text \<open>
  Reasoning about the orchestrator's monad.  \<open>over R m\<close>: whatever \<open>m\<close> does, and however it ends, it relates
  the worlds before and after by \<open>R\<close>.  \<open>settles R A m\<close>: an error leaves them related by \<open>R\<close>, a result by \<open>A\<close>.
  The rules hold for every preorder; it is instantiated with the frames the properties need.
\<close>

named_theorems quiet_rules "operations that write neither the ledger nor a notification"
named_theorems launch_rules "operations that launch only commands of a kind"

definition over :: "('r orch_world \<Rightarrow> 'r orch_world \<Rightarrow> bool) \<Rightarrow> ('r, 'a) orch_m \<Rightarrow> bool" where
  "over R m = (\<forall>w. R w (snd (m w)))"

definition settles ::
    "('r orch_world \<Rightarrow> 'r orch_world \<Rightarrow> bool) \<Rightarrow> ('a \<Rightarrow> 'r orch_world \<Rightarrow> 'r orch_world \<Rightarrow> bool) \<Rightarrow> ('r, 'a) orch_m \<Rightarrow> bool" where
  "settles R A m = (\<forall>w. case m w of (Inl e, w') \<Rightarrow> R w w' | (Inr x, w') \<Rightarrow> A x w w')"

lemma overD: "over R m \<Longrightarrow> m w = (x, w') \<Longrightarrow> R w w'"
  unfolding over_def by (metis snd_conv)

lemma over_if: "(b \<Longrightarrow> over R m) \<Longrightarrow> (\<not> b \<Longrightarrow> over R n) \<Longrightarrow> over R (if b then m else n)"
  by simp

lemma over_let: "over R (f x) \<Longrightarrow> over R (Let x f)"
  by simp

lemma over_option: "(v = None \<Longrightarrow> over R m) \<Longrightarrow> (\<And>x. v = Some x \<Longrightarrow> over R (f x)) \<Longrightarrow> over R (case v of None \<Rightarrow> m | Some x \<Rightarrow> f x)"
  by (cases v) simp_all

lemma over_sum: "(\<And>x. v = Inl x \<Longrightarrow> over R (f x)) \<Longrightarrow> (\<And>x. v = Inr x \<Longrightarrow> over R (g x)) \<Longrightarrow> over R (case v of Inl x \<Rightarrow> f x | Inr x \<Rightarrow> g x)"
  by (cases v) simp_all

lemma over_pair: "(\<And>x y. v = (x, y) \<Longrightarrow> over R (f x y)) \<Longrightarrow> over R (case v of (x, y) \<Rightarrow> f x y)"
  by (cases v) simp

lemma over_error:
  "(\<And>s. e = ManualRequired s \<Longrightarrow> over R (a s)) \<Longrightarrow> (\<And>s. e = PipelineFailed s \<Longrightarrow> over R (b s)) \<Longrightarrow>
   (\<And>s. e = GitFailed s \<Longrightarrow> over R (c s)) \<Longrightarrow> (\<And>s. e = SlotBusyError s \<Longrightarrow> over R (d s)) \<Longrightarrow> (\<And>s. e = Escaped s \<Longrightarrow> over R (f s)) \<Longrightarrow>
   over R (case e of ManualRequired s \<Rightarrow> a s | PipelineFailed s \<Rightarrow> b s | GitFailed s \<Rightarrow> c s | SlotBusyError s \<Rightarrow> d s | Escaped s \<Rightarrow> f s)"
  by (cases e) simp_all

lemma over_mode:
  "(m = BM_NEW \<Longrightarrow> over R a) \<Longrightarrow> (m = BM_EXISTING \<Longrightarrow> over R b) \<Longrightarrow> (m = BM_CURRENT \<Longrightarrow> over R c) \<Longrightarrow>
   over R (case m of BM_NEW \<Rightarrow> a | BM_EXISTING \<Rightarrow> b | BM_CURRENT \<Rightarrow> c)"
  by (cases m) simp_all

lemma settles_if: "(b \<Longrightarrow> settles R A m) \<Longrightarrow> (\<not> b \<Longrightarrow> settles R A n) \<Longrightarrow> settles R A (if b then m else n)"
  by simp

lemma settles_let: "settles R A (f x) \<Longrightarrow> settles R A (Let x f)"
  by simp

lemma settles_option:
  "(v = None \<Longrightarrow> settles R A m) \<Longrightarrow> (\<And>x. v = Some x \<Longrightarrow> settles R A (f x)) \<Longrightarrow> settles R A (case v of None \<Rightarrow> m | Some x \<Rightarrow> f x)"
  by (cases v) simp_all

lemma settles_sum:
  "(\<And>x. v = Inl x \<Longrightarrow> settles R A (f x)) \<Longrightarrow> (\<And>x. v = Inr x \<Longrightarrow> settles R A (g x)) \<Longrightarrow> settles R A (case v of Inl x \<Rightarrow> f x | Inr x \<Rightarrow> g x)"
  by (cases v) simp_all

lemma settles_pair: "(\<And>x y. v = (x, y) \<Longrightarrow> settles R A (f x y)) \<Longrightarrow> settles R A (case v of (x, y) \<Rightarrow> f x y)"
  by (cases v) simp

lemma settles_error:
  "(\<And>s. e = ManualRequired s \<Longrightarrow> settles R A (a s)) \<Longrightarrow> (\<And>s. e = PipelineFailed s \<Longrightarrow> settles R A (b s)) \<Longrightarrow>
   (\<And>s. e = GitFailed s \<Longrightarrow> settles R A (c s)) \<Longrightarrow> (\<And>s. e = SlotBusyError s \<Longrightarrow> settles R A (d s)) \<Longrightarrow>
   (\<And>s. e = Escaped s \<Longrightarrow> settles R A (f s)) \<Longrightarrow>
   settles R A (case e of ManualRequired s \<Rightarrow> a s | PipelineFailed s \<Rightarrow> b s | GitFailed s \<Rightarrow> c s | SlotBusyError s \<Rightarrow> d s | Escaped s \<Rightarrow> f s)"
  by (cases e) simp_all

locale steady =
  fixes R :: "'r orch_world \<Rightarrow> 'r orch_world \<Rightarrow> bool"
  assumes refl: "R w w"
    and trans: "R u v \<Longrightarrow> R v w \<Longrightarrow> R u w"
begin

lemma over_ret: "over R (oret x)"
  by (simp add: over_def oret_def refl)

lemma over_raise: "over R (oraise e)"
  by (simp add: over_def oraise_def refl)

lemma over_ask: "over R (oask g)"
  by (simp add: over_def oask_def refl)

lemma over_bind: "over R m \<Longrightarrow> (\<And>x. over R (f x)) \<Longrightarrow> over R (obind m f)"
  unfolding over_def obind_def
  by (auto split: prod.split sum.split; metis snd_conv trans)

lemma over_catch: "over R m \<Longrightarrow> (\<And>e. over R (h e)) \<Longrightarrow> over R (ocatch m h)"
  unfolding over_def ocatch_def
  by (auto split: prod.split sum.split; metis snd_conv trans)

lemma over_when: "over R m \<Longrightarrow> over R (owhen b m)"
  by (simp add: owhen_def over_ret)

lemma settles_raise: "settles R A (oraise e)"
  by (simp add: settles_def oraise_def refl)

lemma settles_ret: "(\<And>w. A x w w) \<Longrightarrow> settles R A (oret x)"
  by (simp add: settles_def oret_def)

text \<open>A result after a step related by \<open>R\<close> is one from the start, as \<open>closed\<close> says.\<close>

lemma settles_bind:
  assumes closed: "\<And>x u v w. R u v \<Longrightarrow> A x v w \<Longrightarrow> A x u w"
    and m: "over R m" and f: "\<And>x. settles R A (f x)"
  shows "settles R A (obind m f)"
  unfolding settles_def
proof (intro allI)
  fix w
  obtain r w1 where w1: "m w = (r, w1)" by (cases "m w")
  with m have R: "R w w1" by (rule overD)
  show "case obind m f w of (Inl e, w') \<Rightarrow> R w w' | (Inr x, w') \<Rightarrow> A x w w'"
  proof (cases r)
    case (Inl e)
    with R w1 show ?thesis by (simp add: obind_def)
  next
    case (Inr x)
    from f [of x] have "case f x w1 of (Inl e, w') \<Rightarrow> R w1 w' | (Inr y, w') \<Rightarrow> A y w1 w'" by (simp add: settles_def)
    with R Inr w1 show ?thesis by (auto simp: obind_def split: prod.splits sum.splits intro: trans closed)
  qed
qed

lemma settles_from:
  assumes closed: "\<And>x u v w. R u v \<Longrightarrow> A x v w \<Longrightarrow> A x u w"
    and R: "R w w1" and m: "settles R A m"
  shows "case m w1 of (Inl e, w') \<Rightarrow> R w w' | (Inr x, w') \<Rightarrow> A x w w'"
proof -
  from m have "case m w1 of (Inl e, w') \<Rightarrow> R w1 w' | (Inr x, w') \<Rightarrow> A x w1 w'" by (simp add: settles_def)
  with R show ?thesis by (auto split: prod.splits sum.splits intro: trans closed)
qed

lemma settles_catch:
  assumes closed: "\<And>x u v w. R u v \<Longrightarrow> A x v w \<Longrightarrow> A x u w"
    and m: "settles R A m" and h: "\<And>e. settles R A (h e)"
  shows "settles R A (ocatch m h)"
  unfolding settles_def
proof (intro allI)
  fix w
  obtain r w1 where w1: "m w = (r, w1)" by (cases "m w")
  from m have s: "case m w of (Inl e, w') \<Rightarrow> R w w' | (Inr x, w') \<Rightarrow> A x w w'" by (simp add: settles_def)
  show "case ocatch m h w of (Inl e, w') \<Rightarrow> R w w' | (Inr x, w') \<Rightarrow> A x w w'"
  proof (cases r)
    case (Inl e)
    from h [of e] have "case h e w1 of (Inl e, w') \<Rightarrow> R w1 w' | (Inr y, w') \<Rightarrow> A y w1 w'" by (simp add: settles_def)
    with s Inl w1 show ?thesis by (auto simp: ocatch_def split: prod.splits sum.splits intro: trans closed)
  next
    case (Inr x)
    with s w1 show ?thesis by (simp add: ocatch_def)
  qed
qed

end

section \<open>The ledger and the notifications\<close>

definition quiet :: "'r orch_world \<Rightarrow> 'r orch_world \<Rightarrow> bool" where
  "quiet w w' = (ow_ledger w' = ow_ledger w \<and> ow_notified w' = ow_notified w)"

interpretation quiet: steady quiet
  by unfold_locales (auto simp: quiet_def)

lemmas [quiet_rules] = quiet.over_ret quiet.over_raise quiet.over_ask quiet.over_bind quiet.over_catch quiet.over_when
  over_if [where R = quiet] over_let [where R = quiet] over_option [where R = quiet] over_sum [where R = quiet]
  over_pair [where R = quiet] over_error [where R = quiet]

lemma quiet_git [quiet_rules]: "over quiet (via_git env m)"
  by (auto simp: over_def via_git_def quiet_def split: prod.splits sum.splits)

lemma quiet_store [quiet_rules]:
  "over quiet (in_db g)" "over quiet (in_clone h)" "over quiet (keep p)" "over quiet (update_row env tid flds)"
  "over quiet (via_store env f)"
  by (auto simp: over_def in_db_def in_clone_def keep_def update_row_def via_store_def ochange_def obind_def oret_def quiet_def
      split: sum.splits)

lemma quiet_transition [quiet_rules]:
  "over quiet (transition_to env p dst flds)" "over quiet (transition_row env tid a b)"
  unfolding transition_to_def transition_row_def
  by (auto split: sum.split invalid_transition.split intro!: quiet_rules)

lemma quiet_specs [quiet_rules]: "over quiet (relocate_subtask_specs env refs a b)"
  by (induction refs) (auto intro!: quiet_rules split: option.split simp del: if_split)

lemma quiet_relocate [quiet_rules]: "over quiet (relocate_task_file env file tid final)"
  unfolding relocate_task_file_def by (intro quiet_rules)

lemma quiet_report [quiet_rules]: "over quiet (write_infra_failure_report env p node e rs)"
  unfolding write_infra_failure_report_def by (intro quiet_rules)

lemma quiet_artifacts [quiet_rules]:
  "over quiet (capture_governance_changed env p)" "over quiet (move_task_file env p final)"
  "over quiet (finalize_task_artifacts env p final)"
  unfolding capture_governance_changed_def move_task_file_def finalize_task_artifacts_def
  by (intro quiet_rules)+

lemma quiet_best_effort [quiet_rules]: "over quiet m \<Longrightarrow> over quiet (best_effort x m)"
  unfolding best_effort_def by (intro quiet_rules)

lemma quiet_explain [quiet_rules]: "over quiet (explain_terminal env p final why)"
  unfolding explain_terminal_def by (intro quiet_rules)

lemma quiet_cleanup [quiet_rules]: "over quiet (terminal_cleanup_for env tid st mode)" "over quiet (recover_failure_artifacts env tid)"
  unfolding terminal_cleanup_for_def recover_failure_artifacts_def by (intro quiet_rules)+

lemma quiet_exchange [quiet_rules]: "over quiet (seal_terminal_exchange env tid final n b)" "over quiet (evict_run_artifacts env tid final)"
  unfolding seal_terminal_exchange_def evict_run_artifacts_def by (intro quiet_rules)+

lemma quiet_flow [quiet_rules]:
  "over quiet (resolve_flow env p)" "over quiet (declare_private_report_dir env p)" "over quiet (publish_attempt env p st)"
  "over quiet (prepare_task_branch env p slug br)" "over quiet (validate_branch_mode env t)" "over quiet (register_task env t path d)"
  unfolding resolve_flow_def declare_private_report_dir_def publish_attempt_def prepare_task_branch_def validate_branch_mode_def
    register_task_def
  by (intro quiet_rules over_mode)+

end
