(* ===== verification/OrchProps.thy ===== *)
theory OrchProps
  imports OrchLogic TaskGateProps TranslateFlow
begin

text \<open>
  What a run leaves behind, however it goes: one ledger record and one notification per ending, the status
  of the row, the files a refusal may move, the commands a run over an unproven tree may launch, and the
  instant a parked run wakes.
\<close>

section \<open>The status of the row\<close>

named_theorems status_rules "operations that change no task's status"

definition same_status :: "'r orch_world \<Rightarrow> 'r orch_world \<Rightarrow> bool" where
  "same_status w w' = (\<forall>t. map_option tk_status (get_task t (ow_db w')) = map_option tk_status (get_task t (ow_db w)))"

interpretation statuses: steady same_status
  by unfold_locales (auto simp: same_status_def)

lemmas [status_rules] = statuses.over_ret statuses.over_raise statuses.over_ask statuses.over_bind statuses.over_catch
  statuses.over_when over_if [where R = same_status] over_let [where R = same_status] over_option [where R = same_status]
  over_sum [where R = same_status] over_pair [where R = same_status]

definition keeps_status :: "(task_row \<Rightarrow> task_row) \<Rightarrow> bool" where
  "keeps_status f = (keeps_id f \<and> (\<forall>r. tk_status (f r) = tk_status r))"

lemma fold_keeps_status: "list_all keeps_status flds \<Longrightarrow> tk_status (fold (\<lambda>f r. f r) flds r) = tk_status r"
  by (induction flds arbitrary: r) (auto simp: keeps_status_def)

lemma update_keeps_status:
  assumes "list_all keeps_status flds"
  shows "map_option tk_status (get_task t (update_task now tid flds d)) = map_option tk_status (get_task t d)"
proof -
  have "list_all keeps_id flds" using assms by (auto simp: list_all_iff keeps_status_def)
  then show ?thesis using fold_keeps_status [OF assms] by (simp add: get_task_update option.map_comp comp_def)
qed

lemma status_clone [status_rules]: "over same_status (in_clone h)" "over same_status (keep p)"
  by (simp_all add: over_def in_clone_def keep_def ochange_def obind_def oret_def same_status_def ow_db_def)

lemma status_row [status_rules]: "list_all keeps_status flds \<Longrightarrow> over same_status (update_row env tid flds)"
  by (simp add: over_def update_row_def in_db_def ochange_def same_status_def ow_db_def update_keeps_status)

lemma status_refs [status_rules]: "over same_status (in_db (append_quarantine_ref now tid ref))"
  by (auto simp: over_def in_db_def ochange_def same_status_def ow_db_def append_quarantine_ref_def update_keeps_status
      keeps_status_def keeps_id_def split: option.splits)

lemma status_fields [status_rules]:
  "list_all keeps_status [tk_exchange_contaminated_update f]" "list_all keeps_status [tk_exchange_active_unsafe_update f]"
  "list_all keeps_status [tk_source_path_update g]" "list_all keeps_status [tk_failure_report_path_update g]"
  by (simp_all add: keeps_status_def keeps_id_def)

lemma status_specs [status_rules]: "over same_status (relocate_subtask_specs env refs a b)"
  by (induction refs) (auto intro!: status_rules split: option.split simp del: if_split)

lemma status_files [status_rules]: "over same_status (relocate_task_file env file tid final)" "over same_status (move_task_file env p final)"
  unfolding relocate_task_file_def move_task_file_def by (intro status_rules)+

lemma status_exchange [status_rules]:
  "over same_status (seal_terminal_exchange env tid final n b)" "over same_status (evict_run_artifacts env tid final)"
  unfolding seal_terminal_exchange_def evict_run_artifacts_def by (intro status_rules)+

section \<open>Every ending is accounted for once\<close>

definition recorded_end :: "pipeline_result \<Rightarrow> ledger_record \<Rightarrow> bool" where
  "recorded_end r rec = (lg_id rec = rs_task_id r \<and> lg_final_status rec = status_value (rs_status r) \<and> lg_pr_url rec = rs_pr_url r)"

definition recorded :: "pipeline_result \<Rightarrow> 'r orch_world \<Rightarrow> 'r orch_world \<Rightarrow> bool" where
  "recorded r w w' =
     (rs_status r \<in> TERMINAL
      \<and> (\<exists>rec. ow_ledger w' = ow_ledger w @ [rec] \<and> recorded_end r rec)
      \<and> ow_notified w' = ow_notified w @ [(rs_task_id r, rs_status r)]
      \<and> (\<forall>row. get_task (rs_task_id r) (ow_db w') = Some row \<longrightarrow> tk_status row = rs_status r))"

definition accounted :: "pipeline_result \<Rightarrow> 'r orch_world \<Rightarrow> 'r orch_world \<Rightarrow> bool" where
  "accounted r w w' = (rs_status r = RUNNING \<and> quiet w w' \<or> recorded r w w')"

lemma recorded_closed: "quiet u v \<Longrightarrow> recorded x v w \<Longrightarrow> recorded x u w"
  by (auto simp: recorded_def quiet_def)

lemma settles_mono: "settles R A m \<Longrightarrow> (\<And>x u v. A x u v \<Longrightarrow> B x u v) \<Longrightarrow> settles R B m"
  by (fastforce simp: settles_def split: prod.splits sum.splits)

lemma settles_recorded: "settles quiet recorded m \<Longrightarrow> settles quiet accounted m"
  by (erule settles_mono) (auto simp: accounted_def)

lemmas record_rules = quiet.settles_raise [where A = recorded] quiet.settles_bind [OF recorded_closed]
  settles_if [where R = quiet and A = recorded] settles_let [where R = quiet and A = recorded]
  settles_option [where R = quiet and A = recorded] settles_pair [where R = quiet and A = recorded]

lemma accounted_closed: "quiet u v \<Longrightarrow> accounted x v w \<Longrightarrow> accounted x u w"
  using recorded_closed [of u v x w] by (auto simp: accounted_def quiet_def)

named_theorems settle_rules "runs whose ending is accounted for"

lemmas [settle_rules] = quiet.settles_raise quiet.settles_bind [OF accounted_closed] quiet.settles_catch [OF accounted_closed]
  settles_if [where R = quiet and A = accounted] settles_let [where R = quiet and A = accounted]
  settles_option [where R = quiet and A = accounted] settles_sum [where R = quiet and A = accounted]
  settles_pair [where R = quiet and A = accounted] settles_error [where R = quiet and A = accounted]

lemma transition_sets_status:
  assumes "transition_to env p dst [tk_finished_at_update f] w = (Inr q, w')" and "get_task (nt_id (pl_task p)) (ow_db w') = Some row"
  shows "tk_status row = dst" and "pl_task q = pl_task p"
proof -
  have w': "ow_db w' = update_task (oe_now env) (nt_id (pl_task p)) [tk_finished_at_update f]
       (save_counters (oe_now env) (nt_id (pl_task p)) (pl_counters p) (set_status (oe_now env) (nt_id (pl_task p)) dst (ow_db w)))"
    and q: "q = p\<lparr>pl_status := dst\<rparr>"
    using assms(1) by (auto simp: transition_to_def obind_def oraise_def in_db_def keep_def ochange_def oret_def ow_db_def
        split: sum.splits invalid_transition.splits)
  show "pl_task q = pl_task p" by (simp add: q)
  show "tk_status row = dst"
    using assms(2) by (auto simp: w' set_status_def save_counters_def get_task_update keeps_id_def split: if_splits)
qed

lemma settle_end:
  assumes "st \<in> TERMINAL"
  shows "settles quiet recorded (settle env p st url c moved outcome mutation recovered)"
  unfolding settles_def
proof (intro allI)
  fix w :: "'a orch_world"
  let ?tid = "nt_id (pl_task p)"
  obtain r1 w1 where s1: "transition_to env p st [tk_finished_at_update (\<lambda>_. Some (oe_now env))] w = (r1, w1)"
    by (cases "transition_to env p st [tk_finished_at_update (\<lambda>_. Some (oe_now env))] w")
  have q1: "quiet w w1" using overD [OF quiet_transition(1) s1] .
  show "case settle env p st url c moved outcome mutation recovered w of (Inl e, w') \<Rightarrow> quiet w w' | (Inr r, w') \<Rightarrow> recorded r w w'"
  proof (cases r1)
    case (Inl e)
    with s1 q1 show ?thesis by (simp add: settle_def Let_def obind_def)
  next
    case (Inr p1)
    note set = transition_sets_status [OF s1 [unfolded Inr]]
    let ?move = "if moved then oret None else move_task_file env p1 st"
    obtain r2 w2 where s2: "?move w1 = (r2, w2)" by (cases "?move w1")
    have k2: "quiet w1 w2" "same_status w1 w2"
      using s2 overD [OF quiet_artifacts(2)] overD [OF status_files(2)] quiet.refl statuses.refl
      by (auto simp: oret_def split: if_splits)
    show ?thesis
    proof (cases r2)
      case (Inl e)
      with s1 s2 Inr q1 k2 quiet.trans show ?thesis by (auto simp: settle_def Let_def obind_def)
    next
      case (Inr x)
      let ?n = "Suc (ledger_attempt_count ?tid (ow_ledger w2))"
      define rec where "rec = terminal_record env p1 st url (co_safe c) ?n outcome recovered (get_task (nt_id (pl_task p1)) (ow_db w2))"
      define w4 where "w4 = ow_notified_update (\<lambda>ns. ns @ [(?tid, st)]) (ow_ledger_update (ledger_append rec) w2)"
      obtain r5 w5 where s5: "seal_terminal_exchange env ?tid st ?n mutation w4 = (r5, w5)"
        by (cases "seal_terminal_exchange env ?tid st ?n mutation w4")
      have ok5: "\<exists>u. r5 = Inr u"
        using s5 by (auto simp: seal_terminal_exchange_def obind_def oask_def oret_def in_clone_def in_db_def ochange_def update_row_def
            split: sum.splits prod.splits if_splits option.splits)
      obtain r6 w6 where s6: "evict_run_artifacts env ?tid st w5 = (r6, w6)" by (cases "evict_run_artifacts env ?tid st w5")
      have ok6: "\<exists>u. r6 = Inr u"
        using s6 by (auto simp: evict_run_artifacts_def obind_def oask_def oret_def in_clone_def ochange_def
            split: sum.splits prod.splits if_splits)
      have run: "settle env p st url c moved outcome mutation recovered w =
          (Inr \<lparr>rs_task_id = ?tid, rs_status = st, rs_pr_url = url, rs_reason = None, rs_quarantine = None\<rparr>, w6)"
        using ok5 ok6 by (auto simp: settle_def Let_def obind_def s1 \<open>r1 = Inr p1\<close> s2 Inr oask_def append_ledger_def to_ledger_def
            notify_def ochange_def s5 [unfolded w4_def rec_def] s6 oret_def)
      have kept: "quiet w4 w6" "same_status w4 w6"
        using overD [OF quiet_exchange(1) s5] overD [OF quiet_exchange(2) s6] overD [OF status_exchange(1) s5]
          overD [OF status_exchange(2) s6] quiet.trans statuses.trans by blast+
      have task: "pl_task p1 = pl_task p"
        using s1 [unfolded \<open>r1 = Inr p1\<close>] by (auto simp: transition_to_def obind_def oraise_def in_db_def keep_def ochange_def oret_def
            split: sum.splits invalid_transition.splits)
      have status: "tk_status row = st" if "get_task ?tid (ow_db w6) = Some row" for row
      proof -
        have "map_option tk_status (get_task ?tid (ow_db w1)) = map_option tk_status (get_task ?tid (ow_db w6))"
          using kept(2) k2(2) by (simp add: same_status_def w4_def ow_db_def)
        also have "\<dots> = Some (tk_status row)" by (simp only: that option.map)
        finally have "map_option tk_status (get_task ?tid (ow_db w1)) = Some (tk_status row)" .
        with set(1) show ?thesis by auto
      qed
      have rec: "lg_id rec = ?tid" "lg_final_status rec = status_value st" "lg_pr_url rec = url"
        by (simp_all add: rec_def terminal_record_def blank_record_def task)
      from q1 k2(1) kept(1) status assms rec show ?thesis
        by (auto simp: run recorded_def quiet_def w4_def recorded_end_def TERMINAL_def ledger_append_def)
    qed
  qed
qed

lemma quiet_memory: "over quiet (if b then in_clone f else oret ())"
  by (intro quiet_rules)

lemma record_terminal:
  assumes "st \<in> TERMINAL"
  shows "settles quiet recorded (go_terminal env p st url why moved outcome mutation)"
proof -
  have end_status: "(if \<not> co_safe c \<and> st = DONE then MANUAL_ACTION_REQUIRED else st) \<in> TERMINAL" for c
    using assms by (simp add: TERMINAL_def)
  show ?thesis
    unfolding go_terminal_def Let_def
    by (intro record_rules quiet_rules settle_end end_status)
qed

lemma record_fail: "st \<in> TERMINAL \<Longrightarrow> settles quiet recorded (fail_run env p e st node rs)"
  unfolding fail_run_def by (intro record_rules quiet_rules record_terminal)

lemmas settle_terminal [settle_rules] = settles_recorded [OF record_terminal]
lemmas settle_fail [settle_rules] = settles_recorded [OF record_fail]

text \<open>A parked run is accounted for by the absence of a record.\<close>

lemma settle_park [settle_rules]: "settles quiet accounted (park env p e)"
  unfolding park_def Let_def
  by (intro settle_rules quiet_rules quiet.settles_ret) (auto simp: accounted_def plain_result_def quiet_def recorded_def)

lemma terminal_statuses [settle_rules]: "DONE \<in> TERMINAL" "FAILED \<in> TERMINAL" "MANUAL_ACTION_REQUIRED \<in> TERMINAL"
  by (simp_all add: TERMINAL_def)

lemma settle_dispatch [settle_rules]: "st \<in> TERMINAL \<Longrightarrow> settles quiet accounted (dispatch_infra_exhaustion env p e rs st why)"
  by (cases "classify_exhaustion (ie_classes e) (ie_class e)")
     (simp_all add: dispatch_infra_exhaustion_def terminal_infra_manual_def, (intro settle_rules quiet_rules | assumption)+)

lemma settle_finish [settle_rules]: "settles quiet accounted (finish_engine_run env p res)"
  unfolding finish_engine_run_def auto_merge_def Let_def
  by (intro settle_rules quiet_rules)

lemma settle_after [settle_rules]: "settles quiet accounted (after_phases env how rs p)"
  by (cases how; simp add: after_phases_def synced_def Let_def, (intro settle_rules quiet_rules)+)

text \<open>The flow writes neither the ledger nor a notification of an ending.\<close>

definition phases_quiet :: "'r orch_env \<Rightarrow> bool" where
  "phases_quiet env =
     ((\<forall>p snap rs again w. quiet w (snd (oe_run_phases env p snap rs again w))) \<and> (\<forall>p d. over quiet (oe_split env p d)))"

lemma settle_run_frozen [settle_rules]:
  assumes "phases_quiet env"
  shows "settles quiet accounted (run_frozen env p snap rs again adopt)"
proof -
  have "settles quiet accounted (\<lambda>w. case oe_run_phases env p snap rs again w of
      ((how, rs1, p1), w1) \<Rightarrow> obind (keep p1) (after_phases env how rs1) w1)"
    unfolding settles_def
  proof (intro allI)
    fix w
    obtain how rs1 p1 w1 where ph: "oe_run_phases env p snap rs again w = ((how, rs1, p1), w1)" by (metis prod_cases3 surj_pair)
    have q: "quiet w w1" using assms ph by (metis phases_quiet_def snd_conv)
    have "settles quiet accounted (obind (keep p1) (after_phases env how rs1))"
      by (intro settle_rules quiet_rules)
    from quiet.settles_from [OF accounted_closed q this]
    show "case (case oe_run_phases env p snap rs again w of
        ((how, rs1, p1), w1) \<Rightarrow> obind (keep p1) (after_phases env how rs1) w1) of
        (Inl e, w') \<Rightarrow> quiet w w' | (Inr r, w') \<Rightarrow> accounted r w w'"
      by (simp add: ph)
  qed
  then show ?thesis
    unfolding run_frozen_def refuse_def
    by (intro settle_rules quiet_rules)
qed

lemma quiet_control [quiet_rules]: "over quiet (prepare_control_bundle env p again adopt)" "over quiet (guard_current_exchange env tid adopt)"
  unfolding prepare_control_bundle_def guard_current_exchange_def Let_def
  by (intro quiet_rules)+

lemma settle_engine [settle_rules]: "phases_quiet env \<Longrightarrow> settles quiet accounted (engine_run_task env p again rs)"
  unfolding engine_run_task_def refuse_def Let_def
  by (intro settle_rules quiet_rules)

lemma settle_drive [settle_rules]:
  assumes "phases_quiet env"
  shows "settles quiet accounted (drive_via_engine env p)"
proof -
  have split: "over quiet (oe_split env q d)" for q d using assms by (simp add: phases_quiet_def)
  show ?thesis
    unfolding drive_via_engine_def
    by (intro settle_rules quiet_rules split assms)
qed

lemma settle_guarded [settle_rules]:
  "(\<And>q why. settles quiet accounted (h q why)) \<Longrightarrow> settles quiet accounted m \<Longrightarrow> settles quiet accounted (guarded_run env p h m)"
  unfolding guarded_run_def
  by (intro settle_rules quiet_rules | assumption)+

text \<open>A refusal: a failed result with its reason; the row of no task is touched.\<close>

definition refused :: "pipeline_result \<Rightarrow> 'r orch_world \<Rightarrow> 'r orch_world \<Rightarrow> bool" where
  "refused r w w' =
     (rs_status r = FAILED \<and> rs_reason r \<noteq> None
      \<and> (quiet w w'
         \<or> (\<exists>rec. ow_ledger w' = ow_ledger w @ [rec] \<and> recorded_end r rec \<and> lg_validation_reason rec = rs_reason r)
           \<and> ow_notified w' = ow_notified w @ [(rs_task_id r, FAILED)]))"

definition ended :: "pipeline_result \<Rightarrow> 'r orch_world \<Rightarrow> 'r orch_world \<Rightarrow> bool" where
  "ended r w w' = (accounted r w w' \<or> refused r w w')"

lemma ended_closed: "quiet u v \<Longrightarrow> ended x v w \<Longrightarrow> ended x u w"
  using accounted_closed [of u v x w] by (auto simp: ended_def refused_def quiet_def)

lemma quiet_quarantine [quiet_rules]: "over quiet (quarantine env path)" "over quiet (reject_settled env path cls)"
  unfolding quarantine_def reject_settled_def Let_def
  by (intro quiet_rules)+

lemma quarantine_returns: "\<exists>q w'. quarantine env path w = (Inr q, w')"
  by (auto simp: quarantine_def obind_def oask_def oret_def in_clone_def ochange_def Let_def split: option.splits)

lemma reject_ends: "settles quiet ended (reject env path why)"
  unfolding settles_def
proof (intro allI)
  fix w :: "'a orch_world"
  obtain q w1 where q: "quarantine env path w = (Inr q, w1)" using quarantine_returns by blast
  then have k: "quiet w w1" using overD [OF quiet_quarantine(1)] by blast
  show "case reject env path why w of (Inl e, w') \<Rightarrow> quiet w w' | (Inr r, w') \<Rightarrow> ended r w w'"
    using k by (auto simp: reject_def Let_def obind_def oask_def oret_def q to_ledger_def notify_def ochange_def reject_settled_def
        ended_def refused_def quiet_def ledger_append_def recorded_end_def reject_record_def blank_record_def)
qed

lemmas ended_rules = quiet.settles_raise [where A = ended] quiet.settles_bind [OF ended_closed]
  settles_if [where R = quiet and A = ended] settles_let [where R = quiet and A = ended]
  settles_option [where R = quiet and A = ended] settles_sum [where R = quiet and A = ended]
  settles_pair [where R = quiet and A = ended] reject_ends

lemma settle_run_task:
  assumes "phases_quiet env"
  shows "settles quiet ended (run_task env path)"
proof -
  have run: "settles quiet ended (guarded_run env p (\<lambda>q why. fail_run env q why FAILED None None) (drive_via_engine env p))" for p
    by (rule settles_mono [of quiet accounted]) (auto simp: ended_def intro!: settle_rules assms)
  show ?thesis
    unfolding run_task_def Let_def
    by (intro ended_rules quiet_rules run)
qed

lemma settle_resume_via [settle_rules]:
  assumes "phases_quiet env"
  shows "settles quiet accounted (resume_via_engine env p)"
proof -
  have parked: "settles quiet accounted (oret (plain_result tid RUNNING))" for tid
    by (rule quiet.settles_ret) (simp add: accounted_def plain_result_def quiet_def)
  show ?thesis
    unfolding resume_via_engine_def Let_def
    by (intro settle_rules quiet_rules assms parked)
qed

lemma settle_resume_task:
  assumes "phases_quiet env"
  shows "settles quiet accounted (resume_task env tid)"
  unfolding resume_task_def Let_def
  by (intro settle_rules quiet_rules assms)

text \<open>
  C6. Every run of a task file, fresh or resumed, is accounted for exactly once: a result with a terminal
  status comes with one ledger record and one notification of that task and status, and the stored row, if there
  is one, has that status; a parked result and an error come with neither; a refused file comes with a reason and
  at most one record.
\<close>

theorem every_run_accounted:
  assumes "phases_quiet env"
  shows "(case run_task env path w of
           (Inl e, w') \<Rightarrow> quiet w w'
         | (Inr r, w') \<Rightarrow> accounted r w w' \<or> refused r w w')
       \<and> (case resume_task env tid w of (Inl e, w') \<Rightarrow> quiet w w' | (Inr r, w') \<Rightarrow> accounted r w w')"
  using settle_run_task [OF assms, of path, unfolded settles_def ended_def, THEN spec, of w]
    settle_resume_task [OF assms, of tid, unfolded settles_def, THEN spec, of w]
  by (rule conjI)

section \<open>A tree that is not proven quiescent\<close>

definition launches :: "(string list \<Rightarrow> bool) \<Rightarrow> 'r orch_world \<Rightarrow> 'r orch_world \<Rightarrow> bool" where
  "launches P w w' = (\<exists>cs. gw_calls (ow_git w') = gw_calls (ow_git w) @ cs \<and> list_all P cs)"

interpretation launched: steady "launches P" for P
proof (unfold_locales, goal_cases)
  case (1 w)
  show ?case by (simp add: launches_def)
next
  case (2 u v w)
  then obtain cs ds where "gw_calls (ow_git v) = gw_calls (ow_git u) @ cs" "gw_calls (ow_git w) = gw_calls (ow_git v) @ ds"
    "list_all P cs" "list_all P ds" by (auto simp: launches_def)
  then show ?case by (auto simp: launches_def intro!: exI [of _ "cs @ ds"])
qed

lemmas [launch_rules] = launched.over_ret launched.over_raise launched.over_ask launched.over_bind launched.over_catch
  launched.over_when over_if [where R = "launches P" for P] over_let [where R = "launches P" for P]
  over_option [where R = "launches P" for P] over_sum [where R = "launches P" for P] over_pair [where R = "launches P" for P]
  over_error [where R = "launches P" for P]

lemma launch_git [launch_rules]: "issues P m \<Longrightarrow> over (launches P) (via_git env m)"
  unfolding over_def
proof (intro allI)
  fix w :: "'a orch_world"
  assume "issues P m"
  then obtain cs where "gw_calls (snd (m (ow_git w))) = gw_calls (ow_git w) @ cs" "list_all P cs"
    by (auto simp: issues_def issues_at_def)
  then show "launches P w (snd (via_git env m w))"
    by (auto simp: via_git_def launches_def split: prod.splits sum.splits)
qed

lemma launch_store [launch_rules]:
  "over (launches P) (in_db g)" "over (launches P) (in_clone h)" "over (launches P) (keep p)" "over (launches P) (update_row env tid flds)"
  "over (launches P) (to_ledger rec)" "over (launches P) (notify tid st)"
  by (auto simp: over_def in_db_def in_clone_def keep_def update_row_def ochange_def obind_def oret_def launches_def to_ledger_def
      notify_def)

text \<open>The two commands that only compare the tree with a commit.\<close>

definition inspects :: "string list \<Rightarrow> bool" where
  "inspects argv = (take 2 argv \<in> {[''git'', ''diff''], [''git'', ''ls-files'']})"

lemma inspecting: "inspects (''git'' # ''diff'' # args)" "inspects (''git'' # ''ls-files'' # args)"
  by (simp_all add: inspects_def)

lemma launch_changed [launch_rules]: "issues inspects (changed_code_paths_since_task_base env)"
  unfolding changed_code_paths_since_task_base_def changed_code_paths_from_def untracked_paths_def
  by (intro issue_rules inspecting)

lemma launch_transition [launch_rules]: "over (launches P) (transition_to env p dst flds)"
  unfolding transition_to_def
  by (auto split: sum.split invalid_transition.split intro!: launch_rules)

lemma launch_specs [launch_rules]: "over (launches P) (relocate_subtask_specs env refs a b)"
  by (induction refs) (auto intro!: launch_rules split: option.split simp del: if_split)

lemma launch_files [launch_rules]:
  "over (launches P) (relocate_task_file env file tid final)" "over (launches P) (move_task_file env p final)"
  unfolding move_task_file_def relocate_task_file_def by (intro launch_rules)+

lemma launch_artifacts [launch_rules]:
  "over (launches P) (write_infra_failure_report env p node e rs)" "over (launches inspects) (finalize_task_artifacts env p final)"
  "over (launches P) (recover_failure_artifacts env tid)" "over (launches P) (append_ledger env p final url safe n oc rec)"
  unfolding write_infra_failure_report_def finalize_task_artifacts_def capture_governance_changed_def recover_failure_artifacts_def
    append_ledger_def Let_def
  by (intro launch_rules)+

lemma launch_explain [launch_rules]: "over (launches inspects) (explain_terminal env p final why)"
  unfolding explain_terminal_def best_effort_def Let_def by (intro launch_rules)

lemma launch_exchange [launch_rules]:
  "over (launches P) (seal_terminal_exchange env tid final n b)" "over (launches P) (evict_run_artifacts env tid final)"
  unfolding seal_terminal_exchange_def evict_run_artifacts_def by (intro launch_rules)+

lemma launch_settle [launch_rules]: "over (launches P) (settle env p st url c moved outcome mutation recovered)"
  unfolding settle_def Let_def by (intro launch_rules)

lemma launches_from: "launches P w v \<Longrightarrow> over (launches P) m \<Longrightarrow> launches P w (snd (m v))"
  unfolding over_def using launched.trans by blast

lemma withheld_terminal:
  assumes "exchange_active_unsafe (nt_id (pl_task p)) (ow_db w)"
  shows "launches inspects w (snd (go_terminal env p st url why moved outcome mutation w))"
proof -
  have c: "terminal_cleanup_for env (nt_id (pl_task p)) st (branch_mode_of env (pl_task p)) w = (Inr (unsafe_cleanup (oe_git env) WITHHELD), w)"
    using assms by (simp add: terminal_cleanup_for_def obind_def oask_def oret_def)
  show ?thesis
    unfolding go_terminal_def Let_def
    by (subst obind_def, simp only: c prod.case sum.case)
       (rule launches_from [OF launched.refl]; intro launch_rules)
qed

definition unsafe_kept :: "'r orch_world \<Rightarrow> 'r orch_world \<Rightarrow> bool" where
  "unsafe_kept w w' = (\<forall>t. exchange_active_unsafe t (ow_db w) \<longrightarrow> exchange_active_unsafe t (ow_db w'))"

interpretation unsafe: steady unsafe_kept
  by unfold_locales (auto simp: unsafe_kept_def)

lemma unsafe_report: "over unsafe_kept (write_infra_failure_report env p node e rs)"
proof -
  have row: "over unsafe_kept (update_row env tid [tk_failure_report_path_update f])" for tid f
    by (auto simp: over_def update_row_def in_db_def ochange_def unsafe_kept_def ow_db_def exchange_active_unsafe_def
        get_exchange_guard_def task_columns_def get_task_update keeps_id_def split: option.splits sum.splits)
  have rest: "over unsafe_kept (in_clone h)" "over unsafe_kept (keep q)" for h q
    by (auto simp: over_def in_clone_def keep_def ochange_def obind_def oret_def unsafe_kept_def ow_db_def)
  show ?thesis
    unfolding write_infra_failure_report_def Let_def
    by (intro unsafe.over_bind unsafe.over_ask over_pair over_option unsafe.over_ret row rest)
qed

text \<open>
  C7. While the provider tree of a task is not proven quiescent, its ending starts no program but \<open>git diff\<close>
  and \<open>git ls-files\<close>: no commit, no push, no checkout, whatever the ending was asked for.
\<close>

theorem unproven_tree_untouched:
  assumes "exchange_active_unsafe (nt_id (pl_task p)) (ow_db w)"
  shows "launches inspects w (snd (fail_run env p e st node rs w))
       \<and> launches inspects w (snd (go_terminal env p st url why moved outcome mutation w))"
proof
  show "launches inspects w (snd (go_terminal env p st url why moved outcome mutation w))" by (rule withheld_terminal [OF assms])
  obtain r w1 where r: "write_infra_failure_report env p node e rs w = (r, w1)" by (cases "write_infra_failure_report env p node e rs w")
  have l: "launches inspects w w1" using overD [OF launch_artifacts(1) r] .
  have u: "exchange_active_unsafe (nt_id (pl_task p)) (ow_db w1)"
    using overD [OF unsafe_report r] assms by (simp add: unsafe_kept_def)
  show "launches inspects w (snd (fail_run env p e st node rs w))"
  proof (cases r)
    case (Inl x)
    with r l show ?thesis by (simp add: fail_run_def obind_def)
  next
    case (Inr p1)
    have same: "pl_task p1 = pl_task p"
      using r Inr by (auto simp: write_infra_failure_report_def Let_def obind_def oask_def in_clone_def ochange_def oret_def
          update_row_def in_db_def keep_def split: option.splits prod.splits)
    have "launches inspects w1 (snd (go_terminal env p1 st None (Some e) False None False w1))"
      by (rule withheld_terminal) (simp add: same u)
    with l have "launches inspects w (snd (go_terminal env p1 st None (Some e) False None False w1))" by (rule launched.trans)
    with r Inr u show ?thesis by (simp add: fail_run_def obind_def oask_def same)
  qed
qed

section \<open>A parked run\<close>

definition at_time :: "string \<Rightarrow> 'r orch_env \<Rightarrow> 'r orch_env" where
  "at_time now env = env\<lparr>oe_git := (oe_git env)\<lparr>ge_now := now\<rparr>\<rparr>"

lemma blocked_before_ceiling:
  assumes "\<And>i. oe_instant env (oe_isoformat env i) = Some i"
    and "park_wake_instant env e since = Some t" and "still_blocked (at_time now env) (Some t)"
  shows "\<exists>zone s n. oe_instant env since = Some (zone, s) \<and> oe_instant env now = Some (zone, n) \<and> n < s + park_ceiling env"
proof -
  have "\<exists>zone s x. oe_instant env since = Some (zone, s) \<and> t = oe_isoformat env (zone, x) \<and> x \<le> s + park_ceiling env"
    using assms(2) by (simp add: park_wake_instant_def instants_def split: option.splits if_splits prod.splits) fastforce+
  then obtain zone s x where since: "oe_instant env since = Some (zone, s)" and t: "t = oe_isoformat env (zone, x)"
    and x: "x \<le> s + park_ceiling env" by blast
  with assms(1,3) obtain n where "oe_instant env now = Some (zone, n)" "n < x"
    by (auto simp: still_blocked_def instants_def at_time_def oe_now_def split: option.splits if_splits prod.splits)
  with since x show ?thesis by auto
qed

lemma ceiling_ends_run:
  assumes "park_ceiling_exceeded env (nt_id (pl_task p)) (ow_db w) = Some why"
  shows "case resume_via_engine env p w of (Inl e, w') \<Rightarrow> quiet w w' | (Inr r, w') \<Rightarrow> recorded r w w'"
proof (cases "hydrate_run_state (nt_id (pl_task p)) (ow_db w)")
  case (Inl e)
  then show ?thesis by (simp add: resume_via_engine_def Let_def obind_def oask_def oraise_def quiet_def)
next
  case (Inr rs)
  have "resume_via_engine env p w = fail_run env p why FAILED (Option.bind rs current_node) rs w"
    by (simp add: resume_via_engine_def Let_def obind_def oask_def Inr assms)
  with record_fail [of FAILED env p why "Option.bind rs current_node" rs] show ?thesis
    by (simp add: settles_def TERMINAL_def)
qed


section \<open>Refusals and what slips past them\<close>

lemma reject_spares_settled:
  assumes "file_class env (path_stem path) path w \<in> {OWN, UNVERIFIABLE}"
  shows "snd (reject env path why w) = w"
  using assms by (auto simp: reject_def Let_def obind_def oask_def oret_def reject_settled_def)

text \<open>The class is that of the task named like the file, not of the task the front matter names.\<close>

lemma reject_by_file_name:
  assumes "get_task (path_stem path) (ow_db w) = None" and "settled_own_file env tid path w"
  shows "settled_own_file env tid path w
       \<and> (\<exists>rec. ow_ledger (snd (reject env path DUPLICATE_TASK_ID w)) = ow_ledger w @ [rec] \<and> lg_id rec = path_stem path
             \<and> lg_final_status rec = ''failed'')
       \<and> ow_notified (snd (reject env path DUPLICATE_TASK_ID w)) = ow_notified w @ [(path_stem path, FAILED)]"
proof -
  have cls: "file_class env (path_stem path) path w = NOT_SETTLED" using assms(1) by (simp add: file_class_def classify_settled_def)
  obtain q w1 where q: "quarantine env path w = (Inr q, w1)" using quarantine_returns by blast
  then have k: "quiet w w1" using overD [OF quiet_quarantine(1)] by blast
  with assms(2) show ?thesis
    by (auto simp: reject_def Let_def obind_def oask_def oret_def q cls to_ledger_def notify_def ochange_def ledger_append_def
        quiet_def reject_record_def blank_record_def)
qed

text \<open>The publication of a failed attempt does not look at the cap the task put on publishing.\<close>

lemma failure_publication_ignores_cap:
  "publish_attempt env (p\<lparr>pl_task := (pl_task p)\<lparr>nt_publish := cap\<rparr>\<rparr>) st = publish_attempt env p st"
  by (simp add: publish_attempt_def)

text \<open>A demand for a human that the publication of a failed attempt raises leaves \<open>run_task\<close> as an exception.\<close>

lemma manual_escapes_failure_handler:
  assumes "m (w\<lparr>ow_run := Some p\<rparr>) = (Inl (PipelineFailed why), w1)" and "ow_run w1 = Some q"
    and "fail_run env q why FAILED None None w1 = (Inl (ManualRequired s), w2)"
  shows "guarded_run env p (\<lambda>q why. fail_run env q why FAILED None None) m w = (Inl (ManualRequired s), w2)"
  using assms by (simp add: guarded_run_def keep_def obind_def ochange_def oret_def ocatch_def oask_def context_or_def)

text \<open>A task marked for a human after a rerun is neither recorded nor announced.\<close>

lemma ambiguous_rerun_unrecorded:
  assumes "ledger_has_task_id tid (ow_ledger w)"
  shows "quiet w (snd (mark_manual env why [tid] w))"
  using assms
  by (auto simp: obind_def in_db_def ochange_def update_row_def oask_def oret_def quiet_def split: option.splits)

text \<open>After a crash between the transition and the ledger no restart writes the record.\<close>

lemma crash_before_ledger_unrecorded:
  assumes "\<forall>row\<in>set (db_tasks (ow_db w)). tk_status row \<in> TERMINAL \<and> tk_cleanup_completed row = Some True"
  shows "OrchRun.resume env w = (Inr None, w)"
proof -
  have "find_active_tasks (ow_db w) = []" "find_incomplete_cleanup (ow_db w) = []"
    using assms by (auto simp: find_active_tasks_def find_incomplete_cleanup_def filter_empty_conv NON_ACTIVE_def TERMINAL_def)
  then show ?thesis by (simp add: OrchRun.resume_def obind_def oask_def oret_def reconcile_def bare_plan_def)
qed

section \<open>A concrete run\<close>

text \<open>A clean clone on its base branch, and a flow that ends \<open>done\<close> at once.\<close>

definition calm_run :: "string list \<Rightarrow> nat \<Rightarrow> git_result \<times> nat" where
  "calm_run argv n = (answer 0 (if ''rev-parse'' \<in> set argv then ''main'' else []), n + 1)"

definition calm_git :: "nat git_env" where
  "calm_git = demo_git\<lparr>ge_run := calm_run\<rparr>"

definition ended_flow :: phases_end where
  "ended_flow = FlowEnded \<lparr>fr_status = DONE, fr_final_node = ''publish'', fr_stuck_loop = None, fr_limit_name = None, fr_failure_report_path = None\<rparr>"

text \<open>Instants in unary, marked with whether they carry a time zone.\<close>

definition unary_format :: "bool \<times> int \<Rightarrow> string" where
  "unary_format i = (if fst i then ''z'' else ''n'') @ (if snd i < 0 then ''-'' else ''+'') @ replicate (nat (abs (snd i))) (CHR ''i'')"

definition unary_instant :: "string \<Rightarrow> (bool \<times> int) option" where
  "unary_instant s = Some (hd s = CHR ''z'', (if hd (tl s) = CHR ''-'' then -1 else 1) * int (length (tl (tl s))))"

lemma unary_round_trip: "unary_instant (unary_format i) = Some i"
  by (cases i) (auto simp: unary_instant_def unary_format_def)

definition demo_orch :: "nat orch_env" where
  "demo_orch = \<lparr>oe_git = calm_git, oe_gate = demo_gate, oe_source = (\<lambda>_ _. Some demo_source), oe_is_file = (\<lambda>_ _. False),
     oe_move = (\<lambda>_ _ _. None), oe_task_doc = (\<lambda>_ _. None), oe_write_task_doc = (\<lambda>_ _ r. r), oe_quarantine_folder = ''rejected'',
     oe_branch_mode = BM_NEW, oe_auto_merge = False, oe_merge_strategy = SQUASH, oe_wait_for_checks = False, oe_decomposition = False,
     oe_max_subtasks = 5, oe_advanced = False, oe_clean_runs = False, oe_gov_floor = id, oe_isolation_reasons = [],
     oe_max_blocked_s = 1, oe_instant = unary_instant, oe_isoformat = unary_format,
     oe_flow = (\<lambda>_ _. Some translate_snapshot), oe_final_diff = (\<lambda>_ _. []), oe_loads = (\<lambda>_. None),
     oe_write_report = (\<lambda>_ r. (None, r)), oe_summary_exists = (\<lambda>_ _. True), oe_write_summary = (\<lambda>_ _ r. (True, r)),
     oe_retire_report = (\<lambda>_ r. (None, r)), oe_failure_memory = (\<lambda>_ r. r), oe_seal = (\<lambda>_ _ r. (True, r)),
     oe_quarantine_exchange = (\<lambda>_ _ r. (Inr None, r)), oe_remove_runs = (\<lambda>_ r. r), oe_packet_digest = (\<lambda>_ _. None),
     oe_clear_foreign = (\<lambda>_ r. Inr r), oe_ensure_exchange = (\<lambda>_ _ _ r. Inr r), oe_freeze = (\<lambda>_ _ r. Inr (''dg'', r)),
     oe_load_bundle = (\<lambda>_ _ _. Inr translate_snapshot), oe_live_digest = (\<lambda>_ _. Some ''dg''), oe_inputs = (\<lambda>_ _ _ r. Inr (None, r)),
     oe_epoch = 0, oe_store_report = (\<lambda>_ r. r), oe_resolve_dir = id, oe_archive = (\<lambda>_ _ r. r), oe_clear_exchange = (\<lambda>_ r. r),
     oe_reset_interactions = (\<lambda>_ r. r), oe_consume_interactions = (\<lambda>_ r. r), oe_max_fix_cycles = 2, oe_max_total_fixes = 6,
     oe_merge_flow_found = (\<lambda>_. True), oe_conflict_report = (\<lambda>_ _ r. r), oe_manual_text = (\<lambda>_. ''manual''),
     oe_store_text = (\<lambda>_. ''store''), oe_recovery_text = (\<lambda>_. ''recovery''),
     oe_run_phases = (\<lambda>p snap rs again w. ((ended_flow, rs, p), w)), oe_split = (\<lambda>p d. oret ()),
     oe_run_merge_flow = (\<lambda>p. oret (Inr True))\<rparr>"

definition demo_orch_world :: "db \<Rightarrow> nat orch_world" where
  "demo_orch_world d = \<lparr>ow_git = (demo_clone [])\<lparr>gw_db := d\<rparr>, ow_ledger = [], ow_notified = [], ow_continue_adopt = [], ow_run = None\<rparr>"

lemma demo_phases_quiet: "phases_quiet demo_orch"
  by (simp add: phases_quiet_def demo_orch_def quiet_def over_def oret_def)

definition demo_rows :: "task_row \<Rightarrow> db" where
  "demo_rows row = insert_task ''now'' row empty_db"

definition demo_quota :: infra_error where
  "demo_quota = \<lparr>ie_text = ''quota'', ie_class = None, ie_classes = [], ie_resets_at = Some ''z+iii''\<rparr>"

lemma demo_resume_ends:
  "case resume_task demo_orch ''t1'' (demo_orch_world (demo_rows demo_task_row)) of
     (Inl e, w') \<Rightarrow> False | (Inr r, w') \<Rightarrow> rs_status r = MANUAL_ACTION_REQUIRED"
  by code_simp

lemma every_run_accounted_witness:
  "(case run_task demo_orch ''tasks/pending/task-7.md'' (demo_orch_world empty_db) of
      (Inl e, w') \<Rightarrow> quiet (demo_orch_world empty_db) w'
    | (Inr r, w') \<Rightarrow> accounted r (demo_orch_world empty_db) w' \<or> refused r (demo_orch_world empty_db) w') \<and>
   (case resume_task demo_orch ''t1'' (demo_orch_world (demo_rows demo_task_row)) of
      (Inl e, w') \<Rightarrow> False
    | (Inr r, w') \<Rightarrow> rs_status r = MANUAL_ACTION_REQUIRED \<and> recorded r (demo_orch_world (demo_rows demo_task_row)) w')"
  using every_run_accounted [OF demo_phases_quiet, of "demo_orch_world empty_db" "''tasks/pending/task-7.md''"]
    every_run_accounted [OF demo_phases_quiet, of "demo_orch_world (demo_rows demo_task_row)" _ "''t1''"] demo_resume_ends
  by (auto simp: accounted_def split: prod.splits sum.splits)

definition unproven_world :: "nat orch_world" where
  "unproven_world = demo_orch_world (update_task ''now'' ''t1'' [tk_exchange_active_unsafe_update (\<lambda>_. True)] (demo_rows demo_task_row))"

definition demo_pipeline :: pipeline where
  "demo_pipeline = stored_pipeline demo_task_row (blank_task ''t1'' ''Task'') ''task'' [] (demo_rows demo_task_row)"

definition unsummarized :: "nat orch_env" where
  "unsummarized = demo_orch\<lparr>oe_summary_exists := (\<lambda>_ _. False)\<rparr>"

lemma unproven_tree_untouched_witness:
  "launches inspects unproven_world (snd (fail_run unsummarized demo_pipeline ''lost'' FAILED None None unproven_world)) \<and>
   map (take 2) (gw_calls (ow_git (snd (go_terminal unsummarized demo_pipeline FAILED None None False None False unproven_world)))) =
     [[''git'', ''diff''], [''git'', ''ls-files'']]"
proof -
  have "exchange_active_unsafe (nt_id (pl_task demo_pipeline)) (ow_db unproven_world)" by code_simp
  moreover have "map (take 2) (gw_calls (ow_git (snd (go_terminal unsummarized demo_pipeline FAILED None None False None False unproven_world)))) =
     [[''git'', ''diff''], [''git'', ''ls-files'']]" by code_simp
  ultimately show ?thesis using unproven_tree_untouched by blast
qed


end
