(* ===== verification/SchedulerProps.thy ===== *)
theory SchedulerProps
  imports Scheduler OrchProps "HOL-Library.Multiset" "HOL-Library.Sublist"
begin

text \<open>
  What the scheduler promises: the order in which files are looked at, what a verdict on dependencies
  means, and what one pass of the watcher may do.
\<close>

section \<open>The natural order\<close>

text \<open>The value of a run of digits.\<close>

fun magnitude :: "string \<Rightarrow> nat" where
  "magnitude [] = 0"
| "magnitude (c # cs) = nat (digit_value c) * 10 ^ length cs + magnitude cs"

definition digits :: "string \<Rightarrow> bool" where
  "digits s = (s \<noteq> [] \<and> list_all is_digit s)"

lemma digit_range: "is_digit c \<Longrightarrow> 0 \<le> digit_value c \<and> digit_value c < 10"
  by (simp add: is_digit_def digit_value_def Let_def)

lemma magnitude_bound: "list_all is_digit s \<Longrightarrow> magnitude s < 10 ^ length s"
proof (induction s)
  case Nil
  then show ?case by simp
next
  case (Cons c cs)
  then have "nat (digit_value c) < 10" using digit_range [of c] by auto
  then have "nat (digit_value c) \<le> 9" by linarith
  then have b: "nat (digit_value c) * 10 ^ length cs \<le> 9 * 10 ^ length cs" by simp
  have "magnitude cs < 10 ^ length cs" using Cons by simp
  with b have "nat (digit_value c) * 10 ^ length cs + magnitude cs < 10 * 10 ^ length cs" by linarith
  then show ?case by simp
qed

lemma zero_digit: "digit_value (CHR ''0'') = 0"
  by (simp add: digit_value_def)

lemma digit_zero_iff: "is_digit c \<Longrightarrow> digit_value c = 0 \<longleftrightarrow> c = CHR ''0''"
proof
  assume "digit_value c = 0"
  then have "(of_char c :: nat) = of_char (CHR ''0'')" by (simp add: digit_value_def)
  then show "c = CHR ''0''" by (simp only: of_char_eq_iff)
qed (simp add: zero_digit)

lemma magnitude_strip: "magnitude (strip_zeros s) = magnitude s"
  by (induction s) (auto simp: strip_zeros_def zero_digit)

lemma strip_digits: "list_all is_digit s \<Longrightarrow> list_all is_digit (strip_zeros s)"
  by (auto simp: strip_zeros_def list_all_iff dest: set_dropWhileD)

lemma stripped_head: "strip_zeros s = c # cs \<Longrightarrow> c \<noteq> CHR ''0''"
  by (auto simp: strip_zeros_def dropWhile_eq_Cons_conv)

lemma magnitude_stripped_bound:
  assumes "list_all is_digit s" and "strip_zeros s = c # cs"
  shows "10 ^ length cs \<le> magnitude (strip_zeros s)"
proof -
  from strip_digits [OF assms(1)] assms(2) have c: "is_digit c" by simp
  have "digit_value c \<noteq> 0" using digit_zero_iff [OF c] stripped_head [OF assms(2)] by simp
  with digit_range [OF c] have "1 \<le> nat (digit_value c)" by linarith
  then have "1 * 10 ^ length cs \<le> nat (digit_value c) * 10 ^ length cs" by (rule mult_le_mono1)
  then have "10 ^ length cs \<le> nat (digit_value c) * 10 ^ length cs + magnitude cs" by linarith
  then show ?thesis by (simp only: assms(2) magnitude.simps)
qed

lemma magnitude_less_same_length:
  assumes "length a = length b" and "list_all is_digit a" and "list_all is_digit b"
  shows "a < b \<longleftrightarrow> magnitude a < magnitude b"
  using assms
proof (induction a b rule: list_induct2)
  case Nil
  then show ?case by simp
next
  case (Cons c cs d ds)
  have bounds: "magnitude cs < 10 ^ length ds" "magnitude ds < 10 ^ length ds"
    using Cons magnitude_bound [of cs] magnitude_bound [of ds] by auto
  have lead: "nat (digit_value x) * 10 ^ length ds + u < nat (digit_value y) * 10 ^ length ds + v"
    if "nat (digit_value x) < nat (digit_value y)" "u < 10 ^ length ds" for x y u v
  proof -
    have "nat (digit_value x) * 10 ^ length ds + u < (nat (digit_value x) + 1) * 10 ^ length ds" using that(2) by simp
    also have "\<dots> \<le> nat (digit_value y) * 10 ^ length ds" using that(1) by (intro mult_le_mono1) linarith
    finally show ?thesis by simp
  qed
  have "nat (digit_value c) < nat (digit_value d) \<longleftrightarrow> c < d" "nat (digit_value d) < nat (digit_value c) \<longleftrightarrow> d < c"
    using Cons.prems by (auto simp: digit_value_def less_char_def is_digit_def Let_def)
  then consider "c < d" "nat (digit_value c) < nat (digit_value d)" | "c = d" | "d < c" "nat (digit_value d) < nat (digit_value c)"
    by (metis linorder_cases)
  then show ?case
  proof cases
    case 1
    with lead [OF 1(2) bounds(1)] Cons.hyps show ?thesis by simp
  next
    case 2
    with Cons show ?thesis by simp
  next
    case 3
    with lead [OF 3(2) bounds(2), of "magnitude cs"] Cons.hyps show ?thesis by auto
  qed
qed

definition digit_token :: "string \<Rightarrow> natural_token" where
  "digit_token run = (1, length (strip_zeros run), strip_zeros run)"

lemma digit_token_less:
  assumes "list_all is_digit a" and "list_all is_digit b" and "magnitude a < magnitude b"
  shows "digit_token a < digit_token b"
proof -
  let ?a = "strip_zeros a" and ?b = "strip_zeros b"
  have m: "magnitude ?a < magnitude ?b" using assms(3) by (simp add: magnitude_strip)
  have "length ?a \<le> length ?b"
  proof (cases ?a)
    case (Cons c cs)
    have "10 ^ length cs \<le> magnitude ?a" by (rule magnitude_stripped_bound [OF assms(1) Cons])
    also have "\<dots> < 10 ^ length ?b" using m magnitude_bound [OF strip_digits [OF assms(2)]] by simp
    finally have "length cs < length ?b" by simp
    then show ?thesis by (simp add: Cons)
  qed simp
  then consider "length ?a < length ?b" | "length ?a = length ?b" by linarith
  then show ?thesis
  proof cases
    case 1
    then show ?thesis by (simp add: digit_token_def)
  next
    case 2
    with m magnitude_less_same_length [OF 2 strip_digits [OF assms(1)] strip_digits [OF assms(2)]] show ?thesis
      by (simp add: digit_token_def)
  qed
qed

definition same_kind :: "char \<Rightarrow> char \<Rightarrow> bool" where
  "same_kind c d = (is_digit d = is_digit c)"

definition token_of :: "char \<Rightarrow> string \<Rightarrow> natural_token" where
  "token_of c run = (if is_digit c then digit_token run else (0, 0, run))"

lemma natural_tokens_Cons:
  "natural_tokens (c # cs) = token_of c (c # takeWhile (same_kind c) cs) # natural_tokens (dropWhile (same_kind c) cs)"
  by (simp add: token_of_def digit_token_def same_kind_def [abs_def] Let_def)

text \<open>Where a run of digits meets other characters, the tokens separate.\<close>

definition splits_at :: "string \<Rightarrow> string \<Rightarrow> bool" where
  "splits_at u v = (u = [] \<or> v = [] \<or> is_digit (last u) \<noteq> is_digit (hd v))"

lemma takeWhile_splits:
  assumes "\<forall>d\<in>set u. p d" and "v = [] \<or> \<not> p (hd v)"
  shows "takeWhile p (u @ v) = u" and "dropWhile p (u @ v) = v"
  using assms by (cases v; simp add: takeWhile_append2 dropWhile_append2)+

lemma natural_tokens_append: "splits_at u v \<Longrightarrow> natural_tokens (u @ v) = natural_tokens u @ natural_tokens v"
proof (induction "length u" arbitrary: u rule: less_induct)
  case less
  show ?case
  proof (cases u)
    case (Cons c cs)
    show ?thesis
    proof (cases "\<forall>d\<in>set cs. same_kind c d")
      case True
      then have "same_kind c (last (c # cs))" by (auto simp: same_kind_def)
      with less.prems have "v = [] \<or> \<not> same_kind c (hd v)" by (auto simp: splits_at_def Cons same_kind_def)
      note split = takeWhile_splits [OF True this]
      have all: "takeWhile (same_kind c) cs = cs" "dropWhile (same_kind c) cs = []" using True by simp_all
      show ?thesis
        by (simp add: Cons natural_tokens_Cons split all del: natural_tokens.simps(2))
    next
      case False
      then have rest: "dropWhile (same_kind c) cs \<noteq> []" by (simp add: dropWhile_eq_Nil_conv)
      then have "last (dropWhile (same_kind c) cs) = last (c # cs)"
        by (metis (no_types, lifting) append_Cons last_append takeWhile_dropWhile_id)
      with less.prems have "splits_at (dropWhile (same_kind c) cs) v" by (auto simp: splits_at_def Cons)
      moreover have "length (dropWhile (same_kind c) cs) < length u"
        by (simp add: Cons le_imp_less_Suc length_dropWhile_le)
      ultimately have "natural_tokens (dropWhile (same_kind c) cs @ v) = natural_tokens (dropWhile (same_kind c) cs) @ natural_tokens v"
        by (rule less.hyps [rotated])
      moreover have "takeWhile (same_kind c) (cs @ v) = takeWhile (same_kind c) cs"
        "dropWhile (same_kind c) (cs @ v) = dropWhile (same_kind c) cs @ v"
        using False by (auto simp: takeWhile_append1 dropWhile_append1)
      ultimately show ?thesis
        by (simp add: Cons natural_tokens_Cons del: natural_tokens.simps(2))
    qed
  qed simp
qed

lemma natural_tokens_digits: "digits a \<Longrightarrow> natural_tokens a = [digit_token a]"
proof (cases a)
  case (Cons c cs)
  moreover assume "digits a"
  ultimately have c: "is_digit c" and cs: "\<forall>d\<in>set cs. same_kind c d" by (auto simp: digits_def list_all_iff same_kind_def)
  have all: "takeWhile (same_kind c) cs = cs" "dropWhile (same_kind c) cs = []" using cs by simp_all
  show ?thesis
    by (simp add: Cons all natural_tokens_Cons token_of_def c del: natural_tokens.simps(2))
qed (simp add: digits_def)

text \<open>Case folding keeps digits and makes no new ones.\<close>

lemma fold_char_digit: "d \<in> set (fold_char c) \<Longrightarrow> is_digit d = is_digit c"
  by (auto simp: fold_char_def is_digit_def Let_def split: if_splits)

lemma fold_char_nonempty: "fold_char c \<noteq> []"
  by (simp add: fold_char_def Let_def)

lemma casefold_digits: "list_all is_digit a \<Longrightarrow> casefold a = a"
  by (induction a) (auto simp: casefold_def fold_char_def is_digit_def Let_def)

lemma casefold_Nil [simp]: "casefold [] = []"
  by (simp add: casefold_def)

lemma casefold_append: "casefold (u @ v) = casefold u @ casefold v"
  by (simp add: casefold_def)

lemma casefold_last: "u \<noteq> [] \<Longrightarrow> casefold u \<noteq> [] \<and> is_digit (last (casefold u)) = is_digit (last u)"
proof (induction u rule: rev_induct)
  case (snoc c u)
  have "last (fold_char c) \<in> set (fold_char c)" by (rule last_in_set [OF fold_char_nonempty])
  from fold_char_digit [OF this] show ?case
    by (simp add: casefold_def fold_char_nonempty)
qed simp

lemma casefold_hd: "u \<noteq> [] \<Longrightarrow> casefold u \<noteq> [] \<and> is_digit (hd (casefold u)) = is_digit (hd u)"
proof (cases u)
  case (Cons c cs)
  have "hd (fold_char c) \<in> set (fold_char c)" by (rule hd_in_set [OF fold_char_nonempty])
  from fold_char_digit [OF this] show ?thesis
    by (simp add: Cons casefold_def fold_char_nonempty)
qed simp

lemma natural_tokens_number:
  assumes "digits a" and "p = [] \<or> \<not> is_digit (last p)" and "s = [] \<or> \<not> is_digit (hd s)"
  shows "natural_tokens (casefold (p @ a @ s)) = natural_tokens (casefold p) @ digit_token a # natural_tokens (casefold s)"
proof -
  have a: "a \<noteq> []" "is_digit (hd a)" "is_digit (last a)" "casefold a = a"
    using assms(1) casefold_digits by (auto simp: digits_def list_all_iff)
  have "splits_at (casefold p) (a @ casefold s)"
  proof (cases "p = []")
    case False
    with casefold_last [OF False] assms(2) a show ?thesis by (simp add: splits_at_def)
  qed (simp add: splits_at_def)
  moreover have "splits_at a (casefold s)"
  proof (cases "s = []")
    case False
    with casefold_hd [OF False] assms(3) a show ?thesis by (simp add: splits_at_def)
  qed (simp add: splits_at_def)
  ultimately show ?thesis
    by (simp add: casefold_append a natural_tokens_append natural_tokens_digits [OF assms(1)])
qed

lemma list_less_common: "x < y \<Longrightarrow> us @ x # vs < us @ y # (ws :: 'a :: linorder list)"
  by (induction us) auto

lemma natural_order:
  assumes "digits a" and "digits b" and "magnitude a < magnitude b" and "p = [] \<or> \<not> is_digit (last p)"
    and "s = [] \<or> \<not> is_digit (hd s)" and "t = [] \<or> \<not> is_digit (hd t)"
  shows "natural_sort_key (p @ a @ s) < natural_sort_key (p @ b @ t)"
proof -
  have "digit_token a < digit_token b"
    using assms(1,2,3) by (simp add: digits_def digit_token_less)
  from list_less_common [OF this] show ?thesis
    by (simp add: natural_sort_key_def natural_tokens_number [OF assms(1,4,5)] natural_tokens_number [OF assms(2,4,6)])
qed

section \<open>The order of the pending files\<close>

lemma natural_sort_key_inj: "natural_sort_key m = natural_sort_key n \<longleftrightarrow> m = n"
  by (auto simp: natural_sort_key_def)

lemma split_on_cons: "split_on c (u @ c # v) = split_on c u @ split_on c v"
  by (rule split_on_hd_slash)

lemma path_name_join: "CHR ''/'' \<notin> set n \<Longrightarrow> path_name (path_join folder n) = n"
  by (cases n) (auto simp: path_name_def path_join_def split_on_single split_on_cons)

text \<open>Sorting by a key no two of the elements share does not depend on the order they came in.\<close>

lemma sort_key_inj:
  assumes "mset xs = mset ys" and "inj_on f (set xs)"
  shows "sort_key f xs = sort_key f ys"
proof (rule properties_for_sort_key)
  show "mset (sort_key f ys) = mset xs" using assms(1) by simp
  show "sorted (map f (sort_key f ys))" by simp
  show "filter (\<lambda>x. f k = f x) (sort_key f ys) = filter (\<lambda>x. f k = f x) xs" if "k \<in> set (sort_key f ys)" for k
  proof -
    have s: "set ys = set xs" using assms(1) by (metis set_mset_mset)
    have same: "filter (\<lambda>x. f k = f x) zs = replicate (count (mset zs) k) k" if "set zs = set xs" for zs
    proof -
      have "filter (\<lambda>x. f k = f x) zs = filter (\<lambda>x. x = k) zs"
        using that \<open>k \<in> set (sort_key f ys)\<close> s assms(2) by (intro filter_cong) (auto simp: inj_on_def)
      also have "\<dots> = replicate (count (mset zs) k) k"
        by (simp add: replicate_count_mset_eq_filter_eq) (metis (mono_tags, lifting) filter_cong)
      finally show ?thesis .
    qed
    show ?thesis using same [of "sort_key f ys"] same [of xs] s assms(1) by simp
  qed
qed

definition task_suffix :: "string \<Rightarrow> bool" where
  "task_suffix n = (py_lower (path_suffix n) \<in> {''.md'', ''.json''})"

lemma select_pending_set:
  "se_list env folder r = Some names \<Longrightarrow> set (select_pending env folder r) = path_join folder ` {n \<in> set names. task_suffix n}"
  by (simp add: select_pending_def task_suffix_def)

lemma path_join_inj: "CHR ''/'' \<notin> set m \<Longrightarrow> CHR ''/'' \<notin> set n \<Longrightarrow> path_join folder m = path_join folder n \<Longrightarrow> m = n"
  using path_name_join by metis

lemma scan_key_inj:
  assumes "\<forall>n\<in>set names. CHR ''/'' \<notin> set n"
  shows "inj_on scan_key ((\<lambda>p. (p, scan_pending_meta env p r)) ` path_join folder ` set names)"
proof (rule inj_onI)
  fix x y assume *: "x \<in> (\<lambda>p. (p, scan_pending_meta env p r)) ` path_join folder ` set names"
    "y \<in> (\<lambda>p. (p, scan_pending_meta env p r)) ` path_join folder ` set names" "scan_key x = scan_key y"
  then obtain m n where "m \<in> set names" "n \<in> set names"
    "x = (path_join folder m, scan_pending_meta env (path_join folder m) r)"
    "y = (path_join folder n, scan_pending_meta env (path_join folder n) r)" by auto
  with *(3) assms show "x = y" by (simp add: scan_key_def path_name_join natural_sort_key_inj)
qed

lemma scan_meta_list [simp]: "scan_pending_meta (env\<lparr>se_list := l\<rparr>) = scan_pending_meta env"
  by (intro ext) (simp add: scan_pending_meta_def)

lemma sorted_key_strict:
  assumes "distinct xs" and "inj_on f (set xs)"
  shows "sorted_wrt (\<lambda>a b. f a < f b) (sort_key f xs)"
proof -
  have "sorted (map f (sort_key f xs))" "distinct (map f (sort_key f xs))"
    using assms by (simp_all add: distinct_map)
  then have "sorted_wrt (<) (map f (sort_key f xs))" by (simp add: strict_sorted_iff)
  then show ?thesis by (simp add: sorted_wrt_map)
qed

lemma run_order_facts:
  assumes "se_list env folder r = Some names" and "distinct names" and "\<forall>n\<in>set names. CHR ''/'' \<notin> set n"
  shows "set (scan_pending_sorted env folder q r) =
           {(path_join folder n, scan_pending_meta env (path_join folder n) r) | n.
              n \<in> set names \<and> task_suffix n \<and> ps_queue (scan_pending_meta env (path_join folder n) r) = q}
       \<and> sorted_wrt (\<lambda>a b. scan_key a < scan_key b) (scan_pending_sorted env folder q r)
       \<and> (mset names' = mset names \<longrightarrow>
            scan_pending_sorted (env\<lparr>se_list := \<lambda>f x. if f = folder then Some names' else se_list env f x\<rparr>) folder q r =
            scan_pending_sorted env folder q r)"
proof -
  let ?pairs = "\<lambda>ns. filter (\<lambda>(p, s). ps_queue s = q) (map (\<lambda>p. (p, scan_pending_meta env p r))
      (map (path_join folder) (sort_key natural_sort_key (filter task_suffix ns))))"
  have eq: "scan_pending_sorted env folder q r = sort_key scan_key (?pairs names)"
    using assms(1) by (simp add: scan_pending_sorted_def select_pending_def task_suffix_def [abs_def])
  have eq': "scan_pending_sorted (env\<lparr>se_list := \<lambda>f x. if f = folder then Some names' else se_list env f x\<rparr>) folder q r =
      sort_key scan_key (?pairs names')"
    by (simp add: scan_pending_sorted_def select_pending_def task_suffix_def [abs_def])
  have inj: "inj_on scan_key (set (?pairs names))"
    by (rule inj_on_subset [OF scan_key_inj [OF assms(3), of env r folder]]) auto
  have "inj_on (path_join folder) (set names)"
    using assms(3) path_join_inj by (auto intro!: inj_onI)
  then have "distinct (?pairs names)"
    using assms(2) by (auto simp: distinct_map inj_on_def intro!: distinct_filter)
  from sorted_key_strict [OF this inj]
  have sorted: "sorted_wrt (\<lambda>a b. scan_key a < scan_key b) (scan_pending_sorted env folder q r)" by (simp only: eq)
  have "mset (?pairs names') = mset (?pairs names)" if "mset names' = mset names"
    by (simp add: that)
  then have "mset names' = mset names \<longrightarrow> sort_key scan_key (?pairs names') = sort_key scan_key (?pairs names)"
    using sort_key_inj [OF _ inj, of "?pairs names'"] by (metis (no_types, lifting))
  with sorted show ?thesis
    unfolding eq' by (auto simp: eq)
qed

text \<open>
  C11. The pending files of a queue are taken in an order that the file system cannot influence: exactly the task
  files of that queue, strictly by priority and then by natural name, whatever order the directory lists them in;
  names that differ first in a number come in the order of the numbers.
\<close>

theorem files_in_order:
  assumes "se_list env folder r = Some names" and "distinct names" and "\<forall>n\<in>set names. CHR ''/'' \<notin> set n"
  shows "set (scan_pending_sorted env folder q r) =
           {(path_join folder n, scan_pending_meta env (path_join folder n) r) | n.
              n \<in> set names \<and> task_suffix n \<and> ps_queue (scan_pending_meta env (path_join folder n) r) = q}
       \<and> sorted_wrt (\<lambda>a b. scan_key a < scan_key b) (scan_pending_sorted env folder q r)
       \<and> (mset names' = mset names \<longrightarrow>
            scan_pending_sorted (env\<lparr>se_list := \<lambda>f x. if f = folder then Some names' else se_list env f x\<rparr>) folder q r =
            scan_pending_sorted env folder q r)
       \<and> (digits a \<and> digits b \<and> magnitude a < magnitude b \<and> (p = [] \<or> \<not> is_digit (last p)) \<and> (s = [] \<or> \<not> is_digit (hd s))
            \<and> (t = [] \<or> \<not> is_digit (hd t)) \<longrightarrow> natural_sort_key (p @ a @ s) < natural_sort_key (p @ b @ t))"
  using run_order_facts [OF assms, of q names'] natural_order [of a b p s t] by blast

section \<open>Cycles\<close>

lemma cycle_search_dfs: "start \<notin> set seen \<Longrightarrow> cycle_search adj start stack seen \<longleftrightarrow> start \<in> set (dfs adj stack seen)"
proof (induction adj start stack seen rule: cycle_search.induct)
  case (1 adj start seen)
  then show ?case by (simp add: dfs.simps)
next
  case (2 adj start x stack seen)
  show ?case
  proof (cases "x = start")
    case True
    have "start \<in> set (dfs adj (x # stack) seen)" using dfs_mono [of seen "x # stack" adj] True by auto
    with True show ?thesis by simp
  next
    case False
    with 2 show ?thesis by (cases "x \<in> set seen") (simp_all add: dfs.simps)
  qed
qed

definition depends :: "pending_map \<Rightarrow> (string \<times> string) set" where
  "depends pending = {(t, d). is_pending pending d \<and> d \<in> set (succs pending t)}"

lemma succs_pending_edges: "succs (pending_edges pending) t = filter (is_pending pending) (succs pending t)"
proof -
  have "map_of (map (\<lambda>(k, ds). (k, filter P ds)) xs) t = map_option (filter P) (map_of xs t)" for P and xs :: pending_map
    by (induction xs) auto
  then show ?thesis by (simp add: pending_edges_def succs_def split: option.splits)
qed

theorem in_cycle_iff: "in_cycle t pending \<longleftrightarrow> (t, t) \<in> (depends pending)\<^sup>+"
proof -
  have rel: "succ_rel (pending_edges pending) = depends pending"
    by (auto simp: succ_rel_def depends_def succs_pending_edges)
  have "in_cycle t pending \<longleftrightarrow> t \<in> (depends pending)\<^sup>* `` {d. (t, d) \<in> depends pending}"
    by (simp add: in_cycle_def cycle_search_dfs dfs_correct rel)
       (simp flip: rel add: succ_rel_def)
  also have "\<dots> \<longleftrightarrow> (t, t) \<in> (depends pending)\<^sup>+"
    by (auto intro: trancl_rtrancl_trancl rtrancl_into_trancl2 dest: tranclD)
  finally show ?thesis .
qed

section \<open>Verdicts on dependencies\<close>

definition merge_recorded :: "string \<Rightarrow> db \<Rightarrow> bool" where
  "merge_recorded t d = (completed_op t KIND_PR_MERGE None d \<noteq> None)"

definition merges_only :: "db \<Rightarrow> db \<Rightarrow> bool" where
  "merges_only d d' =
     (db_tasks d' = db_tasks d \<and> (\<forall>t. recorded_pr_url t d' = recorded_pr_url t d) \<and> (\<forall>t. merge_recorded t d \<longrightarrow> merge_recorded t d'))"

definition probing :: "'r orch_world \<Rightarrow> 'r orch_world \<Rightarrow> bool" where
  "probing w w' = (ow_ledger w' = ow_ledger w \<and> merges_only (ow_db w) (ow_db w'))"

interpretation probing: steady probing
  by unfold_locales (auto simp: probing_def merges_only_def)

lemma merges_only_refl [simp]: "merges_only d d"
  by (simp add: merges_only_def)

lemma record_merge_only:
  assumes "record_completed env tid KIND_PR_MERGE fp ref None None g = (r, g')"
  shows "merges_only (gw_db g) (gw_db g')" and "r = Inr u \<Longrightarrow> merge_recorded tid (gw_db g')"
proof -
  have kinds: "KIND_PR_MERGE \<notin> set CODE_KINDS" "KIND_PR \<noteq> KIND_PR_MERGE" by (simp_all add: CODE_KINDS_def KIND_PR_MERGE_def
      KIND_CODE_COMMIT_def KIND_SUBTASK_COMMIT_def KIND_MERGE_COMMIT_def KIND_PR_def)
  let ?p = "publish_of tid KIND_PR_MERGE None fp STATUS_COMPLETED (Some ref) None"
  show "merges_only (gw_db g) (gw_db g')"
  proof (cases "record_publish_op (ge_now env) ?p (gw_db g)")
    case (Inl e)
    with assms show ?thesis by (auto simp: record_completed_def bind_m_def record_op_def)
  next
    case (Inr d)
    have g': "gw_db g' = d"
      using assms Inr kinds(1) by (auto simp: record_completed_def bind_m_def record_op_def advance_gate_reference_def when_m_def ret_def)
    have tasks: "db_tasks d = db_tasks (gw_db g)"
      using Inr by (auto simp: record_publish_op_def references_task_def res_iff)
    have ops: "get_publish_op t kd None d = (if t = tid \<and> kd = KIND_PR_MERGE then Some ?p else get_publish_op t kd None (gw_db g))" for t kd
      using record_then_get_publish [OF Inr, of None t kd] by (simp add: publish_of_def)
    show ?thesis
      using kinds(2) by (auto simp: merges_only_def g' tasks recorded_pr_url_def merge_recorded_def completed_op_def ops publish_of_def
          split: option.splits)
  qed
  show "merge_recorded tid (gw_db g')" if "r = Inr u"
    using record_completed_op [OF assms [unfolded that]] by (simp add: merge_recorded_def)
qed

lemma run_cmd_db: "gw_db (snd (run_cmd env argv g)) = gw_db g"
  by (simp add: run_cmd_def split: prod.splits)

lemma pr_state_db: "gw_db (snd (pr_merge_state env url g)) = gw_db g"
  using run_cmd_db [of env _ g]
  by (auto simp: pr_merge_state_def bind_m_def gh_def ret_def split: prod.splits sum.splits) (metis snd_conv)+

lemma external_merge_only:
  assumes "record_external_merge env tid url g = (r, g')"
  shows "merges_only (gw_db g) (gw_db g')" and "r = Inr u \<Longrightarrow> merge_recorded tid (gw_db g')"
proof -
  have "merges_only (gw_db g) (gw_db g') \<and> (r = Inr u \<longrightarrow> merge_recorded tid (gw_db g'))"
  proof (cases "completed_op tid KIND_PR_MERGE None (gw_db g)")
    case None
    with assms have "record_completed env tid KIND_PR_MERGE url ''merged'' None None g = (r, g')"
      by (simp add: record_external_merge_def)
    from record_merge_only [OF this] show ?thesis by blast
  next
    case (Some p)
    with assms show ?thesis by (auto simp: record_external_merge_def ret_def merge_recorded_def)
  qed
  then show "merges_only (gw_db g) (gw_db g')" and "r = Inr u \<Longrightarrow> merge_recorded tid (gw_db g')" by blast+
qed

lemma backfill_only:
  assumes "backfill_merge_sha env tid sha g = (r, g')"
  shows "merges_only (gw_db g) (gw_db g')"
  using assms record_merge_only(1)
  by (fastforce simp: backfill_merge_sha_def ret_def split: if_splits option.splits)

lemma probing_git:
  assumes "\<And>g. merges_only (gw_db g) (gw_db (snd (m g)))"
  shows "over probing (via_git env m)"
  unfolding over_def
proof (intro allI)
  fix w :: "'a orch_world"
  show "probing w (snd (via_git env m w))"
    using assms [of "ow_git w"] by (auto simp: via_git_def probing_def ow_db_def split: prod.splits sum.splits)
qed

lemmas probing_rules = probing.over_ret probing.over_raise probing.over_ask probing.over_bind over_if [where R = probing]
  over_option [where R = probing] over_pair [where R = probing]

lemma probing_steps:
  "over probing (via_git env (pr_merge_state genv u))" "over probing (via_git env (record_external_merge genv t u))"
  "over probing (via_git env (backfill_merge_sha genv t sha))"
proof -
  show "over probing (via_git env (pr_merge_state genv u))" by (rule probing_git) (simp add: pr_state_db)
  show "over probing (via_git env (record_external_merge genv t u))"
    by (rule probing_git) (metis external_merge_only(1) surjective_pairing)
  show "over probing (via_git env (backfill_merge_sha genv t sha))"
    by (rule probing_git) (metis backfill_only surjective_pairing)
qed

lemma probing_merged: "over probing (dependency_merged env dep)"
  unfolding dependency_merged_def by (intro probing_rules probing_steps)

lemma probing_resolve: "over probing (resolve_dependency env pending dep)"
  unfolding resolve_dependency_def by (intro probing_rules probing_merged)

lemma probing_each: "over probing (resolve_each env pending deps v)"
proof (induction deps arbitrary: v)
  case Nil
  show ?case by (simp add: probing.over_ret)
next
  case (Cons dep deps)
  show ?case unfolding resolve_each.simps by (intro probing_rules probing_resolve Cons.IH)
qed

text \<open>What the store and the ledger say of a dependency.\<close>

definition unknown_dep :: "pending_map \<Rightarrow> 'r orch_world \<Rightarrow> string \<Rightarrow> bool" where
  "unknown_dep pending w dep = (get_task dep (ow_db w) = None \<and> \<not> is_pending pending dep \<and> \<not> ledger_has_task_id dep (ow_ledger w))"

definition known_done :: "pending_map \<Rightarrow> 'r orch_world \<Rightarrow> string \<Rightarrow> bool" where
  "known_done pending w dep =
     (case get_task dep (ow_db w) of
        Some r \<Rightarrow> tk_status r = DONE
      | None \<Rightarrow> \<not> is_pending pending dep \<and> list_ex (\<lambda>r. lg_id r = dep \<and> lg_final_status r = ''done'') (ow_ledger w))"

text \<open>The work of a dependency is on the base branch: it went there directly, or its pull request was seen merged.\<close>

definition landed :: "string \<Rightarrow> 'r orch_world \<Rightarrow> bool" where
  "landed dep w = (recorded_pr_url dep (ow_db w) = None \<or> merge_recorded dep (ow_db w))"

lemma probing_facts:
  assumes "probing w w'"
  shows "unknown_dep pending w' d = unknown_dep pending w d" and "known_done pending w' d = known_done pending w d"
    and "landed d w \<Longrightarrow> landed d w'"
  using assms by (auto simp: probing_def merges_only_def unknown_dep_def known_done_def landed_def get_task_def split: option.splits)

lemma merged_lands:
  assumes "dependency_merged env dep w = (Inr (ELIGIBLE, detail), w')"
  shows "landed dep w'"
proof (cases "recorded_pr_url dep (ow_db w)")
  case None
  with assms show ?thesis by (simp add: dependency_merged_def obind_def oask_def oret_def landed_def)
next
  case (Some u)
  from assms Some obtain state sha w1 w2 x where
    m: "via_git env (record_external_merge (oe_git env) dep u) w1 = (Inr x, w2)" and
    rest: "obind (case sha of None \<Rightarrow> oret () | Some s \<Rightarrow> via_git env (backfill_merge_sha (oe_git env) dep s)) (\<lambda>_. oret (ELIGIBLE, [])) w2
      = (Inr (ELIGIBLE, detail), w')"
    by (auto simp: dependency_merged_def obind_def oask_def oret_def split: sum.splits prod.splits if_splits option.splits)
  from m obtain g where g: "record_external_merge (oe_git env) dep u (ow_git w1) = (Inr x, g)" "w2 = w1\<lparr>ow_git := g\<rparr>"
    by (auto simp: via_git_def split: prod.splits sum.splits)
  from external_merge_only(2) [OF g(1) refl] have landed: "landed dep w2" by (simp add: landed_def g(2) ow_db_def)
  have later: "over probing (obind (case sha of None \<Rightarrow> oret () | Some s \<Rightarrow> via_git env (backfill_merge_sha (oe_git env) dep s))
      (\<lambda>_. oret (ELIGIBLE, [])))"
    by (intro probing_rules probing_steps)
  from landed probing_facts(3) [OF overD [OF later rest]] show ?thesis by blast
qed

lemma resolve_states:
  assumes "resolve_dependency env pending dep w = (Inr (state, detail), w')"
  shows "state = BROKEN \<longleftrightarrow> unknown_dep pending w dep"
    and "state = ELIGIBLE \<Longrightarrow> known_done pending w dep \<and> landed dep w'"
proof -
  have no_broken: "fst x \<noteq> BROKEN" if "dependency_merged env dep w = (Inr x, w')" for x
    using that by (auto simp: dependency_merged_def obind_def oask_def oret_def split: sum.splits prod.splits if_splits option.splits)
  show "state = BROKEN \<longleftrightarrow> unknown_dep pending w dep"
    using assms no_broken [of "(state, detail)"]
    by (auto simp: resolve_dependency_def obind_def oask_def oret_def unknown_dep_def split: option.splits if_splits)
  show "known_done pending w dep \<and> landed dep w'" if "state = ELIGIBLE"
    using assms merged_lands [of env dep w detail w'] that
    by (auto simp: resolve_dependency_def obind_def oask_def oret_def known_done_def split: option.splits if_splits)
qed

lemma resolve_each_states:
  "resolve_each env pending deps v w = (Inr u, w') \<Longrightarrow> dv_state v \<noteq> BROKEN \<Longrightarrow>
     (dv_state u = BROKEN \<longleftrightarrow> (\<exists>d\<in>set deps. unknown_dep pending w d)) \<and>
     (dv_state u = ELIGIBLE \<longrightarrow> dv_state v = ELIGIBLE \<and> (\<forall>d\<in>set deps. known_done pending w d \<and> landed d w'))"
proof (induction deps arbitrary: v w)
  case Nil
  then show ?case by (simp add: oret_def)
next
  case (Cons dep deps)
  from Cons.prems(1) obtain state detail w1 where r: "resolve_dependency env pending dep w = (Inr (state, detail), w1)"
    by (auto simp: obind_def split: prod.splits sum.splits)
  have p: "probing w w1" using overD [OF probing_resolve r] .
  note st = resolve_states [OF r]
  show ?case
  proof (cases "state = BROKEN")
    case True
    with Cons.prems(1) r st show ?thesis by (auto simp: obind_def oret_def)
  next
    case False
    define v1 where "v1 = (if state = WAITING \<and> dv_state v = ELIGIBLE then \<lparr>dv_state = WAITING, dv_detail = detail\<rparr> else v)"
    have run: "resolve_each env pending deps v1 w1 = (Inr u, w')"
      using Cons.prems(1) r False by (simp add: obind_def v1_def)
    have "dv_state v1 \<noteq> BROKEN" using Cons.prems(2) by (simp add: v1_def)
    note ih = Cons.IH [OF run this]
    have later: "landed dep w1 \<Longrightarrow> landed dep w'" using overD [OF probing_each run] probing_facts(3) by blast
    have elig: "dv_state v1 = ELIGIBLE \<Longrightarrow> dv_state v = ELIGIBLE \<and> state = ELIGIBLE"
      using False by (cases state) (auto simp: v1_def split: if_splits)
    show ?thesis
      using ih st False later elig probing_facts(1,2) [OF p, of pending] by auto
  qed
qed

lemma verdict_facts:
  assumes "dependency_eligibility env t deps pending w = (Inr v, w')"
  shows "(dv_state v = BROKEN \<longleftrightarrow> deps \<noteq> [] \<and> ((t, t) \<in> (depends pending)\<^sup>+ \<or> (\<exists>d\<in>set deps. unknown_dep pending w d)))
       \<and> (dv_state v = ELIGIBLE \<longrightarrow> (\<forall>d\<in>set deps. known_done pending w d \<and> landed d w'))"
  using assms resolve_each_states [of env pending deps "\<lparr>dv_state = ELIGIBLE, dv_detail = []\<rparr>" w v w']
  by (auto simp: dependency_eligibility_def in_cycle_iff oret_def split: if_splits)

text \<open>
  C10. A task is rejected for its dependencies exactly when it lies on a cycle of pending tasks or names a task
  nobody knows, and is run only when every dependency is recorded as done and its work has landed: it has no pull
  request, or the pull request was seen merged and that is on record.
\<close>

theorem dependency_verdict_exact:
  assumes "dependency_eligibility env t deps pending w = (Inr v, w')"
  shows "(dv_state v = BROKEN \<longleftrightarrow> deps \<noteq> [] \<and> ((t, t) \<in> (depends pending)\<^sup>+ \<or> (\<exists>d\<in>set deps. unknown_dep pending w d)))
       \<and> (dv_state v = ELIGIBLE \<longrightarrow> (\<forall>d\<in>set deps. known_done pending w d \<and> landed d w'))"
  using assms by (rule verdict_facts)

section \<open>One pass\<close>

fun event_path :: "pass_event \<Rightarrow> string option" where
  "event_path (Resumed r) = None"
| "event_path (RejectedDep path r) = Some path"
| "event_path (Ran path r) = Some path"

fun is_run :: "pass_event \<Rightarrow> bool" where
  "is_run (Ran path r) = True"
| "is_run ev = False"

fun manual_is_last :: "pass_event list \<Rightarrow> bool" where
  "manual_is_last [] = True"
| "manual_is_last (ev # evs) = ((is_run ev \<and> rs_status (event_result ev) = MANUAL_ACTION_REQUIRED \<longrightarrow> evs = []) \<and> manual_is_last evs)"

text \<open>
  A run a pass reports: the slot was free, the file was no leftover of a settled task, its dependencies were
  eligible, the operator approved where that is asked for, and then the task was run.
\<close>

definition justified_run ::
    "'r sched_env \<Rightarrow> bool \<Rightarrow> pending_map \<Rightarrow> (string \<times> pending_scan) list \<Rightarrow> string \<Rightarrow> pipeline_result \<Rightarrow> bool" where
  "justified_run env kept pending scans path r =
     (\<exists>scan w v w1 w2. (path, scan) \<in> set scans \<and> acquire_slot [] (ow_db w) \<and> \<not> left_for_operator env path scan w
        \<and> scan_verdict env pending scan w = (Inr v, w1) \<and> dv_state v = ELIGIBLE
        \<and> (se_confirm env \<longrightarrow> (\<exists>nts. fst (claim_allowed env kept (ps_task_id scan) (ps_title scan) nts)))
        \<and> run_task (se_orch env) path w1 = (Inr r, w2))"

definition pass_sound :: "'r sched_env \<Rightarrow> bool \<Rightarrow> pending_map \<Rightarrow> (string \<times> pending_scan) list \<Rightarrow> pass_event list \<Rightarrow> bool" where
  "pass_sound env kept pending scans evs =
     (subseq (map event_path evs) (map (\<lambda>i. Some (fst i)) scans)
      \<and> (\<forall>path r. Ran path r \<in> set evs \<longrightarrow> justified_run env kept pending scans path r)
      \<and> (\<not> se_auto env \<longrightarrow> length (filter is_run evs) \<le> 1) \<and> manual_is_last evs)"

lemma justified_later: "justified_run env kept pending scans path r \<Longrightarrow> justified_run env kept pending (i # scans) path r"
  unfolding justified_run_def by (metis list.set_intros(2))

lemma pass_sound_Nil: "pass_sound env kept pending scans []"
  by (simp add: pass_sound_def)

lemma pass_sound_skip: "pass_sound env kept pending scans evs \<Longrightarrow> pass_sound env kept pending (i # scans) evs"
  unfolding pass_sound_def using justified_later by (fastforce intro: list_emb_Cons)

lemma pass_sound_rejected:
  "pass_sound env kept pending scans evs \<Longrightarrow> pass_sound env kept pending ((path, scan) # scans) (RejectedDep path r # evs)"
  unfolding pass_sound_def using justified_later by fastforce

lemma pass_sound_run:
  assumes "justified_run env kept pending ((path, scan) # scans) path r" and "pass_sound env kept pending scans evs"
    and "rs_status r = MANUAL_ACTION_REQUIRED \<or> \<not> se_auto env \<Longrightarrow> evs = []"
  shows "pass_sound env kept pending ((path, scan) # scans) (Ran path r # evs)"
  using assms justified_later [of env kept pending scans] unfolding pass_sound_def by fastforce

lemma watch_scans_sound:
  "watch_scans env kept pending scans (w, nts) = ((e, evs), s') \<Longrightarrow> pass_sound env kept pending scans evs"
proof (induction scans arbitrary: w nts e evs s')
  case Nil
  then show ?case by (simp add: pass_sound_Nil)
next
  case (Cons i scans)
  obtain path scan where i: "i = (path, scan)" by (cases i)
  note run = Cons.prems [unfolded i watch_scans.simps]
  show ?case
  proof (cases "\<not> acquire_slot [] (ow_db w) \<or> left_for_operator env path scan w")
    case True
    with run have "evs = [] \<or> watch_scans env kept pending scans (w, nts) = ((e, evs), s')" by (auto split: if_splits)
    then show ?thesis using Cons.IH pass_sound_skip pass_sound_Nil by blast
  next
    case False
    then have slot: "acquire_slot [] (ow_db w)" and fresh: "\<not> left_for_operator env path scan w" by auto
    obtain x w1 where verdict: "scan_verdict env pending scan w = (x, w1)" by (cases "scan_verdict env pending scan w")
    show ?thesis
    proof (cases x)
      case (Inl err)
      with run slot fresh verdict show ?thesis by (auto simp: pass_sound_Nil)
    next
      case (Inr v)
      consider "dv_state v = WAITING" | "dv_state v = BROKEN" | "dv_state v = ELIGIBLE" by (cases "dv_state v")
      then show ?thesis
      proof cases
        case 1
        with run slot fresh verdict Inr
        have "watch_scans env kept pending scans (w1, withhold kept (ps_task_id scan) nts) = ((e, evs), s')" by simp
        then show ?thesis using Cons.IH pass_sound_skip by (metis surj_pair)
      next
        case 2
        obtain y w2 where rej: "reject_dependency (se_orch env) path w1 = (y, w2)" by (cases "reject_dependency (se_orch env) path w1")
        with 2 run slot fresh verdict Inr
        have "evs = [] \<or> (\<exists>r evs2. evs = RejectedDep path r # evs2 \<and> watch_scans env kept pending scans (w2, nts) = ((e, evs2), s'))"
          by (auto split: sum.splits prod.splits)
        then show ?thesis using Cons.IH pass_sound_rejected pass_sound_Nil by (metis i)
      next
        case 3
        let ?gate = "if se_confirm env then claim_allowed env kept (ps_task_id scan) (ps_title scan) nts else (True, nts)"
        obtain ok nts1 where gate: "?gate = (ok, nts1)" by (cases ?gate)
        obtain y w2 where task: "run_task (se_orch env) path w1 = (y, w2)" by (cases "run_task (se_orch env) path w1")
        show ?thesis
        proof (cases "ok \<and> (\<exists>r. y = Inr r)")
          case False
          with run slot fresh verdict Inr 3 gate task show ?thesis
            by (cases ok; cases y) (auto simp: pass_sound_Nil)
        next
          case True
          then obtain r where r: "y = Inr r" and ok by blast
          have just: "justified_run env kept pending ((path, scan) # scans) path r"
            unfolding justified_run_def
            using slot fresh verdict Inr 3 gate task r \<open>ok\<close> by (metis fst_conv list.set_intros(1))
          show ?thesis
          proof (cases "rs_status r = MANUAL_ACTION_REQUIRED \<or> \<not> se_auto env")
            case True
            with run slot fresh verdict Inr 3 gate task r \<open>ok\<close> have "evs = [Ran path r]" by auto
            with pass_sound_run [OF just pass_sound_Nil] show ?thesis by (simp add: i)
          next
            case False
            obtain e2 evs2 s2 where rest: "watch_scans env kept pending scans (w2, nts1) = ((e2, evs2), s2)"
              by (metis prod_cases3 surj_pair)
            with False run slot fresh verdict Inr 3 gate task r \<open>ok\<close> have "evs = Ran path r # evs2" by auto
            with pass_sound_run [OF just Cons.IH [OF rest]] False show ?thesis by (simp add: i)
          qed
        qed
      qed
    qed
  qed
qed

text \<open>What eligibility means for the dependencies of a task that is run.\<close>

lemma justified_deps:
  assumes "justified_run env kept pending scans path r"
  shows "\<exists>scan w v w1. (path, scan) \<in> set scans \<and> scan_verdict env pending scan w = (Inr v, w1) \<and>
    (ps_task_id scan \<noteq> None \<longrightarrow> (\<forall>d\<in>set (ps_depends_on scan). known_done pending w d \<and> landed d w1))
    \<and> fst (run_task (se_orch env) path w1) = Inr r"
proof -
  from assms obtain scan w v w1 w2 where *: "(path, scan) \<in> set scans" "scan_verdict env pending scan w = (Inr v, w1)"
    "dv_state v = ELIGIBLE" "run_task (se_orch env) path w1 = (Inr r, w2)" unfolding justified_run_def by blast
  have "ps_task_id scan \<noteq> None \<longrightarrow> (\<forall>d\<in>set (ps_depends_on scan). known_done pending w d \<and> landed d w1)"
  proof (cases "ps_task_id scan")
    case (Some t)
    with *(2) have "dependency_eligibility (se_orch env) t (ps_depends_on scan) pending w = (Inr v, w1)"
      by (simp add: scan_verdict_def)
    have "(dv_state v = BROKEN \<longleftrightarrow> ps_depends_on scan \<noteq> [] \<and> ((t, t) \<in> (depends pending)\<^sup>+ \<or> (\<exists>d\<in>set (ps_depends_on scan). unknown_dep pending w d)))
       \<and> (dv_state v = ELIGIBLE \<longrightarrow> (\<forall>d\<in>set (ps_depends_on scan). known_done pending w d \<and> landed d w1))"
      by (rule verdict_facts) fact
    with *(3) show ?thesis by blast
  qed simp
  moreover have "fst (run_task (se_orch env) path w1) = Inr r" by (simp add: *(4))
  ultimately show ?thesis using *(1,2) by blast
qed


section \<open>A concrete queue\<close>

text \<open>Every pending file is a task that depends on a task nobody knows.\<close>

definition orphan_gate :: validation_gate where
  "orphan_gate = demo_gate\<lparr>vg_yaml := (\<lambda>text. Inr (YMap (demo_frontmatter @ [(''depends_on'', YList [YStr ''ghost''])])))\<rparr>"

definition demo_sched :: "nat sched_env" where
  "demo_sched = \<lparr>se_orch = demo_orch\<lparr>oe_gate := orphan_gate\<rparr>, se_list = (\<lambda>_ _. Some [''p10.md'', ''p9.md'', ''notes.txt'']),
     se_exists = (\<lambda>_ _. False), se_auto = False, se_queue = ''default'', se_confirm = False, se_monotonic = (\<lambda>n. int n),
     se_answer = (\<lambda>_ _. \<lparr>ha_failure = None, ha_answered = False, ha_approved = None\<rparr>)\<rparr>"

definition demo_notes :: watch_notes where
  "demo_notes = \<lparr>wn_declined = Map.empty, wn_withheld = [], wn_asked = 0\<rparr>"

definition demo_pass :: "(orch_error option \<times> pass_event list) \<times> nat sched" where
  "demo_pass = watch_once demo_sched True ''pending'' None (demo_orch_world empty_db, demo_notes)"

lemma demo_pass_paths: "map event_path (snd (fst demo_pass)) = [Some ''pending/p9.md'', Some ''pending/p10.md'']"
  by code_simp

lemma files_in_order_witness:
  "map fst (scan_pending_sorted demo_sched ''pending'' ''default'' 0) = [''pending/p9.md'', ''pending/p10.md''] \<and>
   natural_sort_key ''p9.md'' < natural_sort_key ''p10.md''"
proof -
  have "digits ''9''" "digits ''10''" "magnitude ''9'' < magnitude ''10''" "\<not> is_digit (last ''p'')" "\<not> is_digit (hd ''.md'')"
    by (simp_all add: digits_def is_digit_def digit_value_def)
  moreover have "map fst (scan_pending_sorted demo_sched ''pending'' ''default'' 0) = [''pending/p9.md'', ''pending/p10.md'']"
    by code_simp
  ultimately show ?thesis
    using files_in_order [where env = demo_sched and folder = "''pending''" and r = 0 and q = "''default''" and a = "''9''" and b = "''10''"
        and p = "''p''" and s = "''.md''" and t = "''.md''" and names = "[''p10.md'', ''p9.md'', ''notes.txt'']" and names' = "[]"]
    by (simp add: demo_sched_def)
qed

lemma dependency_verdict_exact_witness:
  "case dependency_eligibility demo_orch ''a'' [''b''] [(''a'', [''b'']), (''b'', [''a''])] (demo_orch_world empty_db) of
     (Inl e, w') \<Rightarrow> False | (Inr v, w') \<Rightarrow> dv_state v = BROKEN \<and> (''a'', ''a'') \<in> (depends [(''a'', [''b'']), (''b'', [''a''])])\<^sup>+"
proof -
  let ?p = "[(''a'', [''b'']), (''b'', [''a''])]"
  obtain v w' where v: "dependency_eligibility demo_orch ''a'' [''b''] ?p (demo_orch_world empty_db) = (Inr v, w')" "dv_state v = BROKEN"
  proof -
    have "case dependency_eligibility demo_orch ''a'' [''b''] ?p (demo_orch_world empty_db) of (Inl e, w') \<Rightarrow> False | (Inr v, w') \<Rightarrow> dv_state v = BROKEN"
      by code_simp
    then show ?thesis using that by (auto split: prod.splits sum.splits)
  qed
  have "\<not> (\<exists>d\<in>set [''b'']. unknown_dep ?p (demo_orch_world empty_db) d)" by (simp add: unknown_dep_def is_pending_def)
  with dependency_verdict_exact [OF v(1)] v show ?thesis by auto
qed


text \<open>
  The queue of an instance is all its pending map knows: a dependency that waits in another queue is unknown here,
  and the dependent is rejected instead of waiting.
\<close>

lemma other_queue_dependency_broken:
  assumes "get_task d (ow_db w) = None" and "\<not> ledger_has_task_id d (ow_ledger w)" and "\<not> is_pending pending d" and "\<not> in_cycle t pending"
  shows "\<exists>v. dependency_eligibility env t [d] pending w = (Inr v, w) \<and> dv_state v = BROKEN"
  using assms by (auto simp: dependency_eligibility_def resolve_dependency_def obind_def oask_def oret_def)

text \<open>A root whose spec file is not in the staging area is promoted all the same.\<close>

lemma root_promoted_without_spec:
  assumes "\<not> oe_is_file (se_orch env) spec (ow_clone w)" and "oe_is_file (se_orch env) root_file (ow_clone w)"
    and "\<not> se_exists env dest (ow_clone w)" and "oe_move (se_orch env) root_file dest (ow_clone w) = Some r'"
  shows "\<exists>out w'. promote_each env [(spec, spec_dest), (root_file, dest)] ([], []) w = (Inr out, w')
      \<and> fst out = [path_name dest] \<and> snd out \<noteq> [] \<and> ow_clone w' = r'"
  using assms by (auto simp: promote_one_def obind_def oask_def oret_def in_clone_def ochange_def ow_clone_def)

end
