(* ===== verification/OperatorOps.thy ===== *)
theory OperatorOps
  imports OrchRun
begin

text \<open>
  What an operator does to a task by hand (\<open>core/orchestrator.py\<close>): \<open>rerun\<close> with and without
  \<open>--continue\<close>, \<open>finalize\<close>, \<open>merge-task\<close> and \<open>prs --sync\<close>, each with the read-only plan that goes
  before it.  Refusals and notes are constructors; the sentences printed for them are left out.
\<close>

section \<open>The source file of a task\<close>

datatype task_source = SourceAt string | NoSource | AmbiguousSource "string list"

fun first_of_each :: "('a \<Rightarrow> 'k) \<Rightarrow> 'a list \<Rightarrow> 'a list" where
  "first_of_each key [] = []"
| "first_of_each key (x # xs) = x # first_of_each key (filter (\<lambda>y. key y \<noteq> key x) xs)"

definition candidates_for :: "'r orch_env \<Rightarrow> string \<Rightarrow> string \<Rightarrow> 'r \<Rightarrow> string list" where
  "candidates_for env tasks_root stem r =
     first_of_each (oe_resolve_dir env) (filter (\<lambda>p. oe_is_file env p r)
       (concat (map (\<lambda>folder. map (\<lambda>suffix. path_join (path_join tasks_root folder) (stem @ suffix)) [''.md'', ''.json''])
          TRACKED_LIFECYCLE_STATES)))"

definition resolve_task_source :: "'r orch_env \<Rightarrow> task_row \<Rightarrow> 'r \<Rightarrow> task_source" where
  "resolve_task_source env row r =
     (let stored = or_empty (tk_source_path row)
      in if stored = [] then NoSource
         else if oe_is_file env stored r then SourceAt stored
         else let parent = path_parent stored;
                  tasks_root = (if path_name parent \<in> set TRACKED_LIFECYCLE_STATES then path_parent parent else parent);
                  slug = (if or_empty (tk_slug row) \<noteq> [] then or_empty (tk_slug row)
                          else if tk_title row = [] then [] else slugify (tk_title row));
                  by_id = candidates_for env tasks_root (tk_task_id row) r;
                  matches = (if by_id \<noteq> [] then by_id
                             else if slug \<noteq> [] \<and> slug \<noteq> tk_task_id row then candidates_for env tasks_root slug r
                             else [])
              in case matches of [] \<Rightarrow> NoSource | [p] \<Rightarrow> SourceAt p | _ \<Rightarrow> AmbiguousSource (sort matches))"

section \<open>Planning a rerun\<close>

definition RERUN_ELIGIBLE_STATUSES :: "status set" where
  "RERUN_ELIGIBLE_STATUSES = {FAILED, MANUAL_ACTION_REQUIRED, RUNNING}"

datatype rerun_refusal =
    UnknownTask
  | StatusNotRerunnable status
  | SlotTaken "string list"
  | SourceAmbiguous "string list"
  | SourceMissing
  | NothingToContinue
  | TreeHasChanges "string list"
  | BudgetNeedsContinue
  | FromNeedsContinue
  | FlowDoesNotResolve
  | NodeNotInFlow string bool
  | BranchNotOwned branch_mode

datatype rerun_note =
    ChangesPreserved "string list"
  | ControlPlaneAdopted string
  | GatesSpent "string list"
  | RemoteReused
  | RestartsInPlace "string option"

record rerun_plan =
  rn_continue :: bool
  rn_found :: bool
  rn_source :: "string option"
  rn_branch :: "string option"
  rn_attempt :: nat
  rn_interrupted_node :: "string option"
  rn_dirty :: "string list"
  rn_has_remote :: bool
  rn_pr_url :: "string option"
  rn_reset_fix_budget :: bool
  rn_from_node :: "string option"
  rn_restart_in_place :: bool
  rn_notes :: "rerun_note list"
  rn_refusals :: "rerun_refusal list"
  rn_exhausted :: "exhausted_loop list"
  rn_backstop :: bool
  rn_spent_gates :: "string list"

definition unknown_rerun :: "bool \<Rightarrow> rerun_plan" where
  "unknown_rerun continue =
     \<lparr>rn_continue = continue, rn_found = False, rn_source = None, rn_branch = None, rn_attempt = 1, rn_interrupted_node = None,
      rn_dirty = [], rn_has_remote = False, rn_pr_url = None, rn_reset_fix_budget = False, rn_from_node = None,
      rn_restart_in_place = False, rn_notes = [], rn_refusals = [UnknownTask], rn_exhausted = [], rn_backstop = False,
      rn_spent_gates = []\<rparr>"

definition persisted_flow_snapshot :: "'r orch_env \<Rightarrow> string \<Rightarrow> 'r \<Rightarrow> flow_snapshot option" where
  "persisted_flow_snapshot env tid r =
     (case persisted_task env tid r of None \<Rightarrow> None | Some t \<Rightarrow> oe_flow env (nt_task_type t) r)"

definition resume_node_refusals :: "string \<Rightarrow> flow_snapshot option \<Rightarrow> bool \<Rightarrow> rerun_refusal list" where
  "resume_node_refusals resume_node live is_from =
     (case live of
        None \<Rightarrow> [FlowDoesNotResolve]
      | Some snap \<Rightarrow> if node_at snap resume_node = None then [NodeNotInFlow resume_node is_from] else [])"

definition control_plane_drifted ::
    "'r orch_env \<Rightarrow> string \<Rightarrow> flow_snapshot \<Rightarrow> string option \<Rightarrow> 'r orch_world \<Rightarrow> bool" where
  "control_plane_drifted env tid live fp w =
     (case get_control_bundle_digest tid (ow_db w) of
        Inr (Some digest) \<Rightarrow> oe_live_digest env live (ow_clone w) \<noteq> Some digest
      | _ \<Rightarrow> fp \<noteq> None \<and> fp \<noteq> Some (snap_fingerprint live))"

definition restart_display_branch :: "'r orch_env \<Rightarrow> string \<Rightarrow> branch_mode \<Rightarrow> ('r, string option) orch_m" where
  "restart_display_branch env tid mode =
     (if mode = BM_CURRENT then via_git env (current_branch (oe_git env))
      else oask (\<lambda>w. Option.bind (persisted_task env tid (ow_clone w)) nt_branch_ref))"

text \<open>A gate with what is spent of it and its cap.\<close>

definition spent_gate :: "string \<Rightarrow> int option \<Rightarrow> flow_snapshot \<Rightarrow> db \<Rightarrow> string \<Rightarrow> string option" where
  "spent_gate tid active snap d nid =
     (case node_at snap nid of
        Some (EvaluatorNode e) \<Rightarrow>
          if ev_blocking e then None
          else (let by_subtask = count_rework_verdicts_by_subtask tid nid d;
                    used = (case map_of by_subtask active of
                              Some n \<Rightarrow> n
                            | None \<Rightarrow> (case map_of by_subtask None of Some n \<Rightarrow> n | None \<Rightarrow> 0))
                in if ev_max_rework_per_stage e \<le> int used
                   then Some (nid @ '' ('' @ show_nat used @ ''/'' @ show_int (ev_max_rework_per_stage e) @ '')'')
                   else None)
      | _ \<Rightarrow> None)"

definition spent_advisory_gates :: "string \<Rightarrow> flow_snapshot \<Rightarrow> string \<Rightarrow> db \<Rightarrow> string list" where
  "spent_advisory_gates tid snap start d =
     List.map_filter (spent_gate tid (Option.bind (get_task tid d) tk_active_subtask) snap d) (reachable_nodes snap start)"

text \<open>What the live flow says about a continuation: refusals, notes, spent loops, backstop, spent gates.\<close>

definition continue_facts ::
    "'r orch_env \<Rightarrow> string \<Rightarrow> string \<Rightarrow> (string \<rightharpoonup> int) option \<Rightarrow> string option \<Rightarrow> bool option \<Rightarrow> string option \<Rightarrow> 'r orch_world \<Rightarrow>
     rerun_refusal list \<times> rerun_note list \<times> exhausted_loop list \<times> bool \<times> string list" where
  "continue_facts env tid node counters fp reset_budget from w =
     (let live = persisted_flow_snapshot env tid (ow_clone w);
          resume_node = (if or_empty from = [] then node else or_empty from);
          refusals = resume_node_refusals resume_node live (from \<noteq> None)
      in case live of
           None \<Rightarrow> (refusals, [], [], False, [])
         | Some snap \<Rightarrow>
             if refusals \<noteq> [] then (refusals, [], [], False, [])
             else let cs = (case counters of None \<Rightarrow> Map.empty | Some c \<Rightarrow> c);
                      gates = spent_advisory_gates tid snap resume_node (ow_db w)
                  in (refusals,
                      (if control_plane_drifted env tid snap fp w then [ControlPlaneAdopted resume_node] else []) @
                      (if gates \<noteq> [] \<and> reset_budget \<noteq> Some True then [GatesSpent gates] else []),
                      exhausted_fix_loops snap cs (oe_max_fix_cycles env) resume_node,
                      global_backstop_exhausted (budgets (doc snap)) (oe_max_total_fixes env) cs,
                      gates))"

text \<open>What a fresh rerun finds on its branch: refusals, notes, a remote branch, the PR, restart in place.\<close>

definition fresh_facts ::
    "'r orch_env \<Rightarrow> string \<Rightarrow> task_row \<Rightarrow> bool \<Rightarrow>
     ('r, rerun_refusal list \<times> rerun_note list \<times> bool \<times> string option \<times> bool \<times> string option) orch_m" where
  "fresh_facts env tid row force_reset_remote =
     obind (oask (\<lambda>w. (persisted_branch_mode env tid (ow_clone w), recorded_pr_url tid (ow_db w), checkpoint_node tid (ow_db w))))
       (\<lambda>(mode, url, node).
     if mode = BM_NEW
     then obind (if or_empty (tk_branch row) = [] then oret False
                 else via_git env (remote_branch_exists (oe_git env) (or_empty (tk_branch row)))) (\<lambda>has_remote.
          oret ([], if (has_remote \<or> or_empty url \<noteq> []) \<and> \<not> force_reset_remote then [RemoteReused] else [],
                has_remote, url, False, tk_branch row))
     else if or_empty node \<noteq> [] then oret ([BranchNotOwned mode], [], False, None, False, tk_branch row)
     else obind (restart_display_branch env tid mode) (\<lambda>b.
          (let shown = (if or_empty b = [] then tk_branch row else b)
           in oret ([], [RestartsInPlace shown], False, None, True, shown))))"

definition source_refusals :: "task_source \<Rightarrow> rerun_refusal list" where
  "source_refusals src = (case src of SourceAt p \<Rightarrow> [] | NoSource \<Rightarrow> [SourceMissing] | AmbiguousSource ps \<Rightarrow> [SourceAmbiguous ps])"

definition slot_refusals :: "string \<Rightarrow> db \<Rightarrow> rerun_refusal list" where
  "slot_refusals tid d =
     (let others = sort (filter (\<lambda>t. t \<noteq> tid) (map tk_task_id (find_active_tasks d)))
      in if others = [] then [] else [SlotTaken others])"

definition plan_rerun ::
    "'r orch_env \<Rightarrow> string \<Rightarrow> bool \<Rightarrow> bool \<Rightarrow> bool option \<Rightarrow> string option \<Rightarrow> ('r, rerun_plan) orch_m" where
  "plan_rerun env tid continue force_reset_remote reset_budget from =
     obind (oask (\<lambda>w. get_task tid (ow_db w))) (\<lambda>found.
     (case found of
        None \<Rightarrow> oret (unknown_rerun continue)
      | Some row \<Rightarrow>
          obind (oask (\<lambda>w. (slot_refusals tid (ow_db w), resolve_task_source env row (ow_clone w),
                            (case get_flow_checkpoint tid (ow_db w) of Inl _ \<Rightarrow> (None, None, None) | Inr c \<Rightarrow> c),
                            worktree_is_task_output tid (ow_db w), ledger_attempt_count tid (ow_ledger w) + 1)))
            (\<lambda>(slot, source, (node, counters, fp), own_output, attempt).
          obind (via_git env (unaccounted_dirty_paths (oe_git env))) (\<lambda>dirty.
          (let has_node = (continue \<and> or_empty node \<noteq> []);
               tolerated = (has_node \<and> own_output)
           in obind (oask (\<lambda>w. if has_node then continue_facts env tid (or_empty node) counters fp reset_budget from w
                               else ([], [], [], False, []))) (\<lambda>(refused1, notes1, exhausted, backstop, gates).
              obind (if continue then oret ([], [], False, None, False, tk_branch row) else fresh_facts env tid row force_reset_remote)
                (\<lambda>(refused2, notes2, has_remote, url, in_place, shown).
              oret
                \<lparr>rn_continue = continue, rn_found = True,
                 rn_source = (case source of SourceAt p \<Rightarrow> Some p | _ \<Rightarrow> None), rn_branch = shown, rn_attempt = attempt,
                 rn_interrupted_node = (if continue then node else None), rn_dirty = sort dirty, rn_has_remote = has_remote,
                 rn_pr_url = url, rn_reset_fix_budget = (reset_budget = Some True), rn_from_node = from,
                 rn_restart_in_place = in_place,
                 rn_notes = (if dirty \<noteq> [] \<and> tolerated then [ChangesPreserved (sort dirty)] else []) @ notes1 @ notes2,
                 rn_refusals =
                   (if tk_status row \<notin> RERUN_ELIGIBLE_STATUSES then [StatusNotRerunnable (tk_status row)] else []) @ slot @
                   source_refusals source @ (if continue \<and> or_empty node = [] then [NothingToContinue] else []) @
                   (if dirty \<noteq> [] \<and> \<not> tolerated then [TreeHasChanges (sort dirty)] else []) @
                   (if reset_budget \<noteq> None \<and> \<not> continue then [BudgetNeedsContinue] else []) @
                   (if from \<noteq> None \<and> \<not> continue then [FromNeedsContinue] else []) @ refused1 @ refused2,
                 rn_exhausted = exhausted, rn_backstop = backstop, rn_spent_gates = gates\<rparr>)))))))"

section \<open>Reruns\<close>

definition known_task :: "string \<Rightarrow> ('r, task_row) orch_m" where
  "known_task tid =
     obind (oask (\<lambda>w. get_task tid (ow_db w))) (\<lambda>row.
     (case row of None \<Rightarrow> oraise (PipelineFailed (''unknown task id '' @ quoted tid)) | Some r \<Rightarrow> oret r))"

text \<open>The old attempt goes to the archive and the exchange starts empty.\<close>

definition clear_attempt :: "'r orch_env \<Rightarrow> string \<Rightarrow> ('r, unit) orch_m" where
  "clear_attempt env tid =
     obind (oask (\<lambda>w. ledger_attempt_count tid (ow_ledger w))) (\<lambda>prior.
     obind (in_clone (oe_archive env tid prior)) (\<lambda>_. in_clone (oe_clear_exchange env tid)))"

definition rerun_task :: "'r orch_env \<Rightarrow> string \<Rightarrow> string \<Rightarrow> bool \<Rightarrow> ('r, pipeline_result) orch_m" where
  "rerun_task env tid task_file force_reset_remote =
     obind (known_task tid) (\<lambda>row.
     obind (oask (\<lambda>w. persisted_branch_mode env tid (ow_clone w))) (\<lambda>mode.
     if mode \<noteq> BM_NEW then oraise (PipelineFailed (''cannot fresh-rerun '' @ quoted tid @ '': operator-owned branch''))
     else obind (clear_attempt env tid) (\<lambda>_.
          obind (via_git env (reset_branch_to_base (oe_git env) tid
                   (if or_empty (tk_slug row) = [] then slugify (tk_title row) else or_empty (tk_slug row))
                   (oe_epoch env) (tk_branch row) force_reset_remote)) (\<lambda>_.
          obind (in_db (reset_task_for_rerun (oe_now env) tid)) (\<lambda>_. run_task env task_file)))))"

definition restart_task_in_place :: "'r orch_env \<Rightarrow> string \<Rightarrow> string \<Rightarrow> ('r, pipeline_result) orch_m" where
  "restart_task_in_place env tid task_file =
     obind (known_task tid) (\<lambda>row.
     obind (oask (\<lambda>w. (persisted_branch_mode env tid (ow_clone w), checkpoint_node tid (ow_db w)))) (\<lambda>(mode, node).
     if mode = BM_NEW then oraise (PipelineFailed (''cannot restart-in-place '' @ quoted tid @ '' in branch_mode 'new'; use a fresh rerun''))
     else if or_empty node \<noteq> [] then oraise (PipelineFailed (quoted tid @ '' has a recorded checkpoint at '' @ quoted (or_empty node)))
     else obind (clear_attempt env tid) (\<lambda>_.
          obind (in_db (reset_task_for_rerun (oe_now env) tid)) (\<lambda>_. run_task env task_file))))"

text \<open>The patch of the checkpoint before a continuation reads it.\<close>

definition grant_budget :: "'r orch_env \<Rightarrow> string \<Rightarrow> ('r, unit) orch_m" where
  "grant_budget env tid =
     obind (oask (\<lambda>w. get_counters tid (ow_db w))) (\<lambda>counters.
     (case counters of
        Inl e \<Rightarrow> oraise (Escaped (oe_store_text env e))
      | Inr c \<Rightarrow>
          obind (in_db (save_counters (oe_now env) tid (c\<lparr>test_fix_cycles := 0, review_fix_cycles := 0\<rparr>))) (\<lambda>_.
          via_store env (\<lambda>d. case record_rework_budget_reset (oe_now env) tid d of Inl e \<Rightarrow> Inl e | Inr (_, d') \<Rightarrow> Inr d'))))"

definition patched_checkpoint ::
    "string \<Rightarrow> (string \<rightharpoonup> int) option \<Rightarrow> string \<Rightarrow> bool \<Rightarrow> string option \<Rightarrow> flow_run_state" where
  "patched_checkpoint node counters fp reset_budget from =
     (let rs = \<lparr>flow_fingerprint = fp, current_node = Some (if or_empty from = [] then node else or_empty from),
                completed_nodes = [], loop_counters = (case counters of None \<Rightarrow> Map.empty | Some c \<Rightarrow> c)\<rparr>
      in if reset_budget then reset_consecutive_fix_budget rs else rs)"

definition apply_continue_controls ::
    "'r orch_env \<Rightarrow> string \<Rightarrow> string \<Rightarrow> (string \<rightharpoonup> int) option \<Rightarrow> string option \<Rightarrow> bool \<Rightarrow> string option \<Rightarrow> ('r, unit) orch_m" where
  "apply_continue_controls env tid node counters fp reset_budget from =
     obind (oask (\<lambda>w. persisted_flow_snapshot env tid (ow_clone w))) (\<lambda>live.
     (let baseline = (case live of None \<Rightarrow> or_empty fp | Some snap \<Rightarrow> snap_fingerprint snap)
      in if \<not> reset_budget \<and> from = None \<and> baseline = or_empty fp then oret ()
         else let rs = patched_checkpoint node counters baseline reset_budget from
              in obind (in_db (save_flow_checkpoint (oe_now env) tid (current_node rs) (loop_counters rs) (flow_fingerprint rs)
                               (fix_iterations rs))) (\<lambda>_.
                 owhen reset_budget (grant_budget env tid))))"

text \<open>\<open>finally\<close>: the step runs whatever the body does.\<close>

definition ofinally :: "('r, 'a) orch_m \<Rightarrow> ('r, unit) orch_m \<Rightarrow> ('r, 'a) orch_m" where
  "ofinally m after w = (case m w of (x, w1) \<Rightarrow> (case after w1 of (Inl e, w2) \<Rightarrow> (Inl e, w2) | (Inr _, w2) \<Rightarrow> (x, w2)))"

definition continue_task :: "'r orch_env \<Rightarrow> string \<Rightarrow> bool \<Rightarrow> string option \<Rightarrow> ('r, pipeline_result) orch_m" where
  "continue_task env tid reset_budget from =
     obind (known_task tid) (\<lambda>row.
     obind (oask (\<lambda>w. get_flow_checkpoint tid (ow_db w))) (\<lambda>checkpoint.
     (case checkpoint of
        Inl e \<Rightarrow> oraise (Escaped (oe_store_text env e))
      | Inr (node, counters, fp) \<Rightarrow>
          if or_empty node = []
          then oraise (PipelineFailed (''cannot continue '' @ quoted tid @ '': no recoverable stage recorded; use a fresh rerun''))
          else obind (apply_continue_controls env tid (or_empty node) counters fp reset_budget from) (\<lambda>_.
               obind (in_clone (oe_reset_interactions env tid)) (\<lambda>_.
               obind (in_db (revive_task_for_continue (oe_now env) tid RUNNING)) (\<lambda>_.
               obind (ochange (ow_continue_adopt_update (\<lambda>ts. List.insert tid ts))) (\<lambda>_.
               obind (ofinally (resume env) (ochange (ow_continue_adopt_update (removeAll tid)))) (\<lambda>res.
               (case res of
                  None \<Rightarrow> oraise (PipelineFailed (''continue '' @ quoted tid @ '' did not resume (no active task found)''))
                | Some r \<Rightarrow> oret r)))))))))"

section \<open>Finalizing by hand\<close>

datatype pr_url_source = PR_NONE | PR_EXPLICIT | PR_RECORDED

datatype finalize_refusal = FinalizeUnknown | AlreadyFinalized | FinalizeDirty "string list"

datatype finalize_warning = NoPrUrl | PrNotMerged string

record finalize_plan =
  fz_found :: bool
  fz_returns_to_base :: bool
  fz_pr_url :: "string option"
  fz_pr_url_source :: pr_url_source
  fz_verify_state :: "string option"
  fz_dirty :: "string list"
  fz_task_move :: "(string \<times> string) option"
  fz_spec_moves :: "(string \<times> string) list"
  fz_warnings :: "finalize_warning list"
  fz_refusals :: "finalize_refusal list"

definition ledger_has_manual :: "string \<Rightarrow> ledger_record list \<Rightarrow> bool" where
  "ledger_has_manual tid ledger = list_ex (\<lambda>r. lg_id r = tid \<and> lg_manual r) ledger"

text \<open>The task file and the specs a finalize takes to the lifecycle folder of the declared status.\<close>

definition finalize_moves :: "'r orch_env \<Rightarrow> task_row \<Rightarrow> status \<Rightarrow> 'r \<Rightarrow> (string \<times> string) option \<times> (string \<times> string) list" where
  "finalize_moves env row declared r =
     (case lifecycle_destination (tk_source_path row) declared of
        None \<Rightarrow> (None, [])
      | Some dest \<Rightarrow>
          let src = or_empty (tk_source_path row)
          in (Some (src, dest),
              List.map_filter (\<lambda>ref. if oe_is_file env (path_join (path_parent src) ref) r
                                     then Some (path_join (path_parent src) ref, path_join (path_parent dest) ref) else None)
                (subtask_refs_of env src r)))"

definition plan_finalize ::
    "'r orch_env \<Rightarrow> string \<Rightarrow> status \<Rightarrow> string option \<Rightarrow> bool \<Rightarrow> ('r, finalize_plan) orch_m" where
  "plan_finalize env tid declared pr_url verify =
     obind (oask (\<lambda>w. get_task tid (ow_db w))) (\<lambda>found.
     (case found of
        None \<Rightarrow>
          oret \<lparr>fz_found = False, fz_returns_to_base = True, fz_pr_url = None, fz_pr_url_source = PR_NONE, fz_verify_state = None,
                fz_dirty = [], fz_task_move = None, fz_spec_moves = [], fz_warnings = [], fz_refusals = [FinalizeUnknown]\<rparr>
      | Some row \<Rightarrow>
          obind (via_git env (unaccounted_dirty_paths (oe_git env))) (\<lambda>dirty.
          obind (oask (\<lambda>w. (ledger_has_manual tid (ow_ledger w), recorded_pr_url tid (ow_db w)))) (\<lambda>(manual, recorded).
          (let (url, source) = (if declared \<noteq> DONE then (None, PR_NONE)
                                else if or_empty pr_url \<noteq> [] then (pr_url, PR_EXPLICIT)
                                else if recorded \<noteq> None then (recorded, PR_RECORDED) else (None, PR_NONE))
           in obind (case url of
                       Some u \<Rightarrow> if verify then via_git env (verify_pr_state (oe_git env) u) else oret None
                     | None \<Rightarrow> oret None) (\<lambda>state.
              obind (oask (\<lambda>w. (finalize_moves env row declared (ow_clone w), persisted_branch_mode env tid (ow_clone w))))
                (\<lambda>((move, specs), mode).
              oret
                \<lparr>fz_found = True, fz_returns_to_base = returns_to_base (oe_git env) mode, fz_pr_url = url,
                 fz_pr_url_source = source, fz_verify_state = state, fz_dirty = sort dirty, fz_task_move = move, fz_spec_moves = specs,
                 fz_warnings = (if declared = DONE \<and> url = None then [NoPrUrl] else []) @
                   (case state of Some s \<Rightarrow> if s \<noteq> ''MERGED'' then [PrNotMerged s] else [] | None \<Rightarrow> []),
                 fz_refusals = (if manual then [AlreadyFinalized] else []) @ (if dirty \<noteq> [] then [FinalizeDirty (sort dirty)] else [])\<rparr>)))))))"

definition finalize_record ::
    "'r orch_env \<Rightarrow> task_row \<Rightarrow> status \<Rightarrow> string option \<Rightarrow> string option \<Rightarrow> ledger_record" where
  "finalize_record env row declared pr_url message =
     (blank_record env (tk_task_id row) (tk_title row) declared)
       \<lparr>lg_branch := tk_branch row, lg_pr_url := pr_url, lg_fix_iterations := tk_fix_iterations row,
        lg_terminal_cleanup := Some ''completed'', lg_failure_report := tk_failure_report_path row,
        lg_decomposed := (tk_decomposition_accepted row = Some True), lg_subtask_count := tk_subtask_count row,
        lg_subtasks_completed := Some (tk_subtasks_completed row), lg_manual := True, lg_note := message,
        lg_outcome := (if declared = MANUAL_ACTION_REQUIRED then Some ''abandoned'' else None)\<rparr>"

text \<open>What a finalize tidies once the status is set: open node runs, the exchange, artifacts, the task file, questions.\<close>

definition finalize_files ::
    "'r orch_env \<Rightarrow> string \<Rightarrow> task_row \<Rightarrow> status \<Rightarrow> string option \<Rightarrow> ('r, unit) orch_m" where
  "finalize_files env tid row declared message =
     obind (in_db (close_open_runs (oe_now env) tid
              (if or_empty message \<noteq> [] then or_empty message
               else ''finalized as '' @ status_value declared @ '' by operator''))) (\<lambda>_.
     obind (oask (\<lambda>w. ledger_attempt_count tid (ow_ledger w) + 1)) (\<lambda>attempt.
     obind (seal_terminal_exchange env tid declared attempt False) (\<lambda>_.
     obind (evict_run_artifacts env tid declared) (\<lambda>_.
     obind (relocate_task_file env (tk_source_path row) tid declared) (\<lambda>_.
     in_clone (oe_consume_interactions env tid))))))"

text \<open>The part of a finalize after the tree was restored.\<close>

definition finalize_rest ::
    "'r orch_env \<Rightarrow> string \<Rightarrow> task_row \<Rightarrow> status \<Rightarrow> string option \<Rightarrow> string option \<Rightarrow> bool \<Rightarrow> string \<Rightarrow> ('r, pipeline_result) orch_m" where
  "finalize_rest env tid row declared pr_url message delete target =
     obind (update_row env tid
       [tk_cleanup_target_branch_update (\<lambda>_. Some target), tk_cleanup_completed_update (\<lambda>_. Some True),
        tk_cleanup_completed_at_update (\<lambda>_. Some (oe_now env)), tk_cleanup_last_error_update (\<lambda>_. message),
        tk_finished_at_update (\<lambda>_. Some (oe_now env))]) (\<lambda>_.
     obind (oask (\<lambda>w. hydrate_run_state tid (ow_db w))) (\<lambda>checkpoint.
     (case checkpoint of
        Inl e \<Rightarrow> oraise (Escaped (oe_store_text env e))
      | Inr found \<Rightarrow>
          obind (case found of None \<Rightarrow> oret () | Some rs \<Rightarrow> in_db (save_counters (oe_now env) tid (from_run_state rs))) (\<lambda>_.
          obind (in_db (set_status (oe_now env) tid declared)) (\<lambda>_.
          obind (finalize_files env tid row declared message) (\<lambda>_.
          obind (if delete \<and> or_empty (tk_branch row) \<noteq> []
                 then obind (via_git env (delete_branch (oe_git env) (or_empty (tk_branch row)))) (\<lambda>_. oret ())
                 else oret ()) (\<lambda>_.
          obind (to_ledger (finalize_record env row declared pr_url message)) (\<lambda>_.
          oret ((plain_result tid declared)\<lparr>rs_pr_url := pr_url\<rparr>)))))))))"

definition finalize_task ::
    "'r orch_env \<Rightarrow> string \<Rightarrow> status \<Rightarrow> string option \<Rightarrow> string option \<Rightarrow> bool \<Rightarrow> ('r, pipeline_result) orch_m" where
  "finalize_task env tid declared pr_url message delete =
     obind (known_task tid) (\<lambda>row.
     obind (oask (\<lambda>w. persisted_branch_mode env tid (ow_clone w))) (\<lambda>mode.
     obind (via_git env (terminal_cleanup (oe_git env) mode False)) (\<lambda>c.
     if \<not> co_safe c
     then obind (update_row env tid
            [tk_cleanup_target_branch_update (\<lambda>_. Some (co_target_branch c)), tk_cleanup_completed_update (\<lambda>_. Some False),
             tk_cleanup_last_error_update (\<lambda>_. co_error c)]) (\<lambda>_.
          oraise (PipelineFailed (''finalize blocked: '' @ or_empty (co_error c))))
     else finalize_rest env tid row declared pr_url message delete (co_target_branch c))))"

section \<open>Merging by hand\<close>

datatype merge_refusal = MergeUnknown | MergeSlotTaken | MergeNoPr | MergeClosed string

record merge_plan =
  mp_found :: bool
  mp_pr_url :: "string option"
  mp_verify_state :: "string option"
  mp_already_merged :: bool
  mp_commit_subject :: "string option"
  mp_unverified :: bool
  mp_refusals :: "merge_refusal list"

definition plan_merge :: "'r orch_env \<Rightarrow> string \<Rightarrow> bool \<Rightarrow> ('r, merge_plan) orch_m" where
  "plan_merge env tid verify =
     obind (oask (\<lambda>w. (get_task tid (ow_db w), acquire_slot tid (ow_db w), recorded_pr_url tid (ow_db w))))
       (\<lambda>(found, slot_free, url).
     (case found of
        None \<Rightarrow>
          oret \<lparr>mp_found = False, mp_pr_url = None, mp_verify_state = None, mp_already_merged = False, mp_commit_subject = None,
                mp_unverified = False, mp_refusals = [MergeUnknown]\<rparr>
      | Some row \<Rightarrow>
          obind (case url of
                   Some u \<Rightarrow> if verify then via_git env (verify_pr_state (oe_git env) u) else oret None
                 | None \<Rightarrow> oret None) (\<lambda>state.
          (let checked = (url \<noteq> None \<and> verify)
           in obind (oask (\<lambda>w. persisted_commit_type env tid (ow_clone w))) (\<lambda>commit_type.
              oret
                \<lparr>mp_found = True, mp_pr_url = url, mp_verify_state = state, mp_already_merged = (state = Some ''MERGED''),
                 mp_commit_subject = Some (merge_commit_subject tid (tk_title row) url commit_type),
                 mp_unverified = (checked \<and> state = None),
                 mp_refusals = (if slot_free then [] else [MergeSlotTaken]) @ (if url = None then [MergeNoPr] else []) @
                   (if state = Some ''CLOSED'' then [MergeClosed (or_empty url)] else [])\<rparr>)))))"

text \<open>A conflicted path without a decision, and why; \<open>None\<close> where there is one.\<close>

definition undecided :: "conflicted_path list \<Rightarrow> conflicted_path \<Rightarrow> string option" where
  "undecided later entry =
     (case map_of (rev (map (\<lambda>e. (cf_path e, e)) later)) (cf_path entry) of
        None \<Rightarrow> None
      | Some current \<Rightarrow>
          if cf_evidence entry = NOTHING_TO_DECIDE then None
          else if cf_evidence entry = OUT_OF_BAND then Some ''cannot be resolved by editing a file in this working tree''
          else if cf_exists entry \<noteq> cf_exists current then None
          else if cf_digest entry = None \<or> cf_digest current = None then Some ''the working tree holds nothing readable at this path''
          else if cf_digest entry = cf_digest current then Some ''byte-identical to what the merge left there''
          else None)"

definition undecided_conflicts :: "conflicted_path list \<Rightarrow> conflicted_path list \<Rightarrow> (conflicted_path \<times> string) list" where
  "undecided_conflicts before later =
     List.map_filter (\<lambda>entry. map_option (\<lambda>why. (entry, why)) (undecided later entry)) before"

definition UNDECIDED_EVIDENCE_CAP :: nat where "UNDECIDED_EVIDENCE_CAP = 20"

definition undecided_conflicts_reason :: "(conflicted_path \<times> string) list \<Rightarrow> nat \<Rightarrow> string \<Rightarrow> string" where
  "undecided_conflicts_reason found total_paths base =
     join_with line_feed
       ([''refusing to commit the base merge: '' @ show_nat (length found) @ '' of '' @ show_nat total_paths @
         '' conflicted path(s) carry no decision.''] @
        map (\<lambda>(e, why). ''  - '' @ cf_path e @ '' ['' @ cf_code e @ ''] '' @ cf_description e @ '': '' @ why)
          (take UNDECIDED_EVIDENCE_CAP found) @
        (if length found > UNDECIDED_EVIDENCE_CAP
         then [''  - (+'' @ show_nat (length found - UNDECIDED_EVIDENCE_CAP) @ '' more)''] else []) @
        [''Nothing was committed; the merge was aborted and the pull request is still open.'',
         ''A conflict whose correct answer really is \"keep our side, unchanged\" leaves the same working tree as one nobody looked at, '' @
         ''and this refuses both. Finish those paths by hand (`git merge origin/'' @ base @ ''`, resolve, `git commit`) and re-run '' @
         ''`worc merge-task` '' @ em_dash @ '' it then takes the clean path '' @ em_dash @
         '' or adjust the merge flow's role prompt and re-run.''])"

definition resolve_conflicts :: "'r orch_env \<Rightarrow> task_row \<Rightarrow> string \<Rightarrow> bool \<Rightarrow> ('r, unit) orch_m" where
  "resolve_conflicts env row url resolve =
     (if \<not> resolve then oraise (PipelineFailed (''base merge conflicts and --no-resolve was set; PR left open: '' @ url))
      else obind (oask (\<lambda>w. degraded_pipeline row (ow_db w))) (\<lambda>p.
           obind (via_git env (conflicted_paths (oe_git env))) (\<lambda>before.
           obind (oask ow_clone) (\<lambda>r.
           if \<not> oe_merge_flow_found env r then oraise (PipelineFailed ''the merge flow could not be resolved'')
           else obind (owhen (before \<noteq> []) (in_clone (oe_conflict_report env (tk_task_id row) before))) (\<lambda>_.
                obind (oe_run_merge_flow env p) (\<lambda>finish.
                (case finish of
                   Inl message \<Rightarrow> oraise (ManualRequired (''merge flow stopped: '' @ message))
                 | Inr clean \<Rightarrow>
                     if \<not> clean
                     then oraise (PipelineFailed (''the merge flow produced no clean, passing tree; PR left open: '' @ url))
                     else obind (via_git env (conflicted_paths (oe_git env))) (\<lambda>later.
                          (let open_paths = undecided_conflicts before later
                           in if open_paths = [] then oret ()
                              else oraise (ManualRequired (undecided_conflicts_reason open_paths (length before)
                                     (ge_base_branch (oe_git env)))))))))))))"

definition merge_steps ::
    "'r orch_env \<Rightarrow> task_row \<Rightarrow> string \<Rightarrow> string \<Rightarrow> merge_strategy \<Rightarrow> bool \<Rightarrow> bool \<Rightarrow> ('r, unit) orch_m" where
  "merge_steps env row branch url strategy wait_for_checks resolve =
     (let tid = tk_task_id row; base = ge_base_branch (oe_git env)
      in obind (via_git env (update_branch_with_base (oe_git env) branch base)) (\<lambda>conflicted.
         obind (owhen conflicted (resolve_conflicts env row url resolve)) (\<lambda>_.
         obind (via_git env (commit_merge_resolution (oe_git env) tid (''merge('' @ tid @ ''): integrate base '' @ quoted base))) (\<lambda>_.
         obind (via_git env (push_branch_update (oe_git env) tid branch)) (\<lambda>_.
         obind (oask (\<lambda>w. persisted_commit_type env tid (ow_clone w))) (\<lambda>commit_type.
         obind (via_git env (merge_pr (oe_git env) tid url strategy wait_for_checks
                  (Some (merge_commit_subject tid (tk_title row) (Some url) commit_type)) (Some []))) (\<lambda>_.
         oret ())))))))"

definition merge_finalize :: "'r orch_env \<Rightarrow> task_row \<Rightarrow> string \<Rightarrow> ('r, pipeline_result) orch_m" where
  "merge_finalize env row url =
     (if tk_status row = MANUAL_ACTION_REQUIRED
      then finalize_task env (tk_task_id row) DONE (Some url) (Some ''merged via merge-task'') False
      else oret ((plain_result (tk_task_id row) (tk_status row))\<lparr>rs_pr_url := Some url\<rparr>))"

text \<open>The routine is transactional: whatever ends it early, the merge is aborted first.\<close>

definition aborting :: "'r orch_env \<Rightarrow> ('r, unit) orch_m \<Rightarrow> ('r, unit) orch_m" where
  "aborting env m =
     ocatch m (\<lambda>e. obind (via_git env (merge_abort (oe_git env))) (\<lambda>_.
       (case e of
          GitFailed message \<Rightarrow> oraise (PipelineFailed (''merge-task failed: '' @ message))
        | PipelineFailed message \<Rightarrow> oraise (PipelineFailed (''merge-task failed: '' @ message))
        | _ \<Rightarrow> oraise e)))"

definition merge_task_op ::
    "'r orch_env \<Rightarrow> string \<Rightarrow> merge_strategy \<Rightarrow> bool \<Rightarrow> bool \<Rightarrow> ('r, pipeline_result) orch_m" where
  "merge_task_op env tid strategy wait_for_checks resolve =
     obind (known_task tid) (\<lambda>row.
     obind (oask (\<lambda>w. (acquire_slot tid (ow_db w), recorded_pr_url tid (ow_db w)))) (\<lambda>(slot_free, recorded).
     if \<not> slot_free then oraise (PipelineFailed ''another task owns the processing slot; merge-task needs it idle'')
     else (case recorded of
       None \<Rightarrow> oraise (PipelineFailed (''task '' @ quoted tid @ '' has no recorded PR to merge''))
     | Some url \<Rightarrow>
         obind (via_git env (verify_pr_state (oe_git env) url)) (\<lambda>state.
         if state = Some ''MERGED''
         then obind (via_git env (record_external_merge (oe_git env) tid url)) (\<lambda>_. merge_finalize env row url)
         else if state = Some ''CLOSED'' then oraise (PipelineFailed (''the PR is CLOSED (not merged); nothing to do: '' @ url))
         else if or_empty (tk_branch row) = [] then oraise (PipelineFailed (''task '' @ quoted tid @ '' has no recorded branch to merge''))
         else obind (oask (\<lambda>w. degraded_pipeline row (ow_db w))) (\<lambda>p.
              obind (declare_private_report_dir env p) (\<lambda>_.
              obind (via_git env (merge_abort (oe_git env))) (\<lambda>_.
              obind (aborting env (merge_steps env row (or_empty (tk_branch row)) url strategy wait_for_checks resolve)) (\<lambda>_.
              merge_finalize env row url))))))))"

section \<open>Pull requests merged elsewhere\<close>

datatype sync_action = RECORD_MERGE | CLOSED_NO_MERGE | UNVERIFIABLE_STATE | STILL_OPEN

record pr_sync_entry =
  pe_task_id :: string
  pe_pr_url :: "string option"
  pe_state :: "string option"
  pe_action :: sync_action
  pe_finalized_done :: bool

definition sync_one :: "'r orch_env \<Rightarrow> bool \<Rightarrow> task_row \<Rightarrow> ('r, pr_sync_entry) orch_m" where
  "sync_one env commit row =
     obind (oask (\<lambda>w. recorded_pr_url (tk_task_id row) (ow_db w))) (\<lambda>url.
     obind (if or_empty url = [] then oret None else via_git env (verify_pr_state (oe_git env) (or_empty url))) (\<lambda>state.
     if state = Some ''MERGED''
     then obind (if commit
                 then obind (via_git env (record_external_merge (oe_git env) (tk_task_id row) (or_empty url))) (\<lambda>_.
                      if tk_status row = MANUAL_ACTION_REQUIRED
                      then obind (finalize_task env (tk_task_id row) DONE url (Some ''merged externally (prs --sync)'') False)
                             (\<lambda>_. oret True)
                      else oret False)
                 else oret False) (\<lambda>finalized.
          oret \<lparr>pe_task_id = tk_task_id row, pe_pr_url = url, pe_state = state, pe_action = RECORD_MERGE, pe_finalized_done = finalized\<rparr>)
     else oret \<lparr>pe_task_id = tk_task_id row, pe_pr_url = url, pe_state = state,
                pe_action = (if state = Some ''CLOSED'' then CLOSED_NO_MERGE
                             else if state = None then UNVERIFIABLE_STATE else STILL_OPEN),
                pe_finalized_done = False\<rparr>))"

fun sync_each :: "'r orch_env \<Rightarrow> bool \<Rightarrow> task_row list \<Rightarrow> ('r, pr_sync_entry list) orch_m" where
  "sync_each env commit [] = oret []"
| "sync_each env commit (row # rows) =
     obind (sync_one env commit row) (\<lambda>entry. obind (sync_each env commit rows) (\<lambda>rest. oret (entry # rest)))"

definition sync_external_merges :: "'r orch_env \<Rightarrow> bool \<Rightarrow> ('r, pr_sync_entry list) orch_m" where
  "sync_external_merges env commit =
     obind (oask (\<lambda>w. find_open_pr_tasks (ow_db w))) (sync_each env commit)"

end
