(* ===== verification/OperatorProps.thy ===== *)
theory OperatorProps
  imports OperatorOps SchedulerProps
begin

text \<open>
  What the operator commands promise: plans only look, a finalize is all or nothing and leaves a manual
  record, a failed merge leaves no merge behind, and a continuation with a fresh budget keeps the global one.
\<close>

section \<open>Frames of the git manager\<close>

text \<open>As \<open>over\<close>, for the operations of the git manager.\<close>

named_theorems store_rules "git operations that leave the store alone"
named_theorems survey_rules "operations that do nothing but launch commands that look"

definition git_over :: "('r git_world \<Rightarrow> 'r git_world \<Rightarrow> bool) \<Rightarrow> ('r, 'a) git_m \<Rightarrow> bool" where
  "git_over R m = (\<forall>g. R g (snd (m g)))"

lemma git_overD: "git_over R m \<Longrightarrow> m g = (x, g') \<Longrightarrow> R g g'"
  unfolding git_over_def by (metis snd_conv)

lemma git_over_if: "(b \<Longrightarrow> git_over R m) \<Longrightarrow> (\<not> b \<Longrightarrow> git_over R n) \<Longrightarrow> git_over R (if b then m else n)"
  by simp

lemma git_over_option:
  "(v = None \<Longrightarrow> git_over R m) \<Longrightarrow> (\<And>x. v = Some x \<Longrightarrow> git_over R (f x)) \<Longrightarrow> git_over R (case v of None \<Rightarrow> m | Some x \<Rightarrow> f x)"
  by (cases v) simp_all

text \<open>A pattern inside a pattern.\<close>

lemma over_pair_inside: "(\<And>x y. v = (x, y) \<Longrightarrow> over R (f x y z)) \<Longrightarrow> over R ((case v of (x, y) \<Rightarrow> f x y) z)"
  by (cases v) simp

locale steady_git =
  fixes R :: "'r git_world \<Rightarrow> 'r git_world \<Rightarrow> bool"
  assumes refl: "R g g"
    and trans: "R g h \<Longrightarrow> R h k \<Longrightarrow> R g k"
begin

lemma git_over_leaf: "git_over R (ret x)" "git_over R (raise e)" "git_over R (ask f)" "git_over R (read_db r)"
  by (simp_all add: git_over_def ret_def raise_def ask_def read_db_def refl)

lemma git_over_bind: "git_over R m \<Longrightarrow> (\<And>x. git_over R (f x)) \<Longrightarrow> git_over R (bind_m m f)"
  unfolding git_over_def bind_m_def
  by (auto split: prod.split sum.split; metis snd_conv trans)

lemma git_over_when: "git_over R m \<Longrightarrow> git_over R (when_m b m)"
  by (simp add: when_m_def git_over_leaf)

end

definition same_store :: "'r git_world \<Rightarrow> 'r git_world \<Rightarrow> bool" where
  "same_store g g' = (gw_db g' = gw_db g)"

interpretation stores: steady_git same_store
  by unfold_locales (simp_all add: same_store_def)

lemma store_run: "git_over same_store (run_cmd genv argv)"
  by (simp add: git_over_def same_store_def run_cmd_def split: prod.split)

lemmas [store_rules] = stores.git_over_leaf stores.git_over_bind stores.git_over_when store_run
  git_over_if [where R = same_store] git_over_option [where R = same_store]

lemma store_git [store_rules]: "git_over same_store (git genv args)" "git_over same_store (gh genv args)"
  "git_over same_store (git_checked genv args)"
  unfolding git_def gh_def git_checked_def by (intro store_rules)+

lemma store_release: "git_over same_store (change (gw_active_update f))"
  by (simp add: git_over_def change_def same_store_def)

lemma store_cleanup [store_rules]: "git_over same_store (terminal_cleanup genv mode own)" "git_over same_store (delete_branch genv b)"
  unfolding terminal_cleanup_def stay_on_branch_def current_branch_def unaccounted_dirty_paths_def untrusted_config_programs_def
    delete_branch_def branch_exists_def
  by (intro store_rules store_release)+

section \<open>Plans\<close>

text \<open>The world after these commands and nothing else.\<close>

definition replay :: "'r git_env \<Rightarrow> string list list \<Rightarrow> 'r git_world \<Rightarrow> 'r git_world" where
  "replay genv cs g = fold (\<lambda>argv h. snd (run_cmd genv argv h)) cs g"

text \<open>The commands a plan may launch: none of them writes to the clone or to the forge.\<close>

definition surveying :: "string list \<Rightarrow> bool" where
  "surveying argv = (take 2 argv \<in> {[''git'', ''status''], [''git'', ''rev-parse''], [''git'', ''ls-remote'']}
     \<or> take 3 argv = [''gh'', ''pr'', ''view''])"

definition replays :: "'r git_env \<Rightarrow> 'r git_world \<Rightarrow> 'r git_world \<Rightarrow> bool" where
  "replays genv g g' = (\<exists>cs. list_all surveying cs \<and> g' = replay genv cs g)"

definition surveys :: "'r git_env \<Rightarrow> 'r orch_world \<Rightarrow> 'r orch_world \<Rightarrow> bool" where
  "surveys genv w w' = (\<exists>g. replays genv (ow_git w) g \<and> w' = w\<lparr>ow_git := g\<rparr>)"

interpretation replayed: steady_git "replays genv" for genv
proof (unfold_locales, goal_cases)
  case (1 g)
  show ?case by (auto simp: replays_def replay_def intro: exI [of _ "[]"])
next
  case (2 g h k)
  then obtain cs ds where "list_all surveying cs" "h = replay genv cs g" "list_all surveying ds" "k = replay genv ds h"
    by (auto simp: replays_def)
  then show ?case by (auto simp: replays_def replay_def intro!: exI [of _ "cs @ ds"])
qed

interpretation surveyed: steady "surveys genv" for genv
proof (unfold_locales, goal_cases)
  case (1 w)
  show ?case by (auto simp: surveys_def intro!: exI [of _ "ow_git w"] replayed.refl)
next
  case (2 u v w)
  then obtain g h where "replays genv (ow_git u) g" "v = u\<lparr>ow_git := g\<rparr>" "replays genv g h" "w = u\<lparr>ow_git := h\<rparr>"
    by (auto simp: surveys_def)
  then show ?case using replayed.trans unfolding surveys_def by blast
qed

lemma replay_run [survey_rules]: "surveying argv \<Longrightarrow> git_over (replays genv) (run_cmd genv argv)"
  by (auto simp: git_over_def replays_def replay_def intro!: exI [of _ "[argv]"])

lemma survey_git [survey_rules]: "git_over (replays (oe_git env)) m \<Longrightarrow> over (surveys (oe_git env)) (via_git env m)"
  unfolding over_def
proof (intro allI)
  fix w :: "'a orch_world"
  assume "git_over (replays (oe_git env)) m"
  then have "replays (oe_git env) (ow_git w) (snd (m (ow_git w)))" by (simp add: git_over_def)
  then show "surveys (oe_git env) w (snd (via_git env m w))"
    by (auto simp: via_git_def surveys_def split: prod.splits sum.splits)
qed

lemmas [survey_rules] = replayed.git_over_leaf replayed.git_over_bind git_over_if [where R = "replays genv" for genv]
  surveyed.over_ret surveyed.over_raise surveyed.over_ask surveyed.over_bind over_if [where R = "surveys genv" for genv]
  over_let [where R = "surveys genv" for genv] over_option [where R = "surveys genv" for genv]
  over_sum [where R = "surveys genv" for genv] over_pair [where R = "surveys genv" for genv]
  over_pair_inside [where R = "surveys genv" for genv]

lemma survey_probes [survey_rules]:
  "git_over (replays genv) (unaccounted_dirty_paths genv)" "git_over (replays genv) (remote_branch_exists genv b)"
  "git_over (replays genv) (current_branch genv)" "git_over (replays genv) (verify_pr_state genv u)"
  unfolding unaccounted_dirty_paths_def remote_branch_exists_def remote_head_def current_branch_def verify_pr_state_def git_def gh_def
  by (intro survey_rules; simp add: surveying_def)+

lemma survey_rerun: "over (surveys (oe_git env)) (plan_rerun env tid continue force reset_budget from)"
  unfolding plan_rerun_def fresh_facts_def restart_display_branch_def Let_def
  by (intro survey_rules)

lemma survey_finalize: "over (surveys (oe_git env)) (plan_finalize env tid declared url verify)"
  unfolding plan_finalize_def Let_def by (intro survey_rules)

lemma survey_merge: "over (surveys (oe_git env)) (plan_merge env tid verify)"
  unfolding plan_merge_def Let_def by (intro survey_rules)

lemma survey_sync_each: "over (surveys (oe_git env)) (sync_each env False rows)"
  by (induction rows) (auto simp: sync_one_def intro!: survey_rules simp del: if_split)

text \<open>
  C14. Planning changes nothing.  The plan of a rerun, of a finalize and of a merge, and a dry run of
  \<open>prs --sync\<close>, leave the world exactly as it is after a number of \<open>git status\<close>, \<open>git rev-parse\<close>,
  \<open>git ls-remote\<close> and \<open>gh pr view\<close> commands: the store, the ledger, the notifications and the git manager's
  own state are untouched, whatever git and gh answer.
\<close>

theorem plans_read_only:
  "surveys (oe_git env) w (snd (plan_rerun env tid continue force reset_budget from w))
   \<and> surveys (oe_git env) w (snd (plan_finalize env tid declared url verify w))
   \<and> surveys (oe_git env) w (snd (plan_merge env tid verify w))
   \<and> surveys (oe_git env) w (snd (sync_external_merges env False w))"
proof -
  have "over (surveys (oe_git env)) (sync_external_merges env False)"
    unfolding sync_external_merges_def by (intro survey_rules survey_sync_each)
  then show ?thesis using survey_rerun survey_finalize survey_merge unfolding over_def by blast
qed

section \<open>Finalizing\<close>

named_theorems tidy_rules "operations that change no status, publish operation, ledger record or notification"

definition tidies :: "'r orch_world \<Rightarrow> 'r orch_world \<Rightarrow> bool" where
  "tidies w w' =
     (quiet w w' \<and> same_status w w' \<and> db_publish_operations (ow_db w') = db_publish_operations (ow_db w))"

interpretation tidied: steady tidies
  by unfold_locales (auto simp: tidies_def quiet_def same_status_def)

lemmas [tidy_rules] = tidied.over_ret tidied.over_raise tidied.over_ask tidied.over_bind over_if [where R = tidies]
  over_let [where R = tidies] over_option [where R = tidies] over_sum [where R = tidies] over_pair [where R = tidies]

lemma tidy_git [tidy_rules]: "git_over same_store m \<Longrightarrow> over tidies (via_git env m)"
  unfolding over_def
proof (intro allI)
  fix w :: "'a orch_world"
  assume "git_over same_store m"
  then have "gw_db (snd (m (ow_git w))) = gw_db (ow_git w)" by (simp add: git_over_def same_store_def)
  then show "tidies w (snd (via_git env m w))"
    by (auto simp: via_git_def tidies_def quiet_def same_status_def ow_db_def split: prod.splits sum.splits)
qed

lemma update_leaves_publish: "db_publish_operations (update_task now tid flds d) = db_publish_operations d"
  by (simp add: update_task_def)

lemma tidy_row [tidy_rules]: "list_all keeps_status flds \<Longrightarrow> over tidies (update_row env tid flds)"
  by (simp add: over_def update_row_def in_db_def ochange_def tidies_def quiet_def same_status_def ow_db_def update_keeps_status
      update_leaves_publish)

lemma tidy_clone [tidy_rules]: "over tidies (in_clone h)"
  by (simp add: over_def in_clone_def ochange_def tidies_def quiet_def same_status_def ow_db_def)

lemma tidy_counters [tidy_rules]: "over tidies (in_db (save_counters now tid c))"
  by (simp add: over_def in_db_def ochange_def tidies_def quiet_def same_status_def ow_db_def save_counters_def
      update_keeps_status keeps_status_def keeps_id_def update_leaves_publish)

lemma tidy_refs [tidy_rules]: "over tidies (in_db (append_quarantine_ref now tid ref))"
  using status_refs [of now tid ref]
  by (auto simp: over_def in_db_def ochange_def tidies_def quiet_def ow_db_def append_quarantine_ref_def update_leaves_publish
      split: option.splits)

lemma bills_leave_tasks: "db_tasks (fold (bill_aborted tid now) runs d) = db_tasks d \<and>
    db_publish_operations (fold (bill_aborted tid now) runs d) = db_publish_operations d"
  by (induction runs arbitrary: d) (simp_all add: bill_aborted_def record_provider_attempt_def split: option.split)

lemma closing_leaves_tasks: "db_tasks (close_open_runs now tid why d) = db_tasks d"
    "db_publish_operations (close_open_runs now tid why d) = db_publish_operations d"
  by (auto simp: close_open_runs_def reconcile_open_node_runs_def Let_def bills_leave_tasks)

lemma tidy_runs [tidy_rules]: "over tidies (in_db (close_open_runs now tid why))"
  by (simp add: over_def in_db_def ochange_def tidies_def quiet_def same_status_def ow_db_def get_task_def closing_leaves_tasks)

lemma tidy_fields [tidy_rules]: "list_all keeps_status
    [tk_cleanup_target_branch_update a, tk_cleanup_completed_update b, tk_cleanup_completed_at_update c, tk_cleanup_last_error_update e,
     tk_finished_at_update f]"
  "list_all keeps_status [tk_cleanup_target_branch_update a, tk_cleanup_completed_update b, tk_cleanup_last_error_update e]"
  by (simp_all add: keeps_status_def keeps_id_def)

lemma tidy_exchange [tidy_rules]: "over tidies (seal_terminal_exchange env tid final n b)" "over tidies (evict_run_artifacts env tid final)"
  unfolding seal_terminal_exchange_def evict_run_artifacts_def by (intro tidy_rules status_fields)+

lemma tidy_specs [tidy_rules]: "over tidies (relocate_subtask_specs env refs a b)"
  by (induction refs) (auto intro!: tidy_rules split: option.split simp del: if_split)

lemma tidy_files [tidy_rules]: "over tidies (relocate_task_file env path tid final)" "over tidies (finalize_files env tid row final message)"
proof -
  show relocate: "over tidies (relocate_task_file env path tid final)" for path tid
    unfolding relocate_task_file_def by (intro tidy_rules status_fields)
  show "over tidies (finalize_files env tid row final message)"
    unfolding finalize_files_def by (intro tidy_rules relocate)
qed

text \<open>The status of one task, and of no other.\<close>

definition restatus :: "string \<Rightarrow> status \<Rightarrow> 'r orch_world \<Rightarrow> 'r orch_world \<Rightarrow> bool" where
  "restatus tid st w w' =
     (\<forall>t. map_option tk_status (get_task t (ow_db w')) =
          map_option (\<lambda>r. if t = tid then st else tk_status r) (get_task t (ow_db w)))"

lemma set_status_effect: "restatus tid st w (ow_git_update (gw_db_update (set_status now tid st)) w)"
  by (simp add: restatus_def ow_db_def set_status_def get_task_update keeps_id_def option.map_comp comp_def)

lemma restatus_around:
  assumes "same_status u v" and "restatus tid st v w" and "same_status w x"
  shows "restatus tid st u x"
  unfolding restatus_def
proof (intro allI)
  fix t
  have "map_option tk_status (get_task t (ow_db x)) = map_option (\<lambda>r. if t = tid then st else tk_status r) (get_task t (ow_db v))"
    using assms(2,3) by (simp add: restatus_def same_status_def)
  also have "\<dots> = map_option (\<lambda>s. if t = tid then st else s) (map_option tk_status (get_task t (ow_db v)))"
    by (simp add: option.map_comp comp_def)
  also have "\<dots> = map_option (\<lambda>s. if t = tid then st else s) (map_option tk_status (get_task t (ow_db u)))"
    using assms(1) by (simp add: same_status_def)
  finally show "map_option tk_status (get_task t (ow_db x)) = map_option (\<lambda>r. if t = tid then st else tk_status r) (get_task t (ow_db u))"
    by (simp add: option.map_comp comp_def)
qed

text \<open>Operations that never raise.\<close>

definition returns :: "('r, 'a) orch_m \<Rightarrow> bool" where
  "returns m = (\<forall>w. \<exists>x w'. m w = (Inr x, w'))"

lemma returnsD: "returns m \<Longrightarrow> \<exists>x w'. m w = (Inr x, w')"
  by (simp add: returns_def)

lemma returns_leaf: "returns (oret x)" "returns (oask g)" "returns (ochange h)" "returns (in_clone c)" "returns (in_db d)"
  "returns (update_row env tid flds)"
  by (simp_all add: returns_def oret_def oask_def ochange_def in_clone_def in_db_def update_row_def)

lemma returns_bind: "returns m \<Longrightarrow> (\<And>x. returns (f x)) \<Longrightarrow> returns (obind m f)"
  unfolding returns_def obind_def by (metis (no_types, lifting) prod.case sum.simps(6))

lemma returns_cases:
  "(b \<Longrightarrow> returns m) \<Longrightarrow> (\<not> b \<Longrightarrow> returns n) \<Longrightarrow> returns (if b then m else n)"
  "returns (f x) \<Longrightarrow> returns (Let x f)"
  "(v = None \<Longrightarrow> returns m) \<Longrightarrow> (\<And>x. v = Some x \<Longrightarrow> returns (f x)) \<Longrightarrow> returns (case v of None \<Rightarrow> m | Some x \<Rightarrow> f x)"
  "(\<And>x. u = Inl x \<Longrightarrow> returns (g x)) \<Longrightarrow> (\<And>x. u = Inr x \<Longrightarrow> returns (h x)) \<Longrightarrow> returns (case u of Inl x \<Rightarrow> g x | Inr x \<Rightarrow> h x)"
  "(\<And>x y. p = (x, y) \<Longrightarrow> returns (k x y)) \<Longrightarrow> returns (case p of (x, y) \<Rightarrow> k x y)"
  by (simp_all split: option.split sum.split prod.split)

lemmas returns_rules = returns_leaf returns_bind returns_cases

lemma specs_return: "returns (relocate_subtask_specs env refs a b)"
  by (induction refs) (auto intro!: returns_rules split: option.split simp del: if_split)

lemma files_return: "returns (finalize_files env tid row final message)"
  unfolding finalize_files_def seal_terminal_exchange_def evict_run_artifacts_def relocate_task_file_def
  by (intro returns_rules specs_return)

text \<open>What a finalize changes once it goes through: the status of its task, and neither the ledger nor a notification yet.\<close>

definition declared_as :: "string \<Rightarrow> status \<Rightarrow> 'r orch_world \<Rightarrow> 'r orch_world \<Rightarrow> bool" where
  "declared_as tid st w w' =
     (quiet w w' \<and> restatus tid st w w' \<and> db_publish_operations (ow_db w') = db_publish_operations (ow_db w))"

lemma declared_around: "tidies u v \<Longrightarrow> declared_as tid st v w \<Longrightarrow> tidies w x \<Longrightarrow> declared_as tid st u x"
  using restatus_around [of u v tid st w x] by (auto simp: tidies_def declared_as_def quiet_def)

lemma finalize_rest_ends:
  "case finalize_rest env tid row declared url message delete target w of
     (Inl e, w') \<Rightarrow> tidies w w' \<or> delete \<and> declared_as tid declared w w'
   | (Inr r, w') \<Rightarrow> r = (plain_result tid declared)\<lparr>rs_pr_url := url\<rparr>
       \<and> (\<exists>v. declared_as tid declared w v \<and> w' = ow_ledger_update (ledger_append (finalize_record env row declared url message)) v)"
proof -
  let ?cols = "update_row env tid
       [tk_cleanup_target_branch_update (\<lambda>_. Some target), tk_cleanup_completed_update (\<lambda>_. Some True),
        tk_cleanup_completed_at_update (\<lambda>_. Some (oe_now env)), tk_cleanup_last_error_update (\<lambda>_. message),
        tk_finished_at_update (\<lambda>_. Some (oe_now env))]"
  let ?mirror = "\<lambda>found. case found of None \<Rightarrow> oret () | Some rs \<Rightarrow> in_db (save_counters (oe_now env) tid (from_run_state rs))"
  let ?drop = "if delete \<and> or_empty (tk_branch row) \<noteq> []
       then obind (via_git env (delete_branch (oe_git env) (or_empty (tk_branch row)))) (\<lambda>_. oret ()) else oret ()"
  have cols: "over tidies ?cols" and mirror: "over tidies (?mirror f)" and drop: "over tidies ?drop" for f
    by (intro tidy_rules store_rules)+
  obtain x1 w1 where s1: "?cols w = (Inr x1, w1)" using returnsD [OF returns_leaf(6)] by blast
  have t1: "tidies w w1" by (rule overD [OF cols s1])
  show ?thesis
  proof (cases "hydrate_run_state tid (ow_db w1)")
    case (Inl e)
    with s1 t1 show ?thesis by (simp add: finalize_rest_def obind_def oask_def oraise_def)
  next
    case (Inr found)
    have "returns (?mirror found)" by (intro returns_rules)
    from returnsD [OF this] obtain x2 w2 where s2: "?mirror found w1 = (Inr x2, w2)" by blast
    define w3 where "w3 = ow_git_update (gw_db_update (set_status (oe_now env) tid declared)) w2"
    have set: "in_db (set_status (oe_now env) tid declared) w2 = (Inr (), w3)"
      by (simp add: in_db_def ochange_def w3_def)
    have t2: "tidies w1 w2" by (rule overD [OF mirror s2])
    have d3: "declared_as tid declared w2 w3"
      using set_status_effect [of tid declared w2 "oe_now env"]
      by (simp add: declared_as_def w3_def quiet_def ow_db_def set_status_def update_leaves_publish)
    obtain x4 w4 where s4: "finalize_files env tid row declared message w3 = (Inr x4, w4)"
      using returnsD [OF files_return] by blast
    have t4: "tidies w3 w4" by (rule overD [OF tidy_files(2) s4])
    obtain r5 w5 where s5: "?drop w4 = (r5, w5)" by (cases "?drop w4")
    have d5: "declared_as tid declared w w5"
      using declared_around [OF tidied.trans [OF t1 t2] d3 tidied.trans [OF t4 overD [OF drop s5]]] .
    have run: "finalize_rest env tid row declared url message delete target w =
        (case r5 of Inl e \<Rightarrow> (Inl e, w5)
         | Inr _ \<Rightarrow> (Inr ((plain_result tid declared)\<lparr>rs_pr_url := url\<rparr>),
                    ow_ledger_update (ledger_append (finalize_record env row declared url message)) w5))"
      unfolding finalize_rest_def
      by (simp only: obind_def s1 s2 prod.case sum.case Inr oask_def set s4 s5)
         (simp add: to_ledger_def ochange_def oret_def split: sum.split)
    have "\<exists>e. r5 = Inl e \<Longrightarrow> delete" using s5 by (auto simp: oret_def split: if_splits)
    with run d5 show ?thesis by (cases r5) auto
  qed
qed

text \<open>The commands of a finalize: probes, the checkout of the base branch, the deletion of a local branch.\<close>

definition restores :: "'r git_env \<Rightarrow> string list \<Rightarrow> bool" where
  "restores genv argv =
     (take 2 argv \<in> {[''git'', ''status''], [''git'', ''config''], [''git'', ''rev-parse'']}
      \<or> argv = [''git'', ''checkout'', ge_base_branch genv] \<or> take 3 argv = [''git'', ''branch'', ''-D''])"

lemma issues_restores:
  "issues (restores genv) (terminal_cleanup genv mode own)" "issues (restores genv) (delete_branch genv b)"
  unfolding terminal_cleanup_def stay_on_branch_def current_branch_def unaccounted_dirty_paths_def untrusted_config_programs_def
    delete_branch_def branch_exists_def
  by (intro issue_rules; simp add: restores_def)+

lemma launch_finalize_files: "over (launches P) (finalize_files env tid row final message)"
  unfolding finalize_files_def by (intro launch_rules)

lemma launch_finalize: "over (launches (restores (oe_git env))) (finalize_task env tid declared url message delete)"
  unfolding finalize_task_def known_task_def finalize_rest_def
  by (intro launch_rules launch_finalize_files issues_restores)

text \<open>An operator's ending: one manual record of the declared status, no notification, no other task's status.\<close>

definition finalized :: "string \<Rightarrow> status \<Rightarrow> string option \<Rightarrow> pipeline_result \<Rightarrow> 'r orch_world \<Rightarrow> 'r orch_world \<Rightarrow> bool" where
  "finalized tid declared url r w w' =
     (rs_task_id r = tid \<and> rs_status r = declared \<and> rs_pr_url r = url
      \<and> (\<exists>rec. ow_ledger w' = ow_ledger w @ [rec] \<and> recorded_end r rec \<and> lg_manual rec)
      \<and> ow_notified w' = ow_notified w \<and> get_task tid (ow_db w) \<noteq> None \<and> restatus tid declared w w'
      \<and> db_publish_operations (ow_db w') = db_publish_operations (ow_db w))"

lemma row_of_task: "get_task tid d = Some row \<Longrightarrow> tk_task_id row = tid"
  unfolding get_task_def select_row_def by (auto simp: find_Some_iff)

lemma finalize_ends:
  "case finalize_task env tid declared url message delete w of
     (Inl e, w') \<Rightarrow> tidies w w' \<or> delete \<and> declared_as tid declared w w'
   | (Inr r, w') \<Rightarrow> finalized tid declared url r w w'"
proof (cases "get_task tid (ow_db w)")
  case None
  then show ?thesis by (simp add: finalize_task_def known_task_def obind_def oask_def oraise_def tidied.refl)
next
  case (Some row)
  let ?mode = "persisted_branch_mode env tid (ow_clone w)"
  obtain r1 w1 where s1: "via_git env (terminal_cleanup (oe_git env) ?mode False) w = (r1, w1)"
    by (cases "via_git env (terminal_cleanup (oe_git env) ?mode False) w")
  have t1: "tidies w w1" by (rule overD [OF tidy_git [OF store_cleanup(1)] s1])
  have run: "finalize_task env tid declared url message delete w =
      (case r1 of Inl e \<Rightarrow> (Inl e, w1)
       | Inr c \<Rightarrow> (if \<not> co_safe c
           then obind (update_row env tid
                  [tk_cleanup_target_branch_update (\<lambda>_. Some (co_target_branch c)), tk_cleanup_completed_update (\<lambda>_. Some False),
                   tk_cleanup_last_error_update (\<lambda>_. co_error c)]) (\<lambda>_.
                oraise (PipelineFailed (''finalize blocked: '' @ or_empty (co_error c))))
           else finalize_rest env tid row declared url message delete (co_target_branch c)) w1)"
    by (simp add: finalize_task_def known_task_def obind_def oask_def oret_def Some s1 split: sum.split)
  have blocked: "tidies w1 (snd (obind (update_row env tid
      [tk_cleanup_target_branch_update (\<lambda>_. Some b), tk_cleanup_completed_update (\<lambda>_. Some False),
       tk_cleanup_last_error_update (\<lambda>_. why)]) (\<lambda>_. oraise e) w1))" for b why e
    by (rule over_def [THEN iffD1, THEN spec]) (intro tidy_rules)
  show ?thesis
  proof (cases r1)
    case (Inl e)
    with run t1 show ?thesis by simp
  next
    case (Inr c)
    show ?thesis
    proof (cases "co_safe c")
      case False
      with run Inr tidied.trans [OF t1 blocked] show ?thesis
        by (simp add: obind_def oraise_def update_row_def in_db_def ochange_def)
    next
      case True
      obtain r2 w2 where s2: "finalize_rest env tid row declared url message delete (co_target_branch c) w1 = (r2, w2)"
        by (cases "finalize_rest env tid row declared url message delete (co_target_branch c) w1")
      have all: "finalize_task env tid declared url message delete w = (r2, w2)" using run Inr True s2 by simp
      note ends = finalize_rest_ends [where env = env and tid = tid and row = row and declared = declared and url = url and message = message
          and delete = delete and target = "co_target_branch c" and w = w1, unfolded s2 prod.case]
      show ?thesis
      proof (cases r2)
        case (Inl e)
        with ends t1 all tidied.trans [OF t1] declared_around [OF t1 _ tidied.refl] show ?thesis by auto
      next
        case (Inr r)
        with ends obtain v where r: "r = (plain_result tid declared)\<lparr>rs_pr_url := url\<rparr>" and v: "declared_as tid declared w1 v"
          and w2: "w2 = ow_ledger_update (ledger_append (finalize_record env row declared url message)) v" by auto
        from declared_around [OF t1 v tidied.refl] have d: "declared_as tid declared w v" .
        with row_of_task [OF Some] Some show ?thesis
          by (simp add: all Inr r w2 finalized_def declared_as_def quiet_def restatus_def ow_db_def ledger_append_def finalize_record_def
              recorded_end_def blank_record_def plain_result_def)
      qed
    qed
  qed
qed

text \<open>
  C13. Finalizing a task by hand is all or nothing: without \<open>--delete-branch\<close> an error leaves every status,
  the ledger, the notifications and the publish operations as they were (with it, the status of the task may be set and
  nothing recorded yet); a result comes with exactly one manual ledger record of the declared status,
  no notification, and the status of no other task changed.  Either way it launches nothing but probes, the checkout
  of the base branch and the deletion of a local branch: no commit, no push, no pull request.
\<close>

theorem finalize_all_or_nothing:
  "(case finalize_task env tid declared url message delete w of
      (Inl e, w') \<Rightarrow> tidies w w' \<or> delete \<and> declared_as tid declared w w'
    | (Inr r, w') \<Rightarrow> finalized tid declared url r w w')
   \<and> launches (restores (oe_git env)) w (snd (finalize_task env tid declared url message delete w))"
  by (rule conjI [OF finalize_ends spec [OF launch_finalize [unfolded over_def]]])

text \<open>A branch git refuses to delete leaves the task with its new status and no record of it.\<close>

definition stuck_branch_run :: "string list \<Rightarrow> nat \<Rightarrow> git_result \<times> nat" where
  "stuck_branch_run argv n = (if ''-D'' \<in> set argv then (GitProps.answer 1 [], n) else calm_run argv n)"

definition stuck_branch :: "nat orch_env" where
  "stuck_branch = demo_orch\<lparr>oe_git := calm_git\<lparr>ge_run := stuck_branch_run\<rparr>\<rparr>"

lemma branch_deletion_leaves_unrecorded:
  "case finalize_task stuck_branch ''t1'' FAILED None None True (demo_orch_world (demo_rows demo_task_row)) of
     (Inl e, w') \<Rightarrow> ow_ledger w' = [] \<and> map_option tk_status (get_task ''t1'' (ow_db w')) = Some FAILED
   | (Inr r, w') \<Rightarrow> False"
  by code_simp

section \<open>Merging\<close>

definition answers :: "'r git_env \<Rightarrow> string list \<Rightarrow> 'r \<Rightarrow> git_result \<times> 'r" where
  "answers genv argv r = ge_run genv (pinned_argv (ge_launch genv) (harden_git_argv (ge_null_hooks genv) argv)) r"

definition mid_merge :: "'r git_env \<Rightarrow> 'r \<Rightarrow> bool" where
  "mid_merge genv r = gr_ok (fst (answers genv [''git'', ''rev-parse'', ''-q'', ''--verify'', ''MERGE_HEAD''] r))"

text \<open>What git documents: asking for the merge head changes nothing about it, and \<open>merge --abort\<close> ends a merge.\<close>

definition probe_keeps_merge :: "'r git_env \<Rightarrow> bool" where
  "probe_keeps_merge genv =
     (\<forall>r. mid_merge genv (snd (answers genv [''git'', ''rev-parse'', ''-q'', ''--verify'', ''MERGE_HEAD''] r)) = mid_merge genv r)"

definition abort_ends_merge :: "'r git_env \<Rightarrow> bool" where
  "abort_ends_merge genv = (\<forall>r. mid_merge genv r \<longrightarrow> \<not> mid_merge genv (snd (answers genv [''git'', ''merge'', ''--abort''] r)))"

definition no_merge :: "'r orch_env \<Rightarrow> 'r orch_world \<Rightarrow> bool" where
  "no_merge env w = (\<not> mid_merge (oe_git env) (ow_clone w))"

lemma git_answers: "git genv args g =
    (Inr (fst (answers genv (''git'' # args) (gw_repo g))),
     g\<lparr>gw_repo := snd (answers genv (''git'' # args) (gw_repo g)), gw_calls := gw_calls g @ [''git'' # args]\<rparr>)"
  by (simp add: git_def run_cmd_def answers_def split: prod.split)

lemma abort_leaves_none:
  assumes "probe_keeps_merge genv" and "abort_ends_merge genv"
  shows "\<exists>g'. merge_abort genv g = (Inr (), g') \<and> \<not> mid_merge genv (gw_repo g')"
  using assms
  by (simp add: merge_abort_def merge_in_progress_def bind_m_def git_answers ret_def when_m_def probe_keeps_merge_def abort_ends_merge_def)
     (simp add: mid_merge_def)

lemma abort_step:
  assumes "probe_keeps_merge (oe_git env)" and "abort_ends_merge (oe_git env)"
  shows "\<exists>w'. via_git env (merge_abort (oe_git env)) w = (Inr (), w') \<and> no_merge env w'"
  using abort_leaves_none [OF assms, of "ow_git w"] by (auto simp: via_git_def no_merge_def ow_clone_def)

lemma aborting_ends:
  assumes "probe_keeps_merge (oe_git env)" and "abort_ends_merge (oe_git env)"
    and "aborting env m w = (Inl e, w')"
  shows "no_merge env w'"
proof -
  from assms(3) obtain x v where "m w = (Inl x, v)"
    by (auto simp: aborting_def ocatch_def split: prod.splits sum.splits)
  with assms(3) abort_step [OF assms(1,2), of v] show ?thesis
    by (auto simp: aborting_def ocatch_def obind_def oraise_def split: orch_error.splits)
qed

lemma aborting_returns: "aborting env m w = (Inr x, w') \<Longrightarrow> m w = (Inr x, w')"
  by (auto simp: aborting_def ocatch_def obind_def oraise_def split: prod.splits sum.splits orch_error.splits)

lemma obind_returns: "obind m f w = (Inr y, w') \<Longrightarrow> \<exists>x v. m w = (Inr x, v) \<and> f x v = (Inr y, w')"
  by (auto simp: obind_def split: prod.splits sum.splits)

lemma bind_returns: "bind_m m f g = (Inr y, g') \<Longrightarrow> \<exists>x h. m g = (Inr x, h) \<and> f x h = (Inr y, g')"
  by (auto simp: bind_m_def split: prod.splits sum.splits)

lemma via_git_returns: "via_git env m w = (Inr x, w') \<Longrightarrow> m (ow_git w) = (Inr x, ow_git w')"
  by (auto simp: via_git_def split: prod.splits sum.splits)

lemma merge_pr_records:
  assumes "url \<noteq> []" and "merge_pr genv tid url strategy wait subject body g = (Inr x, g')"
  shows "merge_recorded tid (gw_db g')"
proof (cases "completed_op tid KIND_PR_MERGE None (gw_db g)")
  case (Some p)
  with assms show ?thesis by (auto simp: merge_pr_def bind_m_def read_db_def ask_def ret_def merge_recorded_def)
next
  case None
  with assms show ?thesis
    by (auto simp: merge_pr_def bind_m_def read_db_def ask_def ret_def raise_def Let_def split: prod.splits sum.splits if_splits
        dest!: record_merge_only(2))
qed

lemma merge_steps_record:
  assumes "url \<noteq> []" and "merge_steps env row branch url strategy wait resolve w = (Inr (), w')"
  shows "merge_recorded (tk_task_id row) (ow_db w')"
proof -
  from assms(2) obtain body x v where "via_git env (merge_pr (oe_git env) (tk_task_id row) url strategy wait body (Some [])) v = (Inr x, w')"
    unfolding merge_steps_def Let_def by (auto simp: oret_def dest!: obind_returns)
  from merge_pr_records [OF assms(1) via_git_returns [OF this]] show ?thesis by (simp add: ow_db_def)
qed

lemma same_ops_recorded:
  "db_publish_operations d' = db_publish_operations d \<Longrightarrow> merge_recorded tid d' = merge_recorded tid d"
  by (simp add: merge_recorded_def completed_op_def get_publish_op_def)

lemma merge_finalize_keeps:
  assumes "merge_recorded tid (ow_db w)" and "merge_finalize env row url w = (r, w')"
  shows "merge_recorded tid (ow_db w')"
proof -
  have "db_publish_operations (ow_db w') = db_publish_operations (ow_db w)"
    using finalize_ends [where env = env and tid = "tk_task_id row" and declared = DONE and url = "Some url"
        and message = "Some ''merged via merge-task''" and delete = False and w = w] assms(2)
    by (auto simp: merge_finalize_def oret_def tidies_def declared_as_def finalized_def split: if_splits sum.splits)
  with assms(1) same_ops_recorded show ?thesis by blast
qed

lemma probe_launches: "over (launches surveying) (via_git env (verify_pr_state genv u))"
  unfolding verify_pr_state_def gh_def by (intro launch_rules issue_rules) (simp add: surveying_def)

lemma declare_launches: "over (launches P) (declare_private_report_dir env p)"
  unfolding declare_private_report_dir_def set_private_report_dir_def
  by (intro launch_rules issue_rules) simp

text \<open>How a merge command may end.\<close>

definition merge_outcome :: "'r orch_env \<Rightarrow> string \<Rightarrow> 'r orch_world \<Rightarrow> orch_error + pipeline_result \<Rightarrow> 'r orch_world \<Rightarrow> bool" where
  "merge_outcome env tid w r w' =
     (case r of
        Inr _ \<Rightarrow> merge_recorded tid (ow_db w')
      | Inl _ \<Rightarrow> launches surveying w w' \<or> no_merge env w' \<or> merge_recorded tid (ow_db w'))"

lemma merged_already:
  assumes "launches surveying w w1"
    and "obind (via_git env (record_external_merge (oe_git env) tid url)) (\<lambda>_. merge_finalize env row url) w1 = (r, w')"
  shows "merge_outcome env tid w r w'"
proof -
  obtain x w2 where s: "via_git env (record_external_merge (oe_git env) tid url) w1 = (x, w2)"
    by (cases "via_git env (record_external_merge (oe_git env) tid url) w1")
  have "issues surveying (record_external_merge (oe_git env) tid url)"
    unfolding record_external_merge_def record_completed_def advance_gate_reference_def by (intro issue_rules)
  from launched.trans [OF assms(1) overD [OF launch_git [OF this] s]] have l: "launches surveying w w2" .
  show ?thesis
  proof (cases x)
    case (Inl e)
    with s assms(2) l show ?thesis by (auto simp: obind_def merge_outcome_def)
  next
    case (Inr u)
    from via_git_returns [OF s [unfolded Inr]] external_merge_only(2) have "merge_recorded tid (ow_db w2)"
      unfolding ow_db_def by blast
    moreover have "merge_finalize env row url w2 = (r, w')" using s Inr assms(2) by (simp add: obind_def)
    ultimately have "merge_recorded tid (ow_db w')" by (rule merge_finalize_keeps)
    then show ?thesis by (simp add: merge_outcome_def split: sum.split)
  qed
qed

lemma merge_attempt:
  assumes "probe_keeps_merge (oe_git env)" and "abort_ends_merge (oe_git env)"
    and "launches surveying w w1" and "url \<noteq> []" and "tk_task_id row = tid"
    and run: "obind (declare_private_report_dir env p) (\<lambda>_.
      obind (via_git env (merge_abort (oe_git env))) (\<lambda>_.
      obind (aborting env (merge_steps env row branch url strategy wait resolve)) (\<lambda>_. merge_finalize env row url))) w1 = (r, w')"
  shows "merge_outcome env tid w r w'"
proof -
  obtain x w2 where s2: "declare_private_report_dir env p w1 = (x, w2)" by (cases "declare_private_report_dir env p w1")
  have l: "launches surveying w w2" by (rule launched.trans [OF assms(3) overD [OF declare_launches s2]])
  show ?thesis
  proof (cases x)
    case (Inl e)
    with s2 run l show ?thesis by (auto simp: obind_def merge_outcome_def)
  next
    case (Inr u)
    obtain w3 where s3: "via_git env (merge_abort (oe_git env)) w2 = (Inr (), w3)" using abort_step [OF assms(1,2)] by blast
    obtain y w4 where s4: "aborting env (merge_steps env row branch url strategy wait resolve) w3 = (y, w4)"
      by (cases "aborting env (merge_steps env row branch url strategy wait resolve) w3")
    have rest: "(case y of Inl e \<Rightarrow> (Inl e, w4) | Inr _ \<Rightarrow> merge_finalize env row url w4) = (r, w')"
      using run by (simp add: obind_def s2 Inr s3 s4 split: sum.splits)
    show ?thesis
    proof (cases y)
      case (Inl e)
      with rest aborting_ends [OF assms(1,2)] s4 show ?thesis by (auto simp: merge_outcome_def)
    next
      case (Inr v)
      from merge_steps_record [OF assms(4), of env row branch strategy wait resolve w3 w4] aborting_returns s4 Inr assms(5)
      have "merge_recorded tid (ow_db w4)" by auto
      from merge_finalize_keeps [OF this, of env row url r w'] rest Inr have "merge_recorded tid (ow_db w')" by simp
      then show ?thesis by (simp add: merge_outcome_def split: sum.split)
    qed
  qed
qed

lemma early_end: "launches surveying w w' \<Longrightarrow> merge_outcome env tid w (Inl e) w'"
  by (simp add: merge_outcome_def)

lemma merge_ends:
  assumes "probe_keeps_merge (oe_git env)" and "abort_ends_merge (oe_git env)" and "recorded_pr_url tid (ow_db w) \<noteq> Some []"
    and "merge_task_op env tid strategy wait resolve w = (r, w')"
  shows "merge_outcome env tid w r w'"
proof (cases "get_task tid (ow_db w)")
  case None
  with assms(4) early_end [OF launched.refl] show ?thesis
    by (auto simp: merge_task_op_def known_task_def obind_def oask_def oraise_def)
next
  case (Some row)
  show ?thesis
  proof (cases "acquire_slot tid (ow_db w) \<and> recorded_pr_url tid (ow_db w) \<noteq> None")
    case False
    with assms(4) Some have "w' = w" "\<exists>e. r = Inl e"
      by (auto simp: merge_task_op_def known_task_def obind_def oask_def oraise_def oret_def split: if_splits)
    with early_end [OF launched.refl] show ?thesis by blast
  next
    case True
    then obtain url where url: "recorded_pr_url tid (ow_db w) = Some url" "url \<noteq> []" using assms(3) by auto
    obtain x w1 where s: "via_git env (verify_pr_state (oe_git env) url) w = (x, w1)"
      by (cases "via_git env (verify_pr_state (oe_git env) url) w")
    have l: "launches surveying w w1" by (rule overD [OF probe_launches s])
    show ?thesis
    proof (cases x)
      case (Inl e)
      with assms(4) Some True url s early_end [OF l] show ?thesis
        by (auto simp: merge_task_op_def known_task_def obind_def oask_def oret_def)
    next
      case (Inr state)
      consider "state = Some ''MERGED''" | "state \<noteq> Some ''MERGED''" "state = Some ''CLOSED'' \<or> or_empty (tk_branch row) = []"
        | "state \<noteq> Some ''MERGED''" "state \<noteq> Some ''CLOSED''" "or_empty (tk_branch row) \<noteq> []" by blast
      then show ?thesis
      proof cases
        case 1
        from assms(4) Some True url s Inr 1
        have "obind (via_git env (record_external_merge (oe_git env) tid url)) (\<lambda>_. merge_finalize env row url) w1 = (r, w')"
          by (simp add: merge_task_op_def known_task_def obind_def oask_def oret_def)
        from merged_already [OF l this] show ?thesis .
      next
        case 2
        with assms(4) Some True url s Inr have "w' = w1" "\<exists>e. r = Inl e"
          by (auto simp: merge_task_op_def known_task_def obind_def oask_def oret_def oraise_def split: if_splits)
        with early_end [OF l] show ?thesis by blast
      next
        case 3
        from assms(4) Some True url s Inr 3
        have "obind (declare_private_report_dir env (degraded_pipeline row (ow_db w1))) (\<lambda>_.
          obind (via_git env (merge_abort (oe_git env))) (\<lambda>_.
          obind (aborting env (merge_steps env row (or_empty (tk_branch row)) url strategy wait resolve)) (\<lambda>_.
          merge_finalize env row url))) w1 = (r, w')"
          by (simp add: merge_task_op_def known_task_def obind_def oask_def oret_def)
        from merge_attempt [OF assms(1,2) l url(2) row_of_task [OF Some] this] show ?thesis .
      qed
    qed
  qed
qed

text \<open>
  C12. \<open>merge-task\<close> is transactional: whatever fails and wherever, either nothing was launched but a look at the
  pull request, or no merge is in progress in the clone, or the merge of the pull request is on record; and a result
  means that it is on record, so that the tasks that depend on this one are released.
\<close>

theorem merge_is_transactional:
  assumes "probe_keeps_merge (oe_git env)" and "abort_ends_merge (oe_git env)" and "recorded_pr_url tid (ow_db w) \<noteq> Some []"
  shows "case merge_task_op env tid strategy wait resolve w of (r, w') \<Rightarrow> merge_outcome env tid w r w'"
  using merge_ends [OF assms] by (auto split: prod.split)

section \<open>Concrete merges\<close>

text \<open>A clone that is either mid-merge or not; a merge of the base conflicts.\<close>

definition conflict_run :: "string list \<Rightarrow> nat \<Rightarrow> git_result \<times> nat" where
  "conflict_run argv n =
     (if ''MERGE_HEAD'' \<in> set argv then (GitProps.answer (if n = 1 then 0 else 1) [], n)
      else if ''--abort'' \<in> set argv then (GitProps.answer 0 [], 0)
      else if ''--no-commit'' \<in> set argv then (GitProps.answer 1 [], 1)
      else (GitProps.answer 0 [], n))"

definition conflict_orch :: "nat orch_env" where
  "conflict_orch = demo_orch\<lparr>oe_git := calm_git\<lparr>ge_run := conflict_run\<rparr>\<rparr>"

definition merge_world :: "nat orch_world" where
  "merge_world = demo_orch_world (demo_ops [publish_of ''t1'' KIND_PR None ''work'' STATUS_COMPLETED (Some ''https://h/pull/7'') None])"

lemma conflict_hardening: "''MERGE_HEAD'' \<notin> set (hardening_prefix ''/h'')"
  by (simp add: hardening_prefix_def GIT_HARDENING_CONFIG_def)

lemma conflict_documented: "probe_keeps_merge (oe_git conflict_orch)" "abort_ends_merge (oe_git conflict_orch)"
  by (simp_all add: conflict_hardening probe_keeps_merge_def abort_ends_merge_def mid_merge_def answers_def conflict_orch_def calm_git_def demo_git_def
      conflict_run_def pinned_argv_def harden_git_argv_def GitProps.answer_def gr_ok_def)

lemma merge_is_transactional_witness:
  "(case merge_task_op conflict_orch ''t1'' SQUASH False False merge_world of
      (r, w') \<Rightarrow> merge_outcome conflict_orch ''t1'' merge_world r w' \<and> no_merge conflict_orch w' \<and>
        ''--abort'' \<in> set (concat (gw_calls (ow_git w'))))"
proof -
  have run: "recorded_pr_url ''t1'' (ow_db merge_world) \<noteq> Some [] \<and> (case merge_task_op conflict_orch ''t1'' SQUASH False False merge_world of
      (r, w') \<Rightarrow> no_merge conflict_orch w' \<and> ''--abort'' \<in> set (concat (gw_calls (ow_git w'))))"
    by code_simp
  show ?thesis
    using conjunct2 [OF run] merge_is_transactional [OF conflict_documented conjunct1 [OF run], of SQUASH False False]
    by (auto split: prod.split_asm)
qed

text \<open>
  The commit of a merge is recorded once per task.  A second \<open>merge-task\<close>, after the base moved and the first
  could not merge, finds that record, commits nothing, and goes on with the merge still in progress.
\<close>

lemma second_merge_not_committed:
  assumes "completed_op tid KIND_MERGE_COMMIT None (gw_db g) = Some p"
  shows "commit_merge_resolution genv tid msg g = (Inr (pb_result_ref p), g)"
  using assms by (simp add: commit_merge_resolution_def bind_m_def read_db_def ask_def ret_def)

section \<open>Continuing\<close>

definition counts :: "(string \<rightharpoonup> int) option \<Rightarrow> (string \<rightharpoonup> int)" where
  "counts cs = (case cs of None \<Rightarrow> Map.empty | Some c \<Rightarrow> c)"

definition lasting :: "string \<Rightarrow> bool" where
  "lasting key = (key = GLOBAL_FIX_KEY \<or> starts_with key TOTAL_PREFIX)"

lemma checkpoint_saved:
  assumes "get_task tid d \<noteq> None"
  shows "get_flow_checkpoint tid (save_flow_checkpoint now tid node cs fp n d) = Inr (node, Some cs, Some fp)"
  using assms by (auto simp: get_flow_checkpoint_def task_columns_def save_flow_checkpoint_def get_task_update keeps_id_def)

lemma checkpoint_after_counters: "get_flow_checkpoint tid (save_counters now t c d) = get_flow_checkpoint tid d"
  by (auto simp: get_flow_checkpoint_def task_columns_def save_counters_def get_task_update keeps_id_def split: option.split)

lemma checkpoint_after_reset:
  "record_rework_budget_reset now t d = Inr (eid, d') \<Longrightarrow> get_flow_checkpoint tid d' = get_flow_checkpoint tid d"
  by (auto simp: record_rework_budget_reset_def record_evaluation_def references_task_def res_iff Let_def get_flow_checkpoint_def
      task_columns_def get_task_def split: if_splits)

lemma grant_keeps_checkpoint:
  assumes "grant_budget env tid w = (Inr (), w')"
  shows "get_flow_checkpoint tid (ow_db w') = get_flow_checkpoint tid (ow_db w)"
  using assms checkpoint_after_reset checkpoint_after_counters
  by (auto simp: grant_budget_def obind_def oask_def oraise_def in_db_def ochange_def via_store_def ow_db_def split: sum.splits)

text \<open>The checkpoint a continuation resumes from.\<close>

lemma controls_checkpoint:
  assumes "get_flow_checkpoint tid (ow_db w) = Inr (Some node, counters, fp)"
    and "apply_continue_controls env tid node counters fp reset_budget from w = (Inr (), w')"
  shows "\<exists>cs fp'. get_flow_checkpoint tid (ow_db w') = Inr (Some (if or_empty from = [] then node else or_empty from), cs, fp')
       \<and> counts cs = (\<lambda>key. if reset_budget \<and> \<not> lasting key then None else counts counters key)"
proof -
  have row: "get_task tid (ow_db w) \<noteq> None"
    using assms(1) by (auto simp: get_flow_checkpoint_def task_columns_def split: option.splits)
  define baseline where "baseline = (case persisted_flow_snapshot env tid (ow_clone w) of None \<Rightarrow> or_empty fp | Some snap \<Rightarrow> snap_fingerprint snap)"
  show ?thesis
  proof (cases "\<not> reset_budget \<and> from = None \<and> baseline = or_empty fp")
    case True
    with assms(2) have "w' = w"
      by (simp add: apply_continue_controls_def obind_def oask_def oret_def baseline_def)
    with assms(1) True show ?thesis by (auto simp: or_empty_def)
  next
    case False
    define rs where "rs = patched_checkpoint node counters baseline reset_budget from"
    define v where "v = ow_git_update (gw_db_update (save_flow_checkpoint (oe_now env) tid (current_node rs) (loop_counters rs)
        (flow_fingerprint rs) (fix_iterations rs))) w"
    have "apply_continue_controls env tid node counters fp reset_budget from w =
        (if \<not> reset_budget \<and> from = None \<and> baseline = or_empty fp then oret ()
         else obind (in_db (save_flow_checkpoint (oe_now env) tid (current_node rs) (loop_counters rs) (flow_fingerprint rs)
                (fix_iterations rs))) (\<lambda>_. owhen reset_budget (grant_budget env tid))) w"
      unfolding apply_continue_controls_def obind_def oask_def prod.case sum.case Let_def baseline_def rs_def by (rule refl)
    with assms(2) False have "owhen reset_budget (grant_budget env tid) v = (Inr (), w')"
      by (simp add: obind_def in_db_def ochange_def v_def)
    then have kept: "get_flow_checkpoint tid (ow_db w') = get_flow_checkpoint tid (ow_db v)"
      using grant_keeps_checkpoint by (auto simp: owhen_def oret_def split: if_splits)
    have "get_flow_checkpoint tid (ow_db v) = Inr (current_node rs, Some (loop_counters rs), Some (flow_fingerprint rs))"
      using checkpoint_saved row by (simp add: v_def ow_db_def)
    moreover have "current_node rs = Some (if or_empty from = [] then node else or_empty from)"
      "loop_counters rs = (\<lambda>key. if reset_budget \<and> \<not> lasting key then None else counts counters key)"
      by (auto simp: rs_def patched_checkpoint_def reset_consecutive_fix_budget_def Let_def counts_def lasting_def)
    ultimately show ?thesis using kept by (simp add: counts_def)
  qed
qed

text \<open>
  C15. What \<open>rerun --continue\<close> resumes from: the node asked for or the one the checkpoint names, every loop counter
  kept, or with \<open>--reset-fix-budget\<close> every consecutive counter cleared; the global count and the totals
  stay in both cases, so the cap on all fix iterations of the task is exhausted after the grant exactly when
  it was before, however often a budget is granted.
\<close>

theorem grant_keeps_backstop:
  assumes "get_flow_checkpoint tid (ow_db w) = Inr (Some node, counters, fp)"
    and "apply_continue_controls env tid node counters fp reset_budget from w = (Inr (), w')"
  shows "\<exists>cs fp'. get_flow_checkpoint tid (ow_db w') = Inr (Some (if or_empty from = [] then node else or_empty from), cs, fp')
       \<and> (\<forall>key. counts cs key = (if reset_budget \<and> \<not> lasting key then None else counts counters key))
       \<and> (\<forall>bs cap. global_backstop_exhausted bs cap (counts cs) = global_backstop_exhausted bs cap (counts counters))"
proof -
  obtain cs fp' where cs: "get_flow_checkpoint tid (ow_db w') = Inr (Some (if or_empty from = [] then node else or_empty from), cs, fp')"
    "counts cs = (\<lambda>key. if reset_budget \<and> \<not> lasting key then None else counts counters key)"
    using controls_checkpoint [OF assms] by blast
  then show ?thesis by (auto simp: global_backstop_exhausted_def lasting_def)
qed

definition stalled_world :: "nat orch_world" where
  "stalled_world = demo_orch_world (save_flow_checkpoint ''now'' ''t1'' (Some ''review'')
     [''review'' \<mapsto> 3, GLOBAL_FIX_KEY \<mapsto> 5] ''fp'' 5 (demo_rows demo_task_row))"

lemma grant_keeps_backstop_witness:
  "\<exists>cs fp'. get_flow_checkpoint ''t1'' (ow_db (snd (apply_continue_controls demo_orch ''t1'' ''review''
        (Some [''review'' \<mapsto> 3, GLOBAL_FIX_KEY \<mapsto> 5]) (Some ''fp'') True None stalled_world))) = Inr (Some ''review'', cs, fp')
     \<and> counts cs ''review'' = None \<and> counts cs GLOBAL_FIX_KEY = Some 5
     \<and> global_backstop_exhausted Map.empty 5 (counts cs)"
proof -
  have c: "get_flow_checkpoint ''t1'' (ow_db stalled_world) =
      Inr (Some ''review'', Some [''review'' \<mapsto> 3, GLOBAL_FIX_KEY \<mapsto> 5], Some ''fp'')"
    using checkpoint_saved [of "''t1''" "demo_rows demo_task_row"]
    by (simp add: stalled_world_def demo_orch_world_def ow_db_def demo_rows_def get_task_insert demo_task_row_def)
  have run: "fst (apply_continue_controls demo_orch ''t1'' ''review''
      (Some [''review'' \<mapsto> 3, GLOBAL_FIX_KEY \<mapsto> 5]) (Some ''fp'') True None stalled_world) = Inr ()"
    by code_simp
  have keys: "\<not> lasting ''review''" "lasting GLOBAL_FIX_KEY" "GLOBAL_FIX_KEY \<noteq> ''review''"
    "global_cap Map.empty 5 \<le> 5"
    by (simp_all add: lasting_def GLOBAL_FIX_KEY_def TOTAL_PREFIX_def starts_with_def global_cap_def)
  from run obtain w' where "apply_continue_controls demo_orch ''t1'' ''review''
      (Some [''review'' \<mapsto> 3, GLOBAL_FIX_KEY \<mapsto> 5]) (Some ''fp'') True None stalled_world = (Inr (), w')"
    by (cases "apply_continue_controls demo_orch ''t1'' ''review''
      (Some [''review'' \<mapsto> 3, GLOBAL_FIX_KEY \<mapsto> 5]) (Some ''fp'') True None stalled_world") auto
  from grant_keeps_backstop [OF c this] this keys show ?thesis
    by (auto simp: or_empty_def counts_def global_backstop_exhausted_def)
qed

end
