(* ===== verification/Spec2Isabelle.thy ===== *)
theory Spec2Isabelle
  imports ValidatorLimits RouterProps StoreProps StoreSchema RecordedRuns NodeOverrides DecompositionProps TaskGateProps
    GitPublishProps SchedulerProps OperatorProps
begin

text \<open>
  A model of \<open>wastech-orchestrator\<close>, a daemon that takes task files from a folder, drives AI providers
  through a declared flow of nodes in a git clone, and publishes what they wrote.  Paths are relative to
  \<open>src/src/wastech_orchestrator/\<close>.  This root theory holds no definitions; the properties of each component
  stand in the theory that proves them.

  How the program works.  The watcher (\<open>cli.py\<close>) first resumes a task a crash or an outage left unfinished, then
  takes pending files in order, one at a time.  The orchestrator (\<open>core/orchestrator.py\<close>) passes a file through
  the validation gate, registers its row, prepares the branch with the git manager, freezes the flow and drives it with
  the flow engine.  The engine runs a node, records it, selects the edge its outcome declares and saves
  a checkpoint; a node runner asks the router for a provider, with fallback and retries.  At the end the orchestrator
  publishes (commit, audit commit, push, pull request, merge), restores the tree, writes the ledger and notifies.
  All durable state is in one SQLite file; recovery decides from it what a restart does.

  Theories and sources.
  \<^item> \<open>Prelude\<close>: results of fallible code (\<open>'e + 'a\<close>, \<open>Inl\<close> an error), strings as Python sees them, the graph
    search shared by loader, validator and scheduler, and machines that run on ticks.  \<open>PyValues\<close>: parsed YAML and
    JSON values and the built-ins applied to them.
  \<^item> \<open>TaskStates\<close>: \<open>core/state_machine.py\<close>.  \<open>Security\<close>: \<open>security/identifiers.py\<close>, \<open>profiles.py\<close>,
    \<open>forbidden_args.py\<close>, \<open>injection.py\<close>.
  \<^item> \<open>FlowSchema\<close>, \<open>FlowLoad\<close>: \<open>core/flow/contracts.py\<close>, \<open>schema.py\<close>, \<open>snapshot.py\<close>; \<open>FlowLoadCorrect\<close> and
    \<open>LoadedFlow\<close> their properties and a packaged flow.  \<open>FlowValidator\<close>: \<open>core/flow/validator.py\<close>, with
    \<open>Cadence\<close> and \<open>OutputPolicy\<close> for the tables it consults; \<open>ValidatorCorrect\<close> and \<open>ValidatorLimits\<close> what
    validation guarantees and what it lets through.
  \<^item> \<open>LoopControl\<close>, \<open>FlowEngine\<close>: \<open>core/loop_control.py\<close>, \<open>core/flow/run_state.py\<close>, \<open>core/flow/engine.py\<close>;
    \<open>EngineCorrect\<close> (one step, and termination), \<open>EngineRuns\<close> (whole runs), \<open>TranslateFlow\<close> (a run of a
    packaged flow).
  \<^item> \<open>Providers\<close>, \<open>Router\<close>: \<open>providers/base.py\<close>, \<open>core/infra_disposition.py\<close>, \<open>routing/router.py\<close>;
    \<open>RouterCorrect\<close>, \<open>RouterProps\<close>.
  \<^item> \<open>Tables\<close>, \<open>StateStore\<close>, \<open>StoreSchema\<close>: \<open>state_store.py\<close> as lists of rows, one record per table;
    \<open>StoreCorrect\<close>, \<open>StoreRefine\<close>, \<open>StoreProps\<close>.  \<open>Recorder\<close> (\<open>core/flow/recorder.py\<close>, \<open>ledger.py\<close>),
    \<open>RecordedRuns\<close> (engine and store together).
  \<^item> \<open>Decomposition\<close>, \<open>DecomposedRun\<close>, \<open>DecompositionProps\<close>: \<open>core/decomposition.py\<close>,
    \<open>core/flow/engine_driver.py\<close>, \<open>core/recovery.py\<close> and the fan-out over subtasks.  \<open>NodeOverrides\<close>:
    \<open>core/node_overrides.py\<close>.
  \<^item> \<open>TaskFile\<close>, \<open>TaskGate\<close>, \<open>TaskGateProps\<close>: \<open>task/parser.py\<close>, \<open>model.py\<close>, \<open>validation_gate.py\<close>.
    \<open>DiffGate\<close>: \<open>globmatch.py\<close>, the check selection and the dangerous-diff classification.
  \<^item> \<open>GitPaths\<close>, \<open>GitManager\<close>, \<open>GitPublish\<close>: \<open>git_manager.py\<close>; \<open>GitCommands\<close>, \<open>GitProps\<close>,
    \<open>GitPublishProps\<close>.
  \<^item> \<open>OrchWorld\<close>, \<open>OrchTerminal\<close>, \<open>OrchRun\<close>: a run in \<open>core/orchestrator.py\<close>, from claiming to the terminal
    transition, parking and recovery.  \<open>Scheduler\<close>: the order of files, dependencies, one pass and the
    loop of the watcher, promotion and the stop ladder (\<open>cli.py\<close>, \<open>core/orchestrator.py\<close>).  \<open>OperatorOps\<close>: rerun,
    continue, finalize, merge-task and prs --sync with their plans.  \<open>OrchLogic\<close>, \<open>OrchProps\<close>, \<open>SchedulerProps\<close>,
    \<open>OperatorProps\<close> their properties.

  State.  A component's state is a record and an operation a function to a result and the new state.  The git manager and
  the orchestrator are state monads with errors (\<open>git_m\<close>, \<open>orch_m\<close>): an operation keeps what it did before it
  raised.  A git world holds the database, the state of the clone (a type variable), the caches of the manager and every command
  line launched; an orchestrator world adds the ledger, the notifications and the run context.  The programs \<open>git\<close> and
  \<open>gh\<close> are one function from a command line and the state of the clone to an answer and a new state, so what is proved
  holds whatever they answer unless a hypothesis names documented behaviour (that \<open>merge --abort\<close> ends a merge).
  Exceptions are constructors of an error type per component; refusals that only print a sentence are constructors
  without it.

  What the groups of lemmas show.  The engine stops, charges what it follows and can be resumed from any
  checkpoint; a loaded flow is well formed, a validated one stays under the security ceiling and in its report directory; the
  router falls back only where allowed and accounts for every invocation; the store refines maps from keys to rows, keeps
  its invariants over any session, isolates tasks and survives schema changes; engine and store compose; splits are
  accepted by the documented rule and their subtasks committed once and in order; the gates admit what they promise; git is
  never told to force anything but a lease on the task's own commit, and each publication step happens once.  A
  run is accounted for once in ledger and notifications, touches no tree that is not proven quiescent, and is parked for
  a bounded time; the watcher takes files in a total order, respects dependencies and the operator's gate; operator
  commands plan without effect, and finalize and merge all or nothing.  Lemmas outside the properties show where
  the code departs from its documentation, on the model or on concrete runs.

  Techniques.  Locales state the shared contracts: counters (\<open>counter_store\<close>), keyed tables (\<open>keyed_table\<close>),
  orders by rank (\<open>rank_table\<close>), machines with a measure (\<open>bounded_machine\<close>) and preorders on worlds (\<open>steady\<close>,
  \<open>steady_git\<close>).  The last two carry the frame reasoning: a rule collection per frame (no record, no status change, only
  such commands) and one line per operation.

  Bounds and fuel.  \<open>engine_run\<close> consumes one tick of the environment (node answer, clock, fingerprint, stop flag) per
  iteration and \<open>None\<close> means the ticks ran out; \<open>engine_terminates\<close> computes how many are enough from the remaining global
  budget and the edges.  \<open>watch_loop\<close> consumes one pair of stop flags per tick of a daemon that need not end.  Every other
  recursion is structural or has a measure.  Python integers are \<open>int\<close> or \<open>nat\<close>; nothing in the code has a fixed width.
  Strings are lists of 8-bit characters: case folding and white space are those of ASCII, and one character stands for each
  non-ASCII punctuation mark the code prints.

  Parameters.  The YAML and JSON parsers, SHA-256, UTF-8 decoding, the clock, the file system under the clone and the
  artifact folders, the packet, bundle and exchange directories, the phases a flow runs inside an orchestrator run
  (instantiated by the engine model for the engine's own properties) and the merge flow.

  Not modelled.  The provider adapters (\<open>providers/claude.py\<close>, \<open>codex.py\<close> and what they share): they launch
  and parse external programs, and the router takes a provider as a function.  The supervisor, prompt assembly and report
  rendering, which produce text for a model to read.  Project memory, the exchange and the bundles, which are trees
  of files behind the parameters above.  The transports of questions and notifications, redaction, loading and
  validating \<open>config.yaml\<close>, the installer, argument parsing and printing, process markers, logging.  Of modelled
  components: prompt-variable checks of the validator, the control-state fingerprint and the diff snapshot of the git manager,
  the node runners beyond their recorded lifetime, the failure report as text.
\<close>

end
